(* ===== verification/Prelude.thy ===== *)
theory Prelude
  imports Complex_Main "HOL-Library.Multiset" "HOL-Library.AList" "HOL-Library.Log_Nat"
    "HOL-Library.Monad_Syntax"
begin

text \<open>
  What every theory of the development shares: the fact collections, the operators of the
  source language on optional values (a TypeScript field \<open>x?: T\<close>, a union with
  \<open>null\<close> or \<open>undefined\<close>, and an index read that may be out of range are all
  \<open>option\<close> values), array reads and slices with the bounds behaviour of JavaScript, the
  stable sort of arrays, and the generic reducer interface.
\<close>

named_theorems js_num_simps \<open>evaluation of the number operations\<close>
named_theorems js_str_simps \<open>evaluation of the string operations\<close>
named_theorems fmt_simps \<open>definitions of the formatting functions\<close>

section \<open>Optional values\<close>

text \<open>\<open>a ?? b\<close>: the left operand unless it is nullish.\<close>

definition nullish :: "'a option \<Rightarrow> 'a \<Rightarrow> 'a" where
  "nullish x d = (case x of None \<Rightarrow> d | Some v \<Rightarrow> v)"

lemma nullish_simps [simp]: "nullish None d = d" "nullish (Some v) d = v"
  by (simp_all add: nullish_def)

text \<open>\<open>a ?? b\<close> with a nullable right operand.\<close>

definition nullish2 :: "'a option \<Rightarrow> 'a option \<Rightarrow> 'a option" where
  "nullish2 x y = (case x of None \<Rightarrow> y | Some v \<Rightarrow> Some v)"

lemma nullish2_simps [simp]: "nullish2 None y = y" "nullish2 (Some v) y = Some v"
  by (simp_all add: nullish2_def)

section \<open>Arrays\<close>

text \<open>\<open>xs[i]\<close> for an array index: \<open>undefined\<close> (\<open>None\<close>) out of range.\<close>

definition arr_at :: "'a list \<Rightarrow> nat \<Rightarrow> 'a option" where
  "arr_at xs i = (if i < length xs then Some (xs ! i) else None)"

lemma arr_at_Some_iff: "arr_at xs i = Some x \<longleftrightarrow> i < length xs \<and> xs ! i = x"
  by (auto simp: arr_at_def)

lemma arr_at_None_iff: "arr_at xs i = None \<longleftrightarrow> length xs \<le> i"
  by (auto simp: arr_at_def)

lemma arr_at_Nil [simp]: "arr_at [] i = None"
  by (simp add: arr_at_def)

lemma arr_at_0_Cons [simp]: "arr_at (x # xs) 0 = Some x"
  by (simp add: arr_at_def)

lemma arr_at_Some_in_set: "arr_at xs i = Some x \<Longrightarrow> x \<in> set xs"
  by (auto simp: arr_at_def split: if_splits)

text \<open>\<open>xs.slice(-n)\<close> for \<open>n > 0\<close>: the last \<open>n\<close> elements.\<close>

definition slice_last :: "nat \<Rightarrow> 'a list \<Rightarrow> 'a list" where
  "slice_last n xs = drop (length xs - n) xs"

lemma length_slice_last [simp]: "length (slice_last n xs) = min n (length xs)"
  by (auto simp: slice_last_def)

lemma slice_last_snoc: "0 < n \<Longrightarrow> last (slice_last n (xs @ [x])) = x"
  by (simp add: slice_last_def)

lemma slice_last_short: "length xs \<le> n \<Longrightarrow> slice_last n xs = xs"
  by (simp add: slice_last_def)

lemma set_slice_last_subset: "set (slice_last n xs) \<subseteq> set xs"
  by (simp add: slice_last_def set_drop_subset)

section \<open>Stable sorting\<close>

text \<open>
  \<open>Array.prototype.sort(cmp)\<close> is stable; \<open>le x y\<close> stands for \<open>cmp(x, y) <= 0\<close>.
  For a total preorder every stable sorting procedure gives the same array, which the
  insertion sort below computes.
\<close>

fun insert_by :: "('a \<Rightarrow> 'a \<Rightarrow> bool) \<Rightarrow> 'a \<Rightarrow> 'a list \<Rightarrow> 'a list" where
  "insert_by le x [] = [x]"
| "insert_by le x (y # ys) = (if le x y then x # y # ys else y # insert_by le x ys)"

definition sort_by :: "('a \<Rightarrow> 'a \<Rightarrow> bool) \<Rightarrow> 'a list \<Rightarrow> 'a list" where
  "sort_by le xs = foldr (insert_by le) xs []"

lemma sort_by_simps [simp]:
  "sort_by le [] = []"
  "sort_by le (x # xs) = insert_by le x (sort_by le xs)"
  by (simp_all add: sort_by_def)

lemma mset_insert_by [simp]: "mset (insert_by le x xs) = add_mset x (mset xs)"
  by (induction xs) auto

lemma mset_sort_by [simp]: "mset (sort_by le xs) = mset xs"
  by (induction xs) auto

lemma set_insert_by [simp]: "set (insert_by le x xs) = insert x (set xs)"
  by (induction xs) auto

lemma set_sort_by [simp]: "set (sort_by le xs) = set xs"
  by (induction xs) auto

lemma length_insert_by [simp]: "length (insert_by le x xs) = Suc (length xs)"
  by (induction xs) auto

lemma length_sort_by [simp]: "length (sort_by le xs) = length xs"
  by (induction xs) auto

text \<open>The contract of a comparator on the elements it is applied to.\<close>

locale comparator =
  fixes le :: "'a \<Rightarrow> 'a \<Rightarrow> bool" and dom_ok :: "'a \<Rightarrow> bool"
  assumes le_total: "dom_ok x \<Longrightarrow> dom_ok y \<Longrightarrow> le x y \<or> le y x"
    and le_trans: "dom_ok x \<Longrightarrow> dom_ok y \<Longrightarrow> dom_ok z \<Longrightarrow> le x y \<Longrightarrow> le y z \<Longrightarrow> le x z"
begin

lemma insert_by_sorted:
  assumes "dom_ok x" "\<forall>y\<in>set xs. dom_ok y" "sorted_wrt le xs"
  shows "sorted_wrt le (insert_by le x xs)"
  using assms
proof (induction xs)
  case (Cons y ys)
  show ?case
  proof (cases "le x y")
    case True
    have "le x z" if "z \<in> set ys" for z
      using that True Cons.prems le_trans [of x y z] by simp
    then show ?thesis using True Cons.prems by simp
  next
    case False
    then have "le y x" using Cons.prems le_total by auto
    then show ?thesis using False Cons by auto
  qed
qed simp

lemma sort_by_sorted: "\<forall>y\<in>set xs. dom_ok y \<Longrightarrow> sorted_wrt le (sort_by le xs)"
  by (induction xs) (auto intro: insert_by_sorted)

text \<open>Stability: equal elements of a class keep their relative order.\<close>

lemma insert_by_filter:
  assumes "dom_ok x" "\<forall>y\<in>set xs. dom_ok y"
    and cls: "\<And>y. y \<in> set xs \<Longrightarrow> P x \<Longrightarrow> P y \<Longrightarrow> le x y"
  shows "filter P (insert_by le x xs) = (if P x then x # filter P xs else filter P xs)"
  using assms by (induction xs) auto

lemma sort_by_stable:
  assumes "\<forall>y\<in>set xs. dom_ok y"
    and "\<And>x y. x \<in> set xs \<Longrightarrow> y \<in> set xs \<Longrightarrow> P x \<Longrightarrow> P y \<Longrightarrow> le x y"
  shows "filter P (sort_by le xs) = filter P xs"
  using assms
proof (induction xs)
  case (Cons x xs)
  have "filter P (sort_by le (x # xs)) =
      (if P x then x # filter P (sort_by le xs) else filter P (sort_by le xs))"
    unfolding sort_by_simps by (rule insert_by_filter) (use Cons.prems in auto)
  also have "filter P (sort_by le xs) = filter P xs"
    using Cons by simp
  finally show ?case by simp
qed simp

end

section \<open>Reducers\<close>

text \<open>
  A React state updater or an event handler is a function \<open>state \<Rightarrow> event \<Rightarrow> state\<close>;
  the states a page passes through are the folds of its events. An invariant of a reducer
  is proved for one event and lifted to every sequence of events here.
\<close>

locale reducer =
  fixes step :: "'s \<Rightarrow> 'e \<Rightarrow> 's" and inv :: "'s \<Rightarrow> bool"
  assumes step_inv: "inv s \<Longrightarrow> inv (step s e)"
begin

lemma run_inv: "inv s \<Longrightarrow> inv (foldl step s es)"
  by (induction es arbitrary: s) (auto intro: step_inv)

lemma prefix_inv: "inv s \<Longrightarrow> inv (foldl step s (take n es))"
  by (rule run_inv)

end

lemma foldl_snoc: "foldl f s (xs @ [x]) = f (foldl f s xs) x"
  by simp

end
