(* ===== verification/Rounding.thy ===== *)
theory Rounding
  imports Prelude
begin

text \<open>
  Rounding of an exact rational to IEEE 754 binary64, round to nearest with ties to even:
  the value part of every arithmetic operation of a JavaScript number. Overflow and the
  special values are added in the theory of numbers. The laws the arithmetic relies on are
  the locale \<open>rounding\<close>, interpreted on the executable \<open>round64\<close>.
\<close>

section \<open>The interface\<close>

locale rounding =
  fixes rnd :: "rat \<Rightarrow> rat"
  assumes rnd_zero: "rnd 0 = 0"
    and rnd_mono: "x \<le> y \<Longrightarrow> rnd x \<le> rnd y"
    and rnd_idem: "rnd (rnd x) = rnd x"
    and rnd_minus: "rnd (- x) = - rnd x"
begin

lemma rnd_nonneg: "0 \<le> x \<Longrightarrow> 0 \<le> rnd x"
  using rnd_mono [of 0 x] rnd_zero by simp

lemma rnd_nonpos: "x \<le> 0 \<Longrightarrow> rnd x \<le> 0"
  using rnd_mono [of x 0] rnd_zero by simp

text \<open>Representable bounds survive rounding.\<close>

lemma rnd_ge: "rnd a = a \<Longrightarrow> a \<le> x \<Longrightarrow> a \<le> rnd x"
  using rnd_mono [of a x] by simp

lemma rnd_le: "rnd b = b \<Longrightarrow> x \<le> b \<Longrightarrow> rnd x \<le> b"
  using rnd_mono [of x b] by simp

lemma rnd_abs: "\<bar>rnd x\<bar> = rnd \<bar>x\<bar>"
  using rnd_nonneg [of x] rnd_nonpos [of x] rnd_minus [of x] by (cases "0 \<le> x") auto

end

section \<open>Binary exponents\<close>

definition ilog2 :: "rat \<Rightarrow> int" where
  "ilog2 q = (let (a, b) = quotient_of q; e = bitlen a - bitlen b
              in if 2 powi e \<le> q then e else e - 1)"

lemma powi2_mono: "m \<le> n \<Longrightarrow> (2::rat) powi m \<le> 2 powi n"
  by (rule power_int_increasing) auto

lemma powi2_less: "(2::rat) powi m < 2 powi n \<Longrightarrow> m < n"
  using powi2_mono [of n m] by (cases "m < n") auto

lemma powi2_strict: "m < n \<Longrightarrow> (2::rat) powi m < 2 powi n"
  by (rule power_int_strict_increasing) auto

lemma powi2_le: "(2::rat) powi m \<le> 2 powi n \<Longrightarrow> m \<le> n"
  using powi2_strict [of n m] by (cases "m \<le> n") auto

lemma bitlen_powi_bounds:
  assumes "0 < (a::int)"
  shows "(2::rat) powi (bitlen a - 1) \<le> of_int a" "of_int a < (2::rat) powi (bitlen a)"
proof -
  have pos: "1 \<le> bitlen a" using assms bitlen_ge_iff_power [of 1 a] by simp
  have b: "2 ^ nat (bitlen a - 1) \<le> a" "a < 2 ^ nat (bitlen a)"
    using bitlen_bounds [OF assms] by auto
  have "(2::rat) powi (bitlen a - 1) = of_int (2 ^ nat (bitlen a - 1))"
    using pos by (simp add: power_int_nonneg_exp)
  also have "\<dots> \<le> of_int a" using b(1) by (simp only: of_int_le_iff)
  finally show "(2::rat) powi (bitlen a - 1) \<le> of_int a" .
  have "(of_int a :: rat) < of_int (2 ^ nat (bitlen a))" using b(2) by (simp only: of_int_less_iff)
  also have "\<dots> = 2 powi (bitlen a)" using pos by (simp add: power_int_nonneg_exp)
  finally show "of_int a < (2::rat) powi (bitlen a)" .
qed

lemma ilog2_bounds:
  assumes "0 < q"
  shows "2 powi (ilog2 q) \<le> q" "q < 2 powi (ilog2 q + 1)"
proof -
  obtain a b where ab: "quotient_of q = (a, b)" by (cases "quotient_of q")
  have q: "q = of_int a / of_int b" by (rule quotient_of_div [OF ab])
  have b: "0 < b" by (rule quotient_of_denom_pos [OF ab])
  have a: "0 < a" using assms b unfolding q by (simp add: zero_less_divide_iff)
  define e where "e = bitlen a - bitlen b"
  note A = bitlen_powi_bounds [OF a] and B = bitlen_powi_bounds [OF b]
  have up: "q < 2 powi (e + 1)"
  proof -
    have "q < 2 powi (bitlen a) / 2 powi (bitlen b - 1)"
      unfolding q using A B b by (intro frac_less) (auto simp: a order.strict_implies_order)
    also have "\<dots> = 2 powi (e + 1)"
      by (simp add: e_def diff_diff_eq2 algebra_simps flip: power_int_diff)
    finally show ?thesis .
  qed
  have lo: "2 powi (e - 1) \<le> q"
  proof -
    have "2 powi (e - 1) = (2::rat) powi (bitlen a - 1) / 2 powi (bitlen b)"
      by (simp add: e_def algebra_simps flip: power_int_diff)
    also have "\<dots> \<le> q"
      unfolding q using A B a b by (intro frac_le) auto
    finally show ?thesis .
  qed
  have l: "ilog2 q = (if 2 powi e \<le> q then e else e - 1)"
    by (simp add: ilog2_def ab e_def Let_def)
  show "2 powi (ilog2 q) \<le> q" using lo by (simp add: l)
  show "q < 2 powi (ilog2 q + 1)" using up by (auto simp: l)
qed

lemma ilog2_unique:
  assumes "2 powi e \<le> q" "q < 2 powi (e + 1)"
  shows "ilog2 q = e"
proof -
  have q: "0 < q" using assms(1) less_le_trans [of 0 "2 powi e" q] by simp
  note L = ilog2_bounds [OF q]
  have "(2::rat) powi (ilog2 q) < 2 powi (e + 1)" using L assms by simp
  then have "ilog2 q < e + 1" by (rule powi2_less)
  moreover have "(2::rat) powi e < 2 powi (ilog2 q + 1)" using L assms by simp
  then have "e < ilog2 q + 1" by (rule powi2_less)
  ultimately show ?thesis by simp
qed

lemma ilog2_mono:
  assumes "0 < x" "x \<le> y"
  shows "ilog2 x \<le> ilog2 y"
proof -
  have "(2::rat) powi (ilog2 x) < 2 powi (ilog2 y + 1)"
    using ilog2_bounds(1) [of x] ilog2_bounds(2) [of y] assms by simp
  then show ?thesis by (auto dest: powi2_less)
qed

section \<open>Round to nearest, ties to even\<close>

definition rne :: "rat \<Rightarrow> int" where
  "rne x = (let f = \<lfloor>x\<rfloor>; d = x - of_int f
            in if d < 1 / 2 then f else if 1 / 2 < d then f + 1 else if even f then f else f + 1)"

lemma rne_bounds: "\<lfloor>x\<rfloor> \<le> rne x" "rne x \<le> \<lfloor>x\<rfloor> + 1"
  by (auto simp: rne_def Let_def)

lemma rne_of_int [simp]: "rne (of_int m) = m"
  by (simp add: rne_def)

lemma rne_error: "\<bar>of_int (rne x) - x\<bar> \<le> 1 / 2"
proof -
  have "0 \<le> x - of_int \<lfloor>x\<rfloor>" "x - of_int \<lfloor>x\<rfloor> < 1" by linarith+
  then show ?thesis unfolding rne_def Let_def by (simp only: abs_le_iff) (auto, linarith+)
qed

lemma rne_mono:
  assumes "x \<le> y"
  shows "rne x \<le> rne y"
proof (cases "\<lfloor>x\<rfloor> = \<lfloor>y\<rfloor>")
  case True
  then show ?thesis using assms by (auto simp: rne_def Let_def)
next
  case False
  then have "\<lfloor>x\<rfloor> + 1 \<le> \<lfloor>y\<rfloor>" using floor_mono [OF assms] by simp
  then show ?thesis using rne_bounds [of x] rne_bounds [of y] by linarith
qed

lemma rne_minus: "rne (- x) = - rne x"
proof (cases "x = of_int \<lfloor>x\<rfloor>")
  case True
  then have "rne (- x) = rne (of_int (- \<lfloor>x\<rfloor>))" by simp
  also have "\<dots> = - rne (of_int \<lfloor>x\<rfloor>)" by (simp del: of_int_minus)
  finally show ?thesis using True by simp
next
  case False
  then have f: "\<lfloor>- x\<rfloor> = - \<lfloor>x\<rfloor> - 1"
    by (intro floor_unique) (auto, linarith+)
  have g: "- x - of_int (- \<lfloor>x\<rfloor> - 1) = 1 - (x - of_int \<lfloor>x\<rfloor>)" by simp
  show ?thesis
    unfolding rne_def Let_def f g by auto
qed

section \<open>Rounding to binary64\<close>

text \<open>The spacing of the binary64 numbers around a nonzero value, subnormals included.\<close>

definition ulp_exp :: "rat \<Rightarrow> int" where
  "ulp_exp q = max (ilog2 \<bar>q\<bar> - 52) (- 1074)"

definition round64 :: "rat \<Rightarrow> rat" where
  "round64 q = (if q = 0 then 0
     else of_int (rne (q / 2 powi (ulp_exp q))) * 2 powi (ulp_exp q))"

text \<open>The exact values of finite binary64 numbers, exponent range above left open.\<close>

definition representable :: "rat \<Rightarrow> bool" where
  "representable q \<longleftrightarrow> (\<exists>m e. q = of_int m * 2 powi e \<and> \<bar>m\<bar> \<le> 2 ^ 53 \<and> - 1074 \<le> e)"

lemma representable_minus: "representable q \<Longrightarrow> representable (- q)"
proof -
  assume "representable q"
  then obtain m e where "q = of_int m * 2 powi e" "\<bar>m\<bar> \<le> 2 ^ 53" "- 1074 \<le> e"
    by (auto simp: representable_def)
  then have "- q = of_int (- m) * 2 powi e \<and> \<bar>- m\<bar> \<le> 2 ^ 53 \<and> - 1074 \<le> e" by simp
  then show ?thesis unfolding representable_def by blast
qed

lemma scaled_lt:
  assumes "q \<noteq> 0"
  shows "\<bar>q / 2 powi (ulp_exp q)\<bar> < 2 ^ 53"
proof -
  have "\<bar>q\<bar> < 2 powi (ilog2 \<bar>q\<bar> + 1)" using assms by (intro ilog2_bounds) auto
  also have "\<dots> \<le> 2 powi (ulp_exp q + 53)"
    by (intro powi2_mono) (simp add: ulp_exp_def)
  also have "\<dots> = 2 ^ 53 * 2 powi (ulp_exp q)"
    by (simp add: power_int_add)
  finally show ?thesis by (simp add: field_simps abs_divide)
qed

lemma rne_scaled_le:
  assumes "q \<noteq> 0"
  shows "\<bar>rne (q / 2 powi (ulp_exp q))\<bar> \<le> 2 ^ 53"
proof -
  have b: "- (2 ^ 53) \<le> q / 2 powi (ulp_exp q)" "q / 2 powi (ulp_exp q) \<le> 2 ^ 53"
    using scaled_lt [OF assms] by linarith+
  have "rne (of_int (- (2 ^ 53))) \<le> rne (q / 2 powi (ulp_exp q))"
    by (rule rne_mono) (use b in simp)
  moreover have "rne (q / 2 powi (ulp_exp q)) \<le> rne (of_int (2 ^ 53))"
    by (rule rne_mono) (use b in simp)
  ultimately show ?thesis unfolding rne_of_int by linarith
qed

lemma representable_round64: "representable (round64 q)"
proof (cases "q = 0")
  case True
  have "round64 q = of_int 0 * 2 powi 0 \<and> \<bar>0::int\<bar> \<le> 2 ^ 53 \<and> - 1074 \<le> (0::int)"
    by (simp add: round64_def True)
  then show ?thesis unfolding representable_def by blast
next
  case False
  then have "round64 q = of_int (rne (q / 2 powi (ulp_exp q))) * 2 powi (ulp_exp q)"
    and "- 1074 \<le> ulp_exp q"
    by (auto simp: round64_def ulp_exp_def)
  then show ?thesis unfolding representable_def using rne_scaled_le [OF False] by blast
qed

text \<open>Representable values are fixed points.\<close>

lemma round64_representable:
  assumes "representable q"
  shows "round64 q = q"
proof (cases "q = 0")
  case True
  then show ?thesis by (simp add: round64_def)
next
  case False
  obtain m e where q: "q = of_int m * 2 powi e" and m: "\<bar>m\<bar> \<le> 2 ^ 53" and e: "- 1074 \<le> e"
    using assms by (auto simp: representable_def)
  have "\<exists>k. q / 2 powi (ulp_exp q) = of_int k"
  proof (cases "ulp_exp q \<le> e")
    case True
    have "q / 2 powi (ulp_exp q) = of_int m * 2 powi (e - ulp_exp q)"
      by (simp add: q power_int_diff)
    also have "\<dots> = of_int (m * 2 ^ nat (e - ulp_exp q))"
      using True by (simp add: power_int_nonneg_exp)
    finally show ?thesis by blast
  next
    case F: False
    have "\<bar>q\<bar> \<le> 2 ^ 53 * 2 powi e"
    proof -
      have "\<bar>of_int m :: rat\<bar> \<le> of_int (2 ^ 53)"
        using m by (simp only: of_int_abs [symmetric] of_int_le_iff)
      then show ?thesis by (simp add: q abs_mult)
    qed
    also have "\<dots> = 2 powi (e + 53)" by (simp add: power_int_add)
    finally have up: "\<bar>q\<bar> \<le> 2 powi (e + 53)" .
    have "(2::rat) powi (ilog2 \<bar>q\<bar>) \<le> 2 powi (e + 53)"
      using ilog2_bounds(1) [of "\<bar>q\<bar>"] up False by simp
    then have "ilog2 \<bar>q\<bar> \<le> e + 53"
      by (rule powi2_le)
    moreover have "ilog2 \<bar>q\<bar> - 52 > e" using F e by (simp add: ulp_exp_def max_def split: if_splits)
    ultimately have il: "ilog2 \<bar>q\<bar> = e + 53" by simp
    then have "\<bar>q\<bar> = 2 powi (e + 53)"
      using up ilog2_bounds(1) [of "\<bar>q\<bar>"] False by simp
    moreover have "ulp_exp q = e + 1" using il e by (simp add: ulp_exp_def)
    ultimately have "\<bar>q\<bar> / 2 powi (ulp_exp q) = of_int (2 ^ 52)"
      by (simp flip: power_int_diff)
    then have "q / 2 powi (ulp_exp q) = of_int (if 0 \<le> q then 2 ^ 52 else - (2 ^ 52))"
      by (auto simp: abs_if split: if_splits)
    then show ?thesis by blast
  qed
  then obtain k where k: "q / 2 powi (ulp_exp q) = of_int k" by blast
  have "round64 q = of_int k * 2 powi (ulp_exp q)"
    using False by (simp add: round64_def k)
  also have "\<dots> = q" by (simp flip: k)
  finally show ?thesis .
qed

lemma representable_iff: "representable q \<longleftrightarrow> round64 q = q"
  using round64_representable representable_round64 [of q] by auto

lemma round64_idem: "round64 (round64 q) = round64 q"
  by (rule round64_representable) (rule representable_round64)

lemma round64_zero [simp]: "round64 0 = 0"
  by (simp add: round64_def)

lemma round64_minus: "round64 (- q) = - round64 q"
  by (simp add: round64_def ulp_exp_def rne_minus)

text \<open>A power of two above a value bounds the rounded value.\<close>

lemma round64_le_powi:
  assumes "0 < q" "q \<le> 2 powi n" "- 1074 \<le> n"
  shows "round64 q \<le> 2 powi n"
proof -
  define u where "u = ulp_exp q"
  have "u \<le> n"
  proof -
    have "(2::rat) powi (ilog2 q) \<le> 2 powi n"
      using ilog2_bounds(1) [OF assms(1)] assms(2) by simp
    then have "ilog2 q \<le> n" by (rule powi2_le)
    then show ?thesis using assms by (simp add: u_def ulp_exp_def)
  qed
  have "q / 2 powi u \<le> 2 powi n / 2 powi u"
    using assms by (intro divide_right_mono) auto
  also have "\<dots> = of_int (2 ^ nat (n - u))"
    using \<open>u \<le> n\<close> by (simp add: power_int_nonneg_exp flip: power_int_diff)
  finally have "rne (q / 2 powi u) \<le> 2 ^ nat (n - u)"
    using rne_mono rne_of_int by metis
  then have "(of_int (rne (q / 2 powi u)) :: rat) \<le> of_int (2 ^ nat (n - u))"
    by (simp only: of_int_le_iff)
  then have "of_int (rne (q / 2 powi u)) * 2 powi u \<le> (of_int (2 ^ nat (n - u)) :: rat) * 2 powi u"
    by (intro mult_right_mono) auto
  also have "\<dots> = 2 powi (n - u) * 2 powi u"
    using \<open>u \<le> n\<close> by (simp add: power_int_nonneg_exp)
  also have "\<dots> = 2 powi n" by (simp flip: power_int_add)
  finally show ?thesis using assms by (simp add: round64_def u_def)
qed

lemma round64_ge_powi:
  assumes "0 < q" "2 powi n \<le> q" "- 1022 \<le> n"
  shows "2 powi n \<le> round64 q"
proof -
  define u where "u = ulp_exp q"
  define k where "k = ilog2 q"
  have "n \<le> k"
  proof -
    have "(2::rat) powi n < 2 powi (k + 1)"
      using ilog2_bounds(2) [OF assms(1)] assms(2) by (simp add: k_def)
    then show ?thesis by (auto dest: powi2_less)
  qed
  then have u: "u = k - 52" using assms by (simp add: u_def ulp_exp_def k_def)
  have "of_int (2 ^ 52) = 2 powi k / (2::rat) powi u"
    by (simp add: u flip: power_int_diff)
  also have "\<dots> \<le> q / 2 powi u"
    using ilog2_bounds(1) [OF assms(1)] by (intro divide_right_mono) (auto simp: k_def)
  finally have "2 ^ 52 \<le> rne (q / 2 powi u)"
    using rne_mono rne_of_int by metis
  then have "(of_int (2 ^ 52) :: rat) \<le> of_int (rne (q / 2 powi u))"
    by (simp only: of_int_le_iff)
  then have "(of_int (2 ^ 52) :: rat) * 2 powi u \<le> of_int (rne (q / 2 powi u)) * 2 powi u"
    by (intro mult_right_mono) auto
  moreover have "(of_int (2 ^ 52) :: rat) * 2 powi u = 2 powi k"
    by (simp add: u power_int_diff)
  moreover have "(2::rat) powi n \<le> 2 powi k" using \<open>n \<le> k\<close> by (rule powi2_mono)
  ultimately have "2 powi n \<le> of_int (rne (q / 2 powi u)) * (2::rat) powi u" by linarith
  then show ?thesis using assms by (simp add: round64_def u_def)
qed

lemma round64_mono_pos:
  assumes "0 < x" "x \<le> y"
  shows "round64 x \<le> round64 y"
proof (cases "ulp_exp x = ulp_exp y")
  case True
  have "x / 2 powi (ulp_exp x) \<le> y / 2 powi (ulp_exp x)"
    using assms by (intro divide_right_mono) auto
  then have "(of_int (rne (x / 2 powi (ulp_exp x))) :: rat) \<le> of_int (rne (y / 2 powi (ulp_exp x)))"
    by (simp only: of_int_le_iff) (rule rne_mono)
  then show ?thesis using assms True by (simp add: round64_def)
next
  case False
  have le: "ilog2 x \<le> ilog2 y" by (rule ilog2_mono [OF assms])
  then have lt: "ilog2 x < ilog2 y" and ge: "- 1022 \<le> ilog2 y" using False assms
    by (auto simp: ulp_exp_def)
  have "x \<le> 2 powi (ilog2 y)"
  proof -
    have "x < 2 powi (ilog2 x + 1)" by (rule ilog2_bounds(2) [OF assms(1)])
    also have "\<dots> \<le> 2 powi (ilog2 y)" using lt by (intro powi2_mono) simp
    finally show ?thesis by simp
  qed
  then have "round64 x \<le> 2 powi (ilog2 y)" "2 powi (ilog2 y) \<le> round64 y"
    using ge assms ilog2_bounds(1) [of y] by (auto intro: round64_le_powi round64_ge_powi)
  then show ?thesis by simp
qed

lemma round64_nonneg_pos: "0 < q \<Longrightarrow> 0 \<le> round64 q"
proof -
  assume q: "0 < q"
  have "rne (of_int 0) \<le> rne (q / 2 powi (ulp_exp q))" using q by (intro rne_mono) simp
  then have "0 \<le> rne (q / 2 powi (ulp_exp q))" unfolding rne_of_int .
  then show ?thesis using q by (simp add: round64_def)
qed

lemma round64_mono:
  assumes "x \<le> y"
  shows "round64 x \<le> round64 y"
proof (cases "0 < x")
  case True
  then show ?thesis using assms by (rule round64_mono_pos)
next
  case x: False
  show ?thesis
  proof (cases "y < 0")
    case True
    then have "round64 (- y) \<le> round64 (- x)" using assms by (intro round64_mono_pos) auto
    then show ?thesis by (simp add: round64_minus)
  next
    case False
    have "round64 x \<le> 0"
      using x round64_nonneg_pos [of "- x"] by (cases "x = 0") (auto simp: round64_minus)
    moreover have "0 \<le> round64 y" using False round64_nonneg_pos [of y] by (cases "y = 0") auto
    ultimately show ?thesis by simp
  qed
qed

interpretation r64: rounding round64
  by unfold_locales (auto simp: round64_mono round64_idem round64_minus)

section \<open>Exact values and error bounds\<close>

lemma representable_of_int: "\<bar>m\<bar> \<le> 2 ^ 53 \<Longrightarrow> representable (of_int m)"
  unfolding representable_def by (rule exI [of _ m], rule exI [of _ 0]) simp

lemma representable_dyadic:
  "\<bar>m\<bar> \<le> 2 ^ 53 \<Longrightarrow> k \<le> 1074 \<Longrightarrow> representable (of_int m / 2 ^ k)"
  unfolding representable_def
  by (rule exI [of _ m], rule exI [of _ "- int k"]) (simp add: power_int_minus divide_inverse)

lemma representable_powi: "- 1074 \<le> n \<Longrightarrow> representable (2 powi n)"
  unfolding representable_def by (rule exI [of _ 1], rule exI [of _ n]) simp

lemma round64_of_int [simp]: "\<bar>m\<bar> \<le> 2 ^ 53 \<Longrightarrow> round64 (of_int m) = of_int m"
  by (rule round64_representable) (rule representable_of_int)

lemma round64_of_nat [simp]: "n \<le> 2 ^ 53 \<Longrightarrow> round64 (of_nat n) = of_nat n"
  using round64_of_int [of "int n"] by simp

lemma round64_numeral [simp]:
  "numeral n \<le> (2 ^ 53 :: int) \<Longrightarrow> round64 (numeral n) = numeral n"
  using round64_of_int [of "numeral n"] by simp

lemma round64_one [simp]: "round64 1 = 1"
  using round64_of_int [of 1] by simp

lemma round64_error: "\<bar>round64 q - q\<bar> \<le> 2 powi (ulp_exp q) / 2"
proof (cases "q = 0")
  case False
  define s where "s = (2::rat) powi (ulp_exp q)"
  have s: "0 < s" by (simp add: s_def)
  have "round64 q - q = (of_int (rne (q / s)) - q / s) * s"
    using False s by (simp add: round64_def s_def [symmetric] field_simps)
  then have "\<bar>round64 q - q\<bar> = \<bar>of_int (rne (q / s)) - q / s\<bar> * s"
    using s by (simp add: abs_mult)
  also have "\<dots> \<le> 1 / 2 * s" using rne_error [of "q / s"] s by (intro mult_right_mono) auto
  finally show ?thesis by (simp add: s_def)
qed simp

text \<open>In the normal range the relative error is at most \<open>2^-53\<close>.\<close>

lemma round64_relative_error:
  assumes "2 powi (- 1022) \<le> \<bar>q\<bar>"
  shows "\<bar>round64 q - q\<bar> \<le> \<bar>q\<bar> / 2 ^ 53"
proof -
  have pos: "0 < \<bar>q\<bar>" using assms less_le_trans [of 0 "2 powi (- 1022)" "\<bar>q\<bar>"] by simp
  have "(2::rat) powi (- 1022) < 2 powi (ilog2 \<bar>q\<bar> + 1)"
    using assms ilog2_bounds(2) [OF pos] by (rule le_less_trans)
  then have "- 1022 < ilog2 \<bar>q\<bar> + 1" by (rule powi2_less)
  then have u: "ulp_exp q = ilog2 \<bar>q\<bar> - 52" by (simp add: ulp_exp_def)
  have "2 powi (ulp_exp q) / 2 = 2 powi (ilog2 \<bar>q\<bar>) / (2::rat) ^ 53"
    by (simp add: u power_int_diff)
  also have "\<dots> \<le> \<bar>q\<bar> / 2 ^ 53"
    using ilog2_bounds(1) [OF pos] by (intro divide_right_mono) auto
  finally show ?thesis using round64_error [of q] by simp
qed

end
