(* ===== verification/JsNumber.thy ===== *)
theory JsNumber
  imports Rounding
begin

text \<open>
  The numbers of the source language: IEEE 754 binary64 values with NaN, the infinities
  and the two zeros. A finite nonzero value is its exact rational, so the arithmetic is
  exact arithmetic followed by \<open>round64\<close>. The operators are the instances of the
  arithmetic and order classes, so a definition reads like the expression it models:
  \<open>+ - * / mod < \<le>\<close> are JavaScript's (every comparison with NaN is false), while
  HOL's \<open>=\<close> is identity of values and \<open>num_eq\<close> is \<open>===\<close>.
\<close>

datatype jsnum = NaN | PInf | NInf | NegZero | Fin rat

text \<open>A finite value is a representable rational below the overflow threshold.\<close>

definition wf_num :: "jsnum \<Rightarrow> bool" where
  "wf_num x = (case x of Fin q \<Rightarrow> round64 q = q \<and> \<bar>q\<bar> < 2 ^ 1024 | _ \<Rightarrow> True)"

text \<open>\<open>Number.isFinite\<close> on a number.\<close>

definition isFinite :: "jsnum \<Rightarrow> bool" where
  "isFinite x = (case x of Fin q \<Rightarrow> True | NegZero \<Rightarrow> True | _ \<Rightarrow> False)"

definition isNaN :: "jsnum \<Rightarrow> bool" where
  "isNaN x = (x = NaN)"

text \<open>The exact value of a finite number, and the sign bit.\<close>

definition val :: "jsnum \<Rightarrow> rat" where
  "val x = (case x of Fin q \<Rightarrow> q | _ \<Rightarrow> 0)"

definition signbit :: "jsnum \<Rightarrow> bool" where
  "signbit x = (case x of Fin q \<Rightarrow> q < 0 | NegZero \<Rightarrow> True | NInf \<Rightarrow> True | _ \<Rightarrow> False)"

definition inf_of :: "bool \<Rightarrow> jsnum" where
  "inf_of neg = (if neg then NInf else PInf)"

definition zero_of :: "bool \<Rightarrow> jsnum" where
  "zero_of neg = (if neg then NegZero else Fin 0)"

text \<open>Rounding of an exact result; \<open>neg\<close> is the sign a zero result takes.\<close>

definition mk :: "bool \<Rightarrow> rat \<Rightarrow> jsnum" where
  "mk neg q = (let r = round64 q in
     if r = 0 then zero_of neg
     else if 2 ^ 1024 \<le> r then PInf
     else if r \<le> - (2 ^ 1024) then NInf
     else Fin r)"

text \<open>A numeric literal of the source: the number nearest to the written value.\<close>

definition lit :: "rat \<Rightarrow> jsnum" where
  "lit q = mk (q < 0) q"

instantiation jsnum :: "{plus, minus, uminus, times, inverse, modulo, zero, one, ord}"
begin

definition zero_jsnum :: jsnum where "zero_jsnum = Fin 0"

definition one_jsnum :: jsnum where "one_jsnum = Fin 1"

definition uminus_jsnum :: "jsnum \<Rightarrow> jsnum" where
  "uminus_jsnum x = (case x of NaN \<Rightarrow> NaN | PInf \<Rightarrow> NInf | NInf \<Rightarrow> PInf
     | NegZero \<Rightarrow> Fin 0 | Fin q \<Rightarrow> if q = 0 then NegZero else Fin (- q))"

definition plus_jsnum :: "jsnum \<Rightarrow> jsnum \<Rightarrow> jsnum" where
  "plus_jsnum x y =
     (if x = NaN \<or> y = NaN then NaN
      else if x = PInf then (if y = NInf then NaN else PInf)
      else if x = NInf then (if y = PInf then NaN else NInf)
      else if y = PInf \<or> y = NInf then y
      else let q = val x + val y in mk (if q = 0 then signbit x \<and> signbit y else q < 0) q)"

definition minus_jsnum :: "jsnum \<Rightarrow> jsnum \<Rightarrow> jsnum" where
  "minus_jsnum x y = x + (- y)"

definition times_jsnum :: "jsnum \<Rightarrow> jsnum \<Rightarrow> jsnum" where
  "times_jsnum x y =
     (let neg = (signbit x \<noteq> signbit y) in
      if x = NaN \<or> y = NaN then NaN
      else if isFinite x \<and> isFinite y then mk neg (val x * val y)
      else if (isFinite x \<and> val x = 0) \<or> (isFinite y \<and> val y = 0) then NaN
      else inf_of neg)"

definition divide_jsnum :: "jsnum \<Rightarrow> jsnum \<Rightarrow> jsnum" where
  "divide_jsnum x y =
     (let neg = (signbit x \<noteq> signbit y) in
      if x = NaN \<or> y = NaN then NaN
      else if \<not> isFinite x then (if isFinite y then inf_of neg else NaN)
      else if \<not> isFinite y then zero_of neg
      else if val y = 0 then (if val x = 0 then NaN else inf_of neg)
      else mk neg (val x / val y))"

definition inverse_jsnum :: "jsnum \<Rightarrow> jsnum" where
  "inverse_jsnum x = divide 1 x"

text \<open>\<open>x % y\<close>: the remainder of the division truncated towards zero, with the sign of \<open>x\<close>.\<close>

definition modulo_jsnum :: "jsnum \<Rightarrow> jsnum \<Rightarrow> jsnum" where
  "modulo_jsnum x y =
     (if x = NaN \<or> y = NaN \<or> \<not> isFinite x \<or> (isFinite y \<and> val y = 0) then NaN
      else if \<not> isFinite y then x
      else let q = \<bar>val x\<bar> - \<bar>val y\<bar> * of_int \<lfloor>\<bar>val x\<bar> / \<bar>val y\<bar>\<rfloor>
           in mk (signbit x) (if signbit x then - q else q))"

definition less_jsnum :: "jsnum \<Rightarrow> jsnum \<Rightarrow> bool" where
  "less_jsnum x y =
     (x \<noteq> NaN \<and> y \<noteq> NaN \<and>
      (if x = NInf then y \<noteq> NInf
       else if y = PInf then x \<noteq> PInf
       else x \<noteq> PInf \<and> y \<noteq> NInf \<and> val x < val y))"

definition less_eq_jsnum :: "jsnum \<Rightarrow> jsnum \<Rightarrow> bool" where
  "less_eq_jsnum x y = (x \<noteq> NaN \<and> y \<noteq> NaN \<and> \<not> y < (x::jsnum))"

instance ..

end

text \<open>\<open>x === y\<close> on numbers.\<close>

definition num_eq :: "jsnum \<Rightarrow> jsnum \<Rightarrow> bool" where
  "num_eq x y = (x \<le> y \<and> y \<le> x)"

text \<open>ToBoolean: \<open>0\<close>, \<open>-0\<close> and NaN are falsy.\<close>

definition truthy :: "jsnum \<Rightarrow> bool" where
  "truthy x = (x \<noteq> NaN \<and> x \<noteq> NegZero \<and> x \<noteq> Fin 0)"

definition Math_max :: "jsnum \<Rightarrow> jsnum \<Rightarrow> jsnum" where
  "Math_max x y = (if x = NaN \<or> y = NaN then NaN
     else if x = NegZero \<and> y = Fin 0 then y else if y \<le> x then x else y)"

definition Math_min :: "jsnum \<Rightarrow> jsnum \<Rightarrow> jsnum" where
  "Math_min x y = (if x = NaN \<or> y = NaN then NaN
     else if y = NegZero \<and> x = Fin 0 then y else if x \<le> y then x else y)"

definition Math_abs :: "jsnum \<Rightarrow> jsnum" where
  "Math_abs x = (case x of NaN \<Rightarrow> NaN | PInf \<Rightarrow> PInf | NInf \<Rightarrow> PInf | NegZero \<Rightarrow> Fin 0 | Fin q \<Rightarrow> Fin \<bar>q\<bar>)"

definition Math_floor :: "jsnum \<Rightarrow> jsnum" where
  "Math_floor x = (case x of Fin q \<Rightarrow> Fin (of_int \<lfloor>q\<rfloor>) | _ \<Rightarrow> x)"

definition Math_ceil :: "jsnum \<Rightarrow> jsnum" where
  "Math_ceil x = (case x of Fin q \<Rightarrow>
       if \<lceil>q\<rceil> = 0 \<and> q < 0 then NegZero else Fin (of_int \<lceil>q\<rceil>) | _ \<Rightarrow> x)"

text \<open>\<open>Math.round\<close>: the nearest integer, ties towards positive infinity.\<close>

definition Math_round :: "jsnum \<Rightarrow> jsnum" where
  "Math_round x = (case x of Fin q \<Rightarrow>
       if \<lfloor>q + 1 / 2\<rfloor> = 0 \<and> q < 0 then NegZero else Fin (of_int \<lfloor>q + 1 / 2\<rfloor>) | _ \<Rightarrow> x)"

text \<open>\<open>Number.isInteger\<close>.\<close>

definition isInteger :: "jsnum \<Rightarrow> bool" where
  "isInteger x = (case x of Fin q \<Rightarrow> of_int \<lfloor>q\<rfloor> = q | NegZero \<Rightarrow> True | _ \<Rightarrow> False)"

definition jsnum_of_nat :: "nat \<Rightarrow> jsnum" where
  "jsnum_of_nat n = mk False (of_nat n)"

text \<open>An integral number used as an array length or index.\<close>

definition nat_of_jsnum :: "jsnum \<Rightarrow> nat" where
  "nat_of_jsnum x = nat \<lfloor>val x\<rfloor>"

section \<open>Basic facts\<close>

lemma val_simps [simp]:
  "val (Fin q) = q" "val NegZero = 0" "val NaN = 0" "val PInf = 0" "val NInf = 0"
  by (simp_all add: val_def)

lemma isFinite_simps [simp]:
  "isFinite (Fin q)" "isFinite NegZero" "\<not> isFinite NaN" "\<not> isFinite PInf" "\<not> isFinite NInf"
  by (simp_all add: isFinite_def)

lemma signbit_simps [simp]:
  "signbit (Fin q) \<longleftrightarrow> q < 0" "signbit NegZero" "\<not> signbit NaN" "\<not> signbit PInf" "signbit NInf"
  by (simp_all add: signbit_def)

lemma isFinite_iff: "isFinite x \<longleftrightarrow> x \<noteq> NaN \<and> x \<noteq> PInf \<and> x \<noteq> NInf"
  by (cases x) auto

lemma wf_simps [simp]: "wf_num NaN" "wf_num PInf" "wf_num NInf" "wf_num NegZero"
  by (simp_all add: wf_num_def)

lemma less_Fin [simp]:
  "Fin a < Fin b \<longleftrightarrow> a < b" "NegZero < Fin b \<longleftrightarrow> 0 < b" "Fin a < NegZero \<longleftrightarrow> a < 0"
  "\<not> NegZero < NegZero"
  by (auto simp: less_jsnum_def)

lemma le_Fin [simp]:
  "Fin a \<le> Fin b \<longleftrightarrow> a \<le> b" "NegZero \<le> Fin b \<longleftrightarrow> 0 \<le> b" "Fin a \<le> NegZero \<longleftrightarrow> a \<le> 0"
  "NegZero \<le> NegZero"
  by (auto simp: less_eq_jsnum_def)

lemma less_NaN [simp]: "\<not> NaN < x" "\<not> x < NaN" "\<not> NaN \<le> x" "\<not> x \<le> NaN"
  by (simp_all add: less_jsnum_def less_eq_jsnum_def)

lemma less_inf [simp]:
  "isFinite x \<Longrightarrow> x < PInf" "isFinite x \<Longrightarrow> NInf < x" "NInf < PInf"
  "\<not> PInf < x" "\<not> x < NInf"
  "isFinite x \<Longrightarrow> x \<le> PInf" "isFinite x \<Longrightarrow> NInf \<le> x" "NInf \<le> PInf"
  "isFinite x \<Longrightarrow> \<not> PInf \<le> x" "isFinite x \<Longrightarrow> \<not> x \<le> NInf"
  "PInf \<le> PInf" "NInf \<le> NInf" "\<not> PInf \<le> NInf"
  by (cases x; auto simp: less_jsnum_def less_eq_jsnum_def)+

lemma finite_less [simp]: "isFinite x \<Longrightarrow> isFinite y \<Longrightarrow> x < y \<longleftrightarrow> val x < val y"
  by (cases x; cases y) auto

lemma finite_le [simp]: "isFinite x \<Longrightarrow> isFinite y \<Longrightarrow> x \<le> y \<longleftrightarrow> val x \<le> val y"
  by (cases x; cases y) auto

text \<open>The comparisons order the non-NaN values linearly, up to the sign of zero.\<close>

lemma num_le_refl: "x \<noteq> NaN \<Longrightarrow> x \<le> (x::jsnum)"
  by (cases x) auto

lemma num_le_trans: "x \<le> y \<Longrightarrow> y \<le> z \<Longrightarrow> x \<le> (z::jsnum)"
  by (cases x; cases y; cases z) auto

lemma num_less_le_trans: "x < y \<Longrightarrow> y \<le> z \<Longrightarrow> x < (z::jsnum)"
  by (cases x; cases y; cases z) auto

lemma num_le_less_trans: "x \<le> y \<Longrightarrow> y < z \<Longrightarrow> x < (z::jsnum)"
  by (cases x; cases y; cases z) auto

lemma num_le_total: "x \<noteq> NaN \<Longrightarrow> y \<noteq> NaN \<Longrightarrow> x \<le> y \<or> y \<le> (x::jsnum)"
  by (cases x; cases y) auto

lemma num_less_imp_le: "x < y \<Longrightarrow> x \<le> (y::jsnum)"
  by (cases x; cases y) auto

lemma num_not_le: "x \<noteq> NaN \<Longrightarrow> y \<noteq> NaN \<Longrightarrow> \<not> x \<le> y \<longleftrightarrow> y < (x::jsnum)"
  by (simp add: less_eq_jsnum_def)

lemma num_not_less: "x \<noteq> NaN \<Longrightarrow> y \<noteq> NaN \<Longrightarrow> \<not> x < y \<longleftrightarrow> y \<le> (x::jsnum)"
  by (simp add: less_eq_jsnum_def)

lemma num_less_irrefl [simp]: "\<not> x < (x::jsnum)"
  by (cases x) auto

lemma num_less_asym: "x < y \<Longrightarrow> \<not> y < (x::jsnum)"
  by (cases x; cases y) auto

interpretation num_order: comparator "(\<le>) :: jsnum \<Rightarrow> jsnum \<Rightarrow> bool" "\<lambda>x. x \<noteq> NaN"
  by unfold_locales (auto dest: num_le_total intro: num_le_trans)

section \<open>Rounded results\<close>

lemma mk_cases:
  obtains "round64 q = 0" "mk neg q = zero_of neg"
  | "2 ^ 1024 \<le> round64 q" "mk neg q = PInf"
  | "round64 q \<le> - (2 ^ 1024)" "mk neg q = NInf"
  | "round64 q \<noteq> 0" "\<bar>round64 q\<bar> < 2 ^ 1024" "mk neg q = Fin (round64 q)"
  unfolding mk_def Let_def abs_less_iff by (metis linorder_not_le minus_less_iff)

lemma overflow_iff: "0 < q \<Longrightarrow> 2 ^ 1024 \<le> q \<longleftrightarrow> 1024 \<le> ilog2 q"
proof
  assume q: "0 < q" and "2 ^ 1024 \<le> q"
  then have "(2::rat) powi 1024 < 2 powi (ilog2 q + 1)"
    using ilog2_bounds(2) [OF q] by (simp only: power_int_numeral)
  then have "1024 < ilog2 q + 1" by (rule powi2_less)
  then show "1024 \<le> ilog2 q" by simp
next
  assume q: "0 < q" and "1024 \<le> ilog2 q"
  then have "(2::rat) powi 1024 \<le> 2 powi (ilog2 q)" by (intro powi2_mono)
  then show "2 ^ 1024 \<le> q" using ilog2_bounds(1) [OF q] by (simp only: power_int_numeral)
qed

text \<open>For evaluation, overflow is read off the exponent.\<close>

lemma mk_code [code]:
  "mk neg q = (let r = round64 q in if r = 0 then zero_of neg
     else if ilog2 \<bar>r\<bar> < 1024 then Fin r else if 0 < r then PInf else NInf)"
proof (cases "round64 q = 0")
  case False
  have "\<bar>round64 q\<bar> < 2 ^ 1024 \<longleftrightarrow> ilog2 \<bar>round64 q\<bar> < 1024"
    using overflow_iff [of "\<bar>round64 q\<bar>"] False by (auto simp only: abs_eq_0 zero_less_abs_iff not_le [symmetric])
  moreover have "0 < (2 ^ 1024 :: rat)" by (rule zero_less_power) simp
  ultimately show ?thesis
    by (rule_tac mk_cases [of q neg]) (auto simp only: Let_def False abs_less_iff abs_if split: if_splits)
qed (simp add: mk_def)

lemma mk_not_NaN [simp]: "mk neg q \<noteq> NaN"
  by (rule mk_cases [of q neg]) (auto simp: zero_of_def)

lemma wf_mk [simp]: "wf_num (mk neg q)"
  by (rule mk_cases [of q neg]) (auto simp: zero_of_def wf_num_def r64.rnd_idem)

lemma mk_exact: "round64 q = q \<Longrightarrow> \<bar>q\<bar> < 2 ^ 1024 \<Longrightarrow> q \<noteq> 0 \<Longrightarrow> mk neg q = Fin q"
  by (auto simp: mk_def abs_less_iff)

lemma mk_zero [simp]: "mk neg 0 = zero_of neg"
  by (simp add: mk_def)

lemma isFinite_zero_of [simp]: "isFinite (zero_of neg)" and val_zero_of [simp]: "val (zero_of neg) = 0"
  by (simp_all add: zero_of_def)

lemma isFinite_mk: "isFinite (mk neg q) \<longleftrightarrow> \<bar>round64 q\<bar> < 2 ^ 1024"
  by (rule mk_cases [of q neg]) auto

lemma val_mk: "isFinite (mk neg q) \<Longrightarrow> val (mk neg q) = round64 q"
  by (rule mk_cases [of q neg]) auto

text \<open>Rounding keeps the order, whatever the signs given to zeros.\<close>

lemma mk_mono: "x \<le> y \<Longrightarrow> mk s x \<le> mk t y"
proof -
  assume "x \<le> y"
  then have "round64 x \<le> round64 y" by (rule round64_mono)
  then show ?thesis
    by (rule_tac mk_cases [of x s]; rule_tac mk_cases [of y t]) auto
qed

section \<open>Literals and exact integers\<close>

lemma lit_zero [simp]: "lit 0 = Fin 0"
  by (simp add: lit_def zero_of_def)

lemma lit_exact: "round64 q = q \<Longrightarrow> \<bar>q\<bar> < 2 ^ 1024 \<Longrightarrow> lit q = Fin q"
  by (cases "q = 0") (auto simp: lit_def mk_exact zero_of_def)

lemma small_lt_overflow: "q \<le> 2 ^ 53 \<Longrightarrow> q < (2 ^ 1024 :: rat)"
  by (rule le_less_trans [of _ "2 ^ 53"]) simp_all

lemma lit_of_int: "\<bar>m\<bar> \<le> 2 ^ 53 \<Longrightarrow> lit (of_int m) = Fin (of_int m)"
proof (rule lit_exact)
  assume m: "\<bar>m\<bar> \<le> 2 ^ 53"
  then show "round64 (of_int m) = of_int m" by simp
  have "\<bar>of_int m :: rat\<bar> \<le> of_int (2 ^ 53)"
    using m by (simp only: of_int_abs [symmetric] of_int_le_iff)
  then show "\<bar>of_int m :: rat\<bar> < 2 ^ 1024" using small_lt_overflow by simp
qed

lemma lit_numeral [simp]: "numeral n \<le> (2 ^ 53 :: int) \<Longrightarrow> lit (numeral n) = Fin (numeral n)"
  using lit_of_int [of "numeral n"] by simp

lemma lit_one [simp]: "lit 1 = Fin 1"
  using lit_of_int [of 1] by simp

lemma lit_neg_numeral [simp]:
  "numeral n \<le> (2 ^ 53 :: int) \<Longrightarrow> lit (- numeral n) = Fin (- numeral n)"
  using lit_of_int [of "- numeral n"] by simp

lemma jsnum_of_nat_exact: "n \<le> 2 ^ 53 \<Longrightarrow> jsnum_of_nat n = Fin (of_nat n)"
proof (cases "n = 0")
  case False
  assume n: "n \<le> 2 ^ 53"
  have "(of_nat n :: rat) \<le> of_nat (2 ^ 53)" using n by (simp only: of_nat_le_iff)
  then have "\<bar>of_nat n :: rat\<bar> < 2 ^ 1024" using small_lt_overflow by simp
  then show ?thesis using n False by (simp add: jsnum_of_nat_def mk_exact)
qed (simp add: jsnum_of_nat_def zero_of_def)

lemma lit_not_NaN [simp]: "lit q \<noteq> NaN"
  by (simp add: lit_def)

lemma wf_lit [simp]: "wf_num (lit q)"
  by (simp add: lit_def)

lemma lit_mono: "p \<le> q \<Longrightarrow> lit p \<le> lit q"
  by (simp add: lit_def mk_mono)

lemma zero_jsnum_Fin: "(0::jsnum) = Fin 0"
  by (simp add: zero_jsnum_def)

lemma one_jsnum_Fin: "(1::jsnum) = Fin 1"
  by (simp add: one_jsnum_def)

section \<open>Arithmetic on finite operands\<close>

lemma finite_add:
  "isFinite x \<Longrightarrow> isFinite y \<Longrightarrow>
   x + y = mk (if val x + val y = 0 then signbit x \<and> signbit y else val x + val y < 0) (val x + val y)"
  by (cases x; cases y) (auto simp: plus_jsnum_def Let_def)

lemma val_uminus [simp]: "val (- x) = - val x" and isFinite_uminus [simp]: "isFinite (- x) = isFinite x"
  by (cases x; simp add: uminus_jsnum_def)+

lemma finite_sub:
  "isFinite x \<Longrightarrow> isFinite y \<Longrightarrow>
   x - y = mk (if val x - val y = 0 then signbit x \<and> signbit (- y) else val x - val y < 0) (val x - val y)"
  by (simp add: minus_jsnum_def finite_add)

lemma finite_mult:
  "isFinite x \<Longrightarrow> isFinite y \<Longrightarrow> x * y = mk (signbit x \<noteq> signbit y) (val x * val y)"
  by (cases x; cases y) (auto simp: times_jsnum_def Let_def)

lemma finite_divide:
  "isFinite x \<Longrightarrow> isFinite y \<Longrightarrow> val y \<noteq> 0 \<Longrightarrow>
   x / y = mk (signbit x \<noteq> signbit y) (val x / val y)"
  by (cases x; cases y) (auto simp: divide_jsnum_def Let_def)

lemma NaN_arith [simp]:
  "NaN + x = NaN" "x + NaN = NaN" "NaN * x = NaN" "x * NaN = NaN" "NaN - x = NaN" "x - NaN = NaN"
  "NaN / x = NaN" "x / NaN = NaN" "NaN mod x = NaN" "x mod NaN = NaN" "- NaN = NaN"
  by (simp_all add: plus_jsnum_def times_jsnum_def minus_jsnum_def divide_jsnum_def modulo_jsnum_def uminus_jsnum_def)

lemma wf_arith [simp]:
  "wf_num (x * y)" "wf_num (x / y)"
  by (auto simp: times_jsnum_def divide_jsnum_def Let_def inf_of_def zero_of_def wf_num_def [of "Fin 0"])

lemma wf_uminus [simp]: "wf_num x \<Longrightarrow> wf_num (- x)"
  by (cases x) (auto simp: uminus_jsnum_def wf_num_def round64_minus)

lemma wf_add [simp]: "wf_num (x + y)" and wf_sub [simp]: "wf_num (x - y)"
  by (auto simp: plus_jsnum_def minus_jsnum_def Let_def)

lemma inf_add [simp]:
  "isFinite z \<Longrightarrow> z + PInf = PInf" "isFinite z \<Longrightarrow> z + NInf = NInf"
  by (cases z; simp add: plus_jsnum_def)+

lemma finite_add_mono:
  "isFinite x \<Longrightarrow> isFinite y \<Longrightarrow> isFinite z \<Longrightarrow> val x \<le> val y \<Longrightarrow> z + x \<le> z + y"
  by (simp only: finite_add, rule mk_mono) simp

lemma mk_le_PInf [simp]: "mk s q \<le> PInf" and NInf_le_mk [simp]: "NInf \<le> mk s q"
  by (rule mk_cases [of q s]; simp)+

lemma add_left_mono_num:
  assumes "x \<le> y" "isFinite z"
  shows "z + x \<le> z + (y::jsnum)"
proof (cases "isFinite x \<and> isFinite y")
  case True
  then show ?thesis using assms by (intro finite_add_mono) auto
next
  case False
  then show ?thesis using assms
    by (cases x; cases y) (auto simp: finite_add)
qed

lemma mk_eq_iff_le: "x \<noteq> NaN \<Longrightarrow> PInf \<le> x \<longleftrightarrow> x = PInf" "x \<noteq> NaN \<Longrightarrow> x \<le> NInf \<longleftrightarrow> x = NInf"
  by (cases x; simp)+

lemma add_commute_num: "x + y = y + (x::jsnum)"
proof (cases "isFinite x \<and> isFinite y")
  case True
  then show ?thesis by (simp add: finite_add add.commute conj_commute)
next
  case False
  then show ?thesis by (cases x; cases y) (auto simp: plus_jsnum_def)
qed

lemma add_mono_num:
  assumes "x \<le> x'" "y \<le> y'" "x + y \<noteq> NaN" "x' + y' \<noteq> NaN"
  shows "x + y \<le> x' + (y'::jsnum)"
proof (cases "isFinite x \<and> isFinite y \<and> isFinite x' \<and> isFinite y'")
  case True
  then have "val x + val y \<le> val x' + val y'" using assms by (intro add_mono) auto
  then show ?thesis using True by (simp add: finite_add mk_mono)
next
  case False
  have fin: "isFinite z \<Longrightarrow> PInf + z = PInf" "isFinite z \<Longrightarrow> NInf + z = NInf"
    "PInf + PInf = PInf" "NInf + NInf = NInf" for z
    by (cases z; simp add: plus_jsnum_def)+
  have top: "PInf + z = NaN \<or> PInf + z = PInf" "z + PInf = NaN \<or> z + PInf = PInf"
    "NInf + z = NaN \<or> NInf + z = NInf" "z + NInf = NaN \<or> z + NInf = NInf" for z
    by (cases z; simp add: plus_jsnum_def)+
  have ends: "z \<noteq> NaN \<Longrightarrow> z \<le> PInf" "z \<noteq> NaN \<Longrightarrow> NInf \<le> z" for z
    by (cases z; simp)+
  consider "x = NInf" | "y = NInf" | "x' = PInf" | "y' = PInf"
    using False assms(1,2) by (cases x; cases x'; cases y; cases y'; force)
  then show ?thesis using top ends assms(3,4) by cases (metis)+
qed

lemma mult_nonneg_mono_num:
  assumes "isFinite z" "0 \<le> val z" "isFinite x" "isFinite y" "val x \<le> val y"
  shows "z * x \<le> z * y"
proof -
  have "val z * val x \<le> val z * val y" using assms by (intro mult_left_mono) auto
  then show ?thesis using assms by (simp add: finite_mult mk_mono)
qed

lemma mult_mono_num:
  assumes "isFinite c" "isFinite d" "0 \<le> val c" "val c \<le> val d" "isFinite x" "0 \<le> val x"
  shows "c * x \<le> d * x"
proof -
  have "val c * val x \<le> val d * val x" using assms by (intro mult_right_mono) auto
  then show ?thesis using assms by (simp add: finite_mult mk_mono)
qed

lemma mk_nonneg: "0 \<le> q \<Longrightarrow> Fin 0 \<le> mk s q"
  using mk_mono [of 0 q False s] by (simp add: zero_of_def)

lemma mk_nonpos: "q \<le> 0 \<Longrightarrow> mk s q \<le> Fin 0"
  using mk_mono [of q 0 s False] by (simp add: zero_of_def)

lemma isFinite_mk_le:
  assumes "\<bar>q\<bar> \<le> r" "round64 r = r" "r < 2 ^ 1024"
  shows "isFinite (mk s q)"
proof -
  have "\<bar>round64 q\<bar> = round64 \<bar>q\<bar>" by (rule r64.rnd_abs)
  also have "\<dots> \<le> r" using assms(1,2) by (intro r64.rnd_le)
  finally show ?thesis using assms(3) by (simp add: isFinite_mk)
qed

lemma divide_antimono_num:
  assumes "isFinite l" "0 \<le> val l" "isFinite a" "0 < val a" "isFinite b" "val a \<le> val b"
  shows "l / b \<le> l / a"
proof -
  have "val l / val b \<le> val l / val a" using assms by (intro divide_left_mono) auto
  then show ?thesis using assms by (simp add: finite_divide mk_mono)
qed

section \<open>Clamping\<close>

text \<open>\<open>Math.max(lo, Math.min(hi, x))\<close>, the clamp the dashboard uses throughout.\<close>

lemma Math_max_NaN [simp]: "Math_max NaN y = NaN" "Math_max x NaN = NaN"
  by (simp_all add: Math_max_def)

lemma Math_min_NaN [simp]: "Math_min NaN y = NaN" "Math_min x NaN = NaN"
  by (simp_all add: Math_min_def)

lemma Math_max_ge: "x \<noteq> NaN \<Longrightarrow> y \<noteq> NaN \<Longrightarrow> x \<le> Math_max x y \<and> y \<le> Math_max x y"
  using num_le_total [of x y] by (auto simp: Math_max_def intro: num_le_refl)

lemma Math_min_le: "x \<noteq> NaN \<Longrightarrow> y \<noteq> NaN \<Longrightarrow> Math_min x y \<le> x \<and> Math_min x y \<le> y"
  using num_le_total [of x y] by (auto simp: Math_min_def intro: num_le_refl)

lemma Math_max_cases: "Math_max x y = x \<or> Math_max x y = y"
  by (auto simp: Math_max_def)

lemma Math_min_cases: "Math_min x y = x \<or> Math_min x y = y"
  by (auto simp: Math_min_def)

lemma Math_max_not_NaN: "x \<noteq> NaN \<Longrightarrow> y \<noteq> NaN \<Longrightarrow> Math_max x y \<noteq> NaN"
  using Math_max_cases [of x y] by auto

lemma Math_min_not_NaN: "x \<noteq> NaN \<Longrightarrow> y \<noteq> NaN \<Longrightarrow> Math_min x y \<noteq> NaN"
  using Math_min_cases [of x y] by auto

lemma clamp_bounds:
  assumes "x \<noteq> NaN" "lo \<le> hi"
  shows "lo \<le> Math_max lo (Math_min hi x) \<and> Math_max lo (Math_min hi x) \<le> hi"
proof -
  have nn: "lo \<noteq> NaN" "hi \<noteq> NaN" using assms(2) by auto
  have m: "Math_min hi x \<noteq> NaN" "Math_min hi x \<le> hi"
    using Math_min_le [of hi x] Math_min_not_NaN [of hi x] nn assms by auto
  then show ?thesis
    using Math_max_ge [of lo "Math_min hi x"] Math_max_cases [of lo "Math_min hi x"] nn assms by auto
qed

lemma clamp_within:
  assumes "lo \<le> x" "x \<le> hi"
  shows "num_eq (Math_max lo (Math_min hi x)) x"
  using assms num_le_trans [OF assms]
  by (cases lo; cases hi; cases x) (auto simp: Math_max_def Math_min_def num_eq_def)

lemma Math_max_mono: "a \<le> a' \<Longrightarrow> b \<le> b' \<Longrightarrow> Math_max a b \<le> Math_max a' b'"
proof -
  assume ab: "a \<le> a'" "b \<le> b'"
  then have n: "a' \<noteq> NaN" "b' \<noteq> NaN" by auto
  show ?thesis
    using Math_max_cases [of a b] Math_max_ge [OF n] ab num_le_trans by metis
qed

lemma Math_abs_nonneg: "x \<noteq> NaN \<Longrightarrow> Fin 0 \<le> Math_abs x"
  by (cases x) (auto simp: Math_abs_def)

lemma isFinite_Math_max: "isFinite x \<Longrightarrow> isFinite y \<Longrightarrow> isFinite (Math_max x y)"
  using Math_max_cases [of x y] by auto

end
