(* ===== verification/JsString.thy ===== *)
theory JsString
  imports JsNumber
begin

text \<open>
  Strings of the source language: sequences of UTF-16 code units. ASCII literals are written
  \<open>u ''text''\<close>, prose with other characters \<open>ue ''...~XXXX...''\<close>, where \<open>~XXXX\<close> is the
  code unit with that hexadecimal number. The conversions of numbers to text
  (\<open>String(x)\<close> and template literals, \<open>toFixed\<close>, \<open>toExponential\<close>) follow ECMA-262.
  Texts that depend on the browser's locale or clock come from a \<open>host\<close> record.
\<close>

type_synonym str = "nat list"

definition u :: "string \<Rightarrow> str" where
  "u s = map of_char s"

lemma u_eq_iff [simp]: "u a = u b \<longleftrightarrow> a = b"
  by (auto simp: u_def dest: map_injective simp: inj_def of_char_eq_iff)

lemma u_Nil [simp]: "u [] = []" and u_empty_iff [simp]: "u s = [] \<longleftrightarrow> s = []" "[] = u s \<longleftrightarrow> s = []"
  by (auto simp: u_def)

lemma u_append: "u (a @ b) = u a @ u b"
  by (simp add: u_def)

lemma length_u [simp]: "length (u s) = length s"
  by (simp add: u_def)

definition hex_digit :: "char \<Rightarrow> nat" where
  "hex_digit c = (let n = of_char c :: nat in if n < 58 then n - 48 else if n < 71 then n - 55 else n - 87)"

fun ue :: "string \<Rightarrow> str" where
  "ue [] = []"
| "ue (c # cs) =
     (if c = CHR 0x7E
      then foldl (\<lambda>n d. 16 * n + hex_digit d) 0 (take 4 cs) # ue (drop 4 cs)
      else of_char c # ue cs)"

text \<open>The unit four digits of an escape stand for.\<close>

definition hex4 :: "char \<Rightarrow> char \<Rightarrow> char \<Rightarrow> char \<Rightarrow> nat" where
  "hex4 a b c d = foldl (\<lambda>n x. 16 * n + hex_digit x) 0 [a, b, c, d]"
lemma ue_escape: "ue (CHR 0x7E # a # b # c # d # s) = hex4 a b c d # ue s"
  by (simp add: hex4_def)

lemma ue_plain: "c \<noteq> CHR 0x7E \<Longrightarrow> ue (c # s) = of_char c # ue s"
  by simp
lemma u_Cons: "u (c # s) = of_char c # u s"
  by (simp add: u_def)

text \<open>Comparing texts without evaluating them.\<close>

lemma text_eq:
  "c \<noteq> CHR 0x7E \<Longrightarrow> d \<noteq> CHR 0x7E \<Longrightarrow> (ue (c # s) = ue (d # t)) = (c = d \<and> ue s = ue t)"
  "d \<noteq> CHR 0x7E \<Longrightarrow> (u (c # s) = ue (d # t)) = (c = d \<and> u s = ue t)"
  "c \<noteq> CHR 0x7E \<Longrightarrow> (ue (c # s) = u (d # t)) = (c = d \<and> ue s = u t)"
  "d \<noteq> CHR 0x7E \<Longrightarrow> (ue (CHR 0x7E # a # b # x # y # s) = ue (d # t)) = (hex4 a b x y = of_char d \<and> ue s = ue t)"
  "d \<noteq> CHR 0x7E \<Longrightarrow> (ue (d # t) = ue (CHR 0x7E # a # b # x # y # s)) = (hex4 a b x y = of_char d \<and> ue s = ue t)"
  "(ue (CHR 0x7E # a # b # x # y # s) = ue (CHR 0x7E # a' # b' # x' # y' # t)) = (hex4 a b x y = hex4 a' b' x' y' \<and> ue s = ue t)"
  "(ue (CHR 0x7E # a # b # x # y # s) = u (d # t)) = (hex4 a b x y = of_char d \<and> ue s = u t)"
  "(u (d # t) = ue (CHR 0x7E # a # b # x # y # s)) = (hex4 a b x y = of_char d \<and> ue s = u t)"
  "([] = u (d # t)) = False" "(u (d # t) = []) = False"
  by (auto simp: ue_escape u_Cons simp del: ue.simps(2)) (auto simp: ue_plain simp del: ue.simps(2))

lemma ue_Nil_eq: "([] = ue s) = (s = [])" "(ue s = []) = (s = [])"
  by (cases s; simp)+

text \<open>The dash shown for a missing value.\<close>

definition emdash :: str where
  "emdash = [0x2014]"

definition ellipsis :: str where
  "ellipsis = [0x2026]"

section \<open>String methods\<close>

text \<open>\<open>trim\<close>: the white space and line terminator code units of ECMA-262.\<close>

definition is_space :: "nat \<Rightarrow> bool" where
  "is_space c = (c \<in> {9, 10, 11, 12, 13, 32, 160, 5760, 8232, 8233, 8239, 8287, 12288, 65279}
     \<or> (8192 \<le> c \<and> c \<le> 8202))"

definition trim :: "str \<Rightarrow> str" where
  "trim s = rev (dropWhile is_space (rev (dropWhile is_space s)))"

text \<open>
  Case mapping of the ASCII letters; the texts compared after it (states, dispositions,
  identifiers, search terms over them) are ASCII, other code units are left as they are.
\<close>

definition toUpperCase :: "str \<Rightarrow> str" where
  "toUpperCase = map (\<lambda>c. if 97 \<le> c \<and> c \<le> 122 then c - 32 else c)"

definition toLowerCase :: "str \<Rightarrow> str" where
  "toLowerCase = map (\<lambda>c. if 65 \<le> c \<and> c \<le> 90 then c + 32 else c)"

definition startsWith :: "str \<Rightarrow> str \<Rightarrow> bool" where
  "startsWith s p = (take (length p) s = p)"

fun str_includes :: "str \<Rightarrow> str \<Rightarrow> bool" where
  "str_includes [] p = (p = [])"
| "str_includes (c # cs) p = (take (length p) (c # cs) = p \<or> str_includes cs p)"

lemma str_includes_iff: "str_includes s p \<longleftrightarrow> (\<exists>a b. s = a @ p @ b)"
proof (induction s)
  case (Cons c cs)
  show ?case
  proof
    assume "str_includes (c # cs) p"
    then consider "take (length p) (c # cs) = p" | "str_includes cs p" by auto
    then show "\<exists>a b. c # cs = a @ p @ b"
    proof cases
      case 1
      then have "c # cs = [] @ p @ drop (length p) (c # cs)"
        by (metis append_Nil append_take_drop_id)
      then show ?thesis by blast
    next
      case 2
      then obtain a b where "cs = a @ p @ b" using Cons.IH by blast
      then have "c # cs = (c # a) @ p @ b" by simp
      then show ?thesis by blast
    qed
  next
    assume "\<exists>a b. c # cs = a @ p @ b"
    then obtain a b where ab: "c # cs = a @ p @ b" by blast
    show "str_includes (c # cs) p"
    proof (cases a)
      case Nil
      then show ?thesis using ab by (metis append_Nil append_eq_conv_conj str_includes.simps(2))
    next
      case (Cons x xs)
      then show ?thesis using ab \<open>str_includes cs p = _\<close> by auto
    qed
  qed
qed auto

text \<open>\<open>s.replaceAll(c, '')\<close> for a single code unit.\<close>

definition remove_all :: "nat \<Rightarrow> str \<Rightarrow> str" where
  "remove_all c s = filter (\<lambda>x. x \<noteq> c) s"

text \<open>\<open>s.replace(c, d)\<close> for single code units: the first occurrence.\<close>

fun replace_first :: "nat \<Rightarrow> nat \<Rightarrow> str \<Rightarrow> str" where
  "replace_first c d [] = []"
| "replace_first c d (x # xs) = (if x = c then d # xs else x # replace_first c d xs)"

lemma dropWhile_hd: "dropWhile P xs = y # ys \<Longrightarrow> \<not> P y"
  by (metis hd_dropWhile list.discI list.sel(1))

lemma trim_idem [simp]: "trim (trim s) = trim s"
proof -
  define t where "t = dropWhile is_space s"
  have dd: "dropWhile is_space (dropWhile is_space xs) = dropWhile is_space xs" for xs
    by (induction xs) auto
  have pre: "dropWhile is_space (rev (dropWhile is_space (rev t))) = rev (dropWhile is_space (rev t))"
  proof (cases "rev (dropWhile is_space (rev t))")
    case (Cons y ys)
    obtain z where z: "rev t = z @ dropWhile is_space (rev t)"
      by (metis takeWhile_dropWhile_id)
    have "t = rev (dropWhile is_space (rev t)) @ rev z"
      by (metis z rev_append rev_rev_ident)
    then have "t = y # ys @ rev z" using Cons by simp
    then have "\<not> is_space y" unfolding t_def by (rule dropWhile_hd)
    then show ?thesis using Cons by simp
  next
    case Nil
    then show ?thesis by (simp only: dropWhile.simps)
  qed
  show ?thesis unfolding trim_def t_def [symmetric] pre by (simp add: dd)
qed

lemma trim_Nil [simp]: "trim [] = []"
  by (simp add: trim_def)

section \<open>Numbers as text\<close>

text \<open>The decimal digits of a nonnegative integer.\<close>

function dec_digits :: "int \<Rightarrow> str" where
  "dec_digits n = (if n < 10 then [48 + nat n] else dec_digits (n div 10) @ [48 + nat (n mod 10)])"
  by pat_completeness auto
termination by (relation "measure nat") auto

declare dec_digits.simps [simp del]

definition int_str :: "int \<Rightarrow> str" where
  "int_str i = (if i < 0 then 45 # dec_digits (- i) else dec_digits i)"

text \<open>
  \<open>dec_exp x\<close> for a positive \<open>x\<close> is the \<open>n\<close> with \<open>10 ^ (n - 1) \<le> x < 10 ^ n\<close>; below 1 the
  scan is bounded by the 324 leading zeros of the least subnormal number.
\<close>

fun lead_zeros :: "nat \<Rightarrow> rat \<Rightarrow> nat" where
  "lead_zeros 0 x = 0"
| "lead_zeros (Suc f) x = (if 1 \<le> 10 * x then 0 else Suc (lead_zeros f (10 * x)))"

definition dec_exp :: "rat \<Rightarrow> int" where
  "dec_exp x = (if 1 \<le> x then int (length (dec_digits \<lfloor>x\<rfloor>)) else - int (lead_zeros 400 x))"

text \<open>
  The shortest digit string that converts back to the number: \<open>k\<close> digits \<open>s\<close> with
  \<open>s * 10 ^ (n - k)\<close> rounding to \<open>x\<close>, the closest such \<open>s\<close>, \<open>k\<close> as small as possible;
  17 digits always suffice.
\<close>

definition digit_cands :: "rat \<Rightarrow> int \<Rightarrow> nat \<Rightarrow> int list" where
  "digit_cands x n k = (let sc = 10 powi (n - int k); f = \<lfloor>x / sc\<rfloor>;
      ok = (\<lambda>s. round64 (of_int s * sc) = x) in
      sort_by (\<lambda>a b. \<bar>of_int a * sc - x\<bar> < \<bar>of_int b * sc - x\<bar>
          \<or> (\<bar>of_int a * sc - x\<bar> = \<bar>of_int b * sc - x\<bar> \<and> even a)) (filter ok [f, f + 1]))"

fun shortest :: "rat \<Rightarrow> int \<Rightarrow> nat \<Rightarrow> nat \<Rightarrow> int \<times> nat \<times> int" where
  "shortest x n k 0 = (\<lfloor>x / 10 powi (n - 17)\<rfloor>, 17, n)"
| "shortest x n k (Suc f) = (case digit_cands x n k of
       [] \<Rightarrow> shortest x n (Suc k) f
     | s # _ \<Rightarrow> if s = 10 ^ k then (1, 1, n + 1) else (s, k, n))"

definition zeros :: "nat \<Rightarrow> str" where
  "zeros n = replicate n 48"

text \<open>\<open>Number::toString\<close> with radix 10, also used by template literals.\<close>

definition pos_str :: "rat \<Rightarrow> str" where
  "pos_str x = (let (s, k, n) = shortest x (dec_exp x) 1 17; ds = dec_digits s in
     if int k \<le> n \<and> n \<le> 21 then ds @ zeros (nat n - k)
     else if 0 < n \<and> n \<le> 21 then take (nat n) ds @ 46 # drop (nat n) ds
     else if - 6 < n \<and> n \<le> 0 then 48 # 46 # zeros (nat (- n)) @ ds
     else let e = n - 1; es = (if e < 0 then 45 # dec_digits (- e) else 43 # dec_digits e) in
       if k = 1 then ds @ 101 # es
       else take 1 ds @ 46 # drop 1 ds @ 101 # es)"

definition num_str :: "jsnum \<Rightarrow> str" where
  "num_str x = (case x of NaN \<Rightarrow> u ''NaN'' | PInf \<Rightarrow> u ''Infinity'' | NInf \<Rightarrow> u ''-Infinity''
     | NegZero \<Rightarrow> u ''0''
     | Fin q \<Rightarrow> if q = 0 then u ''0'' else if q < 0 then 45 # pos_str (- q) else pos_str q)"

text \<open>\<open>x.toFixed(f)\<close>.\<close>

definition fixed_digits :: "rat \<Rightarrow> nat \<Rightarrow> str" where
  "fixed_digits x f = (let n = \<lfloor>x * 10 ^ f + 1 / 2\<rfloor>; ds = dec_digits n;
       pad = zeros (Suc f - length ds) @ ds in
     if f = 0 then ds else take (length pad - f) pad @ 46 # drop (length pad - f) pad)"

definition toFixed :: "jsnum \<Rightarrow> nat \<Rightarrow> str" where
  "toFixed x f = (case x of
      Fin q \<Rightarrow> if 10 ^ 21 \<le> \<bar>q\<bar> then num_str x
               else if q < 0 then 45 # fixed_digits (- q) f else fixed_digits q f
    | NegZero \<Rightarrow> fixed_digits 0 f
    | _ \<Rightarrow> num_str x)"

text \<open>\<open>x.toExponential(f)\<close>.\<close>

definition exp_digits :: "rat \<Rightarrow> nat \<Rightarrow> str" where
  "exp_digits x f = (let e0 = dec_exp x - 1; n0 = \<lfloor>x / 10 powi (e0 - int f) + 1 / 2\<rfloor>;
       (n, e) = (if n0 = 10 ^ Suc f then (10 ^ f, e0 + 1) else (n0, e0)); ds = dec_digits n;
       es = (if e < 0 then 45 # dec_digits (- e) else 43 # dec_digits e) in
     (if f = 0 then ds else take 1 ds @ 46 # drop 1 ds) @ 101 # es)"

definition toExponential :: "jsnum \<Rightarrow> nat \<Rightarrow> str" where
  "toExponential x f = (case x of
      Fin q \<Rightarrow> if q = 0 then (if f = 0 then u ''0'' else 48 # 46 # zeros f) @ u ''e+0''
               else if q < 0 then 45 # exp_digits (- q) f else exp_digits q f
    | NegZero \<Rightarrow> (if f = 0 then u ''0'' else 48 # 46 # zeros f) @ u ''e+0''
    | _ \<Rightarrow> num_str x)"

section \<open>The browser\<close>

text \<open>
  What the pages take from the environment: date parsing (milliseconds since the epoch, NaN
  when the text is no date), and the renderings of dates and numbers that depend on the
  locale and time zone.
\<close>

record host =
  date_parse :: "str \<Rightarrow> jsnum"
  locale_string :: "jsnum \<Rightarrow> str"
  locale_time :: "jsnum \<Rightarrow> str"
  number_locale :: "nat option \<Rightarrow> jsnum \<Rightarrow> str"
  locale_compare :: "str \<Rightarrow> str \<Rightarrow> int"

text \<open>
  The mathematical functions ECMA-262 leaves to the implementation (their results are
  implementation-approximated).
\<close>

record mathlib =
  Math_sqrt :: "jsnum \<Rightarrow> jsnum"
  Math_cbrt :: "jsnum \<Rightarrow> jsnum"
  Math_sin :: "jsnum \<Rightarrow> jsnum"
  Math_cos :: "jsnum \<Rightarrow> jsnum"
  Math_atan2 :: "jsnum \<Rightarrow> jsnum \<Rightarrow> jsnum"
  Math_pow :: "jsnum \<Rightarrow> jsnum \<Rightarrow> jsnum"

text \<open>\<open>Math.PI\<close>, the binary64 number nearest to pi.\<close>

definition Math_PI :: jsnum where
  "Math_PI = Fin (884279719003555 / 281474976710656)"

section \<open>Shape of the texts\<close>

lemma dec_digits_nonempty [simp]: "dec_digits n \<noteq> []"
  by (subst dec_digits.simps) simp

definition digit :: "nat \<Rightarrow> bool" where
  "digit c = (48 \<le> c \<and> c \<le> 57)"

lemma dec_digits_digits: "0 \<le> n \<Longrightarrow> \<forall>c\<in>set (dec_digits n). digit c"
proof (induction n rule: dec_digits.induct)
  case (1 n)
  show ?case
  proof (cases "n < 10")
    case True
    then show ?thesis using "1.prems" by (subst dec_digits.simps) (simp add: digit_def nat_le_iff)
  next
    case False
    have "digit (48 + nat (n mod 10))" by (simp add: digit_def nat_le_iff)
    then show ?thesis using "1.IH" False by (subst dec_digits.simps) auto
  qed
qed

text \<open>Reading the digits back gives the number: the decimal text is faithful.\<close>

definition read_dec :: "str \<Rightarrow> int" where
  "read_dec = foldl (\<lambda>a c. 10 * a + (int c - 48)) 0"

lemma read_dec_digits: "0 \<le> n \<Longrightarrow> read_dec (dec_digits n) = n"
proof (induction n rule: dec_digits.induct)
  case (1 n)
  then show ?case by (cases "n < 10") (auto simp: dec_digits.simps [of n] read_dec_def)
qed

lemma dec_digits_inject: "0 \<le> m \<Longrightarrow> 0 \<le> n \<Longrightarrow> dec_digits m = dec_digits n \<longleftrightarrow> m = n"
  by (metis read_dec_digits)

section \<open>Indexing by a number\<close>

text \<open>\<open>xs[i]\<close> for a number \<open>i\<close>: an element only for a nonnegative integral number in range.\<close>

definition arr_idx :: "'a list \<Rightarrow> jsnum \<Rightarrow> 'a option" where
  "arr_idx xs i = (if isInteger i \<and> Fin 0 \<le> i \<and> val i < of_nat (length xs)
     then Some (xs ! nat_of_jsnum i) else None)"

lemma arr_idx_Some_in_set: "arr_idx xs i = Some x \<Longrightarrow> x \<in> set xs"
proof -
  assume a: "arr_idx xs i = Some x"
  then have i: "Fin 0 \<le> i" "val i < of_nat (length xs)" "x = xs ! nat_of_jsnum i"
    by (auto simp: arr_idx_def split: if_splits)
  have "\<lfloor>val i\<rfloor> < int (length xs)" using i(2) by (simp add: floor_less_iff)
  moreover have "0 < length xs" using i(1,2) by (cases i) (auto intro: ccontr)
  ultimately have "nat_of_jsnum i < length xs" unfolding nat_of_jsnum_def by linarith
  then show ?thesis using i(3) by simp
qed

section \<open>A concrete environment\<close>

text \<open>
  Instances of the parameters on which the hypotheses about them are shown to hold: a
  truncated square root with 20 binary places, integral powers by multiplication, and
  functions with the ranges of the trigonometric ones; dates that do not parse and plain
  digits for numbers.
\<close>

definition sample_sqrt :: "jsnum \<Rightarrow> jsnum" where
  "sample_sqrt x = (case x of
      Fin q \<Rightarrow> if q < 0 then NaN else mk False (of_int \<lfloor>sqrt (of_rat q) * 2 ^ 20\<rfloor> / 2 ^ 20)
    | NegZero \<Rightarrow> NegZero | PInf \<Rightarrow> PInf | _ \<Rightarrow> NaN)"

definition sample_pow :: "jsnum \<Rightarrow> jsnum \<Rightarrow> jsnum" where
  "sample_pow x y = (if y = lit 2 then x * x else if y = lit 4 then x * x * (x * x) else NaN)"

definition sample_math :: mathlib where
  "sample_math = \<lparr>Math_sqrt = sample_sqrt, Math_cbrt = (\<lambda>x. x), Math_sin = (\<lambda>x. if isFinite x then lit 0 else NaN),
     Math_cos = (\<lambda>x. if isFinite x then lit 1 else NaN), Math_atan2 = (\<lambda>y x. lit 0), Math_pow = sample_pow\<rparr>"

definition sample_host :: host where
  "sample_host = \<lparr>date_parse = (\<lambda>s. NaN), locale_string = num_str, locale_time = num_str,
     number_locale = (\<lambda>d x. num_str x), locale_compare = (\<lambda>a b. 0)\<rparr>"

text \<open>What a square root promises: it keeps the order of the nonnegative numbers.\<close>

definition sqrt_monotone :: "mathlib \<Rightarrow> bool" where
  "sqrt_monotone m \<longleftrightarrow> (\<forall>x y. Fin 0 \<le> x \<longrightarrow> x \<le> y \<longrightarrow> Math_sqrt m x \<le> Math_sqrt m y)"

lemma sqrt_monotoneD: "sqrt_monotone m \<Longrightarrow> Fin 0 \<le> x \<Longrightarrow> x \<le> y \<Longrightarrow> Math_sqrt m x \<le> Math_sqrt m y"
  by (simp add: sqrt_monotone_def)

text \<open>What the trigonometric functions promise: finite arguments give values in \<open>[-1, 1]\<close>.\<close>

definition trig_bounded :: "mathlib \<Rightarrow> bool" where
  "trig_bounded m \<longleftrightarrow> (\<forall>x. isFinite x \<longrightarrow>
     isFinite (Math_sin m x) \<and> isFinite (Math_cos m x) \<and>
     \<bar>val (Math_sin m x)\<bar> \<le> 1 \<and> \<bar>val (Math_cos m x)\<bar> \<le> 1)"

lemma trig_boundedD:
  assumes "trig_bounded m" "isFinite x"
  shows "isFinite (Math_sin m x)" "isFinite (Math_cos m x)"
    "\<bar>val (Math_sin m x)\<bar> \<le> 1" "\<bar>val (Math_cos m x)\<bar> \<le> 1"
  using assms by (auto simp: trig_bounded_def)

lemma sample_trig: "trig_bounded sample_math"
  by (simp add: trig_bounded_def sample_math_def)

lemma sample_sqrt_Fin_mono:
  assumes "0 \<le> p" "p \<le> q"
  shows "mk False (of_int \<lfloor>sqrt (of_rat p) * 2 ^ 20\<rfloor> / 2 ^ 20) \<le> mk False (of_int \<lfloor>sqrt (of_rat q) * 2 ^ 20\<rfloor> / 2 ^ 20)"
proof (rule mk_mono)
  have "sqrt (of_rat p) * 2 ^ 20 \<le> sqrt (of_rat q) * 2 ^ 20"
    using assms by (simp add: of_rat_less_eq)
  then have "\<lfloor>sqrt (of_rat p) * 2 ^ 20\<rfloor> \<le> \<lfloor>sqrt (of_rat q) * 2 ^ 20\<rfloor>" by (rule floor_mono)
  then have "(of_int \<lfloor>sqrt (of_rat p) * 2 ^ 20\<rfloor> :: rat) \<le> of_int \<lfloor>sqrt (of_rat q) * 2 ^ 20\<rfloor>"
    by (simp only: of_int_le_iff)
  then show "of_int \<lfloor>sqrt (of_rat p) * 2 ^ 20\<rfloor> / 2 ^ 20 \<le> (of_int \<lfloor>sqrt (of_rat q) * 2 ^ 20\<rfloor> :: rat) / 2 ^ 20"
    by (rule divide_right_mono) simp
qed

lemma sample_sqrt_zero: "sample_sqrt (Fin 0) = Fin 0"
  by (simp add: sample_sqrt_def zero_of_def)

lemma sample_sqrt_mono: "sqrt_monotone sample_math"
  unfolding sqrt_monotone_def
proof (intro allI impI)
  fix x y :: jsnum
  assume xy: "Fin 0 \<le> x" "x \<le> y"
  have nz: "NegZero \<le> sample_sqrt (Fin q)" if "0 \<le> q" for q
    using sample_sqrt_Fin_mono [of 0 q] that by (simp add: sample_sqrt_def zero_of_def) (cases "mk False (of_int \<lfloor>sqrt (real_of_rat q) * 1048576\<rfloor> / 1048576)"; simp)
  have nz': "sample_sqrt (Fin q) \<le> NegZero" if "q = 0" for q
    using that by (simp add: sample_sqrt_zero)
  have "sample_sqrt x \<le> sample_sqrt y"
    using xy sample_sqrt_Fin_mono nz nz'
    by (cases x; cases y) (auto simp: sample_sqrt_def [of PInf] sample_sqrt_def [of NegZero] simp: sample_sqrt_def)
  then show "Math_sqrt sample_math x \<le> Math_sqrt sample_math y" by (simp add: sample_math_def)
qed

end
