(* ===== verification/Labeling.thy ===== *)
theory Labeling
  imports JsString
begin

text \<open>
  The labeling studio: its data contract (\<open>pages/labeling-studio/types.ts\<close>) and the decision
  recommendation shown to the reviewer (\<open>components/recommendation.ts\<close>). The recommendation
  is a cascade of scientific checks over the model's suggestion and the review evidence; the
  lemmas say which evidence each suggested label rests on, that label, reason and confidence
  texts always belong together, and exactly when nothing is recommended.
\<close>

section \<open>Data\<close>

record ScientificReviewEvidence =
  n_points :: jsnum
  time_span_days :: jsnum
  sector_baseline_days :: jsnum
  sector_coverage_percent :: jsnum
  largest_gap_hours :: jsnum
  median_cadence_minutes :: jsnum
  flux_std_ppm :: jsnum
  flux_amplitude_ppm :: jsnum
  median_flux_err_ppm :: jsnum
  bls_available :: bool
  bls_period_days :: jsnum
  bls_duration_hours :: jsnum
  bls_transit_time_btjd :: jsnum
  bls_depth_ppm :: jsnum
  bls_power :: jsnum
  variability_peak_fraction :: jsnum
  transit_evidence_available :: bool
  transit_deficit_sum :: jsnum
  centroid_offset_pixels :: jsnum
  transit_deficit_center_offset_pixels :: "jsnum option"
  centroid_row :: "jsnum option"
  centroid_col :: "jsnum option"
  tmag :: "jsnum option"
  teff :: "jsnum option"
  stellar_radius :: "jsnum option"
  stellar_mass :: "jsnum option"
  logg :: "jsnum option"
  toi_match_status :: str
  matched_toi_id :: str

record LightcurveSeries =
  lcs_time :: "jsnum list"
  lcs_flux :: "jsnum list"

record ModelSuggestion =
  candidate_score :: jsnum
  decision_threshold :: jsnum
  above_threshold :: bool
  ms_model_id :: str
  ms_model_version :: str
  ms_runtime_package_id :: str
  ms_predicted_at :: str

datatype training_label = POSITIVE | NEGATIVE | UNRESOLVED

record LabelingTargetDetail = ScientificReviewEvidence +
  td_snapshot_id :: str
  td_source_product_id :: str
  td_tic_id :: jsnum
  td_sector :: jsnum
  td_training_label :: training_label
  td_label_source :: str
  td_review_status :: str
  td_review_reason :: "str option"
  td_confidence :: jsnum
  td_prediction_available :: "bool option"
  td_candidate_score :: "jsnum option"
  td_decision_threshold :: "jsnum option"
  td_above_threshold :: "bool option"
  td_model_id :: "str option"
  td_model_version :: "str option"
  td_runtime_package_id :: "str option"
  td_predicted_at :: "str option"

record LabelingSnapshotItem =
  lsi_snapshot_id :: str
  lsi_last_modified :: str
  lsi_size_bytes :: jsnum
  lsi_row_count :: "jsnum option"

record LabelingSnapshotsResponse =
  lsr_snapshots :: "LabelingSnapshotItem list"

datatype confidence = Conf09 | Conf07 | Conf05

record AIDecisionRecommendation =
  suggestedLabel :: training_label
  suggestedReason :: str
  suggestedReasonLabel :: str
  suggestedConfidence :: confidence
  confidenceLabel :: str
  rationale :: str
  keyFactors :: "str list"

record LabelingCohortDisposition =
  cd_total_rows :: jsnum
  cd_positive_rows :: jsnum
  cd_negative_rows :: jsnum
  cd_unresolved_rows :: jsnum
  cd_positive_targets :: jsnum
  cd_negative_targets :: jsnum

record LabelingQueueSummaryItem =
  qi_snapshot_id :: str
  qi_source_product_id :: str
  qi_tic_id :: jsnum
  qi_sector :: jsnum
  qi_bls_power :: jsnum
  qi_toi_match_status :: str
  qi_matched_toi_id :: "str option"
  qi_candidate_score :: "jsnum option"
  qi_above_threshold :: "bool option"

record LabelingQueue =
  lq_items :: "LabelingQueueSummaryItem list"
  lq_total_count :: jsnum
  lq_limit :: jsnum
  lq_offset :: jsnum
  lq_has_more :: bool

record LabelingCohortWorkspace =
  cw_disposition :: LabelingCohortDisposition
  cw_queue :: LabelingQueue

datatype readiness_tier = BLOCKED | EXPERIMENTAL | PRODUCTION_CANDIDATE

record TrainingReadiness =
  tr_total_rows :: jsnum
  tr_positive_rows :: jsnum
  tr_negative_rows :: jsnum
  tr_unresolved_rows :: jsnum
  tr_positive_targets :: jsnum
  tr_negative_targets :: jsnum
  tr_ready :: bool
  tr_tier :: readiness_tier
  tr_policy_version :: str
  tr_experimental_minimum_positive_targets :: jsnum
  tr_experimental_minimum_negative_targets :: jsnum
  tr_production_candidate_minimum_positive_targets :: jsnum
  tr_production_candidate_minimum_negative_targets :: jsnum
  tr_negative_diversity_target :: jsnum
  tr_negative_diversity_target_met :: bool

record decision_basis =
  db_value :: str
  db_label :: str
  db_description :: str

definition DECISION_BASIS_OPTIONS :: "decision_basis list" where
  "DECISION_BASIS_OPTIONS = [
    \<lparr>db_value = (u ''PERIODIC_TRANSIT_SHAPE''), db_label = (u ''Periodic transit shape''), db_description = (ue ''D~1EA1ng qu~00E1 c~1EA3nh ch~1EEF U ~0111~1ECBnh k~1EF3 r~00F5 n~00E9t'')\<rparr>,
    \<lparr>db_value = (u ''CATALOG_CONFIRMED''), db_label = (u ''Catalog-confirmed target''), db_description = (ue ''Tr~00F9ng kh~1EDBp m~1EE5c ti~00EAu ~0111~00E3 x~00E1c nh~1EADn trong TOI'')\<rparr>,
    \<lparr>db_value = (u ''COHERENT_BLS_SIGNAL''), db_label = (u ''Coherent BLS signal''), db_description = (ue ''T~00EDn hi~1EC7u BLS ~0111~1ED3ng pha m~1EA1ch l~1EA1c cao'')\<rparr>,
    \<lparr>db_value = (u ''ECLIPSING_BINARY''), db_label = (u ''Eclipsing-binary signature''), db_description = (ue ''~0110~1ED9 s~00E2u qu~00E1 c~1EA3nh l~1EDBn, d~1EA5u hi~1EC7u h~1EC7 sao ~0111~00F4i'')\<rparr>,
    \<lparr>db_value = (u ''STELLAR_VARIABILITY''), db_label = (u ''Stellar variability''), db_description = (ue ''Quang th~00F4ng bi~1EBFn thi~00EAn t~1EF1 nhi~00EAn c~1EE7a sao'')\<rparr>,
    \<lparr>db_value = (u ''CENTROID_CONTAMINATION''), db_label = (u ''Centroid contamination''), db_description = (ue ''~0110~1ED9 l~1EC7ch t~00E2m kh~1ED1i l~1EDBn, nhi~1EC5m quang sao n~1EC1n'')\<rparr>,
    \<lparr>db_value = (u ''INSTRUMENTAL_SYSTEMATIC''), db_label = (u ''Instrumental systematic''), db_description = (ue ''Nhi~1EC5u thi~1EBFt b~1ECB ho~1EB7c tr~00F4i ph~00F4ng ~0111o l~01B0~1EDDng'')\<rparr>,
    \<lparr>db_value = (u ''INSUFFICIENT_EVIDENCE''), db_label = (u ''Insufficient evidence''), db_description = (ue ''D~1EEF li~1EC7u qu~00E1 th~01B0a ho~1EB7c kho~1EA3ng tr~1ED1ng l~1EDBn'')\<rparr>]"

record confidence_option =
  co_value :: confidence
  co_label :: str
  co_tier :: str

definition CONFIDENCE_OPTIONS :: "confidence_option list" where
  "CONFIDENCE_OPTIONS = [
    \<lparr>co_value = Conf09, co_label = (ue ''High ~00B7 90%''), co_tier = (ue ''~0110~1ED9 tin c~1EADy cao (High)'')\<rparr>,
    \<lparr>co_value = Conf07, co_label = (ue ''Medium ~00B7 70%''), co_tier = (ue ''~0110~1ED9 tin c~1EADy trung b~00ECnh (Medium)'')\<rparr>,
    \<lparr>co_value = Conf05, co_label = (ue ''Low ~00B7 50%''), co_tier = (ue ''~0110~1ED9 tin c~1EADy th~1EA5p / Th~1EADn tr~1ECDng (Low)'')\<rparr>]"

section \<open>The recommendation\<close>

definition percentage :: "jsnum \<Rightarrow> str" where
  "percentage value = (if isFinite value then toFixed (value * lit 100) 1 @ u ''%'' else emdash)"

definition number :: "host \<Rightarrow> jsnum \<Rightarrow> nat \<Rightarrow> str" where
  "number h value digits = (if isFinite value then number_locale h (Some digits) value else emdash)"

definition validToiId :: "ScientificReviewEvidence \<Rightarrow> str" where
  "validToiId ev =
     (if matched_toi_id ev \<noteq> [] \<and> trim (matched_toi_id ev) \<noteq> [] \<and>
         matched_toi_id ev \<noteq> u ''NO_TOI_FOR_TARGET''
      then trim (matched_toi_id ev) else [])"

definition isCatalogConfirmed :: "ScientificReviewEvidence \<Rightarrow> bool" where
  "isCatalogConfirmed ev =
     (let toiStatus = toUpperCase (toi_match_status ev) in
      validToiId ev \<noteq> [] \<and>
      (toiStatus = u ''EPHEMERIS_MATCH'' \<or> toiStatus = u ''MATCHED'' \<or> toiStatus = u ''CONFIRMED''))"

text \<open>The planet radius in Jupiter radii implied by the transit depth and the stellar radius.\<close>

definition rPlanetJup :: "mathlib \<Rightarrow> ScientificReviewEvidence \<Rightarrow> jsnum \<Rightarrow> jsnum" where
  "rPlanetJup m ev sr =
     (let delta = bls_depth_ppm ev / lit 1000000;
          rPlanetEarth = Math_sqrt m (Math_max (lit 0) delta) * sr * lit (1092/10)
      in rPlanetEarth / lit (11209/1000))"

definition conf_text :: "bool \<Rightarrow> str" where
  "conf_text high = (if high then (ue ''High ~00B7 90%'') else (ue ''Medium ~00B7 70%''))"

definition high_or_medium :: "bool \<Rightarrow> confidence" where
  "high_or_medium high = (if high then Conf09 else Conf07)"

definition catalog_recommendation ::
    "host \<Rightarrow> ModelSuggestion option \<Rightarrow> ScientificReviewEvidence \<Rightarrow> AIDecisionRecommendation" where
  "catalog_recommendation h sg ev =
     \<lparr>suggestedLabel = POSITIVE, suggestedReason = (u ''CATALOG_CONFIRMED''),
      suggestedReasonLabel = (u ''Catalog-confirmed target''), suggestedConfidence = Conf09,
      confidenceLabel = (ue ''High ~00B7 90%''),
      rationale = (ue ''Tr~00F9ng kh~1EDBp m~1EE5c ti~00EAu trong danh m~1EE5c TOI ('' @ validToiId ev @ ue '') v~1EDBi chu k~1EF3 ~0111~1ED3ng pha x~00E1c nh~1EADn. ~0110i~1EC3m t~00EDn hi~1EC7u v~00E0 t~1ECDa ~0111~1ED9 ph~00F9 h~1EE3p ~1EE9ng vi~00EAn ~0111~00E3 c~00F4ng b~1ED1.''),
      keyFactors = [
        (u ''TOI: '' @ validToiId ev),
        (u ''BLS Power: '' @ number h (bls_power ev) 2),
        (u ''Score: '' @ (case sg of Some s \<Rightarrow> percentage (candidate_score s) | None \<Rightarrow> u ''N/A''))]\<rparr>"

text \<open>The check against the physical size limit of a planet; \<open>None\<close> when it does not apply.\<close>

definition radius_violation :: "mathlib \<Rightarrow> ScientificReviewEvidence \<Rightarrow> (jsnum \<times> jsnum) option" where
  "radius_violation m ev = (case stellar_radius ev of None \<Rightarrow> None
     | Some sr \<Rightarrow>
         if truthy sr \<and> lit 0 < sr \<and> lit 0 < bls_depth_ppm ev \<and> lit (5/2) < rPlanetJup m ev sr
         then Some (rPlanetJup m ev sr, sr) else None)"

definition above_recommendation ::
    "host \<Rightarrow> mathlib \<Rightarrow> ModelSuggestion \<Rightarrow> ScientificReviewEvidence \<Rightarrow> AIDecisionRecommendation" where
  "above_recommendation h m s ev =
     (case radius_violation m ev of
       Some (rj, sr) \<Rightarrow>
        \<lparr>suggestedLabel = NEGATIVE, suggestedReason = (u ''ECLIPSING_BINARY''),
         suggestedReasonLabel = (u ''Eclipsing-binary signature''), suggestedConfidence = Conf09,
         confidenceLabel = (ue ''High ~00B7 90%''),
         rationale = (ue ''K~00EDch th~01B0~1EDBc thi~00EAn th~1EC3 t~00EDnh to~00E1n ('' @ number h rj 2 @ ue '' R_Jup > 2.5 R_Jup) v~01B0~1EE3t ng~01B0~1EE1ng v~1EADt l~00FD t~1ED1i ~0111a c~1EE7a h~00E0nh tinh kh~00ED, l~00E0 h~1EC7 sao ~0111~00F4i che nhau (EB).''),
         keyFactors = [
           (u ''Planet Radius: '' @ number h rj 2 @ ue '' R_Jup (Phi v~1EADt l~00FD)''),
           (u ''Stellar Radius: '' @ number h sr 2 @ ue '' R_~2609''),
           (u ''BLS Depth: '' @ number h (bls_depth_ppm ev) 2 @ u '' ppm'')]\<rparr>
     | None \<Rightarrow>
       if lit (5/2) \<le> centroid_offset_pixels ev then
        \<lparr>suggestedLabel = NEGATIVE, suggestedReason = (u ''CENTROID_CONTAMINATION''),
         suggestedReasonLabel = (u ''Centroid contamination''),
         suggestedConfidence = high_or_medium (lit 4 \<le> centroid_offset_pixels ev),
         confidenceLabel = conf_text (lit 4 \<le> centroid_offset_pixels ev),
         rationale = (ue ''~0110i~1EC3m AI cao ('' @ percentage (candidate_score s) @ ue '') nh~01B0ng ~0111~1ED9 l~1EC7ch t~00E2m kh~1ED1i l~1EDBn ('' @ number h (centroid_offset_pixels ev) 2 @ ue '' px ~2265 2.5 px), nghi ng~1EDD nhi~1EC5m quang t~1EEB ngu~1ED3n l~00E2n c~1EADn.''),
         keyFactors = [
           (u ''Centroid offset: '' @ number h (centroid_offset_pixels ev) 2 @ ue '' px (L~1EC7ch cao)''),
           (u ''Transit deficit offset: '' @ number h (nullish (transit_deficit_center_offset_pixels ev) (lit 0)) 2 @ u '' px''),
           (u ''AI Score: '' @ percentage (candidate_score s))]\<rparr>
       else if lit 35000 < bls_depth_ppm ev then
        \<lparr>suggestedLabel = NEGATIVE, suggestedReason = (u ''ECLIPSING_BINARY''),
         suggestedReasonLabel = (u ''Eclipsing-binary signature''),
         suggestedConfidence = high_or_medium (lit 50000 < bls_depth_ppm ev),
         confidenceLabel = conf_text (lit 50000 < bls_depth_ppm ev),
         rationale = (ue ''~0110~1ED9 s~00E2u qu~00E1 c~1EA3nh l~1EDBn ('' @ number h (bls_depth_ppm ev) 2 @ ue '' ppm > 3.5%), g~1EE3i ~00FD k~00EDch th~01B0~1EDBc che khu~1EA5t c~1EE7a h~1EC7 sao ~0111~00F4i che nhau (EB).''),
         keyFactors = [
           (u ''BLS Depth: '' @ number h (bls_depth_ppm ev) 2 @ u '' ppm''),
           (u ''Period: '' @ number h (bls_period_days ev) 4 @ u '' d''),
           (u ''AI Score: '' @ percentage (candidate_score s))]\<rparr>
       else if transit_evidence_available ev \<and> centroid_offset_pixels ev < lit (3/2) \<and> lit 7 \<le> bls_power ev then
        (let isHighConf = (lit (82/100) \<le> candidate_score s \<and> centroid_offset_pixels ev < lit 1) in
        \<lparr>suggestedLabel = POSITIVE, suggestedReason = (u ''PERIODIC_TRANSIT_SHAPE''),
         suggestedReasonLabel = (u ''Periodic transit shape''),
         suggestedConfidence = high_or_medium isHighConf, confidenceLabel = conf_text isHighConf,
         rationale = (ue ''~0110~01B0~1EDDng cong ~00E1nh s~00E1ng c~00F3 h~00ECnh d~1EA1ng qu~00E1 c~1EA3nh ch~1EEF U ~0111~1ECBnh k~1EF3 r~00F5 n~00E9t (chu k~1EF3 '' @ number h (bls_period_days ev) 4 @ ue '' d, s~00E2u '' @ number h (bls_depth_ppm ev) 2 @ ue '' ppm), t~00E2m quang h~1ECDc ~1ED5n ~0111~1ECBnh ('' @ number h (centroid_offset_pixels ev) 2 @ u '' px).''),
         keyFactors = [
           (u ''Period: '' @ number h (bls_period_days ev) 4 @ u '' d''),
           (u ''Depth: '' @ number h (bls_depth_ppm ev) 2 @ u '' ppm''),
           (u ''Centroid: '' @ number h (centroid_offset_pixels ev) 2 @ u '' px''),
           (u ''BLS Power: '' @ number h (bls_power ev) 2)]\<rparr>)
       else
        (let isHighConf = (lit (85/100) \<le> candidate_score s \<and> lit 12 \<le> bls_power ev) in
        \<lparr>suggestedLabel = POSITIVE, suggestedReason = (u ''COHERENT_BLS_SIGNAL''),
         suggestedReasonLabel = (u ''Coherent BLS signal''),
         suggestedConfidence = high_or_medium isHighConf, confidenceLabel = conf_text isHighConf,
         rationale = (ue ''T~00EDn hi~1EC7u BLS ~0111~1ED3ng pha m~1EA1ch l~1EA1c (power = '' @ number h (bls_power ev) 2 @ ue ''), v~01B0~1EE3t ng~01B0~1EE1ng tin c~1EADy c~1EE7a m~00F4 h~00ECnh ('' @ percentage (decision_threshold s) @ u '').''),
         keyFactors = [
           (u ''BLS Power: '' @ number h (bls_power ev) 2),
           (u ''AI Score: '' @ percentage (candidate_score s)),
           (u ''Threshold: '' @ percentage (decision_threshold s))]\<rparr>))"

definition below_recommendation ::
    "host \<Rightarrow> ModelSuggestion \<Rightarrow> ScientificReviewEvidence \<Rightarrow> AIDecisionRecommendation" where
  "below_recommendation h s ev =
     (if lit 35000 < bls_depth_ppm ev then
        \<lparr>suggestedLabel = NEGATIVE, suggestedReason = (u ''ECLIPSING_BINARY''),
         suggestedReasonLabel = (u ''Eclipsing-binary signature''), suggestedConfidence = Conf09,
         confidenceLabel = (ue ''High ~00B7 90%''),
         rationale = (ue ''~0110~1ED9 s~00E2u suy gi~1EA3m quang th~00F4ng c~1EF1c ~0111~1EA1i ('' @ number h (bls_depth_ppm ev) 2 @ ue '' ppm) v~01B0~1EE3t ng~01B0~1EE1ng b~00E1n k~00EDnh h~00E0nh tinh v~1EADt l~00FD, ~0111i~1EC3n h~00ECnh c~1EE7a h~1EC7 sao ~0111~00F4i.''),
         keyFactors = [
           (u ''BLS Depth: '' @ number h (bls_depth_ppm ev) 2 @ u '' ppm''),
           (u ''AI Score: '' @ percentage (candidate_score s))]\<rparr>
      else if lit 2 \<le> centroid_offset_pixels ev then
        \<lparr>suggestedLabel = NEGATIVE, suggestedReason = (u ''CENTROID_CONTAMINATION''),
         suggestedReasonLabel = (u ''Centroid contamination''),
         suggestedConfidence = high_or_medium (lit 3 \<le> centroid_offset_pixels ev),
         confidenceLabel = conf_text (lit 3 \<le> centroid_offset_pixels ev),
         rationale = (ue ''T~00E2m ngu~1ED3n s~00E1ng b~1ECB l~1EC7ch ~0111~00E1ng k~1EC3 ('' @ number h (centroid_offset_pixels ev) 2 @ ue '' px) khi c~00F3 s~1EF1 ki~1EC7n dip, t~00EDn hi~1EC7u b~1EAFt ngu~1ED3n t~1EEB sao n~1EC1n l~00E2n c~1EADn.''),
         keyFactors = [
           (u ''Centroid offset: '' @ number h (centroid_offset_pixels ev) 2 @ u '' px''),
           (u ''Deficit offset: '' @ number h (nullish (transit_deficit_center_offset_pixels ev) (lit 0)) 2 @ u '' px'')]\<rparr>
      else if lit (35/100) < variability_peak_fraction ev \<or> lit 12000 < flux_std_ppm ev then
        \<lparr>suggestedLabel = NEGATIVE, suggestedReason = (u ''STELLAR_VARIABILITY''),
         suggestedReasonLabel = (u ''Stellar variability''), suggestedConfidence = Conf07,
         confidenceLabel = (ue ''Medium ~00B7 70%''),
         rationale = (ue ''Bi~1EBFn thi~00EAn quang th~00F4ng n~1EC1n cao (~0111~1ED9 ph~00E2n t~00E1n '' @ number h (flux_std_ppm ev) 2 @ ue '' ppm, ph~00E2n ~0111o~1EA1n ~0111~1EC9nh '' @ percentage (variability_peak_fraction ev) @ ue ''), t~00EDn hi~1EC7u do sao ch~1EE7 bi~1EBFn quang.''),
         keyFactors = [
           (u ''Flux std: '' @ number h (flux_std_ppm ev) 2 @ u '' ppm''),
           (u ''Peak fraction: '' @ percentage (variability_peak_fraction ev))]\<rparr>
      else if n_points ev < lit 1200 \<or> lit 72 < largest_gap_hours ev then
        \<lparr>suggestedLabel = UNRESOLVED, suggestedReason = (u ''INSUFFICIENT_EVIDENCE''),
         suggestedReasonLabel = (u ''Insufficient evidence''), suggestedConfidence = Conf05,
         confidenceLabel = (ue ''Low ~00B7 50%''),
         rationale = (ue ''Kho~1EA3ng tr~1ED1ng d~1EEF li~1EC7u l~1EDBn ('' @ number h (largest_gap_hours ev) 1 @ ue '' h) ho~1EB7c s~1ED1 ~0111i~1EC3m ~0111o ('' @ num_str (n_points ev) @ ue '') kh~00F4ng ~0111~1EE7 ~0111~1EC3 kh~1EB3ng ~0111~1ECBnh chu k~1EF3 qu~00E1 c~1EA3nh.''),
         keyFactors = [
           (u ''Cadences: '' @ number_locale h None (n_points ev)),
           (u ''Largest gap: '' @ number h (largest_gap_hours ev) 1 @ u '' h'')]\<rparr>
      else
        (let isLowScore = (candidate_score s < lit (25/100)) in
        \<lparr>suggestedLabel = NEGATIVE, suggestedReason = (u ''INSTRUMENTAL_SYSTEMATIC''),
         suggestedReasonLabel = (u ''Instrumental systematic''),
         suggestedConfidence = high_or_medium isLowScore, confidenceLabel = conf_text isLowScore,
         rationale = (ue ''~0110i~1EC3m s~1ED1 m~00F4 h~00ECnh ('' @ percentage (candidate_score s) @ ue '') d~01B0~1EDBi ng~01B0~1EE1ng ('' @ percentage (decision_threshold s) @ ue ''), t~00EDn hi~1EC7u y~1EBFu ho~1EB7c do tr~00F4i ph~00F4ng thi~1EBFt b~1ECB.''),
         keyFactors = [
           (u ''AI Score: '' @ percentage (candidate_score s)),
           (u ''BLS Power: '' @ number h (bls_power ev) 2)]\<rparr>))"

definition fallback_recommendation ::
    "host \<Rightarrow> ScientificReviewEvidence \<Rightarrow> AIDecisionRecommendation option" where
  "fallback_recommendation h ev =
     (if bls_available ev \<and> lit 10 < bls_power ev then Some
        \<lparr>suggestedLabel = POSITIVE, suggestedReason = (u ''COHERENT_BLS_SIGNAL''),
         suggestedReasonLabel = (u ''Coherent BLS signal''), suggestedConfidence = Conf07,
         confidenceLabel = (ue ''Medium ~00B7 70%''),
         rationale = (ue ''T~00EDn hi~1EC7u BLS ~0111~1EA1t ~0111~1ED9 tin c~1EADy m~1EA1nh ('' @ number h (bls_power ev) 2 @ ue ''), ~0111~1EC1 xu~1EA5t ki~1EC3m tra kh~1EA3 n~0103ng c~00F3 qu~00E1 c~1EA3nh h~00E0nh tinh.''),
         keyFactors = [(u ''BLS Power: '' @ number h (bls_power ev) 2)]\<rparr>
      else None)"

definition computeRecommendation ::
    "host \<Rightarrow> mathlib \<Rightarrow> ModelSuggestion option \<Rightarrow> ScientificReviewEvidence option \<Rightarrow> AIDecisionRecommendation option" where
  "computeRecommendation h m suggestion evidence = (case evidence of None \<Rightarrow> None
     | Some ev \<Rightarrow>
       if isCatalogConfirmed ev then Some (catalog_recommendation h suggestion ev)
       else case suggestion of
         Some s \<Rightarrow> Some (if above_threshold s then above_recommendation h m s ev
                          else below_recommendation h s ev)
       | None \<Rightarrow> fallback_recommendation h ev)"

section \<open>What the recommendation promises\<close>

text \<open>
  A recommendation is coherent when its reason is one of the reviewer's decision bases with
  that basis's label, and its confidence one of the confidence options with that option's label.
\<close>

definition coherent :: "AIDecisionRecommendation \<Rightarrow> bool" where
  "coherent r \<longleftrightarrow>
     (\<exists>b\<in>set DECISION_BASIS_OPTIONS. db_value b = suggestedReason r \<and> db_label b = suggestedReasonLabel r) \<and>
     (\<exists>c\<in>set CONFIDENCE_OPTIONS. co_value c = suggestedConfidence r \<and> co_label c = confidenceLabel r)"

lemmas recommendation_defs = catalog_recommendation_def above_recommendation_def
  below_recommendation_def fallback_recommendation_def

lemma conf_coherent:
  "\<exists>c\<in>set CONFIDENCE_OPTIONS. co_value c = high_or_medium b \<and> co_label c = conf_text b"
  by (simp add: CONFIDENCE_OPTIONS_def high_or_medium_def conf_text_def)

lemma conf_fixed_coherent:
  "\<exists>c\<in>set CONFIDENCE_OPTIONS. co_value c = Conf09 \<and> co_label c = (ue ''High ~00B7 90%'')"
  "\<exists>c\<in>set CONFIDENCE_OPTIONS. co_value c = Conf07 \<and> co_label c = (ue ''Medium ~00B7 70%'')"
  "\<exists>c\<in>set CONFIDENCE_OPTIONS. co_value c = Conf05 \<and> co_label c = (ue ''Low ~00B7 50%'')"
  by (simp_all add: CONFIDENCE_OPTIONS_def)

lemma basis_coherent:
  "\<exists>b\<in>set DECISION_BASIS_OPTIONS. db_value b = (u ''PERIODIC_TRANSIT_SHAPE'') \<and> db_label b = (u ''Periodic transit shape'')"
  "\<exists>b\<in>set DECISION_BASIS_OPTIONS. db_value b = (u ''CATALOG_CONFIRMED'') \<and> db_label b = (u ''Catalog-confirmed target'')"
  "\<exists>b\<in>set DECISION_BASIS_OPTIONS. db_value b = (u ''COHERENT_BLS_SIGNAL'') \<and> db_label b = (u ''Coherent BLS signal'')"
  "\<exists>b\<in>set DECISION_BASIS_OPTIONS. db_value b = (u ''ECLIPSING_BINARY'') \<and> db_label b = (u ''Eclipsing-binary signature'')"
  "\<exists>b\<in>set DECISION_BASIS_OPTIONS. db_value b = (u ''STELLAR_VARIABILITY'') \<and> db_label b = (u ''Stellar variability'')"
  "\<exists>b\<in>set DECISION_BASIS_OPTIONS. db_value b = (u ''CENTROID_CONTAMINATION'') \<and> db_label b = (u ''Centroid contamination'')"
  "\<exists>b\<in>set DECISION_BASIS_OPTIONS. db_value b = (u ''INSTRUMENTAL_SYSTEMATIC'') \<and> db_label b = (u ''Instrumental systematic'')"
  "\<exists>b\<in>set DECISION_BASIS_OPTIONS. db_value b = (u ''INSUFFICIENT_EVIDENCE'') \<and> db_label b = (u ''Insufficient evidence'')"
  by (simp_all add: DECISION_BASIS_OPTIONS_def del: ue.simps)

lemmas coherent_intros = conf_coherent conf_fixed_coherent basis_coherent

text \<open>
  The texts of a recommendation do not take part in the case analysis: the facts below read
  the relevant fields off the record, so that the proofs never look into the prose.
\<close>

lemma coherent_make:
  "coherent \<lparr>suggestedLabel = a, suggestedReason = b, suggestedReasonLabel = c,
     suggestedConfidence = d, confidenceLabel = e, rationale = f, keyFactors = g\<rparr> \<longleftrightarrow>
   (\<exists>x\<in>set DECISION_BASIS_OPTIONS. db_value x = b \<and> db_label x = c) \<and>
   (\<exists>x\<in>set CONFIDENCE_OPTIONS. co_value x = d \<and> co_label x = e)"
  by (simp add: coherent_def)

lemmas make_simps = coherent_make AIDecisionRecommendation.select_convs(1) Let_def if_True if_False
  simp_thms HOL.refl training_label.distinct option.case prod.case

lemma catalog_coherent: "coherent (catalog_recommendation h sg ev)"
  by (simp only: catalog_recommendation_def coherent_intros make_simps)

lemma above_coherent: "coherent (above_recommendation h m s ev)"
  by (simp only: above_recommendation_def coherent_intros make_simps split: option.split if_split prod.split)

lemma below_coherent: "coherent (below_recommendation h s ev)"
  by (simp only: below_recommendation_def coherent_intros make_simps split: if_split)

lemma fallback_coherent: "fallback_recommendation h ev = Some r \<Longrightarrow> coherent r"
  unfolding fallback_recommendation_def
  by (cases "bls_available ev \<and> lit 10 < bls_power ev")
     (simp_all only: if_True if_False option.inject option.distinct simp_thms,
      clarify, simp only: coherent_intros make_simps)

lemma above_label:
  "suggestedLabel (above_recommendation h m s ev) = POSITIVE \<longleftrightarrow>
     radius_violation m ev = None \<and> \<not> lit (5/2) \<le> centroid_offset_pixels ev \<and>
     \<not> lit 35000 < bls_depth_ppm ev"
  by (simp only: above_recommendation_def make_simps option.distinct split: option.split if_split prod.split) auto

lemma below_label: "suggestedLabel (below_recommendation h s ev) \<noteq> POSITIVE"
  by (simp only: below_recommendation_def make_simps split: if_split)

lemma catalog_label: "suggestedLabel (catalog_recommendation h sg ev) = POSITIVE"
  by (simp only: catalog_recommendation_def make_simps)

definition sample_evidence :: ScientificReviewEvidence where
  "sample_evidence = \<lparr>n_points = lit 2000, time_span_days = lit 27, sector_baseline_days = lit 27,
     sector_coverage_percent = lit 95, largest_gap_hours = lit 10, median_cadence_minutes = lit 2,
     flux_std_ppm = lit 500, flux_amplitude_ppm = lit 900, median_flux_err_ppm = lit 100, bls_available = True,
     bls_period_days = lit 10, bls_duration_hours = lit 3, bls_transit_time_btjd = lit 1500, bls_depth_ppm = lit 1000,
     bls_power = lit 15, variability_peak_fraction = lit 0, transit_evidence_available = True,
     transit_deficit_sum = lit 1, centroid_offset_pixels = lit 1, transit_deficit_center_offset_pixels = None,
     centroid_row = None, centroid_col = None, tmag = None, teff = None, stellar_radius = None,
     stellar_mass = None, logg = None, toi_match_status = [], matched_toi_id = []\<rparr>"

definition sample_suggestion :: ModelSuggestion where
  "sample_suggestion = \<lparr>candidate_score = lit (9 / 10), decision_threshold = lit (1 / 2), above_threshold = True,
     ms_model_id = [], ms_model_version = [], ms_runtime_package_id = [], ms_predicted_at = []\<rparr>"

lemma sample_not_confirmed: "\<not> isCatalogConfirmed sample_evidence"
  by (simp add: isCatalogConfirmed_def validToiId_def sample_evidence_def)

section \<open>Properties\<close>

text \<open>
  Every recommendation the studio shows is coherent: its reason and reason label are one
  of the decision bases the reviewer can choose, and its confidence and confidence label one
  of the confidence options, on every branch of the cascade.
\<close>

theorem recommendation_coherent:
  "computeRecommendation h m sg ev = Some r \<Longrightarrow> coherent r"
  by (auto simp: computeRecommendation_def catalog_coherent above_coherent below_coherent
      dest: fallback_coherent split: option.splits if_splits)

theorem recommendation_coherent_witness:
  "coherent (above_recommendation sample_host sample_math sample_suggestion sample_evidence)"
  by (rule recommendation_coherent [of sample_host sample_math "Some sample_suggestion" "Some sample_evidence"])
     (simp add: computeRecommendation_def sample_not_confirmed sample_suggestion_def)



text \<open>
  Nothing is recommended exactly when there is no evidence, or there is neither a catalog
  confirmation nor a model suggestion nor a strong available BLS signal.
\<close>

theorem recommendation_none_iff:
  "computeRecommendation h m sg ev = None \<longleftrightarrow>
     (case ev of None \<Rightarrow> True
      | Some e \<Rightarrow> \<not> isCatalogConfirmed e \<and> sg = None \<and> \<not> (bls_available e \<and> lit 10 < bls_power e))"
  by (simp add: computeRecommendation_def fallback_recommendation_def split: option.split)

end
