(* ===== verification/JsValue.thy ===== *)
theory JsValue
  imports JsString
begin

text \<open>
  Untyped values the pages receive from the network and from local storage, the ordered maps
  of the language (\<open>Map\<close>, and objects used as string-keyed records), and the fetch wrapper
  of \<open>lib/api.ts\<close>. \<open>Map.set\<close> on a present key keeps its place, on a new key appends: the
  association-list update of the library. The interface the clients use is the locale
  \<open>js_map\<close>.
\<close>

section \<open>Ordered maps\<close>

locale js_map =
  fixes set_key :: "'k \<Rightarrow> 'v \<Rightarrow> 'm \<Rightarrow> 'm" and delete_key :: "'k \<Rightarrow> 'm \<Rightarrow> 'm"
    and get_key :: "'m \<Rightarrow> 'k \<Rightarrow> 'v option" and keys_of :: "'m \<Rightarrow> 'k list" and new_map :: 'm
  assumes get_set: "get_key (set_key k v m) k' = (if k' = k then Some v else get_key m k')"
    and get_delete: "distinct (keys_of m) \<Longrightarrow>
      get_key (delete_key k m) k' = (if k' = k then None else get_key m k')"
    and get_new: "get_key new_map k = None"
    and keys_set: "keys_of (set_key k v m) = (if k \<in> set (keys_of m) then keys_of m else keys_of m @ [k])"
    and keys_delete: "keys_of (delete_key k m) = removeAll k (keys_of m)"
    and keys_new: "keys_of new_map = []"
begin

lemma distinct_set: "distinct (keys_of m) \<Longrightarrow> distinct (keys_of (set_key k v m))"
  by (simp add: keys_set)

lemma distinct_delete: "distinct (keys_of m) \<Longrightarrow> distinct (keys_of (delete_key k m))"
  by (simp add: keys_delete distinct_removeAll)

text \<open>Filling a map from a list: keys stay distinct and the last value of a key wins.\<close>

lemma distinct_fold:
  "distinct (keys_of m) \<Longrightarrow> distinct (keys_of (fold (\<lambda>x. set_key (f x) (g x)) xs m))"
  by (induction xs arbitrary: m) (auto intro: distinct_set)

lemma keys_fold: "set (keys_of (fold (\<lambda>x. set_key (f x) (g x)) xs m)) = set (keys_of m) \<union> f ` set xs"
  by (induction xs arbitrary: m) (auto simp: keys_set)

lemma get_fold_notin: "k \<notin> f ` set xs \<Longrightarrow> get_key (fold (\<lambda>x. set_key (f x) (g x)) xs m) k = get_key m k"
  by (induction xs arbitrary: m) (auto simp: get_set)

lemma get_fold_last:
  "get_key (fold (\<lambda>x. set_key (f x) (g x)) (xs @ x # ys) m) (f x) =
     (if f x \<in> f ` set ys then get_key (fold (\<lambda>x. set_key (f x) (g x)) ys m) (f x) else Some (g x))"
proof (cases "f x \<in> f ` set ys")
  case True
  have "get_key (fold (\<lambda>x. set_key (f x) (g x)) ys m1) (f x) = get_key (fold (\<lambda>x. set_key (f x) (g x)) ys m2) (f x)"
    for m1 m2
    using True
  proof (induction ys arbitrary: m1 m2)
    case (Cons y ys)
    then show ?case
      by (cases "f x \<in> f ` set ys") (auto simp: get_fold_notin get_set)
  qed simp
  then show ?thesis using True by simp
next
  case False
  then show ?thesis by (simp add: get_fold_notin get_set)
qed

end

interpretation amap: js_map AList.update AList.delete map_of "map fst" "[]"
proof unfold_locales
  fix k k' :: 'k and v :: 'v and m :: "('k \<times> 'v) list"
  show "map_of (AList.update k v m) k' = (if k' = k then Some v else map_of m k')"
    by (simp add: update_conv')
  show "map_of (AList.delete k m) k' = (if k' = k then None else map_of m k')"
    by (simp add: delete_conv')
  show "map fst (AList.update k v m) = (if k \<in> set (map fst m) then map fst m else map fst m @ [k])"
    by (simp add: update_keys)
  show "map fst (AList.delete k m) = removeAll k (map fst m)"
    by (simp add: delete_keys)
qed simp_all

section \<open>JSON values\<close>

datatype json = JNull | JBool bool | JNum jsnum | JStr str | JArr "json list" | JObj "(str \<times> json) list"

text \<open>\<open>v?.name\<close>, \<open>undefined\<close> being \<open>None\<close>.\<close>

definition json_prop :: "json option \<Rightarrow> str \<Rightarrow> json option" where
  "json_prop v k = (case v of Some (JObj fs) \<Rightarrow> map_of fs k | _ \<Rightarrow> None)"

text \<open>\<open>a ?? b\<close> on untyped values: \<open>null\<close> and \<open>undefined\<close> are nullish.\<close>

definition json_nullish :: "json option \<Rightarrow> json option \<Rightarrow> json option" where
  "json_nullish a b = (case a of None \<Rightarrow> b | Some JNull \<Rightarrow> b | _ \<Rightarrow> a)"

definition json_truthy :: "json option \<Rightarrow> bool" where
  "json_truthy v = (case v of None \<Rightarrow> False | Some JNull \<Rightarrow> False | Some (JBool b) \<Rightarrow> b
     | Some (JNum x) \<Rightarrow> truthy x | Some (JStr s) \<Rightarrow> s \<noteq> [] | _ \<Rightarrow> True)"

definition json_str :: "json option \<Rightarrow> str option" where
  "json_str v = (case v of Some (JStr s) \<Rightarrow> Some s | _ \<Rightarrow> None)"

section \<open>The fetch wrapper\<close>

text \<open>\<open>apiBase\<close>: the configured URL or \<open>/api\<close>, without one trailing slash.\<close>

definition apiBase :: "str option \<Rightarrow> str" where
  "apiBase env_url =
     (let base = (case env_url of Some s \<Rightarrow> if s \<noteq> [] then s else u ''/api'' | None \<Rightarrow> u ''/api'')
      in if base \<noteq> [] \<and> last base = 47 then butlast base else base)"

text \<open>Header objects: later spreads overwrite earlier entries of the same name.\<close>

definition api_headers :: "bool \<Rightarrow> (str \<times> str) list \<Rightarrow> (str \<times> str) list" where
  "api_headers has_body init_headers =
     fold (\<lambda>(k, v). AList.update k v) init_headers
       ((if has_body then AList.update (u ''Content-Type'') (u ''application/json'') else id)
         [(u ''Accept'', u ''application/json'')])"

record http_response =
  ok :: bool
  status_code :: jsnum
  body_json :: "json option" \<comment> \<open>\<open>None\<close> when the body is not JSON\<close>

text \<open>
  The outcome of \<open>apiFetch\<close> once the response is there: the payload, or the message of the
  error it throws. A body that does not parse counts as an empty object.
\<close>

definition apiFetch_outcome :: "http_response \<Rightarrow> str + json" where
  "apiFetch_outcome r =
     (let payload = (case body_json r of Some j \<Rightarrow> j | None \<Rightarrow> JObj []) in
      if \<not> ok r then
        Inl (case json_prop (Some payload) (u ''error'') of Some (JStr e) \<Rightarrow> e
             | _ \<Rightarrow> u ''API request failed ('' @ num_str (status_code r) @ u '')'')
      else Inr payload)"

lemma apiFetch_ok_iff: "(\<exists>p. apiFetch_outcome r = Inr p) \<longleftrightarrow> ok r"
  by (simp add: apiFetch_outcome_def Let_def)

lemma api_headers_get:
  "map_of (api_headers b hs) k =
     (if k \<in> fst ` set hs then map_of (rev hs) k
      else if k = u ''Accept'' then Some (u ''application/json'')
      else if b \<and> k = u ''Content-Type'' then Some (u ''application/json'') else None)"
proof -
  have n: "map_of (rev xs) k = None \<longleftrightarrow> k \<notin> fst ` set xs" for xs :: "(str \<times> str) list"
    by (simp add: map_of_eq_None_iff)
  have f: "map_of (fold (\<lambda>(k, v). AList.update k v) hs m) k =
      (if k \<in> fst ` set hs then map_of (rev hs) k else map_of m k)" for m
  proof (induction hs arbitrary: m)
    case (Cons h hs)
    obtain a b where h: "h = (a, b)" by (cases h)
    have r: "map_of (rev (h # hs)) k = (case map_of (rev hs) k of None \<Rightarrow> if k = a then Some b else None | Some v \<Rightarrow> Some v)"
      by (simp add: h map_add_def split: option.split)
    show ?case using n [of hs] unfolding r
      by (auto simp: h Cons.IH update_conv' split: option.split)
  qed simp
  show ?thesis unfolding api_headers_def f by (auto simp: update_conv')
qed

end
