(* ===== verification/RunnerTicket.thy ===== *)
theory RunnerTicket
  imports JsValue
begin

text \<open>
  The runner-ticket session of \<open>lib/runner-ticket.ts\<close>: the active ticket kept in local
  storage, the module-level ticket catalog with its in-flight request, and the
  \<open>useRunnerTicket\<close> hook of every mounted component. One record holds the module variables,
  the storage entry, the requests that have not settled yet and the state of each mounted
  hook; every function of the file is an operation on it, and the asynchronous runs are the
  step relation \<open>ticket_step\<close>, in which requests settle in any order.
\<close>

section \<open>Data and state\<close>

record RunnerTicket =
  ticket_id :: str
  created_at :: str
  description :: "str option"
  updated_at :: "str option"

record hook_state =
  activeTicket :: str
  tickets :: "RunnerTicket list"
  loading :: bool

datatype request = Catalog nat | Create nat str \<comment> \<open>request number; the ticket a POST creates\<close>

record ticket_world =
  storage_works :: bool \<comment> \<open>whether local storage accesses succeed or throw\<close>
  stored :: "str option" \<comment> \<open>the item \<open>ACTIVE_TICKET_STORAGE_KEY\<close>\<close>
  cachedTickets :: "RunnerTicket list option"
  ticketsInFlight :: "nat option"
  pending :: "request list"
  next_request :: nat
  hooks :: "hook_state list" \<comment> \<open>the mounted components, in the order their listeners were added\<close>

definition ACTIVE_TICKET_STORAGE_KEY :: str where
  "ACTIVE_TICKET_STORAGE_KEY = u ''aurora.data-factory.active-ticket''"

definition init_world :: "bool \<Rightarrow> str option \<Rightarrow> ticket_world" where
  "init_world works st = \<lparr>storage_works = works, stored = st, cachedTickets = None,
     ticketsInFlight = None, pending = [], next_request = 0, hooks = []\<rparr>"

section \<open>Operations\<close>

text \<open>\<open>isoNow\<close> is \<open>new Date().toISOString()\<close>, \<open>rnd\<close> is \<open>Math.random().toString(36)\<close>.\<close>

definition generateRunnerTicket :: "str \<Rightarrow> str \<Rightarrow> str" where
  "generateRunnerTicket isoNow rnd =
     (let dateStr = remove_all 45 (take 10 isoNow); randomHex = toUpperCase (take 4 (drop 2 rnd))
      in u ''RUN-'' @ dateStr @ u ''-'' @ randomHex)"

definition getStoredActiveTicket :: "ticket_world \<Rightarrow> str" where
  "getStoredActiveTicket w =
     (if \<not> storage_works w then []
      else case stored w of None \<Rightarrow> []
           | Some saved \<Rightarrow> if saved \<noteq> [] \<and> trim saved \<noteq> [] then trim saved else [])"

text \<open>The \<open>aurora:ticket-change\<close> event reaches the \<open>handleTicketChange\<close> of every mounted hook.\<close>

definition handleTicketChange :: "str \<Rightarrow> hook_state \<Rightarrow> hook_state" where
  "handleTicketChange detail s = (if detail \<noteq> [] then s\<lparr>activeTicket := detail\<rparr> else s)"

definition dispatch_ticket_change :: "str \<Rightarrow> ticket_world \<Rightarrow> ticket_world" where
  "dispatch_ticket_change detail w = w\<lparr>hooks := map (handleTicketChange detail) (hooks w)\<rparr>"

definition setStoredActiveTicket :: "str \<Rightarrow> ticket_world \<Rightarrow> ticket_world" where
  "setStoredActiveTicket ticket w =
     (let normalized = trim ticket in
      if normalized = [] then w
      else if \<not> storage_works w then w
      else dispatch_ticket_change normalized (w\<lparr>stored := Some normalized\<rparr>))"

definition set_hook :: "nat \<Rightarrow> (hook_state \<Rightarrow> hook_state) \<Rightarrow> ticket_world \<Rightarrow> ticket_world" where
  "set_hook i f w = w\<lparr>hooks := (hooks w)[i := f (hooks w ! i)]\<rparr>"

text \<open>\<open>current.some((t) => t.ticket_id === id)\<close>\<close>

definition has_ticket :: "RunnerTicket list \<Rightarrow> str \<Rightarrow> bool" where
  "has_ticket ts t = list_ex (\<lambda>x. ticket_id x = t) ts"

text \<open>The hook's listener.\<close>

definition handleSync :: "nat \<Rightarrow> ticket_world \<Rightarrow> ticket_world" where
  "handleSync i w =
     (let current = nullish (cachedTickets w) [];
          w1 = set_hook i (\<lambda>s. s\<lparr>tickets := current\<rparr>) w;
          currentActive = getStoredActiveTicket w1;
          w2 = (if current \<noteq> [] \<and> (currentActive = [] \<or> \<not> has_ticket current currentActive)
                then let fallback = ticket_id (hd current) in
                     if fallback \<noteq> []
                     then set_hook i (\<lambda>s. s\<lparr>activeTicket := fallback\<rparr>) (setStoredActiveTicket fallback w1)
                     else w1
                else if currentActive \<noteq> []
                then set_hook i (\<lambda>s. s\<lparr>activeTicket := currentActive\<rparr>) w1
                else w1)
      in set_hook i (\<lambda>s. s\<lparr>loading := False\<rparr>) w2)"

definition notifyListeners :: "ticket_world \<Rightarrow> ticket_world" where
  "notifyListeners w = fold handleSync [0..<length (hooks w)] w"

datatype fetch_result = Cached "RunnerTicket list" | Joined nat | Started nat

text \<open>Launching a catalog request: the IIFE runs up to its \<open>await\<close>, its promise is remembered.\<close>

definition start_request :: "ticket_world \<Rightarrow> fetch_result \<times> ticket_world" where
  "start_request w =
     (Started (next_request w),
      w\<lparr>ticketsInFlight := Some (next_request w), pending := pending w @ [Catalog (next_request w)],
        next_request := Suc (next_request w)\<rparr>)"

definition fetchTicketCatalog :: "bool \<Rightarrow> ticket_world \<Rightarrow> fetch_result \<times> ticket_world" where
  "fetchTicketCatalog force w =
     (if \<not> force \<and> cachedTickets w \<noteq> None then (Cached (the (cachedTickets w)), w)
      else if \<not> force \<and> ticketsInFlight w \<noteq> None then (Joined (the (ticketsInFlight w)), w)
      else start_request w)"

text \<open>The choice of the active ticket after the catalog has arrived.\<close>

definition reconcile_active :: "RunnerTicket list \<Rightarrow> ticket_world \<Rightarrow> ticket_world" where
  "reconcile_active items w =
     (if items \<noteq> [] then
        let currentActive = getStoredActiveTicket w; exists = has_ticket items currentActive in
        if currentActive = [] \<or> \<not> exists then
          let firstTicket = ticket_id (hd items) in
          if firstTicket \<noteq> [] then setStoredActiveTicket firstTicket w else w
        else w
      else if storage_works w then dispatch_ticket_change [] (w\<lparr>stored := None\<rparr>) else w)"

text \<open>
  The rest of the request's body: \<open>Some items\<close> is a response with those items (an absent
  \<open>items\<close> field is the empty list), \<open>None\<close> a rejected \<open>apiFetch\<close>. The \<open>finally\<close> clause
  clears \<open>ticketsInFlight\<close> in both cases, whichever request it holds.
\<close>

definition settle_catalog :: "nat \<Rightarrow> RunnerTicket list option \<Rightarrow> ticket_world \<Rightarrow> ticket_world" where
  "settle_catalog r res w =
     (let w0 = w\<lparr>pending := removeAll (Catalog r) (pending w)\<rparr>;
          w1 = (case res of
                  Some items \<Rightarrow> notifyListeners (reconcile_active items (w0\<lparr>cachedTickets := Some items\<rparr>))
                | None \<Rightarrow> w0)
      in w1\<lparr>ticketsInFlight := None\<rparr>)"

text \<open>Mounting a component: initial state, listener, and the effect's first fetch or sync.\<close>

definition mount_hook :: "ticket_world \<Rightarrow> ticket_world" where
  "mount_hook w =
     (let s = \<lparr>activeTicket = getStoredActiveTicket w, tickets = nullish (cachedTickets w) [],
               loading = (cachedTickets w = None)\<rparr>;
          w1 = w\<lparr>hooks := hooks w @ [s]\<rparr>
      in if cachedTickets w = None then snd (fetchTicketCatalog False w1)
         else handleSync (length (hooks w)) w1)"

definition loadTickets :: "nat \<Rightarrow> ticket_world \<Rightarrow> ticket_world" where
  "loadTickets i w = snd (fetchTicketCatalog True (set_hook i (\<lambda>s. s\<lparr>loading := True\<rparr>) w))"

definition setActiveTicket :: "nat \<Rightarrow> str \<Rightarrow> ticket_world \<Rightarrow> ticket_world" where
  "setActiveTicket i ticket w =
     set_hook i (\<lambda>s. s\<lparr>activeTicket := ticket\<rparr>) (setStoredActiveTicket ticket w)"

definition createNewTicket :: "nat \<Rightarrow> str \<Rightarrow> ticket_world \<Rightarrow> ticket_world" where
  "createNewTicket i fresh w =
     (let w1 = set_hook i (\<lambda>s. s\<lparr>activeTicket := fresh\<rparr>) (setStoredActiveTicket fresh w)
      in w1\<lparr>pending := pending w1 @ [Create (next_request w1) fresh], next_request := Suc (next_request w1)\<rparr>)"

text \<open>The clean-up of the effect, and the \<open>finally\<close> of \<open>loadTickets\<close>.\<close>

definition unmount_hook :: "nat \<Rightarrow> ticket_world \<Rightarrow> ticket_world" where
  "unmount_hook i w = w\<lparr>hooks := take i (hooks w) @ drop (Suc i) (hooks w)\<rparr>"

definition load_done :: "nat \<Rightarrow> ticket_world \<Rightarrow> ticket_world" where
  "load_done i w = set_hook i (\<lambda>s. s\<lparr>loading := False\<rparr>) w"

text \<open>The \<open>then\<close> and \<open>catch\<close> of the creating POST.\<close>

definition settle_create :: "nat \<Rightarrow> str \<Rightarrow> RunnerTicket option \<Rightarrow> ticket_world \<Rightarrow> ticket_world" where
  "settle_create r fresh res w =
     (let w0 = w\<lparr>pending := removeAll (Create r fresh) (pending w)\<rparr> in
      case res of None \<Rightarrow> w0
      | Some created \<Rightarrow> notifyListeners (w0\<lparr>cachedTickets :=
          Some (created # filter (\<lambda>t. ticket_id t \<noteq> fresh) (nullish (cachedTickets w0) []))\<rparr>))"

section \<open>Interleavings\<close>

text \<open>
  One step is a call from a component or the settling of one outstanding request, in any
  order; \<open>sync\<close> is the \<open>then(handleSync)\<close> of the mounting fetch.
\<close>

inductive ticket_step :: "ticket_world \<Rightarrow> ticket_world \<Rightarrow> bool" where
  mount: "ticket_step w (mount_hook w)"
| unmount: "i < length (hooks w) \<Longrightarrow> ticket_step w (unmount_hook i w)"
| refresh: "i < length (hooks w) \<Longrightarrow> ticket_step w (loadTickets i w)"
| refreshed: "i < length (hooks w) \<Longrightarrow> ticket_step w (load_done i w)"
| fetch: "ticket_step w (snd (fetchTicketCatalog force w))"
| choose: "i < length (hooks w) \<Longrightarrow> ticket_step w (setActiveTicket i t w)"
| create: "i < length (hooks w) \<Longrightarrow> ticket_step w (createNewTicket i fresh w)"
| catalog_settles: "Catalog r \<in> set (pending w) \<Longrightarrow> ticket_step w (settle_catalog r res w)"
| create_settles: "Create r fresh \<in> set (pending w) \<Longrightarrow> ticket_step w (settle_create r fresh created w)"
| sync: "i < length (hooks w) \<Longrightarrow> ticket_step w (handleSync i w)"

inductive_cases ticket_stepE: "ticket_step w w'"

inductive ticket_reachable :: "bool \<Rightarrow> str option \<Rightarrow> ticket_world \<Rightarrow> bool" for works st where
  start: "ticket_reachable works st (init_world works st)"
| step: "ticket_reachable works st w \<Longrightarrow> ticket_step w w' \<Longrightarrow> ticket_reachable works st w'"

section \<open>The stored active ticket\<close>

text \<open>The contract of the storage entry that the hook and the catalog rely on.\<close>

locale active_ticket_store =
  fixes get_active :: "'w \<Rightarrow> str" and set_active :: "str \<Rightarrow> 'w \<Rightarrow> 'w" and usable :: "'w \<Rightarrow> bool"
  assumes get_trimmed: "trim (get_active w) = get_active w"
    and get_set: "usable w \<Longrightarrow> trim t \<noteq> [] \<Longrightarrow> get_active (set_active t w) = trim t"
    and set_blank: "trim t = [] \<Longrightarrow> set_active t w = w"
    and set_usable: "usable (set_active t w) = usable w"
begin

lemma last_set_wins:
  "usable w \<Longrightarrow> trim t \<noteq> [] \<Longrightarrow> get_active (set_active t (set_active t' w)) = trim t"
  by (simp add: get_set set_usable)

lemma set_get_unchanged:
  "usable w \<Longrightarrow> get_active w \<noteq> [] \<Longrightarrow> get_active (set_active (get_active w) w) = get_active w"
  by (simp add: get_set get_trimmed)

end

lemma hooks_updates [simp]:
  "storage_works (dispatch_ticket_change d w) = storage_works w"
  "stored (dispatch_ticket_change d w) = stored w"
  "cachedTickets (dispatch_ticket_change d w) = cachedTickets w"
  "ticketsInFlight (dispatch_ticket_change d w) = ticketsInFlight w"
  "pending (dispatch_ticket_change d w) = pending w"
  "next_request (dispatch_ticket_change d w) = next_request w"
  "length (hooks (dispatch_ticket_change d w)) = length (hooks w)"
  "storage_works (set_hook i f w) = storage_works w"
  "stored (set_hook i f w) = stored w"
  "cachedTickets (set_hook i f w) = cachedTickets w"
  "ticketsInFlight (set_hook i f w) = ticketsInFlight w"
  "pending (set_hook i f w) = pending w"
  "next_request (set_hook i f w) = next_request w"
  "length (hooks (set_hook i f w)) = length (hooks w)"
  by (simp_all add: dispatch_ticket_change_def set_hook_def)

lemma getStored_cong:
  "storage_works w = storage_works w' \<Longrightarrow> stored w = stored w' \<Longrightarrow>
   getStoredActiveTicket w = getStoredActiveTicket w'"
  by (simp add: getStoredActiveTicket_def)

lemma getStored_set_hook [simp]: "getStoredActiveTicket (set_hook i f w) = getStoredActiveTicket w"
  by (rule getStored_cong) simp_all

lemma getStored_hooks [simp]: "getStoredActiveTicket (w\<lparr>hooks := hs\<rparr>) = getStoredActiveTicket w"
  by (rule getStored_cong) simp_all

interpretation ticket_store: active_ticket_store getStoredActiveTicket setStoredActiveTicket storage_works
  by unfold_locales
     (auto simp: getStoredActiveTicket_def setStoredActiveTicket_def Let_def split: option.split)

lemma setStored_frame [simp]:
  "cachedTickets (setStoredActiveTicket t w) = cachedTickets w"
  "ticketsInFlight (setStoredActiveTicket t w) = ticketsInFlight w"
  "pending (setStoredActiveTicket t w) = pending w"
  "next_request (setStoredActiveTicket t w) = next_request w"
  "length (hooks (setStoredActiveTicket t w)) = length (hooks w)"
  by (simp_all add: setStoredActiveTicket_def Let_def)

lemma handleSync_frame [simp]:
  "cachedTickets (handleSync i w) = cachedTickets w"
  "ticketsInFlight (handleSync i w) = ticketsInFlight w"
  "pending (handleSync i w) = pending w"
  "next_request (handleSync i w) = next_request w"
  "length (hooks (handleSync i w)) = length (hooks w)"
  "storage_works (handleSync i w) = storage_works w"
  by (simp_all add: handleSync_def Let_def ticket_store.set_usable)

lemma fold_handleSync_frame [simp]:
  "cachedTickets (fold handleSync is w) = cachedTickets w"
  "ticketsInFlight (fold handleSync is w) = ticketsInFlight w"
  "pending (fold handleSync is w) = pending w"
  "next_request (fold handleSync is w) = next_request w"
  "length (hooks (fold handleSync is w)) = length (hooks w)"
  by (induction "is" arbitrary: w) simp_all

lemma notify_frame [simp]:
  "cachedTickets (notifyListeners w) = cachedTickets w"
  "ticketsInFlight (notifyListeners w) = ticketsInFlight w"
  "pending (notifyListeners w) = pending w"
  "next_request (notifyListeners w) = next_request w"
  "length (hooks (notifyListeners w)) = length (hooks w)"
  by (simp_all add: notifyListeners_def)

lemma reconcile_frame [simp]:
  "cachedTickets (reconcile_active items w) = cachedTickets w"
  "ticketsInFlight (reconcile_active items w) = ticketsInFlight w"
  "pending (reconcile_active items w) = pending w"
  "next_request (reconcile_active items w) = next_request w"
  "storage_works (reconcile_active items w) = storage_works w"
  by (simp_all add: reconcile_active_def Let_def ticket_store.set_usable)

section \<open>Synchronising the mounted components\<close>

text \<open>A catalog entry the storage can hold: a nonempty identifier without surrounding space.\<close>

definition clean_id :: "RunnerTicket \<Rightarrow> bool" where
  "clean_id t \<longleftrightarrow> ticket_id t \<noteq> [] \<and> trim (ticket_id t) = ticket_id t"

lemma reconcile_valid:
  assumes "storage_works w" "items \<noteq> []" "\<forall>t\<in>set items. clean_id t"
  shows "has_ticket items (getStoredActiveTicket (reconcile_active items w)) \<and>
    getStoredActiveTicket (reconcile_active items w) \<noteq> []"
proof (cases "getStoredActiveTicket w = [] \<or> \<not> has_ticket items (getStoredActiveTicket w)")
  case True
  have hd: "clean_id (hd items)" "hd items \<in> set items" using assms by auto
  then have "getStoredActiveTicket (reconcile_active items w) = ticket_id (hd items)"
    using assms True by (simp add: reconcile_active_def Let_def clean_id_def ticket_store.get_set)
  then show ?thesis using hd by (auto simp: has_ticket_def list_ex_iff clean_id_def)
next
  case False
  then show ?thesis using assms by (simp add: reconcile_active_def Let_def)
qed

lemma handleSync_valid:
  assumes "cachedTickets w = Some items" "getStoredActiveTicket w = a" "a \<noteq> []" "has_ticket items a"
  shows "handleSync i w =
    set_hook i (\<lambda>s. s\<lparr>tickets := items, activeTicket := a, loading := False\<rparr>) w"
  using assms by (simp add: handleSync_def Let_def)
    (cases "i < length (hooks w)"; simp add: set_hook_def list_update_beyond)

lemma fold_handleSync_valid:
  assumes "cachedTickets w = Some items" "getStoredActiveTicket w = a" "a \<noteq> []" "has_ticket items a"
    and "n \<le> length (hooks w)"
  defines "f \<equiv> (\<lambda>s. s\<lparr>tickets := items, activeTicket := a, loading := False\<rparr>)"
  shows "fold handleSync [0..<n] w = w\<lparr>hooks := map f (take n (hooks w)) @ drop n (hooks w)\<rparr>"
  using assms(5)
proof (induction n)
  case (Suc n)
  let ?w = "w\<lparr>hooks := map f (take n (hooks w)) @ drop n (hooks w)\<rparr>"
  have "fold handleSync [0..<Suc n] w = handleSync n ?w"
    using Suc by simp
  also have "\<dots> = set_hook n f ?w"
    unfolding f_def by (rule handleSync_valid [of _ items a])
      (use assms(1-4) in simp_all)
  also have "\<dots> = w\<lparr>hooks := map f (take (Suc n) (hooks w)) @ drop (Suc n) (hooks w)\<rparr>"
    using Suc.prems by (simp add: set_hook_def list_update_append nth_append take_Suc_conv_app_nth
        Cons_nth_drop_Suc [symmetric])
  finally show ?case .
qed simp

lemma notify_valid:
  assumes "cachedTickets w = Some items" "getStoredActiveTicket w = a" "a \<noteq> []" "has_ticket items a"
  shows "notifyListeners w =
    w\<lparr>hooks := map (\<lambda>s. s\<lparr>tickets := items, activeTicket := a, loading := False\<rparr>) (hooks w)\<rparr>"
  unfolding notifyListeners_def
  using fold_handleSync_valid [OF assms, of "length (hooks w)"] by simp

section \<open>Requests\<close>

text \<open>The in-flight marker names an outstanding request, and request numbers are fresh.\<close>

definition requests_ok :: "ticket_world \<Rightarrow> bool" where
  "requests_ok w \<longleftrightarrow>
     (\<forall>r. ticketsInFlight w = Some r \<longrightarrow> Catalog r \<in> set (pending w)) \<and>
     (\<forall>r. Catalog r \<in> set (pending w) \<longrightarrow> r < next_request w) \<and>
     (\<forall>r t. Create r t \<in> set (pending w) \<longrightarrow> r < next_request w) \<and> distinct (pending w)"

lemma requests_ok_cong:
  "ticketsInFlight w' = ticketsInFlight w \<Longrightarrow> pending w' = pending w \<Longrightarrow>
   next_request w' = next_request w \<Longrightarrow> requests_ok w' = requests_ok w"
  by (simp add: requests_ok_def)

lemma requests_ok_fetch: "requests_ok w \<Longrightarrow> requests_ok (snd (fetchTicketCatalog force w))"
  by (auto simp: requests_ok_def fetchTicketCatalog_def start_request_def intro: less_SucI)

lemma requests_ok_settle: "requests_ok w \<Longrightarrow> requests_ok (settle_catalog r res w)"
  by (cases res) (auto simp: requests_ok_def settle_catalog_def Let_def distinct_removeAll)

lemma requests_ok_create: "requests_ok w \<Longrightarrow> requests_ok (createNewTicket i t w)"
  by (auto simp: requests_ok_def createNewTicket_def Let_def intro: less_SucI)

lemma requests_ok_settle_create: "requests_ok w \<Longrightarrow> requests_ok (settle_create r t res w)"
  by (cases res) (auto simp: requests_ok_def settle_create_def Let_def distinct_removeAll)

lemma requests_ok_hooks [simp]: "requests_ok (w\<lparr>hooks := hs\<rparr>) = requests_ok w"
  by (rule requests_ok_cong) simp_all

lemma requests_ok_sync [simp]: "requests_ok (handleSync i w) = requests_ok w"
  by (rule requests_ok_cong) simp_all

lemma requests_ok_set_hook [simp]: "requests_ok (set_hook i f w) = requests_ok w"
  by (rule requests_ok_cong) simp_all

lemma requests_ok_setStored [simp]: "requests_ok (setStoredActiveTicket t w) = requests_ok w"
  by (rule requests_ok_cong) simp_all

lemma requests_ok_mount: "requests_ok w \<Longrightarrow> requests_ok (mount_hook w)"
  by (simp add: mount_hook_def Let_def requests_ok_fetch)

lemmas requests_ok_ops = requests_ok_mount requests_ok_fetch requests_ok_settle requests_ok_create
  requests_ok_settle_create

lemma requests_ok_step: "ticket_step w w' \<Longrightarrow> requests_ok w \<Longrightarrow> requests_ok w'"
  by (induction rule: ticket_step.induct)
     (simp_all add: requests_ok_ops unmount_hook_def load_done_def setActiveTicket_def loadTickets_def)

lemma requests_ok_init: "requests_ok (init_world works st)"
  by (simp add: requests_ok_def init_world_def)

lemma requests_ok_reachable: "ticket_reachable works st w \<Longrightarrow> requests_ok w"
  by (induction rule: ticket_reachable.induct) (auto intro: requests_ok_step requests_ok_init)

text \<open>A call without \<open>force\<close> starts a request only when nothing is cached and none is marked.\<close>

lemma fetch_started_iff:
  "(\<exists>r. fst (fetchTicketCatalog force w) = Started r) \<longleftrightarrow>
     force \<or> (cachedTickets w = None \<and> ticketsInFlight w = None)"
  by (auto simp: fetchTicketCatalog_def start_request_def)

lemma settle_cached: "cachedTickets (settle_catalog r (Some items) w) = Some items"
  by (simp add: settle_catalog_def Let_def)

lemma settle_fails: "settle_catalog r None w =
    w\<lparr>pending := removeAll (Catalog r) (pending w), ticketsInFlight := None\<rparr>"
  by (simp add: settle_catalog_def Let_def)

definition distinct_ids :: "RunnerTicket list \<Rightarrow> bool" where
  "distinct_ids ts \<longleftrightarrow> distinct (map ticket_id ts)"

lemma distinct_ids_filter: "distinct_ids ts \<Longrightarrow> distinct_ids (filter P ts)"
  by (simp add: distinct_ids_def distinct_map_filter)

text \<open>A ticket for concrete runs.\<close>

definition sample_ticket :: RunnerTicket where
  "sample_ticket = \<lparr>ticket_id = u ''RUN-1'', created_at = [], description = None, updated_at = None\<rparr>"

lemma sample_ticket_clean: "clean_id sample_ticket"
  by (simp add: clean_id_def sample_ticket_def trim_def u_def is_space_def)

section \<open>Properties\<close>



text \<open>
  C2. In every reachable state of the ticket session, whatever the
  order in which requests settle, the in-flight marker names a request that is really
  outstanding, and all outstanding requests have distinct numbers below the next one; a call
  without \<open>force\<close> that joins the marker therefore always joins a live request.
\<close>

theorem in_flight_is_outstanding:
  assumes "ticket_reachable works st w"
  shows "(\<forall>r. ticketsInFlight w = Some r \<longrightarrow> Catalog r \<in> set (pending w)) \<and> distinct (pending w) \<and>
    (\<forall>r. fst (fetchTicketCatalog False w) = Joined r \<longrightarrow> Catalog r \<in> set (pending w))"
  using requests_ok_reachable [OF assms]
  by (auto simp: requests_ok_def fetchTicketCatalog_def start_request_def)

theorem in_flight_is_outstanding_witness:
  "Catalog 0 \<in> set (pending (mount_hook (init_world True None)))"
proof -
  have "ticket_reachable True None (mount_hook (init_world True None))"
    by (rule ticket_reachable.step [OF ticket_reachable.start ticket_step.mount])
  then show ?thesis
    using in_flight_is_outstanding [of True None "mount_hook (init_world True None)"]
    by (simp add: mount_hook_def init_world_def fetchTicketCatalog_def start_request_def)
qed

text \<open>
  The deduplication is lost after a forced refresh: the
  \<open>finally\<close> of an earlier request clears the marker of a later one. From any state with no
  cached catalog there is a run in which a request is outstanding, yet a call without \<open>force\<close>
  starts a further request instead of joining it.
\<close>

theorem marker_lost_after_forced_refresh:
  assumes "cachedTickets w = None" "ticketsInFlight w = None"
  defines "r0 \<equiv> next_request w"
  defines "w1 \<equiv> snd (fetchTicketCatalog False w)"
  defines "w2 \<equiv> snd (fetchTicketCatalog True w1)"
  defines "w3 \<equiv> settle_catalog r0 None w2"
  shows "ticket_step\<^sup>*\<^sup>* w w3 \<and> Catalog (Suc r0) \<in> set (pending w3) \<and>
    fst (fetchTicketCatalog False w3) = Started (Suc (Suc r0))"
proof -
  have "ticket_step w w1" "ticket_step w1 w2" unfolding w1_def w2_def by (rule ticket_step.fetch)+
  moreover have "Catalog r0 \<in> set (pending w2)"
    using assms(1,2) by (simp add: w2_def w1_def fetchTicketCatalog_def start_request_def r0_def)
  then have "ticket_step w2 w3" unfolding w3_def by (rule ticket_step.catalog_settles)
  ultimately have "ticket_step\<^sup>*\<^sup>* w w3" by (meson converse_rtranclp_into_rtranclp rtranclp.rtrancl_refl)
  then show ?thesis using assms(1,2)
    by (simp add: w3_def w2_def w1_def fetchTicketCatalog_def start_request_def settle_fails r0_def)
qed

theorem marker_lost_after_forced_refresh_witness:
  "fst (fetchTicketCatalog False (settle_catalog 0 None (snd (fetchTicketCatalog True
     (snd (fetchTicketCatalog False (init_world True None))))))) = Started 2"
  using marker_lost_after_forced_refresh [of "init_world True None"] by (simp add: init_world_def)

text \<open>
  Overlapping refreshes are not ordered: from every state there is a
  run of two forced refreshes in which the later request settles first, and the older list
  then replaces the newer one in the cache for good, no request being left outstanding that
  could correct it.
\<close>

theorem stale_response_wins:
  fixes w :: ticket_world and old newer :: "RunnerTicket list"
  assumes "requests_ok w"
  defines "r0 \<equiv> next_request w"
  defines "w2 \<equiv> snd (fetchTicketCatalog True (snd (fetchTicketCatalog True w)))"
  defines "w3 \<equiv> settle_catalog (Suc r0) (Some newer) w2"
  defines "w4 \<equiv> settle_catalog r0 (Some old) w3"
  shows "ticket_step\<^sup>*\<^sup>* w w4 \<and> cachedTickets w3 = Some newer \<and> cachedTickets w4 = Some old \<and>
    set (pending w4) = set (pending w)"
proof -
  have fresh: "Catalog r0 \<notin> set (pending w)" "Catalog (Suc r0) \<notin> set (pending w)"
    using assms(1) by (auto simp: requests_ok_def r0_def)
  have p2: "pending w2 = pending w @ [Catalog r0, Catalog (Suc r0)]"
    by (simp add: w2_def fetchTicketCatalog_def start_request_def r0_def)
  have p3: "set (pending w3) = insert (Catalog r0) (set (pending w))"
    using fresh by (auto simp: w3_def settle_catalog_def Let_def p2)
  have p4: "set (pending w4) = set (pending w)"
    using fresh p3 by (auto simp: w4_def settle_catalog_def Let_def)
  have "ticket_step w (snd (fetchTicketCatalog True w))"
    "ticket_step (snd (fetchTicketCatalog True w)) w2"
    unfolding w2_def by (rule ticket_step.fetch)+
  moreover have "ticket_step w2 w3" unfolding w3_def
    by (rule ticket_step.catalog_settles) (simp add: p2)
  moreover have "ticket_step w3 w4" unfolding w4_def
    by (rule ticket_step.catalog_settles) (simp add: p3)
  ultimately have "ticket_step\<^sup>*\<^sup>* w w4"
    by (meson converse_rtranclp_into_rtranclp rtranclp.rtrancl_refl)
  then show ?thesis using p4 by (simp add: w3_def w4_def settle_cached)
qed

theorem stale_response_wins_witness:
  "cachedTickets (settle_catalog 0 (Some []) (settle_catalog 1 (Some [sample_ticket])
     (snd (fetchTicketCatalog True (snd (fetchTicketCatalog True (init_world True None))))))) = Some []"
  using stale_response_wins [OF requests_ok_init, of True None "[]" "[sample_ticket]"]
  by (simp add: init_world_def)

text \<open>
  When the creation of a ticket is confirmed, the ticket heads the
  catalog, every other ticket of the catalog is kept in order, and the identifiers stay
  distinct.
\<close>

theorem created_ticket_first:
  assumes "ticket_id created = fresh" "distinct_ids (nullish (cachedTickets w) [])"
  shows "cachedTickets (settle_create r fresh (Some created) w) =
      Some (created # filter (\<lambda>t. ticket_id t \<noteq> fresh) (nullish (cachedTickets w) [])) \<and>
    distinct_ids (nullish (cachedTickets (settle_create r fresh (Some created) w)) [])"
proof -
  have "distinct_ids (filter (\<lambda>t. ticket_id t \<noteq> fresh) (nullish (cachedTickets w) []))"
    using assms(2) by (rule distinct_ids_filter)
  then show ?thesis using assms(1) by (auto simp: settle_create_def Let_def distinct_ids_def)
qed

theorem created_ticket_first_witness:
  "cachedTickets (settle_create 0 (u ''RUN-1'') (Some sample_ticket) (init_world True None)) = Some [sample_ticket]"
  using created_ticket_first [of sample_ticket "u ''RUN-1''" "init_world True None" 0]
  by (simp add: init_world_def sample_ticket_def distinct_ids_def)

end
