(* ===== verification/AnalyticsTypes.thy ===== *)
theory AnalyticsTypes
  imports JsString
begin

text \<open>
  The analytics contract shared by the candidate, target and observation pages
  (\<open>lib/analytics-types.ts\<close>): one record per object type, a field \<open>x\<close> of type \<open>T\<close> being
  \<open>tag_x\<close>, optional and nullable fields as options, closed unions of literals as datatypes.
\<close>

datatype hz_class = Hz_conservative | Hz_optimistic | Hz_outside | Hz_unknown
datatype assessment_status = Evaluated | Insufficient_data
datatype review_decision = CONFIRMED | REJECTED | FOLLOW_UP | PENDING

record CandidateRecord =
  cr_prediction_id :: str
  cr_source_product_id :: str
  cr_tic_id :: jsnum
  cr_sector :: jsnum
  cr_candidate_score :: jsnum
  cr_decision_threshold :: jsnum
  cr_above_threshold :: bool
  cr_model_version :: str
  cr_gold_snapshot_id :: str
  cr_runtime_validation_id :: str
  cr_runtime_package_id :: str
  cr_predicted_at :: str

record CandidateEvidence =
  ce_lineage_id :: str
  ce_feature_version :: str
  ce_n_points :: jsnum
  ce_time_span :: jsnum
  ce_median_cadence :: jsnum
  ce_max_gap :: jsnum
  ce_bls_available :: bool
  ce_bls_period :: jsnum
  ce_bls_duration :: jsnum
  ce_bls_transit_time :: jsnum
  ce_bls_depth :: jsnum
  ce_bls_power :: jsnum
  ce_transit_evidence_available :: bool
  ce_tic_available :: bool
  ce_tmag :: jsnum
  ce_teff :: jsnum
  ce_stellar_radius :: jsnum
  ce_stellar_mass :: jsnum
  ce_logg :: jsnum
  ce_matched_toi_id :: str
  ce_toi_match_status :: str
  ce_median_flux_err :: "jsnum option"
  ce_flux_std :: "jsnum option"
  ce_flux_amplitude :: "jsnum option"
  ce_pixel_mad_median :: "jsnum option"
  ce_transit_deficit_center_offset :: "jsnum option"

record PlanetPhysics_hz_flux_boundaries =
  hf_conservative_inner :: jsnum
  hf_conservative_outer :: jsnum
  hf_optimistic_inner :: jsnum
  hf_optimistic_outer :: jsnum

record PlanetPhysics =
  pp_planet_candidate_id :: str
  pp_model_version :: str
  pp_orbital_period_days :: "jsnum option"
  pp_transit_depth_fraction :: "jsnum option"
  pp_planet_radius_earth :: "jsnum option"
  pp_semi_major_axis_au :: "jsnum option"
  pp_stellar_luminosity_solar :: "jsnum option"
  pp_insolation_earth :: "jsnum option"
  pp_equilibrium_temperature_k :: "jsnum option"
  pp_bond_albedo_assumption :: jsnum
  pp_hz_classification :: hz_class
  pp_hz_flux_boundaries :: PlanetPhysics_hz_flux_boundaries
  pp_completeness :: jsnum
  pp_warnings :: "str list"

record HabitabilityComponent =
  hc_key :: str
  hc_label :: str
  hc_score :: jsnum
  hc_max_score :: jsnum
  hc_available :: bool
  hc_reason :: str

record HabitabilityAssessment =
  ha_assessment_version :: str
  ha_status :: assessment_status
  ha_physics_score :: "jsnum option"
  ha_confidence :: jsnum
  ha_tier :: str
  ha_components :: "HabitabilityComponent list"
  ha_ml_score :: "jsnum option"
  ha_ml_status :: str
  ha_disclaimer :: str

record CandidateReview =
  rv_decision :: review_decision
  rv_review_status :: str
  rv_reviewer :: str
  rv_note :: str
  rv_updated_at :: str

record CandidateDetailResponse =
  cdr_candidate :: CandidateRecord
  cdr_evidence :: CandidateEvidence
  cdr_review :: CandidateReview
  cdr_planet_physics :: PlanetPhysics
  cdr_habitability :: HabitabilityAssessment
  cdr_snapshot_id :: str

record Target =
  tg_gold_snapshot_id :: str
  tg_tic_id :: jsnum
  tg_tess_mag :: jsnum
  tg_ra :: jsnum
  tg_dec :: jsnum
  tg_effective_t :: jsnum
  tg_surface_grav :: jsnum
  tg_radius :: jsnum
  tg_sector :: jsnum
  tg_matched_toi :: str
  tg_disposition :: str
  tg_has_lightcurve :: bool
  tg_lightcurve_points :: jsnum
  tg_lightcurve_time_span :: jsnum
  tg_has_candidate :: bool
  tg_candidate_prediction_id :: str
  tg_candidate_score :: jsnum
  tg_candidate_above_threshold :: bool
  tg_pipeline_status :: str
  tg_tic_context_available :: bool
  tg_toi_match_status :: str

record TargetObservationInsight =
  oi_tess_mag :: jsnum
  oi_sector :: jsnum
  oi_ra :: jsnum
  oi_dec :: jsnum
  oi_matched_toi :: str
  oi_sampling_cadence_minutes :: jsnum
  oi_lightcurve_points :: jsnum
  oi_lightcurve_time_span_days :: jsnum
  oi_max_data_gap_days :: jsnum
  oi_max_data_gap_hours :: jsnum
  oi_photometric_noise_ppm :: jsnum

record TargetStellarPhysicsInsight =
  sp_teff :: jsnum
  sp_radius :: jsnum
  sp_mass :: jsnum
  sp_logg :: jsnum
  sp_spectral_class_label :: str
  sp_evolution_status :: str
  sp_stellar_density_gcc :: jsnum
  sp_escape_velocity_kms :: jsnum
  sp_bolometric_mag :: "jsnum option"
  sp_hz_inner_au :: jsnum
  sp_hz_outer_au :: jsnum
  sp_hz_luminosity_solar :: jsnum
  sp_flux_std_ppm :: "jsnum option"
  sp_flux_amplitude_pct :: "jsnum option"

record TargetAIInsights =
  ai_bls_period_days :: "jsnum option"
  ai_bls_depth_fraction :: "jsnum option"
  ai_bls_duration_days :: "jsnum option"
  ai_bls_transit_time :: "jsnum option"
  ai_semi_major_axis_au :: "jsnum option"
  ai_planet_radius_earth :: "jsnum option"
  ai_equilibrium_temp_k :: "jsnum option"
  ai_hz_classification :: str
  ai_candidate_score :: "jsnum option"
  ai_candidate_above_threshold :: bool
  ai_candidate_prediction_id :: str
  ai_habitability_score :: "jsnum option"
  ai_habitability_confidence :: jsnum
  ai_habitability_tier :: str
  ai_habitability_components :: "HabitabilityComponent list option"
  ai_insolation_earth :: "jsnum option"
  ai_planet_classification :: str
  ai_transit_duration_hours :: "jsnum option"
  ai_warnings :: "str list"

record TargetInsights =
  ti_observation :: TargetObservationInsight
  ti_stellar_physics :: TargetStellarPhysicsInsight
  ti_ai_insights :: TargetAIInsights

record TargetInsightResponse =
  tir_target :: Target
  tir_insights :: TargetInsights

record TPFSample =
  tpf_rows :: jsnum
  tpf_cols :: jsnum
  tpf_aperture_mask :: "jsnum list"
  tpf_median_flux_map :: "jsnum list"
  tpf_difference_flux_map :: "jsnum list"
  tpf_centroid_row :: jsnum
  tpf_centroid_col :: jsnum
  tpf_centroid_offset_pixels :: jsnum
  tpf_pixel_mad_median :: jsnum
  tpf_variability_peak_fraction :: jsnum

record TargetObservationResponse_lightcurve =
  orl_points :: jsnum
  orl_time :: "jsnum list"
  orl_flux :: "jsnum list"

record TargetObservationResponse =
  obr_tic_id :: jsnum
  obr_sector :: jsnum
  obr_lightcurve :: TargetObservationResponse_lightcurve
  obr_tpf :: "TPFSample option"

record LightcurveResponse =
  lcr_tic_id :: jsnum
  lcr_sector :: jsnum
  lcr_time :: "jsnum list"
  lcr_flux :: "jsnum list"

end
