(* ===== verification/NumError.thy ===== *)
theory NumError
  imports JsNumber
begin

text \<open>
  Error bounds for expressions over binary64 numbers: \<open>approx x q e\<close> says that the number
  \<open>x\<close> is finite and within \<open>e\<close> of the exact value \<open>q\<close>, with one composition rule per
  operator, and magnitude bounds by powers of two. The physics of the orbit viewer is
  proved with them.
\<close>

definition approx :: "jsnum \<Rightarrow> rat \<Rightarrow> rat \<Rightarrow> bool" where
  "approx x q e \<longleftrightarrow> isFinite x \<and> \<bar>val x - q\<bar> \<le> e"

lemma approxD: "approx x q e \<Longrightarrow> isFinite x" "approx x q e \<Longrightarrow> \<bar>val x - q\<bar> \<le> e"
  by (simp_all add: approx_def)

lemma approx_self: "isFinite x \<Longrightarrow> approx x (val x) 0"
  by (simp add: approx_def)

lemma approx_weaken: "approx x q e \<Longrightarrow> e \<le> f \<Longrightarrow> approx x q f"
  by (auto simp: approx_def)

text \<open>The rounding error of a value of magnitude at most \<open>2^k\<close>.\<close>

lemma round64_error_pow:
  assumes "\<bar>q\<bar> \<le> 2 ^ k"
  shows "\<bar>round64 q - q\<bar> \<le> 2 ^ k / 2 ^ 53"
proof (cases "q = 0")
  case False
  have "(2::rat) powi (ilog2 \<bar>q\<bar>) \<le> 2 powi (int k)"
    using ilog2_bounds(1) [of "\<bar>q\<bar>"] False assms by simp
  then have "ilog2 \<bar>q\<bar> \<le> int k" by (rule powi2_le)
  then have "(2::rat) powi (ulp_exp q) \<le> 2 powi (int k - 52)"
    by (intro powi2_mono) (simp add: ulp_exp_def)
  then have "2 powi (ulp_exp q) / 2 \<le> (2 powi (int k - 52)) / (2::rat)" by (rule divide_right_mono) simp
  also have "\<dots> = 2 ^ k / 2 ^ 53" by (simp add: power_int_diff)
  finally show ?thesis using round64_error [of q] by linarith
qed simp

lemma round64_error4: "\<bar>q\<bar> \<le> 4 \<Longrightarrow> \<bar>round64 q - q\<bar> \<le> 1 / 2 ^ 51"
  using round64_error_pow [of q 2] by simp

lemma approx_mk:
  assumes "\<bar>q\<bar> \<le> 4"
  shows "approx (mk s q) q (1 / 2 ^ 51)"
proof -
  have "(1 / 2 ^ 51 :: rat) \<le> 1" by simp
  then have "\<bar>round64 q\<bar> \<le> 5" using round64_error4 [OF assms] assms by linarith
  also have "(5::rat) < 2 ^ 1024" using small_lt_overflow [of 5] by simp
  finally have fin: "isFinite (mk s q)" by (simp add: isFinite_mk)
  then show ?thesis using round64_error4 [OF assms] by (simp add: approx_def val_mk)
qed

lemma approx_lit: "\<bar>q\<bar> \<le> 4 \<Longrightarrow> approx (lit q) q (1 / 2 ^ 51)"
  unfolding lit_def by (rule approx_mk)

lemma approx_round:
  assumes "approx (mk s r) r d" "\<bar>r - q\<bar> \<le> e"
  shows "approx (mk s r) q (e + d)"
  using assms by (auto simp: approx_def abs_le_iff)

lemma approx_add:
  assumes "approx x p e" "approx y q f" "\<bar>p\<bar> + \<bar>q\<bar> + e + f \<le> 4"
  shows "approx (x + y) (p + q) (e + f + 1 / 2 ^ 51)"
proof -
  have xy: "isFinite x" "isFinite y" "\<bar>val x - p\<bar> \<le> e" "\<bar>val y - q\<bar> \<le> f"
    using assms by (auto simp: approx_def)
  then have "\<bar>val x + val y\<bar> \<le> 4" "\<bar>val x + val y - (p + q)\<bar> \<le> e + f" using assms(3) by linarith+
  then show ?thesis using xy by (simp only: finite_add) (intro approx_round approx_mk)
qed

lemma approx_uminus: "approx x p e \<Longrightarrow> approx (- x) (- p) e"
  by (auto simp: approx_def)

lemma approx_sub:
  assumes "approx x p e" "approx y q f" "\<bar>p\<bar> + \<bar>q\<bar> + e + f \<le> 4"
  shows "approx (x - y) (p - q) (e + f + 1 / 2 ^ 51)"
  using approx_add [OF assms(1) approx_uminus [OF assms(2)]] assms(3) by (simp add: minus_jsnum_def)

lemma approx_mult:
  assumes "approx x p e" "isFinite t" "\<bar>val t\<bar> \<le> T" "(\<bar>p\<bar> + e) * T \<le> 4"
  shows "approx (x * t) (p * val t) (e * T + 1 / 2 ^ 51)"
proof -
  have x: "isFinite x" "\<bar>val x - p\<bar> \<le> e" using assms by (auto simp: approx_def)
  then have e: "0 \<le> e" "\<bar>val x\<bar> \<le> \<bar>p\<bar> + e" by linarith+
  have "\<bar>val x * val t\<bar> \<le> (\<bar>p\<bar> + e) * T"
    unfolding abs_mult using e assms(3) by (intro mult_mono) auto
  then have "\<bar>val x * val t\<bar> \<le> 4" using assms(4) by linarith
  moreover have "\<bar>val x * val t - p * val t\<bar> \<le> e * T"
    using mult_mono [OF x(2) assms(3)] e by (simp add: abs_mult [symmetric] left_diff_distrib)
  ultimately show ?thesis using x assms(2) by (simp only: finite_mult) (intro approx_round approx_mk)
qed

section \<open>Magnitudes\<close>

text \<open>A number is at most \<open>2^k\<close> in magnitude; powers of two survive rounding.\<close>

definition mag_le :: "jsnum \<Rightarrow> nat \<Rightarrow> bool" where
  "mag_le x k \<longleftrightarrow> isFinite x \<and> \<bar>val x\<bar> \<le> 2 ^ k"

lemma pow2_exact: "k \<le> 1023 \<Longrightarrow> round64 (2 ^ k) = 2 ^ k \<and> (2 ^ k :: rat) < 2 ^ 1024"
proof
  assume k: "k \<le> 1023"
  have "round64 (2 powi int k) = 2 powi int k"
    by (intro round64_representable representable_powi) simp
  then show "round64 (2 ^ k) = 2 ^ k" by simp
  show "(2 ^ k :: rat) < 2 ^ 1024" using k by (intro power_strict_increasing) auto
qed

lemma mag_le_mk:
  assumes "\<bar>q\<bar> \<le> 2 ^ k" "k \<le> 1023"
  shows "mag_le (mk s q) k"
proof -
  have fin: "isFinite (mk s q)" using isFinite_mk_le [OF assms(1)] pow2_exact [OF assms(2)] by blast
  have "\<bar>round64 q\<bar> = round64 \<bar>q\<bar>" by (rule r64.rnd_abs)
  also have "\<dots> \<le> 2 ^ k" using assms pow2_exact [of k] by (intro r64.rnd_le) auto
  finally show ?thesis using fin by (simp add: mag_le_def val_mk)
qed

lemma mag_le_mono: "mag_le x k \<Longrightarrow> k \<le> n \<Longrightarrow> mag_le x n"
  unfolding mag_le_def using power_increasing [of k n "2::rat"] order_trans by fastforce

lemma mag_le_add:
  assumes "mag_le x k" "mag_le y k" "k < 1023"
  shows "mag_le (x + y) (Suc k)"
proof -
  have "\<bar>val x\<bar> \<le> 2 ^ k" "\<bar>val y\<bar> \<le> 2 ^ k" using assms by (auto simp: mag_le_def)
  then have "\<bar>val x + val y\<bar> \<le> 2 ^ Suc k" unfolding power_Suc by linarith
  then show ?thesis using assms by (simp add: mag_le_def [of x] mag_le_def [of y] finite_add mag_le_mk)
qed

lemma mag_le_uminus: "mag_le (- x) k = mag_le x k"
  by (simp add: mag_le_def)

lemma mag_le_sub: "mag_le x k \<Longrightarrow> mag_le y k \<Longrightarrow> k < 1023 \<Longrightarrow> mag_le (x - y) (Suc k)"
  by (simp add: minus_jsnum_def mag_le_add mag_le_uminus)

lemma mag_le_mult:
  assumes "mag_le x k" "mag_le y n" "k + n \<le> 1023"
  shows "mag_le (x * y) (k + n)"
proof -
  have "\<bar>val x * val y\<bar> \<le> 2 ^ (k + n)"
    unfolding abs_mult power_add using assms by (intro mult_mono) (auto simp: mag_le_def)
  then show ?thesis using assms by (simp add: mag_le_def [of x] mag_le_def [of y] finite_mult mag_le_mk)
qed

text \<open>Dividing by a number of at least \<open>2^-n\<close> in magnitude.\<close>

lemma mag_le_divide:
  assumes "mag_le x k" "isFinite y" "1 / 2 ^ n \<le> \<bar>val y\<bar>" "k + n \<le> 1023"
  shows "mag_le (x / y) (k + n)"
proof -
  have "0 < (1 / 2 ^ n :: rat)" by simp
  then have "0 < \<bar>val y\<bar>" using assms(3) by (rule less_le_trans)
  then have y: "val y \<noteq> 0" "0 < \<bar>val y\<bar>" by auto
  have "\<bar>val x / val y\<bar> = \<bar>val x\<bar> / \<bar>val y\<bar>" by simp
  also have "\<dots> \<le> 2 ^ k / (1 / 2 ^ n)" using assms y by (intro frac_le) (auto simp: mag_le_def)
  also have "\<dots> = 2 ^ (k + n)" by (simp add: power_add)
  finally show ?thesis using assms y by (simp add: mag_le_def [of x] finite_divide mag_le_mk)
qed

text \<open>A share of a whole, as a percentage.\<close>

lemma percent_bounds:
  assumes "isFinite x" "isFinite y" "0 \<le> val x" "val x \<le> val y" "0 < val y"
  shows "Fin 0 \<le> x / y * Fin 100 \<and> x / y * Fin 100 \<le> lit 100"
proof -
  let ?q = "val x / val y"
  have q: "0 \<le> ?q" "?q \<le> 1" using assms by (simp_all add: divide_le_eq_1)
  obtain w where w: "x / y = mk w ?q" using assms by (auto simp: finite_divide)
  have "mag_le (mk w ?q) 0" using q by (intro mag_le_mk) auto
  then have v: "isFinite (mk w ?q)" "0 \<le> val (mk w ?q)" "val (mk w ?q) \<le> 1"
    using mk_nonneg [OF q(1), of w] by (auto simp: mag_le_def)
  obtain z where z: "mk w ?q * Fin 100 = mk z (val (mk w ?q) * 100)" using v(1) by (auto simp: finite_mult)
  have "mk w ?q * Fin 100 \<le> lit 100" unfolding z lit_def using v by (auto intro!: mk_mono)
  moreover have "Fin 0 \<le> mk w ?q * Fin 100" unfolding z using v by (intro mk_nonneg) simp
  ultimately show ?thesis by (simp add: w)
qed

end
