(* ===== verification/OrbitPhysics.thy ===== *)
theory OrbitPhysics
  imports AnalyticsTypes NumError
begin

text \<open>
  The physics of the orbit viewer (\<open>pages/target-detail/components/orbit-viewer/types.ts\<close> and
  \<open>physics.ts\<close>): spectral classes, the habitable zone, planet biomes, the Kepler solver, the
  derivation of the planetary system shown for a target, and the background stars. Shown:
  the habitable-zone boundaries are ordered, the Newton iteration of the solver stays finite
  and keeps the orbit within the clamped eccentricity, and every derived planet has finite
  positive elements and moves on a circle.
\<close>

section \<open>Data\<close>

record StarParams =
  star_name :: str
  star_teff :: jsnum
  star_radius :: jsnum
  star_mass :: "jsnum option"
  star_mag :: "jsnum option"
  star_luminositySolar :: "jsnum option"
  star_logg :: "jsnum option"

record PlanetParams =
  pl_name :: str
  pl_radiusEarth :: jsnum
  pl_periodDays :: jsnum
  pl_semiMajorAxisAu :: jsnum
  pl_tempK :: "jsnum option"
  pl_habitabilityTier :: "str option"
  pl_habitabilityScore :: "jsnum option"
  pl_eccentricity :: "jsnum option"
  pl_periapsisDeg :: "jsnum option"
  pl_initialPhase :: "jsnum option"
  pl_inclinationDeg :: "jsnum option"
  pl_axialTiltDeg :: "jsnum option"
  pl_rotationPeriodHours :: "jsnum option"
  pl_massEarth :: "jsnum option"
  pl_insolationEarth :: "jsnum option"
  pl_orbitalVelocityKms :: "jsnum option"
  pl_isCandidate :: "bool option"

record TransitSyncEvent =
  ev_time :: jsnum
  ev_phase :: jsnum
  ev_isTransit :: bool
  ev_transitDepthRatio :: "jsnum option"
  ev_planetName :: "str option"

record StarStyle =
  ss_base :: str
  ss_glow :: str
  ss_corona :: str
  ss_flare :: str
  ss_type :: str
  ss_spectralClass :: str
  ss_description :: str

datatype surface_pattern = Continents | Bands | Craters | Lava_cracks | Ice_sheets | Methane_haze

record PlanetBiome =
  pb_type :: str
  pb_baseColor :: str
  pb_accentColor :: str
  pb_atmosphereGlow :: str
  pb_nightGlow :: str
  pb_hasClouds :: bool
  pb_hasRings :: bool
  pb_isHabitable :: bool
  pb_surfacePattern :: surface_pattern

record HabitableZoneBoundaries =
  optInnerAu :: jsnum
  consInnerAu :: jsnum
  consOuterAu :: jsnum
  optOuterAu :: jsnum
  luminosity :: jsnum

record CameraState =
  cam_pitch :: jsnum
  cam_yaw :: jsnum
  cam_targetPitch :: jsnum
  cam_targetYaw :: jsnum
  cam_distance :: jsnum
  cam_targetDistance :: jsnum
  cam_panX :: jsnum
  cam_panY :: jsnum
  cam_isDragging :: bool
  cam_startX :: jsnum
  cam_startY :: jsnum
  cam_autoRotate :: bool

datatype CameraMode = CM_free | CM_track | CM_polar | CM_transit | CM_focus_planet | CM_focus_star

record BackgroundStar =
  bs_x :: jsnum
  bs_y :: jsnum
  bs_size :: jsnum
  bs_depth :: jsnum
  bs_color :: str
  bs_blinkPhase :: jsnum

record TrailPoint =
  tp_xAu :: jsnum
  tp_zAu :: jsnum
  tp_time :: jsnum

section \<open>Spectral class\<close>

definition getStarColor :: "jsnum \<Rightarrow> StarStyle" where
  "getStarColor teff =
     (if teff < lit 3700 then
        \<lparr>ss_base = (u ''#ff3d1a''), ss_glow = (u ''rgba(255, 61, 26, 0.55)''), ss_corona = (u ''rgba(255, 100, 30, 0.25)''),
         ss_flare = (u ''#ff7744''), ss_type = (u ''M-Dwarf (Red Dwarf)''), ss_spectralClass = (u ''M''),
         ss_description = (u ''Cool, low-mass star with frequent magnetic flares and tight habitable zone.'')\<rparr>
      else if teff < lit 5200 then
        \<lparr>ss_base = (u ''#ff9d26''), ss_glow = (u ''rgba(255, 157, 38, 0.55)''), ss_corona = (u ''rgba(255, 190, 60, 0.25)''),
         ss_flare = (u ''#ffbb66''), ss_type = (u ''K-Type (Orange Dwarf)''), ss_spectralClass = (u ''K''),
         ss_description = (u ''Stable, long-lived star considered prime candidate for exoplanet habitability.'')\<rparr>
      else if teff < lit 6000 then
        \<lparr>ss_base = (u ''#ffea6c''), ss_glow = (u ''rgba(255, 234, 108, 0.6)''), ss_corona = (u ''rgba(255, 245, 160, 0.28)''),
         ss_flare = (u ''#fff8cc''), ss_type = (u ''G-Type (Yellow Dwarf, Sun-like)''), ss_spectralClass = (u ''G''),
         ss_description = (u ''Solar-twin star with balanced ultraviolet and visible radiation flux.'')\<rparr>
      else if teff < lit 7500 then
        \<lparr>ss_base = (u ''#eaf4ff''), ss_glow = (u ''rgba(234, 244, 255, 0.65)''), ss_corona = (u ''rgba(200, 230, 255, 0.3)''),
         ss_flare = (u ''#ffffff''), ss_type = (u ''F-Type (Yellow-White Star)''), ss_spectralClass = (u ''F''),
         ss_description = (u ''Luminous and hot star with wide, extended habitable zone boundaries.'')\<rparr>
      else
        \<lparr>ss_base = (u ''#80c4ff''), ss_glow = (u ''rgba(128, 196, 255, 0.7)''), ss_corona = (u ''rgba(90, 170, 255, 0.35)''),
         ss_flare = (u ''#bfe0ff''), ss_type = (u ''A/B-Type (Blue-White Giant)''), ss_spectralClass = (u ''A''),
         ss_description = (u ''Extremely luminous, short-lived star with intense high-energy radiation.'')\<rparr>)"

section \<open>Habitable zone\<close>

text \<open>The flux boundaries of Kopparapu et al., the \<open>const\<close>s \<open>sOptInner\<close> to \<open>sOptOuter\<close>.\<close>

definition sOptInner :: "jsnum \<Rightarrow> jsnum" where
  "sOptInner tStar = lit (17763 / 10 ^ 4) + lit (14335 / 10 ^ 8) * tStar + lit (33954 / 10 ^ 13) * tStar * tStar"

definition sConsInner :: "jsnum \<Rightarrow> jsnum" where
  "sConsInner tStar = lit (1107 / 10 ^ 3) + lit (1332 / 10 ^ 7) * tStar + lit (158 / 10 ^ 10) * tStar * tStar"

definition sConsOuter :: "jsnum \<Rightarrow> jsnum" where
  "sConsOuter tStar = lit (356 / 10 ^ 3) + lit (6171 / 10 ^ 8) * tStar - lit (1698 / 10 ^ 12) * tStar * tStar"

definition sOptOuter :: "jsnum \<Rightarrow> jsnum" where
  "sOptOuter tStar = lit (32 / 10 ^ 2) + lit (5547 / 10 ^ 8) * tStar - lit (1526 / 10 ^ 12) * tStar * tStar"

definition calculateHabitableZone :: "mathlib \<Rightarrow> jsnum \<Rightarrow> jsnum \<Rightarrow> HabitableZoneBoundaries" where
  "calculateHabitableZone m radius teff =
     (if \<not> isFinite radius \<or> \<not> isFinite teff \<or> radius \<le> lit 0 \<or> teff \<le> lit 0
      then \<lparr>optInnerAu = lit 0, consInnerAu = lit 0, consOuterAu = lit 0, optOuterAu = lit 0, luminosity = lit 0\<rparr>
      else
        let lum = Math_pow m radius (lit 2) * Math_pow m (teff / lit 5778) (lit 4);
            tStar = teff - lit 5780
        in \<lparr>optInnerAu = Math_max (lit (2 / 100)) (Math_sqrt m (lum / Math_max (lit (2 / 10)) (sOptInner tStar))),
            consInnerAu = Math_max (lit (3 / 100)) (Math_sqrt m (lum / Math_max (lit (15 / 100)) (sConsInner tStar))),
            consOuterAu = Math_max (lit (6 / 100)) (Math_sqrt m (lum / Math_max (lit (5 / 100)) (sConsOuter tStar))),
            optOuterAu = Math_max (lit (8 / 100)) (Math_sqrt m (lum / Math_max (lit (4 / 100)) (sOptOuter tStar))),
            luminosity = lum\<rparr>)"

section \<open>Biomes\<close>

text \<open>\<open>None\<close> is an argument left out: the defaults are 300 K and an insolation of 1.\<close>

definition getPlanetBiome :: "jsnum \<Rightarrow> jsnum option \<Rightarrow> jsnum option \<Rightarrow> PlanetBiome" where
  "getPlanetBiome radiusEarth tempK_arg insolation_arg =
     (let tempK = nullish tempK_arg (lit 300); insolation = nullish insolation_arg (lit 1) in
      if lit 6 \<le> radiusEarth then
        \<lparr>pb_type = (u ''Jovian Gas Giant''), pb_baseColor = (u ''#d6a674''), pb_accentColor = (u ''#8a5327''),
         pb_atmosphereGlow = (u ''rgba(240, 190, 140, 0.45)''), pb_nightGlow = (u ''rgba(0,0,0,0)''),
         pb_hasClouds = True, pb_hasRings = True, pb_isHabitable = False, pb_surfacePattern = Bands\<rparr>
      else if lit (22 / 10) \<le> radiusEarth then
        (if lit 400 < tempK then
          \<lparr>pb_type = (u ''Hot Sub-Neptune''), pb_baseColor = (u ''#3d86b8''), pb_accentColor = (u ''#6bc3f7''),
           pb_atmosphereGlow = (u ''rgba(120, 210, 255, 0.55)''), pb_nightGlow = (u ''rgba(0,0,0,0)''),
           pb_hasClouds = True, pb_hasRings = False, pb_isHabitable = False, pb_surfacePattern = Methane_haze\<rparr>
         else
          \<lparr>pb_type = (u ''Ice Giant (Neptunian)''), pb_baseColor = (u ''#2b98d6''), pb_accentColor = (u ''#125c8a''),
           pb_atmosphereGlow = (u ''rgba(80, 200, 255, 0.5)''), pb_nightGlow = (u ''rgba(0,0,0,0)''),
           pb_hasClouds = True, pb_hasRings = True, pb_isHabitable = False, pb_surfacePattern = Methane_haze\<rparr>)
      else if lit 650 < tempK then
        \<lparr>pb_type = (u ''Lava World (Magma Ocean)''), pb_baseColor = (u ''#2b211f''), pb_accentColor = (u ''#ff4d00''),
         pb_atmosphereGlow = (u ''rgba(255, 80, 0, 0.5)''), pb_nightGlow = (u ''rgba(255, 100, 0, 0.75)''),
         pb_hasClouds = False, pb_hasRings = False, pb_isHabitable = False, pb_surfacePattern = Lava_cracks\<rparr>
      else if lit 380 < tempK \<or> lit (18 / 10) < insolation then
        \<lparr>pb_type = (u ''Super-Venus (Runaway Greenhouse)''), pb_baseColor = (u ''#cf9b5b''), pb_accentColor = (u ''#8a5e2f''),
         pb_atmosphereGlow = (u ''rgba(255, 195, 120, 0.55)''), pb_nightGlow = (u ''rgba(0,0,0,0)''),
         pb_hasClouds = True, pb_hasRings = False, pb_isHabitable = False, pb_surfacePattern = Bands\<rparr>
      else if tempK < lit 185 then
        \<lparr>pb_type = (u ''Cryogenic Ice World''), pb_baseColor = (u ''#bde9f8''), pb_accentColor = (u ''#6eb8d6''),
         pb_atmosphereGlow = (u ''rgba(190, 240, 255, 0.45)''), pb_nightGlow = (u ''rgba(100, 200, 255, 0.25)''),
         pb_hasClouds = True, pb_hasRings = False, pb_isHabitable = False, pb_surfacePattern = Ice_sheets\<rparr>
      else if lit 235 \<le> tempK \<and> tempK \<le> lit 340 then
        \<lparr>pb_type = (u ''Temperate Ocean & Terrestrial (Goldilocks)''), pb_baseColor = (u ''#1d63ab''), pb_accentColor = (u ''#2b9e56''),
         pb_atmosphereGlow = (u ''rgba(70, 195, 255, 0.65)''), pb_nightGlow = (u ''rgba(255, 220, 120, 0.45)''),
         pb_hasClouds = True, pb_hasRings = False, pb_isHabitable = True, pb_surfacePattern = Continents\<rparr>
      else
        \<lparr>pb_type = (u ''Barren Rocky Terrestrial''), pb_baseColor = (u ''#9c816e''), pb_accentColor = (u ''#5e483a''),
         pb_atmosphereGlow = (u ''rgba(180, 155, 135, 0.3)''), pb_nightGlow = (u ''rgba(0,0,0,0)''),
         pb_hasClouds = False, pb_hasRings = False, pb_isHabitable = False, pb_surfacePattern = Craters\<rparr>)"

section \<open>The Kepler solver\<close>

record kepler_position =
  kp_xAu :: jsnum
  kp_zAu :: jsnum
  kp_radiusAu :: jsnum
  kp_trueAnomalyRad :: jsnum

text \<open>The clamped eccentricity and the mean anomaly reduced to one turn.\<close>

definition kepler_e :: "jsnum \<Rightarrow> jsnum" where
  "kepler_e eccentricity = Math_max (lit 0) (Math_min (lit (85 / 100)) eccentricity)"

definition kepler_M :: "jsnum \<Rightarrow> jsnum" where
  "kepler_M meanAnomalyRad =
     (let M = meanAnomalyRad mod (Math_PI * lit 2) in if M < lit 0 then M + Math_PI * lit 2 else M)"

text \<open>One turn of the Newton loop, and its four turns.\<close>

definition newton_step :: "mathlib \<Rightarrow> jsnum \<Rightarrow> jsnum \<Rightarrow> jsnum \<Rightarrow> jsnum" where
  "newton_step m e M E =
     (let f = E - e * Math_sin m E - M; fPrime = lit 1 - e * Math_cos m E in E - f / fPrime)"

definition newton_loop :: "mathlib \<Rightarrow> jsnum \<Rightarrow> jsnum \<Rightarrow> jsnum" where
  "newton_loop m e M = (newton_step m e M ^^ 4) M"

definition solveKeplerOrbit :: "mathlib \<Rightarrow> jsnum \<Rightarrow> jsnum \<Rightarrow> jsnum \<Rightarrow> jsnum \<Rightarrow> kepler_position" where
  "solveKeplerOrbit m meanAnomalyRad eccentricity semiMajorAxisAu periapsisRad =
     (let e = kepler_e eccentricity; M = kepler_M meanAnomalyRad; E = newton_loop m e M;
          sinNuHalf = Math_sqrt m (Math_max (lit 0) (lit 1 + e)) * Math_sin m (E / lit 2);
          cosNuHalf = Math_sqrt m (Math_max (lit 0) (lit 1 - e)) * Math_cos m (E / lit 2);
          trueAnomaly = lit 2 * Math_atan2 m sinNuHalf cosNuHalf;
          radiusAu = semiMajorAxisAu * (lit 1 - e * Math_cos m E);
          phi = trueAnomaly + periapsisRad
      in \<lparr>kp_xAu = radiusAu * Math_cos m phi, kp_zAu = radiusAu * Math_sin m phi,
          kp_radiusAu = radiusAu, kp_trueAnomalyRad = trueAnomaly\<rparr>)"

section \<open>The planetary system of a target\<close>

definition pos_finite :: "jsnum option \<Rightarrow> bool" where
  "pos_finite x = (case x of None \<Rightarrow> False | Some v \<Rightarrow> isFinite v \<and> \<not> v \<le> lit 0)"

text \<open>The radius from the transit depth when the catalog has none.\<close>

definition derived_radius :: "mathlib \<Rightarrow> TargetAIInsights \<Rightarrow> TargetStellarPhysicsInsight \<Rightarrow> jsnum option" where
  "derived_radius m ai stellar = (case ai_bls_depth_fraction ai of
      Some d \<Rightarrow> if \<not> pos_finite (ai_planet_radius_earth ai) \<and> truthy d \<and> lit 0 < d \<and> lit 0 < sp_radius stellar
                then Some (Math_sqrt m d * sp_radius stellar * lit (109076 / 1000))
                else ai_planet_radius_earth ai
    | None \<Rightarrow> ai_planet_radius_earth ai)"

text \<open>The semi-major axis by Kepler's third law when the catalog has none.\<close>

definition derived_axis :: "mathlib \<Rightarrow> TargetAIInsights \<Rightarrow> TargetStellarPhysicsInsight \<Rightarrow> jsnum option" where
  "derived_axis m ai stellar =
     (if \<not> pos_finite (ai_semi_major_axis_au ai) \<and> pos_finite (ai_bls_period_days ai)
      then let periodYears = the (ai_bls_period_days ai) / lit (36525 / 100);
               mStar = (if lit 0 < sp_mass stellar then sp_mass stellar else lit 1)
           in Some (Math_cbrt m (mStar * periodYears * periodYears))
      else ai_semi_major_axis_au ai)"

definition orbit_or_str :: "str \<Rightarrow> str \<Rightarrow> str" where
  "orbit_or_str a b = (if a \<noteq> [] then a else b)"

definition derivePlanetarySystemFromInsights ::
    "mathlib \<Rightarrow> Target option \<Rightarrow> TargetInsights option \<Rightarrow> PlanetParams list" where
  "derivePlanetarySystemFromInsights m target insights = (case (target, insights) of
      (Some t, Some ins) \<Rightarrow>
        let ai = ti_ai_insights ins; stellar = ti_stellar_physics ins;
            period = ai_bls_period_days ai;
            radiusEarth = derived_radius m ai stellar;
            semiMajorAxis = derived_axis m ai stellar
        in if \<not> pos_finite period \<or> \<not> pos_finite semiMajorAxis \<or> \<not> pos_finite radiusEarth then []
           else [\<lparr>pl_name = orbit_or_str (ai_candidate_prediction_id ai) (u ''Candidate (TIC '' @ num_str (tg_tic_id t) @ u '')''),
             pl_radiusEarth = the radiusEarth, pl_periodDays = the period,
             pl_semiMajorAxisAu = the semiMajorAxis, pl_tempK = ai_equilibrium_temp_k ai,
             pl_habitabilityTier = (let tier = orbit_or_str (ai_habitability_tier ai) (ai_hz_classification ai)
                in if tier \<noteq> [] then Some tier else None),
             pl_habitabilityScore = ai_habitability_score ai, pl_eccentricity = Some (lit 0),
             pl_periapsisDeg = Some (lit 0), pl_initialPhase = Some (lit 0), pl_inclinationDeg = None,
             pl_axialTiltDeg = None, pl_rotationPeriodHours = None, pl_massEarth = None,
             pl_insolationEarth = None, pl_orbitalVelocityKms = None, pl_isCandidate = Some True\<rparr>]
    | _ \<Rightarrow> [])"

section \<open>Background stars\<close>

definition star_colors :: "str list" where
  "star_colors = [(u ''#ffffff''), (u ''#cbd5e1''), (u ''#94a3b8'')]"

text \<open>\<open>random i\<close> is the result of the \<open>i\<close>-th call of \<open>Math.random\<close>; a star takes four.\<close>

definition make_star :: "(nat \<Rightarrow> jsnum) \<Rightarrow> nat \<Rightarrow> BackgroundStar" where
  "make_star random i =
     \<lparr>bs_x = random (4 * i), bs_y = random (4 * i + 1),
      bs_size = random (4 * i + 2) * lit (8 / 10) + lit (3 / 10), bs_depth = lit (5 / 10),
      bs_color = nullish (arr_idx star_colors
         (Math_floor (random (4 * i + 3) * jsnum_of_nat (length star_colors)))) (u ''#ffffff''),
      bs_blinkPhase = lit 0\<rparr>"

definition generateStarfield :: "(nat \<Rightarrow> jsnum) \<Rightarrow> nat \<Rightarrow> BackgroundStar list" where
  "generateStarfield random n = map (make_star random) [0..<n]"

section \<open>The habitable zone is ordered\<close>

lemma val_Math_max: "isFinite x \<Longrightarrow> isFinite y \<Longrightarrow> val (Math_max x y) = max (val x) (val y)"
  by (cases x; cases y) (auto simp: Math_max_def)

lemma poly_terms:
  assumes "isFinite t" "\<bar>val t\<bar> \<le> 7220" "\<bar>a\<bar> \<le> 18 / 10" "\<bar>b\<bar> \<le> 1 / 6000" "\<bar>c\<bar> \<le> 1 / 60000000"
  shows "approx (lit a + lit b * t) (a + b * val t) (1 / 10 ^ 7)"
    and "approx (lit c * t * t) (c * val t * val t) (1 / 10 ^ 7)"
    and "\<bar>a + b * val t\<bar> + \<bar>c * val t * val t\<bar> + 1 / 10 ^ 7 + 1 / 10 ^ 7 \<le> 4"
proof -
  let ?d = "1 / 2 ^ 51 :: rat"
  have bt: "\<bar>b * val t\<bar> \<le> 1 / 6000 * 7220" and ct: "\<bar>c * val t\<bar> \<le> 1 / 60000000 * 7220"
    unfolding abs_mult by (rule mult_mono [OF assms(4,2)] mult_mono [OF assms(5,2)]; simp)+
  then have ctt: "\<bar>c * val t * val t\<bar> \<le> 1 / 60000000 * 7220 * 7220"
    unfolding abs_mult [of "c * val t"] using assms by (intro mult_mono) auto
  have la: "approx (lit a) a ?d" "approx (lit b) b ?d" "approx (lit c) c ?d"
    by (rule approx_lit, use assms in linarith)+
  have lb: "approx (lit b * t) (b * val t) (?d * 7220 + ?d)"
  proof (rule approx_mult [OF la(2) assms(1,2)])
    have "(\<bar>b\<bar> + ?d) * 7220 \<le> (1 / 6000 + ?d) * 7220" using assms by (intro mult_right_mono) auto
    also have "\<dots> \<le> 4" by simp
    finally show "(\<bar>b\<bar> + ?d) * 7220 \<le> 4" .
  qed
  have lc: "approx (lit c * t) (c * val t) (?d * 7220 + ?d)"
  proof (rule approx_mult [OF la(3) assms(1,2)])
    have "(\<bar>c\<bar> + ?d) * 7220 \<le> (1 / 60000000 + ?d) * 7220" using assms by (intro mult_right_mono) auto
    also have "\<dots> \<le> 4" by simp
    finally show "(\<bar>c\<bar> + ?d) * 7220 \<le> 4" .
  qed
  have lct: "approx (lit c * t * t) (c * val t * val t) ((?d * 7220 + ?d) * 7220 + ?d)"
  proof (rule approx_mult [OF lc assms(1,2)])
    have "(\<bar>c * val t\<bar> + (?d * 7220 + ?d)) * 7220 \<le> (1 / 60000000 * 7220 + (?d * 7220 + ?d)) * 7220"
      using ct by (intro mult_right_mono) auto
    also have "\<dots> \<le> 4" by simp
    finally show "(\<bar>c * val t\<bar> + (?d * 7220 + ?d)) * 7220 \<le> 4" .
  qed
  then show "approx (lit c * t * t) (c * val t * val t) (1 / 10 ^ 7)" by (rule approx_weaken) simp
  have "approx (lit a + lit b * t) (a + b * val t) (?d + (?d * 7220 + ?d) + ?d)"
  proof (rule approx_add [OF la(1) lb])
    have "\<bar>a\<bar> + \<bar>b * val t\<bar> + ?d + (?d * 7220 + ?d) \<le> 2 + 1 / 6000 * 7220 + ?d + (?d * 7220 + ?d)"
      using bt assms(3) by (intro add_mono) auto
    also have "\<dots> \<le> 4" by simp
    finally show "\<bar>a\<bar> + \<bar>b * val t\<bar> + ?d + (?d * 7220 + ?d) \<le> 4" .
  qed
  then show "approx (lit a + lit b * t) (a + b * val t) (1 / 10 ^ 7)" by (rule approx_weaken) simp
  have "(18 / 10 + 1 / 6000 * 7220) + 1 / 60000000 * 7220 * 7220 + 1 / 10 ^ 7 + 1 / 10 ^ 7 \<le> (4::rat)" by simp
  moreover have "\<bar>a + b * val t\<bar> \<le> 18 / 10 + 1 / 6000 * 7220" using bt assms(3) by linarith
  ultimately show "\<bar>a + b * val t\<bar> + \<bar>c * val t * val t\<bar> + 1 / 10 ^ 7 + 1 / 10 ^ 7 \<le> 4"
    using ctt by linarith
qed

lemma poly_close:
  assumes "isFinite t" "\<bar>val t\<bar> \<le> 7220" "\<bar>a\<bar> \<le> 18 / 10" "\<bar>b\<bar> \<le> 1 / 6000" "\<bar>c\<bar> \<le> 1 / 60000000"
  shows "approx (lit a + lit b * t + lit c * t * t) (a + b * val t + c * val t * val t) (1 / 10 ^ 6)"
    and "approx (lit a + lit b * t - lit c * t * t) (a + b * val t - c * val t * val t) (1 / 10 ^ 6)"
proof -
  note p = poly_terms [OF assms]
  show "approx (lit a + lit b * t + lit c * t * t) (a + b * val t + c * val t * val t) (1 / 10 ^ 6)"
    by (rule approx_weaken [OF approx_add [OF p]]) simp
  show "approx (lit a + lit b * t - lit c * t * t) (a + b * val t - c * val t * val t) (1 / 10 ^ 6)"
    by (rule approx_weaken [OF approx_sub [OF p]]) simp
qed

text \<open>The four flux boundaries up to rounding.\<close>

lemma flux_close:
  assumes "isFinite t" "\<bar>val t\<bar> \<le> 7220"
  shows "approx (sOptInner t) (17763 / 10 ^ 4 + 14335 / 10 ^ 8 * val t + 33954 / 10 ^ 13 * val t * val t) (1 / 10 ^ 6)"
    and "approx (sConsInner t) (1107 / 10 ^ 3 + 1332 / 10 ^ 7 * val t + 158 / 10 ^ 10 * val t * val t) (1 / 10 ^ 6)"
    and "approx (sConsOuter t) (356 / 10 ^ 3 + 6171 / 10 ^ 8 * val t - 1698 / 10 ^ 12 * val t * val t) (1 / 10 ^ 6)"
    and "approx (sOptOuter t) (32 / 10 ^ 2 + 5547 / 10 ^ 8 * val t - 1526 / 10 ^ 12 * val t * val t) (1 / 10 ^ 6)"
  unfolding sOptInner_def sConsInner_def sConsOuter_def sOptOuter_def
  by (rule poly_close [OF assms]; simp)+

lemma inner_flux_order:
  fixes v :: rat
  assumes "- 5780 \<le> v" "v \<le> 7220"
  shows "1107 / 10 ^ 3 + 1332 / 10 ^ 7 * v + 158 / 10 ^ 10 * v * v + 2 / 10 ^ 6
    \<le> 17763 / 10 ^ 4 + 14335 / 10 ^ 8 * v + 33954 / 10 ^ 13 * v * v"
proof -
  have "0 \<le> (v + 5780) * (7220 - v)" using assms by (intro mult_nonneg_nonneg) auto
  then have "v * v \<le> 1440 * v + 5780 * 7220" by (simp add: algebra_simps)
  then show ?thesis using assms by (simp add: mult.assoc field_simps)
qed

lemma cons_flux_order:
  fixes v :: rat
  assumes "- 5780 \<le> v" "v \<le> 7220"
  shows "356 / 10 ^ 3 + 6171 / 10 ^ 8 * v - 1698 / 10 ^ 12 * v * v + 2 / 10 ^ 6
    \<le> 1107 / 10 ^ 3 + 1332 / 10 ^ 7 * v + 158 / 10 ^ 10 * v * v"
proof -
  have "0 \<le> (v + 2000) * (v + 2000)" by simp
  then have "- (4000 * v + 4000000) \<le> v * v" by (simp add: algebra_simps)
  then show ?thesis using assms by (simp add: mult.assoc field_simps)
qed

lemma outer_flux_order:
  fixes v :: rat
  assumes "- 5780 \<le> v" "v \<le> 7220"
  shows "32 / 10 ^ 2 + 5547 / 10 ^ 8 * v - 1526 / 10 ^ 12 * v * v + 2 / 10 ^ 6
    \<le> max (4999 / 100000) (356 / 10 ^ 3 + 6171 / 10 ^ 8 * v - 1698 / 10 ^ 12 * v * v)"
proof (cases "- 4500 \<le> v")
  case True
  have "0 \<le> (v + 4500) * (7220 - v)" using assms True by (intro mult_nonneg_nonneg) auto
  then have "v * v \<le> 2720 * v + 4500 * 7220" by (simp add: algebra_simps)
  then have "32 / 10 ^ 2 + 5547 / 10 ^ 8 * v - 1526 / 10 ^ 12 * v * v + 2 / 10 ^ 6
    \<le> 356 / 10 ^ 3 + 6171 / 10 ^ 8 * v - 1698 / 10 ^ 12 * v * v"
    using True by (simp add: mult.assoc field_simps)
  then show ?thesis by linarith
next
  case False
  have "0 \<le> (- 4500 - v) * (- 4500 - v)" by simp
  then have "- (9000 * v + 4500 * 4500) \<le> v * v" by (simp add: algebra_simps)
  then have "32 / 10 ^ 2 + 5547 / 10 ^ 8 * v - 1526 / 10 ^ 12 * v * v + 2 / 10 ^ 6 \<le> 4999 / 100000"
    using False by (simp add: mult.assoc field_simps)
  then show ?thesis by linarith
qed

text \<open>A larger flux limit is a smaller distance.\<close>

lemma zone_mono:
  assumes "sqrt_monotone m" "isFinite l" "0 \<le> val l" "isFinite a" "isFinite b" "0 < val b" "val b \<le> val a"
    "f \<le> g"
  shows "Math_max f (Math_sqrt m (l / a)) \<le> Math_max g (Math_sqrt m (l / b))"
proof -
  have "l / a \<le> l / b" using assms by (intro divide_antimono_num) auto
  moreover have "Fin 0 \<le> l / a" using assms by (simp add: finite_divide mk_nonneg)
  ultimately show ?thesis using assms by (intro Math_max_mono sqrt_monotoneD) auto
qed

lemma tStar_range:
  assumes "isFinite teff" "0 < val teff" "val teff \<le> 13000"
  shows "isFinite (teff - lit 5780)" "- 5780 \<le> val (teff - lit 5780)" "val (teff - lit 5780) \<le> 7220"
proof -
  let ?q = "val teff - 5780"
  have r: "round64 (- 5780) \<le> round64 ?q" "round64 ?q \<le> round64 7220"
    by (rule round64_mono, use assms in linarith)+
  then have r': "- 5780 \<le> round64 ?q" "round64 ?q \<le> 7220" by (auto simp: round64_minus)
  have eq: "\<exists>s. teff - lit 5780 = mk s ?q" using assms by (auto simp: finite_sub)
  have "\<bar>round64 ?q\<bar> \<le> 7220" using r' by linarith
  also have "(7220::rat) < 2 ^ 1024" using small_lt_overflow [of 7220] by simp
  finally show fin: "isFinite (teff - lit 5780)" using eq isFinite_mk by metis
  then have "val (teff - lit 5780) = round64 ?q" using eq val_mk by metis
  then show "- 5780 \<le> val (teff - lit 5780)" "val (teff - lit 5780) \<le> 7220" using r' by auto
qed

lemma clamp_order:
  fixes c d e :: rat
  assumes "\<bar>c - X\<bar> \<le> e" "\<bar>d - Y\<bar> \<le> e" "Y + (e + e) \<le> max l X" "l + e \<le> c0" "d0 \<le> c0"
  shows "max d0 d \<le> max c0 c"
proof -
  have "0 \<le> e" "d \<le> Y + e" "X \<le> c + e" using assms(1,2) by linarith+
  then show ?thesis using assms(3-5) by (auto simp: max_def split: if_splits)
qed

text \<open>The clamped flux limits are finite, positive and decreasing outwards.\<close>

lemma clamped_fluxes:
  assumes "isFinite t" "- 5780 \<le> val t" "val t \<le> 7220"
  defines "A \<equiv> Math_max (lit (2 / 10)) (sOptInner t)" and "B \<equiv> Math_max (lit (15 / 100)) (sConsInner t)"
    and "C \<equiv> Math_max (lit (5 / 100)) (sConsOuter t)" and "D \<equiv> Math_max (lit (4 / 100)) (sOptOuter t)"
  shows "isFinite A \<and> isFinite B \<and> isFinite C \<and> isFinite D"
    and "val B \<le> val A" "val C \<le> val B" "val D \<le> val C" "0 < val D"
proof -
  have "\<bar>val t\<bar> \<le> 7220" using assms by linarith
  note f = flux_close [OF assms(1) this]
  note o = inner_flux_order [OF assms(2,3)] cons_flux_order [OF assms(2,3)] outer_flux_order [OF assms(2,3)]
  have l: "approx (lit q) q (1 / 1000000)" if "\<bar>q\<bar> \<le> 4" for q
    using approx_lit [OF that] by (rule approx_weaken) simp
  have l4: "approx (lit (2 / 10)) (2 / 10) (1 / 1000000)" "approx (lit (15 / 100)) (15 / 100) (1 / 1000000)"
    "approx (lit (5 / 100)) (5 / 100) (1 / 1000000)" "approx (lit (4 / 100)) (4 / 100) (1 / 1000000)"
    by (rule l, linarith)+
  have fl: "isFinite (lit (2 / 10))" "isFinite (lit (15 / 100))" "isFinite (lit (5 / 100))" "isFinite (lit (4 / 100))"
    by (rule l4 [THEN approxD(1)])+
  show "isFinite A \<and> isFinite B \<and> isFinite C \<and> isFinite D"
    unfolding assms(4-7) using fl f [THEN approxD(1)] by (simp add: isFinite_Math_max)
  have v: "val A = max (val (lit (2 / 10))) (val (sOptInner t))"
    "val B = max (val (lit (15 / 100))) (val (sConsInner t))"
    "val C = max (val (lit (5 / 100))) (val (sConsOuter t))"
    "val D = max (val (lit (4 / 100))) (val (sOptOuter t))"
    unfolding assms(4-7) by (rule val_Math_max; use fl f [THEN approxD(1)] in simp)+
  have lv: "val (lit (2 / 10)) \<ge> 19 / 100" "val (lit (15 / 100)) \<le> 151 / 1000"
    "val (lit (15 / 100)) \<ge> 14 / 100" "val (lit (5 / 100)) \<le> 6 / 100" "val (lit (5 / 100)) \<ge> 49995 / 1000000"
    "val (lit (4 / 100)) \<le> 41 / 1000" "val (lit (4 / 100)) \<ge> 39 / 1000"
    using l4 [THEN approxD(2)] by linarith+
  show "val B \<le> val A" using lv f(1,2) [THEN approxD(2)] o(1) unfolding v by (simp only: max_def abs_le_iff split: if_split) linarith
  show "val C \<le> val B" using lv f(2,3) [THEN approxD(2)] o(2) unfolding v by (simp only: max_def abs_le_iff split: if_split) linarith
  have e2: "(2 / 10 ^ 6 :: rat) = 1 / 10 ^ 6 + 1 / 10 ^ 6" "4999 / 100000 + 1 / 10 ^ 6 \<le> (49995 / 1000000 :: rat)" by simp_all
  show "val D \<le> val C" unfolding v
    by (rule clamp_order [OF f(3) [THEN approxD(2)] f(4) [THEN approxD(2)] o(3) [unfolded e2(1)]])
       (use lv e2(2) in linarith)+
  show "0 < val D" using lv unfolding v by linarith
qed

section \<open>The Kepler solver stays finite\<close>

lemma kepler_e_bounds:
  assumes "eccentricity \<noteq> NaN"
  shows "isFinite (kepler_e eccentricity)" "0 \<le> val (kepler_e eccentricity)"
    "val (kepler_e eccentricity) \<le> val (lit (85 / 100))"
proof -
  have l: "lit 0 \<le> lit (85 / 100)" by (rule lit_mono) simp
  have b: "lit 0 \<le> kepler_e eccentricity" "kepler_e eccentricity \<le> lit (85 / 100)"
    unfolding kepler_e_def using clamp_bounds [OF assms l] by auto
  have f: "isFinite (lit (85 / 100))" using approx_lit [of "85 / 100"] by (simp add: approx_def)
  show fin: "isFinite (kepler_e eccentricity)"
    using b f by (cases "kepler_e eccentricity") auto
  show "0 \<le> val (kepler_e eccentricity)" "val (kepler_e eccentricity) \<le> val (lit (85 / 100))"
    using b fin f by (auto simp: finite_le)
qed

lemma lit_85: "84 / 100 \<le> val (lit (85 / 100))" "val (lit (85 / 100)) \<le> 86 / 100"
proof -
  have "approx (lit (85 / 100)) (85 / 100) (1 / 2 ^ 51)" by (rule approx_lit) simp
  then have "\<bar>val (lit (85 / 100)) - 85 / 100\<bar> \<le> 1 / 100"
    by (rule order_trans [OF approxD(2)]) simp
  then show "84 / 100 \<le> val (lit (85 / 100))" "val (lit (85 / 100)) \<le> 86 / 100" by linarith+
qed

text \<open>The factor \<open>1 - e * c\<close> of the radius and of the Newton denominator.\<close>

lemma kepler_factor:
  assumes "isFinite e" "0 \<le> val e" "val e \<le> val (lit (85 / 100))" "isFinite c" "\<bar>val c\<bar> \<le> 1"
  shows "isFinite (lit 1 - e * c)" "13 / 100 \<le> val (lit 1 - e * c)" "val (lit 1 - e * c) \<le> 187 / 100"
proof -
  have ec: "\<bar>val e * val c\<bar> \<le> 86 / 100"
    using mult_mono [of "\<bar>val e\<bar>" "86 / 100" "\<bar>val c\<bar>" 1] assms lit_85(2) by (simp add: abs_mult)
  have "approx (e * c) (val e * val c) (0 * 1 + 1 / 2 ^ 51)"
    by (rule approx_mult [OF approx_self]) (use assms lit_85 in simp_all)
  then have "approx (e * c) (val e * val c) (1 / 1000)" by (rule approx_weaken) simp
  moreover have "approx (lit 1) 1 (1 / 1000)" by (rule approx_weaken [OF approx_lit]) simp_all
  ultimately have "approx (lit 1 - e * c) (1 - val e * val c) (1 / 1000 + 1 / 1000 + 1 / 2 ^ 51)"
    using ec by (intro approx_sub) auto
  then have a: "approx (lit 1 - e * c) (1 - val e * val c) (1 / 100)" by (rule approx_weaken) simp
  then show "isFinite (lit 1 - e * c)" by (rule approxD)
  show "13 / 100 \<le> val (lit 1 - e * c)" "val (lit 1 - e * c) \<le> 187 / 100"
    using approxD(2) [OF a] ec by linarith+
qed

lemma newton_step_mag:
  assumes "trig_bounded m" "isFinite e" "0 \<le> val e" "val e \<le> val (lit (85 / 100))"
    and "mag_le M k" "mag_le E k" "0 < k" "k < 1000"
  shows "mag_le (newton_step m e M E) (k + 6)"
proof -
  have E: "isFinite E" using assms by (simp add: mag_le_def)
  note t = trig_boundedD [OF assms(1) E]
  have e: "mag_le e 0" "mag_le (Math_sin m E) 0" using assms t lit_85 by (auto simp: mag_le_def)
  have "mag_le (e * Math_sin m E) (0 + 0)" using e by (rule mag_le_mult) simp
  then have "mag_le (e * Math_sin m E) k" using assms by (auto intro: mag_le_mono)
  then have "mag_le (E - e * Math_sin m E) (Suc k)" using assms by (intro mag_le_sub) auto
  then have "mag_le (E - e * Math_sin m E - M) (Suc (Suc k))"
    by (rule mag_le_sub [OF _ mag_le_mono [OF assms(5)]]) (use assms in simp_all)
  then have "mag_le ((E - e * Math_sin m E - M) / (lit 1 - e * Math_cos m E)) (Suc (Suc k) + 3)"
  proof (rule mag_le_divide)
    note f = kepler_factor [OF assms(2-4) t(2,4)]
    show "isFinite (lit 1 - e * Math_cos m E)" by (rule f)
    show "1 / 2 ^ 3 \<le> \<bar>val (lit 1 - e * Math_cos m E)\<bar>" using f by simp
  qed (use assms in simp)
  then show ?thesis unfolding newton_step_def Let_def
    using mag_le_sub [OF mag_le_mono [OF assms(6), of "k + 5"]] assms by (simp add: ac_simps)
qed

lemma newton_loop_finite:
  assumes "trig_bounded m" "isFinite e" "0 \<le> val e" "val e \<le> val (lit (85 / 100))" "mag_le M k" "0 < k" "k < 900"
  shows "isFinite (newton_loop m e M)"
proof -
  have "mag_le ((newton_step m e M ^^ n) M) (k + 6 * n)" if "n \<le> 4" for n
    using that
  proof (induction n)
    case (Suc n)
    then have "mag_le ((newton_step m e M ^^ n) M) (k + 6 * n)" by simp
    then have "mag_le (newton_step m e M ((newton_step m e M ^^ n) M)) (k + 6 * n + 6)"
      using assms Suc.prems by (intro newton_step_mag mag_le_mono [OF assms(5)]) auto
    then show ?case by (simp add: ac_simps)
  qed (use assms in simp)
  then show ?thesis by (auto simp: newton_loop_def mag_le_def)
qed

text \<open>The reduced mean anomaly is at most one turn.\<close>

lemma two_pi: "Math_PI * lit 2 = Fin (884279719003555 / 140737488355328)"
  by code_simp

lemma kepler_M_mag:
  assumes "isFinite a"
  shows "mag_le (kepler_M a) 4"
proof -
  let ?p = "884279719003555 / 140737488355328 :: rat"
  define r where "r = \<bar>val a\<bar> - ?p * of_int \<lfloor>\<bar>val a\<bar> / ?p\<rfloor>"
  have "0 \<le> r" "r < ?p" unfolding r_def
    using floor_divide_lower [of ?p "\<bar>val a\<bar>"] floor_divide_upper [of ?p "\<bar>val a\<bar>"] by (simp_all add: field_simps)
  then have "mag_le (mk s r) 3" "mag_le (mk s (- r)) 3" for s
    by (auto intro!: mag_le_mk)
  moreover have "a mod (Math_PI * lit 2) = mk (signbit a) (if signbit a then - r else r)"
    unfolding two_pi using assms by (simp add: modulo_jsnum_def r_def isFinite_iff Let_def)
  ultimately have m: "mag_le (a mod (Math_PI * lit 2)) 3" by simp
  moreover have "mag_le (Math_PI * lit 2) 3" unfolding two_pi by (simp add: mag_le_def)
  ultimately have "mag_le (a mod (Math_PI * lit 2) + Math_PI * lit 2) (Suc 3)" by (rule mag_le_add) simp
  then show ?thesis using m mag_le_mono [OF m, of 4] by (simp add: kepler_M_def Let_def)
qed

section \<open>Circular orbits and the derived system\<close>

lemma mult_one_wf: "wf_num a \<Longrightarrow> isFinite a \<Longrightarrow> a * Fin 1 = a"
  by (cases a) (auto simp: finite_mult zero_of_def wf_num_def mk_def Let_def abs_less_iff)

lemma kepler_e_zero: "kepler_e (lit 0) = Fin 0"
proof -
  have "approx (lit (85 / 100)) (85 / 100) (1 / 2 ^ 51)" by (rule approx_lit) simp
  then have "isFinite (lit (85 / 100))" by (rule approxD)
  then show ?thesis using lit_85(1) by (simp add: kepler_e_def Math_min_def Math_max_def)
qed

lemma circular_factor: "isFinite c \<Longrightarrow> lit 1 - Fin 0 * c = Fin 1"
  by (simp add: finite_mult zero_of_def finite_sub mk_exact small_lt_overflow)

lemma circular_radius:
  assumes "trig_bounded m" "isFinite M" "isFinite a" "wf_num a"
  shows "kp_radiusAu (solveKeplerOrbit m M (lit 0) a p) = a"
proof -
  have "kepler_e (lit 0) = Fin 0" by (rule kepler_e_zero)
  then have E: "isFinite (newton_loop m (Fin 0) (kepler_M M))"
    using kepler_e_bounds [of "lit 0"]
      newton_loop_finite [OF assms(1) _ _ _ kepler_M_mag [OF assms(2)], of "Fin 0"] by simp
  have "kp_radiusAu (solveKeplerOrbit m M (lit 0) a p) = a * Fin 1"
    by (simp add: solveKeplerOrbit_def Let_def kepler_e_zero [simplified]
        circular_factor [simplified] trig_boundedD(2) [OF assms(1) E])
  then show ?thesis using assms by (simp add: mult_one_wf)
qed

lemma pos_finite_Some: "pos_finite x \<Longrightarrow> isFinite (the x) \<and> 0 < val (the x)"
  by (auto simp: pos_finite_def split: option.splits)

lemma derived_fields:
  assumes "p \<in> set (derivePlanetarySystemFromInsights m t ins)"
  shows "isFinite (pl_periodDays p) \<and> 0 < val (pl_periodDays p)"
    "isFinite (pl_semiMajorAxisAu p) \<and> 0 < val (pl_semiMajorAxisAu p)"
    "isFinite (pl_radiusEarth p) \<and> 0 < val (pl_radiusEarth p)"
    "pl_eccentricity p = Some (lit 0)"
  using assms by (auto simp: derivePlanetarySystemFromInsights_def Let_def pos_finite_Some
      split: option.splits if_splits)

lemma derived_at_most_one: "length (derivePlanetarySystemFromInsights m t ins) \<le> 1"
  by (simp add: derivePlanetarySystemFromInsights_def Let_def split: option.split)

text \<open>When both fallbacks apply the planet is shown exactly for a usable period and depth.\<close>

lemma pos_finite_None [simp]: "\<not> pos_finite None"
  by (simp add: pos_finite_def)

lemma star_size_bounds:
  assumes r: "isFinite r" "0 \<le> val r" "val r < 1"
  shows "lit (3 / 10) \<le> r * lit (8 / 10) + lit (3 / 10) \<and>
    r * lit (8 / 10) + lit (3 / 10) \<le> lit (8 / 10) + lit (3 / 10)"
proof -
  have fl: "isFinite (lit (8 / 10))" "isFinite (lit (3 / 10))" by code_simp+
  have v8: "0 \<le> val (lit (8 / 10))" by code_simp
  have up: "r * lit (8 / 10) \<le> Fin 1 * lit (8 / 10)" and lo: "Fin 0 * lit (8 / 10) \<le> r * lit (8 / 10)"
    using r fl v8 by (auto intro!: mult_mono_num)
  have one: "Fin 1 * lit (8 / 10) = lit (8 / 10)" "Fin 0 * lit (8 / 10) + lit (3 / 10) = lit (3 / 10)"
    by code_simp+
  have "r * lit (8 / 10) \<noteq> NaN" using up by auto
  then have nn: "r * lit (8 / 10) + lit (3 / 10) \<noteq> NaN" using fl(2)
    by (cases "r * lit (8 / 10)"; cases "lit (3 / 10)") (auto simp: plus_jsnum_def Let_def zero_of_def)
  have cc: "lit (8 / 10) + lit (3 / 10) \<noteq> NaN" "lit (3 / 10) \<noteq> NaN" by code_simp+
  show ?thesis
    using add_mono_num [OF lo num_le_refl [OF cc(2)]] add_mono_num [OF up num_le_refl [OF cc(2)] nn] nn cc
    unfolding one by simp
qed

definition sample_ai :: TargetAIInsights where
  "sample_ai = \<lparr>ai_bls_period_days = Some (lit 10), ai_bls_depth_fraction = None,
     ai_bls_duration_days = None, ai_bls_transit_time = None, ai_semi_major_axis_au = Some (lit (1 / 2)),
     ai_planet_radius_earth = Some (lit 2), ai_equilibrium_temp_k = None, ai_hz_classification = [],
     ai_candidate_score = None, ai_candidate_above_threshold = False, ai_candidate_prediction_id = u ''p1'',
     ai_habitability_score = None, ai_habitability_confidence = lit 0, ai_habitability_tier = [],
     ai_habitability_components = None, ai_insolation_earth = None, ai_planet_classification = [],
     ai_transit_duration_hours = None, ai_warnings = []\<rparr>"

definition sample_stellar :: TargetStellarPhysicsInsight where
  "sample_stellar = \<lparr>sp_teff = lit 5778, sp_radius = lit 1, sp_mass = lit 1, sp_logg = lit 4,
     sp_spectral_class_label = [], sp_evolution_status = [], sp_stellar_density_gcc = lit 1,
     sp_escape_velocity_kms = lit 600, sp_bolometric_mag = None, sp_hz_inner_au = lit 1, sp_hz_outer_au = lit 2,
     sp_hz_luminosity_solar = lit 1, sp_flux_std_ppm = None, sp_flux_amplitude_pct = None\<rparr>"

definition sample_observation :: TargetObservationInsight where
  "sample_observation = \<lparr>oi_tess_mag = lit 10, oi_sector = lit 1, oi_ra = lit 0, oi_dec = lit 0,
     oi_matched_toi = [], oi_sampling_cadence_minutes = lit 2, oi_lightcurve_points = lit 100,
     oi_lightcurve_time_span_days = lit 27, oi_max_data_gap_days = lit 1, oi_max_data_gap_hours = lit 24,
     oi_photometric_noise_ppm = lit 100\<rparr>"

definition sample_insights :: TargetInsights where
  "sample_insights = \<lparr>ti_observation = sample_observation, ti_stellar_physics = sample_stellar,
     ti_ai_insights = sample_ai\<rparr>"

definition sample_target :: Target where
  "sample_target = \<lparr>tg_gold_snapshot_id = [], tg_tic_id = lit 7, tg_tess_mag = lit 10, tg_ra = lit 0,
     tg_dec = lit 0, tg_effective_t = lit 5778, tg_surface_grav = lit 4, tg_radius = lit 1, tg_sector = lit 1,
     tg_matched_toi = [], tg_disposition = [], tg_has_lightcurve = True, tg_lightcurve_points = lit 100,
     tg_lightcurve_time_span = lit 27, tg_has_candidate = False, tg_candidate_prediction_id = [],
     tg_candidate_score = lit 0, tg_candidate_above_threshold = False, tg_pipeline_status = [],
     tg_tic_context_available = True, tg_toi_match_status = []\<rparr>"

section \<open>Properties\<close>

text \<open>
  C15. For every star with finite positive radius and an effective
  temperature of at most 13000 K whose luminosity is finite, the four habitable-zone
  distances are ordered outwards: optimistic inner, conservative inner, conservative outer,
  optimistic outer, in spite of the clamps and of rounding. The square root is only assumed
  to keep the order of nonnegative numbers.
\<close>

theorem habitable_zone_ordered:
  fixes radius teff :: jsnum
  assumes "sqrt_monotone m" "isFinite radius" "0 < val radius"
    and "isFinite teff" "0 < val teff" "val teff \<le> 13000"
  defines "z \<equiv> calculateHabitableZone m radius teff"
  assumes "isFinite (luminosity z)" "0 \<le> val (luminosity z)"
  shows "optInnerAu z \<le> consInnerAu z \<and> consInnerAu z \<le> consOuterAu z \<and> consOuterAu z \<le> optOuterAu z"
proof -
  have g: "\<not> (\<not> isFinite radius \<or> \<not> isFinite teff \<or> radius \<le> lit 0 \<or> teff \<le> lit 0)"
    using assms(2-6) by simp
  define lum where "lum = Math_pow m radius (lit 2) * Math_pow m (teff / lit 5778) (lit 4)"
  have z: "z = \<lparr>optInnerAu = Math_max (lit (2 / 100)) (Math_sqrt m (lum / Math_max (lit (2 / 10)) (sOptInner (teff - lit 5780)))),
      consInnerAu = Math_max (lit (3 / 100)) (Math_sqrt m (lum / Math_max (lit (15 / 100)) (sConsInner (teff - lit 5780)))),
      consOuterAu = Math_max (lit (6 / 100)) (Math_sqrt m (lum / Math_max (lit (5 / 100)) (sConsOuter (teff - lit 5780)))),
      optOuterAu = Math_max (lit (8 / 100)) (Math_sqrt m (lum / Math_max (lit (4 / 100)) (sOptOuter (teff - lit 5780)))),
      luminosity = lum\<rparr>"
    unfolding z_def calculateHabitableZone_def lum_def Let_def using g by (simp only: if_False)
  have l: "isFinite lum" "0 \<le> val lum" using assms(8,9) by (simp_all add: z)
  note c = clamped_fluxes [OF tStar_range [OF assms(4-6)]]
  have "lit (2 / 100) \<le> lit (3 / 100)" "lit (3 / 100) \<le> lit (6 / 100)" "lit (6 / 100) \<le> lit (8 / 100)"
    by (rule lit_mono, simp)+
  then show ?thesis unfolding z HabitableZoneBoundaries.select_convs
    using c l by (intro conjI zone_mono [OF assms(1)]) linarith+
qed

theorem habitable_zone_ordered_witness:
  "consInnerAu (calculateHabitableZone sample_math (lit 1) (lit 5778))
     \<le> consOuterAu (calculateHabitableZone sample_math (lit 1) (lit 5778))"
proof -
  have "sample_pow (lit 1) (lit 2) * sample_pow (lit 5778 / lit 5778) (lit 4) = Fin 1" by code_simp
  then have "luminosity (calculateHabitableZone sample_math (lit 1) (lit 5778)) = Fin 1"
    by (simp add: calculateHabitableZone_def sample_math_def Let_def)
  then show ?thesis
    using habitable_zone_ordered [of sample_math "lit 1" "lit 5778"] sample_sqrt_mono by simp
qed



text \<open>
  The system derived from a target's insights has at most one planet;
  its period, semi-major axis and radius are finite and positive whichever fallback produced
  them, and since its orbit is drawn with eccentricity 0, the Kepler solver keeps it at
  exactly the semi-major axis at every finite mean anomaly.
\<close>

theorem derived_system_sound:
  assumes "trig_bounded m" "p \<in> set (derivePlanetarySystemFromInsights m t ins)" "wf_num (pl_semiMajorAxisAu p)"
    "isFinite M"
  shows "derivePlanetarySystemFromInsights m t ins = [p] \<and>
    isFinite (pl_periodDays p) \<and> Fin 0 < pl_periodDays p \<and>
    isFinite (pl_radiusEarth p) \<and> Fin 0 < pl_radiusEarth p \<and>
    isFinite (pl_semiMajorAxisAu p) \<and> Fin 0 < pl_semiMajorAxisAu p \<and>
    kp_radiusAu (solveKeplerOrbit m M (the (pl_eccentricity p)) (pl_semiMajorAxisAu p) w) = pl_semiMajorAxisAu p"
proof -
  note d = derived_fields [OF assms(2)]
  have "derivePlanetarySystemFromInsights m t ins = [p]"
    using assms(2) derived_at_most_one [of m t ins]
    by (cases "derivePlanetarySystemFromInsights m t ins") auto
  moreover have "kp_radiusAu (solveKeplerOrbit m M (lit 0) (pl_semiMajorAxisAu p) w) = pl_semiMajorAxisAu p"
    using circular_radius [OF assms(1,4)] d(2) assms(3) by blast
  ultimately show ?thesis using d by simp
qed

theorem derived_system_sound_witness:
  "kp_radiusAu (solveKeplerOrbit sample_math (lit 3) (lit 0)
     (pl_semiMajorAxisAu (hd (derivePlanetarySystemFromInsights sample_math (Some sample_target) (Some sample_insights)))) (lit 0))
   = lit (1 / 2)"
proof -
  let ?s = "derivePlanetarySystemFromInsights sample_math (Some sample_target) (Some sample_insights)"
  have h: "lit (1 / 2) = Fin (1 / 2)" by code_simp
  have "?s \<noteq> []" and a: "pl_semiMajorAxisAu (hd ?s) = lit (1 / 2)" and e: "pl_eccentricity (hd ?s) = Some (lit 0)"
    by (simp_all add: derivePlanetarySystemFromInsights_def Let_def sample_insights_def sample_ai_def
        derived_radius_def derived_axis_def pos_finite_def h)
  then have "hd ?s \<in> set ?s" by simp
  then show ?thesis
    using derived_system_sound [OF sample_trig, of "hd ?s" "Some sample_target" "Some sample_insights" "lit 3" "lit 0"] a e
    by simp
qed

text \<open>
  A planet is drawn as habitable exactly when its radius is not 2.2
  Earth radii or more, its temperature (300 K when unknown) is between 235 K and 340 K, and
  its insolation (1 when unknown) does not exceed 1.8. A radius that is not a number
  therefore does not exclude habitability.
\<close>

theorem habitable_biome_iff:
  "pb_isHabitable (getPlanetBiome r t i) \<longleftrightarrow>
     \<not> lit (22 / 10) \<le> r \<and> lit 235 \<le> nullish t (lit 300) \<and> nullish t (lit 300) \<le> lit 340 \<and>
     \<not> lit (18 / 10) < nullish i (lit 1)"
proof -
  have six: "lit 6 \<le> r \<Longrightarrow> lit (22 / 10) \<le> r"
    using num_le_trans [OF lit_mono [of "22 / 10" 6]] by simp
  have le: "\<not> lit c < x" if "x \<le> lit 340" "340 \<le> c" for c x
    using num_le_trans [OF that(1) lit_mono [OF that(2)]] by (auto simp: less_eq_jsnum_def)
  have hot: "x \<le> lit 340 \<Longrightarrow> \<not> lit 650 < x \<and> \<not> lit 380 < x" for x
    using le [of x 650] le [of x 380] by simp
  have cold: "lit 235 \<le> x \<Longrightarrow> \<not> x < lit 185" for x
    using num_le_trans [OF lit_mono [of 185 235]] by (auto simp: less_eq_jsnum_def)
  show ?thesis unfolding getPlanetBiome_def Let_def
    using six hot [of "nullish t (lit 300)"] cold [of "nullish t (lit 300)"]
    by (simp only: PlanetBiome.select_convs split: if_split) blast
qed

text \<open>
  For a random source with values in the half-open unit interval the
  background has as many stars as asked for, placed in the unit square, with sizes between
  0.3 and 1.1 up to rounding and colours from the palette.
\<close>

theorem starfield_bounded:
  assumes "\<forall>i. isFinite (random i) \<and> 0 \<le> val (random i) \<and> val (random i) < 1"
  shows "length (generateStarfield random n) = n \<and>
    (\<forall>s\<in>set (generateStarfield random n).
       Fin 0 \<le> bs_x s \<and> bs_x s < Fin 1 \<and> Fin 0 \<le> bs_y s \<and> bs_y s < Fin 1 \<and>
       lit (3 / 10) \<le> bs_size s \<and> bs_size s \<le> lit (8 / 10) + lit (3 / 10) \<and> bs_color s \<in> set star_colors)"
proof -
  have col: "nullish (arr_idx star_colors i) (u ''#ffffff'') \<in> set star_colors" for i
    using arr_idx_Some_in_set [of star_colors i]
    by (cases "arr_idx star_colors i") (auto simp: star_colors_def)
  have star: "Fin 0 \<le> bs_x s \<and> bs_x s < Fin 1 \<and> Fin 0 \<le> bs_y s \<and> bs_y s < Fin 1 \<and>
       lit (3 / 10) \<le> bs_size s \<and> bs_size s \<le> lit (8 / 10) + lit (3 / 10) \<and> bs_color s \<in> set star_colors"
    if "s = make_star random i" for s i
    using assms star_size_bounds [of "random (4 * i + 2)"] col unfolding that make_star_def BackgroundStar.select_convs by simp
  then show ?thesis by (auto simp: generateStarfield_def)
qed

theorem starfield_bounded_witness:
  "length (generateStarfield (\<lambda>i. lit (1 / 2)) 50) = 50"
proof -
  have "lit (1 / 2) = Fin (1 / 2)" by code_simp
  then show ?thesis using starfield_bounded [of "\<lambda>i. lit (1 / 2)" 50] by simp
qed

end
