(* ===== verification/Canvas.thy ===== *)
theory Canvas
  imports JsString
begin

text \<open>
  The two-dimensional canvas as the renderer uses it: a drawing function is the list of the
  calls it makes on the context. The context keeps a current drawing state (styles, width,
  alpha, font, alignment, dash, clip) and the stack of saved ones; \<open>save\<close> pushes, \<open>restore\<close>
  pops (and does nothing on an empty stack). A radial gradient with a negative radius or an
  argument that is not finite, and an arc with a negative radius, throw (\<open>None\<close>); a line width
  that is not positive and an alpha outside \<open>[0, 1]\<close> are ignored. The current path is not part
  of the drawing state and is not tracked; painted texts are recorded with the alignment in
  force. Colours and fonts are the strings assigned, which the renderer writes in valid form.
\<close>

section \<open>Commands\<close>

type_synonym stops = "(jsnum \<times> str) list"

datatype paint = Color str | Radial jsnum jsnum jsnum jsnum jsnum jsnum stops | Linear jsnum jsnum jsnum jsnum stops

datatype align = Align_start | Align_center

datatype canvas_cmd =
    Save | Restore
  | FillStyle paint | StrokeStyle str | LineWidth jsnum | GlobalAlpha jsnum | Font str | TextAlign align | LineDash "jsnum list"
  | BeginPath | ClosePath | MoveTo jsnum jsnum | LineTo jsnum jsnum | Arc jsnum jsnum jsnum jsnum jsnum
  | Ellipse jsnum jsnum jsnum jsnum jsnum jsnum jsnum | RoundRect jsnum jsnum jsnum jsnum jsnum
  | Fill | Stroke | Clip | FillRect jsnum jsnum jsnum jsnum | FillText str jsnum jsnum

section \<open>The context\<close>

record draw_state =
  ds_fill :: paint
  ds_stroke :: str
  ds_width :: jsnum
  ds_alpha :: jsnum
  ds_font :: str
  ds_align :: align
  ds_dash :: "jsnum list"
  ds_clips :: nat

record context_2d =
  cx_state :: draw_state
  cx_stack :: "draw_state list"
  cx_texts :: "(str \<times> align) list"

definition new_context :: context_2d where
  "new_context = \<lparr>cx_state = \<lparr>ds_fill = Color (u ''#000000''), ds_stroke = u ''#000000'', ds_width = Fin 1, ds_alpha = Fin 1,
     ds_font = u ''10px sans-serif'', ds_align = Align_start, ds_dash = [], ds_clips = 0\<rparr>, cx_stack = [], cx_texts = []\<rparr>"

definition paint_ok :: "paint \<Rightarrow> bool" where
  "paint_ok p = (case p of Color c \<Rightarrow> True
     | Radial x0 y0 r0 x1 y1 r1 st \<Rightarrow> list_all isFinite [x0, y0, r0, x1, y1, r1] \<and> \<not> r0 < Fin 0 \<and> \<not> r1 < Fin 0
     | Linear x0 y0 x1 y1 st \<Rightarrow> list_all isFinite [x0, y0, x1, y1])"

definition on_state :: "(draw_state \<Rightarrow> draw_state) \<Rightarrow> context_2d \<Rightarrow> context_2d" where
  "on_state f c = c\<lparr>cx_state := f (cx_state c)\<rparr>"

fun exec1 :: "canvas_cmd \<Rightarrow> context_2d \<Rightarrow> context_2d option" where
  "exec1 Save c = Some (c\<lparr>cx_stack := cx_state c # cx_stack c\<rparr>)"
| "exec1 Restore c = Some (case cx_stack c of [] \<Rightarrow> c | d # ds \<Rightarrow> c\<lparr>cx_state := d, cx_stack := ds\<rparr>)"
| "exec1 (FillStyle p) c = (if paint_ok p then Some (on_state (\<lambda>d. d\<lparr>ds_fill := p\<rparr>) c) else None)"
| "exec1 (StrokeStyle s) c = Some (on_state (\<lambda>d. d\<lparr>ds_stroke := s\<rparr>) c)"
| "exec1 (LineWidth x) c = Some (if isFinite x \<and> Fin 0 < x then on_state (\<lambda>d. d\<lparr>ds_width := x\<rparr>) c else c)"
| "exec1 (GlobalAlpha x) c = Some (if Fin 0 \<le> x \<and> x \<le> Fin 1 then on_state (\<lambda>d. d\<lparr>ds_alpha := x\<rparr>) c else c)"
| "exec1 (Font s) c = Some (on_state (\<lambda>d. d\<lparr>ds_font := s\<rparr>) c)"
| "exec1 (TextAlign a) c = Some (on_state (\<lambda>d. d\<lparr>ds_align := a\<rparr>) c)"
| "exec1 (LineDash xs) c = Some (on_state (\<lambda>d. d\<lparr>ds_dash := xs\<rparr>) c)"
| "exec1 (Arc x y r a b) c = (if list_all isFinite [x, y, r, a, b] \<and> r < Fin 0 then None else Some c)"
| "exec1 (Ellipse x y r1 r2 t a b) c =
     (if list_all isFinite [x, y, r1, r2, t, a, b] \<and> (r1 < Fin 0 \<or> r2 < Fin 0) then None else Some c)"
| "exec1 Clip c = Some (on_state (\<lambda>d. d\<lparr>ds_clips := Suc (ds_clips d)\<rparr>) c)"
| "exec1 (FillText s x y) c = Some (c\<lparr>cx_texts := cx_texts c @ [(s, ds_align (cx_state c))]\<rparr>)"
| "exec1 BeginPath c = Some c"
| "exec1 ClosePath c = Some c"
| "exec1 (MoveTo x y) c = Some c"
| "exec1 (LineTo x y) c = Some c"
| "exec1 (RoundRect x y w h r) c = Some c"
| "exec1 Fill c = Some c"
| "exec1 Stroke c = Some c"
| "exec1 (FillRect x y w h) c = Some c"

fun exec :: "canvas_cmd list \<Rightarrow> context_2d \<Rightarrow> context_2d option" where
  "exec [] c = Some c"
| "exec (i # is) c = Option.bind (exec1 i c) (exec is)"

lemma exec_append: "exec (xs @ ys) c = Option.bind (exec xs c) (exec ys)"
proof (induction xs arbitrary: c)
  case (Cons i xs)
  then show ?case by (cases "exec1 i c") simp_all
qed simp

section \<open>Balanced traces\<close>

text \<open>Commands that change neither the drawing state nor the stack.\<close>

fun paints :: "canvas_cmd \<Rightarrow> bool" where
  "paints Save = False"
| "paints Restore = False"
| "paints (FillStyle p) = False"
| "paints (StrokeStyle s) = False"
| "paints (LineWidth x) = False"
| "paints (GlobalAlpha x) = False"
| "paints (Font s) = False"
| "paints (TextAlign a) = False"
| "paints (LineDash xs) = False"
| "paints Clip = False"
| "paints i = True"

text \<open>The commands a label needs: they set the fill, the font and the alignment.\<close>

definition sets_text :: "canvas_cmd \<Rightarrow> bool" where
  "sets_text i = (paints i \<or> (\<exists>p. i = FillStyle p) \<or> (\<exists>s. i = Font s) \<or> (\<exists>a. i = TextAlign a))"

text \<open>
  \<open>balanced P d cmds\<close>: starting \<open>d\<close> levels deep, no \<open>restore\<close> goes below the start, the trace ends
  at depth 0, and at depth 0 only commands of \<open>P\<close> are used.
\<close>

fun balanced :: "(canvas_cmd \<Rightarrow> bool) \<Rightarrow> nat \<Rightarrow> canvas_cmd list \<Rightarrow> bool" where
  "balanced P d [] = (d = 0)"
| "balanced P d (Save # is) = balanced P (Suc d) is"
| "balanced P d (Restore # is) = (0 < d \<and> balanced P (d - 1) is)"
| "balanced P d (i # is) = ((0 < d \<or> P i) \<and> balanced P d is)"

lemma balanced_append: "balanced P d xs \<Longrightarrow> balanced P 0 ys \<Longrightarrow> balanced P d (xs @ ys)"
  by (induction P d xs rule: balanced.induct) auto

lemma balanced_concat: "\<forall>x\<in>set xs. balanced P 0 (f x) \<Longrightarrow> balanced P 0 (concat (map f xs))"
  by (induction xs) (auto intro: balanced_append)

lemma balanced_mono: "balanced P d xs \<Longrightarrow> (\<And>i. P i \<Longrightarrow> Q i) \<Longrightarrow> balanced Q d xs"
  by (induction P d xs rule: balanced.induct) auto

text \<open>A segment with no \<open>save\<close> and no \<open>restore\<close> can be skipped inside a level.\<close>

definition plain :: "canvas_cmd \<Rightarrow> bool" where
  "plain i = (i \<noteq> Save \<and> i \<noteq> Restore)"

lemma balanced_plain: "list_all plain xs \<Longrightarrow> 0 < d \<Longrightarrow> balanced P d (xs @ ys) = balanced P d ys"
  by (induction P d xs rule: balanced.induct) (auto simp: plain_def)

lemma paints_plain: "list_all paints xs \<Longrightarrow> list_all plain xs"
  by (auto simp: list_all_iff plain_def)

lemma balanced_paints: "list_all paints xs \<Longrightarrow> 0 < d \<Longrightarrow> balanced P d (xs @ ys) = balanced P d ys"
  by (intro balanced_plain paints_plain)

lemma paints_state: "paints i \<Longrightarrow> exec1 i c = Some c' \<Longrightarrow> cx_state c' = cx_state c \<and> cx_stack c' = cx_stack c"
  by (cases "(i, c)" rule: exec1.cases) (auto split: if_splits)

text \<open>
  The contract of a drawing function: it may use the commands \<open>allowed\<close> outside a level, and those
  keep a view of the drawing state. Then a balanced trace keeps the view and the stack, whatever
  it does inside its levels.
\<close>

locale kept_view =
  fixes allowed :: "canvas_cmd \<Rightarrow> bool" and view :: "draw_state \<Rightarrow> 'v"
  assumes allowed_plain: "allowed i \<Longrightarrow> plain i"
    and allowed_view: "allowed i \<Longrightarrow> exec1 i c = Some c' \<Longrightarrow> view (cx_state c') = view (cx_state c)"
begin

text \<open>The states below the open levels: the current one (through the view) and the saved ones.\<close>

definition floor_of :: "nat \<Rightarrow> context_2d \<Rightarrow> 'v \<times> draw_state list" where
  "floor_of d c = (view ((cx_state c # cx_stack c) ! d), drop d (cx_stack c))"

lemma plain_floor:
  assumes "plain i" "0 < d \<or> allowed i" "exec1 i c = Some c'"
  shows "floor_of d c' = floor_of d c" "cx_stack c' = cx_stack c"
proof -
  show st: "cx_stack c' = cx_stack c" using assms(1,3)
    by (cases "(i, c)" rule: exec1.cases) (auto simp: plain_def on_state_def split: if_splits)
  show "floor_of d c' = floor_of d c"
    using st assms allowed_view [of i c c'] by (cases d) (auto simp: floor_of_def)
qed

lemma balanced_floor:
  "balanced allowed d is \<Longrightarrow> exec is c = Some c' \<Longrightarrow> d \<le> length (cx_stack c) \<Longrightarrow> floor_of 0 c' = floor_of d c"
proof (induction "is" arbitrary: c d)
  case (Cons i "is")
  then obtain c1 where c1: "exec1 i c = Some c1" "exec is c1 = Some c'" by (auto split: bind_splits)
  consider "i = Save" | "i = Restore" | "plain i" by (auto simp: plain_def)
  then show ?case
  proof cases
    case 1
    then have "floor_of 0 c' = floor_of (Suc d) c1" using Cons.IH [OF _ c1(2)] Cons.prems c1 by auto
    then show ?thesis using 1 c1 by (auto simp: floor_of_def)
  next
    case 2
    then obtain e x xs where d: "d = Suc e" "cx_stack c = x # xs"
      using Cons.prems by (cases d; cases "cx_stack c") auto
    then have "floor_of 0 c' = floor_of e c1" using 2 Cons.IH [OF _ c1(2)] Cons.prems c1 by auto
    then show ?thesis using 2 c1 d by (auto simp: floor_of_def)
  next
    case 3
    then have w: "0 < d \<or> allowed i" "balanced allowed d is"
      using Cons.prems(1) by (cases "(allowed, d, i # is)" rule: balanced.cases; auto simp: plain_def)+
    note p = plain_floor [OF 3 w(1) c1(1)]
    show ?thesis using Cons.IH [OF w(2) c1(2)] Cons.prems(3) p by simp
  qed
qed (auto simp: floor_of_def)

lemma balanced_keeps:
  assumes "balanced allowed 0 is" "exec is c = Some c'"
  shows "view (cx_state c') = view (cx_state c)" "cx_stack c' = cx_stack c"
  using balanced_floor [OF assms] by (auto simp: floor_of_def)

end

text \<open>A trace that only paints outside its levels keeps the whole drawing state.\<close>

interpretation restored: kept_view paints "\<lambda>d. d"
  by unfold_locales (auto simp: plain_def dest: paints_state)

text \<open>The part of the drawing state that no label changes.\<close>

definition line_view :: "draw_state \<Rightarrow> str \<times> jsnum \<times> jsnum list \<times> nat \<times> jsnum" where
  "line_view d = (ds_stroke d, ds_width d, ds_dash d, ds_clips d, ds_alpha d)"

interpretation labelled: kept_view sets_text line_view
  by unfold_locales (auto simp: plain_def sets_text_def line_view_def on_state_def split: if_splits dest: paints_state)

text \<open>With the alpha allowed too, what is left is the line style and the clip.\<close>

definition sets_style :: "canvas_cmd \<Rightarrow> bool" where
  "sets_style i = (sets_text i \<or> (\<exists>x. i = GlobalAlpha x))"

definition stroke_view :: "draw_state \<Rightarrow> str \<times> jsnum \<times> jsnum list \<times> nat" where
  "stroke_view d = (ds_stroke d, ds_width d, ds_dash d, ds_clips d)"

interpretation styled: kept_view sets_style stroke_view
  by unfold_locales
    (auto simp: plain_def sets_style_def sets_text_def stroke_view_def on_state_def split: if_splits dest: paints_state)

lemma sets_simps [simp]:
  "paints i \<Longrightarrow> sets_text i" "sets_text (FillStyle p)" "sets_text (Font f)" "sets_text (TextAlign a)"
  "sets_text i \<Longrightarrow> sets_style i" "sets_style (GlobalAlpha x)"
  by (auto simp: sets_text_def sets_style_def)

section \<open>Traces that cannot throw\<close>

fun cannot_throw :: "canvas_cmd \<Rightarrow> bool" where
  "cannot_throw (FillStyle p) = paint_ok p"
| "cannot_throw (Arc x y r a b) = (\<not> r < Fin 0)"
| "cannot_throw (Ellipse x y r1 r2 t a b) = (\<not> r1 < Fin 0 \<and> \<not> r2 < Fin 0)"
| "cannot_throw i = True"

lemma paint_ok_Color [simp]: "paint_ok (Color s)"
  by (simp add: paint_ok_def)

lemma cannot_throw_exec1: "cannot_throw i \<Longrightarrow> \<exists>c'. exec1 i c = Some c'"
  by (cases "(i, c)" rule: exec1.cases) auto

lemma cannot_throw_exec: "list_all cannot_throw is \<Longrightarrow> \<exists>c'. exec is c = Some c'"
proof (induction "is" arbitrary: c)
  case (Cons i "is")
  then obtain c1 where "exec1 i c = Some c1" using cannot_throw_exec1 by fastforce
  then show ?case using Cons by simp
qed simp

lemma list_all_concat_map: "list_all P (concat (map f xs)) = (\<forall>x\<in>set xs. list_all P (f x))"
  by (auto simp: list_all_iff)

section \<open>Texts\<close>

text \<open>The texts a trace paints when it neither sets the alignment nor leaves its level.\<close>

definition texts_of :: "canvas_cmd list \<Rightarrow> str list" where
  "texts_of is = concat (map (\<lambda>i. case i of FillText s x y \<Rightarrow> [s] | _ \<Rightarrow> []) is)"

definition keeps_align :: "canvas_cmd \<Rightarrow> bool" where
  "keeps_align i = (plain i \<and> (\<forall>a. i \<noteq> TextAlign a))"

lemma keeps_align_exec1:
  assumes "keeps_align i" "exec1 i c = Some c'"
  shows "cx_texts c' = cx_texts c @ map (\<lambda>s. (s, ds_align (cx_state c))) (texts_of [i])"
    and "ds_align (cx_state c') = ds_align (cx_state c)"
  using assms by (cases "(i, c)" rule: exec1.cases; auto simp: keeps_align_def plain_def on_state_def texts_of_def split: if_splits)+

lemma keeps_align_exec:
  "list_all keeps_align is \<Longrightarrow> exec is c = Some c' \<Longrightarrow>
   cx_texts c' = cx_texts c @ map (\<lambda>s. (s, ds_align (cx_state c))) (texts_of is)"
proof (induction "is" arbitrary: c)
  case (Cons i "is")
  then obtain c1 where c1: "exec1 i c = Some c1" "exec is c1 = Some c'" by (auto split: bind_splits)
  note k = keeps_align_exec1 [OF _ c1(1)]
  show ?case using Cons.IH [OF _ c1(2)] Cons.prems(1) k by (simp add: texts_of_def)
qed (simp add: texts_of_def)

end
