(* ===== verification/NumStep.thy ===== *)
theory NumStep
  imports NumError
begin

text \<open>
  Loops that advance a number by a fixed step (\<open>t += step\<close>): for a step of at least \<open>2^-10\<close>
  and numbers within \<open>2^32\<close> each turn moves the number by more than half of \<open>2^-10\<close>, rounding
  included, which gives the termination measure of the epoch loops of the light curve and of
  the ring loop of the distance grid.
\<close>

definition step_ok :: "jsnum \<Rightarrow> bool" where
  "step_ok p \<longleftrightarrow> isFinite p \<and> 1 / 2 ^ 10 \<le> val p \<and> val p \<le> 2 ^ 32"

lemma shift_bounds:
  assumes "\<bar>q\<bar> \<le> 2 ^ 33" "isFinite (mk s q)"
  shows "\<bar>val (mk s q) - q\<bar> \<le> 1 / 2 ^ 20"
  using round64_error_pow [OF assms(1)] val_mk [OF assms(2)] by simp

lemma shift_gap:
  assumes "step_ok p"
  shows "\<bar>x - (y + val p)\<bar> \<le> 1 / 2 ^ 20 \<Longrightarrow> y + 1 / 2 ^ 11 \<le> x"
    and "\<bar>x - (y - val p)\<bar> \<le> 1 / 2 ^ 20 \<Longrightarrow> x \<le> y - 1 / 2 ^ 11"
proof -
  have "1 / 2 ^ 11 + 1 / 2 ^ 20 \<le> (1 / 2 ^ 10 :: rat)" by simp
  then have p: "1 / 2 ^ 11 + 1 / 2 ^ 20 \<le> val p" using assms unfolding step_ok_def by linarith
  then show "\<bar>x - (y + val p)\<bar> \<le> 1 / 2 ^ 20 \<Longrightarrow> y + 1 / 2 ^ 11 \<le> x" by linarith
  show "\<bar>x - (y - val p)\<bar> \<le> 1 / 2 ^ 20 \<Longrightarrow> x \<le> y - 1 / 2 ^ 11" using p by linarith
qed

lemma step_add:
  assumes "step_ok p" "isFinite t" "- (2 ^ 32) \<le> val t" "val t \<le> 2 ^ 32"
  shows "mag_le (t + p) 33" "val t + 1 / 2 ^ 11 \<le> val (t + p)"
proof -
  let ?q = "val t + val p"
  obtain s where s: "t + p = mk s ?q" using assms by (auto simp: finite_add step_ok_def)
  have q: "\<bar>?q\<bar> \<le> 2 ^ 33" using assms by (auto simp: step_ok_def abs_le_iff)
  show m: "mag_le (t + p) 33" unfolding s using q by (rule mag_le_mk) simp
  then have "\<bar>val (t + p) - ?q\<bar> \<le> 1 / 2 ^ 20" unfolding s using q by (intro shift_bounds) (auto simp: mag_le_def)
  then show "val t + 1 / 2 ^ 11 \<le> val (t + p)" by (rule shift_gap(1) [OF assms(1)])
qed

lemma step_sub:
  assumes "step_ok p" "isFinite t" "- (2 ^ 32) \<le> val t" "val t \<le> 2 ^ 32"
  shows "mag_le (t - p) 33" "val (t - p) \<le> val t - 1 / 2 ^ 11"
proof -
  let ?q = "val t - val p"
  obtain s where s: "t - p = mk s ?q" using assms by (auto simp: finite_sub step_ok_def)
  have q: "\<bar>?q\<bar> \<le> 2 ^ 33" using assms by (auto simp: step_ok_def abs_le_iff)
  show m: "mag_le (t - p) 33" unfolding s using q by (rule mag_le_mk) simp
  then have "\<bar>val (t - p) - ?q\<bar> \<le> 1 / 2 ^ 20" unfolding s using q by (intro shift_bounds) (auto simp: mag_le_def)
  then show "val (t - p) \<le> val t - 1 / 2 ^ 11" by (rule shift_gap(2) [OF assms(1)])
qed

lemma pos11: "0 < (1 / 2 ^ 11 :: rat)"
  by simp

lemma measure_drop:
  fixes x y :: rat
  assumes "y \<le> x - 1 / 2 ^ 11" "0 < x"
  shows "nat \<lceil>y * 2 ^ 11\<rceil> < nat \<lceil>x * 2 ^ 11\<rceil>"
proof -
  have "y * 2 ^ 11 \<le> x * 2 ^ 11 - 1" using mult_right_mono [OF assms(1), of "2 ^ 11"] by (simp add: left_diff_distrib)
  then have "\<lceil>y * 2 ^ 11\<rceil> \<le> \<lceil>x * 2 ^ 11\<rceil> - 1" by linarith
  moreover have "0 < \<lceil>x * 2 ^ 11\<rceil>" using assms(2) by simp
  ultimately show ?thesis by linarith
qed

end
