(* ===== verification/OrbitRenderer.thy ===== *)
theory OrbitRenderer
  imports OrbitPhysics Canvas NumStep
begin

text \<open>
  The drawing functions of the orbit viewer (\<open>pages/target-detail/components/orbit-viewer/renderer.ts\<close>):
  the projector and the eleven functions, each the list of canvas calls it makes, in order. The
  width that \<open>ctx.measureText\<close> reports is a parameter. The ring loop of the distance grid adds
  floating-point steps up to a bound and may not end, so it is an optional list. Shown: which
  functions restore the drawing state exactly and what the others leave behind, that the ring
  loop ends for every system within \<open>2^31\<close> AU, and how many rings it draws.
\<close>

section \<open>The projector\<close>

record projection =
  pj_x :: jsnum
  pj_y :: jsnum
  pj_depth :: jsnum
  pj_rx :: jsnum
  pj_rz :: jsnum

type_synonym projector = "jsnum \<Rightarrow> jsnum \<Rightarrow> projection"

text \<open>No caller passes the vertical offset, so the projector the drawings take has it at 0.\<close>

definition createProjector3 ::
    "mathlib \<Rightarrow> jsnum \<Rightarrow> jsnum \<Rightarrow> jsnum \<Rightarrow> CameraState \<Rightarrow> jsnum \<Rightarrow> jsnum \<Rightarrow> jsnum \<Rightarrow> projection" where
  "createProjector3 m cx cy baseScale camera xAu zAu yOffsetAu =
     (let cosYaw = Math_cos m (cam_yaw camera); sinYaw = Math_sin m (cam_yaw camera);
          rx = xAu * cosYaw - zAu * sinYaw; rz = xAu * sinYaw + zAu * cosYaw;
          cosPitch = Math_cos m (cam_pitch camera); sinPitch = Math_sin m (cam_pitch camera)
      in \<lparr>pj_x = cx + rx * baseScale, pj_y = cy + (rz * cosPitch - yOffsetAu * sinPitch) * baseScale,
          pj_depth = rz * sinPitch + yOffsetAu * cosPitch, pj_rx = rx, pj_rz = rz\<rparr>)"

definition createProjector :: "mathlib \<Rightarrow> jsnum \<Rightarrow> jsnum \<Rightarrow> jsnum \<Rightarrow> CameraState \<Rightarrow> projector" where
  "createProjector m cx cy baseScale camera xAu zAu = createProjector3 m cx cy baseScale camera xAu zAu (lit 0)"

section \<open>Background\<close>

definition drawDeepSpace :: "jsnum \<Rightarrow> jsnum \<Rightarrow> jsnum \<Rightarrow> jsnum \<Rightarrow> canvas_cmd list" where
  "drawDeepSpace width height cx cy =
     [FillStyle (Radial cx cy (lit 30) cx cy (Math_max width height * lit (9 / 10))
        [(lit 0, (u ''#090d18'')), (lit (5 / 10), (u ''#05070d'')), (lit 1, (u ''#020306''))]),
      FillRect (lit 0) (lit 0) width height]"

definition star_cmds :: "jsnum \<Rightarrow> jsnum \<Rightarrow> BackgroundStar \<Rightarrow> canvas_cmd list" where
  "star_cmds width height s =
     (let sx = bs_x s * width; sy = bs_y s * height in
      [FillStyle (Color (bs_color s)), GlobalAlpha (lit (35 / 100)), BeginPath,
       Arc sx sy (bs_size s) (lit 0) (Math_PI * lit 2), Fill])"

definition drawStarfield :: "BackgroundStar list \<Rightarrow> jsnum \<Rightarrow> jsnum \<Rightarrow> canvas_cmd list" where
  "drawStarfield stars width height = concat (map (star_cmds width height) stars) @ [GlobalAlpha (lit 1)]"

section \<open>Circles through the projector\<close>

text \<open>The body of the loops \<open>for (let i = 0; i <= steps; i++)\<close> that trace a closed curve.\<close>

definition step_angle :: "nat \<Rightarrow> nat \<Rightarrow> jsnum" where
  "step_angle steps i = (jsnum_of_nat i / jsnum_of_nat steps) * Math_PI * lit 2"

definition move_or_line :: "nat \<Rightarrow> projection \<Rightarrow> canvas_cmd" where
  "move_or_line i pt = (if i = 0 then MoveTo (pj_x pt) (pj_y pt) else LineTo (pj_x pt) (pj_y pt))"

definition circle_point :: "mathlib \<Rightarrow> projector \<Rightarrow> jsnum \<Rightarrow> nat \<Rightarrow> nat \<Rightarrow> projection" where
  "circle_point m project r steps i =
     project (Math_cos m (step_angle steps i) * r) (Math_sin m (step_angle steps i) * r)"

definition circle_path :: "mathlib \<Rightarrow> projector \<Rightarrow> jsnum \<Rightarrow> nat \<Rightarrow> canvas_cmd list" where
  "circle_path m project r steps = map (\<lambda>i. move_or_line i (circle_point m project r steps i)) [0..<Suc steps]"

section \<open>Distance grid\<close>

definition ringStep :: "jsnum \<Rightarrow> jsnum" where
  "ringStep maxAu =
     (if lit 3 < maxAu then lit 1 else if lit (15 / 10) < maxAu then lit (5 / 10)
      else if lit (6 / 10) < maxAu then lit (25 / 100) else if lit (2 / 10) < maxAu then lit (1 / 10) else lit (5 / 100))"

text \<open>The radii the loop \<open>for (let r = ringStep; r <= maxAu * 1.2; r += ringStep)\<close> visits.\<close>

partial_function (option) ring_radii :: "jsnum \<Rightarrow> jsnum \<Rightarrow> jsnum \<Rightarrow> jsnum list option" where
  "ring_radii stp limit r =
     (if r \<le> limit then Option.bind (ring_radii stp limit (r + stp)) (\<lambda>rs. Some (r # rs)) else Some [])"

definition ring_cmds :: "mathlib \<Rightarrow> projector \<Rightarrow> jsnum \<Rightarrow> canvas_cmd list" where
  "ring_cmds m project r =
     (let labelPt = project r (lit 0); kmStr = toFixed (r * lit (14959787 / 100000)) 1 in
      [BeginPath] @ circle_path m project r 72 @
      [Stroke, FillStyle (Color (u ''rgba(255, 255, 255, 0.35)'')), Font (u ''9px font-mono, monospace''),
       FillText (toFixed r 2 @ u '' AU ('' @ kmStr @ u ''M km)'') (pj_x labelPt + lit 4) (pj_y labelPt - lit 2)])"

definition axes_cmds :: "projector \<Rightarrow> jsnum \<Rightarrow> canvas_cmd list" where
  "axes_cmds project maxAu =
     (let xNeg = project ((- maxAu) * lit (135 / 100)) (lit 0); xPos = project (maxAu * lit (135 / 100)) (lit 0);
          zNeg = project (lit 0) ((- maxAu) * lit (135 / 100)); zPos = project (lit 0) (maxAu * lit (135 / 100))
      in [BeginPath, MoveTo (pj_x xNeg) (pj_y xNeg), LineTo (pj_x xPos) (pj_y xPos),
          MoveTo (pj_x zNeg) (pj_y zNeg), LineTo (pj_x zPos) (pj_y zPos), Stroke])"

definition drawDistanceGrid :: "mathlib \<Rightarrow> projector \<Rightarrow> jsnum \<Rightarrow> canvas_cmd list option" where
  "drawDistanceGrid m project maxAu =
     map_option (\<lambda>rs. [Save, StrokeStyle (u ''rgba(255, 255, 255, 0.04)''), LineWidth (lit 1)] @
         concat (map (ring_cmds m project) rs) @ axes_cmds project maxAu @ [Restore])
       (ring_radii (ringStep maxAu) (maxAu * lit (12 / 10)) (ringStep maxAu))"

section \<open>Habitable zone\<close>

definition zone_gradient :: "jsnum \<Rightarrow> jsnum \<Rightarrow> jsnum \<Rightarrow> HabitableZoneBoundaries \<Rightarrow> paint" where
  "zone_gradient cx cy baseScale hz =
     Radial cx cy (consInnerAu hz * baseScale * lit (75 / 100)) cx cy (optOuterAu hz * baseScale * lit (115 / 100))
       [(lit 0, (u ''rgba(16, 185, 129, 0.0)'')), (lit (3 / 10), (u ''rgba(16, 185, 129, 0.10)'')),
        (lit (65 / 100), (u ''rgba(16, 185, 129, 0.15)'')), (lit 1, (u ''rgba(16, 185, 129, 0.0)''))]"

definition zone_boundary :: "mathlib \<Rightarrow> projector \<Rightarrow> jsnum \<Rightarrow> canvas_cmd list" where
  "zone_boundary m project r =
     [BeginPath] @ circle_path m project r 80 @
     [StrokeStyle (u ''rgba(52, 211, 153, 0.35)''), LineWidth (lit 1), Stroke]"

definition drawHabitableZone ::
    "mathlib \<Rightarrow> projector \<Rightarrow> jsnum \<Rightarrow> jsnum \<Rightarrow> jsnum \<Rightarrow> HabitableZoneBoundaries \<Rightarrow> canvas_cmd list" where
  "drawHabitableZone m project cx cy baseScale hz =
     (let hzLabelPt = project ((consInnerAu hz + consOuterAu hz) * lit (5 / 10)) (lit 0) in
      [Save, BeginPath] @ circle_path m project (optOuterAu hz) 80 @
      map (\<lambda>i. let p = circle_point m project (optInnerAu hz) 80 i in LineTo (pj_x p) (pj_y p)) (rev [0..<81]) @
      [ClosePath, FillStyle (zone_gradient cx cy baseScale hz), Fill] @
      zone_boundary m project (consInnerAu hz) @ zone_boundary m project (consOuterAu hz) @
      [FillStyle (Color (u ''#34d399'')), Font (u ''bold 10px sans-serif''), TextAlign Align_center,
       FillText (u ''HABITABLE ZONE (GOLDILOCKS)'') (pj_x hzLabelPt) (pj_y hzLabelPt + lit 14), Restore])"

section \<open>Trails and orbits\<close>

definition trail_segment :: "projector \<Rightarrow> bool \<Rightarrow> TrailPoint list \<Rightarrow> nat \<Rightarrow> canvas_cmd list" where
  "trail_segment project isSelected trail i =
     (let p1 = project (tp_xAu (trail ! (i - 1))) (tp_zAu (trail ! (i - 1)));
          p2 = project (tp_xAu (trail ! i)) (tp_zAu (trail ! i));
          alpha = (jsnum_of_nat i / jsnum_of_nat (length trail)) * lit (75 / 100)
      in [BeginPath, MoveTo (pj_x p1) (pj_y p1), LineTo (pj_x p2) (pj_y p2),
          StrokeStyle (if isSelected then (u ''rgba(56, 189, 248, '' @ num_str alpha @ u '')'')
            else (u ''rgba(255, 255, 255, '' @ num_str (alpha * lit (45 / 100)) @ u '')'')),
          LineWidth (if isSelected then lit (25 / 10) else lit (14 / 10)), Stroke])"

definition trail_cmds :: "projector \<Rightarrow> nat \<Rightarrow> nat \<times> TrailPoint list \<Rightarrow> canvas_cmd list" where
  "trail_cmds project selectedIndex e = (case e of (idx, trail) \<Rightarrow>
     if length trail < 2 then []
     else concat (map (trail_segment project (idx = selectedIndex) trail) [1..<length trail]))"

text \<open>\<open>Object.entries\<close> lists integer keys in ascending order, the order of the argument.\<close>

definition drawTrails :: "projector \<Rightarrow> (nat \<times> TrailPoint list) list \<Rightarrow> nat \<Rightarrow> canvas_cmd list" where
  "drawTrails project trails selectedIndex =
     [Save] @ concat (map (trail_cmds project selectedIndex) trails) @ [Restore]"

definition periapsis_rad :: "PlanetParams \<Rightarrow> jsnum" where
  "periapsis_rad planet = (nullish (pl_periapsisDeg planet) (lit 0) * Math_PI) / lit 180"

definition planet_ecc :: "PlanetParams \<Rightarrow> jsnum" where
  "planet_ecc planet = nullish (pl_eccentricity planet) (lit (4 / 100))"

definition orbit_point :: "mathlib \<Rightarrow> projector \<Rightarrow> PlanetParams \<Rightarrow> nat \<Rightarrow> projection" where
  "orbit_point m project planet i =
     (let k = solveKeplerOrbit m (step_angle 96 i) (planet_ecc planet) (pl_semiMajorAxisAu planet) (periapsis_rad planet)
      in project (kp_xAu k) (kp_zAu k))"

definition orbit_cmds :: "mathlib \<Rightarrow> projector \<Rightarrow> nat \<Rightarrow> nat \<times> PlanetParams \<Rightarrow> canvas_cmd list" where
  "orbit_cmds m project selectedIndex e = (case e of (idx, planet) \<Rightarrow>
     let isSelected = (idx = selectedIndex) in
     [Save, BeginPath] @ map (\<lambda>i. move_or_line i (orbit_point m project planet i)) [0..<97] @
     [StrokeStyle (if isSelected then (u ''rgba(56, 189, 248, 0.85)'') else (u ''rgba(255, 255, 255, 0.2)'')),
      LineWidth (if isSelected then lit 2 else lit 1), LineDash (if isSelected then [] else [lit 3, lit 4]), Stroke, Restore])"

definition drawOrbits :: "mathlib \<Rightarrow> projector \<Rightarrow> PlanetParams list \<Rightarrow> nat \<Rightarrow> canvas_cmd list" where
  "drawOrbits m project planets selectedIndex =
     concat (map (orbit_cmds m project selectedIndex) (enumerate 0 planets))"

section \<open>Distance ruler\<close>

text \<open>\<open>measure font text\<close> is the width \<open>ctx.measureText\<close> reports under the font.\<close>

definition ruler_text :: "jsnum \<Rightarrow> jsnum \<Rightarrow> str" where
  "ruler_text currentRadiusAu starRadiusSolar =
     (let kmMillion = toFixed (currentRadiusAu * lit (14959787 / 100000)) 1;
          stellarRadii = toFixed (currentRadiusAu / (starRadiusSolar * lit (465 / 100000))) 1
      in (toFixed currentRadiusAu 3 @ ue '' AU ~00B7 '' @ kmMillion @ u ''M km ('' @ stellarRadii @ ue '' R~2609)''))"

definition drawDistanceRuler ::
    "(str \<Rightarrow> str \<Rightarrow> jsnum) \<Rightarrow> jsnum \<Rightarrow> jsnum \<Rightarrow> jsnum \<Rightarrow> jsnum \<Rightarrow> jsnum \<Rightarrow> jsnum \<Rightarrow> canvas_cmd list" where
  "drawDistanceRuler measure_text cx cy px py currentRadiusAu starRadiusSolar =
     (let midX = (cx + px) / lit 2; midY = (cy + py) / lit 2;
          badgeText = ruler_text currentRadiusAu starRadiusSolar;
          textWidth = measure_text (u ''bold 10px font-mono, monospace'') badgeText; padding = lit 6
      in [Save, BeginPath, MoveTo cx cy, LineTo px py, StrokeStyle (u ''rgba(56, 189, 248, 0.65)''), LineWidth (lit (12 / 10)),
          LineDash [lit 4, lit 4], Stroke, Font (u ''bold 10px font-mono, monospace''),
          FillStyle (Color (u ''rgba(12, 16, 28, 0.88)'')), StrokeStyle (u ''rgba(56, 189, 248, 0.6)''), LineWidth (lit 1), LineDash [],
          BeginPath, RoundRect (midX - textWidth / lit 2 - padding) (midY - lit 11) (textWidth + padding * lit 2) (lit 22) (lit 6),
          Fill, Stroke, FillStyle (Color (u ''#38bdf8'')), TextAlign Align_center, FillText badgeText midX (midY + lit 4), Restore])"

section \<open>The host star\<close>

definition corona_cmds :: "jsnum \<Rightarrow> jsnum \<Rightarrow> jsnum \<Rightarrow> StarStyle \<Rightarrow> canvas_cmd list" where
  "corona_cmds x y r style =
     [FillStyle (Radial x y (r * lit (3 / 10)) x y (r * lit (185 / 100))
        [(lit 0, ss_glow style), (lit (4 / 10), ss_corona style), (lit (8 / 10), (u ''rgba(255, 160, 40, 0.05)'')), (lit 1, (u ''transparent''))]),
      BeginPath, Arc x y (r * lit (185 / 100)) (lit 0) (Math_PI * lit 2), Fill]"

definition halo_cmds :: "jsnum \<Rightarrow> jsnum \<Rightarrow> jsnum \<Rightarrow> StarStyle \<Rightarrow> canvas_cmd list" where
  "halo_cmds x y r style =
     [Save, FillStyle (Radial x y (r * lit (8 / 10)) x y (r * lit (16 / 10)) [(lit 0, ss_flare style), (lit 1, (u ''transparent''))]),
      GlobalAlpha (lit (25 / 100)), BeginPath, Arc x y (r * lit (16 / 10)) (lit 0) (Math_PI * lit 2), Fill, Restore]"

definition sphere_cmds :: "jsnum \<Rightarrow> jsnum \<Rightarrow> jsnum \<Rightarrow> StarStyle \<Rightarrow> canvas_cmd list" where
  "sphere_cmds x y r style =
     [FillStyle (Radial (x - r * lit (32 / 100)) (y - r * lit (32 / 100)) (r * lit (8 / 100)) x y r
        [(lit 0, (u ''#ffffff'')), (lit (28 / 100), ss_base style), (lit (85 / 100), ss_base style),
         (lit 1, if ss_spectralClass style = (u ''M'') then (u ''#7a0e00'') else (u ''#d43f00''))]),
      BeginPath, Arc x y r (lit 0) (Math_PI * lit 2), Fill]"

definition flare_cmds :: "jsnum \<Rightarrow> jsnum \<Rightarrow> jsnum \<Rightarrow> StarStyle \<Rightarrow> canvas_cmd list" where
  "flare_cmds x y r style =
     [Save, FillStyle (Linear (x - r * lit (35 / 10)) y (x + r * lit (35 / 10)) y
        [(lit 0, (u ''transparent'')), (lit (5 / 10), ss_glow style), (lit 1, (u ''transparent''))]),
      FillRect (x - r * lit (35 / 10)) (y - lit 1) (r * lit 7) (lit 2), Restore]"

definition star_or_num :: "jsnum \<Rightarrow> jsnum \<Rightarrow> jsnum" where
  "star_or_num x y = (if truthy x then x else y)"

definition star_label_cmds :: "jsnum \<Rightarrow> jsnum \<Rightarrow> jsnum \<Rightarrow> StarParams \<Rightarrow> StarStyle \<Rightarrow> canvas_cmd list" where
  "star_label_cmds x y r star style =
     [FillStyle (Color (u ''rgba(255, 255, 255, 0.95)'')), Font (u ''bold 11px sans-serif''), TextAlign Align_center,
      FillText (star_name star) x (y + r + lit 16), FillStyle (Color (ss_base style)), Font (u ''9px font-mono, monospace''),
      FillText (num_str (star_or_num (star_teff star) (lit 5778)) @ ue '' K ~00B7 '' @ toFixed (star_or_num (star_radius star) (lit 1)) 2 @ ue '' R~2609'') x (y + r + lit 27)]"

definition drawHostStar :: "jsnum \<Rightarrow> jsnum \<Rightarrow> jsnum \<Rightarrow> StarParams \<Rightarrow> StarStyle \<Rightarrow> canvas_cmd list" where
  "drawHostStar x y r star style =
     corona_cmds x y r style @ halo_cmds x y r style @ sphere_cmds x y r style @ flare_cmds x y r style @
     star_label_cmds x y r star style"

section \<open>Planets\<close>

definition selection_cmds :: "jsnum \<Rightarrow> jsnum \<Rightarrow> jsnum \<Rightarrow> canvas_cmd list" where
  "selection_cmds x y pr =
     (let ch = pr + lit 12 in
      [Save, StrokeStyle (u ''#38bdf8''), LineWidth (lit (18 / 10)), LineDash [lit 4, lit 3], BeginPath,
       Arc x y (pr + lit 8) (lit 0) (Math_PI * lit 2), Stroke, LineDash [], LineWidth (lit (12 / 10)), BeginPath,
       MoveTo (x - ch) y, LineTo (x - ch + lit 4) y, MoveTo (x + ch) y, LineTo (x + ch - lit 4) y,
       MoveTo x (y - ch), LineTo x (y - ch + lit 4), MoveTo x (y + ch), LineTo x (y + ch - lit 4), Stroke, Restore])"

definition body_cmds :: "jsnum \<Rightarrow> jsnum \<Rightarrow> jsnum \<Rightarrow> jsnum \<Rightarrow> jsnum \<Rightarrow> PlanetBiome \<Rightarrow> canvas_cmd list" where
  "body_cmds x y pr lightDirX lightDirY biome =
     [FillStyle (Radial x y (pr * lit (8 / 10)) x y (pr * lit (15 / 10)) [(lit 0, pb_atmosphereGlow biome), (lit 1, (u ''transparent''))]),
      BeginPath, Arc x y (pr * lit (15 / 10)) (lit 0) (Math_PI * lit 2), Fill,
      FillStyle (Radial (x + lightDirX * pr * lit (45 / 100)) (y + lightDirY * pr * lit (45 / 100)) (pr * lit (5 / 100)) x y pr
        [(lit 0, pb_accentColor biome), (lit (55 / 100), pb_baseColor biome), (lit (92 / 100), (u ''#080a10'')), (lit 1, (u ''#020305''))]),
      BeginPath, Arc x y pr (lit 0) (Math_PI * lit 2), Fill]"

definition continent_cmds :: "mathlib \<Rightarrow> jsnum \<Rightarrow> jsnum \<Rightarrow> jsnum \<Rightarrow> jsnum \<Rightarrow> jsnum \<Rightarrow> nat \<Rightarrow> canvas_cmd list" where
  "continent_cmds m x y pr lightDirX rotPhase c =
     (let landAngle = rotPhase + jsnum_of_nat c * lit (21 / 10);
          lx = x + Math_cos m landAngle * pr * lit (55 / 100) + lightDirX * pr * lit (15 / 100);
          ly = y + Math_sin m (landAngle * lit (7 / 10)) * pr * lit (45 / 100)
      in [FillStyle (Color (u ''rgba(43, 158, 86, 0.75)'')), BeginPath,
          Ellipse lx ly (pr * lit (45 / 100)) (pr * lit (3 / 10)) (landAngle * lit (4 / 10)) (lit 0) (Math_PI * lit 2), Fill])"

definition band_cmds :: "jsnum \<Rightarrow> jsnum \<Rightarrow> jsnum \<Rightarrow> int \<Rightarrow> canvas_cmd list" where
  "band_cmds x y pr b =
     [FillStyle (Color (if b mod 2 = 0 then (u ''rgba(255, 255, 255, 0.18)'') else (u ''rgba(0, 0, 0, 0.18)''))),
      FillRect (x - pr) (y + (lit (of_int b) * pr) / lit 3) (pr * lit 2) (pr / lit (45 / 10))]"

definition lava_cmds :: "jsnum \<Rightarrow> jsnum \<Rightarrow> jsnum \<Rightarrow> canvas_cmd list" where
  "lava_cmds x y pr =
     [StrokeStyle (u ''rgba(255, 90, 0, 0.8)''), LineWidth (lit (12 / 10)), BeginPath,
      MoveTo (x - pr * lit (5 / 10)) (y - pr * lit (3 / 10)), LineTo (x + pr * lit (2 / 10)) (y + pr * lit (1 / 10)),
      LineTo (x - pr * lit (1 / 10)) (y + pr * lit (6 / 10)), Stroke]"

definition cloud_cmds :: "jsnum \<Rightarrow> jsnum \<Rightarrow> jsnum \<Rightarrow> jsnum \<Rightarrow> jsnum \<Rightarrow> canvas_cmd list" where
  "cloud_cmds x y pr lightDirX lightDirY =
     [StrokeStyle (u ''rgba(255, 255, 255, 0.45)''), LineWidth (pr * lit (3 / 10)), BeginPath,
      Arc (x + lightDirX * pr * lit (18 / 100)) (y + lightDirY * pr * lit (18 / 100)) (pr * lit (65 / 100)) (lit 0) Math_PI, Stroke]"

definition rotPhase_of :: "PlanetParams \<Rightarrow> jsnum \<Rightarrow> jsnum" where
  "rotPhase_of planet time =
     (let rotSpeed = lit 24 / Math_max (lit 8) (nullish (pl_rotationPeriodHours planet) (lit 24))
      in (time * rotSpeed * lit (2 / 10)) mod (Math_PI * lit 2))"

definition surface_cmds ::
    "mathlib \<Rightarrow> jsnum \<Rightarrow> jsnum \<Rightarrow> jsnum \<Rightarrow> jsnum \<Rightarrow> jsnum \<Rightarrow> PlanetBiome \<Rightarrow> jsnum \<Rightarrow> canvas_cmd list" where
  "surface_cmds m x y pr lightDirX lightDirY biome rotPhase =
     [Save, BeginPath, Arc x y pr (lit 0) (Math_PI * lit 2), Clip] @
     (if pb_surfacePattern biome = Continents then concat (map (continent_cmds m x y pr lightDirX rotPhase) [0..<3])
      else if pb_surfacePattern biome = Bands then concat (map (band_cmds x y pr) [-2, -1, 0, 1, 2])
      else if pb_surfacePattern biome = Lava_cracks then lava_cmds x y pr else []) @
     (if pb_hasClouds biome then cloud_cmds x y pr lightDirX lightDirY else []) @ [Restore]"

definition planet_ring_cmds :: "jsnum \<Rightarrow> jsnum \<Rightarrow> jsnum \<Rightarrow> PlanetParams \<Rightarrow> jsnum \<Rightarrow> canvas_cmd list" where
  "planet_ring_cmds x y pr planet yaw =
     [Save, BeginPath,
      Ellipse x y (pr * lit (23 / 10)) (pr * lit (7 / 10))
        ((yaw + nullish (pl_axialTiltDeg planet) (lit 15) * lit (17 / 1000)) * lit (5 / 10)) (lit 0) (Math_PI * lit 2),
      StrokeStyle (u ''rgba(220, 190, 160, 0.55)''), LineWidth (pr * lit (45 / 100)), Stroke, Restore]"

definition rim_cmds :: "jsnum \<Rightarrow> jsnum \<Rightarrow> jsnum \<Rightarrow> jsnum \<Rightarrow> canvas_cmd list" where
  "rim_cmds x y pr angleToStar =
     [Save, StrokeStyle (u ''rgba(255, 255, 255, 0.75)''), LineWidth (lit (11 / 10)), BeginPath,
      Arc x y pr (angleToStar - Math_PI / lit 3) (angleToStar + Math_PI / lit 3), Stroke, Restore]"

definition tag_cmds :: "jsnum \<Rightarrow> jsnum \<Rightarrow> jsnum \<Rightarrow> PlanetParams \<Rightarrow> bool \<Rightarrow> canvas_cmd list" where
  "tag_cmds x y pr planet isSelected =
     [FillStyle (Color (if isSelected then (u ''#38bdf8'') else (u ''rgba(255, 255, 255, 0.92)''))),
      Font (u ''bold 11px font-mono, monospace''), TextAlign Align_center, FillText (pl_name planet) x (y - pr - lit 10)] @
     (if isSelected then
        [FillStyle (Color (u ''rgba(255, 255, 255, 0.75)'')), Font (u ''9px sans-serif''),
         FillText (toFixed (pl_radiusEarth planet) 2 @ ue '' R~2295 ~00B7 '' @ toFixed (pl_periodDays planet) 1 @ ue '' d ~00B7 '' @ toFixed (pl_semiMajorAxisAu planet) 3 @ u '' AU'')
           x (y - pr - lit 1)]
      else [])"

definition drawPlanet ::
    "mathlib \<Rightarrow> jsnum \<Rightarrow> jsnum \<Rightarrow> jsnum \<Rightarrow> PlanetParams \<Rightarrow> jsnum \<Rightarrow> jsnum \<Rightarrow> bool \<Rightarrow> jsnum \<Rightarrow> jsnum \<Rightarrow> canvas_cmd list" where
  "drawPlanet m x y pr planet cx cy isSelected yaw time =
     (let biome = getPlanetBiome (pl_radiusEarth planet) (pl_tempK planet) (pl_insolationEarth planet);
          angleToStar = Math_atan2 m (cy - y) (cx - x);
          lightDirX = Math_cos m angleToStar; lightDirY = Math_sin m angleToStar
      in (if isSelected then selection_cmds x y pr else []) @ body_cmds x y pr lightDirX lightDirY biome @
         surface_cmds m x y pr lightDirX lightDirY biome (rotPhase_of planet time) @
         (if pb_hasRings biome then planet_ring_cmds x y pr planet yaw else []) @
         rim_cmds x y pr angleToStar @ tag_cmds x y pr planet isSelected)"

section \<open>Transit ray\<close>

definition drawTransitEclipse :: "jsnum \<Rightarrow> jsnum \<Rightarrow> jsnum \<Rightarrow> jsnum \<Rightarrow> jsnum \<Rightarrow> str \<Rightarrow> canvas_cmd list" where
  "drawTransitEclipse cx cy starR planetX planetY planetName =
     [Save, StrokeStyle (u ''rgba(239, 68, 68, 0.75)''), LineWidth (lit (15 / 10)), LineDash [lit 4, lit 4], BeginPath,
      MoveTo cx cy, LineTo planetX planetY, Stroke, FillStyle (Color (u ''#ef4444'')), Font (u ''bold 10px font-mono, monospace''),
      TextAlign Align_center, FillText (ue ''~25CF TRANSIT ECLIPSE: '' @ planetName) cx (cy - starR - lit 20), Restore]"

section \<open>Every function is balanced\<close>

lemma move_or_line_paints [simp]: "paints (move_or_line i pt)" "cannot_throw (move_or_line i pt)" "keeps_align (move_or_line i pt)"
  by (simp_all add: move_or_line_def keeps_align_def plain_def)

lemma circle_path_paints [simp]:
  "list_all paints (circle_path m project r n)" "list_all cannot_throw (circle_path m project r n)"
  "list_all keeps_align (circle_path m project r n)"
  by (simp_all add: circle_path_def list_all_iff)

lemma drawDistanceGrid_balanced:
  assumes "drawDistanceGrid m project maxAu = Some grid"
  shows "balanced P 0 grid" "list_all cannot_throw grid"
proof -
  obtain rs where g: "grid = [Save, StrokeStyle (u ''rgba(255, 255, 255, 0.04)''), LineWidth (lit 1)] @
      concat (map (ring_cmds m project) rs) @ axes_cmds project maxAu @ [Restore]"
    using assms by (auto simp: drawDistanceGrid_def)
  have "list_all plain (ring_cmds m project r)" for r
    using paints_plain [OF circle_path_paints(1)] by (simp add: ring_cmds_def Let_def plain_def)
  then have p: "list_all plain (concat (map (ring_cmds m project) rs) @ axes_cmds project maxAu)"
    by (simp add: list_all_concat_map) (simp add: axes_cmds_def Let_def plain_def)
  show "balanced P 0 grid" using balanced_plain [OF p, of 1 P "[Restore]"] by (simp add: g)
  show "list_all cannot_throw grid"
    by (simp add: g list_all_concat_map ring_cmds_def axes_cmds_def Let_def)
qed

lemma zone_boundary_plain: "list_all plain (zone_boundary m project r)"
  using paints_plain [OF circle_path_paints(1)] by (simp add: zone_boundary_def plain_def)

lemma drawHabitableZone_balanced:
  "balanced P 0 (drawHabitableZone m project cx cy s hz)"
  "list_all cannot_throw (drawHabitableZone m project cx cy s hz) = paint_ok (zone_gradient cx cy s hz)"
proof -
  have "list_all paints (map (\<lambda>i. let p = circle_point m project (optInnerAu hz) 80 i in LineTo (pj_x p) (pj_y p)) (rev [0..<81]))"
    by (auto simp: list_all_iff Let_def)
  then show "balanced P 0 (drawHabitableZone m project cx cy s hz)"
    by (simp add: drawHabitableZone_def Let_def balanced_paints balanced_plain [OF zone_boundary_plain])
  show "list_all cannot_throw (drawHabitableZone m project cx cy s hz) = paint_ok (zone_gradient cx cy s hz)"
    by (auto simp: drawHabitableZone_def Let_def zone_boundary_def list_all_iff [of _ "map f xs" for f xs])
qed

lemma drawTrails_balanced: "balanced P 0 (drawTrails project trails i)" "list_all cannot_throw (drawTrails project trails i)"
proof -
  have "list_all plain (concat (map (trail_cmds project i) trails))"
    by (auto simp: list_all_concat_map trail_cmds_def trail_segment_def Let_def plain_def)
  from balanced_plain [OF this, of 1 P "[Restore]"] show "balanced P 0 (drawTrails project trails i)" by (simp add: drawTrails_def)
  show "list_all cannot_throw (drawTrails project trails i)"
    by (auto simp: drawTrails_def list_all_concat_map trail_cmds_def trail_segment_def Let_def)
qed

lemma drawOrbits_balanced: "balanced P 0 (drawOrbits m project planets i)" "list_all cannot_throw (drawOrbits m project planets i)"
proof -
  have "list_all paints (map (\<lambda>k. move_or_line k (orbit_point m project p k)) [0..<97])" for p
    by (auto simp: list_all_iff)
  then show "balanced P 0 (drawOrbits m project planets i)"
    by (auto simp: drawOrbits_def orbit_cmds_def Let_def balanced_paints intro!: balanced_concat)
  show "list_all cannot_throw (drawOrbits m project planets i)"
    by (auto simp: drawOrbits_def orbit_cmds_def Let_def list_all_concat_map list_all_iff [of _ "map f xs" for f xs])
qed

lemma drawDistanceRuler_balanced:
  "balanced P 0 (drawDistanceRuler w cx cy px py r sr)" "list_all cannot_throw (drawDistanceRuler w cx cy px py r sr)"
  by (simp_all add: drawDistanceRuler_def Let_def)

lemma drawTransitEclipse_balanced:
  "balanced P 0 (drawTransitEclipse cx cy sr px py n)" "list_all cannot_throw (drawTransitEclipse cx cy sr px py n)"
  by (simp_all add: drawTransitEclipse_def)

lemma drawHostStar_balanced: "balanced sets_text 0 (drawHostStar x y r star style)"
  by (simp add: drawHostStar_def corona_cmds_def halo_cmds_def sphere_cmds_def flare_cmds_def star_label_cmds_def)

lemma drawDeepSpace_balanced: "balanced sets_text 0 (drawDeepSpace w h cx cy)"
  by (simp add: drawDeepSpace_def)

lemma drawStarfield_balanced: "balanced sets_style 0 (drawStarfield stars w h)"
  unfolding drawStarfield_def
  by (rule balanced_append) (auto simp: star_cmds_def Let_def intro: balanced_concat)

lemma surface_cmds_balanced: "balanced P 0 (surface_cmds m x y pr lx ly biome ph)"
proof -
  have "list_all plain (concat (map (continent_cmds m x y pr lx ph) [0..<3]))"
    "list_all plain (concat (map (band_cmds x y pr) [-2, -1, 0, 1, 2]))"
    "list_all plain (lava_cmds x y pr)" "list_all plain (cloud_cmds x y pr lx ly)"
    by (simp_all only: list_all_concat_map continent_cmds_def band_cmds_def lava_cmds_def cloud_cmds_def Let_def)
      (simp_all add: plain_def)
  note q = this [THEN balanced_plain, of 1 P]
  show ?thesis by (auto simp: surface_cmds_def q [simplified])
qed

lemma drawPlanet_balanced: "balanced sets_text 0 (drawPlanet m x y pr planet cx cy sel yaw time)"
proof -
  have "balanced P 0 (selection_cmds x y pr)" "balanced P 0 (planet_ring_cmds x y pr planet yaw)" "balanced P 0 (rim_cmds x y pr a)" for P a
    by (simp_all add: selection_cmds_def planet_ring_cmds_def rim_cmds_def Let_def)
  moreover have "balanced sets_text 0 (body_cmds x y pr lx ly b)" "balanced sets_text 0 (tag_cmds x y pr planet sel)" for lx ly b
    by (simp_all add: body_cmds_def tag_cmds_def)
  ultimately show ?thesis
    by (auto simp: drawPlanet_def Let_def intro!: balanced_append surface_cmds_balanced)
qed

section \<open>The ring loop\<close>

lemma ringStep_ok: "step_ok (ringStep maxAu)"
proof -
  have "step_ok (lit 1)" "step_ok (lit (5 / 10))" "step_ok (lit (25 / 100))" "step_ok (lit (1 / 10))" "step_ok (lit (5 / 100))"
    by code_simp+
  then show ?thesis by (auto simp: ringStep_def)
qed

lemma ring_radii_ends:
  assumes "step_ok p" "isFinite limit" "val limit \<le> 2 ^ 32" "isFinite r" "- (2 ^ 32) \<le> val r"
  shows "\<exists>rs. ring_radii p limit r = Some rs"
  using assms(4,5)
proof (induction "nat \<lceil>(val limit - val r + 1) * 2 ^ 11\<rceil>" arbitrary: r rule: less_induct)
  case less
  show ?case
  proof (cases "r \<le> limit")
    case True
    then have le: "val r \<le> val limit" using less.prems assms(2) by simp
    then have "val r \<le> 2 ^ 32" using assms(3) by linarith
    note st = step_add [OF assms(1) less.prems this]
    have "nat \<lceil>(val limit - val (r + p) + 1) * 2 ^ 11\<rceil> < nat \<lceil>(val limit - val r + 1) * 2 ^ 11\<rceil>"
      by (rule measure_drop) (use st(2) le pos11 in linarith)+
    moreover have "isFinite (r + p)" using st(1) by (simp add: mag_le_def)
    moreover have "- (2 ^ 32) \<le> val (r + p)" using st(2) less.prems pos11 by linarith
    ultimately obtain rs where "ring_radii p limit (r + p) = Some rs" using less.hyps by blast
    then show ?thesis using True by (simp add: ring_radii.simps [of p limit r])
  next
    case False
    then show ?thesis by (simp add: ring_radii.simps [of p limit r])
  qed
qed

lemma ring_radii_NaN [simp]: "ring_radii p NaN r = Some []"
  by (simp add: ring_radii.simps [of p NaN r])

lemma ring_radii_unit:
  assumes "isFinite limit" "val limit \<le> 2 ^ 32" "k \<le> 2 ^ 33" "0 < k"
  shows "ring_radii (Fin 1) limit (Fin (of_nat k)) =
    Some (map (\<lambda>j. Fin (of_nat j)) [k..<Suc (nat \<lfloor>val limit\<rfloor>)])"
  using assms(3,4)
proof (induction "Suc (nat \<lfloor>val limit\<rfloor>) - k" arbitrary: k)
  case 0
  then have "nat \<lfloor>val limit\<rfloor> < k" by simp
  then have "\<lfloor>val limit\<rfloor> < int k" using 0 by linarith
  then have "\<not> (of_nat k :: rat) \<le> val limit" by (simp add: floor_less_iff)
  then show ?case using 0 assms(1) by (simp add: ring_radii.simps [of _ limit "Fin (of_nat k)"])
next
  case (Suc n)
  then have kl: "k \<le> nat \<lfloor>val limit\<rfloor>" by simp
  then have "int k \<le> \<lfloor>val limit\<rfloor>" using Suc by linarith
  then have le: "(of_nat k :: rat) \<le> val limit" by (simp add: le_floor_iff)
  then have k32: "k \<le> 2 ^ 32" using assms(2) by (simp add: of_nat_le_iff [of k "2 ^ 32", where ?'a = rat, symmetric] del: of_nat_le_iff)
  have "mk b (of_nat (Suc k)) = Fin (of_nat (Suc k))" for b
  proof (rule mk_exact)
    have n: "(of_nat (Suc k) :: rat) \<le> of_nat (2 ^ 53)" using k32 by (intro of_nat_mono) simp
    then show "\<bar>of_nat (Suc k) :: rat\<bar> < 2 ^ 1024" using small_lt_overflow [of "of_nat (Suc k)"] by simp
    show "round64 (of_nat (Suc k)) = of_nat (Suc k)" by (rule round64_of_nat) (use k32 in simp)
  qed simp
  then have "Fin (of_nat k) + Fin 1 = (Fin (of_nat (Suc k)) :: jsnum)" by (simp add: plus_jsnum_def add.commute)
  then have "ring_radii (Fin 1) limit (Fin (of_nat k) + Fin 1) = Some (map (\<lambda>j. Fin (of_nat j)) [Suc k..<Suc (nat \<lfloor>val limit\<rfloor>)])"
    using Suc.hyps(1) [of "Suc k"] Suc.hyps(2) Suc.prems k32 by simp
  then show ?case using le assms(1) kl by (simp add: ring_radii.simps [of _ limit "Fin (of_nat k)"] upt_rec [of k])
qed

lemma grid_drawn:
  assumes "mag_le maxAu 31"
  shows "\<exists>grid. drawDistanceGrid m project maxAu = Some grid"
proof -
  have "mag_le (lit (12 / 10)) 1" by code_simp
  then have l: "mag_le (maxAu * lit (12 / 10)) 32" using mag_le_mult [OF assms, of _ 1] by simp
  have s: "isFinite (ringStep maxAu)" "- (2 ^ 32) \<le> val (ringStep maxAu)"
    using ringStep_ok [of maxAu] pos11 by (auto simp: step_ok_def intro: order_trans [of _ "1 / 2 ^ 10"])
  have "isFinite (maxAu * lit (12 / 10))" "val (maxAu * lit (12 / 10)) \<le> 2 ^ 32" using l by (auto simp: mag_le_def abs_le_iff)
  from ring_radii_ends [OF ringStep_ok [of maxAu] this s] show ?thesis by (auto simp: drawDistanceGrid_def)
qed

section \<open>When the star and the planets can be drawn\<close>

text \<open>A radius for the canvas: not negative and not above \<open>2^k\<close>.\<close>

definition radius_le :: "jsnum \<Rightarrow> nat \<Rightarrow> bool" where
  "radius_le r k \<longleftrightarrow> mag_le r k \<and> 0 \<le> val r"

lemma radius_leD: "radius_le r k \<Longrightarrow> isFinite r" "radius_le r k \<Longrightarrow> \<not> val r < 0" "radius_le r k \<Longrightarrow> mag_le r k"
  by (auto simp: radius_le_def mag_le_def)

lemma small_lit: "0 \<le> q \<Longrightarrow> q \<le> 8 \<Longrightarrow> radius_le (lit q) 3"
  unfolding lit_def radius_le_def
  using mag_le_mk [of q 3 "q < 0"] mk_nonneg [of q "q < 0"] by (auto simp: mag_le_def)

lemma radius_le_mult:
  assumes "radius_le x k" "radius_le y n" "k + n \<le> 1023"
  shows "radius_le (x * y) (k + n)"
proof -
  have m: "mag_le (x * y) (k + n)" using assms by (intro mag_le_mult) (auto simp: radius_le_def)
  obtain b where b: "x * y = mk b (val x * val y)" using assms by (auto simp: radius_le_def mag_le_def finite_mult)
  have "Fin 0 \<le> x * y" unfolding b using assms by (intro mk_nonneg mult_nonneg_nonneg) (auto simp: radius_le_def)
  then show ?thesis using m by (auto simp: radius_le_def mag_le_def)
qed

lemma scaled_radius: "radius_le r 100 \<Longrightarrow> 0 \<le> q \<Longrightarrow> q \<le> 8 \<Longrightarrow> radius_le (r * lit q) 103"
  using radius_le_mult [of r 100 "lit q" 3] small_lit [of q] by simp

lemma near_finite:
  assumes "mag_le x 110" "mag_le d 110"
  shows "isFinite (x + d)" "isFinite (x - d)"
  using mag_le_add [OF assms] mag_le_sub [OF assms] by (auto simp: mag_le_def)

lemma star_cannot_throw:
  assumes "mag_le x 100" "mag_le y 100" "radius_le r 100"
  shows "list_all cannot_throw (drawHostStar x y r star style)"
proof -
  have q: "isFinite (r * lit q)" "\<not> val (r * lit q) < 0" "mag_le (r * lit q) 110" if "0 \<le> q" "q \<le> 8" for q
    using scaled_radius [OF assms(3) that] by (auto dest: radius_leD intro: mag_le_mono)
  have xy: "mag_le x 110" "mag_le y 110" using assms by (auto intro: mag_le_mono)
  then have n: "isFinite (x - r * lit q)" "isFinite (x + r * lit q)" "isFinite (y - r * lit q)" if "0 \<le> q" "q \<le> 8" for q
    using q(3) [OF that] near_finite by blast+
  have f: "isFinite x" "isFinite y" "isFinite r" "\<not> val r < 0" using assms by (auto simp: mag_le_def dest: radius_leD)
  show ?thesis
    unfolding drawHostStar_def corona_cmds_def halo_cmds_def sphere_cmds_def flare_cmds_def star_label_cmds_def
    by (simp add: paint_ok_def q n f)
qed

text \<open>What \<open>Math.atan2\<close> promises: finite arguments give an angle between \<open>-4\<close> and \<open>4\<close>.\<close>

definition atan2_bounded :: "mathlib \<Rightarrow> bool" where
  "atan2_bounded m \<longleftrightarrow> (\<forall>y x. isFinite y \<longrightarrow> isFinite x \<longrightarrow> mag_le (Math_atan2 m y x) 2)"

lemma sample_atan2: "atan2_bounded sample_math"
  by (simp add: atan2_bounded_def sample_math_def mag_le_def)

lemma planet_cannot_throw:
  assumes "trig_bounded m" "atan2_bounded m" "mag_le x 100" "mag_le y 100" "mag_le cx 100" "mag_le cy 100" "radius_le pr 100"
  shows "list_all cannot_throw (drawPlanet m x y pr planet cx cy sel yaw time)"
proof -
  have q: "isFinite (pr * lit q)" "\<not> val (pr * lit q) < 0" if "0 \<le> q" "q \<le> 8" for q
    using scaled_radius [OF assms(7) that] by (auto dest: radius_leD)
  have f: "isFinite x" "isFinite y" "isFinite pr" "\<not> val pr < 0" using assms by (auto simp: mag_le_def dest: radius_leD)
  have p8: "\<not> pr + lit 8 < Fin 0"
  proof -
    obtain b where "pr + Fin 8 = mk b (val pr + 8)" using f(3) by (auto simp: finite_add)
    moreover have "0 \<le> val pr" using assms(7) by (simp add: radius_le_def)
    ultimately have "Fin 0 \<le> pr + Fin 8" using mk_nonneg [of "val pr + 8"] by simp
    then show ?thesis by (cases "pr + Fin 8") auto
  qed
  let ?a = "Math_atan2 m (cy - y) (cx - x)"
  have "isFinite (cy - y)" "isFinite (cx - x)" using assms(3-6) by (simp_all add: near_finite mag_le_mono [of _ 100 110])
  then have a: "isFinite ?a" using assms(2) by (auto simp: atan2_bounded_def mag_le_def)
  have dir: "mag_le d 0 \<Longrightarrow> mag_le (d * pr * lit (45 / 100)) 110" for d
    using mag_le_mult [of "d * pr" 100 "lit (45 / 100)" 3] mag_le_mult [of d 0 pr 100] radius_leD(3) [OF assms(7)]
      radius_leD(3) [OF small_lit [of "45 / 100"]] by (auto intro: mag_le_mono)
  have "mag_le (Math_cos m ?a) 0" "mag_le (Math_sin m ?a) 0" using trig_boundedD [OF assms(1) a] by (auto simp: mag_le_def)
  then have g: "isFinite (x + Math_cos m ?a * pr * lit (45 / 100))" "isFinite (y + Math_sin m ?a * pr * lit (45 / 100))"
    using assms(3,4) dir by (simp_all add: near_finite mag_le_mono [of _ 100 110])
  have body: "list_all cannot_throw (body_cmds x y pr (Math_cos m ?a) (Math_sin m ?a) b)" for b
    unfolding body_cmds_def by (simp add: paint_ok_def q f g [simplified])
  have surf: "list_all cannot_throw (surface_cmds m x y pr lx ly b ph)" for lx ly b ph
    unfolding surface_cmds_def continent_cmds_def band_cmds_def lava_cmds_def cloud_cmds_def Let_def
    by (simp add: list_all_concat_map q f)
  have rest: "list_all cannot_throw (selection_cmds x y pr)" "list_all cannot_throw (planet_ring_cmds x y pr planet yaw)"
    "list_all cannot_throw (rim_cmds x y pr a)" "list_all cannot_throw (tag_cmds x y pr planet sel)" for a
    unfolding selection_cmds_def planet_ring_cmds_def rim_cmds_def tag_cmds_def Let_def
    using p8 by (simp_all add: q f)
  show ?thesis unfolding drawPlanet_def Let_def using body surf rest by simp
qed

section \<open>What the drawings leave behind\<close>

lemma star_align:
  assumes "exec (drawHostStar x y r star style) c = Some c'"
  shows "ds_align (cx_state c') = Align_center"
proof -
  obtain c1 where "exec (star_label_cmds x y r star style) c1 = Some c'"
    using assms by (auto simp: drawHostStar_def exec_append split: bind_splits)
  then show ?thesis by (auto simp: star_label_cmds_def on_state_def)
qed

lemma grid_texts:
  assumes "drawDistanceGrid m project maxAu = Some grid" "exec grid c = Some c'"
  shows "cx_texts c' = cx_texts c @ map (\<lambda>s. (s, ds_align (cx_state c))) (texts_of grid)"
proof -
  obtain rs where g: "grid = [Save] @ ([StrokeStyle (u ''rgba(255, 255, 255, 0.04)''), LineWidth (lit 1)] @
      concat (map (ring_cmds m project) rs) @ axes_cmds project maxAu) @ [Restore]" (is "_ = _ @ ?body @ _")
    using assms by (auto simp: drawDistanceGrid_def)
  have k: "list_all keeps_align ?body"
    by (simp add: list_all_concat_map ring_cmds_def axes_cmds_def Let_def) (simp add: keeps_align_def plain_def)
  let ?c0 = "c\<lparr>cx_stack := cx_state c # cx_stack c\<rparr>"
  obtain c1 where c1: "exec ?body ?c0 = Some c1" "exec [Restore] c1 = Some c'"
    using assms(2) unfolding g exec_append by (auto split: bind_splits)
  have "cx_texts c' = cx_texts c1" using c1(2) by (auto split: list.splits)
  moreover have "texts_of grid = texts_of ?body" by (simp add: g texts_of_def)
  ultimately show ?thesis using keeps_align_exec [OF k c1(1)] by simp
qed

lemma drawings_balanced:
  assumes "drawDistanceGrid m project maxAu = Some grid" "paint_ok (zone_gradient cx cy baseScale hz)"
    and "cmds \<in> {grid, drawHabitableZone m project cx cy baseScale hz, drawTrails project trails sel, drawOrbits m project planets sel,
      drawDistanceRuler w cx cy px py r sr, drawTransitEclipse cx cy sr px py n}"
  shows "balanced P 0 cmds" "list_all cannot_throw cmds"
  using assms(2,3) drawDistanceGrid_balanced [OF assms(1)]
  by (auto simp: drawHabitableZone_balanced drawTrails_balanced drawOrbits_balanced drawDistanceRuler_balanced drawTransitEclipse_balanced)

text \<open>
  The distance grid, the habitable zone, the trails, the orbits, the
  ruler and the transit ray leave the context as they found it: as long as the radii of the
  zone's gradient are finite and not negative, none of them throws, and after each the drawing
  state (styles, width, alpha, font, alignment, dash, clip) and the stack of saved states are
  exactly those before.
\<close>

theorem drawings_restore_state:
  assumes "drawDistanceGrid m project maxAu = Some grid" "paint_ok (zone_gradient cx cy baseScale hz)"
    and "cmds \<in> {grid, drawHabitableZone m project cx cy baseScale hz, drawTrails project trails sel, drawOrbits m project planets sel,
      drawDistanceRuler w cx cy px py r sr, drawTransitEclipse cx cy sr px py n}"
  shows "\<exists>c'. exec cmds c = Some c' \<and> cx_state c' = cx_state c \<and> cx_stack c' = cx_stack c"
proof -
  note b = drawings_balanced [OF assms]
  obtain c' where e: "exec cmds c = Some c'" using cannot_throw_exec [OF b(2)] by blast
  then show ?thesis using restored.balanced_keeps [OF b(1) e] by blast
qed

definition flat_projector :: projector where
  "flat_projector x z = \<lparr>pj_x = x, pj_y = z, pj_depth = Fin 0, pj_rx = x, pj_rz = z\<rparr>"

lemma grid_none: "\<exists>grid. drawDistanceGrid m project NaN = Some grid"
  by (simp add: drawDistanceGrid_def)

theorem drawings_restore_state_witness:
  "\<exists>c'. exec (drawTransitEclipse (Fin 1) (Fin 2) (Fin 3) (Fin 4) (Fin 5) (u ''b'')) new_context = Some c' \<and>
     cx_state c' = cx_state new_context \<and> cx_stack c' = cx_stack new_context"
proof -
  obtain grid where g: "drawDistanceGrid sample_math flat_projector NaN = Some grid" using grid_none by blast
  let ?hz = "\<lparr>optInnerAu = Fin 1, consInnerAu = Fin 1, consOuterAu = Fin 1, optOuterAu = Fin 1, luminosity = Fin 1\<rparr>"
  have p: "paint_ok (zone_gradient (Fin 1) (Fin 2) (Fin 1) ?hz)" by code_simp
  show ?thesis
    by (rule drawings_restore_state [OF g p, of _ "[]" 0 "[]" "\<lambda>f s. Fin 0" "Fin 4" "Fin 5" "Fin 0" "Fin 3" "u ''b''"]) simp
qed

text \<open>
  The loop of the distance grid ends: for every finite extent of at most
  \<open>2^31\<close> AU in magnitude the grid is drawn. Each turn moves the radius by at least half of
  \<open>2^-10\<close>, rounding included, so the number of turns is bounded.
\<close>

theorem ring_loop_ends:
  assumes "mag_le maxAu 31"
  shows "\<exists>grid. drawDistanceGrid m project maxAu = Some grid"
  using assms by (rule grid_drawn)

theorem ring_loop_ends_witness: "\<exists>grid. drawDistanceGrid sample_math flat_projector (Fin 14) = Some grid"
  by (rule ring_loop_ends) code_simp

text \<open>
  Beyond 3 AU the grid has one ring per AU up to 1.2 times the extent: the
  loop visits exactly the radii 1, 2, ... up to the integral part of that product. The comment
  on the loop promises two to four rings; an extent of 14 AU already gives sixteen.
\<close>

theorem grid_rings_exact:
  assumes "mag_le maxAu 31" "3 < val maxAu"
  shows "ring_radii (ringStep maxAu) (maxAu * lit (12 / 10)) (ringStep maxAu) =
    Some (map (\<lambda>k. Fin (of_nat k)) [1..<Suc (nat \<lfloor>val (maxAu * lit (12 / 10))\<rfloor>)])"
proof -
  have "mag_le (lit (12 / 10)) 1" by code_simp
  then have l: "mag_le (maxAu * lit (12 / 10)) 32" using mag_le_mult [OF assms(1), of _ 1] by simp
  have "Fin 3 < maxAu" using assms by (simp add: mag_le_def)
  then have "ringStep maxAu = Fin 1" by (simp add: ringStep_def)
  then show ?thesis using ring_radii_unit [of "maxAu * lit (12 / 10)" 1] l by (simp add: mag_le_def abs_le_iff)
qed

theorem grid_rings_exact_witness:
  "map_option length (ring_radii (ringStep (Fin 14)) (Fin 14 * lit (12 / 10)) (ringStep (Fin 14))) = Some 16"
proof -
  have "mag_le (Fin 14) 31" "3 < val (Fin 14)" by code_simp+
  note r = grid_rings_exact [OF this]
  have n: "nat \<lfloor>val (Fin 14 * lit (12 / 10))\<rfloor> = 16" by code_simp
  show ?thesis unfolding r n by simp
qed

text \<open>
  The alignment of the ring labels depends on the frame: the star's
  labels set the alignment to centre outside a saved level, so after any star has been drawn the
  next grid on the same context prints its labels centred, whereas on a fresh context the same
  grid prints them left-aligned at the point four pixels right of the ring.
\<close>

theorem grid_labels_centred_later:
  assumes "drawDistanceGrid m project maxAu = Some grid"
    and "exec (drawHostStar x y r star style) c = Some c1" "exec grid c1 = Some c2" "exec grid new_context = Some c3"
  shows "cx_texts c2 = cx_texts c1 @ map (\<lambda>s. (s, Align_center)) (texts_of grid) \<and>
    cx_texts c3 = map (\<lambda>s. (s, Align_start)) (texts_of grid)"
  using grid_texts [OF assms(1,3)] grid_texts [OF assms(1,4)] star_align [OF assms(2)] by (simp add: new_context_def)

lemma texts_of_append [simp]: "texts_of (xs @ ys) = texts_of xs @ texts_of ys"
  by (simp add: texts_of_def)

lemma ring_texts: "length (texts_of (ring_cmds m project r)) = 1"
proof -
  have "texts_of (circle_path m project r n) = []" for n
    by (auto simp: texts_of_def circle_path_def move_or_line_def)
  then show ?thesis by (simp add: ring_cmds_def Let_def) (simp add: texts_of_def)
qed

lemma grid_text_count:
  assumes "drawDistanceGrid m project maxAu = Some grid"
  shows "map_option length (ring_radii (ringStep maxAu) (maxAu * lit (12 / 10)) (ringStep maxAu)) = Some (length (texts_of grid))"
proof -
  have "length (texts_of (concat (map (ring_cmds m project) rs))) = length rs" for rs
    by (induction rs) (auto simp: ring_texts texts_of_def [of "[]"])
  moreover have "texts_of (axes_cmds project maxAu) = []" by (simp add: axes_cmds_def Let_def texts_of_def)
  ultimately show ?thesis using assms by (auto simp: drawDistanceGrid_def) (simp add: texts_of_def)
qed

theorem grid_labels_centred_later_witness:
  "\<exists>grid c1 c2 c3. drawDistanceGrid sample_math flat_projector (Fin 2) = Some grid \<and>
     exec grid c1 = Some c2 \<and> exec grid new_context = Some c3 \<and>
     cx_texts c2 = cx_texts c1 @ map (\<lambda>s. (s, Align_center)) (texts_of grid) \<and>
     cx_texts c3 = map (\<lambda>s. (s, Align_start)) (texts_of grid) \<and> texts_of grid \<noteq> []"
proof -
  let ?star = "\<lparr>star_name = u ''s'', star_teff = Fin 5778, star_radius = Fin 1, star_mass = None, star_mag = None,
    star_luminositySolar = None, star_logg = None\<rparr>"
  have "mag_le (Fin 2) 31" by code_simp
  then obtain grid where g: "drawDistanceGrid sample_math flat_projector (Fin 2) = Some grid" using grid_drawn by blast
  have e: "\<exists>c'. exec grid c = Some c'" for c using cannot_throw_exec [OF drawDistanceGrid_balanced(2) [OF g]] .
  have "list_all cannot_throw (drawHostStar (Fin 0) (Fin 0) (Fin 10) ?star (getStarColor (Fin 5778)))"
    by (rule star_cannot_throw) code_simp+
  then obtain c1 where c1: "exec (drawHostStar (Fin 0) (Fin 0) (Fin 10) ?star (getStarColor (Fin 5778))) new_context = Some c1"
    using cannot_throw_exec by blast
  obtain c2 c3 where c: "exec grid c1 = Some c2" "exec grid new_context = Some c3" using e by blast
  have "ringStep (Fin 2) \<le> Fin 2 * lit (12 / 10)" by code_simp
  then have "texts_of grid \<noteq> []" using grid_text_count [OF g]
    by (auto simp: ring_radii.simps [of _ _ "ringStep (Fin 2)"] split: bind_splits)
  then show ?thesis using grid_labels_centred_later [OF g c1 c] g c by blast
qed

end
