(* ===== verification/NumSort.thy ===== *)
theory NumSort
  imports NumError JsString
begin

text \<open>
  Sorting by difference: \<open>values.sort((a, b) => a - b)\<close> on finite numbers. Thanks to gradual
  underflow a difference is zero only for equal numbers, so the comparison by the sign of the
  difference is the numeric order; the sorted array gives extremes and the median.
\<close>

definition diff_le :: "jsnum \<Rightarrow> jsnum \<Rightarrow> bool" where
  "diff_le a b = (a - b \<le> lit 0)"

definition num_ok :: "jsnum \<Rightarrow> bool" where
  "num_ok x \<longleftrightarrow> isFinite x \<and> wf_num x"

lemma num_okD: "num_ok x \<Longrightarrow> isFinite x" "num_ok x \<Longrightarrow> wf_num x"
  by (simp_all add: num_ok_def)

lemma wf_representable: "num_ok x \<Longrightarrow> representable (val x)"
proof (cases x)
  case NegZero
  then show ?thesis using representable_of_int [of 0] by simp
qed (auto simp: num_ok_def wf_num_def representable_iff)

lemma representable_multiple: "representable q \<Longrightarrow> \<exists>k. q = of_int k * 2 powi (- 1074)"
proof -
  assume "representable q"
  then obtain m e where q: "q = of_int m * 2 powi e" and e: "- 1074 \<le> e" by (auto simp: representable_def)
  have "(2::rat) powi e = 2 powi ((e + 1074) + (- 1074))" by (simp only: add.assoc add.right_inverse add_0_right)
  also have "\<dots> = 2 powi (e + 1074) * 2 powi (- 1074)" by (rule power_int_add) simp
  also have "2 powi (e + 1074) = (of_int (2 ^ nat (e + 1074)) :: rat)" using e by (simp add: power_int_nonneg_exp)
  finally have "q = of_int (m * 2 ^ nat (e + 1074)) * 2 powi (- 1074)" by (simp add: q)
  then show ?thesis by blast
qed

lemma representable_gap:
  assumes "representable p" "representable q" "p < q"
  shows "2 powi (- 1074) \<le> q - p"
proof -
  obtain i j where ij: "p = of_int i * 2 powi (- 1074)" "q = of_int j * 2 powi (- 1074)"
    using assms representable_multiple by meson
  have pos: "0 < (2 powi (- 1074) :: rat)" by simp
  then have "i < j" using assms(3) unfolding ij by (simp add: mult_less_cancel_right_pos)
  then have "1 * 2 powi (- 1074) \<le> (of_int (j - i) :: rat) * 2 powi (- 1074)"
    using pos by (intro mult_right_mono) auto
  then show ?thesis unfolding ij by (simp only: of_int_diff left_diff_distrib mult_1)
qed

lemma round64_pos: "2 powi (- 1074) \<le> q \<Longrightarrow> 0 < round64 q"
proof -
  assume q: "2 powi (- 1074) \<le> q"
  have "round64 (2 powi (- 1074)) = 2 powi (- 1074)"
    by (intro round64_representable representable_powi) simp
  then have "2 powi (- 1074) \<le> round64 q" using round64_mono [OF q] by (simp only:)
  moreover have "0 < (2 powi (- 1074) :: rat)" by simp
  ultimately show ?thesis by linarith
qed

lemma sub_pos:
  assumes "num_ok a" "num_ok b" "val b < val a"
  shows "Fin 0 < a - b"
proof -
  have "0 < round64 (val a - val b)"
    using representable_gap [OF wf_representable wf_representable, OF assms(2,1,3)] by (rule round64_pos)
  moreover obtain s where "a - b = mk s (val a - val b)" using assms by (auto simp: finite_sub num_ok_def)
  ultimately show ?thesis by (rule_tac mk_cases [of "val a - val b" s]) auto
qed

lemma diff_le_iff: "num_ok a \<Longrightarrow> num_ok b \<Longrightarrow> diff_le a b \<longleftrightarrow> val a \<le> val b"
proof
  assume ab: "num_ok a" "num_ok b" and "diff_le a b"
  then have "\<not> Fin 0 < a - b" by (auto simp: diff_le_def less_eq_jsnum_def)
  then show "val a \<le> val b" using sub_pos [OF ab] by force
next
  assume ab: "num_ok a" "num_ok b" and le: "val a \<le> val b"
  obtain s where "a - b = mk s (val a - val b)" using ab by (auto simp: finite_sub num_ok_def)
  then show "diff_le a b" using mk_nonpos [of "val a - val b" s] le by (simp add: diff_le_def)
qed

interpretation diff_order: comparator diff_le num_ok
  by unfold_locales (auto simp: diff_le_iff)

section \<open>Sorted values and the median\<close>

definition sort_diff :: "jsnum list \<Rightarrow> jsnum list" where
  "sort_diff xs = sort_by diff_le xs"

lemma length_sort_diff [simp]: "length (sort_diff xs) = length xs"
  by (simp add: sort_diff_def)

lemma sort_diff_nth_mono:
  assumes "\<forall>x\<in>set xs. num_ok x" "i \<le> j" "j < length xs"
  shows "val (sort_diff xs ! i) \<le> val (sort_diff xs ! j)"
proof (cases "i = j")
  case False
  have ok: "num_ok (sort_diff xs ! k)" if "k < length xs" for k
    using assms(1) that nth_mem [of k "sort_diff xs"] by (auto simp: sort_diff_def)
  have "sorted_wrt diff_le (sort_diff xs)" unfolding sort_diff_def by (rule diff_order.sort_by_sorted [OF assms(1)])
  then have "diff_le (sort_diff xs ! i) (sort_diff xs ! j)"
    using sorted_wrt_nth_less [of diff_le "sort_diff xs" i j] False assms by simp
  then show ?thesis using ok [of i] ok [of j] False assms by (simp add: diff_le_iff)
qed simp

lemma sort_diff_ok: "\<forall>x\<in>set xs. num_ok x \<Longrightarrow> i < length xs \<Longrightarrow> num_ok (sort_diff xs ! i)"
  using nth_mem [of i "sort_diff xs"] by (auto simp: sort_diff_def)

text \<open>The median as the pages compute it, for a nonempty array.\<close>

definition median_of :: "jsnum list \<Rightarrow> jsnum" where
  "median_of values = (let middle = length values div 2 in
     if even (length values) then (values ! (middle - 1) + values ! middle) / lit 2 else values ! middle)"

lemma num_ok_mk: "isFinite (mk s q) \<Longrightarrow> num_ok (mk s q)"
  by (simp add: num_ok_def)

text \<open>The mean of two numbers below half of the range lies between them.\<close>

lemma mean_between:
  assumes "num_ok a" "num_ok b" "val a \<le> val b" "\<bar>val a\<bar> \<le> 2 ^ 1000" "\<bar>val b\<bar> \<le> 2 ^ 1000"
  shows "num_ok ((a + b) / lit 2) \<and> val a \<le> val ((a + b) / lit 2) \<and> val ((a + b) / lit 2) \<le> val b"
proof -
  have m: "mag_le a 1000" "mag_le b 1000" using assms by (auto simp: mag_le_def num_ok_def)
  have s: "mag_le (a + b) (Suc 1000)" by (rule mag_le_add [OF m]) simp
  have fin: "isFinite (a + b)" using s by (simp add: mag_le_def)
  have two: "lit 2 = Fin 2" by simp
  have d: "mag_le ((a + b) / lit 2) (Suc 1000 + 0)" by (rule mag_le_divide [OF s]) (simp_all add: two)
  have fd: "isFinite ((a + b) / lit 2)" using d by (simp add: mag_le_def)
  have ra: "round64 (val a) = val a" "round64 (val b) = val b"
    using wf_representable [OF assms(1)] wf_representable [OF assms(2)] by (simp_all add: representable_iff)
  have ab: "val (a + b) = round64 (val a + val b)" using fin assms by (simp add: finite_add num_ok_def val_mk)
  have h: "val ((a + b) / lit 2) = round64 (val (a + b) / 2)" using fin fd by (simp add: two finite_divide val_mk)
  have dbl: "round64 (2 * val x) = 2 * val x" if ok: "num_ok x" for x
  proof -
    obtain k e where "val x = of_int k * 2 powi e" "\<bar>k\<bar> \<le> 2 ^ 53" "- 1074 \<le> e"
      using wf_representable [OF ok] by (auto simp: representable_def)
    then have "2 * val x = of_int k * 2 powi (e + 1) \<and> \<bar>k\<bar> \<le> 2 ^ 53 \<and> - 1074 \<le> e + 1" by (simp add: power_int_add)
    then show ?thesis by (intro round64_representable) (unfold representable_def, blast)
  qed
  have "2 * val a \<le> val (a + b)" "val (a + b) \<le> 2 * val b"
    using round64_mono [of "2 * val a" "val a + val b"] round64_mono [of "val a + val b" "2 * val b"]
      dbl [OF assms(1)] dbl [OF assms(2)] assms(3) by (simp_all add: ab)
  then have "val a \<le> val ((a + b) / lit 2)" "val ((a + b) / lit 2) \<le> val b"
    using round64_mono [of "val a" "val (a + b) / 2"] round64_mono [of "val (a + b) / 2" "val b"] ra
    unfolding h by simp_all
  moreover have "num_ok ((a + b) / lit 2)" using fd by (simp add: num_ok_def)
  ultimately show ?thesis by blast
qed

lemma median_between:
  assumes "\<forall>x\<in>set xs. num_ok x \<and> \<bar>val x\<bar> \<le> 2 ^ 1000" "xs \<noteq> []"
  defines "ys \<equiv> sort_diff xs"
  shows "num_ok (median_of ys) \<and> val (ys ! 0) \<le> val (median_of ys) \<and> val (median_of ys) \<le> val (ys ! (length ys - 1))"
proof -
  have ok: "\<forall>x\<in>set xs. num_ok x" using assms(1) by blast
  have l: "length ys = length xs" "0 < length xs" using assms(2) by (simp_all add: ys_def)
  have b: "\<bar>val (ys ! i)\<bar> \<le> 2 ^ 1000" if "i < length xs" for i
    using assms(1) that nth_mem [of i ys] by (auto simp: ys_def sort_diff_def)
  note mono = sort_diff_nth_mono [OF ok, folded ys_def]
  note okn = sort_diff_ok [OF ok, folded ys_def]
  let ?m = "length xs div 2"
  have m: "?m < length xs" using l by simp
  show ?thesis
  proof (cases "even (length xs)")
    case True
    then have m1: "?m - 1 < length xs" "?m - 1 \<le> ?m" using l(2) by linarith+
    have "num_ok (median_of ys) \<and> val (ys ! (?m - 1)) \<le> val (median_of ys) \<and> val (median_of ys) \<le> val (ys ! ?m)"
      unfolding median_of_def Let_def l(1)
      using mean_between [of "ys ! (?m - 1)" "ys ! ?m"] okn m m1 mono [of "?m - 1" ?m] b True by simp
    moreover have "val (ys ! 0) \<le> val (ys ! (?m - 1))" "val (ys ! ?m) \<le> val (ys ! (length ys - 1))"
      using mono [of 0 "?m - 1"] mono [of ?m "length xs - 1"] m m1 l by auto
    ultimately show ?thesis by linarith
  next
    case False
    then show ?thesis unfolding median_of_def Let_def l(1)
      using okn m mono [of 0 ?m] mono [of ?m "length xs - 1"] l by auto
  qed
qed

text \<open>The relative position of a value between two others, in percent.\<close>

lemma position_percent:
  assumes "num_ok lo" "num_ok hi" "num_ok x" "val lo \<le> val x" "val x \<le> val hi" "val lo < val hi"
    and "\<bar>val lo\<bar> \<le> 2 ^ 1000" "\<bar>val hi\<bar> \<le> 2 ^ 1000"
  shows "Fin 0 \<le> (x - lo) / (hi - lo) * lit 100 \<and> (x - lo) / (hi - lo) * lit 100 \<le> lit 100"
proof -
  have m: "mag_le x 1000" "mag_le lo 1000" "mag_le hi 1000" using assms by (auto simp: mag_le_def num_ok_def)
  have d: "mag_le (x - lo) (Suc 1000)" "mag_le (hi - lo) (Suc 1000)"
    by (rule mag_le_sub [OF m(1,2)], simp, rule mag_le_sub [OF m(3,2)], simp)
  have f: "isFinite (x - lo)" "isFinite (hi - lo)" using d by (auto simp: mag_le_def)
  have "Fin 0 < hi - lo" by (rule sub_pos [OF assms(2,1,6)])
  then have pos: "0 < val (hi - lo)" using f by simp
  have v: "val (x - lo) = round64 (val x - val lo)" "val (hi - lo) = round64 (val hi - val lo)"
    using f assms by (simp_all add: finite_sub num_ok_def val_mk)
  have le: "0 \<le> val (x - lo)" "val (x - lo) \<le> val (hi - lo)"
    unfolding v using assms(4,5) by (auto intro: r64.rnd_nonneg round64_mono)
  have q: "0 \<le> val (x - lo) / val (hi - lo)" "val (x - lo) / val (hi - lo) \<le> 1" using le pos by simp_all
  obtain s where e: "(x - lo) / (hi - lo) = mk s (val (x - lo) / val (hi - lo))"
    using f pos by (auto simp: finite_divide)
  have b: "mag_le ((x - lo) / (hi - lo)) 0" unfolding e by (rule mag_le_mk) (use q in simp_all)
  then have fq: "isFinite ((x - lo) / (hi - lo))" by (simp add: mag_le_def)
  have "val ((x - lo) / (hi - lo)) = round64 (val (x - lo) / val (hi - lo))" using fq unfolding e by (rule val_mk)
  then have r: "0 \<le> val ((x - lo) / (hi - lo))" "val ((x - lo) / (hi - lo)) \<le> 1"
    using r64.rnd_nonneg [OF q(1)] round64_mono [OF q(2)] by simp_all
  obtain s' where p: "(x - lo) / (hi - lo) * lit 100 = mk s' (val ((x - lo) / (hi - lo)) * 100)"
    using fq by (auto simp: finite_mult)
  have "mk s' (val ((x - lo) / (hi - lo)) * 100) \<le> mk False 100" by (rule mk_mono) (use r in simp)
  moreover have "mk False 100 = lit 100" by (simp add: lit_def)
  ultimately show ?thesis unfolding p using mk_nonneg [of "val ((x - lo) / (hi - lo)) * 100" s'] r by simp
qed

section \<open>Dates\<close>

text \<open>What date parsing promises: a time value that is not NaN is a finite number.\<close>

definition dates_ok :: "host \<Rightarrow> bool" where
  "dates_ok h \<longleftrightarrow> (\<forall>s. date_parse h s = NaN \<or> num_ok (date_parse h s))"

lemma sample_dates: "dates_ok sample_host"
  by (simp add: dates_ok_def sample_host_def)

text \<open>Ordering by a time, newest first: \<open>(a, b) => time(b) - time(a)\<close>.\<close>

definition newest_le :: "('a \<Rightarrow> jsnum) \<Rightarrow> 'a \<Rightarrow> 'a \<Rightarrow> bool" where
  "newest_le time a b = diff_le (time b) (time a)"

interpretation newest: comparator "newest_le time" "\<lambda>x. num_ok (time x)" for time
  by unfold_locales (auto simp: newest_le_def diff_le_iff)

lemma newest_first:
  assumes "\<forall>x\<in>set xs. num_ok (time x)" "i < j" "j < length xs"
  shows "val (time (sort_by (newest_le time) xs ! j)) \<le> val (time (sort_by (newest_le time) xs ! i))"
proof -
  let ?l = "sort_by (newest_le time) xs"
  have "newest_le time (?l ! i) (?l ! j)"
    using newest.sort_by_sorted [of xs time] assms by (simp add: sorted_wrt_nth_less)
  moreover have "?l ! i \<in> set ?l" "?l ! j \<in> set ?l" using assms(2,3) by (intro nth_mem; simp)+
  then have "num_ok (time (?l ! i))" "num_ok (time (?l ! j))" using assms(1) by auto
  ultimately show ?thesis by (simp add: newest_le_def diff_le_iff)
qed

end
