(* ===== verification/OrbitFrames.thy ===== *)
theory OrbitFrames
  imports OrbitScene
begin

text \<open>
  Properties of the orbit viewer over whole sequences of events and frames: the camera limits,
  the trails, the state of the drawing context between frames, the phase of the
  synchronisation event, and two behaviours of the handlers that differ from what the
  interface announces.
\<close>

section \<open>The context between frames\<close>

definition clean_context :: "context_2d \<Rightarrow> bool" where
  "clean_context c \<longleftrightarrow> cx_stack c = [] \<and> line_view (cx_state c) = line_view (cx_state new_context)"

lemma draw_object_balanced: "balanced sets_text 0 (draw_object m s star cx cy obj)"
  by (auto simp: draw_object_def drawHostStar_balanced drawPlanet_balanced split: option.splits)

lemma frame_tail_balanced:
  assumes "frame_cmds m env maxAu b s = Some cmds"
  obtains w h cx cy rest where "cmds = drawDeepSpace w h cx cy @ drawStarfield (fe_starfield env) w h @ rest" "balanced sets_text 0 rest"
proof -
  have t: "balanced sets_text 0 (ruler_cmds m env pj cx cy s)" "balanced sets_text 0 (transit_ray m pj cx cy r tm q)" for pj cx cy r tm q
    by (auto simp: ruler_cmds_def transit_ray_def Let_def drawDistanceRuler_balanced drawTransitEclipse_balanced split: option.splits)
  have g: "balanced sets_text 0 grid" if "(if sc_showGrid s then drawDistanceGrid m pj x else Some []) = Some grid" for pj x grid
    using that drawDistanceGrid_balanced(1) by (auto split: if_splits)
  show ?thesis using assms that
    by (auto simp: frame_cmds_def Let_def balanced_append balanced_concat drawHabitableZone_balanced drawTrails_balanced
        drawOrbits_balanced draw_object_balanced t g)
qed

lemma frame_context:
  assumes "frame_cmds m env maxAu b s = Some cmds" "exec cmds c = Some c'" "clean_context c"
  shows "clean_context c'"
proof -
  obtain w h cx cy rest where cmds: "cmds = drawDeepSpace w h cx cy @ drawStarfield (fe_starfield env) w h @ rest"
    and rest: "balanced sets_text 0 rest" using frame_tail_balanced [OF assms(1)] .
  let ?A = "drawDeepSpace w h cx cy @ drawStarfield (fe_starfield env) w h"
  obtain c1 where c1: "exec ?A c = Some c1" "exec rest c1 = Some c'"
    using assms(2) unfolding cmds by (auto simp: exec_append split: bind_splits)
  have "balanced sets_style 0 ?A"
    by (intro balanced_append drawStarfield_balanced balanced_mono [OF drawDeepSpace_balanced]) simp
  note A = styled.balanced_keeps [OF this c1(1)]
  have "ds_alpha (cx_state c1) = Fin 1"
    using c1(1) by (auto simp: drawStarfield_def exec_append on_state_def split: bind_splits)
  then have "line_view (cx_state c1) = line_view (cx_state new_context)"
    using A(1) assms(3) by (simp add: clean_context_def line_view_def stroke_view_def new_context_def)
  then show ?thesis using A(2) assms(3) labelled.balanced_keeps [OF rest c1(2)] by (simp add: clean_context_def)
qed

lemma prepare_context:
  assumes "frame_prepare m env t s = (maxAu, b, s1)" "clean_context (sc_context s)"
  shows "clean_context (sc_context s1)"
proof -
  let ?s1 = "resize_canvas (fe_width env) (fe_height env) (s\<lparr>sc_previousFrameAt := Some t\<rparr>)"
  have "clean_context (sc_context ?s1)" using assms(2) by (simp add: resize_canvas_def clean_context_def)
  moreover have "sc_context (advance_clock d x) = sc_context x" "sc_context (on_camera f x) = sc_context x" for d f x
    by (simp_all add: advance_clock_def on_camera_def Let_def)
  ultimately show ?thesis using assms(1) by (auto simp: frame_prepare_def Let_def)
qed

lemma step_context:
  assumes "clean_context (sc_context s)" "scene_step e s = Some s'"
  shows "clean_context (sc_context s')"
proof (cases "\<exists>m env t. e = Frame m env t")
  case True
  then obtain m env t where e: "e = Frame m env t" by blast
  obtain maxAu b s1 where p: "frame_prepare m env t s = (maxAu, b, s1)" by (metis prod_cases3)
  obtain cmds c where c: "frame_cmds m env maxAu b s1 = Some cmds" "exec cmds (sc_context s1) = Some c"
      "notify_sync m env t (s1\<lparr>sc_context := c\<rparr>) = Some s'"
    using assms(2) by (auto simp: e scene_step_def render_frame_def p split: bind_splits)
  have "sc_context s' = c" using c(3) by (auto simp: notify_sync_def split: option.splits if_splits)
  then show ?thesis using frame_context [OF c(1,2) prepare_context [OF p assms(1)]] by simp
next
  case False
  have m: "sc_context (setCameraMode md x) = sc_context x" "sc_context (on_camera f x) = sc_context x"
    "sc_context (rerun_render x) = sc_context x" for md f x
    by (simp_all add: setCameraMode_def on_camera_def rerun_render_def)
  have "sc_context s' = sc_context s" using False assms(2)
    by (cases e) (auto simp: scene_step_def m Let_def handleMouseDown_def handleMouseMove_def handleMouseUp_def handleWheel_def
        resetCamera_def focusPlanet_def setTopDownView_def setTransitView_def zoomIn_def zoomOut_def onTogglePlay_def
        onChangeSpeed_def onSelectPlanet_def onToggleHabitableZone_def onToggleTrails_def onToggleGrid_def
        onToggleDistanceRuler_def onToggleFullscreen_def)
  then show ?thesis using assms(1) by simp
qed

lemma run_context: "clean_context (sc_context s) \<Longrightarrow> run_scene es s = Some s' \<Longrightarrow> clean_context (sc_context s')"
  by (induction es arbitrary: s) (auto split: bind_splits intro: step_context)

lemma initial_context: "clean_context (sc_context initial_scene)"
  by (simp add: initial_scene_def clean_context_def new_context_def)

section \<open>The phase of the synchronisation event\<close>

lemma two_pi_val: "val (Math_PI * lit 2) = 884279719003555 / 140737488355328" "isFinite (Math_PI * lit 2)"
  unfolding two_pi by simp_all

lemma tau_steps:
  assumes "isFinite x"
  shows "0 < val x \<Longrightarrow> x mod (Math_PI * lit 2) =
      mk False (val x - 884279719003555 / 140737488355328 * of_int \<lfloor>val x / (884279719003555 / 140737488355328)\<rfloor>)"
    and "\<exists>w. x / (Math_PI * lit 2) = mk w (val x / (884279719003555 / 140737488355328))"
proof -
  show "\<exists>w. x / (Math_PI * lit 2) = mk w (val x / (884279719003555 / 140737488355328))"
    unfolding two_pi using finite_divide [of x "Fin (884279719003555 / 140737488355328)"] assms by auto
  assume "0 < val x"
  moreover from this have "\<not> signbit x" using assms by (cases x) (auto simp: signbit_def)
  ultimately show "x mod (Math_PI * lit 2) =
      mk False (val x - 884279719003555 / 140737488355328 * of_int \<lfloor>val x / (884279719003555 / 140737488355328)\<rfloor>)"
    unfolding two_pi modulo_jsnum_def using assms by (auto simp: isFinite_iff Let_def)
qed

lemma theta_bounds:
  assumes "atan2_bounded m" "isFinite (kp_xAu k)" "isFinite (kp_zAu k)"
  shows "isFinite (transit_theta m k)" "0 \<le> val (transit_theta m k)" "val (transit_theta m k) \<le> 7"
proof -
  let ?a = "Math_atan2 m (kp_zAu k) (kp_xAu k)" and ?y = "884279719003555 / 140737488355328 :: rat"
  have "isFinite ?a \<and> \<bar>val ?a\<bar> \<le> 2 ^ 2" using assms by (simp add: atan2_bounded_def mag_le_def)
  then have a: "isFinite ?a" "- 4 \<le> val ?a" "val ?a \<le> 4" by (auto simp: abs_le_iff)
  have "\<bar>val ?a + ?y\<bar> \<le> 2 ^ 4" using a by (simp add: abs_le_iff)
  then have x: "isFinite (?a + Math_PI * lit 2)" "\<bar>val (?a + Math_PI * lit 2) - (val ?a + ?y)\<bar> \<le> 1 / 2 ^ 49"
    using arith_close(1) [OF a(1) two_pi_val(2)] unfolding two_pi_val(1) by auto
  have "(1 / 2 ^ 49 :: rat) \<le> 1" by simp
  then have pos: "0 < val (?a + Math_PI * lit 2)" using x(2) a(2) by linarith
  define q where "q = val (?a + Math_PI * lit 2) - ?y * of_int \<lfloor>val (?a + Math_PI * lit 2) / ?y\<rfloor>"
  have th: "transit_theta m k = mk False q"
    unfolding transit_theta_def q_def by (rule tau_steps(1) [OF x(1) pos])
  have fl: "?y * of_int \<lfloor>v / ?y\<rfloor> \<le> v" "v < ?y * of_int \<lfloor>v / ?y\<rfloor> + ?y" for v :: rat
    using floor_correct [of "v / ?y"] by (simp_all add: field_simps)
  have q: "0 \<le> q" "q \<le> 7" unfolding q_def using fl [of "val (?a + Math_PI * lit 2)"] by linarith+
  have "mag_le (mk False q) 3" using q by (intro mag_le_mk) auto
  then show f: "isFinite (transit_theta m k)" unfolding th by (simp add: mag_le_def)
  show "0 \<le> val (transit_theta m k)" using mk_nonneg [OF q(1), of False] f unfolding th by simp
  have "mk False q \<le> lit 7" unfolding lit_def using q by (intro mk_mono) simp
  then show "val (transit_theta m k) \<le> 7" using f unfolding th by simp
qed

lemma theta_phase:
  assumes "isFinite th" "0 \<le> val th" "val th \<le> 7"
  shows "isFinite ((th - Math_PI / lit 2) / (Math_PI * lit 2))"
    and "- (4 / 10) \<le> val ((th - Math_PI / lit 2) / (Math_PI * lit 2))"
    and "val ((th - Math_PI / lit 2) / (Math_PI * lit 2)) \<le> 9 / 10"
proof -
  let ?h = "884279719003555 / 562949953421312 :: rat" and ?y = "884279719003555 / 140737488355328 :: rat"
  have h: "isFinite (Math_PI / lit 2)" "val (Math_PI / lit 2) = ?h" unfolding half_pi by simp_all
  have "\<bar>val th - ?h\<bar> \<le> 2 ^ 4" using assms by (simp add: abs_le_iff)
  then have d: "isFinite (th - Math_PI / lit 2)" "\<bar>val (th - Math_PI / lit 2) - (val th - ?h)\<bar> \<le> 1 / 2 ^ 49"
    using arith_close(2) [OF assms(1) h(1)] unfolding h(2) by auto
  have e: "(1 / 2 ^ 49 :: rat) \<le> 1 / 1000" by simp
  have b: "- (16 / 10) \<le> val (th - Math_PI / lit 2)" "val (th - Math_PI / lit 2) \<le> 544 / 100" using d(2) e assms by linarith+
  obtain w where w: "(th - Math_PI / lit 2) / (Math_PI * lit 2) = mk w (val (th - Math_PI / lit 2) / ?y)"
    using tau_steps(2) [OF d(1)] by blast
  have q: "- (3 / 10) \<le> val (th - Math_PI / lit 2) / ?y" "val (th - Math_PI / lit 2) / ?y \<le> 88 / 100" using b by (simp_all add: field_simps)
  then have "\<bar>val (th - Math_PI / lit 2) / ?y\<bar> \<le> 4" by (simp add: abs_le_iff)
  from approx_mk [OF this, of w] have a: "approx (mk w (val (th - Math_PI / lit 2) / ?y)) (val (th - Math_PI / lit 2) / ?y) (1 / 100)"
    by (rule approx_weaken) simp
  show "isFinite ((th - Math_PI / lit 2) / (Math_PI * lit 2))" unfolding w using approxD(1) [OF a] .
  show "- (4 / 10) \<le> val ((th - Math_PI / lit 2) / (Math_PI * lit 2))"
    "val ((th - Math_PI / lit 2) / (Math_PI * lit 2)) \<le> 9 / 10" unfolding w using approxD(2) [OF a] q by linarith+
qed

lemma half_exact: "lit (- (5 / 10)) = Fin (- (1 / 2))" "lit (5 / 10) = Fin (1 / 2)"
  by code_simp+

text \<open>Both loops make at most one turn, and the phase ends within half a turn.\<close>

lemma phase_loops:
  assumes "isFinite ph" "- (4 / 10) \<le> val ph" "val ph \<le> 9 / 10"
  shows "\<exists>y. Option.bind (raise_phase ph) lower_phase = Some y \<and> isFinite y \<and> \<bar>val y\<bar> \<le> 1 / 2"
proof -
  have "\<not> ph < lit (- (5 / 10))" using assms(1,2) unfolding half_exact by simp
  then have r: "raise_phase ph = Some ph" by (simp add: raise_phase.simps [of ph] del: lit_neg_numeral)
  show ?thesis
  proof (cases "lit (5 / 10) < ph")
    case True
    then have lt: "1 / 2 < val ph" using assms(1) unfolding half_exact by simp
    obtain w where w: "ph - lit 1 = mk w (val ph - 1)" using assms(1) by (auto simp: finite_sub)
    have "mk w (- (1 / 2)) \<le> ph - lit 1" "ph - lit 1 \<le> Fin 0" unfolding w
      by (rule mk_mono mk_nonpos, use lt assms(3) in linarith)+
    moreover have "mk w (- (1 / 2)) = Fin (- (1 / 2))" 
    proof (rule mk_exact)
      show "round64 (- (1 / 2)) = - (1 / 2)" by code_simp
      show "\<bar>- (1 / 2 :: rat)\<bar> < 2 ^ 1024" using small_lt_overflow [of "1 / 2"] by simp
    qed simp
    moreover have "mag_le (ph - lit 1) 0" unfolding w using lt assms(3) by (intro mag_le_mk) (auto simp: abs_le_iff)
    then have fin: "isFinite (ph - lit 1)" by (simp add: mag_le_def)
    ultimately have b: "- (1 / 2) \<le> val (ph - lit 1)" "val (ph - lit 1) \<le> 0" by (simp_all del: lit_one)
    then have "\<not> lit (5 / 10) < ph - lit 1" using fin unfolding half_exact by (simp del: lit_one)
    then have "lower_phase (ph - lit 1) = Some (ph - lit 1)" by (simp only: lower_phase.simps [of "ph - lit 1"] if_False)
    then have "lower_phase ph = Some (ph - lit 1)" using True by (simp only: lower_phase.simps [of ph] if_True)
    then show ?thesis using r b fin by (auto simp del: lit_one simp: abs_le_iff)
  next
    case False
    then have "lower_phase ph = Some ph" by (simp only: lower_phase.simps [of ph] if_False)
    moreover have "val ph \<le> 1 / 2" using False assms(1) unfolding half_exact by simp
    ultimately show ?thesis using r assms by (auto simp: abs_le_iff)
  qed
qed

text \<open>What \<open>Math.pow\<close> promises for squares: the unit interval is mapped into itself.\<close>

definition square_unit :: "mathlib \<Rightarrow> bool" where
  "square_unit m \<longleftrightarrow> (\<forall>x. isFinite x \<longrightarrow> 0 \<le> val x \<longrightarrow> val x \<le> 1 \<longrightarrow>
     isFinite (Math_pow m x (lit 2)) \<and> 0 \<le> val (Math_pow m x (lit 2)) \<and> val (Math_pow m x (lit 2)) \<le> 1)"

lemma unit_mk: "0 \<le> q \<Longrightarrow> q \<le> 1 \<Longrightarrow> isFinite (mk w q) \<and> 0 \<le> val (mk w q) \<and> val (mk w q) \<le> 1"
proof -
  assume q: "0 \<le> q" "q \<le> 1"
  then have m: "mag_le (mk w q) 0" by (intro mag_le_mk) auto
  then show ?thesis using mk_nonneg [OF q(1), of w] by (auto simp: mag_le_def)
qed

lemma depth_ratio_unit:
  assumes "square_unit m" "isFinite ph" "Math_abs ph < transitThreshold"
  shows "isFinite (lit 1 - Math_pow m (Math_abs ph / transitThreshold) (lit 2))"
    and "0 \<le> val (lit 1 - Math_pow m (Math_abs ph / transitThreshold) (lit 2))"
    and "val (lit 1 - Math_pow m (Math_abs ph / transitThreshold) (lit 2)) \<le> 1"
proof -
  have t: "isFinite transitThreshold" "0 < val transitThreshold" by code_simp+
  have a: "isFinite (Math_abs ph)" "0 \<le> val (Math_abs ph)" using assms(2) by (cases ph; simp add: Math_abs_def)+
  then have lt: "val (Math_abs ph) < val transitThreshold" using assms(3) t(1) by simp
  obtain w where w: "Math_abs ph / transitThreshold = mk w (val (Math_abs ph) / val transitThreshold)"
    using a t by (auto simp: finite_divide)
  have "0 \<le> val (Math_abs ph) / val transitThreshold" "val (Math_abs ph) / val transitThreshold \<le> 1" using a t lt by simp_all
  from unit_mk [OF this, of w] assms(1)
  have p: "isFinite (Math_pow m (Math_abs ph / transitThreshold) (lit 2))"
    "0 \<le> val (Math_pow m (Math_abs ph / transitThreshold) (lit 2))" "val (Math_pow m (Math_abs ph / transitThreshold) (lit 2)) \<le> 1"
    unfolding square_unit_def w by blast+
  obtain w where w: "lit 1 - Math_pow m (Math_abs ph / transitThreshold) (lit 2) = mk w (1 - val (Math_pow m (Math_abs ph / transitThreshold) (lit 2)))"
    using p by (auto simp: finite_sub)
  show "isFinite (lit 1 - Math_pow m (Math_abs ph / transitThreshold) (lit 2))"
    "0 \<le> val (lit 1 - Math_pow m (Math_abs ph / transitThreshold) (lit 2))"
    "val (lit 1 - Math_pow m (Math_abs ph / transitThreshold) (lit 2)) \<le> 1"
    unfolding w using unit_mk [of "1 - val (Math_pow m (Math_abs ph / transitThreshold) (lit 2))" w] p by simp_all
qed

lemma sync_event_phase:
  assumes "atan2_bounded m" "isFinite (kp_xAu (planet_orbit m p time))" "isFinite (kp_zAu (planet_orbit m p time))"
  obtains ph where "isFinite ph" "\<bar>val ph\<bar> \<le> 1 / 2"
    "Option.bind (raise_phase ((transit_theta m (planet_orbit m p time) - Math_PI / lit 2) / (Math_PI * lit 2))) lower_phase = Some ph"
  using phase_loops [OF theta_phase [OF theta_bounds [OF assms]]] by blast

section \<open>Properties\<close>

text \<open>
  C9. Through every sequence of mouse, wheel and button events and rendered
  frames, with any planets, stars and element sizes, as long as the mouse coordinates are
  finite: the pitch and distance the camera aims at stay in their limits (0.02 to just below a
  right angle; 0.015 to 4.5), the damped pitch and distance stay there up to \<open>2^-20\<close>, so the
  distance the scale divides by is never 0, and no trail has more than 50 points.
\<close>

theorem viewer_within_limits:
  assumes "list_all event_ok es" "run_scene es initial_scene = Some s"
  shows "lit (2 / 100) \<le> cam_targetPitch (sc_camera s) \<and> cam_targetPitch (sc_camera s) \<le> max_pitch \<and>
    lit (15 / 1000) \<le> cam_targetDistance (sc_camera s) \<and> cam_targetDistance (sc_camera s) \<le> lit (45 / 10) \<and>
    near (lit (2 / 100)) max_pitch (cam_pitch (sc_camera s)) \<and>
    near (lit (15 / 1000)) (lit (45 / 10)) (cam_distance (sc_camera s)) \<and> 0 < val (cam_distance (sc_camera s)) \<and>
    (\<forall>t\<in>set (sc_trails s). length t \<le> 50)"
proof -
  have s: "scene_ok s" using run_ok [OF initial_ok assms] .
  then have "near (lit (15 / 1000)) (lit (45 / 10)) (cam_distance (sc_camera s))" by (simp add: scene_ok_def camera_ok_def)
  moreover have "0 < val (lit (15 / 1000)) - 1 / 2 ^ 20" by code_simp
  ultimately have "0 < val (cam_distance (sc_camera s))" unfolding near_def by linarith
  then show ?thesis using s unfolding scene_ok_def camera_ok_def by blast
qed

text \<open>A drag far upwards from the initial view, a zoom and a change of mode.\<close>

definition sample_drag :: "scene_event list" where
  "sample_drag = [Mouse_down \<lparr>me_clientX = Fin 0, me_clientY = Fin 0, me_button = 0, me_shiftKey = False\<rparr>,
     Mouse_move \<lparr>me_clientX = Fin 5, me_clientY = Fin 1000, me_button = 0, me_shiftKey = False\<rparr>, Mouse_up, Wheel (Fin 3), Focus, Zoom_out]"

lemma sample_drag_runs: "\<exists>s. run_scene sample_drag initial_scene = Some s"
  by (simp add: sample_drag_def scene_step_def)

theorem viewer_within_limits_witness:
  "\<exists>s. run_scene sample_drag initial_scene = Some s \<and> cam_targetPitch (sc_camera s) \<le> max_pitch \<and> 0 < val (cam_distance (sc_camera s))"
proof -
  obtain s where s: "run_scene sample_drag initial_scene = Some s" using sample_drag_runs by blast
  have "list_all event_ok sample_drag" by (simp add: sample_drag_def event_ok_def)
  from viewer_within_limits [OF this s] s show ?thesis by blast
qed



text \<open>
  C22. The event sent to the light curve is well-formed whenever the planet's
  position is finite: the two normalising loops return, the phase lies within half an orbit of
  the transit, the transit flag says that it is below the threshold, and the reported depth
  ratio lies between 0 and 1 and is 0 outside a transit.
\<close>

theorem sync_event_sound:
  assumes "atan2_bounded m" "square_unit m"
    and "isFinite (kp_xAu (planet_orbit m p time))" "isFinite (kp_zAu (planet_orbit m p time))"
  shows "\<exists>ev r. sync_event m time p = Some ev \<and> isFinite (ev_phase ev) \<and> \<bar>val (ev_phase ev)\<bar> \<le> 1 / 2 \<and>
    ev_isTransit ev = (Math_abs (ev_phase ev) < transitThreshold) \<and> ev_transitDepthRatio ev = Some r \<and>
    0 \<le> val r \<and> val r \<le> 1 \<and> (\<not> ev_isTransit ev \<longrightarrow> r = Fin 0)"
proof -
  obtain ph where ph: "isFinite ph" "\<bar>val ph\<bar> \<le> 1 / 2"
    "Option.bind (raise_phase ((transit_theta m (planet_orbit m p time) - Math_PI / lit 2) / (Math_PI * lit 2))) lower_phase = Some ph"
    using sync_event_phase [OF assms(1,3,4)] .
  note d = depth_ratio_unit(2,3) [OF assms(2) ph(1)]
  show ?thesis unfolding sync_event_def Let_def ph(3) option.map
    using ph(1,2) d by (cases "Math_abs ph < transitThreshold") simp_all
qed

definition demo_planet :: PlanetParams where
  "demo_planet = \<lparr>pl_name = u ''b'', pl_radiusEarth = Fin 1, pl_periodDays = Fin 1, pl_semiMajorAxisAu = Fin 1, pl_tempK = None,
     pl_habitabilityTier = None, pl_habitabilityScore = None, pl_eccentricity = Some (Fin 0), pl_periapsisDeg = Some (Fin 0),
     pl_initialPhase = Some (Fin 0), pl_inclinationDeg = None, pl_axialTiltDeg = None, pl_rotationPeriodHours = None,
     pl_massEarth = None, pl_insolationEarth = None, pl_orbitalVelocityKms = None, pl_isCandidate = None\<rparr>"

text \<open>A planet near the angle \<open>pi / 2\<close>, on a library with constant functions.\<close>

definition quarter_math :: mathlib where
  "quarter_math = \<lparr>Math_sqrt = (\<lambda>x. x), Math_cbrt = (\<lambda>x. x), Math_sin = (\<lambda>x. lit 0),
     Math_cos = (\<lambda>x. lit 1), Math_atan2 = (\<lambda>y x. lit (3 / 2)), Math_pow = (\<lambda>x y. lit 1)\<rparr>"

lemma quarter_laws: "atan2_bounded quarter_math" "square_unit quarter_math"
proof -
  have "mag_le (lit (3 / 2)) 2" by code_simp
  then show "atan2_bounded quarter_math" "square_unit quarter_math"
    by (simp_all add: atan2_bounded_def square_unit_def quarter_math_def)
qed

theorem sync_event_sound_witness:
  "\<exists>ev. sync_event quarter_math (Fin 0) demo_planet = Some ev \<and> \<bar>val (ev_phase ev)\<bar> \<le> 1 / 2"
proof -
  have "isFinite (Fin 1 * (Fin 1 - kepler_e (Fin 0) * Fin 1) * Fin 1)" "isFinite (Fin 1 * (Fin 1 - kepler_e (Fin 0) * Fin 1) * Fin 0)"
    by code_simp+
  then have "isFinite (kp_xAu (planet_orbit quarter_math demo_planet (Fin 0)))" "isFinite (kp_zAu (planet_orbit quarter_math demo_planet (Fin 0)))"
    by (simp_all add: planet_orbit_def solveKeplerOrbit_def Let_def quarter_math_def demo_planet_def planet_ecc_def)
  from sync_event_sound [OF quarter_laws this] show ?thesis by blast
qed

text \<open>
  The transit ray and the synchronisation event disagree: with the planet at
  the angle \<open>3 pi / 2\<close>, half an orbit from the transit at \<open>pi / 2\<close>, the frame draws the ray with the
  caption of a transit eclipse, while the event for the light curve reports no transit and a
  depth of 0.
\<close>

theorem ray_behind_star:
  assumes "transit_theta m (planet_orbit m p time) = (lit 3 * Math_PI) / lit 2"
  shows "transit_ray m project cx cy starR time p \<noteq> [] \<and>
    (\<exists>ev. sync_event m time p = Some ev \<and> \<not> ev_isTransit ev \<and> ev_transitDepthRatio ev = Some (Fin 0))"
proof
  have "(lit 3 * Math_PI) / lit 2 = Fin (2652839157010665 / 562949953421312)" by code_simp
  then have z: "(lit 3 * Math_PI) / lit 2 - (lit 3 * Math_PI) / lit 2 = Fin 0"
    by (simp only: minus_jsnum_def uminus_jsnum_def) (simp add: plus_jsnum_def zero_of_def)
  have "Math_abs (Fin 0) < transitThreshold" by code_simp
  then have "is_transit_angle ((lit 3 * Math_PI) / lit 2)" unfolding is_transit_angle_def z by simp
  then show "transit_ray m project cx cy starR time p \<noteq> []"
    unfolding transit_ray_def Let_def assms by (simp add: drawTransitEclipse_def)
  have ph: "((lit 3 * Math_PI) / lit 2 - Math_PI / lit 2) / (Math_PI * lit 2) = Fin (1 / 2)" by code_simp
  have "raise_phase (Fin (1 / 2)) = Some (Fin (1 / 2))" "lower_phase (Fin (1 / 2)) = Some (Fin (1 / 2))"
    by (simp only: raise_phase.simps [of "Fin (1 / 2)"] lower_phase.simps [of "Fin (1 / 2)"] half_exact; simp)+
  moreover have "\<not> Math_abs (Fin (1 / 2)) < transitThreshold" by code_simp
  ultimately show "\<exists>ev. sync_event m time p = Some ev \<and> \<not> ev_isTransit ev \<and> ev_transitDepthRatio ev = Some (Fin 0)"
    unfolding sync_event_def Let_def assms ph by simp
qed

text \<open>The same library turned to the far side.\<close>

definition far_math :: mathlib where
  "far_math = quarter_math\<lparr>Math_atan2 := (\<lambda>y x. - (Math_PI / lit 2))\<rparr>"

theorem ray_behind_star_witness:
  "transit_ray far_math flat_projector (Fin 0) (Fin 0) (Fin 10) (Fin 0) demo_planet \<noteq> [] \<and>
   (\<exists>ev. sync_event far_math (Fin 0) demo_planet = Some ev \<and> \<not> ev_isTransit ev \<and> ev_transitDepthRatio ev = Some (Fin 0))"
proof -
  have at: "Math_atan2 far_math y x = - (Math_PI / lit 2)" for y x by (simp add: far_math_def)
  let ?c = "2652839157010665 / 562949953421312 :: rat" and ?y = "884279719003555 / 140737488355328 :: rat"
  have c: "(lit 3 * Math_PI) / lit 2 = Fin ?c" "- (Math_PI / lit 2) + Math_PI * lit 2 = Fin ?c" "mk False ?c = Fin ?c" by code_simp+
  have "\<lfloor>?c / ?y\<rfloor> = 0" by (simp add: floor_eq_iff)
  then have "(- (Math_PI / lit 2) + Math_PI * lit 2) mod (Math_PI * lit 2) = (lit 3 * Math_PI) / lit 2"
    unfolding c using tau_steps(1) [of "Fin ?c"] c(3) by simp
  then have "transit_theta far_math (planet_orbit far_math demo_planet (Fin 0)) = (lit 3 * Math_PI) / lit 2"
    by (simp only: transit_theta_def at)
  then show ?thesis by (rule ray_behind_star)
qed

text \<open>
  A right drag that starts in the top-down or the transit view rotates the
  camera instead of panning it: the press leaves that view, the mouse effect is re-run for the
  new mode and starts with no right drag, so the next movement turns the view and leaves the
  pan alone. (From the free view the same gesture pans.)
\<close>

theorem right_drag_lost:
  assumes "sc_cameraMode s = CM_polar \<or> sc_cameraMode s = CM_transit" "me_button down = 2" "\<not> me_shiftKey mv"
  shows "let s' = handleMouseMove mv (handleMouseDown down s) in
    cam_panX (sc_camera s') = cam_panX (sc_camera s) \<and> cam_panY (sc_camera s') = cam_panY (sc_camera s) \<and>
    cam_targetYaw (sc_camera s') = cam_targetYaw (sc_camera s) + (me_clientX mv - me_clientX down) * lit (7 / 1000)"
  using assms by (auto simp: Let_def handleMouseMove_def handleMouseDown_def setCameraMode_def rerun_render_def on_camera_def)

theorem right_drag_lost_witness:
  "cam_panX (sc_camera (handleMouseMove \<lparr>me_clientX = Fin 9, me_clientY = Fin 0, me_button = 2, me_shiftKey = False\<rparr>
     (handleMouseDown \<lparr>me_clientX = Fin 0, me_clientY = Fin 0, me_button = 2, me_shiftKey = False\<rparr> (setTopDownView initial_scene)))) = Fin 0"
proof -
  have "sc_cameraMode (setTopDownView initial_scene) = CM_polar" "cam_panX (sc_camera (setTopDownView initial_scene)) = Fin 0"
    by (simp_all add: setTopDownView_def setCameraMode_def rerun_render_def on_camera_def initial_scene_def)
  then show ?thesis
    using right_drag_lost [of "setTopDownView initial_scene" "\<lparr>me_clientX = Fin 0, me_clientY = Fin 0, me_button = 2, me_shiftKey = False\<rparr>"
        "\<lparr>me_clientX = Fin 9, me_clientY = Fin 0, me_button = 2, me_shiftKey = False\<rparr>"]
    by (simp add: Let_def)
qed

end
