(* ===== verification/LightCurve.thy ===== *)
theory LightCurve
  imports OrbitPhysics NumSort NumStep
begin

text \<open>
  The synchronized light curve of the target page: the bridge that carries simulation events
  to it (\<open>pages/target-detail/transit-sync.ts\<close>) and the computations of
  \<open>components/SynchronizedLightCurve.tsx\<close>: sample selection, min-max downsampling, the median,
  the projected transit windows, the playhead and the sample under it. An array position
  stands for the identity of the object stored there. The \<open>while\<close> loops over transit epochs
  are partial functions whose value \<open>None\<close> is a loop that does not end.
\<close>

section \<open>The transit bridge\<close>

text \<open>
  Listeners are identified by a number; \<open>heard\<close> is the event each listener was last called
  with. A \<open>Set\<close> iterates in insertion order and holds a listener once.
\<close>

record sync_bridge =
  br_listeners :: "nat list"
  br_latestEvent :: "TransitSyncEvent option"
  br_heard :: "(nat \<times> TransitSyncEvent) list"

definition new_bridge :: sync_bridge where
  "new_bridge = \<lparr>br_listeners = [], br_latestEvent = None, br_heard = []\<rparr>"

definition call_listener :: "TransitSyncEvent \<Rightarrow> nat \<Rightarrow> sync_bridge \<Rightarrow> sync_bridge" where
  "call_listener e l b = b\<lparr>br_heard := AList.update l e (br_heard b)\<rparr>"

definition emit :: "TransitSyncEvent \<Rightarrow> sync_bridge \<Rightarrow> sync_bridge" where
  "emit event b = (let b1 = b\<lparr>br_latestEvent := Some event\<rparr>
     in fold (call_listener event) (br_listeners b1) b1)"

definition subscribe :: "nat \<Rightarrow> sync_bridge \<Rightarrow> sync_bridge" where
  "subscribe l b = (let b1 = b\<lparr>br_listeners := List.insert l (br_listeners b)\<rparr>
     in case br_latestEvent b1 of None \<Rightarrow> b1 | Some e \<Rightarrow> call_listener e l b1)"

definition unsubscribe :: "nat \<Rightarrow> sync_bridge \<Rightarrow> sync_bridge" where
  "unsubscribe l b = b\<lparr>br_listeners := removeAll l (br_listeners b)\<rparr>"

definition getLatest :: "sync_bridge \<Rightarrow> TransitSyncEvent option" where
  "getLatest b = br_latestEvent b"

datatype bridge_event = Emit TransitSyncEvent | Subscribe nat | Unsubscribe nat

definition bridge_step :: "sync_bridge \<Rightarrow> bridge_event \<Rightarrow> sync_bridge" where
  "bridge_step b e = (case e of Emit ev \<Rightarrow> emit ev b | Subscribe l \<Rightarrow> subscribe l b | Unsubscribe l \<Rightarrow> unsubscribe l b)"

section \<open>Samples\<close>

record RawLightCurvePoint =
  lc_index :: nat
  lc_time :: jsnum
  lc_flux :: jsnum

record ChartDataPoint = RawLightCurvePoint +
  lc_pixelFlux :: "jsnum option"
  lc_pixelElectrons :: "jsnum option"

record TransitEpochMarker =
  te_id :: nat
  te_center :: jsnum
  te_start :: jsnum
  te_end :: jsnum
  te_depth :: jsnum

definition timeSeriesData :: "jsnum list \<Rightarrow> jsnum list \<Rightarrow> RawLightCurvePoint list" where
  "timeSeriesData time flux =
     filter (\<lambda>p. isFinite (lc_time p) \<and> isFinite (lc_flux p))
       (map (\<lambda>i. \<lparr>lc_index = i, lc_time = time ! i, lc_flux = flux ! i\<rparr>) [0..<min (length time) (length flux)])"

section \<open>Downsampling\<close>

text \<open>The bounds of bucket \<open>b\<close>: products of the float quotient \<open>n / bucketCount\<close>.\<close>

definition bucketSize :: "nat \<Rightarrow> nat \<Rightarrow> jsnum" where
  "bucketSize n bucketCount = jsnum_of_nat n / jsnum_of_nat bucketCount"

definition bucket_start :: "nat \<Rightarrow> nat \<Rightarrow> nat \<Rightarrow> nat" where
  "bucket_start n bucketCount b = nat_of_jsnum (Math_floor (jsnum_of_nat b * bucketSize n bucketCount))"

definition bucket_end :: "nat \<Rightarrow> nat \<Rightarrow> nat \<Rightarrow> nat" where
  "bucket_end n bucketCount b =
     nat_of_jsnum (Math_min (jsnum_of_nat n) (Math_floor (jsnum_of_nat (b + 1) * bucketSize n bucketCount)))"

text \<open>The positions of the extrema of \<open>data[start..end-1]\<close> as the inner loop finds them.\<close>

definition extrema_step :: "RawLightCurvePoint list \<Rightarrow> nat \<Rightarrow> nat \<times> nat \<Rightarrow> nat \<times> nat" where
  "extrema_step data i mm = (case mm of (mn, mx) \<Rightarrow>
     (if lc_flux (data ! i) < lc_flux (data ! mn) then i else mn,
      if lc_flux (data ! mx) < lc_flux (data ! i) then i else mx))"

definition bucket_extrema :: "RawLightCurvePoint list \<Rightarrow> nat \<Rightarrow> nat \<Rightarrow> nat \<times> nat" where
  "bucket_extrema data start stop = fold (extrema_step data) [Suc start..<stop] (start, start)"

definition bucket_points :: "RawLightCurvePoint list \<Rightarrow> nat \<Rightarrow> nat \<Rightarrow> RawLightCurvePoint list" where
  "bucket_points data start stop =
     (if stop \<le> start then []
      else case bucket_extrema data start stop of (mn, mx) \<Rightarrow>
        if lc_time (data ! mn) < lc_time (data ! mx)
        then data ! mn # (if mn \<noteq> mx then [data ! mx] else [])
        else data ! mx # (if mn \<noteq> mx then [data ! mn] else []))"

definition downsampleMinMax :: "RawLightCurvePoint list \<Rightarrow> nat \<Rightarrow> RawLightCurvePoint list" where
  "downsampleMinMax data targetPoints =
     (let n = length data in
      if n \<le> targetPoints then data
      else let bucketCount = targetPoints div 2 in
        concat (map (\<lambda>b. bucket_points data (bucket_start n bucketCount b) (bucket_end n bucketCount b))
          [0..<bucketCount]))"

definition chartData :: "RawLightCurvePoint list \<Rightarrow> RawLightCurvePoint list" where
  "chartData data = downsampleMinMax data 1200"

section \<open>Range and median\<close>

definition minTime :: "RawLightCurvePoint list \<Rightarrow> jsnum" where
  "minTime data = nullish (map_option lc_time (arr_at data 0)) (lit 0)"

definition maxTime :: "RawLightCurvePoint list \<Rightarrow> jsnum" where
  "maxTime data = (if data = [] then lit 1 else lc_time (last data))"

definition timeSpan :: "RawLightCurvePoint list \<Rightarrow> jsnum" where
  "timeSpan data = Math_max (lit (1 / 10000)) (maxTime data - minTime data)"

definition measuredMedianFlux :: "RawLightCurvePoint list \<Rightarrow> jsnum option" where
  "measuredMedianFlux data =
     (let values = sort_diff (filter isFinite (map lc_flux data))
      in if values = [] then None else Some (median_of values))"

section \<open>Transit windows\<close>

partial_function (option) rewind_epoch :: "jsnum \<Rightarrow> jsnum \<Rightarrow> jsnum \<Rightarrow> jsnum option" where
  "rewind_epoch period minT t =
     (if minT \<le> t - period then rewind_epoch period minT (t - period) else Some t)"

partial_function (option) advance_epoch :: "jsnum \<Rightarrow> jsnum \<Rightarrow> jsnum \<Rightarrow> jsnum option" where
  "advance_epoch period minT t =
     (if t < minT then advance_epoch period minT (t + period) else Some t)"

definition epoch_marker :: "jsnum \<Rightarrow> jsnum \<Rightarrow> jsnum \<Rightarrow> jsnum \<Rightarrow> nat \<Rightarrow> jsnum \<Rightarrow> TransitEpochMarker" where
  "epoch_marker minT maxT durationDays depth i t =
     \<lparr>te_id = i, te_center = t, te_start = Math_max minT (t - durationDays * lit (1 / 2)),
      te_end = Math_min maxT (t + durationDays * lit (1 / 2)), te_depth = depth\<rparr>"

partial_function (option) collect_epochs ::
    "jsnum \<Rightarrow> jsnum \<Rightarrow> (nat \<Rightarrow> jsnum \<Rightarrow> TransitEpochMarker) \<Rightarrow> nat \<Rightarrow> jsnum \<Rightarrow> TransitEpochMarker list option" where
  "collect_epochs period maxT marker i t =
     (if t \<le> maxT then Option.bind (collect_epochs period maxT marker (Suc i) (t + period))
        (\<lambda>rest. Some (marker i t # rest))
      else Some [])"

text \<open>An optional number that is absent, zero or NaN is falsy.\<close>

definition opt_truthy :: "jsnum option \<Rightarrow> bool" where
  "opt_truthy x = (case x of None \<Rightarrow> False | Some v \<Rightarrow> truthy v)"

definition transitEpochs ::
    "jsnum option \<Rightarrow> jsnum option \<Rightarrow> jsnum option \<Rightarrow> jsnum option \<Rightarrow> RawLightCurvePoint list
      \<Rightarrow> TransitEpochMarker list option" where
  "transitEpochs blsPeriod blsDepth blsDurationDays blsTransitTime data =
     (if \<not> opt_truthy blsPeriod \<or> the blsPeriod \<le> lit 0 \<or> \<not> opt_truthy blsTransitTime \<or>
         \<not> opt_truthy blsDurationDays \<or> the blsDurationDays \<le> lit 0 \<or> data = []
      then Some []
      else let p = the blsPeriod; minT = minTime data; maxT = maxTime data in
        Option.bind (rewind_epoch p minT (the blsTransitTime)) (\<lambda>t1.
        Option.bind (advance_epoch p minT t1) (\<lambda>t2.
        collect_epochs p maxT (epoch_marker minT maxT (the blsDurationDays) (nullish blsDepth (lit 0))) 1 t2)))"

section \<open>The playhead\<close>

text \<open>\<open>eventTime\<close> is \<open>activeTransitEvent?.time\<close>.\<close>

definition first_center :: "TransitEpochMarker list \<Rightarrow> jsnum \<Rightarrow> jsnum" where
  "first_center epochs minT = nullish (map_option te_center (arr_at epochs 0)) minT"

definition simTime ::
    "jsnum option \<Rightarrow> jsnum option \<Rightarrow> TransitEpochMarker list \<Rightarrow> RawLightCurvePoint list \<Rightarrow> jsnum" where
  "simTime eventTime blsPeriod epochs data =
     (if data = [] then lit 0
      else case eventTime of None \<Rightarrow> first_center epochs (minTime data)
      | Some t \<Rightarrow>
        let minT = minTime data; span = timeSpan data; elapsedDays = t / lit 86400;
            startCenter = (if opt_truthy blsPeriod \<and> lit 0 < the blsPeriod then first_center epochs minT else minT);
            offset = startCenter - minT
        in minT + (((offset + elapsedDays) mod span) + span) mod span)"

text \<open>The state of the click handler and of the effect that drops a click when time moves on.\<close>

record click_state =
  clickedTime :: "jsnum option"
  lastSimTime :: jsnum

definition click_effect :: "jsnum option \<Rightarrow> click_state \<Rightarrow> click_state" where
  "click_effect eventTime s = (case eventTime of None \<Rightarrow> s
     | Some t \<Rightarrow> if \<not> num_eq t (lastSimTime s)
                 then s\<lparr>lastSimTime := t, clickedTime := None\<rparr> else s)"

definition handleChartClick ::
    "jsnum \<Rightarrow> jsnum \<Rightarrow> jsnum \<Rightarrow> RawLightCurvePoint list \<Rightarrow> click_state \<Rightarrow> click_state" where
  "handleChartClick clientX rect_left rect_width data s =
     (let clickX = clientX - rect_left; plotLeft = lit 45; plotRight = rect_width - lit 15;
          plotWidth = plotRight - plotLeft
      in if lit 0 < plotWidth \<and> plotLeft \<le> clickX \<and> clickX \<le> plotRight
         then s\<lparr>clickedTime := Some (minTime data + (clickX - plotLeft) / plotWidth * timeSpan data)\<rparr>
         else s)"

definition currentTime :: "click_state \<Rightarrow> jsnum \<Rightarrow> jsnum" where
  "currentTime s sim = nullish (clickedTime s) sim"

definition scannerFraction :: "jsnum \<Rightarrow> RawLightCurvePoint list \<Rightarrow> jsnum" where
  "scannerFraction now data =
     (if timeSpan data \<le> lit 0 then lit 0
      else Math_max (lit 0) (Math_min (lit 1) ((now - minTime data) / timeSpan data)))"

section \<open>The sample under the playhead\<close>

definition sample_dist :: "RawLightCurvePoint list \<Rightarrow> jsnum \<Rightarrow> nat \<Rightarrow> jsnum" where
  "sample_dist data now i = Math_abs (lc_time (data ! i) - now)"

definition nearest_step :: "RawLightCurvePoint list \<Rightarrow> jsnum \<Rightarrow> nat \<Rightarrow> nat \<times> jsnum \<Rightarrow> nat \<times> jsnum" where
  "nearest_step data now i gb = (case gb of (guess, bestDist) \<Rightarrow>
     if sample_dist data now i < bestDist then (i, sample_dist data now i) else (guess, bestDist))"

text \<open>
  The loop header reads \<open>guess\<close> again on every turn (\<open>i <= Math.min(n - 1, guess + 8)\<close>), so the
  window moves with the guess; it starts at \<open>max(0, guess - 8)\<close> of the first guess.
\<close>

function nearest_loop :: "RawLightCurvePoint list \<Rightarrow> jsnum \<Rightarrow> nat \<Rightarrow> nat \<times> jsnum \<Rightarrow> nat" where
  "nearest_loop data now i gb =
     (if i \<le> min (length data - 1) (fst gb + 8)
      then nearest_loop data now (Suc i) (nearest_step data now i gb)
      else fst gb)"
  by pat_completeness auto
termination by (relation "measure (\<lambda>(data, now, i, gb). length data + 1 - i)") auto

declare nearest_loop.simps [simp del]

text \<open>The first guess is a number; when it is no index the read of the sample throws (\<open>None\<close>).\<close>

definition first_guess :: "RawLightCurvePoint list \<Rightarrow> jsnum \<Rightarrow> jsnum" where
  "first_guess data now =
     Math_floor (Math_max (lit 0) (Math_min (lit 1) ((now - minTime data) / timeSpan data))
        * jsnum_of_nat (length data - 1))"

definition sample_index :: "RawLightCurvePoint list \<Rightarrow> jsnum \<Rightarrow> nat option" where
  "sample_index data now =
     (if data = [] then Some 0
      else case arr_idx data (first_guess data now) of None \<Rightarrow> None
        | Some pt \<Rightarrow> let guess = nat_of_jsnum (first_guess data now) in
            Some (nearest_loop data now (guess - 8) (guess, sample_dist data now guess)))"

record transit_view =
  tv_isInTransit :: bool
  tv_currentTransitDepthRatio :: jsnum
  tv_activeFlux :: jsnum
  tv_cadenceIdx :: nat

definition transit_view_at ::
    "TransitEpochMarker list \<Rightarrow> RawLightCurvePoint list \<Rightarrow> TransitSyncEvent option \<Rightarrow> jsnum option \<Rightarrow> jsnum
      \<Rightarrow> transit_view option" where
  "transit_view_at epochs data ev clicked now =
     (let epoch = List.find (\<lambda>ep. te_start ep \<le> now \<and> now \<le> te_end ep) epochs;
          (inTransit, ratio) = (case epoch of
             Some ep \<Rightarrow>
               (let halfDur = (te_end ep - te_start ep) / lit 2 in
                (True, if lit 0 < halfDur
                       then Math_max (lit (15 / 100)) (lit 1 - Math_abs (now - te_center ep) / halfDur) else lit 1))
           | None \<Rightarrow> (case ev of
                 Some e \<Rightarrow> if ev_isTransit e \<and> clicked = None
                           then (True, nullish (ev_transitDepthRatio e) (lit (8 / 10))) else (False, lit 0)
               | None \<Rightarrow> (False, lit 0)))
      in map_option (\<lambda>idx. \<lparr>tv_isInTransit = inTransit, tv_currentTransitDepthRatio = ratio,
          tv_activeFlux = nullish (map_option lc_flux (arr_at data idx)) (lit 0), tv_cadenceIdx = idx\<rparr>)
        (sample_index data now))"

section \<open>The bridge delivers the latest event\<close>

definition bridge_inv :: "sync_bridge \<Rightarrow> bool" where
  "bridge_inv b \<longleftrightarrow> distinct (br_listeners b) \<and>
     (case br_latestEvent b of None \<Rightarrow> br_heard b = []
      | Some e \<Rightarrow> \<forall>l\<in>set (br_listeners b). map_of (br_heard b) l = Some e)"

lemma call_listeners:
  "br_listeners (fold (call_listener e) ls b) = br_listeners b"
  "br_latestEvent (fold (call_listener e) ls b) = br_latestEvent b"
  "map_of (br_heard (fold (call_listener e) ls b)) l =
     (if l \<in> set ls then Some e else map_of (br_heard b) l)"
  by (induction ls arbitrary: b) (auto simp: call_listener_def update_conv')

lemma emit_inv: "bridge_inv b \<Longrightarrow> bridge_inv (emit e b)"
  by (auto simp: bridge_inv_def emit_def Let_def call_listeners)

lemma subscribe_inv: "bridge_inv b \<Longrightarrow> bridge_inv (subscribe l b)"
  by (auto simp: bridge_inv_def subscribe_def Let_def call_listener_def update_conv' distinct_insert
      split: option.splits)

lemma unsubscribe_inv: "bridge_inv b \<Longrightarrow> bridge_inv (unsubscribe l b)"
  by (auto simp: bridge_inv_def unsubscribe_def distinct_removeAll split: option.splits)

interpretation bridge: reducer bridge_step bridge_inv
  by unfold_locales (auto simp: bridge_step_def emit_inv subscribe_inv unsubscribe_inv split: bridge_event.split)

lemma new_bridge_inv: "bridge_inv new_bridge"
  by (simp add: bridge_inv_def new_bridge_def)

section \<open>Buckets\<close>

lemma extrema_fold:
  fixes data :: "RawLightCurvePoint list"
  assumes "s < e" "\<forall>i<e. lc_flux (data ! i) \<noteq> NaN"
  defines "r \<equiv> fold (extrema_step data) [Suc s..<e] (s, s)"
  shows "s \<le> fst r \<and> fst r < e \<and> s \<le> snd r \<and> snd r < e \<and>
    (\<forall>i. s \<le> i \<and> i < e \<longrightarrow> lc_flux (data ! fst r) \<le> lc_flux (data ! i) \<and> lc_flux (data ! i) \<le> lc_flux (data ! snd r))"
  using assms(1,2) unfolding r_def
proof (induction e)
  case (Suc e)
  show ?case
  proof (cases "s = e")
    case True
    then show ?thesis using Suc.prems by (auto simp: less_Suc_eq intro: num_le_refl)
  next
    case False
    define q where "q = fold (extrema_step data) [Suc s..<e] (s, s)"
    have se: "s < e" using False Suc.prems by simp
    have IH: "s \<le> fst q" "fst q < e" "s \<le> snd q" "snd q < e"
      "\<And>i. s \<le> i \<Longrightarrow> i < e \<Longrightarrow> lc_flux (data ! fst q) \<le> lc_flux (data ! i) \<and> lc_flux (data ! i) \<le> lc_flux (data ! snd q)"
      using Suc.IH [OF se] Suc.prems by (auto simp: q_def)
    have nn: "lc_flux (data ! e) \<noteq> NaN" "lc_flux (data ! fst q) \<noteq> NaN" "lc_flux (data ! snd q) \<noteq> NaN"
      using Suc.prems IH by auto
    have r: "fold (extrema_step data) [Suc s..<Suc e] (s, s) = extrema_step data e q"
      using se by (simp add: q_def)
    have lt: "lc_flux (data ! e) < lc_flux (data ! fst q) \<Longrightarrow> s \<le> i \<Longrightarrow> i < e \<Longrightarrow> lc_flux (data ! e) \<le> lc_flux (data ! i)" for i
      using IH(5) num_less_le_trans num_less_imp_le by blast
    have gt: "lc_flux (data ! snd q) < lc_flux (data ! e) \<Longrightarrow> s \<le> i \<Longrightarrow> i < e \<Longrightarrow> lc_flux (data ! i) \<le> lc_flux (data ! e)" for i
      using IH(5) num_le_less_trans num_less_imp_le by blast
    show ?thesis unfolding r
      using IH se lt gt nn num_not_less [OF nn(1,2)] num_not_less [OF nn(3,1)] num_le_refl [OF nn(1)]
      by (auto simp: extrema_step_def less_Suc_eq split: prod.split)
  qed
qed simp

lemma bucket_points_props:
  assumes "s < e" "e \<le> length data" "\<forall>p\<in>set data. lc_flux p \<noteq> NaN"
  shows "\<exists>mn mx. s \<le> mn \<and> mn < e \<and> s \<le> mx \<and> mx < e \<and>
      set (bucket_points data s e) = {data ! mn, data ! mx} \<and> length (bucket_points data s e) \<le> 2 \<and>
      (\<forall>i. s \<le> i \<and> i < e \<longrightarrow> lc_flux (data ! mn) \<le> lc_flux (data ! i) \<and> lc_flux (data ! i) \<le> lc_flux (data ! mx))"
proof -
  obtain mn mx where mm: "bucket_extrema data s e = (mn, mx)" by fastforce
  have "\<forall>i<e. lc_flux (data ! i) \<noteq> NaN" using assms by auto
  note x = extrema_fold [OF assms(1) this]
  have "set (bucket_points data s e) = {data ! mn, data ! mx} \<and> length (bucket_points data s e) \<le> 2"
    using assms(1) mm by (auto simp: bucket_points_def)
  then show ?thesis using x mm by (auto simp: bucket_extrema_def)
qed

text \<open>The bucket bounds as integers: floors of rounded products of the rounded bucket size.\<close>

definition bound_val :: "nat \<Rightarrow> nat \<Rightarrow> nat \<Rightarrow> rat" where
  "bound_val n bc b = round64 (of_nat b * round64 (of_nat n / of_nat bc))"

lemma nat_below_overflow: "n \<le> 2 ^ 53 \<Longrightarrow> (of_nat n :: rat) \<le> 2 ^ 53"
  by (simp only: of_nat_le_iff [symmetric, where 'a = rat] of_nat_power of_nat_numeral)

lemma bucketSize_val:
  assumes "n \<le> 2 ^ 50" "0 < bc" "bc \<le> n"
  shows "bucketSize n bc = Fin (round64 (of_nat n / of_nat bc))"
    and "1 \<le> round64 (of_nat n / of_nat bc)" "round64 (of_nat n / of_nat bc) \<le> of_nat n"
proof -
  have n53: "n \<le> 2 ^ 53" "bc \<le> 2 ^ 53" using assms by (auto intro: order_trans)
  have q: "1 \<le> (of_nat n / of_nat bc :: rat)" "of_nat n / of_nat bc \<le> (of_nat n :: rat)"
    using assms by (simp_all add: field_simps)
  have "round64 1 \<le> round64 (of_nat n / of_nat bc)" using q(1) by (rule round64_mono)
  then show lo: "1 \<le> round64 (of_nat n / of_nat bc)" by simp
  have "round64 (of_nat n / of_nat bc) \<le> round64 (of_nat n)" using q(2) by (rule round64_mono)
  then show hi: "round64 (of_nat n / of_nat bc) \<le> of_nat n" using n53 by simp
  then have "round64 (of_nat n / of_nat bc) < 2 ^ 1024"
    using small_lt_overflow [of "round64 (of_nat n / of_nat bc)"] nat_below_overflow [OF n53(1)] by linarith
  then have "mk False (of_nat n / of_nat bc) = Fin (round64 (of_nat n / of_nat bc))"
    using lo by (auto simp: mk_def Let_def)
  then show "bucketSize n bc = Fin (round64 (of_nat n / of_nat bc))"
    using assms n53 by (simp add: bucketSize_def jsnum_of_nat_exact finite_divide)
qed

lemma bound_val_range:
  assumes "n \<le> 2 ^ 50" "0 < bc" "bc \<le> n" "b \<le> bc"
  shows "0 \<le> bound_val n bc b" "bound_val n bc b \<le> 2 ^ 101"
proof -
  note sz = bucketSize_val [OF assms(1-3)]
  have "0 \<le> of_nat b * round64 (of_nat n / of_nat bc)" using sz(2) by simp
  then show "0 \<le> bound_val n bc b" unfolding bound_val_def by (rule r64.rnd_nonneg)
  have "(of_nat b :: rat) \<le> 2 ^ 50" "(of_nat n :: rat) \<le> 2 ^ 50"
    using assms of_nat_le_iff [of b "2 ^ 50", where 'a = rat] of_nat_le_iff [of n "2 ^ 50", where 'a = rat] by auto
  then have "of_nat b * round64 (of_nat n / of_nat bc) \<le> (2 ^ 50 :: rat) * 2 ^ 50"
    using sz(2,3) by (intro mult_mono) auto
  also have "\<dots> \<le> 2 ^ 101" by simp
  finally show "bound_val n bc b \<le> 2 ^ 101" unfolding bound_val_def
    using pow2_exact [of 101] by (intro r64.rnd_le) auto
qed

lemma bound_floor:
  assumes "n \<le> 2 ^ 50" "0 < bc" "bc \<le> n" "b \<le> bc"
  shows "Math_floor (jsnum_of_nat b * bucketSize n bc) = Fin (of_int \<lfloor>bound_val n bc b\<rfloor>)"
proof -
  have b: "b \<le> 2 ^ 53" using assms by (auto intro: order_trans)
  note sz = bucketSize_val [OF assms(1-3)]
  have lt: "bound_val n bc b < 2 ^ 1024" "\<not> bound_val n bc b \<le> - (2 ^ 1024)"
  proof -
    have "(2 ^ 101 :: rat) < 2 ^ 1024" by (rule power_strict_increasing) auto
    then show "bound_val n bc b < 2 ^ 1024" using bound_val_range [OF assms] by linarith
    have "0 < (2 ^ 1024 :: rat)" by (rule zero_less_power) simp
    then show "\<not> bound_val n bc b \<le> - (2 ^ 1024)" using bound_val_range [OF assms] by linarith
  qed
  have "jsnum_of_nat b * bucketSize n bc = mk False (of_nat b * round64 (of_nat n / of_nat bc))"
    using sz(2) b by (simp add: jsnum_of_nat_exact sz(1) finite_mult)
  also have "\<dots> = Fin (bound_val n bc b)"
    unfolding mk_def bound_val_def [symmetric] Let_def using lt by (auto simp: zero_of_def)
  finally show ?thesis by (simp add: Math_floor_def)
qed

lemma bucket_start_eq:
  assumes "n \<le> 2 ^ 50" "0 < bc" "bc \<le> n" "b \<le> bc"
  shows "bucket_start n bc b = nat \<lfloor>bound_val n bc b\<rfloor>"
  by (simp add: bucket_start_def bound_floor [OF assms] nat_of_jsnum_def)

lemma bucket_end_eq:
  assumes "n \<le> 2 ^ 50" "0 < bc" "bc \<le> n" "b < bc"
  shows "bucket_end n bc b = min n (bucket_start n bc (Suc b))"
proof -
  have n: "n \<le> 2 ^ 53" using assms by (auto intro: order_trans)
  have b: "Suc b \<le> bc" using assms by simp
  have z: "0 \<le> \<lfloor>bound_val n bc (Suc b)\<rfloor>" using bound_val_range [OF assms(1-3) b] by simp
  have "Math_min (jsnum_of_nat n) (Math_floor (jsnum_of_nat (Suc b) * bucketSize n bc)) =
      Fin (min (of_nat n) (of_int \<lfloor>bound_val n bc (Suc b)\<rfloor>))"
    using n by (simp add: bound_floor [OF assms(1-3) b] jsnum_of_nat_exact Math_min_def min_def)
  moreover have "min (of_nat n :: rat) (of_int \<lfloor>bound_val n bc (Suc b)\<rfloor>) = of_int (min (int n) \<lfloor>bound_val n bc (Suc b)\<rfloor>)"
    by simp
  ultimately show ?thesis
    by (simp only: bucket_end_def bucket_start_eq [OF assms(1-3) b] nat_of_jsnum_def val_simps floor_of_int Suc_eq_plus1 [symmetric])
qed

lemma bucket_start_0: "n \<le> 2 ^ 50 \<Longrightarrow> 0 < bc \<Longrightarrow> bc \<le> n \<Longrightarrow> bucket_start n bc 0 = 0"
  using bucket_start_eq [of n bc 0] by (simp add: bound_val_def)

lemma bucket_start_mono:
  assumes "n \<le> 2 ^ 50" "0 < bc" "bc \<le> n" "b \<le> c" "c \<le> bc"
  shows "bucket_start n bc b \<le> bucket_start n bc c"
proof -
  have "bound_val n bc b \<le> bound_val n bc c" unfolding bound_val_def
    using assms bucketSize_val [OF assms(1-3)] by (intro round64_mono mult_right_mono) auto
  then show ?thesis using assms by (simp add: bucket_start_eq floor_mono nat_mono)
qed

text \<open>The buckets together reach at least the last sample but one.\<close>

lemma last_bound:
  assumes "n \<le> 2 ^ 50" "0 < bc" "bc \<le> n"
  shows "n - 1 \<le> bucket_start n bc bc"
proof -
  let ?q = "of_nat n / of_nat bc :: rat"
  have n53: "n - 1 \<le> 2 ^ 53" using assms by (auto intro: order_trans)
  have q: "1 \<le> ?q" using assms by simp
  have "(2::rat) powi (- 1022) \<le> 2 powi 0" by (rule powi2_mono) simp
  then have "2 powi (- 1022) \<le> \<bar>?q\<bar>" using q unfolding power_int_0_right by linarith
  then have "\<bar>round64 ?q - ?q\<bar> \<le> \<bar>?q\<bar> / 2 ^ 53" by (rule round64_relative_error)
  then have "?q - ?q / 2 ^ 53 \<le> round64 ?q" using q by linarith
  then have "of_nat bc * (?q - ?q / 2 ^ 53) \<le> of_nat bc * round64 ?q"
    by (rule mult_left_mono) simp
  moreover have "of_nat bc * (?q - ?q / 2 ^ 53) = of_nat n - of_nat n / 2 ^ 53"
    using assms by (simp add: right_diff_distrib)
  moreover have "(of_nat n :: rat) / 2 ^ 53 \<le> 1"
    using assms of_nat_le_iff [of n "2 ^ 50", where 'a = rat] by simp
  ultimately have "of_nat (n - 1) \<le> of_nat bc * round64 ?q"
    using assms by (simp add: of_nat_diff)
  then have "round64 (of_nat (n - 1)) \<le> bound_val n bc bc" unfolding bound_val_def by (rule round64_mono)
  then have "of_nat (n - 1) \<le> bound_val n bc bc" unfolding round64_of_nat [OF n53] .
  then have "int (n - 1) \<le> \<lfloor>bound_val n bc bc\<rfloor>" by (simp add: le_floor_iff)
  then show ?thesis using assms by (simp add: bucket_start_eq)
qed

lemma bucket_of_index:
  assumes "n \<le> 2 ^ 50" "0 < bc" "bc \<le> n" "i < n - 1"
  shows "\<exists>b<bc. bucket_start n bc b \<le> i \<and> i < bucket_end n bc b"
proof -
  have "\<exists>c\<le>bc. i < bucket_start n bc c" using last_bound [OF assms(1-3)] assms(4) by (intro exI [of _ bc]) simp
  define c where "c = (LEAST c. i < bucket_start n bc c)"
  have c: "i < bucket_start n bc c" "c \<le> bc"
    using \<open>\<exists>c\<le>bc. _\<close> unfolding c_def by (auto intro: LeastI Least_le order_trans)
  have "c \<noteq> 0" using c(1) bucket_start_0 [OF assms(1-3)] by (intro notI) simp
  then obtain b where b: "c = Suc b" by (cases c) auto
  have "\<not> i < bucket_start n bc b" using not_less_Least [of b "\<lambda>c. i < bucket_start n bc c"] b by (simp add: c_def)
  then show ?thesis using b c assms by (auto simp: bucket_end_eq intro!: exI [of _ b])
qed

lemma downsample_long:
  assumes "targetPoints < length data"
  shows "set (downsampleMinMax data targetPoints) =
    (\<Union>b<targetPoints div 2. set (bucket_points data (bucket_start (length data) (targetPoints div 2) b)
       (bucket_end (length data) (targetPoints div 2) b)))"
  using assms by (auto simp: downsampleMinMax_def Let_def)

lemma bucket_points_in:
  assumes "e \<le> length data" "\<forall>p\<in>set data. lc_flux p \<noteq> NaN" "p \<in> set (bucket_points data s e)"
  shows "\<exists>i. s \<le> i \<and> i < e \<and> p = data ! i"
proof (cases "s < e")
  case True
  show ?thesis using bucket_points_props [OF True assms(1,2)] assms(3) by blast
qed (use assms(3) in \<open>simp add: bucket_points_def\<close>)

lemma length_bucket_points: "length (bucket_points data s e) \<le> 2"
  by (auto simp: bucket_points_def split: prod.split)

lemma length_concat_le: "(\<And>x. length (f x) \<le> k) \<Longrightarrow> length (concat (map f xs)) \<le> k * length xs"
  by (induction xs) (auto intro: add_mono)

lemma downsample_length: "length (downsampleMinMax data targetPoints) \<le> max targetPoints 0"
proof (cases "length data \<le> targetPoints")
  case False
  have "length (downsampleMinMax data targetPoints) \<le> 2 * length [0..<targetPoints div 2]"
    using False unfolding downsampleMinMax_def Let_def
    by (simp only: if_False) (intro length_concat_le length_bucket_points)
  then show ?thesis by simp
qed (simp add: downsampleMinMax_def)

text \<open>The light curves of one sector are far below this length.\<close>

definition sample_count_ok :: "RawLightCurvePoint list \<Rightarrow> bool" where
  "sample_count_ok data \<longleftrightarrow> length data \<le> 2 ^ 50"

lemma bucket_end_le:
  assumes "n \<le> 2 ^ 50" "0 < bc" "bc \<le> n" "b < bc"
  shows "bucket_end n bc b \<le> n" "bucket_end n bc b \<le> bucket_start n bc bc"
  using bucket_end_eq [OF assms] bucket_start_mono [OF assms(1-3), of "Suc b" bc] assms by auto

section \<open>Transit windows\<close>

lemmas rewind_induct = rewind_epoch.raw_induct [rotated, consumes 1, case_names step]
lemmas advance_induct = advance_epoch.raw_induct [rotated, consumes 1, case_names step]
lemmas collect_induct = collect_epochs.raw_induct [rotated, consumes 1, case_names step]

lemma rewind_diverges:
  assumes "t - period = t" "minT \<le> t"
  shows "rewind_epoch period minT t = None"
proof -
  have "\<not> (t - period = t \<and> minT \<le> t)" if "rewind_epoch period minT t = Some y" for y
    using that
  proof (induction rule: rewind_induct)
    case (step rw p mT t y)
    then show ?case by (auto split: if_splits)
  qed
  then show ?thesis using assms by (cases "rewind_epoch period minT t") auto
qed

lemma advance_result: "advance_epoch period minT t = Some y \<Longrightarrow> \<not> y < minT"
proof (induction rule: advance_induct)
  case (step adv p mT t y)
  then show ?case by (auto split: if_splits)
qed

lemma collect_result:
  "collect_epochs period maxT marker i t = Some es \<Longrightarrow>
   (\<forall>k<length es. es ! k = marker (i + k) (((\<lambda>x. x + period) ^^ k) t) \<and> ((\<lambda>x. x + period) ^^ k) t \<le> maxT)"
proof (induction rule: collect_induct)
  case (step col p mT mk i t es)
  show ?case
  proof (cases "t \<le> mT")
    case True
    then obtain rest where r: "col p mT mk (Suc i) (t + p) = Some rest" "es = mk i t # rest"
      using step(2) by (auto split: bind_splits)
    have IH: "rest ! k = mk (Suc i + k) (((\<lambda>x. x + p) ^^ k) (t + p)) \<and> ((\<lambda>x. x + p) ^^ k) (t + p) \<le> mT"
      if "k < length rest" for k
      using step(1) [OF r(1)] that by blast
    show ?thesis
    proof (intro allI impI)
      fix k assume k: "k < length es"
      show "es ! k = mk (i + k) (((\<lambda>x. x + p) ^^ k) t) \<and> ((\<lambda>x. x + p) ^^ k) t \<le> mT"
      proof (cases k)
        case (Suc j)
        then show ?thesis using IH [of j] k r(2) funpow_swap1 [of "\<lambda>x. x + p" j t] by simp
      qed (use r(2) True in simp)
    qed
  qed (use step(2) in simp)
qed

lemma wf_lit_finite: "wf_num t \<Longrightarrow> isFinite t \<Longrightarrow> (\<exists>s. t = mk s (val t))"
proof (cases t)
  case (Fin q)
  assume "wf_num t"
  then have "mk False q = Fin q" using Fin
    by (auto simp: wf_num_def mk_def Let_def zero_of_def abs_less_iff)
  then show ?thesis using Fin by (intro exI [of _ False]) simp
next
  case NegZero
  then show ?thesis by (intro exI [of _ True]) (simp add: zero_of_def)
qed auto

lemma add_ge:
  assumes "wf_num t" "t \<noteq> NaN" "isFinite p" "0 \<le> val p"
  shows "t \<le> t + p"
proof (cases "isFinite t")
  case True
  obtain s where s: "t = mk s (val t)" using wf_lit_finite [OF assms(1) True] by blast
  have "mk s (val t) \<le> mk s' (val t + val p)" for s' by (rule mk_mono) (use assms in simp)
  then show ?thesis using s True assms(3) by (metis finite_add)
next
  case False
  then show ?thesis using assms by (cases t; cases p) (auto simp: plus_jsnum_def)
qed

lemma sub_le:
  assumes "wf_num t" "t \<noteq> NaN" "isFinite p" "0 \<le> val p"
  shows "t - p \<le> t"
proof (cases "isFinite t")
  case True
  obtain s where s: "t = mk s (val t)" using wf_lit_finite [OF assms(1) True] by blast
  have "mk s' (val t - val p) \<le> mk s (val t)" for s' by (rule mk_mono) (use assms in simp)
  then show ?thesis using s True assms(3) by (metis finite_sub)
next
  case False
  then show ?thesis using assms by (cases t; cases p) (auto simp: plus_jsnum_def minus_jsnum_def uminus_jsnum_def)
qed

lemma funpow_add_ge:
  assumes "wf_num t" "t \<noteq> NaN" "isFinite p" "0 \<le> val p"
  shows "t \<le> ((\<lambda>x. x + p) ^^ k) t \<and> wf_num (((\<lambda>x. x + p) ^^ k) t)"
proof (induction k)
  case 0
  then show ?case using assms by (simp add: num_le_refl)
next
  case (Suc k)
  let ?x = "((\<lambda>x. x + p) ^^ k) t"
  have "?x \<noteq> NaN" using Suc by auto
  then have "?x \<le> ?x + p" using Suc assms by (intro add_ge) auto
  then show ?case using Suc num_le_trans by auto
qed

lemma rewind_wf: "rewind_epoch period minT t = Some y \<Longrightarrow> wf_num t \<Longrightarrow> wf_num y"
proof (induction rule: rewind_induct)
  case (step rw p mT t y)
  then show ?case by (auto split: if_splits)
qed

lemma advance_wf: "advance_epoch period minT t = Some y \<Longrightarrow> wf_num t \<Longrightarrow> wf_num y"
proof (induction rule: advance_induct)
  case (step adv p mT t y)
  then show ?case by (auto split: if_splits)
qed

lemma half_finite:
  assumes "wf_num d" "isFinite d"
  shows "isFinite (d * lit (1 / 2))"
proof -
  have half: "lit (1 / 2) = Fin (1 / 2)" by code_simp
  have b: "round64 \<bar>val d\<bar> = \<bar>val d\<bar> \<and> \<bar>val d\<bar> < 2 ^ 1024"
  proof (cases d)
    case (Fin q)
    then show ?thesis using assms(1) r64.rnd_abs [of q] by (simp add: wf_num_def)
  qed (use assms in auto)
  show ?thesis unfolding half finite_mult [OF assms(2) isFinite_simps(1)]
    by (rule isFinite_mk_le [of _ "\<bar>val d\<bar>"]) (use b in simp_all)
qed

lemma marker_window:
  fixes depth :: jsnum and i :: nat
  assumes "wf_num t" "minT \<le> t" "t \<le> maxT" "isFinite d" "0 \<le> val d" "wf_num d"
  defines "m \<equiv> epoch_marker minT maxT d depth i t"
  shows "minT \<le> te_start m \<and> te_start m \<le> te_center m \<and> te_center m \<le> te_end m \<and> te_end m \<le> maxT"
proof -
  have nn: "t \<noteq> NaN" "minT \<noteq> NaN" "maxT \<noteq> NaN" using assms by auto
  have half: "lit (1 / 2) = Fin (1 / 2)" by code_simp
  define x where "x = d * lit (1 / 2)"
  have fx: "isFinite x" unfolding x_def using assms by (intro half_finite)
  have "Fin 0 \<le> x" using assms(4,5) by (simp add: x_def half finite_mult mk_nonneg)
  then have vx: "0 \<le> val x" using fx by (cases x) auto
  have lo: "t - x \<le> t" and hi: "t \<le> t + x" using sub_le add_ge assms(1) nn(1) fx vx by auto
  then have nx: "t - x \<noteq> NaN" "t + x \<noteq> NaN" by auto
  have "minT \<le> Math_max minT (t - x) \<and> Math_max minT (t - x) \<le> t"
    using Math_max_ge [of minT "t - x"] Math_max_cases [of minT "t - x"] nn nx lo assms(2) by (auto simp: num_le_refl)
  moreover have "Math_min maxT (t + x) \<le> maxT \<and> t \<le> Math_min maxT (t + x)"
    using Math_min_le [of maxT "t + x"] Math_min_cases [of maxT "t + x"] nn nx hi assms(3) by auto
  ultimately show ?thesis by (simp add: m_def epoch_marker_def x_def)
qed

subsection \<open>The loops end for physical ephemerides\<close>

lemma rewind_ends:
  assumes "step_ok p" "isFinite minT" "- (2 ^ 32) \<le> val minT"
    and "isFinite t" "- (2 ^ 32) \<le> val t" "val t \<le> 2 ^ 32"
  shows "\<exists>y. rewind_epoch p minT t = Some y \<and> isFinite y \<and> - (2 ^ 32) \<le> val y \<and> val y \<le> 2 ^ 32"
  using assms(4-6)
proof (induction "nat \<lceil>(val t - val minT) * 2 ^ 11\<rceil>" arbitrary: t rule: less_induct)
  case less
  note st = step_sub [OF assms(1) less.prems]
  have fin: "isFinite (t - p)" using st(1) by (simp add: mag_le_def)
  show ?case
  proof (cases "minT \<le> t - p")
    case True
    then have le: "val minT \<le> val (t - p)" using fin assms(2) by simp
    have "nat \<lceil>(val (t - p) - val minT) * 2 ^ 11\<rceil> < nat \<lceil>(val t - val minT) * 2 ^ 11\<rceil>"
      by (rule measure_drop) (use st(2) le pos11 in linarith)+
    moreover have "- (2 ^ 32) \<le> val (t - p)" "val (t - p) \<le> 2 ^ 32" using le assms(3) st(2) less.prems(3) pos11 by linarith+
    ultimately have "\<exists>y. rewind_epoch p minT (t - p) = Some y \<and> isFinite y \<and> - (2 ^ 32) \<le> val y \<and> val y \<le> 2 ^ 32"
      using less.hyps fin by blast
    then show ?thesis using True by (simp add: rewind_epoch.simps [of p minT t])
  next
    case False
    then show ?thesis using less.prems by (simp add: rewind_epoch.simps [of p minT t])
  qed
qed

lemma advance_ends:
  assumes "step_ok p" "isFinite minT" "val minT \<le> 2 ^ 32"
    and "isFinite t" "- (2 ^ 32) \<le> val t" "val t \<le> 2 ^ 33"
  shows "\<exists>y. advance_epoch p minT t = Some y \<and> isFinite y \<and> - (2 ^ 32) \<le> val y \<and> val y \<le> 2 ^ 33"
  using assms(4-6)
proof (induction "nat \<lceil>(val minT - val t) * 2 ^ 11\<rceil>" arbitrary: t rule: less_induct)
  case less
  show ?case
  proof (cases "t < minT")
    case True
    then have lt: "val t < val minT" using less.prems assms(2) by simp
    then have "val t \<le> 2 ^ 32" using assms(3) by linarith
    note st = step_add [OF assms(1) less.prems(1,2) this]
    have "nat \<lceil>(val minT - val (t + p)) * 2 ^ 11\<rceil> < nat \<lceil>(val minT - val t) * 2 ^ 11\<rceil>"
      by (rule measure_drop) (use st(2) lt pos11 in linarith)+
    moreover have "isFinite (t + p)" "\<bar>val (t + p)\<bar> \<le> 2 ^ 33" using st(1) by (auto simp: mag_le_def)
    moreover from this have "- (2 ^ 32) \<le> val (t + p)" "val (t + p) \<le> 2 ^ 33"
      using st(2) less.prems pos11 by linarith+
    ultimately have "\<exists>y. advance_epoch p minT (t + p) = Some y \<and> isFinite y \<and> - (2 ^ 32) \<le> val y \<and> val y \<le> 2 ^ 33"
      using less.hyps by blast
    then show ?thesis using True by (simp add: advance_epoch.simps [of p minT t])
  next
    case False
    then show ?thesis using less.prems by (simp add: advance_epoch.simps [of p minT t])
  qed
qed

lemma collect_ends:
  assumes "step_ok p" "isFinite maxT" "val maxT \<le> 2 ^ 32" "isFinite t" "- (2 ^ 32) \<le> val t"
  shows "\<exists>es. collect_epochs p maxT marker i t = Some es"
  using assms(4,5)
proof (induction "nat \<lceil>(val maxT - val t + 1) * 2 ^ 11\<rceil>" arbitrary: t i rule: less_induct)
  case less
  show ?case
  proof (cases "t \<le> maxT")
    case True
    then have le: "val t \<le> val maxT" using less.prems assms(2) by simp
    then have "val t \<le> 2 ^ 32" using assms(3) by linarith
    note st = step_add [OF assms(1) less.prems(1,2) this]
    have "nat \<lceil>(val maxT - val (t + p) + 1) * 2 ^ 11\<rceil> < nat \<lceil>(val maxT - val t + 1) * 2 ^ 11\<rceil>"
      by (rule measure_drop) (use st(2) le pos11 in linarith)+
    moreover have "isFinite (t + p)" using st(1) by (simp add: mag_le_def)
    moreover have "- (2 ^ 32) \<le> val (t + p)" using st(2) less.prems pos11 by linarith
    ultimately obtain es where "collect_epochs p maxT marker (Suc i) (t + p) = Some es"
      using less.hyps by blast
    then show ?thesis using True by (simp add: collect_epochs.simps [of p maxT marker i t])
  next
    case False
    then show ?thesis by (simp add: collect_epochs.simps [of p maxT marker i t])
  qed
qed

section \<open>The playhead and the sample under it\<close>

lemma num_less_trans: "x < y \<Longrightarrow> y < z \<Longrightarrow> x < (z::jsnum)"
  by (cases x; cases y; cases z) auto

lemma timeSpan_pos: "isFinite (timeSpan data) \<Longrightarrow> 0 < val (timeSpan data)"
proof -
  have l: "Fin 0 < lit (1 / 10000)" by code_simp
  assume f: "isFinite (timeSpan data)"
  then have "maxTime data - minTime data \<noteq> NaN" by (auto simp: timeSpan_def)
  then have "lit (1 / 10000) \<le> timeSpan data"
    using Math_max_ge [of "lit (1 / 10000)" "maxTime data - minTime data"] by (simp add: timeSpan_def)
  with l have "Fin 0 < timeSpan data" by (rule num_less_le_trans)
  then show ?thesis using f by simp
qed

lemma div_finite_not_NaN: "x \<noteq> NaN \<Longrightarrow> isFinite y \<Longrightarrow> val y \<noteq> 0 \<Longrightarrow> x / y \<noteq> NaN"
  by (cases x; cases y) (auto simp: divide_jsnum_def Let_def inf_of_def zero_of_def)

lemma sub_finite_not_NaN: "isFinite x \<Longrightarrow> isFinite y \<Longrightarrow> x - y \<noteq> NaN"
  by (simp add: finite_sub)

definition time_fraction :: "RawLightCurvePoint list \<Rightarrow> jsnum \<Rightarrow> jsnum" where
  "time_fraction data now = Math_max (lit 0) (Math_min (lit 1) ((now - minTime data) / timeSpan data))"

lemma time_fraction_bounds:
  assumes "isFinite now" "isFinite (minTime data)" "isFinite (timeSpan data)"
  shows "lit 0 \<le> time_fraction data now \<and> time_fraction data now \<le> lit 1"
proof -
  have "(now - minTime data) / timeSpan data \<noteq> NaN"
    using assms timeSpan_pos [OF assms(3)] by (intro div_finite_not_NaN sub_finite_not_NaN) auto
  then show ?thesis unfolding time_fraction_def by (rule clamp_bounds) simp
qed

lemma first_guess_index:
  assumes "isFinite now" "isFinite (minTime data)" "isFinite (timeSpan data)" "data \<noteq> []" "length data \<le> 2 ^ 50"
  shows "\<exists>g. first_guess data now = Fin (of_int (int g)) \<and> g < length data \<or> first_guess data now = NegZero \<and> g = 0"
proof -
  define f where "f = time_fraction data now"
  let ?n = "length data - 1"
  have n: "?n \<le> 2 ^ 53" using assms(5) by (auto intro: order_trans)
  have b: "lit 0 \<le> f" "f \<le> lit 1" using time_fraction_bounds [OF assms(1-3)] by (auto simp: f_def)
  then have f: "isFinite f" "0 \<le> val f" "val f \<le> 1" by (cases f; simp)+
  have g: "first_guess data now = Math_floor (f * Fin (of_nat ?n))"
    using n by (simp add: first_guess_def f_def time_fraction_def jsnum_of_nat_exact)
  have up: "val f * of_nat ?n \<le> of_nat ?n" using mult_right_mono [OF f(3), of "of_nat ?n"] by simp
  have r: "0 \<le> round64 (val f * of_nat ?n)" "round64 (val f * of_nat ?n) \<le> of_nat ?n"
  proof -
    show "0 \<le> round64 (val f * of_nat ?n)" using f by (intro r64.rnd_nonneg) simp
    have "round64 (val f * of_nat ?n) \<le> round64 (of_nat ?n)" using up by (rule round64_mono)
    then show "round64 (val f * of_nat ?n) \<le> of_nat ?n" using n by simp
  qed
  have ov: "(of_nat ?n :: rat) < 2 ^ 1024" using small_lt_overflow nat_below_overflow [OF n] by blast
  have m: "f * Fin (of_nat ?n) = mk (signbit f) (val f * of_nat ?n)" using f by (simp add: finite_mult)
  consider "mk (signbit f) (val f * of_nat ?n) = NegZero" | "mk (signbit f) (val f * of_nat ?n) = Fin (round64 (val f * of_nat ?n))"
  proof (cases "round64 (val f * of_nat ?n) = 0")
    case True
    then show ?thesis using that by (cases "signbit f") (auto simp: mk_def zero_of_def)
  next
    case False
    then have "\<not> 2 ^ 1024 \<le> round64 (val f * of_nat ?n)" "\<not> round64 (val f * of_nat ?n) \<le> - (2 ^ 1024)"
      using r ov zero_less_power [of "2::rat" 1024] by linarith+
    then show ?thesis using False that by (simp only: mk_def Let_def if_False)
  qed
  then show ?thesis
  proof cases
    case 1
    then have "first_guess data now = NegZero" unfolding g m by (simp add: Math_floor_def)
    then show ?thesis by blast
  next
    case 2
    have "0 \<le> \<lfloor>round64 (val f * of_nat ?n)\<rfloor>" "\<lfloor>round64 (val f * of_nat ?n)\<rfloor> \<le> int ?n"
      using r by (simp_all add: floor_le_iff)
    moreover have "\<lfloor>round64 (val f * of_nat ?n)\<rfloor> \<le> int ?n"
      using floor_mono [OF r(2)] by simp
    moreover have "first_guess data now = Fin (of_int \<lfloor>round64 (val f * of_nat ?n)\<rfloor>)"
      unfolding g m 2 by (simp add: Math_floor_def)
    moreover have "0 < length data" using assms(4) by simp
    ultimately have "first_guess data now = Fin (of_int (int (nat \<lfloor>round64 (val f * of_nat ?n)\<rfloor>)))"
      "nat \<lfloor>round64 (val f * of_nat ?n)\<rfloor> < length data" by (simp only: int_nat_eq if_True, linarith)
    then show ?thesis by blast
  qed
qed

lemma nearest_loop_result:
  assumes "fst gb < length data" "snd gb = sample_dist data now (fst gb)"
    and "\<forall>j. i0 \<le> j \<and> j < i \<longrightarrow> \<not> sample_dist data now j < snd gb"
  shows "nearest_loop data now i gb < length data \<and>
    (\<forall>j. i0 \<le> j \<and> j \<le> min (length data - 1) (nearest_loop data now i gb + 8) \<longrightarrow>
      \<not> sample_dist data now j < sample_dist data now (nearest_loop data now i gb))"
  using assms
proof (induction data now i gb rule: nearest_loop.induct)
  case (1 data now i gb)
  show ?case
  proof (cases "i \<le> min (length data - 1) (fst gb + 8)")
    case True
    define gb' where "gb' = nearest_step data now i gb"
    have i: "i < length data" using True "1.prems"(1) by auto
    have p: "fst gb' < length data" "snd gb' = sample_dist data now (fst gb')"
      using "1.prems" i by (auto simp: gb'_def nearest_step_def split: prod.split)
    have q: "\<forall>j. i0 \<le> j \<and> j < Suc i \<longrightarrow> \<not> sample_dist data now j < snd gb'"
    proof (cases "sample_dist data now i < snd gb")
      case less: True
      then have "snd gb' = sample_dist data now i" by (cases gb) (simp add: gb'_def nearest_step_def)
      then show ?thesis using "1.prems"(3) less num_less_trans less_Suc_eq num_less_irrefl by metis
    next
      case False
      then have "snd gb' = snd gb" by (cases gb) (simp add: gb'_def nearest_step_def)
      then show ?thesis using "1.prems"(3) False less_Suc_eq by metis
    qed
    have "nearest_loop data now i gb = nearest_loop data now (Suc i) gb'"
      using True by (simp add: nearest_loop.simps [of data now i] gb'_def)
    then show ?thesis using "1.IH" [OF True] p q unfolding gb'_def by simp
  next
    case False
    then have "nearest_loop data now i gb = fst gb" by (subst nearest_loop.simps) (simp only: if_False)
    then show ?thesis using "1.prems" False by auto
  qed
qed

section \<open>Concrete light curves\<close>

definition sample_event :: TransitSyncEvent where
  "sample_event = \<lparr>ev_time = lit 0, ev_phase = lit 0, ev_isTransit = False, ev_transitDepthRatio = None,
     ev_planetName = None\<rparr>"

definition flat_curve :: "nat \<Rightarrow> RawLightCurvePoint list" where
  "flat_curve n = map (\<lambda>i. \<lparr>lc_index = i, lc_time = Fin (of_nat i), lc_flux = Fin 1\<rparr>) [0..<n]"

lemma flat_curve_flux: "p \<in> set (flat_curve n) \<Longrightarrow> lc_flux p = Fin 1"
  by (auto simp: flat_curve_def)

lemma flat_curve_length [simp]: "length (flat_curve n) = n"
  by (simp add: flat_curve_def)

definition short_curve :: "RawLightCurvePoint list" where
  "short_curve = [\<lparr>lc_index = 0, lc_time = Fin 10, lc_flux = Fin 1\<rparr>, \<lparr>lc_index = 1, lc_time = Fin 12, lc_flux = Fin 1\<rparr>]"

lemma short_curve_nonempty [simp]: "short_curve \<noteq> []"
  by (simp add: short_curve_def)

lemma short_curve_range: "minTime short_curve = Fin 10" "maxTime short_curve = Fin 12" "isFinite (timeSpan short_curve)"
  by (code_simp, code_simp, code_simp)

section \<open>Properties\<close>

text \<open>
  C6. After any sequence of emissions, subscriptions and
  unsubscriptions on a new bridge, every subscribed listener was last called with exactly the
  latest event, a late subscriber included; before the first event nobody was called.
\<close>

theorem bridge_delivers_latest:
  assumes "b = foldl bridge_step new_bridge es" "l \<in> set (br_listeners b)"
  shows "map_of (br_heard b) l = getLatest b"
  using bridge.run_inv [OF new_bridge_inv, of es] assms
  by (auto simp: bridge_inv_def getLatest_def split: option.splits)

theorem bridge_delivers_latest_witness:
  "map_of (br_heard (foldl bridge_step new_bridge [Emit sample_event, Subscribe 3])) 3 = Some sample_event"
  using bridge_delivers_latest [OF refl, of 3 "[Emit sample_event, Subscribe 3]"]
  by (simp add: bridge_step_def emit_def subscribe_def new_bridge_def Let_def call_listener_def getLatest_def)

text \<open>
  C11. Downsampling a light curve of finite fluxes keeps at most
  the target number of points, all of them samples of the curve, and for every sample except
  possibly the last one the chart has a point at least as deep and a point at least as high:
  no dip or flare before the last sample loses depth.
\<close>

theorem downsample_preserves_extremes:
  assumes "\<forall>p\<in>set data. isFinite (lc_flux p)" "sample_count_ok data" "2 \<le> targetPoints"
  defines "r \<equiv> downsampleMinMax data targetPoints"
  shows "length r \<le> max targetPoints 2 \<and> set r \<subseteq> set data \<and>
    (\<forall>i<length data - 1. \<exists>p\<in>set r. \<exists>q\<in>set r.
       lc_flux p \<le> lc_flux (data ! i) \<and> lc_flux (data ! i) \<le> lc_flux q)"
proof (cases "length data \<le> targetPoints")
  case True
  then have r: "r = data" by (simp add: r_def downsampleMinMax_def)
  have "\<exists>p\<in>set data. \<exists>q\<in>set data. lc_flux p \<le> lc_flux (data ! i) \<and> lc_flux (data ! i) \<le> lc_flux q"
    if "i < length data - 1" for i
  proof -
    have i: "data ! i \<in> set data" using that by simp
    then have "lc_flux (data ! i) \<le> lc_flux (data ! i)" using assms(1) by (intro num_le_refl) (auto simp: isFinite_iff)
    then show ?thesis using i by blast
  qed
  then show ?thesis using True r by auto
next
  case False
  define n where "n = length data"
  define bc where "bc = targetPoints div 2"
  have nb: "n \<le> 2 ^ 50" "0 < bc" "bc \<le> n" using assms(2,3) False by (auto simp: n_def bc_def sample_count_ok_def)
  have nn: "\<forall>p\<in>set data. lc_flux p \<noteq> NaN" using assms(1) by (auto simp: isFinite_iff)
  have r: "set r = (\<Union>b<bc. set (bucket_points data (bucket_start n bc b) (bucket_end n bc b)))"
    using False downsample_long [of targetPoints data] by (simp add: r_def n_def bc_def)
  have e: "bucket_end n bc b \<le> length data" if "b < bc" for b
    using bucket_end_le(1) [OF nb that] by (simp add: n_def)
  have sub: "set r \<subseteq> set data"
  proof
    fix p assume "p \<in> set r"
    then obtain b where b: "b < bc" "p \<in> set (bucket_points data (bucket_start n bc b) (bucket_end n bc b))"
      using r by auto
    obtain i where "i < bucket_end n bc b" "p = data ! i" using bucket_points_in [OF e [OF b(1)] nn b(2)] by blast
    then show "p \<in> set data" using e [OF b(1)] by simp
  qed
  have "\<exists>p\<in>set r. \<exists>q\<in>set r. lc_flux p \<le> lc_flux (data ! i) \<and> lc_flux (data ! i) \<le> lc_flux q"
    if i: "i < length data - 1" for i
  proof -
    have "i < n - 1" using i by (simp add: n_def)
    then obtain b where b: "b < bc" "bucket_start n bc b \<le> i" "i < bucket_end n bc b"
      using bucket_of_index [OF nb] by blast
    then have "bucket_start n bc b < bucket_end n bc b" by simp
    from bucket_points_props [OF this e [OF b(1)] nn] obtain mn mx where
      "set (bucket_points data (bucket_start n bc b) (bucket_end n bc b)) = {data ! mn, data ! mx}"
      "lc_flux (data ! mn) \<le> lc_flux (data ! i)" "lc_flux (data ! i) \<le> lc_flux (data ! mx)"
      using b by blast
    moreover from this have "data ! mn \<in> set r" "data ! mx \<in> set r" unfolding r using b(1) by auto
    ultimately show ?thesis by blast
  qed
  moreover have "length r \<le> max targetPoints 2" using downsample_length [of data targetPoints] by (simp add: r_def)
  ultimately show ?thesis using sub by blast
qed

theorem downsample_preserves_extremes_witness:
  "\<exists>p\<in>set (downsampleMinMax (flat_curve 5000) 1200). lc_flux p \<le> Fin 1"
proof -
  have "\<forall>p\<in>set (flat_curve 5000). isFinite (lc_flux p)" by (simp add: flat_curve_flux)
  moreover have "sample_count_ok (flat_curve 5000)" by (simp add: sample_count_ok_def)
  moreover have "lc_flux (flat_curve 5000 ! 0) = Fin 1" using flat_curve_flux [OF nth_mem, of 0 5000] by simp
  ultimately show ?thesis
    using downsample_preserves_extremes [of "flat_curve 5000" 1200] by fastforce
qed

text \<open>
  The last sample can be lost: for 1206 samples and the 1200
  points of the chart, the rounded bucket size makes the last bucket end one sample early, so
  when the deepest dip of the curve is its last sample, every point of the chart lies strictly
  above it.
\<close>

theorem downsample_can_drop_last:
  assumes "length data = 1206" "\<forall>p\<in>set data. isFinite (lc_flux p)"
    and "\<forall>i<1205. lc_flux (data ! 1205) < lc_flux (data ! i)"
  shows "\<forall>p\<in>set (chartData data). lc_flux (data ! 1205) < lc_flux p"
proof
  fix p assume "p \<in> set (chartData data)"
  then obtain b where b: "b < 600" "p \<in> set (bucket_points data (bucket_start 1206 600 b) (bucket_end 1206 600 b))"
    using assms(1) downsample_long [of 1200 data] by (auto simp: chartData_def)
  have nb: "(1206::nat) \<le> 2 ^ 50" "(0::nat) < 600" "(600::nat) \<le> 1206" by simp_all
  have nn: "\<forall>p\<in>set data. lc_flux p \<noteq> NaN" using assms(2) by (auto simp: isFinite_iff)
  have "Math_floor (Fin 600 * (Fin 1206 / Fin 600)) = Fin 1205" by code_simp
  then have "bucket_start 1206 600 600 = 1205"
    by (simp add: bucket_start_def bucketSize_def jsnum_of_nat_exact nat_of_jsnum_def)
  then have e: "bucket_end 1206 600 b \<le> 1205" using bucket_end_le(2) [OF nb b(1)] by simp
  then have "bucket_end 1206 600 b \<le> length data" using assms(1) by simp
  then obtain i where "i < bucket_end 1206 600 b" "p = data ! i" using bucket_points_in [OF _ nn b(2)] by blast
  then show "lc_flux (data ! 1205) < lc_flux p" using assms(3) e by simp
qed

theorem downsample_can_drop_last_witness:
  "list_all (\<lambda>p. Fin 0 < lc_flux p)
     (chartData (flat_curve 1205 @ [\<lparr>lc_index = 1205, lc_time = Fin 1205, lc_flux = Fin 0\<rparr>]))"
proof -
  let ?d = "flat_curve 1205 @ [\<lparr>lc_index = 1205, lc_time = Fin 1205, lc_flux = Fin 0\<rparr>]"
  have l: "?d ! 1205 = \<lparr>lc_index = 1205, lc_time = Fin 1205, lc_flux = Fin 0\<rparr>" by (simp add: nth_append)
  have "lc_flux (?d ! i) = Fin 1" if "i < 1205" for i
    using that flat_curve_flux [OF nth_mem, of i 1205] by (simp add: nth_append)
  then show ?thesis using downsample_can_drop_last [of ?d] l by (auto simp: flat_curve_flux list_all_iff)
qed

text \<open>
  C21. Every transit window the chart marks lies inside the observed
  range and around its centre: for finite ephemerides, whenever the three loops return, the
  windows are numbered from 1, and each has its start between the first sample's time and its
  centre, its end between its centre and the last sample's time, and the centre one period
  after the previous one.
\<close>

theorem transit_windows_sound:
  assumes "transitEpochs (Some p) depth (Some d) (Some t0) data = Some es" "k < length es"
    and "isFinite p" "isFinite d" "wf_num d" "isFinite t0" "wf_num t0" "isFinite (minTime data)"
  shows "te_id (es ! k) = k + 1 \<and> minTime data \<le> te_start (es ! k) \<and> te_start (es ! k) \<le> te_center (es ! k) \<and>
    te_center (es ! k) \<le> te_end (es ! k) \<and> te_end (es ! k) \<le> maxTime data \<and>
    (\<forall>j. k = Suc j \<longrightarrow> te_center (es ! k) = te_center (es ! j) + p)"
proof -
  let ?mk = "epoch_marker (minTime data) (maxTime data) d (nullish depth (lit 0))"
  have pos: "0 < val p" "0 < val d"
    and "Option.bind (rewind_epoch p (minTime data) t0) (\<lambda>t1. Option.bind (advance_epoch p (minTime data) t1) (\<lambda>t2.
        collect_epochs p (maxTime data) ?mk 1 t2)) = Some es"
    using assms(1-4) by (auto simp: transitEpochs_def Let_def opt_truthy_def split: if_splits)
  then obtain t1 t2 where t: "rewind_epoch p (minTime data) t0 = Some t1"
    "advance_epoch p (minTime data) t1 = Some t2" "collect_epochs p (maxTime data) ?mk 1 t2 = Some es"
    by (auto simp: bind_eq_Some_conv)
  define c where "c = (\<lambda>k. ((\<lambda>x. x + p) ^^ k) t2)"
  have es: "es ! j = ?mk (1 + j) (c j) \<and> c j \<le> maxTime data" if "j < length es" for j
    using collect_result [OF t(3)] that by (simp add: c_def)
  have wf: "wf_num t2" using advance_wf [OF t(2) rewind_wf [OF t(1) assms(7)]] .
  have "c 0 \<le> maxTime data" using es assms(2) by force
  then have t2: "t2 \<noteq> NaN" by (auto simp: c_def)
  moreover have "minTime data \<noteq> NaN" using assms(8) by auto
  ultimately have "minTime data \<le> t2" using advance_result [OF t(2)] num_not_less by blast
  moreover have "t2 \<le> c k \<and> wf_num (c k)" unfolding c_def
    using wf t2 assms(3) pos by (intro funpow_add_ge) auto
  ultimately have "minTime data \<le> c k" "wf_num (c k)" using num_le_trans by auto
  then have w: "minTime data \<le> te_start (es ! k) \<and> te_start (es ! k) \<le> te_center (es ! k) \<and>
    te_center (es ! k) \<le> te_end (es ! k) \<and> te_end (es ! k) \<le> maxTime data"
    using marker_window [of "c k" "minTime data" "maxTime data" d "nullish depth (lit 0)" "1 + k"] es [OF assms(2)] assms(4,5) pos by simp
  have "te_center (es ! j) = c j" if "j < length es" for j
    using es [OF that] by (simp add: epoch_marker_def)
  then have "te_center (es ! k) = te_center (es ! j) + p" if "k = Suc j" for j
    using that assms(2) by (simp add: c_def)
  moreover have "te_id (es ! k) = k + 1" using es [OF assms(2)] by (simp add: epoch_marker_def)
  ultimately show ?thesis using w by blast
qed

theorem transit_windows_sound_witness:
  "te_end (the (transitEpochs (Some (Fin 1)) None (Some (Fin 1)) (Some (Fin 11)) short_curve) ! 2) \<le> Fin 12"
proof -
  have "map_option length (transitEpochs (Some (Fin 1)) None (Some (Fin 1)) (Some (Fin 11)) short_curve) = Some 3"
  proof -
    have "Fin 11 - Fin 1 = Fin 10" "Fin 10 - Fin 1 = Fin 9" "Fin 10 + Fin 1 = Fin 11" "Fin 11 + Fin 1 = Fin 12"
      "Fin 12 + Fin 1 = Fin 13" by code_simp+
    then show ?thesis
      by (simp add: transitEpochs_def short_curve_range opt_truthy_def truthy_def Let_def
          rewind_epoch.simps [of "Fin 1" "Fin 10"] advance_epoch.simps [of "Fin 1" "Fin 10"]
          collect_epochs.simps [of "Fin 1" "Fin 12"])
  qed
  then obtain es where es: "transitEpochs (Some (Fin 1)) None (Some (Fin 1)) (Some (Fin 11)) short_curve = Some es" "length es = 3"
    by auto
  have wf: "wf_num (Fin 1)" "wf_num (Fin 11)" using wf_lit [of 1] wf_lit [of 11] by simp_all
  show ?thesis
    using transit_windows_sound [OF es(1), of 2] es wf by (simp add: short_curve_range)
qed

text \<open>
  C19. The three epoch loops end for every physical ephemeris: a finite
  period of at least \<open>2^-10\<close> days (84 seconds) and times within \<open>2^32\<close> days, whatever the
  rounding of the repeated additions, so the windows are computed.
\<close>

theorem transit_loops_end:
  assumes "step_ok p" "isFinite t0" "\<bar>val t0\<bar> \<le> 2 ^ 32"
    and "isFinite (minTime data)" "\<bar>val (minTime data)\<bar> \<le> 2 ^ 32"
    and "isFinite (maxTime data)" "\<bar>val (maxTime data)\<bar> \<le> 2 ^ 32"
  shows "\<exists>es. transitEpochs (Some p) depth d (Some t0) data = Some es"
proof -
  have "- (2 ^ 32) \<le> val t0" "val t0 \<le> 2 ^ 32" "- (2 ^ 32) \<le> val (minTime data)" "val (minTime data) \<le> 2 ^ 32"
    "val (maxTime data) \<le> 2 ^ 32" using assms(3,5,7) by linarith+
  note b = this
  obtain t1 where t1: "rewind_epoch p (minTime data) t0 = Some t1" "isFinite t1" "- (2 ^ 32) \<le> val t1" "val t1 \<le> 2 ^ 32"
    using rewind_ends [OF assms(1,4) b(3) assms(2) b(1,2)] by blast
  have "val t1 \<le> 2 ^ 33" using t1(4) by (rule order_trans) simp
  then obtain t2 where t2: "advance_epoch p (minTime data) t1 = Some t2" "isFinite t2" "- (2 ^ 32) \<le> val t2"
    using advance_ends [OF assms(1,4) b(4) t1(2,3)] by blast
  obtain es where "collect_epochs p (maxTime data)
      (epoch_marker (minTime data) (maxTime data) (the d) (nullish depth (lit 0))) 1 t2 = Some es"
    using collect_ends [OF assms(1,6) b(5) t2(2,3)] by blast
  then show ?thesis using t1 t2 by (simp add: transitEpochs_def Let_def)
qed

theorem transit_loops_end_witness:
  "\<exists>es. transitEpochs (Some (Fin 1)) None (Some (Fin 1)) (Some (Fin 11)) short_curve = Some es"
  by (rule transit_loops_end) (simp_all add: short_curve_range step_ok_def)

text \<open>
  Without a lower bound on the period the first loop does not end: when
  the measured transit time is not before the first sample and the period is positive but so
  small that subtracting it does not change that time, the windows are never computed.
\<close>

theorem transit_loop_hangs:
  assumes "Fin 0 < p" "isFinite p" "Fin 0 < d" "isFinite d" "data \<noteq> []" "minTime data \<le> t0" "truthy t0" "t0 - p = t0"
  shows "transitEpochs (Some p) depth (Some d) (Some t0) data = None"
proof -
  have "rewind_epoch p (minTime data) t0 = None" using assms by (intro rewind_diverges)
  moreover have "\<not> p \<le> lit 0" "\<not> d \<le> lit 0" "truthy p" "truthy d"
    using assms(1-4) by (cases p; cases d; auto simp: truthy_def)+
  ultimately show ?thesis using assms(5,7) by (simp add: transitEpochs_def opt_truthy_def Let_def)
qed

theorem transit_loop_hangs_witness:
  "transitEpochs (Some (Fin (1 / 1152921504606846976))) None (Some (Fin 1)) (Some (Fin 12)) short_curve = None"
proof (rule transit_loop_hangs)
  show "Fin 12 - Fin (1 / 1152921504606846976) = Fin 12" by code_simp
qed (simp_all add: short_curve_range truthy_def)

text \<open>
  For a nonempty finite light curve and a finite playhead time the
  scanner fraction is between 0 and 1, and the sample search never reads outside the array:
  it returns a sample whose distance to the playhead no sample from eight before the first
  guess to eight after the returned one undercuts.
\<close>

theorem playhead_sample_sound:
  assumes "isFinite now" "isFinite (minTime data)" "isFinite (timeSpan data)" "data \<noteq> []" "sample_count_ok data"
  defines "g \<equiv> nat_of_jsnum (first_guess data now)"
  shows "lit 0 \<le> scannerFraction now data \<and> scannerFraction now data \<le> lit 1 \<and>
    (\<exists>k. sample_index data now = Some k \<and> k < length data \<and>
      (\<forall>j. g - 8 \<le> j \<and> j \<le> min (length data - 1) (k + 8) \<longrightarrow>
         \<not> sample_dist data now j < sample_dist data now k))"
proof -
  have "scannerFraction now data = time_fraction data now"
    using timeSpan_pos [OF assms(3)] assms(3) by (simp add: scannerFraction_def time_fraction_def)
  then have f: "lit 0 \<le> scannerFraction now data \<and> scannerFraction now data \<le> lit 1"
    using time_fraction_bounds [OF assms(1-3)] by simp
  have gl: "g < length data" and "\<exists>pt. arr_idx data (first_guess data now) = Some pt"
    using first_guess_index [OF assms(1-4)] assms(4,5)
    by (auto simp: g_def sample_count_ok_def nat_of_jsnum_def arr_idx_def isInteger_def)
  then have s: "sample_index data now = Some (nearest_loop data now (g - 8) (g, sample_dist data now g))"
    using assms(4) by (auto simp: sample_index_def g_def Let_def)
  have "nearest_loop data now (g - 8) (g, sample_dist data now g) < length data \<and>
    (\<forall>j. g - 8 \<le> j \<and> j \<le> min (length data - 1) (nearest_loop data now (g - 8) (g, sample_dist data now g) + 8) \<longrightarrow>
      \<not> sample_dist data now j < sample_dist data now (nearest_loop data now (g - 8) (g, sample_dist data now g)))"
    by (rule nearest_loop_result) (use gl in auto)
  then show ?thesis using f s by blast
qed

theorem playhead_sample_sound_witness:
  "\<exists>k. sample_index short_curve (Fin 11) = Some k \<and> k < 2"
proof -
  have "sample_count_ok short_curve" "short_curve \<noteq> []" "length short_curve = 2"
    by (simp_all add: sample_count_ok_def short_curve_def)
  then show ?thesis
    using playhead_sample_sound [of "Fin 11" short_curve] by (auto simp: short_curve_range)
qed

end
