(* ===== verification/JsText.thy ===== *)
theory JsText
  imports JsValue
begin

text \<open>
  Text conversions of the source language used by the pages: \<open>Number(s)\<close> on strings,
  \<open>encodeURIComponent\<close>, the parameter lists of \<open>URLSearchParams\<close> and the validity of a time
  value, after ECMA-262 and the URL standard.
\<close>

section \<open>Number of a string\<close>

text \<open>Decimal literals: digits, an optional fraction and an optional exponent.\<close>

definition digits_of :: "str \<Rightarrow> str \<times> str" where
  "digits_of s = (takeWhile digit s, dropWhile digit s)"

definition read_exp :: "str \<Rightarrow> int option" where
  "read_exp s = (case s of [] \<Rightarrow> Some 0
     | c # cs \<Rightarrow> if c = 101 \<or> c = 69 then
         (let (neg, ds) = (if cs \<noteq> [] \<and> hd cs = 43 then (False, tl cs)
             else if cs \<noteq> [] \<and> hd cs = 45 then (True, tl cs) else (False, cs)) in
          if ds \<noteq> [] \<and> list_all digit ds then Some (if neg then - read_dec ds else read_dec ds) else None)
       else None)"

definition read_unsigned :: "str \<Rightarrow> rat option" where
  "read_unsigned s =
     (let (ip, r) = digits_of s;
          (fp, r') = (if r \<noteq> [] \<and> hd r = 46 then digits_of (tl r) else ([], r)) in
      if ip = [] \<and> fp = [] then None
      else map_option (\<lambda>e. of_int (read_dec (ip @ fp)) * 10 powi (e - int (length fp))) (read_exp r'))"

definition hex_value :: "nat \<Rightarrow> nat option" where
  "hex_value c = (if digit c then Some (c - 48) else if 65 \<le> c \<and> c \<le> 70 then Some (c - 55)
     else if 97 \<le> c \<and> c \<le> 102 then Some (c - 87) else None)"

definition read_radix :: "int \<Rightarrow> str \<Rightarrow> rat option" where
  "read_radix b s = (if s = [] then None
     else foldl (\<lambda>a c. case (a, hex_value c) of
         (Some n, Some d) \<Rightarrow> if int d < b then Some (of_int b * n + of_nat d) else None | _ \<Rightarrow> None) (Some 0) s)"

definition Number_of_str :: "str \<Rightarrow> jsnum" where
  "Number_of_str s0 =
     (let s = trim s0;
          num = (\<lambda>neg r. case r of None \<Rightarrow> NaN | Some q \<Rightarrow> mk neg (if neg then - q else q)) in
      if s = [] then Fin 0
      else if s = u ''Infinity'' \<or> s = u ''+Infinity'' then PInf
      else if s = u ''-Infinity'' then NInf
      else if startsWith s (u ''0x'') \<or> startsWith s (u ''0X'') then num False (read_radix 16 (drop 2 s))
      else if startsWith s (u ''0o'') \<or> startsWith s (u ''0O'') then num False (read_radix 8 (drop 2 s))
      else if startsWith s (u ''0b'') \<or> startsWith s (u ''0B'') then num False (read_radix 2 (drop 2 s))
      else if hd s = 43 then num False (read_unsigned (tl s))
      else if hd s = 45 then num True (read_unsigned (tl s))
      else num False (read_unsigned s))"

section \<open>Percent encoding\<close>

definition unreserved :: "nat \<Rightarrow> bool" where
  "unreserved c = ((65 \<le> c \<and> c \<le> 90) \<or> (97 \<le> c \<and> c \<le> 122) \<or> (48 \<le> c \<and> c \<le> 57)
     \<or> c \<in> {45, 95, 46, 33, 126, 42, 39, 40, 41})"

definition utf8 :: "nat \<Rightarrow> nat list" where
  "utf8 cp = (if cp < 0x80 then [cp]
     else if cp < 0x800 then [0xC0 + cp div 64, 0x80 + cp mod 64]
     else if cp < 0x10000 then [0xE0 + cp div 4096, 0x80 + (cp div 64) mod 64, 0x80 + cp mod 64]
     else [0xF0 + cp div 262144, 0x80 + (cp div 4096) mod 64, 0x80 + (cp div 64) mod 64, 0x80 + cp mod 64])"

definition hex_upper :: "nat \<Rightarrow> nat" where
  "hex_upper d = (if d < 10 then 48 + d else 55 + d)"

definition percent_byte :: "nat \<Rightarrow> str" where
  "percent_byte b = [37, hex_upper (b div 16), hex_upper (b mod 16)]"

text \<open>\<open>None\<close> is the \<open>URIError\<close> of an unpaired surrogate.\<close>

fun encodeURIComponent :: "str \<Rightarrow> str option" where
  "encodeURIComponent [] = Some []"
| "encodeURIComponent (c # cs) =
     (if unreserved c then map_option ((#) c) (encodeURIComponent cs)
      else if 0xDC00 \<le> c \<and> c \<le> 0xDFFF then None
      else if \<not> (0xD800 \<le> c \<and> c \<le> 0xDBFF)
      then map_option ((@) (concat (map percent_byte (utf8 c)))) (encodeURIComponent cs)
      else (case cs of [] \<Rightarrow> None
        | d # ds \<Rightarrow> if \<not> (0xDC00 \<le> d \<and> d \<le> 0xDFFF) then None
            else map_option ((@) (concat (map percent_byte (utf8 ((c - 0xD800) * 0x400 + (d - 0xDC00) + 0x10000)))))
              (encodeURIComponent ds)))"

lemma encode_unreserved: "list_all unreserved s \<Longrightarrow> encodeURIComponent s = Some s"
  by (induction s) auto

section \<open>Search parameters\<close>

text \<open>
  \<open>URLSearchParams\<close> as the list of its pairs: \<open>get\<close> reads the first pair of a name, \<open>set\<close>
  overwrites it (dropping further ones) or appends, \<open>delete\<close> drops all pairs of a name.
\<close>

type_synonym params = "(str \<times> str) list"

definition params_get :: "params \<Rightarrow> str \<Rightarrow> str option" where
  "params_get ps k = map_of ps k"

fun params_set :: "str \<Rightarrow> str \<Rightarrow> params \<Rightarrow> params" where
  "params_set k v [] = [(k, v)]"
| "params_set k v ((k', v') # ps) =
     (if k' = k then (k, v) # filter (\<lambda>p. fst p \<noteq> k) ps else (k', v') # params_set k v ps)"

definition params_delete :: "str \<Rightarrow> params \<Rightarrow> params" where
  "params_delete k ps = filter (\<lambda>p. fst p \<noteq> k) ps"

lemma params_get_delete: "params_get (params_delete k ps) k' = (if k' = k then None else params_get ps k')"
  by (induction ps) (auto simp: params_get_def params_delete_def)

lemma params_get_set: "params_get (params_set k v ps) k' = (if k' = k then Some v else params_get ps k')"
proof (induction k v ps rule: params_set.induct)
  case (2 k v a b ps)
  then show ?case using params_get_delete [of k ps k'] by (auto simp: params_get_def params_delete_def)
qed (simp add: params_get_def)

lemma params_set_keys: "fst ` set (params_set k v ps) = insert k (fst ` set ps)"
  by (induction k v ps rule: params_set.induct) auto

lemma params_set_distinct: "distinct (map fst ps) \<Longrightarrow> distinct (map fst (params_set k v ps))"
proof (induction k v ps rule: params_set.induct)
  case (2 k v a b ps)
  then show ?case using params_set_keys [of k v ps] by (auto simp: distinct_map_filter)
qed simp

section \<open>Defaults and distinct values\<close>

text \<open>\<open>a || b\<close> on an optional text or number: also an empty text, zero and NaN are replaced.\<close>

definition opt_or_str :: "str option \<Rightarrow> str \<Rightarrow> str" where
  "opt_or_str a b = (case a of Some s \<Rightarrow> if s \<noteq> [] then s else b | None \<Rightarrow> b)"

definition opt_or_num :: "jsnum option \<Rightarrow> jsnum \<Rightarrow> jsnum" where
  "opt_or_num a b = (case a of Some x \<Rightarrow> if truthy x then x else b | None \<Rightarrow> b)"

lemma opt_or_str_nonempty: "b \<noteq> [] \<Longrightarrow> opt_or_str a b \<noteq> []"
  by (auto simp: opt_or_str_def split: option.split)

lemma opt_or_str_simps [simp]: "opt_or_str None b = b" "opt_or_str (Some s) b = (if s \<noteq> [] then s else b)"
  by (simp_all add: opt_or_str_def)

lemma opt_or_num_simps [simp]: "opt_or_num None b = b" "opt_or_num (Some x) b = (if truthy x then x else b)"
  by (simp_all add: opt_or_num_def)

text \<open>\<open>[...new Set(xs)]\<close>: the first occurrence of every value, in order.\<close>

text \<open>\<open>s.padStart(2, '0')\<close>.\<close>

definition padStart2 :: "str \<Rightarrow> str" where
  "padStart2 t = replicate (2 - length t) 48 @ t"

definition js_uniq :: "'a list \<Rightarrow> 'a list" where
  "js_uniq xs = rev (remdups (rev xs))"

lemma js_uniq_distinct [simp]: "distinct (js_uniq xs)"
  by (simp add: js_uniq_def)

lemma js_uniq_set [simp]: "set (js_uniq xs) = set xs"
  by (simp add: js_uniq_def)

lemma js_uniq_id: "distinct xs \<Longrightarrow> js_uniq xs = xs"
  by (simp add: js_uniq_def distinct_remdups_id)

lemma js_uniq_snoc: "js_uniq (xs @ [x]) = (if x \<in> set xs then js_uniq xs else js_uniq xs @ [x])"
  by (simp add: js_uniq_def)

lemma js_uniq_Nil_iff [simp]: "js_uniq xs = [] \<longleftrightarrow> xs = []"
  by (metis js_uniq_set set_empty)

section \<open>Order of texts\<close>

text \<open>The default order of \<open>sort()\<close> on texts: lexicographic by code units.\<close>

fun str_le :: "str \<Rightarrow> str \<Rightarrow> bool" where
  "str_le [] t = True"
| "str_le (c # cs) [] = False"
| "str_le (c # cs) (d # ds) = (c < d \<or> (c = d \<and> str_le cs ds))"

lemma str_le_refl [simp]: "str_le s s"
  by (induction s) auto

lemma str_le_antisym: "str_le s t \<Longrightarrow> str_le t s \<Longrightarrow> s = t"
  by (induction s t rule: str_le.induct) (auto elim: str_le.elims)

interpretation str_order: comparator str_le "\<lambda>s. True"
proof
  show "str_le x y \<or> str_le y x" for x y
    by (induction x y rule: str_le.induct) auto
  show "str_le x z" if "str_le x y" "str_le y z" for x y z
    using that
  proof (induction x y arbitrary: z rule: str_le.induct)
    case (3 c cs d ds)
    then show ?case by (cases z) auto
  qed auto
qed

section \<open>Time values\<close>

text \<open>\<open>new Date(ms)\<close> is valid up to 8.64e15 milliseconds.\<close>

definition time_valid :: "jsnum \<Rightarrow> bool" where
  "time_valid ms = (isFinite ms \<and> \<bar>val ms\<bar> \<le> 8640000000000000)"

end
