(* ===== verification/LatestRequest.thy ===== *)
theory LatestRequest
  imports JsValue
begin

text \<open>
  The sequence-number discipline of the pages that query the API: a query takes the next
  number, and an answer is applied only while its number is still the newest
  (\<open>if (requestID === requestSequence.current)\<close>). The locale states what such a page promises
  of its two handlers; from it follows that stale answers change nothing, that the order in
  which outstanding answers arrive does not matter, and when the page is busy.
\<close>

locale latest_request =
  fixes issue :: "'q \<Rightarrow> 's \<Rightarrow> 's" and settle :: "nat \<Rightarrow> 'q \<Rightarrow> 'r \<Rightarrow> 's \<Rightarrow> 's"
    and seq :: "'s \<Rightarrow> nat" and busy :: "'s \<Rightarrow> bool"
  assumes issue_seq: "seq (issue q s) = Suc (seq s)"
    and issue_busy: "busy (issue q s)"
    and settle_seq: "seq (settle r q x s) = seq s"
    and settle_stale: "r \<noteq> seq s \<Longrightarrow> settle r q x s = s"
    and settle_idle: "r = seq s \<Longrightarrow> \<not> busy (settle r q x s)"
begin

text \<open>A list of answers \<open>(number, query, outcome)\<close> arriving in order.\<close>

definition settle_all :: "'s \<Rightarrow> (nat \<times> 'q \<times> 'r) list \<Rightarrow> 's" where
  "settle_all s rs = foldl (\<lambda>s (r, q, x). settle r q x s) s rs"

lemma settle_all_stale: "\<forall>(r, q, x)\<in>set rs. r \<noteq> seq s \<Longrightarrow> settle_all s rs = s"
  by (induction rs) (auto simp: settle_all_def settle_stale)

lemma settle_all_latest:
  assumes "distinct (map fst rs)" "(seq s, q, x) \<in> set rs"
  shows "settle_all s rs = settle (seq s) q x s"
  using assms
proof (induction rs)
  case (Cons a rs)
  obtain r q' x' where a: "a = (r, q', x')" by (cases a)
  show ?case
  proof (cases "r = seq s")
    case True
    then have eq: "q' = q" "x' = x" using Cons.prems a by (force dest: in_set_zipE)+
    have "\<forall>(r', p, y)\<in>set rs. r' \<noteq> seq (settle (seq s) q x s)"
      using Cons.prems True a by (auto simp: settle_seq rev_image_eqI)
    then show ?thesis using settle_all_stale [of rs "settle (seq s) q x s"] a True eq by (simp add: settle_all_def)
  next
    case False
    then have "settle_all s (a # rs) = settle_all s rs" by (simp add: a settle_all_def settle_stale)
    then show ?thesis using Cons False a by auto
  qed
qed simp

text \<open>Two arrival orders of the same answers end in the same state.\<close>

lemma arrival_order_irrelevant:
  assumes "distinct (map fst rs)" "mset rs = mset rs'"
  shows "settle_all s rs = settle_all s rs'"
proof (cases "seq s \<in> fst ` set rs")
  case True
  then obtain q x where "(seq s, q, x) \<in> set rs" by force
  moreover have "set rs = set rs'" using assms(2) by (metis set_mset_mset)
  moreover have "distinct (map fst rs')" using assms by (metis mset_eq_imp_distinct_iff mset_map)
  ultimately show ?thesis using settle_all_latest [of rs] settle_all_latest [of rs'] assms(1) by metis
next
  case False
  moreover have "set rs = set rs'" using assms(2) by (metis set_mset_mset)
  ultimately show ?thesis
    using settle_all_stale [of rs s] settle_all_stale [of rs' s] by (force simp: image_iff)
qed

text \<open>A whole session: queries and answers interleaved; \<open>out\<close> are the outstanding queries.\<close>

inductive session :: "'s \<Rightarrow> (nat \<times> 'q) set \<Rightarrow> 's \<Rightarrow> bool" for s0 where
  start: "session s0 {} s0"
| query: "session s0 out s \<Longrightarrow> session s0 (insert (Suc (seq s), q) out) (issue q s)"
| answer: "session s0 out s \<Longrightarrow> (r, q) \<in> out \<Longrightarrow> session s0 (out - {(r, q)}) (settle r q x s)"

lemma session_bound: "session s0 out s \<Longrightarrow> seq s0 \<le> seq s \<and> (\<forall>(r, q)\<in>out. seq s0 < r \<and> r \<le> seq s)"
  by (induction rule: session.induct) (auto simp: issue_seq settle_seq intro: le_SucI)

lemma session_unique:
  "session s0 out s \<Longrightarrow> (r, q) \<in> out \<Longrightarrow> (r, q') \<in> out \<Longrightarrow> q = q'"
proof (induction arbitrary: r q q' rule: session.induct)
  case (query out s p)
  then show ?case using session_bound [OF query.hyps] by fastforce
qed auto

text \<open>The page is busy exactly while its newest query is outstanding.\<close>

lemma session_busy:
  assumes "session s0 out s" "seq s0 < seq s"
  shows "busy s \<longleftrightarrow> (\<exists>q. (seq s, q) \<in> out)"
  using assms
proof (induction rule: session.induct)
  case (answer out s r q x)
  show ?case
  proof (cases "r = seq s")
    case True
    then have "(seq s, q') \<notin> out - {(r, q)}" for q'
      using session_unique [OF answer.hyps(1), of r q q'] answer.hyps(2) by auto
    then show ?thesis using True by (simp add: settle_idle settle_seq)
  next
    case False
    then show ?thesis using answer by (auto simp: settle_stale settle_seq)
  qed
qed (auto simp: issue_busy issue_seq)

end

end
