(* ===== verification/Monitoring.thy ===== *)
theory Monitoring
  imports JsText LatestRequest
begin

text \<open>
  The monitoring page: its data and formatting (\<open>pages/monitoring/types.ts\<close>), the page's
  query state machine (\<open>page.tsx\<close>), the utilization series of \<open>sections/CapacityChart.tsx\<close> and
  the selection of charts in \<open>sections/TelemetryGrid.tsx\<close>. The page is an instance of the
  sequence-number discipline.
\<close>

section \<open>Data\<close>

record MonitoringPoint =
  mp_timestamp :: jsnum
  mp_value :: jsnum
  mp_labels :: "(str \<times> str) list option"

record MonitoringMetric =
  mm_key :: str
  mm_name :: str
  mm_unit :: str
  mm_kind :: str
  mm_points :: "MonitoringPoint list"

datatype MonitoringStatus = MS_up | MS_degraded | MS_no_data

record MonitoringComponent =
  mc_id :: str
  mc_name :: str
  mc_group :: str
  mc_container :: str
  mc_status :: MonitoringStatus
  mc_metrics :: "MonitoringMetric list"

record MonitoringResponse =
  mr_component :: str
  mr_tab :: "str option"
  mr_source :: "str option"
  mr_range :: str
  mr_start :: str
  mr_end :: str
  mr_step_seconds :: jsnum
  mr_components :: "MonitoringComponent list"

record component_meta =
  cm_id :: str
  cm_label :: str
  cm_group :: str

definition components :: "component_meta list" where
  "components = [
    \<lparr>cm_id = (u ''go-ingester''), cm_label = (u ''Ingester''), cm_group = (u ''Pipeline'')\<rparr>,
    \<lparr>cm_id = (u ''rust-preprocessor''), cm_label = (u ''Preprocessor''), cm_group = (u ''Pipeline'')\<rparr>,
    \<lparr>cm_id = (u ''python-ml-worker''), cm_label = (u ''ML worker''), cm_group = (u ''Pipeline'')\<rparr>,
    \<lparr>cm_id = (u ''rust-inference''), cm_label = (u ''Inference''), cm_group = (u ''Pipeline'')\<rparr>,
    \<lparr>cm_id = (u ''enrichment''), cm_label = (u ''Enrichment''), cm_group = (u ''Pipeline'')\<rparr>,
    \<lparr>cm_id = (u ''go-api''), cm_label = (u ''Go API''), cm_group = (u ''Platform'')\<rparr>,
    \<lparr>cm_id = (u ''minio''), cm_label = (u ''MinIO''), cm_group = (u ''Platform'')\<rparr>,
    \<lparr>cm_id = (u ''nats''), cm_label = (u ''NATS''), cm_group = (u ''Platform'')\<rparr>,
    \<lparr>cm_id = (u ''clickhouse''), cm_label = (u ''ClickHouse''), cm_group = (u ''Platform'')\<rparr>]"

record time_range =
  rg_id :: str
  rg_label :: str
  rg_step :: nat

definition timeRanges :: "time_range list" where
  "timeRanges = [
    \<lparr>rg_id = (u ''15m''), rg_label = (u ''15m''), rg_step = 15\<rparr>,
    \<lparr>rg_id = (u ''1h''), rg_label = (u ''1h''), rg_step = 60\<rparr>,
    \<lparr>rg_id = (u ''6h''), rg_label = (u ''6h''), rg_step = 300\<rparr>,
    \<lparr>rg_id = (u ''24h''), rg_label = (u ''24h''), rg_step = 900\<rparr>]"

record capacity_pair =
  cp_usedKey :: str
  cp_totalKey :: str
  cp_title :: str
  cp_usedLabel :: str
  cp_totalLabel :: str

definition capacityPairs :: "capacity_pair list" where
  "capacityPairs = [\<lparr>cp_usedKey = (u ''gpu_memory_used''), cp_totalKey = (u ''gpu_memory_total''),
     cp_title = (u ''Shared GPU device memory''), cp_usedLabel = (u ''Device used''), cp_totalLabel = (u ''Device total'')\<rparr>]"

definition resourceMetricKeys :: "str list" where
  "resourceMetricKeys = [(u ''gpu_utilization''), (u ''gpu_memory_used'')]"

section \<open>Formatting\<close>

definition compactNumber :: "jsnum \<Rightarrow> str" where
  "compactNumber value =
     (if \<not> isFinite value then emdash
      else let absolute = Math_abs value in
        if lit 1000000000 \<le> absolute then toFixed (value / lit 1000000000) 1 @ u ''G''
        else if lit 1000000 \<le> absolute then toFixed (value / lit 1000000) 1 @ u ''M''
        else if lit 1000 \<le> absolute then toFixed (value / lit 1000) 1 @ u ''k''
        else if absolute < lit (1 / 100) \<and> \<not> num_eq value (lit 0) then toExponential value 1
        else toFixed value (if num_eq (value mod lit 1) (lit 0) then 0 else 2))"

definition monitoring_formatBytes :: "jsnum \<Rightarrow> str" where
  "monitoring_formatBytes value =
     (if \<not> isFinite value then emdash
      else if Math_abs value < lit 1024 then compactNumber value @ u '' B''
      else if Math_abs value < lit (1024 ^ 2) then toFixed (value / lit 1024) 1 @ u '' KiB''
      else if Math_abs value < lit (1024 ^ 3) then toFixed (value / lit (1024 ^ 2)) 1 @ u '' MiB''
      else toFixed (value / lit (1024 ^ 3)) 2 @ u '' GiB'')"

definition formatMetricValue :: "jsnum \<Rightarrow> str \<Rightarrow> str" where
  "formatMetricValue value unit =
     (if \<not> isFinite value then emdash
      else if unit = u ''bytes'' then monitoring_formatBytes value
      else if unit = u ''bytes/s'' then monitoring_formatBytes value @ u ''/s''
      else if unit = u ''seconds'' then
        (if lit 0 < value \<and> value < lit (1 / 1000) then toFixed (value * lit 1000000) 0 @ (ue '' ~00B5s'')
         else if lit 0 < value \<and> value < lit 1
         then toFixed (value * lit 1000) (if value < lit (1 / 100) then 2 else 1) @ u '' ms''
         else compactNumber value @ u '' s'')
      else if unit = u ''percent'' then compactNumber value @ u ''%''
      else if unit = u ''up'' then (if lit 1 \<le> value then u ''UP'' else u ''DOWN'')
      else trim (compactNumber value @ u '' '' @ unit))"

definition formatCapacityValue :: "jsnum \<Rightarrow> str \<Rightarrow> str" where
  "formatCapacityValue value unit =
     (if unit = u ''cores'' then
        toFixed value (if Math_abs value < lit (1 / 100) then 3 else if Math_abs value < lit 1 then 2
          else if num_eq (value mod lit 1) (lit 0) then 0 else 1) @ u '' cores''
      else formatMetricValue value unit)"

datatype timestamp_arg = TS_num jsnum | TS_str str | TS_missing

definition formatTime :: "host \<Rightarrow> timestamp_arg \<Rightarrow> str" where
  "formatTime h ts =
     (if ts = TS_missing \<or> ts = TS_str [] then emdash
      else let n = (case ts of TS_num x \<Rightarrow> x | TS_str s \<Rightarrow> Number_of_str s | TS_missing \<Rightarrow> NaN) in
        if \<not> isFinite n \<or> n \<le> lit 0 then emdash
        else let ms = (if n < lit (10 ^ 11) then n * lit 1000 else n) in
          if \<not> time_valid ms then emdash else locale_time h ms)"

definition metricColor :: "MonitoringMetric \<Rightarrow> str" where
  "metricColor metric =
     (let has = (\<lambda>w. str_includes (mm_key metric) w) in
      if has (u ''error'') \<or> has (u ''failed'') \<or> has (u ''offline'') then (u ''#e11d48'')
      else if has (u ''queue'') \<or> has (u ''pending'') then (u ''#f59e0b'')
      else if has (u ''availability'') then (u ''#10b981'')
      else (u ''#159dcc''))"

section \<open>The page\<close>

datatype refresh_mode = RM_off | RM_15s | RM_30s | RM_60s

record monitoring_state =
  mon_response :: "MonitoringResponse option"
  mon_loading :: bool
  mon_error :: "str option"
  mon_autoRefresh :: refresh_mode
  mon_componentStatuses :: "(str \<times> MonitoringStatus) list"
  mon_requestSequence :: nat

definition monitoring_init :: monitoring_state where
  "monitoring_init = \<lparr>mon_response = None, mon_loading = True, mon_error = None, mon_autoRefresh = RM_30s,
     mon_componentStatuses = [], mon_requestSequence = 0\<rparr>"

definition activeComponent :: "params \<Rightarrow> str" where
  "activeComponent ps =
     (let requested = nullish (nullish2 (params_get ps (u ''component'')) (params_get ps (u ''tab'')))
            (cm_id (components ! 0))
      in if list_ex (\<lambda>c. cm_id c = requested) components then requested else cm_id (components ! 0))"

definition activeRange :: "params \<Rightarrow> time_range" where
  "activeRange ps =
     (let requestedRange = nullish (params_get ps (u ''range'')) (u ''1h'')
      in nullish (List.find (\<lambda>r. rg_id r = requestedRange) timeRanges) (timeRanges ! 1))"

definition componentMeta :: "str \<Rightarrow> component_meta" where
  "componentMeta active = nullish (List.find (\<lambda>c. cm_id c = active) components) (components ! 0)"

definition displayedMeta :: "monitoring_state \<Rightarrow> str \<Rightarrow> component_meta" where
  "displayedMeta s active =
     (let selected = Option.bind (mon_response s) (\<lambda>r. arr_at (mr_components r) 0)
      in nullish (Option.bind selected (\<lambda>sel. List.find (\<lambda>c. cm_id c = mc_id sel) components)) (componentMeta active))"

text \<open>The URL of the query; the identifiers it contains need no percent encoding.\<close>

definition monitoring_path :: "params \<Rightarrow> str option" where
  "monitoring_path ps =
     Option.bind (encodeURIComponent (activeComponent ps)) (\<lambda>c.
     Option.bind (encodeURIComponent (rg_id (activeRange ps))) (\<lambda>r.
     Some (u ''/v1/monitoring?component='' @ c @ u ''&range='' @ r @ u ''&step='' @ int_str (int (rg_step (activeRange ps))))))"

text \<open>The two halves of \<open>load\<close>: up to the \<open>await\<close>, and the rest with the outcome of the fetch.\<close>

definition load_begin :: "str \<Rightarrow> monitoring_state \<Rightarrow> monitoring_state" where
  "load_begin path s = s\<lparr>mon_requestSequence := Suc (mon_requestSequence s), mon_loading := True, mon_error := None\<rparr>"

definition merge_statuses :: "MonitoringComponent list \<Rightarrow> (str \<times> MonitoringStatus) list \<Rightarrow> (str \<times> MonitoringStatus) list" where
  "merge_statuses comps prev = fold (\<lambda>c. AList.update (mc_id c) (mc_status c)) comps prev"

definition load_settle :: "nat \<Rightarrow> str \<Rightarrow> str option + MonitoringResponse \<Rightarrow> monitoring_state \<Rightarrow> monitoring_state" where
  "load_settle requestID path outcome s =
     (let current = (requestID = mon_requestSequence s);
          s1 = (case outcome of
              Inr payload \<Rightarrow>
                if current then
                  let s' = s\<lparr>mon_response := Some payload\<rparr> in
                  if mr_components payload \<noteq> []
                  then s'\<lparr>mon_componentStatuses := merge_statuses (mr_components payload) (mon_componentStatuses s')\<rparr>
                  else s'
                else s
            | Inl message \<Rightarrow>
                if current then s\<lparr>mon_error := Some (nullish message (u ''Prometheus telemetry query failed''))\<rparr> else s)
      in if requestID = mon_requestSequence s1 then s1\<lparr>mon_loading := False\<rparr> else s1)"

definition refresh_interval :: "refresh_mode \<Rightarrow> nat option" where
  "refresh_interval m = (case m of RM_off \<Rightarrow> None | RM_15s \<Rightarrow> Some 15000 | RM_30s \<Rightarrow> Some 30000 | RM_60s \<Rightarrow> Some 60000)"

definition updateQuery :: "bool \<Rightarrow> str \<Rightarrow> params \<Rightarrow> params" where
  "updateQuery is_component value ps =
     (let key = (if is_component then u ''component'' else u ''range''); next_ps = params_set key value ps
      in if is_component then params_delete (u ''tab'') next_ps else next_ps)"

section \<open>Capacity chart\<close>

text \<open>\<open>xs.at(-1)?.value\<close>\<close>

definition latest_value :: "MonitoringPoint list \<Rightarrow> jsnum option" where
  "latest_value ps = (if ps = [] then None else Some (mp_value (last ps)))"

text \<open>A \<open>Map\<close> key: all NaNs are one key, and so are the two zeros.\<close>

definition monitoring_map_key :: "jsnum \<Rightarrow> jsnum" where
  "monitoring_map_key x = (if x = NegZero then Fin 0 else x)"

definition percent_clamp :: "jsnum \<Rightarrow> jsnum \<Rightarrow> jsnum" where
  "percent_clamp v tot = Math_min (lit 100) (Math_max (lit 0) (v / tot * lit 100))"

definition capacity_points :: "MonitoringMetric \<Rightarrow> MonitoringMetric \<Rightarrow> (jsnum \<times> jsnum) list" where
  "capacity_points used tot =
     (let latestTotal = latest_value (mm_points tot);
          totalByTimestamp = fold (\<lambda>p. AList.update (monitoring_map_key (mp_timestamp p)) (mp_value p)) (mm_points tot) []
      in concat (map (\<lambda>p. case nullish2 (map_of totalByTimestamp (monitoring_map_key (mp_timestamp p))) latestTotal of
             None \<Rightarrow> []
           | Some t \<Rightarrow> if t \<le> lit 0 then [] else [(mp_timestamp p, percent_clamp (mp_value p) t)]) (mm_points used)))"

definition capacity_utilization :: "MonitoringMetric \<Rightarrow> MonitoringMetric \<Rightarrow> jsnum option" where
  "capacity_utilization used tot = (case (latest_value (mm_points used), latest_value (mm_points tot)) of
      (Some v, Some t) \<Rightarrow> if lit 0 < t then Some (percent_clamp v t) else None
    | _ \<Rightarrow> None)"

section \<open>Telemetry grid\<close>

datatype display_group = DG_resource | DG_workload

datatype metric_display =
    Capacity_display MonitoringMetric MonitoringMetric capacity_pair str
  | Metric_display display_group MonitoringMetric "str option" bool

definition display_group_of :: "metric_display \<Rightarrow> display_group" where
  "display_group_of d = (case d of Capacity_display _ _ _ _ \<Rightarrow> DG_resource | Metric_display g _ _ _ \<Rightarrow> g)"

definition byKey :: "MonitoringMetric list \<Rightarrow> (str \<times> MonitoringMetric) list" where
  "byKey ms = fold (\<lambda>m. AList.update (mm_key m) m) ms []"

definition hidden_keys :: "MonitoringComponent \<Rightarrow> str list" where
  "hidden_keys sel =
     (let gpuValue = Option.bind (map_of (byKey (mc_metrics sel)) (u ''gpu_available'')) (\<lambda>m. latest_value (mm_points m));
          gpuAvailable = lit 0 < nullish gpuValue (lit 0)
      in u ''gpu_available'' # (if mc_id sel = u ''python-ml-worker'' \<and> \<not> gpuAvailable
           then [u ''gpu_utilization'', u ''gpu_memory_used'', u ''gpu_memory_total''] else []))"

definition is_zero :: "jsnum option \<Rightarrow> bool" where
  "is_zero v = (case v of None \<Rightarrow> False | Some x \<Rightarrow> num_eq x (lit 0))"

definition display_metric :: "MonitoringComponent \<Rightarrow> MonitoringMetric \<Rightarrow> metric_display list" where
  "display_metric sel metric =
     (let keys = byKey (mc_metrics sel);
          trafficIdle = is_zero (Option.bind (map_of keys (u ''throughput'')) (\<lambda>m. latest_value (mm_points m)));
          latest = latest_value (mm_points metric)
      in if mm_key metric = [] \<or> mm_points metric = [] \<or> mm_key metric \<in> set (hidden_keys sel) \<or>
            mm_key metric \<in> set (map cp_totalKey capacityPairs) then []
         else let pair = List.find (\<lambda>c. cp_usedKey c = mm_key metric) capacityPairs;
                  totalMetric = Option.bind pair (\<lambda>p. map_of keys (cp_totalKey p))
           in case (pair, totalMetric) of
              (Some p, Some t) \<Rightarrow>
                if mm_points t \<noteq> []
                then [Capacity_display metric t p (if cp_usedKey p = u ''gpu_memory_used''
                       then u ''Dedicated GPU VRAM telemetry from NVML'' else u ''Hardware device telemetry'')]
                else [Metric_display (if mm_key metric \<in> set resourceMetricKeys then DG_resource else DG_workload) metric
                   (if mm_key metric = u ''errors'' \<and> is_zero latest then Some (u ''Zero failures observed across window'')
                    else if mm_key metric = u ''throughput'' \<and> trafficIdle then Some (u ''Awaiting upstream pipeline events'') else None)
                   (mm_kind metric = u ''histogram p95'' \<and> trafficIdle)]
            | _ \<Rightarrow> [Metric_display (if mm_key metric \<in> set resourceMetricKeys then DG_resource else DG_workload) metric
                   (if mm_key metric = u ''errors'' \<and> is_zero latest then Some (u ''Zero failures observed across window'')
                    else if mm_key metric = u ''throughput'' \<and> trafficIdle then Some (u ''Awaiting upstream pipeline events'') else None)
                   (mm_kind metric = u ''histogram p95'' \<and> trafficIdle)])"

definition metricDisplays :: "MonitoringComponent option \<Rightarrow> metric_display list" where
  "metricDisplays selected = (case selected of None \<Rightarrow> []
     | Some sel \<Rightarrow> concat (map (display_metric sel) (mc_metrics sel)))"

definition workloadDisplays :: "MonitoringComponent option \<Rightarrow> metric_display list" where
  "workloadDisplays sel = filter (\<lambda>d. display_group_of d = DG_workload) (metricDisplays sel)"

definition resourceDisplays :: "MonitoringComponent option \<Rightarrow> metric_display list" where
  "resourceDisplays sel = filter (\<lambda>d. display_group_of d = DG_resource) (metricDisplays sel)"

section \<open>The page as an instance of the discipline\<close>

interpretation mon: latest_request load_begin load_settle mon_requestSequence mon_loading
  by unfold_locales
     (auto simp: load_begin_def load_settle_def Let_def split: sum.split)

lemma load_settle_latest:
  assumes "r = mon_requestSequence s"
  shows "load_settle r p (Inr payload) s =
      s\<lparr>mon_response := Some payload, mon_loading := False,
        mon_componentStatuses := merge_statuses (mr_components payload) (mon_componentStatuses s)\<rparr>"
    and "load_settle r p (Inl message) s =
      s\<lparr>mon_error := Some (nullish message (u ''Prometheus telemetry query failed'')), mon_loading := False\<rparr>"
  using assms by (simp_all add: load_settle_def Let_def merge_statuses_def)

lemma find_snoc:
  "List.find P (xs @ [c]) = (case List.find P xs of None \<Rightarrow> if P c then Some c else None | Some x \<Rightarrow> Some x)"
  by (induction xs) auto

lemma fold_update_values:
  assumes "\<forall>k v. map_of a k = Some v \<longrightarrow> Q v" "\<forall>p\<in>set ps. Q (g p)" "map_of (fold (\<lambda>p. AList.update (f p) (g p)) ps a) k = Some v"
  shows "Q v"
  using assms
proof (induction ps arbitrary: a)
  case (Cons p ps)
  have "\<forall>k v. map_of (AList.update (f p) (g p) a) k = Some v \<longrightarrow> Q v"
    using Cons.prems by (auto simp: update_conv')
  then show ?case using Cons by simp
qed auto

lemma merge_statuses_get:
  "map_of (merge_statuses comps prev) k =
     (case List.find (\<lambda>c. mc_id c = k) (rev comps) of Some c \<Rightarrow> Some (mc_status c) | None \<Rightarrow> map_of prev k)"
proof (induction comps arbitrary: prev)
  case (Cons c cs)
  show ?case using Cons by (auto simp: merge_statuses_def update_conv' find_snoc split: option.split)
qed (simp add: merge_statuses_def)

section \<open>Concrete data\<close>

definition sample_payload :: "MonitoringResponse" where
  "sample_payload = \<lparr>mr_component = (u ''nats''), mr_tab = None, mr_source = None, mr_range = (u ''1h''), mr_start = [],
     mr_end = [], mr_step_seconds = lit 60, mr_components = [\<lparr>mc_id = (u ''nats''), mc_name = (u ''NATS''), mc_group = [],
       mc_container = [], mc_status = MS_up, mc_metrics = []\<rparr>]\<rparr>"

section \<open>Properties\<close>

text \<open>
  Answers to overlapping monitoring queries may arrive in any
  order: once the newest query has been answered with a payload, the page shows that payload,
  is not loading, and its status board has the statuses of that payload over the earlier
  ones, whichever answers to older queries arrived before or after it.
\<close>

theorem monitoring_latest_wins:
  fixes s :: monitoring_state
  assumes "distinct (map fst rs)" "(mon_requestSequence s, p, Inr payload) \<in> set rs"
  defines "s' \<equiv> foldl (\<lambda>s (r, p, x). load_settle r p x s) s rs"
  shows "mon_response s' = Some payload \<and> \<not> mon_loading s' \<and> mon_error s' = mon_error s \<and>
    (\<forall>k. map_of (mon_componentStatuses s') k =
       (case List.find (\<lambda>c. mc_id c = k) (rev (mr_components payload)) of
          Some c \<Rightarrow> Some (mc_status c) | None \<Rightarrow> map_of (mon_componentStatuses s) k))"
proof -
  have "s' = load_settle (mon_requestSequence s) p (Inr payload) s"
    using mon.settle_all_latest [OF assms(1,2)] by (simp add: s'_def mon.settle_all_def)
  then show ?thesis by (simp add: load_settle_latest merge_statuses_get)
qed

theorem monitoring_latest_wins_witness:
  "mon_response (foldl (\<lambda>s (r, p, x). load_settle r p x s) (load_begin [] (load_begin [] monitoring_init))
     [(2, [], Inr sample_payload), (1, [], Inl None)]) = Some sample_payload"
  using monitoring_latest_wins [of "[(2, [], Inr sample_payload), (1, [], Inl None)]"
      "load_begin [] (load_begin [] monitoring_init)" "[]" sample_payload]
  by (simp add: load_begin_def monitoring_init_def)

text \<open>
  In every session of the page, with queries and answers interleaved
  in any way, the loading indicator is on exactly while the newest query is unanswered; an
  answer to an older query never turns it off.
\<close>

theorem monitoring_busy_iff:
  assumes "mon.session monitoring_init out s" "0 < mon_requestSequence s"
  shows "mon_loading s \<longleftrightarrow> (\<exists>p. (mon_requestSequence s, p) \<in> out)"
  using mon.session_busy [OF assms(1)] assms(2) by (simp add: monitoring_init_def)

theorem monitoring_busy_iff_witness:
  "\<not> mon_loading (load_settle 1 [] (Inl None) (load_begin [] monitoring_init))"
proof -
  have 1: "mon.session monitoring_init {(1, [])} (load_begin [] monitoring_init)"
    using mon.session.query [OF mon.session.start, of monitoring_init "[]"] by (simp add: monitoring_init_def)
  have "mon.session monitoring_init ({(1, [])} - {(1, [])}) (load_settle 1 [] (Inl None) (load_begin [] monitoring_init))"
    by (rule mon.session.answer [OF 1]) simp
  then show ?thesis
    using monitoring_busy_iff [of "{(1, [])} - {(1, [])}" "load_settle 1 [] (Inl None) (load_begin [] monitoring_init)"]
    by (simp add: mon.settle_seq mon.issue_seq)
qed

text \<open>
  Every utilization the capacity chart draws is a percentage between 0
  and 100 when the measured values are numbers and the totals finite, even when the measured
  value exceeds the total or is negative.
\<close>

theorem capacity_in_percent:
  assumes "\<forall>p\<in>set (mm_points used). mp_value p \<noteq> NaN" "\<forall>p\<in>set (mm_points tot). isFinite (mp_value p)"
    and "(t, x) \<in> set (capacity_points used tot)"
  shows "lit 0 \<le> x \<and> x \<le> lit 100"
proof -
  define m where "m = fold (\<lambda>p. AList.update (monitoring_map_key (mp_timestamp p)) (mp_value p)) (mm_points tot) []"
  have vals: "isFinite v" if "map_of m k = Some v" for k v
    by (rule fold_update_values [of "[]" isFinite "mm_points tot"]) (use that assms(2) in \<open>auto simp: m_def\<close>)
  obtain p tv where p: "p \<in> set (mm_points used)" "x = percent_clamp (mp_value p) tv" "\<not> tv \<le> lit 0"
    and tv: "nullish2 (map_of m (monitoring_map_key (mp_timestamp p))) (latest_value (mm_points tot)) = Some tv"
    using assms(3) by (auto simp: capacity_points_def Let_def m_def split: option.splits if_splits)
  have ft: "isFinite tv" using tv vals assms(2)
    by (cases "map_of m (monitoring_map_key (mp_timestamp p))") (auto simp: latest_value_def split: if_splits)
  then have pos: "0 < val tv" using p(3) by simp
  have "mp_value p / tv \<noteq> NaN" using assms(1) p(1) ft pos
    by (cases "mp_value p"; cases tv) (auto simp: divide_jsnum_def Let_def inf_of_def zero_of_def)
  then have "mp_value p / tv * lit 100 \<noteq> NaN"
    by (cases "mp_value p / tv") (auto simp: times_jsnum_def Let_def inf_of_def zero_of_def)
  then show ?thesis using p(2)
    Math_max_ge [of "lit 0" "mp_value p / tv * lit 100"] Math_max_not_NaN [of "lit 0" "mp_value p / tv * lit 100"]
    Math_min_le [of "lit 100" "Math_max (lit 0) (mp_value p / tv * lit 100)"]
    Math_min_cases [of "lit 100" "Math_max (lit 0) (mp_value p / tv * lit 100)"]
    by (auto simp: percent_clamp_def)
qed

theorem capacity_in_percent_witness:
  "percent_clamp (Fin 3) (Fin 2) \<le> lit 100"
proof -
  let ?m = "\<lambda>v. \<lparr>mm_key = [], mm_name = [], mm_unit = [], mm_kind = [], mm_points = [\<lparr>mp_timestamp = Fin 1, mp_value = v, mp_labels = None\<rparr>]\<rparr>"
  have "(Fin 1, percent_clamp (Fin 3) (Fin 2)) \<in> set (capacity_points (?m (Fin 3)) (?m (Fin 2)))"
    by (simp add: capacity_points_def Let_def latest_value_def monitoring_map_key_def)
  then show ?thesis using capacity_in_percent [of "?m (Fin 3)" "?m (Fin 2)" "Fin 1" "percent_clamp (Fin 3) (Fin 2)"] by simp
qed

end
