(* ===== verification/TargetDiscovery.thy ===== *)
theory TargetDiscovery
  imports JsText LatestRequest AnalyticsTypes NumSort
begin

text \<open>
  The target discovery page (\<open>pages/target-discovery/sections/TargetsTableSection.tsx\<close>): query
  parameters, the loading state machine, paging, the page statistics and the texts of the
  table. It is a second instance of the sequence-number discipline; in addition, what the
  page shows is proved to belong to one answered query at any time.
\<close>

section \<open>Data\<close>

record TargetResponse_page =
  rp_limit :: jsnum
  rp_offset :: jsnum
  rp_has_more :: bool

record TargetResponse =
  rs_count :: "jsnum option"
  rs_targets :: "Target list option"
  rs_page :: "TargetResponse_page option"

datatype filter_key = K_tic_id | K_sector | K_tmag_min | K_tmag_max | K_teff_min | K_teff_max | K_ra_min
  | K_ra_max | K_dec_min | K_dec_max | K_pipeline_status | K_has_lightcurve | K_has_candidate | K_sort

text \<open>A filter object as its entries, in the order of the object's fields.\<close>

type_synonym TargetFilters = "(filter_key \<times> str) list"

datatype LoadMode = LM_initial | LM_query | LM_refresh

definition PAGE_SIZE :: jsnum where
  "PAGE_SIZE = lit 100"

definition emptyFilters :: TargetFilters where
  "emptyFilters = [(K_tic_id, []), (K_sector, []), (K_tmag_min, []), (K_tmag_max, []), (K_teff_min, []),
     (K_teff_max, []), (K_ra_min, []), (K_ra_max, []), (K_dec_min, []), (K_dec_max, []), (K_pipeline_status, []),
     (K_has_lightcurve, []), (K_has_candidate, []), (K_sort, [])]"

definition filter_name :: "filter_key \<Rightarrow> str" where
  "filter_name k = (case k of K_tic_id \<Rightarrow> (u ''tic_id'') | K_sector \<Rightarrow> (u ''sector'') | K_tmag_min \<Rightarrow> (u ''tmag_min'')
     | K_tmag_max \<Rightarrow> (u ''tmag_max'') | K_teff_min \<Rightarrow> (u ''teff_min'') | K_teff_max \<Rightarrow> (u ''teff_max'') | K_ra_min \<Rightarrow> (u ''ra_min'')
     | K_ra_max \<Rightarrow> (u ''ra_max'') | K_dec_min \<Rightarrow> (u ''dec_min'') | K_dec_max \<Rightarrow> (u ''dec_max'')
     | K_pipeline_status \<Rightarrow> (u ''pipeline_status'') | K_has_lightcurve \<Rightarrow> (u ''has_lightcurve'')
     | K_has_candidate \<Rightarrow> (u ''has_candidate'') | K_sort \<Rightarrow> (u ''sort''))"

definition filterLabels :: "filter_key \<Rightarrow> str" where
  "filterLabels k = (case k of K_tic_id \<Rightarrow> (u ''TIC'') | K_sector \<Rightarrow> (u ''Sector'') | K_tmag_min \<Rightarrow> (ue ''Tmag ~2265'')
     | K_tmag_max \<Rightarrow> (ue ''Tmag ~2264'') | K_teff_min \<Rightarrow> (ue ''Teff ~2265'') | K_teff_max \<Rightarrow> (ue ''Teff ~2264'') | K_ra_min \<Rightarrow> (ue ''RA ~2265'')
     | K_ra_max \<Rightarrow> (ue ''RA ~2264'') | K_dec_min \<Rightarrow> (ue ''Dec ~2265'') | K_dec_max \<Rightarrow> (ue ''Dec ~2264'')
     | K_pipeline_status \<Rightarrow> (u ''State'') | K_has_lightcurve \<Rightarrow> (u ''Light curve'')
     | K_has_candidate \<Rightarrow> (u ''Candidate'') | K_sort \<Rightarrow> (u ''Sort''))"

section \<open>Formatting\<close>

definition formatNumber :: "jsnum option \<Rightarrow> nat \<Rightarrow> str" where
  "formatNumber value digits = (case value of Some v \<Rightarrow> if isFinite v then toFixed v digits else emdash | None \<Rightarrow> emdash)"

definition formatInteger :: "host \<Rightarrow> jsnum option \<Rightarrow> str" where
  "formatInteger h value = (case value of Some v \<Rightarrow> if isFinite v then number_locale h None v else emdash | None \<Rightarrow> emdash)"

definition formatPercent :: "jsnum \<Rightarrow> str" where
  "formatPercent value = toFixed (Math_max (lit 0) (Math_min (lit 100) value)) 1 @ u ''%''"

definition buildQuery :: "TargetFilters \<Rightarrow> jsnum \<Rightarrow> params" where
  "buildQuery filters offset =
     foldl (\<lambda>ps (k, v). if v \<noteq> [] then params_set (filter_name k) v ps else ps)
       [(u ''limit'', num_str PAGE_SIZE), (u ''offset'', num_str offset)] filters"

definition targetUrl :: "Target \<Rightarrow> str option" where
  "targetUrl t =
     map_option (\<lambda>snapshot. u ''/research-factory/workbench/'' @ num_str (tg_tic_id t) @ u ''?sector='' @
         num_str (tg_sector t) @ snapshot)
       (if tg_gold_snapshot_id t \<noteq> []
        then map_option ((@) (u ''&snapshot_id='')) (encodeURIComponent (tg_gold_snapshot_id t)) else Some [])"

definition targetKey :: "Target \<Rightarrow> str" where
  "targetKey t = num_str (tg_tic_id t) @ u '':'' @ num_str (tg_sector t) @ u '':'' @ tg_gold_snapshot_id t"

definition filterDisplayValue :: "filter_key \<Rightarrow> str \<Rightarrow> str" where
  "filterDisplayValue key value =
     (if key = K_has_lightcurve \<or> key = K_has_candidate
      then (if value = u ''true'' then u ''available'' else u ''missing'')
      else if key = K_sort
      then nullish (map_of [((u ''tmag_asc''), (u ''brightest first'')), ((u ''tmag_desc''), (u ''faintest first'')),
             ((u ''teff_asc''), (u ''coolest first'')), ((u ''teff_desc''), (u ''hottest first'')),
             ((u ''candidate_desc''), (u ''candidate score''))] value) value
      else value)"

section \<open>State and loading\<close>

record targets_state =
  tt_draftFilters :: TargetFilters
  tt_appliedFilters :: TargetFilters
  tt_targets :: "Target list"
  tt_total :: jsnum
  tt_offset :: jsnum
  tt_hasMore :: bool
  tt_loading :: bool
  tt_updating :: bool
  tt_error :: "str option"
  tt_requestSequence :: nat

definition targets_init :: targets_state where
  "targets_init = \<lparr>tt_draftFilters = emptyFilters, tt_appliedFilters = emptyFilters, tt_targets = [],
     tt_total = lit 0, tt_offset = lit 0, tt_hasMore = False, tt_loading = True, tt_updating = False,
     tt_error = None, tt_requestSequence = 0\<rparr>"

type_synonym target_query = "TargetFilters \<times> jsnum \<times> LoadMode"

definition loadTargets_begin :: "target_query \<Rightarrow> targets_state \<Rightarrow> targets_state" where
  "loadTargets_begin q s = (case q of (nextFilters, nextOffset, mode) \<Rightarrow>
     let s1 = s\<lparr>tt_requestSequence := Suc (tt_requestSequence s), tt_error := None\<rparr>
     in if mode = LM_initial then s1\<lparr>tt_loading := True\<rparr> else s1\<lparr>tt_updating := True\<rparr>)"

definition loadTargets_settle :: "nat \<Rightarrow> target_query \<Rightarrow> str option + TargetResponse \<Rightarrow> targets_state \<Rightarrow> targets_state" where
  "loadTargets_settle requestId q outcome s = (case q of (nextFilters, nextOffset, mode) \<Rightarrow>
     let s1 = (if requestId \<noteq> tt_requestSequence s then s
         else case outcome of
           Inr response \<Rightarrow> s\<lparr>tt_targets := nullish (rs_targets response) [], tt_total := nullish (rs_count response) (lit 0),
             tt_offset := nextOffset, tt_hasMore := nullish (map_option rp_has_more (rs_page response)) False,
             tt_appliedFilters := nextFilters\<rparr>
         | Inl message \<Rightarrow> s\<lparr>tt_error := Some (nullish message (u ''Unable to load TESS targets''))\<rparr>)
     in if requestId = tt_requestSequence s1 then s1\<lparr>tt_loading := False, tt_updating := False\<rparr> else s1)"

text \<open>The queries the controls start.\<close>

definition initial_query :: target_query where
  "initial_query = (emptyFilters, lit 0, LM_initial)"

definition onSubmit_query :: "targets_state \<Rightarrow> target_query" where
  "onSubmit_query s = (tt_draftFilters s, lit 0, LM_query)"

definition setFilter :: "filter_key \<Rightarrow> str \<Rightarrow> targets_state \<Rightarrow> targets_state" where
  "setFilter key value s = s\<lparr>tt_draftFilters := AList.update key value (tt_draftFilters s)\<rparr>"

definition clearFilters :: "targets_state \<Rightarrow> targets_state" where
  "clearFilters s = loadTargets_begin (emptyFilters, lit 0, LM_query) (s\<lparr>tt_draftFilters := emptyFilters\<rparr>)"

definition refresh_query :: "targets_state \<Rightarrow> target_query" where
  "refresh_query s = (tt_appliedFilters s, tt_offset s, LM_refresh)"

definition previous_query :: "targets_state \<Rightarrow> target_query" where
  "previous_query s = (tt_appliedFilters s, Math_max (lit 0) (tt_offset s - PAGE_SIZE), LM_query)"

definition next_query :: "targets_state \<Rightarrow> target_query" where
  "next_query s = (tt_appliedFilters s, tt_offset s + PAGE_SIZE, LM_query)"

section \<open>Statistics of the page\<close>

definition activeFilters :: "targets_state \<Rightarrow> TargetFilters" where
  "activeFilters s = filter (\<lambda>(k, v). v \<noteq> []) (tt_appliedFilters s)"

definition visibleLightcurves :: "targets_state \<Rightarrow> nat" where
  "visibleLightcurves s = length (filter tg_has_lightcurve (tt_targets s))"

definition visibleCandidates :: "targets_state \<Rightarrow> nat" where
  "visibleCandidates s = length (filter tg_has_candidate (tt_targets s))"

definition firstResult :: "targets_state \<Rightarrow> jsnum" where
  "firstResult s = (if num_eq (tt_total s) (lit 0) then lit 0 else tt_offset s + lit 1)"

definition lastResult :: "targets_state \<Rightarrow> jsnum" where
  "lastResult s = Math_min (tt_offset s + jsnum_of_nat (length (tt_targets s))) (tt_total s)"

definition tessMagnitudes :: "targets_state \<Rightarrow> jsnum list" where
  "tessMagnitudes s = filter isFinite (map tg_tess_mag (filter tg_tic_context_available (tt_targets s)))"

definition temperatures :: "targets_state \<Rightarrow> jsnum list" where
  "temperatures s = filter isFinite (map tg_effective_t (filter tg_tic_context_available (tt_targets s)))"

definition range_sorted :: "jsnum list \<Rightarrow> jsnum list" where
  "range_sorted values = sort_diff values"

definition range_middle :: "jsnum list \<Rightarrow> jsnum option" where
  "range_middle xs = (if xs = [] then None else Some (median_of xs))"

definition medianPosition :: "jsnum list \<Rightarrow> jsnum" where
  "medianPosition values =
     (let sorted = range_sorted values in
      case range_middle sorted of
        Some middle \<Rightarrow> if hd sorted < last sorted
          then (middle - hd sorted) / (last sorted - hd sorted) * lit 100 else lit 50
      | None \<Rightarrow> lit 50)"

definition coverage_percent :: "nat \<Rightarrow> nat \<Rightarrow> jsnum" where
  "coverage_percent cnt tot = (if 0 < tot then jsnum_of_nat cnt / jsnum_of_nat tot * lit 100 else lit 0)"

definition page_number :: "jsnum \<Rightarrow> jsnum \<Rightarrow> jsnum" where
  "page_number offset tot = (if lit 0 < tot then Math_floor (offset / PAGE_SIZE) + lit 1 else lit 0)"

definition page_count :: "jsnum \<Rightarrow> jsnum" where
  "page_count tot = (if lit 0 < tot then Math_ceil (tot / PAGE_SIZE) else lit 0)"

text \<open>The lines of text in the evidence cell.\<close>

definition transit_evidence_lines :: "Target \<Rightarrow> str list" where
  "transit_evidence_lines t =
     (if tg_has_candidate t then
        [formatPercent (tg_candidate_score t * lit 100) @ u '' score'',
         if tg_candidate_above_threshold t then u ''above threshold'' else u ''below threshold'']
      else if tg_matched_toi t \<noteq> [] then
        [tg_matched_toi t, if tg_disposition t \<noteq> [] then tg_disposition t else u ''TOI matched'']
      else [if tg_toi_match_status t \<noteq> [] then tg_toi_match_status t else u ''Not candidate-scored''])"

definition pipeline_tone :: "str \<Rightarrow> str" where
  "pipeline_tone status =
     (if status = u ''scored'' then (u ''border-primary/35 bg-primary/10 text-primary'')
      else if status = u ''ingested''
      then (u ''border-emerald-500/35 bg-emerald-500/10 text-emerald-700 dark:text-emerald-300'')
      else (u ''border-border bg-muted/40 text-muted-foreground''))"

section \<open>The page as an instance of the discipline\<close>

interpretation tgt: latest_request loadTargets_begin loadTargets_settle tt_requestSequence
    "\<lambda>s. tt_loading s \<or> tt_updating s"
  by unfold_locales
     (auto simp: loadTargets_begin_def loadTargets_settle_def Let_def split: sum.split prod.split)

text \<open>
  What the page shows belongs together: either nothing has been loaded, or the rows, the
  total, the offset, the filters and the paging flag come from one answered query.
\<close>

definition page_of :: "target_query \<Rightarrow> TargetResponse \<Rightarrow> targets_state \<Rightarrow> bool" where
  "page_of q r s = (case q of (f, off, mode) \<Rightarrow>
     tt_targets s = nullish (rs_targets r) [] \<and> tt_total s = nullish (rs_count r) (lit 0) \<and>
     tt_offset s = off \<and> tt_appliedFilters s = f \<and>
     tt_hasMore s = nullish (map_option rp_has_more (rs_page r)) False)"

definition shown_part :: "targets_state \<Rightarrow> Target list \<times> jsnum \<times> jsnum \<times> TargetFilters \<times> bool" where
  "shown_part s = (tt_targets s, tt_total s, tt_offset s, tt_appliedFilters s, tt_hasMore s)"

lemma page_of_cong: "shown_part s = shown_part s' \<Longrightarrow> page_of q r s = page_of q r s'"
  by (simp add: page_of_def shown_part_def split: prod.split)

lemma begin_shown: "shown_part (loadTargets_begin q s) = shown_part s"
  by (simp add: loadTargets_begin_def shown_part_def Let_def split: prod.split)

lemma settle_shown:
  "shown_part (loadTargets_settle i q x s) = shown_part s \<or> (\<exists>r. x = Inr r \<and> i = tt_requestSequence s \<and> page_of q r (loadTargets_settle i q x s))"
  by (cases x) (auto simp: loadTargets_settle_def shown_part_def page_of_def Let_def split: prod.split)

lemma settle_latest_page:
  assumes "i = tt_requestSequence s"
  shows "page_of q r (loadTargets_settle i q (Inr r) s) \<and> tt_error (loadTargets_settle i q (Inr r) s) = tt_error s"
  using assms by (auto simp: loadTargets_settle_def page_of_def Let_def split: prod.split)

lemma session_page:
  "tgt.session targets_init out s \<Longrightarrow> shown_part s = shown_part targets_init \<or> (\<exists>q r. page_of q r s)"
proof (induction rule: tgt.session.induct)
  case (query out s q)
  then show ?case using begin_shown [of q s] page_of_cong [OF begin_shown [of q s]] by auto
next
  case (answer out s i q x)
  from settle_shown [of i q x s] show ?case
  proof
    assume "shown_part (loadTargets_settle i q x s) = shown_part s"
    then show ?thesis using answer.IH page_of_cong by metis
  qed blast
qed simp

section \<open>Query parameters\<close>

lemma filter_name_inj: "filter_name k = filter_name k' \<longleftrightarrow> k = k'"
  by (cases k; cases k') (simp_all add: filter_name_def)

lemma filter_name_reserved: "filter_name k \<noteq> u ''limit''" "filter_name k \<noteq> u ''offset''"
  by (cases k; simp add: filter_name_def)+

lemma build_fold_get:
  assumes "distinct (map fst fs)"
  shows "params_get (foldl (\<lambda>ps (k, v). if v \<noteq> [] then params_set (filter_name k) v ps else ps) ps fs) (filter_name k) =
      (case map_of fs k of Some v \<Rightarrow> if v \<noteq> [] then Some v else params_get ps (filter_name k)
       | None \<Rightarrow> params_get ps (filter_name k))"
    and "n \<notin> range filter_name \<Longrightarrow>
      params_get (foldl (\<lambda>ps (k, v). if v \<noteq> [] then params_set (filter_name k) v ps else ps) ps fs) n = params_get ps n"
  using assms
proof (induction fs arbitrary: ps)
  case (Cons f fs)
  obtain a b where f: "f = (a, b)" by (cases f)
  { case 1
    have "map_of fs a = None" using 1 by (auto simp: f map_of_eq_None_iff)
    then show ?case using Cons.IH(1) 1 by (auto simp: f params_get_set filter_name_inj split: option.split)
  next
    case 2
    then show ?case using Cons.IH(2) by (auto simp: f params_get_set)
  }
qed simp_all

lemma build_fold_distinct:
  "distinct (map fst ps) \<Longrightarrow>
   distinct (map fst (foldl (\<lambda>ps (k, v). if v \<noteq> [] then params_set (filter_name k) v ps else ps) ps fs))"
  by (induction fs arbitrary: ps) (auto simp: params_set_distinct)

section \<open>Concrete data\<close>

definition sample_response :: TargetResponse where
  "sample_response = \<lparr>rs_count = Some (lit 0), rs_targets = Some [], rs_page = None\<rparr>"

section \<open>Properties\<close>

text \<open>
  However the answers to overlapping target queries arrive, once the
  newest query has been answered with a response the page shows exactly that response under
  the filters and the offset that were asked for, and is neither loading nor updating.
\<close>

theorem targets_latest_wins:
  fixes s :: targets_state
  assumes "distinct (map fst rs)" "(tt_requestSequence s, q, Inr r) \<in> set rs"
  defines "s' \<equiv> foldl (\<lambda>s (i, q, x). loadTargets_settle i q x s) s rs"
  shows "page_of q r s' \<and> \<not> tt_loading s' \<and> \<not> tt_updating s'"
proof -
  have s': "s' = loadTargets_settle (tt_requestSequence s) q (Inr r) s"
    using tgt.settle_all_latest [OF assms(1,2)] by (simp add: s'_def tgt.settle_all_def)
  then show ?thesis using settle_latest_page [OF refl, of q r s] tgt.settle_idle [OF refl, of s q "Inr r"] by simp
qed

theorem targets_latest_wins_witness:
  "page_of (onSubmit_query targets_init) sample_response (foldl (\<lambda>s (i, q, x). loadTargets_settle i q x s)
     (loadTargets_begin (onSubmit_query targets_init) (loadTargets_begin initial_query targets_init))
     [(2, onSubmit_query targets_init, Inr sample_response), (1, initial_query, Inl None)])"
  using targets_latest_wins [of "[(2, onSubmit_query targets_init, Inr sample_response), (1, initial_query, Inl None)]"
      "loadTargets_begin (onSubmit_query targets_init) (loadTargets_begin initial_query targets_init)"
      "onSubmit_query targets_init" sample_response]
  by (simp add: loadTargets_begin_def targets_init_def initial_query_def onSubmit_query_def)



text \<open>
  The query string has each parameter once, the page size and offset,
  and precisely the filters that are not empty, with their values.
\<close>

theorem build_query_exact:
  assumes "distinct (map fst filters)"
  shows "distinct (map fst (buildQuery filters off)) \<and>
    params_get (buildQuery filters off) (u ''limit'') = Some (num_str PAGE_SIZE) \<and>
    params_get (buildQuery filters off) (u ''offset'') = Some (num_str off) \<and>
    (\<forall>k. params_get (buildQuery filters off) (filter_name k) =
       (case map_of filters k of Some v \<Rightarrow> if v \<noteq> [] then Some v else None | None \<Rightarrow> None))"
proof -
  let ?ps = "[(u ''limit'', num_str PAGE_SIZE), (u ''offset'', num_str off)]"
  have n: "u ''limit'' \<notin> range filter_name" "u ''offset'' \<notin> range filter_name"
    using filter_name_reserved by (metis rangeE)+
  have "params_get ?ps (filter_name k) = None" for k
    using filter_name_reserved [of k] by (simp add: params_get_def)
  then show ?thesis
    using build_fold_get [OF assms, where ps = ?ps] n build_fold_distinct [of ?ps filters]
    by (auto simp: buildQuery_def params_get_def split: option.split)
qed

theorem build_query_exact_witness:
  "params_get (buildQuery (AList.update K_sector (u ''2'') emptyFilters) (lit 0)) (u ''sector'') = Some (u ''2'')"
proof -
  have d: "distinct (map fst (AList.update K_sector (u ''2'') emptyFilters))" by (simp add: emptyFilters_def)
  have "map_of (AList.update K_sector (u ''2'') emptyFilters) K_sector = Some (u ''2'')" by (simp add: emptyFilters_def)
  then show ?thesis
    using build_query_exact [OF d, of "lit 0"] by (auto simp: filter_name_def dest!: spec [of _ K_sector])
qed

text \<open>
  The median marker of a range summary is drawn between 0 and 100
  percent: the computed median lies between the least and the greatest value, and rounding of
  its relative position never leaves the bar. (Values are finite and below \<open>2^1000\<close>.)
\<close>

theorem median_marker_in_range:
  assumes "\<forall>x\<in>set values. num_ok x \<and> \<bar>val x\<bar> \<le> 2 ^ 1000"
  shows "Fin 0 \<le> medianPosition values \<and> medianPosition values \<le> lit 100"
proof (cases "values = [] \<or> \<not> hd (sort_diff values) < last (sort_diff values)")
  case True
  have "sort_diff [] = []" by (simp add: sort_diff_def)
  then have "medianPosition values = lit 50"
    using True by (auto simp: medianPosition_def range_sorted_def range_middle_def Let_def)
  then show ?thesis by simp
next
  case False
  let ?ys = "sort_diff values"
  have ne: "values \<noteq> []" using False by blast
  then have "length ?ys \<noteq> 0" by simp
  then have ne': "?ys \<noteq> []" by blast
  note ne = ne ne'
  have e: "hd ?ys = ?ys ! 0" "last ?ys = ?ys ! (length ?ys - 1)" using ne by (simp_all add: hd_conv_nth last_conv_nth)
  have mem: "hd ?ys \<in> set values" "last ?ys \<in> set values"
    using ne hd_in_set [of ?ys] last_in_set [of ?ys] by (auto simp: sort_diff_def)
  then have b: "num_ok (hd ?ys)" "num_ok (last ?ys)" "\<bar>val (hd ?ys)\<bar> \<le> 2 ^ 1000" "\<bar>val (last ?ys)\<bar> \<le> 2 ^ 1000"
    using assms by blast+
  have "val (hd ?ys) < val (last ?ys)" using False b by (simp add: num_ok_def)
  then have "Fin 0 \<le> (median_of ?ys - hd ?ys) / (last ?ys - hd ?ys) * lit 100 \<and>
      (median_of ?ys - hd ?ys) / (last ?ys - hd ?ys) * lit 100 \<le> lit 100"
    using median_between [OF assms ne(1)] b unfolding e by (intro position_percent) auto
  then show ?thesis
    using False ne by (simp add: medianPosition_def range_sorted_def range_middle_def Let_def)
qed

theorem median_marker_in_range_witness:
  "medianPosition [Fin 3, Fin 1, Fin 2] \<le> lit 100"
proof -
  have "num_ok (Fin 1)" "num_ok (Fin 2)" "num_ok (Fin 3)"
    using wf_lit [of 1] wf_lit [of 2] wf_lit [of 3] by (simp_all add: num_ok_def)
  then show ?thesis using median_marker_in_range [of "[Fin 3, Fin 1, Fin 2]"] by (simp add: one_le_power)
qed

end
