(* ===== verification/ModelRegistry.thy ===== *)
theory ModelRegistry
  imports JsText
begin

text \<open>
  The data contract of the model registry and its formatting helpers
  (\<open>pages/model-registry/types.ts\<close>), used by the training laboratory and the model pages.
\<close>

section \<open>Data\<close>

record ModelRecord =
  md_model_id :: str
  md_runtime_package_id :: str
  md_task :: str
  md_model_version :: str
  md_status :: str
  md_runtime_manifest_key :: str
  md_preprocessing_version :: str
  md_feature_count :: jsnum
  md_feature_order :: "str list"
  md_onnx_size_bytes :: jsnum
  md_onnx_sha256 :: str
  md_decision_threshold :: jsnum
  md_parity_status :: str
  md_integrity_status :: str
  md_evaluation_run_id :: str
  md_created_at :: str
  md_gold_snapshot_id :: "str option"

record ModelResponse =
  mdr_models :: "ModelRecord list"

record ModelDeployResponse =
  mdd_status :: str
  mdd_model_id :: str
  mdd_task :: str
  mdd_active :: bool
  mdd_message :: str
  mdd_ticket_id :: "str option"
  mdd_runtime_validation_id :: "str option"
  mdd_engine :: "str option"
  mdd_max_absolute_error :: "jsnum option"
  mdd_max_relative_error :: "jsnum option"

datatype promotion_status = PS_running | PS_completed | PS_failed

record ModelPromotionState =
  mps_ticketId :: str
  mps_runtimePackageId :: str
  mps_status :: promotion_status
  mps_phase :: str
  mps_progressPercent :: jsnum
  mps_message :: str
  mps_parityCases :: "jsnum option"
  mps_runtimeValidationId :: "str option"
  mps_engine :: "str option"
  mps_maxAbsoluteError :: "jsnum option"
  mps_maxRelativeError :: "jsnum option"
  mps_error :: "str option"

datatype TaskType = Task_all | Task_candidate_vetting

definition taskLabel :: "(str \<times> str) list" where
  "taskLabel = [(u ''candidate_vetting'', u ''Candidate vetting (Exoplanets)'')]"

section \<open>Formatting\<close>

definition registry_formatBytes :: "jsnum \<Rightarrow> str" where
  "registry_formatBytes bytes =
     (if \<not> truthy bytes then emdash
      else if bytes < lit 1024 then (num_str bytes @ u '' B'')
      else if bytes < lit 1024 * lit 1024 then (toFixed (bytes / lit 1024) 1 @ u '' KB'')
      else if bytes < lit 1024 * lit 1024 * lit 1024 then (toFixed (bytes / (lit 1024 * lit 1024)) 1 @ u '' MB'')
      else (toFixed (bytes / (lit 1024 * lit 1024 * lit 1024)) 2 @ u '' GB''))"

definition formatDate :: "host \<Rightarrow> str \<Rightarrow> str" where
  "formatDate h value =
     (if value = [] then emdash
      else let date = date_parse h value in if isNaN date then value else locale_string h date)"

datatype badge_variant = BV_default | BV_secondary | BV_destructive | BV_outline

definition statusVariant :: "str \<Rightarrow> badge_variant" where
  "statusVariant status =
     (if status = u ''champion'' \<or> status = u ''completed'' then BV_default
      else if status = u ''invalid'' then BV_destructive
      else if status = u ''validated'' \<or> status = u ''planned'' then BV_secondary
      else BV_outline)"

text \<open>A destructive badge is shown for invalid models only, a default one only for models in use or done.\<close>

lemma statusVariant_iff:
  "statusVariant s = BV_destructive \<longleftrightarrow> s = u ''invalid''"
  "statusVariant s = BV_default \<longleftrightarrow> s \<in> {u ''champion'', u ''completed''}"
  by (auto simp: statusVariant_def)

end
