(* ===== verification/TrainingLab.thy ===== *)
theory TrainingLab
  imports ModelRegistry NumSort LatestRequest
begin

text \<open>
  The training laboratory (\<open>pages/training-lab\<close>): the data contract and stored configuration
  of \<open>types.ts\<close>, and the state machine of \<open>page.tsx\<close>: the inventories of models and Gold
  snapshots, the readiness query of the selected cohort, the launch of a run and its live
  monitoring from workflow events. A handler with an \<open>await\<close> is split there; the events
  after it take the outcome of the fetch, \<open>Inl\<close> the message of the error (\<open>None\<close> when
  what was thrown is no \<open>Error\<close>).
\<close>

section \<open>Data\<close>

datatype compute_target = CT_cpu | CT_gpu
datatype training_mode = TM_fine_tune | TM_scratch
datatype training_intent = TI_new | TI_evolve
datatype run_status = RS_queued | RS_running | RS_completed | RS_failed | RS_cancelled
datatype log_level = LL_info | LL_warn | LL_error | LL_success

record TrainingParams =
  tp_task :: str
  tp_baseModelId :: str
  tp_mode :: training_mode
  tp_snapshotIds :: "str list"
  tp_epochs :: jsnum
  tp_learningRate :: jsnum
  tp_batchSize :: jsnum
  tp_seed :: jsnum
  tp_computeTarget :: compute_target

record TrainingResponse =
  tres_ticket_id :: str
  tres_task :: str
  tres_gold_snapshot_ids :: "str list"
  tres_training_mode :: str
  tres_base_model_id :: "str option"
  tres_compute_target :: compute_target
  tres_status :: str
  tres_created_at :: str
  tres_message :: str

record GoldSnapshotItem =
  gsi_snapshot_id :: str
  gsi_key :: str
  gsi_size_bytes :: jsnum
  gsi_last_modified :: str
  gsi_is_trained :: bool
  gsi_trained_model_id :: "str option"

record inventory_snapshot =
  gs_snapshot_id :: str
  gs_manifest_key :: str
  gs_size_bytes :: jsnum
  gs_last_modified :: str
  gs_created_at :: str
  gs_status :: str

record GoldSnapshotInventoryResponse =
  gsr_snapshots :: "inventory_snapshot list"

record loss_point =
  lh_epoch :: jsnum
  lh_trainLoss :: jsnum
  lh_valLoss :: jsnum
  lh_isBest :: "bool option"

record training_log =
  lg_timestamp :: str
  lg_message :: str
  lg_level :: "log_level option"

record ActiveTrainingState =
  at_ticketId :: str
  at_task :: str
  at_snapshotCount :: jsnum
  at_baseModel :: str
  at_epochs :: jsnum
  at_computeTarget :: "compute_target option"
  at_startedAt :: jsnum
  at_status :: run_status
  at_phase :: "str option"
  at_progressPercent :: "jsnum option"
  at_currentEpoch :: "jsnum option"
  at_totalEpochs :: "jsnum option"
  at_bestEpoch :: "jsnum option"
  at_bestValidationLoss :: "jsnum option"
  at_trainLoss :: "jsnum option"
  at_valLoss :: "jsnum option"
  at_lossHistory :: "loss_point list option"
  at_logs :: "training_log list option"
  at_updatedAt :: "str option"

datatype cohort_tier = TIER_BLOCKED | TIER_EXPERIMENTAL | TIER_PRODUCTION_CANDIDATE

record CohortReadiness =
  rd_snapshot_id :: "str option"
  rd_snapshot_ids :: "str list"
  rd_total_rows :: jsnum
  rd_positive_rows :: jsnum
  rd_negative_rows :: jsnum
  rd_unresolved_rows :: jsnum
  rd_positive_targets :: jsnum
  rd_negative_targets :: jsnum
  rd_ready :: "bool option"
  rd_tier :: cohort_tier
  rd_policy_version :: "str option"
  rd_experimental_minimum_positive_targets :: jsnum
  rd_experimental_minimum_negative_targets :: jsnum
  rd_production_candidate_minimum_positive_targets :: jsnum
  rd_production_candidate_minimum_negative_targets :: jsnum
  rd_negative_diversity_target :: jsnum
  rd_negative_diversity_target_met :: "bool option"
  rd_blocker :: "str option"

section \<open>The stored configuration\<close>

text \<open>
  The type says the last five fields are strings; what is read from storage is only cast to
  it, so they are whatever JSON value is there: the shape is shared, the field type is not.
\<close>

record 'v config_shape =
  sc_intent :: training_intent
  sc_computeTarget :: compute_target
  sc_baseModelId :: 'v
  sc_epochs :: 'v
  sc_learningRate :: 'v
  sc_batchSize :: 'v
  sc_seed :: 'v

type_synonym StoredTrainingConfig = "str config_shape"

definition TRAINING_CONFIG_KEY :: str where
  "TRAINING_CONFIG_KEY = u ''aurora.training-lab.config.v1''"

definition DEFAULT_CONFIG :: StoredTrainingConfig where
  "DEFAULT_CONFIG = \<lparr>sc_intent = TI_new, sc_computeTarget = CT_gpu, sc_baseModelId = u ''champion'',
     sc_epochs = u ''50'', sc_learningRate = u ''0.001'', sc_batchSize = u ''32'', sc_seed = u ''42''\<rparr>"

definition untyped_config :: "StoredTrainingConfig \<Rightarrow> json config_shape" where
  "untyped_config c = \<lparr>sc_intent = sc_intent c, sc_computeTarget = sc_computeTarget c,
     sc_baseModelId = JStr (sc_baseModelId c), sc_epochs = JStr (sc_epochs c),
     sc_learningRate = JStr (sc_learningRate c), sc_batchSize = JStr (sc_batchSize c), sc_seed = JStr (sc_seed c)\<rparr>"

text \<open>
  The storage item: reading it can throw, it can be absent, and its text can fail to parse.
  \<open>stored.intent\<close> on a parsed \<open>null\<close> throws as well.
\<close>

datatype storage_item = Item_throws | Item_absent | Item_malformed | Item_json json

definition or_json :: "json option \<Rightarrow> str \<Rightarrow> json" where
  "or_json v d = (if json_truthy v then the v else JStr d)"

definition readStoredConfig :: "storage_item \<Rightarrow> json config_shape" where
  "readStoredConfig item =
     (let read = (\<lambda>j. let f = json_prop (Some j) in
        \<lparr>sc_intent = (if f (u ''intent'') = Some (JStr (u ''evolve'')) then TI_evolve else TI_new),
         sc_computeTarget = (if f (u ''computeTarget'') = Some (JStr (u ''cpu'')) then CT_cpu else CT_gpu),
         sc_baseModelId = or_json (f (u ''baseModelId'')) (sc_baseModelId DEFAULT_CONFIG),
         sc_epochs = or_json (f (u ''epochs'')) (sc_epochs DEFAULT_CONFIG),
         sc_learningRate = or_json (f (u ''learningRate'')) (sc_learningRate DEFAULT_CONFIG),
         sc_batchSize = or_json (f (u ''batchSize'')) (sc_batchSize DEFAULT_CONFIG),
         sc_seed = or_json (f (u ''seed'')) (sc_seed DEFAULT_CONFIG)\<rparr>)
      in case item of Item_throws \<Rightarrow> untyped_config DEFAULT_CONFIG
         | Item_malformed \<Rightarrow> untyped_config DEFAULT_CONFIG
         | Item_absent \<Rightarrow> read (JObj [])
         | Item_json j \<Rightarrow> if j = JNull then untyped_config DEFAULT_CONFIG else read j)"

text \<open>The object the page writes back.\<close>

definition intent_str :: "training_intent \<Rightarrow> str" where
  "intent_str i = (case i of TI_new \<Rightarrow> u ''new'' | TI_evolve \<Rightarrow> u ''evolve'')"

definition compute_str :: "compute_target \<Rightarrow> str" where
  "compute_str c = (case c of CT_cpu \<Rightarrow> u ''cpu'' | CT_gpu \<Rightarrow> u ''gpu'')"

definition config_json :: "StoredTrainingConfig \<Rightarrow> json" where
  "config_json c = JObj [(u ''intent'', JStr (intent_str (sc_intent c))),
     (u ''computeTarget'', JStr (compute_str (sc_computeTarget c))), (u ''baseModelId'', JStr (sc_baseModelId c)),
     (u ''epochs'', JStr (sc_epochs c)), (u ''learningRate'', JStr (sc_learningRate c)),
     (u ''batchSize'', JStr (sc_batchSize c)), (u ''seed'', JStr (sc_seed c))]"

section \<open>Page state\<close>

datatype toast = Toast_success str "str option" | Toast_info str | Toast_error str

record training_lab =
  tl_models :: "ModelRecord list"
  tl_availableSnapshots :: "GoldSnapshotItem list"
  tl_snapshotsLoading :: bool
  tl_error :: "str option"
  tl_intent :: training_intent
  tl_computeTarget :: compute_target
  tl_baseModelId :: str
  tl_epochs :: str
  tl_learningRate :: str
  tl_batchSize :: str
  tl_seed :: str
  tl_trainingSubmitting :: bool
  tl_activeTraining :: "ActiveTrainingState option"
  tl_trainingElapsed :: jsnum
  tl_forceConfigMode :: bool
  tl_selectedSnapshotIds :: "str list"
  tl_readiness :: "CohortReadiness option"
  tl_readinessLoading :: bool
  tl_readinessRun :: nat \<comment> \<open>runs of the readiness effect; the last one is the active one\<close>
  tl_toasts :: "toast list"
  tl_modelLoads :: nat \<comment> \<open>fetches started by \<open>loadModels\<close>\<close>
  tl_snapshotLoads :: nat \<comment> \<open>fetches started by \<open>loadAvailableSnapshots\<close>\<close>

definition training_lab_init :: "StoredTrainingConfig \<Rightarrow> training_lab" where
  "training_lab_init c = \<lparr>tl_models = [], tl_availableSnapshots = [], tl_snapshotsLoading = False, tl_error = None,
     tl_intent = sc_intent c, tl_computeTarget = sc_computeTarget c, tl_baseModelId = sc_baseModelId c,
     tl_epochs = sc_epochs c, tl_learningRate = sc_learningRate c, tl_batchSize = sc_batchSize c, tl_seed = sc_seed c,
     tl_trainingSubmitting = False, tl_activeTraining = None, tl_trainingElapsed = Fin 0, tl_forceConfigMode = False,
     tl_selectedSnapshotIds = [], tl_readiness = None, tl_readinessLoading = False, tl_readinessRun = 0,
     tl_toasts = [], tl_modelLoads = 0, tl_snapshotLoads = 0\<rparr>"

definition saved_config :: "training_lab \<Rightarrow> json" where
  "saved_config s = config_json \<lparr>sc_intent = tl_intent s, sc_computeTarget = tl_computeTarget s,
     sc_baseModelId = tl_baseModelId s, sc_epochs = tl_epochs s, sc_learningRate = tl_learningRate s,
     sc_batchSize = tl_batchSize s, sc_seed = tl_seed s\<rparr>"

section \<open>Inventories\<close>

definition loadModels_begin :: "training_lab \<Rightarrow> training_lab" where
  "loadModels_begin s = s\<lparr>tl_modelLoads := Suc (tl_modelLoads s)\<rparr>"

definition loadModels_settle :: "str option + ModelRecord list option \<Rightarrow> training_lab \<Rightarrow> training_lab" where
  "loadModels_settle outcome s = (case outcome of
      Inr models \<Rightarrow> s\<lparr>tl_models := nullish models []\<rparr>
    | Inl message \<Rightarrow> s\<lparr>tl_error := Some (nullish message (u ''Unable to load models''))\<rparr>)"

definition trainedSnapshotSet :: "ModelRecord list \<Rightarrow> (str \<times> str) list" where
  "trainedSnapshotSet models =
     fold (\<lambda>m a. case md_gold_snapshot_id m of
         Some g \<Rightarrow> if g \<noteq> [] then AList.update g (md_model_id m) a else a | None \<Rightarrow> a) models []"

definition snapshot_item :: "ModelRecord list \<Rightarrow> inventory_snapshot \<Rightarrow> GoldSnapshotItem" where
  "snapshot_item models snapshot =
     (let trainedModelID = map_of (trainedSnapshotSet models) (gs_snapshot_id snapshot)
      in \<lparr>gsi_snapshot_id = gs_snapshot_id snapshot,
          gsi_key = opt_or_str (Some (gs_manifest_key snapshot)) [],
          gsi_size_bytes = gs_size_bytes snapshot,
          gsi_last_modified = (if gs_last_modified snapshot \<noteq> [] then gs_last_modified snapshot
             else if gs_created_at snapshot \<noteq> [] then gs_created_at snapshot else []),
          gsi_is_trained = (trainedModelID \<noteq> None),
          gsi_trained_model_id = (case trainedModelID of Some m \<Rightarrow> if m \<noteq> [] then Some m else None | None \<Rightarrow> None)\<rparr>)"

text \<open>The comparator is not positive: a NaN difference counts as zero.\<close>

definition snapshot_le :: "host \<Rightarrow> GoldSnapshotItem \<Rightarrow> GoldSnapshotItem \<Rightarrow> bool" where
  "snapshot_le h a b =
     (if gsi_is_trained a \<noteq> gsi_is_trained b then \<not> gsi_is_trained a
      else let d = date_parse h (gsi_last_modified b) - date_parse h (gsi_last_modified a) in d = NaN \<or> d \<le> lit 0)"

definition snapshot_list :: "host \<Rightarrow> ModelRecord list \<Rightarrow> inventory_snapshot list \<Rightarrow> GoldSnapshotItem list" where
  "snapshot_list h models snapshots =
     sort_by (snapshot_le h) (map (snapshot_item models)
       (filter (\<lambda>x. gs_status x = [] \<or> gs_status x = u ''COMMITTED'') snapshots))"

definition loadAvailableSnapshots_begin :: "training_lab \<Rightarrow> training_lab" where
  "loadAvailableSnapshots_begin s = s\<lparr>tl_snapshotsLoading := True, tl_snapshotLoads := Suc (tl_snapshotLoads s)\<rparr>"

text \<open>\<open>models\<close> is the list the callback closed over when the fetch was started.\<close>

definition loadAvailableSnapshots_settle ::
  "host \<Rightarrow> ModelRecord list \<Rightarrow> str option + GoldSnapshotInventoryResponse \<Rightarrow> training_lab \<Rightarrow> training_lab" where
  "loadAvailableSnapshots_settle h models outcome s =
     (case outcome of
        Inr inventory \<Rightarrow> s\<lparr>tl_availableSnapshots := snapshot_list h models (gsr_snapshots inventory)\<rparr>
      | Inl _ \<Rightarrow> s\<lparr>tl_availableSnapshots := []\<rparr>)\<lparr>tl_snapshotsLoading := False\<rparr>"

section \<open>Rehydration\<close>

record soft_loss =
  sl_epoch :: jsnum
  sl_train_loss :: jsnum
  sl_val_loss :: jsnum
  sl_is_best :: "bool option"

record soft_state =
  so_ticket_id :: str
  so_task :: str
  so_snapshot_count :: jsnum
  so_base_model_id :: "str option"
  so_compute_target :: "compute_target option"
  so_status :: run_status
  so_phase :: "str option"
  so_progress_percent :: "jsnum option"
  so_current_epoch :: "jsnum option"
  so_total_epochs :: "jsnum option"
  so_best_epoch :: "jsnum option"
  so_best_val_loss :: "jsnum option"
  so_train_loss :: "jsnum option"
  so_val_loss :: "jsnum option"
  so_loss_history :: "soft_loss list option"
  so_logs :: "training_log list option"
  so_started_at :: "jsnum option"
  so_updated_at :: "str option"
  so_error :: "str option"

definition rehydrated :: "jsnum \<Rightarrow> soft_state \<Rightarrow> ActiveTrainingState" where
  "rehydrated now s = \<lparr>at_ticketId = so_ticket_id s, at_task = so_task s, at_snapshotCount = so_snapshot_count s,
     at_baseModel = opt_or_str (so_base_model_id s) [], at_epochs = opt_or_num (so_total_epochs s) (lit 50),
     at_computeTarget = Some (nullish (so_compute_target s) CT_gpu),
     at_startedAt = opt_or_num (so_started_at s) now, at_status = so_status s, at_phase = so_phase s,
     at_progressPercent = so_progress_percent s, at_currentEpoch = so_current_epoch s,
     at_totalEpochs = so_total_epochs s, at_bestEpoch = so_best_epoch s, at_bestValidationLoss = so_best_val_loss s,
     at_trainLoss = so_train_loss s, at_valLoss = so_val_loss s,
     at_lossHistory = Some (case so_loss_history s of None \<Rightarrow> []
       | Some pts \<Rightarrow> map (\<lambda>pt. \<lparr>lh_epoch = sl_epoch pt, lh_trainLoss = sl_train_loss pt, lh_valLoss = sl_val_loss pt,
           lh_isBest = sl_is_best pt\<rparr>) pts),
     at_logs = Some (nullish (so_logs s) []), at_updatedAt = so_updated_at s\<rparr>"

text \<open>\<open>mounted\<close> is the \<open>active\<close> flag of the effect, \<open>is_active\<close> the field of the response.\<close>

definition rehydrate :: "bool \<Rightarrow> jsnum \<Rightarrow> bool \<Rightarrow> soft_state option \<Rightarrow> training_lab \<Rightarrow> training_lab" where
  "rehydrate mounted now is_active state s = (case state of None \<Rightarrow> s
     | Some so \<Rightarrow> if \<not> mounted \<or> \<not> is_active then s
         else (case tl_activeTraining s of
             Some prev \<Rightarrow> if at_ticketId prev = so_ticket_id so then s else s\<lparr>tl_activeTraining := Some (rehydrated now so)\<rparr>
           | None \<Rightarrow> s\<lparr>tl_activeTraining := Some (rehydrated now so)\<rparr>))"

section \<open>Cohort readiness\<close>

text \<open>
  The effect runs whenever the selection changes; its cleanup deactivates the previous run,
  so that only the outcome of the last run is used.
\<close>

definition readiness_effect :: "str list \<Rightarrow> training_lab \<Rightarrow> training_lab" where
  "readiness_effect ids s0 =
     (let s = s0\<lparr>tl_selectedSnapshotIds := ids, tl_readinessRun := Suc (tl_readinessRun s0)\<rparr> in
      if ids = [] then s\<lparr>tl_readiness := None, tl_readinessLoading := False\<rparr>
      else s\<lparr>tl_readinessLoading := True\<rparr>)"

definition readiness_query :: "str list \<Rightarrow> params" where
  "readiness_query ids = map (\<lambda>i. (u ''snapshot_id'', i)) ids"

definition readiness_settle :: "nat \<Rightarrow> str option + CohortReadiness \<Rightarrow> training_lab \<Rightarrow> training_lab" where
  "readiness_settle run outcome s =
     (let active = (run = tl_readinessRun s);
          s1 = (case outcome of
              Inr res \<Rightarrow> if active then s\<lparr>tl_readiness := Some res\<rparr> else s
            | Inl _ \<Rightarrow> if active then s\<lparr>tl_readiness := None\<rparr> else s)
      in if active then s1\<lparr>tl_readinessLoading := False\<rparr> else s1)"

section \<open>Live view and timer\<close>

text \<open>The effect on \<open>activeTraining?.status\<close>, run after a change of it.\<close>

definition live_view_effect :: "training_lab \<Rightarrow> training_lab" where
  "live_view_effect s = (case tl_activeTraining s of
      Some a \<Rightarrow> if at_status a = RS_queued \<or> at_status a = RS_running then s\<lparr>tl_forceConfigMode := False\<rparr> else s
    | None \<Rightarrow> s)"

definition timer_tick :: "ActiveTrainingState \<Rightarrow> jsnum \<Rightarrow> training_lab \<Rightarrow> training_lab" where
  "timer_tick a now s = s\<lparr>tl_trainingElapsed := Math_floor ((now - at_startedAt a) / lit 1000)\<rparr>"

definition topicQuery :: "ActiveTrainingState \<Rightarrow> str option" where
  "topicQuery a =
     (if at_ticketId a = [] then Some (u ''?topic=ml'')
      else Option.bind (encodeURIComponent ((u ''ml:'' @ at_ticketId a))) (\<lambda>m.
           Option.bind (encodeURIComponent ((u ''obj:'' @ at_ticketId a))) (\<lambda>ob.
           Some ((u ''?topic=ml&topic='' @ m @ u ''&topic='' @ ob)))))"

section \<open>Workflow events\<close>

record workflow_payload =
  wp_error :: "str option"
  wp_status :: "str option"
  wp_phase :: "str option"
  wp_progress_percent :: "jsnum option"
  wp_current_epoch :: "jsnum option"
  wp_total_epochs :: "jsnum option"
  wp_best_epoch :: "jsnum option"
  wp_best_val_loss :: "jsnum option"
  wp_train_loss :: "jsnum option"
  wp_val_loss :: "jsnum option"
  wp_occurred_at :: "str option"
  wp_level :: "log_level option"
  wp_message :: "str option"

record workflow_update =
  wu_type :: "str option"
  wu_ticket_id :: "str option"
  wu_status :: "str option"
  wu_payload :: "workflow_payload option"

text \<open>\<open>setActiveTraining((current) => ...)\<close> for the run of the update, other runs are kept.\<close>

definition update_run :: "str option \<Rightarrow> (ActiveTrainingState \<Rightarrow> ActiveTrainingState) \<Rightarrow> training_lab \<Rightarrow> training_lab" where
  "update_run ticket f s = (case tl_activeTraining s of None \<Rightarrow> s
     | Some current \<Rightarrow> if Some (at_ticketId current) \<noteq> ticket then s
         else s\<lparr>tl_activeTraining := Some (f current)\<rparr>)"

definition log_entry :: "str \<Rightarrow> str \<Rightarrow> log_level \<Rightarrow> training_log" where
  "log_entry timeStr message level = \<lparr>lg_timestamp = timeStr, lg_message = message, lg_level = Some level\<rparr>"

definition run_logs :: "ActiveTrainingState \<Rightarrow> training_log list" where
  "run_logs a = nullish (at_logs a) []"

definition run_history :: "ActiveTrainingState \<Rightarrow> loss_point list" where
  "run_history a = nullish (at_lossHistory a) []"

definition on_log :: "str \<Rightarrow> workflow_update \<Rightarrow> training_lab \<Rightarrow> training_lab" where
  "on_log timeStr update s =
     (case Option.bind (wu_payload update) wp_message of None \<Rightarrow> s
      | Some logMsg \<Rightarrow> if logMsg = [] then s
          else update_run (wu_ticket_id update) (\<lambda>current. current\<lparr>at_logs :=
             Some (slice_last 200 (run_logs current @ [log_entry timeStr logMsg
               (nullish (Option.bind (wu_payload update) wp_level) LL_info)]))\<rparr>) s)"

definition on_stopped :: "str \<Rightarrow> workflow_update \<Rightarrow> training_lab \<Rightarrow> training_lab" where
  "on_stopped timeStr update s =
     (let err = Option.bind (wu_payload update) wp_error;
          isCancel = (wu_status update = Some (u ''cancelled'')
            \<or> (case err of Some e \<Rightarrow> str_includes e (u ''CANCELLED'') | None \<Rightarrow> False));
          s1 = update_run (wu_ticket_id update) (\<lambda>current. current\<lparr>
             at_status := if isCancel then RS_cancelled else RS_failed,
             at_phase := Some (if isCancel then u ''cancelled'' else u ''failed''),
             at_updatedAt := Option.bind (wu_payload update) wp_occurred_at,
             at_logs := Some (run_logs current @ [log_entry timeStr
               (if isCancel then u ''Training execution was cancelled by operator.''
                else (u ''Training failed: '' @ opt_or_str err (u ''Unknown error'')))
               (if isCancel then LL_warn else LL_error)])\<rparr>) s
      in if isCancel then s1\<lparr>tl_toasts := tl_toasts s1 @ [Toast_info (u ''Training job cancelled per request'')]\<rparr>
         else s1\<lparr>tl_error := Some ((u ''Training execution failed: '' @ opt_or_str err (u ''ML Worker did not provide error details.'')))\<rparr>)"

definition on_completed :: "str \<Rightarrow> workflow_update \<Rightarrow> training_lab \<Rightarrow> training_lab" where
  "on_completed timeStr update s0 =
     (let s1 = update_run (wu_ticket_id update) (\<lambda>current. current\<lparr>
             at_status := RS_completed, at_phase := Some (u ''completed''), at_progressPercent := Some (lit 100),
             at_currentEpoch := Some (nullish (at_totalEpochs current) (at_epochs current)),
             at_updatedAt := Option.bind (wu_payload update) wp_occurred_at,
             at_logs := Some (run_logs current @ [log_entry timeStr
               (u ''Training and ONNX runtime package build completed successfully.'') LL_success])\<rparr>) (loadModels_begin s0);
          s2 = s1\<lparr>tl_toasts := tl_toasts s1 @ [Toast_success (u ''Training completed successfully'')
             (Some (u ''Runtime package is awaiting parity verification and approval in Model Registry.''))]\<rparr>
      in loadAvailableSnapshots_begin s2)"

text \<open>\<open>newHistory[exists] = point\<close> when the epoch is there, \<open>push\<close> otherwise.\<close>

fun put_point :: "loss_point \<Rightarrow> loss_point list \<Rightarrow> loss_point list" where
  "put_point p [] = [p]"
| "put_point p (h # hs) = (if num_eq (lh_epoch h) (lh_epoch p) then p # hs else h # put_point p hs)"

definition opt_num_eq :: "jsnum option \<Rightarrow> jsnum option \<Rightarrow> bool" where
  "opt_num_eq a b = (case (a, b) of (Some x, Some y) \<Rightarrow> num_eq x y | (None, None) \<Rightarrow> True | _ \<Rightarrow> False)"

definition epoch_point :: "workflow_payload \<Rightarrow> loss_point option" where
  "epoch_point p = (case (wp_current_epoch p, wp_val_loss p) of
      (Some epochNum, Some v) \<Rightarrow> if truthy epochNum
        then Some \<lparr>lh_epoch = epochNum, lh_trainLoss = nullish (wp_train_loss p) v, lh_valLoss = v,
               lh_isBest = Some (opt_num_eq (wp_best_epoch p) (Some epochNum))\<rparr>
        else None
    | _ \<Rightarrow> None)"

definition progress_log :: "str \<Rightarrow> workflow_payload \<Rightarrow> ActiveTrainingState \<Rightarrow> training_log list" where
  "progress_log timeStr p current = (case epoch_point p of
      Some pt \<Rightarrow> let best = opt_num_eq (wp_best_epoch p) (wp_current_epoch p) in
        [log_entry timeStr ((u ''Epoch '' @ num_str (lh_epoch pt) @ u ''/'' @ num_str (opt_or_num (wp_total_epochs p) (at_epochs current)) @ ue '' ~2014 train_loss: '' @ (case wp_train_loss p of Some l \<Rightarrow> toFixed l 4 | None \<Rightarrow> emdash) @ ue '' ~00B7 val_loss: '' @ toFixed (lh_valLoss pt) 4 @ (if best then (ue '' ~2605 (Best)'') else [])))
           (if best then LL_success else LL_info)]
    | None \<Rightarrow> (case wp_phase p of
          Some ph \<Rightarrow> if ph \<noteq> [] \<and> Some ph \<noteq> at_phase current
            then [log_entry timeStr ((u ''Phase transition: '' @ toUpperCase (replace_first 95 32 ph))) LL_info] else []
        | None \<Rightarrow> []))"

definition on_progress :: "str \<Rightarrow> workflow_payload \<Rightarrow> workflow_update \<Rightarrow> training_lab \<Rightarrow> training_lab" where
  "on_progress timeStr p update s =
     update_run (wu_ticket_id update) (\<lambda>current.
       let newHistory = (case epoch_point p of Some pt \<Rightarrow> put_point pt (run_history current) | None \<Rightarrow> run_history current);
           newLogs = run_logs current @ progress_log timeStr p current
       in current\<lparr>at_status := RS_running, at_phase := nullish2 (wp_phase p) (at_phase current),
            at_progressPercent := nullish2 (wp_progress_percent p) (at_progressPercent current),
            at_currentEpoch := nullish2 (wp_current_epoch p) (at_currentEpoch current),
            at_totalEpochs := nullish2 (wp_total_epochs p) (at_totalEpochs current),
            at_bestEpoch := nullish2 (wp_best_epoch p) (at_bestEpoch current),
            at_bestValidationLoss := nullish2 (wp_best_val_loss p) (at_bestValidationLoss current),
            at_trainLoss := nullish2 (wp_train_loss p) (at_trainLoss current),
            at_valLoss := nullish2 (wp_val_loss p) (at_valLoss current),
            at_lossHistory := Some newHistory, at_logs := Some (slice_last 100 newLogs),
            at_updatedAt := wp_occurred_at p\<rparr>) s"

text \<open>
  The listener: \<open>subscribed\<close> is the ticket of the run it was attached for, \<open>None\<close> an event
  whose data does not parse.
\<close>

definition on_workflow :: "str \<Rightarrow> str \<Rightarrow> workflow_update option \<Rightarrow> training_lab \<Rightarrow> training_lab" where
  "on_workflow subscribed timeStr event s = (case event of None \<Rightarrow> s
     | Some update \<Rightarrow>
         if wu_ticket_id update \<noteq> Some subscribed then s
         else if wu_status update = Some (u ''log'') \<or> wu_type update = Some (u ''aurora.v1.ml.training.log'')
         then on_log timeStr update s
         else if wu_status update = Some (u ''failed'') \<or> wu_status update = Some (u ''cancelled'')
         then on_stopped timeStr update s
         else if wu_status update = Some (u ''completed'') then on_completed timeStr update s
         else (case wu_payload update of
             Some p \<Rightarrow> if wu_status update = Some (u ''progress'') \<and> wp_status p = Some (u ''running'')
               then on_progress timeStr p update s else s
           | None \<Rightarrow> s))"

section \<open>Launching and controlling a run\<close>

definition hasActiveJob :: "training_lab \<Rightarrow> bool" where
  "hasActiveJob s = (case tl_activeTraining s of None \<Rightarrow> False
     | Some a \<Rightarrow> at_status a \<in> {RS_queued, RS_running, RS_completed, RS_cancelled, RS_failed})"

definition isLiveView :: "training_lab \<Rightarrow> bool" where
  "isLiveView s = (hasActiveJob s \<and> \<not> tl_forceConfigMode s)"

definition numericConfigValid :: "training_lab \<Rightarrow> bool" where
  "numericConfigValid s = (lit 0 < Number_of_str (tl_epochs s) \<and> lit 0 < Number_of_str (tl_batchSize s)
     \<and> lit 0 < Number_of_str (tl_learningRate s) \<and> lit 0 \<le> Number_of_str (tl_seed s))"

definition cohortReady :: "training_lab \<Rightarrow> bool" where
  "cohortReady s = (case tl_readiness s of None \<Rightarrow> False
     | Some r \<Rightarrow> nullish (rd_ready r) (rd_tier r \<noteq> TIER_BLOCKED))"

definition launchReady :: "training_lab \<Rightarrow> bool" where
  "launchReady s = (tl_selectedSnapshotIds s \<noteq> [] \<and> cohortReady s \<and> numericConfigValid s \<and> \<not> tl_trainingSubmitting s)"

definition launch_task :: str where
  "launch_task = u ''candidate_vetting''"

record train_request =
  rq_ticket_id :: str
  rq_task :: str
  rq_gold_snapshot_ids :: "str list"
  rq_base_model_id :: str
  rq_training_mode :: training_mode
  rq_epochs :: jsnum
  rq_learning_rate :: jsnum
  rq_batch_size :: jsnum
  rq_seed :: jsnum
  rq_compute_target :: compute_target

definition launch_snapshot_ids :: "training_lab \<Rightarrow> str list" where
  "launch_snapshot_ids s = js_uniq (filter (\<lambda>x. x \<noteq> []) (map trim (tl_selectedSnapshotIds s)))"

definition launch_request :: "str \<Rightarrow> training_lab \<Rightarrow> train_request" where
  "launch_request activeTicket s = \<lparr>rq_ticket_id = activeTicket, rq_task = launch_task,
     rq_gold_snapshot_ids = launch_snapshot_ids s,
     rq_base_model_id = (if tl_intent s = TI_new then [] else tl_baseModelId s),
     rq_training_mode = (if tl_intent s = TI_new then TM_scratch else TM_fine_tune),
     rq_epochs = Number_of_str (tl_epochs s), rq_learning_rate = Number_of_str (tl_learningRate s),
     rq_batch_size = Number_of_str (tl_batchSize s), rq_seed = Number_of_str (tl_seed s),
     rq_compute_target = tl_computeTarget s\<rparr>"

text \<open>
  Up to the fetch: the request that is sent, if any. An empty selection after trimming ends
  in the \<open>catch\<close> and \<open>finally\<close> branches without a request.
\<close>

definition handleStartTraining_begin :: "str \<Rightarrow> training_lab \<Rightarrow> training_lab \<times> train_request option" where
  "handleStartTraining_begin activeTicket s =
     (if \<not> launchReady s then (s, None)
      else if launch_snapshot_ids s = []
      then (s\<lparr>tl_error := Some (u ''Select at least one committed Gold Snapshot before training.''),
              tl_trainingSubmitting := False\<rparr>, None)
      else (s\<lparr>tl_trainingSubmitting := True, tl_error := None\<rparr>, Some (launch_request activeTicket s)))"

text \<open>\<open>c\<close> is the page state the handler closed over when it was called.\<close>

definition handleStartTraining_settle ::
  "jsnum \<Rightarrow> training_lab \<Rightarrow> str option + TrainingResponse \<Rightarrow> training_lab \<Rightarrow> training_lab" where
  "handleStartTraining_settle now c outcome s =
     (case outcome of
        Inr res \<Rightarrow> s\<lparr>
          tl_toasts := tl_toasts s @ [Toast_success (u ''Training run dispatched'')
            (Some ((tres_ticket_id res @ ue '' ~00B7 '' @ toUpperCase (compute_str (tl_computeTarget c)) @ ue '' ~00B7 '' @ int_str (int (length (launch_snapshot_ids c))) @ u '' Gold snapshots'')))],
          tl_forceConfigMode := False,
          tl_activeTraining := Some \<lparr>at_ticketId = tres_ticket_id res, at_task = launch_task,
            at_snapshotCount = jsnum_of_nat (length (launch_snapshot_ids c)),
            at_baseModel = (if tl_intent c = TI_new then [] else tl_baseModelId c), at_epochs = Number_of_str (tl_epochs c),
            at_computeTarget = Some (tl_computeTarget c), at_startedAt = now,
            at_status = (if tres_status res = u ''queued'' then RS_queued else RS_running), at_phase = Some (u ''queued''),
            at_progressPercent = Some (lit 0), at_currentEpoch = Some (lit 0), at_totalEpochs = Some (Number_of_str (tl_epochs c)),
            at_bestEpoch = None, at_bestValidationLoss = None, at_trainLoss = None, at_valLoss = None,
            at_lossHistory = None, at_logs = None, at_updatedAt = None\<rparr>,
          tl_trainingElapsed := lit 0\<rparr>
      | Inl message \<Rightarrow> s\<lparr>tl_error := Some (nullish message (u ''Unable to dispatch training run''))\<rparr>)
     \<lparr>tl_trainingSubmitting := False\<rparr>"

datatype control_action = CA_cancel | CA_checkpoint

text \<open>The ticket the control request is sent for; no request without one.\<close>

definition control_request :: "control_action \<Rightarrow> training_lab \<Rightarrow> (str \<times> control_action) option" where
  "control_request action s = (case tl_activeTraining s of None \<Rightarrow> None
     | Some a \<Rightarrow> if at_ticketId a = [] then None else Some (at_ticketId a, action))"

definition handleControlTraining_settle :: "control_action \<Rightarrow> str option + unit \<Rightarrow> training_lab \<Rightarrow> training_lab" where
  "handleControlTraining_settle action outcome s = (case outcome of
      Inl message \<Rightarrow> s\<lparr>tl_toasts := tl_toasts s @ [Toast_error (nullish message (u ''Unable to send training control command''))]\<rparr>
    | Inr _ \<Rightarrow> (case action of
        CA_cancel \<Rightarrow> s\<lparr>tl_toasts := tl_toasts s @ [Toast_info (u ''Cancellation request sent to ML Worker'')],
          tl_activeTraining := map_option (\<lambda>cur. cur\<lparr>at_status := RS_cancelled, at_phase := Some (u ''cancelled'')\<rparr>) (tl_activeTraining s)\<rparr>
      | CA_checkpoint \<Rightarrow> s\<lparr>tl_toasts := tl_toasts s @ [Toast_info (u ''Requested early stop and export from best checkpoint'')]\<rparr>))"

section \<open>Stored configuration: lemmas\<close>

lemma or_json_truthy: "d \<noteq> [] \<Longrightarrow> json_truthy (Some (or_json v d))"
  by (auto simp: or_json_def json_truthy_def split: option.splits)

lemma or_json_str: "or_json (Some (JStr x)) d = JStr (if x \<noteq> [] then x else d)"
  by (simp add: or_json_def json_truthy_def)

lemma config_json_fields:
  "json_prop (Some (config_json c)) (u ''intent'') = Some (JStr (intent_str (sc_intent c)))"
  "json_prop (Some (config_json c)) (u ''computeTarget'') = Some (JStr (compute_str (sc_computeTarget c)))"
  "json_prop (Some (config_json c)) (u ''baseModelId'') = Some (JStr (sc_baseModelId c))"
  "json_prop (Some (config_json c)) (u ''epochs'') = Some (JStr (sc_epochs c))"
  "json_prop (Some (config_json c)) (u ''learningRate'') = Some (JStr (sc_learningRate c))"
  "json_prop (Some (config_json c)) (u ''batchSize'') = Some (JStr (sc_batchSize c))"
  "json_prop (Some (config_json c)) (u ''seed'') = Some (JStr (sc_seed c))"
  by (simp_all add: config_json_def json_prop_def)

lemma intent_str_evolve: "intent_str i = u ''evolve'' \<longleftrightarrow> i = TI_evolve"
  by (cases i) (simp_all add: intent_str_def)

lemma compute_str_cpu: "compute_str c = u ''cpu'' \<longleftrightarrow> c = CT_cpu"
  by (cases c) (simp_all add: compute_str_def)

definition default_blank :: "StoredTrainingConfig \<Rightarrow> StoredTrainingConfig" where
  "default_blank c = c\<lparr>sc_baseModelId := opt_or_str (Some (sc_baseModelId c)) (u ''champion''),
     sc_epochs := opt_or_str (Some (sc_epochs c)) (u ''50''), sc_learningRate := opt_or_str (Some (sc_learningRate c)) (u ''0.001''),
     sc_batchSize := opt_or_str (Some (sc_batchSize c)) (u ''32''), sc_seed := opt_or_str (Some (sc_seed c)) (u ''42'')\<rparr>"

lemma readStoredConfig_saved: "readStoredConfig (Item_json (config_json c)) = untyped_config (default_blank c)"
proof -
  have "config_json c \<noteq> JNull" by (simp add: config_json_def)
  then show ?thesis
    by (cases "sc_intent c"; cases "sc_computeTarget c")
       (simp_all add: readStoredConfig_def config_json_fields or_json_str untyped_config_def default_blank_def
          DEFAULT_CONFIG_def intent_str_def compute_str_def)
qed

section \<open>Snapshot inventory: lemmas\<close>

definition snapshot_ok :: "host \<Rightarrow> GoldSnapshotItem \<Rightarrow> bool" where
  "snapshot_ok h x = num_ok (date_parse h (gsi_last_modified x))"

lemma snapshot_le_iff:
  assumes "snapshot_ok h a" "snapshot_ok h b"
  shows "snapshot_le h a b \<longleftrightarrow> (\<not> gsi_is_trained a \<and> gsi_is_trained b) \<or>
    (gsi_is_trained a = gsi_is_trained b \<and> val (date_parse h (gsi_last_modified b)) \<le> val (date_parse h (gsi_last_modified a)))"
proof -
  let ?d = "\<lambda>x. date_parse h (gsi_last_modified x)"
  have "?d b - ?d a \<noteq> NaN" using assms by (simp add: snapshot_ok_def num_ok_def finite_sub)
  then show ?thesis using assms diff_le_iff [of "?d b" "?d a"]
    by (auto simp: snapshot_le_def snapshot_ok_def diff_le_def)
qed

interpretation snap_order: comparator "snapshot_le h" "snapshot_ok h" for h
  by unfold_locales (auto simp: snapshot_le_iff)

lemma trainedSnapshotSet_Some:
  "map_of (trainedSnapshotSet ms) k = Some v \<Longrightarrow> \<exists>m\<in>set ms. md_gold_snapshot_id m = Some k \<and> md_model_id m = v"
  unfolding trainedSnapshotSet_def
proof (induction ms rule: rev_induct)
  case (snoc m ms)
  then show ?case by (auto simp: update_conv' split: option.splits if_splits)
qed simp

lemma trainedSnapshotSet_None:
  "map_of (trainedSnapshotSet ms) k = None \<Longrightarrow> k \<noteq> [] \<Longrightarrow> \<forall>m\<in>set ms. md_gold_snapshot_id m \<noteq> Some k"
  unfolding trainedSnapshotSet_def
proof (induction ms rule: rev_induct)
  case (snoc m ms)
  then show ?case by (auto simp: update_conv' split: option.splits if_splits)
qed simp

lemma snapshot_item_trained:
  assumes "gs_snapshot_id x \<noteq> []"
  shows "gsi_is_trained (snapshot_item ms x) \<longleftrightarrow> (\<exists>m\<in>set ms. md_gold_snapshot_id m = Some (gs_snapshot_id x))"
  using trainedSnapshotSet_Some [of ms "gs_snapshot_id x"] trainedSnapshotSet_None [OF _ assms, of ms]
  by (cases "map_of (trainedSnapshotSet ms) (gs_snapshot_id x)") (auto simp: snapshot_item_def Let_def)

section \<open>Readiness: an instance of the latest-request discipline\<close>

definition select_cohort :: "str \<times> str list \<Rightarrow> training_lab \<Rightarrow> training_lab" where
  "select_cohort q s = readiness_effect (fst q # snd q) s"

definition cohort_answer :: "nat \<Rightarrow> str \<times> str list \<Rightarrow> str option + CohortReadiness \<Rightarrow> training_lab \<Rightarrow> training_lab" where
  "cohort_answer r q x s = readiness_settle r x s"

interpretation cohort: latest_request select_cohort cohort_answer tl_readinessRun tl_readinessLoading
  by unfold_locales
     (auto simp: select_cohort_def cohort_answer_def readiness_effect_def readiness_settle_def Let_def split: sum.split)

section \<open>Workflow events: lemmas\<close>

lemma update_run_activeTraining:
  "tl_activeTraining (update_run t f s) =
     (case tl_activeTraining s of None \<Rightarrow> None
      | Some a \<Rightarrow> if Some (at_ticketId a) = t then Some (f a) else Some a)"
  by (simp add: update_run_def split: option.split)

lemma loads_activeTraining [simp]:
  "tl_activeTraining (loadModels_begin s) = tl_activeTraining s"
  "tl_activeTraining (loadAvailableSnapshots_begin s) = tl_activeTraining s"
  by (simp_all add: loadModels_begin_def loadAvailableSnapshots_begin_def)

text \<open>What one event does to the run on the page: nothing, or a change of it that keeps its ticket.\<close>

definition terminal_update :: "workflow_update \<Rightarrow> bool" where
  "terminal_update w = (wu_status w \<in> {Some (u ''failed''), Some (u ''cancelled''), Some (u ''completed'')})"

definition good_history :: "loss_point list \<Rightarrow> bool" where
  "good_history hs = (distinct (map lh_epoch hs) \<and> list_all (\<lambda>h. truthy (lh_epoch h)) hs)"

lemma truthy_num_eq: "truthy x \<Longrightarrow> truthy y \<Longrightarrow> num_eq x y \<longleftrightarrow> x = y"
  by (cases x; cases y) (auto simp: truthy_def num_eq_def)

lemma put_point_epochs:
  assumes "good_history hs" "truthy (lh_epoch p)"
  shows "map lh_epoch (put_point p hs) =
    (if lh_epoch p \<in> lh_epoch ` set hs then map lh_epoch hs else map lh_epoch hs @ [lh_epoch p])"
  using assms by (induction p hs rule: put_point.induct) (auto simp: good_history_def truthy_num_eq)

lemma put_point_good:
  assumes "good_history hs" "truthy (lh_epoch p)"
  shows "good_history (put_point p hs)"
proof -
  have "set (map lh_epoch (put_point p hs)) \<subseteq> insert (lh_epoch p) (set (map lh_epoch hs))"
    "distinct (map lh_epoch (put_point p hs))"
    using assms unfolding put_point_epochs [OF assms] by (auto simp: good_history_def)
  then show ?thesis using assms by (auto simp: good_history_def list_all_iff)
qed

lemma put_point_in: "p \<in> set (put_point p hs)"
  by (induction hs) auto

lemma put_point_others: "h \<in> set hs \<Longrightarrow> \<not> num_eq (lh_epoch h) (lh_epoch p) \<Longrightarrow> h \<in> set (put_point p hs)"
  by (induction hs) auto

lemma unique_point: "distinct (map f xs) \<Longrightarrow> x \<in> set xs \<Longrightarrow> filter (\<lambda>h. f h = f x) xs = [x]"
proof (induction xs)
  case (Cons y ys)
  then show ?case by (cases "x = y") (auto simp: filter_empty_conv image_iff)
qed simp

lemma epoch_point_truthy: "epoch_point p = Some pt \<Longrightarrow> truthy (lh_epoch pt)"
  by (auto simp: epoch_point_def split: option.splits if_splits)

text \<open>
  One event leaves the page without a run without one, and keeps the ticket of a run and its
  history in order; its log grows by at most one entry, beyond 200 only on a terminal event.
\<close>

definition run_kept :: "nat \<Rightarrow> ActiveTrainingState option \<Rightarrow> ActiveTrainingState option \<Rightarrow> bool" where
  "run_kept n a b = (case (a, b) of (None, None) \<Rightarrow> True
     | (Some x, Some y) \<Rightarrow> at_ticketId y = at_ticketId x \<and> (good_history (run_history x) \<longrightarrow> good_history (run_history y))
         \<and> length (run_logs y) \<le> max 200 (length (run_logs x)) + n
     | _ \<Rightarrow> False)"

lemma run_kept_refl [simp]: "run_kept n a a"
  by (cases a) (simp_all add: run_kept_def max_def)

lemma update_run_kept:
  assumes "\<And>a. run_kept n (Some a) (Some (f a))"
  shows "run_kept n (tl_activeTraining s) (tl_activeTraining (update_run t f s))"
  using assms by (simp add: update_run_activeTraining split: option.split)

lemma on_log_kept: "run_kept 0 (tl_activeTraining s) (tl_activeTraining (on_log t w s))"
proof -
  have "run_kept 0 (Some a) (Some (a\<lparr>at_logs := Some (slice_last 200 (run_logs a @ [x]))\<rparr>))" for a x
    by (simp add: run_kept_def run_history_def run_logs_def)
  then show ?thesis by (simp add: on_log_def update_run_kept split: option.split)
qed

lemma appended_kept:
  "run_kept 1 (Some a) (Some (a\<lparr>at_status := st, at_phase := ph, at_updatedAt := up, at_logs := Some (run_logs a @ [x])\<rparr>))"
  by (simp add: run_kept_def run_history_def run_logs_def)

lemma on_stopped_kept: "run_kept 1 (tl_activeTraining s) (tl_activeTraining (on_stopped t w s))"
proof -
  have t: "tl_activeTraining (x\<lparr>tl_toasts := ts\<rparr>) = tl_activeTraining x"
    "tl_activeTraining (x\<lparr>tl_error := er\<rparr>) = tl_activeTraining x" for x :: training_lab and ts er by simp_all
  show ?thesis unfolding on_stopped_def Let_def if_distrib [of tl_activeTraining] t if_cancel
    by (intro update_run_kept appended_kept)
qed

lemma on_completed_kept: "run_kept 1 (tl_activeTraining s) (tl_activeTraining (on_completed t w s))"
proof -
  have k: "run_kept 1 (Some a) (Some (a\<lparr>at_status := st, at_phase := ph, at_progressPercent := pp, at_currentEpoch := ce,
      at_updatedAt := up, at_logs := Some (run_logs a @ [x])\<rparr>))" for a st ph pp ce up x
    by (simp add: run_kept_def run_history_def run_logs_def)
  have t: "tl_activeTraining (x\<lparr>tl_toasts := ts\<rparr>) = tl_activeTraining x" for x :: training_lab and ts by simp
  have "run_kept 1 (tl_activeTraining (loadModels_begin s)) (tl_activeTraining (on_completed t w s))"
    unfolding on_completed_def Let_def loads_activeTraining(2) t by (intro update_run_kept k)
  then show ?thesis by simp
qed

lemma on_progress_kept: "run_kept 0 (tl_activeTraining s) (tl_activeTraining (on_progress t p w s))"
  unfolding on_progress_def
proof (intro update_run_kept)
  fix a
  show "run_kept 0 (Some a) (Some (let newHistory = (case epoch_point p of Some pt \<Rightarrow> put_point pt (run_history a) | None \<Rightarrow> run_history a);
           newLogs = run_logs a @ progress_log t p a
       in a\<lparr>at_status := RS_running, at_phase := nullish2 (wp_phase p) (at_phase a),
            at_progressPercent := nullish2 (wp_progress_percent p) (at_progressPercent a),
            at_currentEpoch := nullish2 (wp_current_epoch p) (at_currentEpoch a),
            at_totalEpochs := nullish2 (wp_total_epochs p) (at_totalEpochs a),
            at_bestEpoch := nullish2 (wp_best_epoch p) (at_bestEpoch a),
            at_bestValidationLoss := nullish2 (wp_best_val_loss p) (at_bestValidationLoss a),
            at_trainLoss := nullish2 (wp_train_loss p) (at_trainLoss a),
            at_valLoss := nullish2 (wp_val_loss p) (at_valLoss a),
            at_lossHistory := Some newHistory, at_logs := Some (slice_last 100 newLogs),
            at_updatedAt := wp_occurred_at p\<rparr>))"
    by (cases "epoch_point p")
       (simp_all add: run_kept_def run_history_def run_logs_def put_point_good epoch_point_truthy)
qed

definition terminal_weight :: "workflow_update option \<Rightarrow> nat" where
  "terminal_weight e = (case e of Some w \<Rightarrow> if terminal_update w then 1 else 0 | None \<Rightarrow> 0)"

lemma run_kept_mono: "run_kept 0 a b \<Longrightarrow> run_kept n a b"
  by (auto simp: run_kept_def split: option.splits)

lemma on_workflow_kept: "run_kept (terminal_weight e) (tl_activeTraining s) (tl_activeTraining (on_workflow sub t e s))"
  using on_log_kept on_stopped_kept on_completed_kept on_progress_kept
  by (auto simp: on_workflow_def terminal_weight_def terminal_update_def intro: run_kept_mono split: option.split)

definition workflow_step :: "training_lab \<Rightarrow> str \<times> str \<times> workflow_update option \<Rightarrow> training_lab" where
  "workflow_step s e = (case e of (sub, t, w) \<Rightarrow> on_workflow sub t w s)"

definition history_ok :: "training_lab \<Rightarrow> bool" where
  "history_ok s = (case tl_activeTraining s of None \<Rightarrow> True | Some a \<Rightarrow> good_history (run_history a))"

interpretation runs: reducer workflow_step history_ok
proof
  fix s and e :: "str \<times> str \<times> workflow_update option"
  assume "history_ok s"
  moreover obtain sub t w where e: "e = (sub, t, w)" by (cases e)
  ultimately show "history_ok (workflow_step s e)" using on_workflow_kept [of w s sub t]
    by (auto simp: e workflow_step_def history_ok_def run_kept_def split: option.splits)
qed

lemma run_logs_bound:
  assumes "tl_activeTraining (foldl workflow_step s es) = Some b" "tl_activeTraining s = Some a" "length (run_logs a) \<le> 200"
  shows "length (run_logs b) \<le> 200 + sum_list (map (\<lambda>(_, _, w). terminal_weight w) es)"
  using assms(1)
proof (induction es arbitrary: b rule: rev_induct)
  case Nil
  then show ?case using assms by simp
next
  case (snoc e es)
  obtain sub t w where e: "e = (sub, t, w)" by (cases e)
  let ?s = "foldl workflow_step s es"
  have "run_kept (terminal_weight w) (tl_activeTraining ?s) (Some b)"
    using on_workflow_kept [of w ?s sub t] snoc.prems by (simp add: e workflow_step_def [of _ "(sub, t, w)"])
  then obtain c where c: "tl_activeTraining ?s = Some c" "length (run_logs b) \<le> max 200 (length (run_logs c)) + terminal_weight w"
    by (auto simp: run_kept_def split: option.splits)
  show ?case using snoc.IH [OF c(1)] c(2) by (simp add: e)
qed

section \<open>Concrete data\<close>

definition sample_training_run :: ActiveTrainingState where
  "sample_training_run = \<lparr>at_ticketId = u ''T1'', at_task = launch_task, at_snapshotCount = Fin 1, at_baseModel = [], at_epochs = Fin 50,
     at_computeTarget = Some CT_gpu, at_startedAt = Fin 0, at_status = RS_queued, at_phase = Some (u ''queued''),
     at_progressPercent = Some (Fin 0), at_currentEpoch = Some (Fin 0), at_totalEpochs = Some (Fin 50), at_bestEpoch = None,
     at_bestValidationLoss = None, at_trainLoss = None, at_valLoss = None, at_lossHistory = None, at_logs = None, at_updatedAt = None\<rparr>"

definition sample_training_page :: training_lab where
  "sample_training_page = (training_lab_init DEFAULT_CONFIG)\<lparr>tl_activeTraining := Some sample_training_run\<rparr>"

definition sample_progress :: workflow_payload where
  "sample_progress = \<lparr>wp_error = None, wp_status = Some (u ''running''), wp_phase = None, wp_progress_percent = Some (Fin 2),
     wp_current_epoch = Some (Fin 1), wp_total_epochs = Some (Fin 50), wp_best_epoch = Some (Fin 1), wp_best_val_loss = None,
     wp_train_loss = None, wp_val_loss = Some (Fin (1 / 2)), wp_occurred_at = None, wp_level = None, wp_message = None\<rparr>"

definition sample_update :: workflow_update where
  "sample_update = \<lparr>wu_type = None, wu_ticket_id = Some (u ''T1''), wu_status = Some (u ''progress''), wu_payload = Some sample_progress\<rparr>"

definition sample_readiness :: "CohortReadiness" where
  "sample_readiness = \<lparr>rd_snapshot_id = None, rd_snapshot_ids = [u ''a''], rd_total_rows = Fin 1, rd_positive_rows = Fin 1,
     rd_negative_rows = Fin 0, rd_unresolved_rows = Fin 0, rd_positive_targets = Fin 1, rd_negative_targets = Fin 0,
     rd_ready = Some True, rd_tier = TIER_EXPERIMENTAL, rd_policy_version = None,
     rd_experimental_minimum_positive_targets = Fin 1, rd_experimental_minimum_negative_targets = Fin 0,
     rd_production_candidate_minimum_positive_targets = Fin 1, rd_production_candidate_minimum_negative_targets = Fin 0,
     rd_negative_diversity_target = Fin 0, rd_negative_diversity_target_met = None, rd_blocker = None\<rparr>"

definition sample_launch :: training_lab where
  "sample_launch = (training_lab_init DEFAULT_CONFIG)\<lparr>tl_selectedSnapshotIds := [u ''a''], tl_readiness := Some sample_readiness\<rparr>"

text \<open>An unsigned decimal text denotes its value.\<close>

lemma Number_of_decimal:
  assumes "trim s = s" "s \<noteq> []" "48 \<le> hd s" "hd s \<le> 57" "hd (tl s) < 60" "read_unsigned s = Some q"
  shows "Number_of_str s = mk False q"
proof -
  obtain c cs where s: "s = c # cs" using assms(2) by (cases s) auto
  have p: "\<not> startsWith s [48, x]" if "60 \<le> x" for x
    using assms(5) that by (cases cs) (auto simp: s startsWith_def)
  have o: "s \<noteq> u ''Infinity''" "s \<noteq> u ''+Infinity''" "s \<noteq> u ''-Infinity''" "\<not> startsWith s (u ''0x'')" "\<not> startsWith s (u ''0X'')"
    "\<not> startsWith s (u ''0o'')" "\<not> startsWith s (u ''0O'')" "\<not> startsWith s (u ''0b'')" "\<not> startsWith s (u ''0B'')"
    using assms(3,4) p by (auto simp: s u_def)
  show ?thesis using assms o by (auto simp: Number_of_str_def Let_def)
qed

lemma sample_numeric: "numericConfigValid (training_lab_init DEFAULT_CONFIG)"
proof -
  have t: "trim (u ''50'') = u ''50''" "trim (u ''0.001'') = u ''0.001''" "trim (u ''32'') = u ''32''" "trim (u ''42'') = u ''42''"
    by (simp_all add: trim_def u_def is_space_def)
  have r: "read_unsigned (u ''50'') = Some 50" "read_unsigned (u ''0.001'') = Some (1 / 1000)"
    "read_unsigned (u ''32'') = Some 32" "read_unsigned (u ''42'') = Some 42"
    by code_simp+
  have "Number_of_str (u ''50'') = mk False 50" "Number_of_str (u ''0.001'') = mk False (1 / 1000)"
    "Number_of_str (u ''32'') = mk False 32" "Number_of_str (u ''42'') = mk False 42"
    using t r by (auto intro!: Number_of_decimal simp: u_def)
  moreover have "Fin 0 < mk False 50" "Fin 0 < mk False (1 / 1000)" "Fin 0 < mk False 32" "Fin 0 < mk False 42"
    by code_simp+
  ultimately show ?thesis
    by (simp add: numericConfigValid_def training_lab_init_def DEFAULT_CONFIG_def num_less_imp_le)
qed

lemma sample_launchReady: "launchReady sample_launch"
proof -
  have "numericConfigValid sample_launch = numericConfigValid (training_lab_init DEFAULT_CONFIG)"
    by (simp add: numericConfigValid_def sample_launch_def)
  then show ?thesis using sample_numeric
    by (simp add: launchReady_def cohortReady_def sample_launch_def sample_readiness_def training_lab_init_def)
qed

section \<open>Properties\<close>

text \<open>
  C25. Reading the configuration gives back what the page last saved,
  with blank fields replaced by the defaults; and whatever is in storage (nothing, text that
  does not parse, \<open>null\<close>, values of other types, or an access that throws), no field of the
  configuration read is missing or blank.
\<close>

theorem stored_config_roundtrip:
  "readStoredConfig (Item_json (saved_config s)) = untyped_config (default_blank
      \<lparr>sc_intent = tl_intent s, sc_computeTarget = tl_computeTarget s, sc_baseModelId = tl_baseModelId s,
       sc_epochs = tl_epochs s, sc_learningRate = tl_learningRate s, sc_batchSize = tl_batchSize s, sc_seed = tl_seed s\<rparr>) \<and>
   json_truthy (Some (sc_baseModelId (readStoredConfig item))) \<and> json_truthy (Some (sc_epochs (readStoredConfig item))) \<and>
   json_truthy (Some (sc_learningRate (readStoredConfig item))) \<and> json_truthy (Some (sc_batchSize (readStoredConfig item))) \<and>
   json_truthy (Some (sc_seed (readStoredConfig item)))"
proof -
  have d: "sc_baseModelId DEFAULT_CONFIG \<noteq> []" "sc_epochs DEFAULT_CONFIG \<noteq> []" "sc_learningRate DEFAULT_CONFIG \<noteq> []"
    "sc_batchSize DEFAULT_CONFIG \<noteq> []" "sc_seed DEFAULT_CONFIG \<noteq> []"
    by (simp_all add: DEFAULT_CONFIG_def)
  have t: "json_truthy (Some (JStr x)) = (x \<noteq> [])" for x by (simp add: json_truthy_def)
  show ?thesis using or_json_truthy d unfolding saved_config_def readStoredConfig_saved
    by (cases item) (simp_all add: readStoredConfig_def untyped_config_def t Let_def)
qed

text \<open>
  C4. Whatever workflow events arrive, the loss history of the run on the
  page never has two points for one epoch, provided it had none to begin with (a launched run
  starts without history). A progress report of an epoch for this run leaves exactly one
  point of that epoch, the reported one, and keeps the points of all other epochs.
\<close>

theorem loss_history_sound:
  fixes es
  assumes "history_ok s"
  defines "s1 \<equiv> foldl workflow_step s es"
  shows "(\<forall>b. tl_activeTraining s1 = Some b \<longrightarrow> distinct (map lh_epoch (run_history b))) \<and>
    (\<forall>a p w t pt. tl_activeTraining s1 = Some a \<longrightarrow> wu_ticket_id w = Some (at_ticketId a) \<longrightarrow> epoch_point p = Some pt \<longrightarrow>
      (\<exists>b. tl_activeTraining (on_progress t p w s1) = Some b \<and>
         filter (\<lambda>h. lh_epoch h = lh_epoch pt) (run_history b) = [pt] \<and>
         (\<forall>h\<in>set (run_history a). lh_epoch h \<noteq> lh_epoch pt \<longrightarrow> h \<in> set (run_history b))))"
proof (intro conjI allI impI)
  have ok: "history_ok s1" unfolding s1_def by (rule runs.run_inv) (rule assms(1))
  fix b assume "tl_activeTraining s1 = Some b"
  then show "distinct (map lh_epoch (run_history b))" using ok by (simp add: history_ok_def good_history_def)
next
  have ok: "history_ok s1" unfolding s1_def by (rule runs.run_inv) (rule assms(1))
  fix a p t pt and w :: workflow_update
  assume a: "tl_activeTraining s1 = Some a" "wu_ticket_id w = Some (at_ticketId a)" "epoch_point p = Some pt"
  have g: "good_history (run_history a)" using ok a(1) by (simp add: history_ok_def)
  have tr: "truthy (lh_epoch pt)" using a(3) by (rule epoch_point_truthy)
  let ?hs = "put_point pt (run_history a)"
  have "filter (\<lambda>h. lh_epoch h = lh_epoch pt) ?hs = [pt]"
    using put_point_good [OF g tr] put_point_in [of pt "run_history a"] by (simp add: good_history_def unique_point)
  moreover have "h \<in> set ?hs" if "h \<in> set (run_history a)" "lh_epoch h \<noteq> lh_epoch pt" for h
    using that g tr by (intro put_point_others) (auto simp: good_history_def list_all_iff truthy_num_eq)
  moreover have "\<exists>b. tl_activeTraining (on_progress t p w s1) = Some b \<and> run_history b = ?hs"
    using a by (simp add: on_progress_def update_run_activeTraining Let_def) (simp add: run_history_def)
  ultimately show "\<exists>b. tl_activeTraining (on_progress t p w s1) = Some b \<and>
      filter (\<lambda>h. lh_epoch h = lh_epoch pt) (run_history b) = [pt] \<and>
      (\<forall>h\<in>set (run_history a). lh_epoch h \<noteq> lh_epoch pt \<longrightarrow> h \<in> set (run_history b))"
    by auto
qed

theorem loss_history_sound_witness:
  "distinct (map lh_epoch (run_history (the (tl_activeTraining
      (foldl workflow_step sample_training_page [(u ''T1'', [], Some sample_update), (u ''T1'', [], Some sample_update)])))))"
proof -
  let ?s = "foldl workflow_step sample_training_page [(u ''T1'', [], Some sample_update), (u ''T1'', [], Some sample_update)]"
  have "history_ok sample_training_page" by (simp add: history_ok_def sample_training_page_def sample_training_run_def run_history_def good_history_def)
  moreover have "tl_activeTraining ?s \<noteq> None"
    by (simp add: workflow_step_def on_workflow_def sample_update_def sample_progress_def sample_training_page_def sample_training_run_def
        on_progress_def update_run_def Let_def)
  ultimately show ?thesis
    using loss_history_sound [of sample_training_page "[(u ''T1'', [], Some sample_update), (u ''T1'', [], Some sample_update)]"] by auto
qed

text \<open>
  The log of a run shown on the page stays bounded: starting with at
  most 200 entries, after any sequence of workflow events it has at most 200 plus one for
  each terminal event (completed, failed, cancelled) in the sequence.
\<close>

theorem training_log_bound:
  assumes "tl_activeTraining s = Some a" "length (run_logs a) \<le> 200"
    and "tl_activeTraining (foldl workflow_step s es) = Some b"
  shows "length (run_logs b) \<le> 200 + sum_list (map (\<lambda>(_, _, w). terminal_weight w) es)"
  by (rule run_logs_bound [OF assms(3,1,2)])

theorem training_log_bound_witness: "length (run_logs sample_training_run) \<le> 200 + sum_list (map (\<lambda>(_, _, w). terminal_weight w) [])"
  using training_log_bound [of sample_training_page sample_training_run "[]" sample_training_run]
  by (simp add: sample_training_page_def sample_training_run_def run_logs_def)

text \<open>
  C23. A training request is sent exactly when the launch guard holds and
  some selected snapshot id is not blank; it then names every selected id once, trimmed and
  not blank, its numbers are positive (the seed not negative), and a run from scratch names
  no base model.
\<close>

theorem launch_request_sound:
  "((\<exists>rq. snd (handleStartTraining_begin tk s) = Some rq) \<longleftrightarrow>
      launchReady s \<and> (\<exists>i\<in>set (tl_selectedSnapshotIds s). trim i \<noteq> [])) \<and>
   (\<forall>rq. snd (handleStartTraining_begin tk s) = Some rq \<longrightarrow>
      distinct (rq_gold_snapshot_ids rq) \<and> rq_gold_snapshot_ids rq \<noteq> [] \<and>
      set (rq_gold_snapshot_ids rq) = trim ` set (tl_selectedSnapshotIds s) - {[]} \<and>
      Fin 0 < rq_epochs rq \<and> Fin 0 < rq_batch_size rq \<and> Fin 0 < rq_learning_rate rq \<and> Fin 0 \<le> rq_seed rq \<and>
      (rq_training_mode rq = TM_scratch \<longrightarrow> rq_base_model_id rq = []) \<and> tl_trainingSubmitting (fst (handleStartTraining_begin tk s)))"
proof -
  have ids: "set (launch_snapshot_ids s) = trim ` set (tl_selectedSnapshotIds s) - {[]}"
    by (auto simp: launch_snapshot_ids_def)
  then have ne: "launch_snapshot_ids s = [] \<longleftrightarrow> \<not> (\<exists>i\<in>set (tl_selectedSnapshotIds s). trim i \<noteq> [])"
    unfolding set_empty [symmetric] by auto
  have iff: "snd (handleStartTraining_begin tk s) = Some rq \<longleftrightarrow>
      launchReady s \<and> launch_snapshot_ids s \<noteq> [] \<and> rq = launch_request tk s" for rq
    by (auto simp: handleStartTraining_begin_def)
  have d: "distinct (launch_snapshot_ids s)" by (simp add: launch_snapshot_ids_def)
  have sub: "tl_trainingSubmitting (fst (handleStartTraining_begin tk s))" if "launchReady s" "launch_snapshot_ids s \<noteq> []"
    using that by (simp add: handleStartTraining_begin_def)
  have rq: "rq_gold_snapshot_ids (launch_request tk s) = launch_snapshot_ids s"
    "rq_training_mode (launch_request tk s) = TM_scratch \<Longrightarrow> rq_base_model_id (launch_request tk s) = []"
    by (auto simp: launch_request_def split: if_splits)
  have "launchReady s \<Longrightarrow> Fin 0 < rq_epochs (launch_request tk s) \<and> Fin 0 < rq_batch_size (launch_request tk s) \<and>
      Fin 0 < rq_learning_rate (launch_request tk s) \<and> Fin 0 \<le> rq_seed (launch_request tk s)"
    by (simp add: launchReady_def numericConfigValid_def launch_request_def)
  then show ?thesis unfolding iff using ids ne d sub rq by simp
qed

theorem launch_request_sound_witness: "Fin 0 < rq_epochs (launch_request [] sample_launch)"
proof -
  have "trim (u ''a'') = u ''a''" by (simp add: trim_def u_def is_space_def)
  then have "snd (handleStartTraining_begin [] sample_launch) = Some (launch_request [] sample_launch)"
    using sample_launchReady
    by (simp add: handleStartTraining_begin_def launch_snapshot_ids_def) (simp add: sample_launch_def)
  then show ?thesis using launch_request_sound [of "[]" sample_launch] by blast
qed

text \<open>
  The launch guard does not wait for the readiness of a changed
  selection: while the page holds a ready verdict, selecting any other nonempty cohort leaves
  the launch enabled during the new query, and launching then sends the new, unverified
  cohort.
\<close>

theorem stale_readiness_launch:
  assumes "launchReady s" "\<exists>i\<in>set ids. trim i \<noteq> []"
  shows "tl_readinessLoading (readiness_effect ids s) \<and> launchReady (readiness_effect ids s) \<and>
    (\<exists>rq. snd (handleStartTraining_begin tk (readiness_effect ids s)) = Some rq \<and>
      set (rq_gold_snapshot_ids rq) = trim ` set ids - {[]})"
proof -
  have ids: "ids \<noteq> []" using assms(2) by auto
  let ?s = "readiness_effect ids s"
  have l: "launchReady ?s" using assms(1) ids
    by (simp add: launchReady_def cohortReady_def numericConfigValid_def readiness_effect_def Let_def)
  have set: "set (launch_snapshot_ids ?s) = trim ` set ids - {[]}"
    using ids by (auto simp: launch_snapshot_ids_def readiness_effect_def Let_def)
  then have "launch_snapshot_ids ?s \<noteq> []" using assms(2) by force
  then have "snd (handleStartTraining_begin tk ?s) = Some (launch_request tk ?s)"
    using l by (simp add: handleStartTraining_begin_def)
  then show ?thesis using l ids set by (simp add: launch_request_def) (simp add: readiness_effect_def Let_def)
qed

theorem stale_readiness_launch_witness: "launchReady (readiness_effect [u ''b''] sample_launch)"
proof -
  have "trim (u ''b'') \<noteq> []" by (simp add: trim_def u_def is_space_def)
  then show ?thesis using stale_readiness_launch [OF sample_launchReady, of "[u ''b'']"] by simp
qed

text \<open>
  The snapshot inventory shows exactly the committed snapshots (or
  those without a status), each marked as trained exactly when some model names it, the
  untrained ones first and the newest first within each group, when the dates parse.
\<close>

theorem snapshot_list_order:
  fixes h models snapshots
  defines "l \<equiv> snapshot_list h models snapshots"
  assumes "\<forall>x\<in>set l. num_ok (date_parse h (gsi_last_modified x))"
  shows "mset l = image_mset (snapshot_item models) (filter_mset (\<lambda>x. gs_status x \<in> {[], u ''COMMITTED''}) (mset snapshots)) \<and>
    (\<forall>x\<in>set snapshots. gs_snapshot_id x \<noteq> [] \<longrightarrow>
       gsi_is_trained (snapshot_item models x) = (\<exists>m\<in>set models. md_gold_snapshot_id m = Some (gs_snapshot_id x))) \<and>
    (\<forall>i j. i < j \<longrightarrow> j < length l \<longrightarrow> (gsi_is_trained (l ! i) \<longrightarrow> gsi_is_trained (l ! j)) \<and>
       (gsi_is_trained (l ! i) = gsi_is_trained (l ! j) \<longrightarrow>
          val (date_parse h (gsi_last_modified (l ! j))) \<le> val (date_parse h (gsi_last_modified (l ! i)))))"
proof (intro conjI ballI impI allI)
  show "mset l = image_mset (snapshot_item models) (filter_mset (\<lambda>x. gs_status x \<in> {[], u ''COMMITTED''}) (mset snapshots))"
    by (simp add: l_def snapshot_list_def flip: mset_filter)
next
  fix x :: inventory_snapshot
  assume "gs_snapshot_id x \<noteq> []"
  then show "gsi_is_trained (snapshot_item models x) = (\<exists>m\<in>set models. md_gold_snapshot_id m = Some (gs_snapshot_id x))"
    by (rule snapshot_item_trained)
next
  fix i j assume ij: "i < j" "j < length l"
  have ok: "\<forall>x\<in>set l. snapshot_ok h x" using assms(2) by (simp add: snapshot_ok_def)
  have "sorted_wrt (snapshot_le h) l"
    using ok unfolding l_def snapshot_list_def by (intro snap_order.sort_by_sorted) simp
  then have le: "snapshot_le h (l ! i) (l ! j)" using ij by (rule sorted_wrt_nth_less)
  have "snapshot_ok h (l ! i)" "snapshot_ok h (l ! j)" using ok ij by simp_all
  note iff = snapshot_le_iff [OF this]
  show "gsi_is_trained (l ! i) \<Longrightarrow> gsi_is_trained (l ! j)" using le iff by auto
  show "val (date_parse h (gsi_last_modified (l ! j))) \<le> val (date_parse h (gsi_last_modified (l ! i)))"
    if "gsi_is_trained (l ! i) = gsi_is_trained (l ! j)" using le iff that by auto
qed

text \<open>Two snapshots on a host whose dates parse to the length of their text: the newer comes first.\<close>

definition sample_snapshots :: "inventory_snapshot list" where
  "sample_snapshots = [\<lparr>gs_snapshot_id = u ''a'', gs_manifest_key = [], gs_size_bytes = Fin 1, gs_last_modified = u ''1'', gs_created_at = [], gs_status = []\<rparr>,
     \<lparr>gs_snapshot_id = u ''b'', gs_manifest_key = [], gs_size_bytes = Fin 1, gs_last_modified = u ''22'', gs_created_at = [], gs_status = u ''COMMITTED''\<rparr>]"

definition length_host :: host where
  "length_host = sample_host\<lparr>date_parse := (\<lambda>t. jsnum_of_nat (length t))\<rparr>"

theorem snapshot_list_order_witness:
  "mset (snapshot_list length_host [] sample_snapshots) = image_mset (snapshot_item [])
     (filter_mset (\<lambda>x. gs_status x \<in> {[], u ''COMMITTED''}) (mset sample_snapshots))"
proof -
  have l: "set (snapshot_list length_host [] sample_snapshots) = snapshot_item [] ` set sample_snapshots"
    by (auto simp: snapshot_list_def sample_snapshots_def)
  have "num_ok (lit 1)" "num_ok (lit 2)" using wf_lit [of 1] wf_lit [of 2] by (simp_all add: num_ok_def)
  then have "\<forall>x\<in>set (snapshot_list length_host [] sample_snapshots). num_ok (date_parse length_host (gsi_last_modified x))"
    unfolding l by (simp add: sample_snapshots_def snapshot_item_def length_host_def jsnum_of_nat_exact Let_def)
  then show ?thesis using snapshot_list_order [of length_host "[]" sample_snapshots] by simp
qed

text \<open>
  Readiness answers may arrive in any order: once the query of the
  current selection is answered with a verdict, that verdict is shown and the page is not
  loading, whatever the answers to earlier selections were and whenever they came.
\<close>

theorem cohort_verdict_current:
  fixes s :: training_lab
  assumes "distinct (map fst rs)" "(tl_readinessRun s, q, Inr verdict) \<in> set rs"
  defines "s' \<equiv> foldl (\<lambda>s (r, q, x). cohort_answer r q x s) s rs"
  shows "tl_readiness s' = Some verdict \<and> \<not> tl_readinessLoading s' \<and> tl_selectedSnapshotIds s' = tl_selectedSnapshotIds s"
proof -
  have "s' = cohort_answer (tl_readinessRun s) q (Inr verdict) s"
    using cohort.settle_all_latest [OF assms(1,2)] by (simp add: s'_def cohort.settle_all_def)
  then show ?thesis by (simp add: cohort_answer_def readiness_settle_def Let_def)
qed

theorem cohort_verdict_current_witness:
  "tl_readiness (foldl (\<lambda>s (r, q, x). cohort_answer r q x s) (select_cohort (u ''b'', []) (select_cohort (u ''a'', []) (training_lab_init DEFAULT_CONFIG)))
     [(2, (u ''b'', []), Inr sample_readiness), (1, (u ''a'', []), Inl None)]) = Some sample_readiness"
  using cohort_verdict_current [of "[(2, (u ''b'', []), Inr sample_readiness), (1, (u ''a'', []), Inl None)]"
    "select_cohort (u ''b'', []) (select_cohort (u ''a'', []) (training_lab_init DEFAULT_CONFIG))" "(u ''b'', [])" sample_readiness]
  by (simp add: select_cohort_def readiness_effect_def Let_def training_lab_init_def)

section \<open>Behaviour to note\<close>

text \<open>
  A run cancelled by the operator is shown as running again by the next progress report of
  the worker: the status set on cancellation is not final.
\<close>

lemma progress_revives_cancelled:
  assumes "tl_activeTraining s = Some a" "wu_ticket_id w = Some (at_ticketId a)"
  defines "s1 \<equiv> handleControlTraining_settle CA_cancel (Inr ()) s"
  shows "map_option at_status (tl_activeTraining s1) = Some RS_cancelled \<and>
    map_option at_status (tl_activeTraining (on_progress t p w s1)) = Some RS_running"
  using assms by (simp add: handleControlTraining_settle_def on_progress_def update_run_activeTraining Let_def)

text \<open>
  The inventory fetch keeps the models it was started with: when the fetch of the first
  render, started with no models, answers after the one started with the models, every
  snapshot is shown as untrained.
\<close>

lemma stale_snapshot_list_wins:
  "\<forall>x\<in>set (tl_availableSnapshots (loadAvailableSnapshots_settle h [] (Inr inv1)
      (loadAvailableSnapshots_settle h models (Inr inv2) s))). \<not> gsi_is_trained x"
  by (auto simp: loadAvailableSnapshots_settle_def snapshot_list_def snapshot_item_def Let_def trainedSnapshotSet_def)

end
