(* ===== verification/PipelineTypes.thy ===== *)
theory PipelineTypes
  imports JsText
begin

text \<open>
  The contracts of the Bronze-to-Gold pipeline (\<open>pages/pipeline-dag/types.ts\<close>): the
  scientific evidence of a run, the hops of the graph, the preprocessing graph with its
  runtime and progress, and the normalization that fills in what a response of a fresh
  installation leaves out. \<open>PipelineTypes\<close> is shared by the run history and the Gold console.
\<close>

section \<open>Scientific evidence\<close>

record QuantileSummary =
  qs_min :: jsnum
  qs_p05 :: jsnum
  qs_p25 :: jsnum
  qs_p50 :: jsnum
  qs_p75 :: jsnum
  qs_p95 :: jsnum
  qs_max :: jsnum

record histogram_bin =
  hb_label :: str
  hb_count :: jsnum

record LCFeatureEvidence =
  lfe_rows :: jsnum
  lfe_snapshot_count :: jsnum
  lfe_total_cadences :: jsnum
  lfe_n_points :: QuantileSummary
  lfe_time_span_days :: QuantileSummary
  lfe_median_cadence_minutes :: QuantileSummary
  lfe_max_gap_minutes :: QuantileSummary
  lfe_flux_std_ppm :: QuantileSummary
  lfe_flux_amplitude_ppm :: QuantileSummary
  lfe_flux_rms_ppm :: QuantileSummary
  lfe_median_flux_err_ppm :: QuantileSummary

record BLSSearchEvidence =
  bse_evaluated :: jsnum
  bse_available :: jsnum
  bse_unavailable :: jsnum
  bse_period_days :: QuantileSummary
  bse_duration_hours :: QuantileSummary
  bse_depth_ppm :: QuantileSummary
  bse_power :: QuantileSummary
  bse_period_histogram :: "histogram_bin list"

record TPFSpatialEvidence =
  tse_evaluated :: jsnum
  tse_available :: jsnum
  tse_unavailable :: jsnum
  tse_pixel_mad :: QuantileSummary
  tse_variability_peak_percent :: QuantileSummary
  tse_transit_deficit_sum :: QuantileSummary
  tse_centroid_offset_pixels :: QuantileSummary
  tse_centroid_offset_histogram :: "histogram_bin list"

record CandidateAssemblyEvidence =
  cae_rows :: jsnum
  cae_tic_available :: jsnum
  cae_tic_unavailable :: jsnum
  cae_bls_available :: jsnum
  cae_transit_evidence :: jsnum
  cae_toi_matched :: jsnum
  cae_evidence_tier_histogram :: "histogram_bin list"
  cae_toi_match_status_histogram :: "histogram_bin list"

record GoldArtifactEvidence =
  gae_snapshot_id :: str
  gae_sector :: jsnum
  gae_object_key :: str
  gae_row_count :: jsnum
  gae_size_bytes :: jsnum
  gae_bytes_per_row :: jsnum
  gae_object_present :: bool
  gae_size_verified :: bool
  gae_checksums_declared :: bool

record GoldMaterializationEvidence =
  gme_batch_count :: jsnum
  gme_completed_batches :: jsnum
  gme_failed_batches :: jsnum
  gme_manifest_verified_batches :: jsnum
  gme_row_accounting_verified_batches :: jsnum
  gme_rows :: jsnum
  gme_artifact_count :: jsnum
  gme_total_bytes :: jsnum
  gme_object_verified_artifacts :: jsnum
  gme_checksum_declared_artifacts :: jsnum
  gme_artifacts :: "GoldArtifactEvidence list"
  gme_issues :: "str list"

record GoldProjectionSnapshotEvidence =
  gpse_snapshot_id :: str
  gpse_expected_rows :: jsnum
  gpse_ledger_indexed_rows :: jsnum
  gpse_registry_indexed_rows :: jsnum
  gpse_actual_candidate_rows :: jsnum
  gpse_lightcurve_sample_rows :: jsnum
  gpse_training_positive_rows :: jsnum
  gpse_training_negative_rows :: jsnum
  gpse_training_unresolved_rows :: jsnum
  gpse_registry_status :: str
  gpse_marker_status :: str
  gpse_manifest_binding_valid :: bool
  gpse_row_parity_valid :: bool

record GoldProjectionEvidence =
  gpe_snapshot_count :: jsnum
  gpe_registry_ready_snapshots :: jsnum
  gpe_marker_verified_snapshots :: jsnum
  gpe_row_parity_snapshots :: jsnum
  gpe_expected_rows :: jsnum
  gpe_indexed_rows :: jsnum
  gpe_actual_candidate_rows :: jsnum
  gpe_lightcurve_sample_rows :: jsnum
  gpe_training_cohort_rows :: jsnum
  gpe_snapshots :: "GoldProjectionSnapshotEvidence list"
  gpe_issues :: "str list"

record GoldCommitSnapshotEvidence =
  gcse_snapshot_id :: str
  gcse_completed_at :: "str option"
  gcse_batch_status :: str
  gcse_manifest_status :: str
  gcse_projection_status :: str
  gcse_batch_rows :: jsnum
  gcse_manifest_rows :: jsnum
  gcse_projected_rows :: jsnum
  gcse_artifact_count :: jsnum
  gcse_manifest_sha_valid :: bool
  gcse_fingerprint_valid :: bool
  gcse_artifact_integrity_valid :: bool
  gcse_row_accounting_valid :: bool
  gcse_projection_ready :: bool
  gcse_current :: bool
  gcse_end_to_end_valid :: bool

record GoldCommitEvidence =
  gce_snapshot_count :: jsnum
  gce_committed_snapshots :: jsnum
  gce_end_to_end_verified_snapshots :: jsnum
  gce_active_current_snapshots :: jsnum
  gce_rows :: jsnum
  gce_artifacts :: jsnum
  gce_snapshots :: "GoldCommitSnapshotEvidence list"
  gce_issues :: "str list"

section \<open>Hops\<close>

datatype HopStatus = HS_not_observed | HS_idle | HS_running | HS_draining | HS_frozen | HS_catalog_syncing
  | HS_ready | HS_completed | HS_retry | HS_failed | HS_cancelling | HS_canceled

datatype resume_action = RA_reuse_and_ack | RA_verify_silver | RA_reprocess | RA_terminal

record telemetry_point =
  tpt_timestamp :: jsnum
  tpt_value :: jsnum
  tpt_labels :: "(str \<times> str) list option"

record scatter_point =
  scp_object_key :: str
  scp_before_ppm :: jsnum
  scp_after_ppm :: jsnum
  scp_outlier_removed :: jsnum
  scp_preclip_samples :: jsnum
  scp_sigma_clip_level :: jsnum

record tpf_transform_point =
  ttp_object_key :: str
  ttp_completed_at :: str
  ttp_diagnostics_observed :: bool
  ttp_finite_pixel_fraction :: jsnum
  ttp_input_cadences :: jsnum
  ttp_output_cadences :: jsnum
  ttp_input_pixel_values :: jsnum
  ttp_normalized_pixel_values :: jsnum
  ttp_nonfinite_pixel_values :: jsnum
  ttp_invalid_reference_values :: jsnum
  ttp_invalid_reference_pixels :: jsnum
  ttp_scatter_p50_ppm :: jsnum
  ttp_scatter_p95_ppm :: jsnum
  ttp_drift_p50_ppm :: jsnum
  ttp_drift_p95_ppm :: jsnum
  ttp_boundary_jump_p50_ppm :: jsnum
  ttp_boundary_jump_p95_ppm :: jsnum
  ttp_chunk_count :: jsnum

record materialization_point =
  mzp_object_key :: str
  mzp_product_kind :: str
  mzp_rows :: jsnum
  mzp_size_bytes :: jsnum
  mzp_source_bytes :: jsnum
  mzp_encode_duration_ms :: jsnum
  mzp_completed_at :: str
  mzp_etag :: str
  mzp_schema_version :: str
  mzp_checksum_bound :: bool
  mzp_lineage_bound :: bool
  mzp_size_verified :: bool
  mzp_schema_verified :: bool
  mzp_checkpoint_linked :: bool
  mzp_integrity_verified :: bool
  mzp_verification_attempts :: jsnum

record encode_failure =
  enf_object_key :: str
  enf_product_kind :: str
  enf_reason :: str
  enf_recovered :: bool
  enf_occurred_at :: str

record silver_failure =
  svf_object_key :: str
  svf_product_kind :: str
  svf_kind :: str
  svf_reason :: str
  svf_recovered :: bool
  svf_attempts :: jsnum
  svf_occurred_at :: str

record checkpoint_point =
  ckp_checkpoint_id :: str
  ckp_product_kind :: str
  ckp_state :: str
  ckp_schema_version :: jsnum
  ckp_attempts :: jsnum
  ckp_terminal :: bool
  ckp_silver_object_key :: str
  ckp_silver_verified :: bool
  ckp_resume_action :: resume_action
  ckp_last_error_kind :: str
  ckp_lifecycle_elapsed_ms :: jsnum
  ckp_created_at :: str
  ckp_updated_at :: str

record Hop =
  hop_id :: str
  hop_stepNumber :: str
  hop_label :: str
  hop_shortTitle :: str
  hop_description :: str
  hop_astronomyGoal :: str
  hop_formula :: "str option"
  hop_contract :: str
  hop_status :: HopStatus
  hop_input :: str
  hop_output :: str
  hop_observed_at :: "str option"
  hop_metrics :: "(str \<times> jsnum) list option"
  hop_telemetry :: "(str \<times> telemetry_point list) list option"
  hop_details :: "(str \<times> str) list option"
  hop_lc_feature_evidence :: "LCFeatureEvidence option"
  hop_bls_search_evidence :: "BLSSearchEvidence option"
  hop_tpf_spatial_evidence :: "TPFSpatialEvidence option"
  hop_candidate_assembly_evidence :: "CandidateAssemblyEvidence option"
  hop_gold_materialization_evidence :: "GoldMaterializationEvidence option"
  hop_gold_projection_evidence :: "GoldProjectionEvidence option"
  hop_gold_commit_evidence :: "GoldCommitEvidence option"
  hop_scatter_points :: "scatter_point list option"
  hop_tpf_transform_points :: "tpf_transform_point list option"
  hop_materialization_points :: "materialization_point list option"
  hop_encode_failures :: "encode_failure list option"
  hop_silver_failures :: "silver_failure list option"
  hop_checkpoint_points :: "checkpoint_point list option"

section \<open>The preprocessing graph\<close>

record PreprocessingJob =
  pj_ticket_id :: str
  pj_status :: str
  pj_mode :: str
  pj_worker_count :: jsnum
  pj_ingest_run_id :: "str option"
  pj_prefix :: "str option"
  pj_started_at :: str
  pj_updated_at :: str
  pj_error :: "str option"

record graph_worker =
  gw_worker_id :: str
  gw_state :: str
  gw_product_kind :: "str option"
  gw_object_key :: "str option"
  gw_stage :: "str option"
  gw_started_at :: "str option"
  gw_updated_at :: "str option"
  gw_last_duration_ms :: "jsnum option"
  gw_completed :: jsnum
  gw_failed :: jsnum

record graph_trace =
  gt_event :: str
  gt_worker_id :: str
  gt_worker_state :: str
  gt_product_kind :: "str option"
  gt_object_key :: "str option"
  gt_stage :: "str option"
  gt_elapsed_ms :: "jsnum option"
  gt_error :: "str option"
  gt_occurred_at :: str

record graph_runtime =
  gr_desired_workers :: jsnum
  gr_actual_workers :: jsnum
  gr_processing :: jsnum
  gr_throughput :: jsnum
  gr_completed :: jsnum
  gr_failed :: jsnum
  gr_observed_at :: "str option"
  gr_workers :: "graph_worker list"
  gr_trace :: "graph_trace list"

record graph_progress =
  gp_bronze_total :: jsnum
  gp_bronze_bytes :: jsnum
  gp_bronze_completed :: jsnum
  gp_bronze_pending :: jsnum
  gp_bronze_failed :: jsnum
  gp_bronze_observed :: bool
  gp_bronze_lightcurves :: jsnum
  gp_bronze_target_pixels :: jsnum
  gp_silver_total :: jsnum
  gp_silver_bytes :: jsnum
  gp_silver_lightcurves :: jsnum
  gp_silver_target_pixels :: jsnum
  gp_gold_total :: jsnum
  gp_gold_bytes :: jsnum
  gp_footprint_observed :: bool
  gp_checkpoint_total :: jsnum
  gp_checkpoint_completed :: jsnum
  gp_checkpoint_pending :: jsnum
  gp_checkpoint_failed :: jsnum
  gp_completed_lightcurves :: jsnum
  gp_completed_target_pixels :: jsnum
  gp_backlog_pending :: jsnum
  gp_backlog_ack_pending :: jsnum
  gp_items_to_process :: jsnum
  gp_observed_at :: "str option"

record graph_edge =
  ge_id :: str
  ge_source :: str
  ge_target :: str
  ge_status :: HopStatus

record graph_hop =
  gh_id :: str
  gh_status :: HopStatus
  gh_observed_at :: "str option"
  gh_metrics :: "(str \<times> jsnum) list option"
  gh_telemetry :: "(str \<times> telemetry_point list) list option"
  gh_details :: "(str \<times> str) list option"
  gh_scatter_points :: "scatter_point list option"
  gh_tpf_transform_points :: "tpf_transform_point list option"
  gh_materialization_points :: "materialization_point list option"
  gh_encode_failures :: "encode_failure list option"
  gh_silver_failures :: "silver_failure list option"
  gh_checkpoint_points :: "checkpoint_point list option"

record PreprocessingGraph =
  pg_status :: HopStatus
  pg_observed_at :: str
  pg_run :: "PreprocessingJob option"
  pg_runtime :: graph_runtime
  pg_progress :: graph_progress
  pg_hops :: "graph_hop list"
  pg_edges :: "graph_edge list"

definition EMPTY_PROGRESS :: graph_progress where
  "EMPTY_PROGRESS = \<lparr>gp_bronze_total = Fin 0, gp_bronze_bytes = Fin 0, gp_bronze_completed = Fin 0, gp_bronze_pending = Fin 0, gp_bronze_failed = Fin 0, gp_bronze_observed = False, gp_bronze_lightcurves = Fin 0, gp_bronze_target_pixels = Fin 0, gp_silver_total = Fin 0, gp_silver_bytes = Fin 0, gp_silver_lightcurves = Fin 0, gp_silver_target_pixels = Fin 0, gp_gold_total = Fin 0, gp_gold_bytes = Fin 0, gp_footprint_observed = False, gp_checkpoint_total = Fin 0, gp_checkpoint_completed = Fin 0, gp_checkpoint_pending = Fin 0, gp_checkpoint_failed = Fin 0, gp_completed_lightcurves = Fin 0, gp_completed_target_pixels = Fin 0, gp_backlog_pending = Fin 0, gp_backlog_ack_pending = Fin 0, gp_items_to_process = Fin 0, gp_observed_at = None\<rparr>"

definition EMPTY_RUNTIME :: graph_runtime where
  "EMPTY_RUNTIME = \<lparr>gr_desired_workers = Fin 0, gr_actual_workers = Fin 0, gr_processing = Fin 0, gr_throughput = Fin 0, gr_completed = Fin 0, gr_failed = Fin 0, gr_observed_at = None, gr_workers = [], gr_trace = []\<rparr>"

text \<open>
  What the endpoint may answer: every field of the graph, of its runtime and of its progress
  can be absent, and the four arrays can be something that is no array (\<open>None\<close> in either
  case).
\<close>

record partial_runtime =
  prt_desired_workers :: "jsnum option"
  prt_actual_workers :: "jsnum option"
  prt_processing :: "jsnum option"
  prt_throughput :: "jsnum option"
  prt_completed :: "jsnum option"
  prt_failed :: "jsnum option"
  prt_observed_at :: "str option"
  prt_workers :: "graph_worker list option"
  prt_trace :: "graph_trace list option"

record partial_progress =
  pp_bronze_total :: "jsnum option"
  pp_bronze_bytes :: "jsnum option"
  pp_bronze_completed :: "jsnum option"
  pp_bronze_pending :: "jsnum option"
  pp_bronze_failed :: "jsnum option"
  pp_bronze_observed :: "bool option"
  pp_bronze_lightcurves :: "jsnum option"
  pp_bronze_target_pixels :: "jsnum option"
  pp_silver_total :: "jsnum option"
  pp_silver_bytes :: "jsnum option"
  pp_silver_lightcurves :: "jsnum option"
  pp_silver_target_pixels :: "jsnum option"
  pp_gold_total :: "jsnum option"
  pp_gold_bytes :: "jsnum option"
  pp_footprint_observed :: "bool option"
  pp_checkpoint_total :: "jsnum option"
  pp_checkpoint_completed :: "jsnum option"
  pp_checkpoint_pending :: "jsnum option"
  pp_checkpoint_failed :: "jsnum option"
  pp_completed_lightcurves :: "jsnum option"
  pp_completed_target_pixels :: "jsnum option"
  pp_backlog_pending :: "jsnum option"
  pp_backlog_ack_pending :: "jsnum option"
  pp_items_to_process :: "jsnum option"
  pp_observed_at :: "str option"

record partial_graph =
  pgr_status :: "HopStatus option"
  pgr_observed_at :: "str option"
  pgr_run :: "PreprocessingJob option"
  pgr_runtime :: "partial_runtime option"
  pgr_progress :: "partial_progress option"
  pgr_hops :: "graph_hop list option"
  pgr_edges :: "graph_edge list option"

text \<open>Object spreads: a field that is present overrides the one before it.\<close>

definition spread_progress :: "graph_progress \<Rightarrow> partial_progress \<Rightarrow> graph_progress" where
  "spread_progress d p = \<lparr>gp_bronze_total = nullish (pp_bronze_total p) (gp_bronze_total d),
     gp_bronze_bytes = nullish (pp_bronze_bytes p) (gp_bronze_bytes d),
     gp_bronze_completed = nullish (pp_bronze_completed p) (gp_bronze_completed d),
     gp_bronze_pending = nullish (pp_bronze_pending p) (gp_bronze_pending d),
     gp_bronze_failed = nullish (pp_bronze_failed p) (gp_bronze_failed d),
     gp_bronze_observed = nullish (pp_bronze_observed p) (gp_bronze_observed d),
     gp_bronze_lightcurves = nullish (pp_bronze_lightcurves p) (gp_bronze_lightcurves d),
     gp_bronze_target_pixels = nullish (pp_bronze_target_pixels p) (gp_bronze_target_pixels d),
     gp_silver_total = nullish (pp_silver_total p) (gp_silver_total d),
     gp_silver_bytes = nullish (pp_silver_bytes p) (gp_silver_bytes d),
     gp_silver_lightcurves = nullish (pp_silver_lightcurves p) (gp_silver_lightcurves d),
     gp_silver_target_pixels = nullish (pp_silver_target_pixels p) (gp_silver_target_pixels d),
     gp_gold_total = nullish (pp_gold_total p) (gp_gold_total d),
     gp_gold_bytes = nullish (pp_gold_bytes p) (gp_gold_bytes d),
     gp_footprint_observed = nullish (pp_footprint_observed p) (gp_footprint_observed d),
     gp_checkpoint_total = nullish (pp_checkpoint_total p) (gp_checkpoint_total d),
     gp_checkpoint_completed = nullish (pp_checkpoint_completed p) (gp_checkpoint_completed d),
     gp_checkpoint_pending = nullish (pp_checkpoint_pending p) (gp_checkpoint_pending d),
     gp_checkpoint_failed = nullish (pp_checkpoint_failed p) (gp_checkpoint_failed d),
     gp_completed_lightcurves = nullish (pp_completed_lightcurves p) (gp_completed_lightcurves d),
     gp_completed_target_pixels = nullish (pp_completed_target_pixels p) (gp_completed_target_pixels d),
     gp_backlog_pending = nullish (pp_backlog_pending p) (gp_backlog_pending d),
     gp_backlog_ack_pending = nullish (pp_backlog_ack_pending p) (gp_backlog_ack_pending d),
     gp_items_to_process = nullish (pp_items_to_process p) (gp_items_to_process d),
     gp_observed_at = nullish2 (pp_observed_at p) (gp_observed_at d)\<rparr>"

definition spread_runtime :: "graph_runtime \<Rightarrow> partial_runtime \<Rightarrow> graph_runtime" where
  "spread_runtime d p = \<lparr>gr_desired_workers = nullish (prt_desired_workers p) (gr_desired_workers d),
     gr_actual_workers = nullish (prt_actual_workers p) (gr_actual_workers d),
     gr_processing = nullish (prt_processing p) (gr_processing d),
     gr_throughput = nullish (prt_throughput p) (gr_throughput d),
     gr_completed = nullish (prt_completed p) (gr_completed d),
     gr_failed = nullish (prt_failed p) (gr_failed d),
     gr_observed_at = nullish2 (prt_observed_at p) (gr_observed_at d),
     gr_workers = nullish (prt_workers p) (gr_workers d),
     gr_trace = nullish (prt_trace p) (gr_trace d)\<rparr>"

definition normalizePreprocessingGraph :: "partial_graph option \<Rightarrow> PreprocessingGraph" where
  "normalizePreprocessingGraph value =
     (let runtime = Option.bind value pgr_runtime
      in \<lparr>pg_status = nullish (Option.bind value pgr_status) HS_not_observed,
          pg_observed_at = nullish (Option.bind value pgr_observed_at) [],
          pg_run = nullish2 (Option.bind value pgr_run) None,
          pg_runtime = (case runtime of None \<Rightarrow> EMPTY_RUNTIME | Some r \<Rightarrow> spread_runtime EMPTY_RUNTIME r)
            \<lparr>gr_workers := nullish (Option.bind runtime prt_workers) [], gr_trace := nullish (Option.bind runtime prt_trace) []\<rparr>,
          pg_progress = (case Option.bind value pgr_progress of None \<Rightarrow> EMPTY_PROGRESS | Some p \<Rightarrow> spread_progress EMPTY_PROGRESS p),
          pg_hops = nullish (Option.bind value pgr_hops) [],
          pg_edges = nullish (Option.bind value pgr_edges) []\<rparr>)"

section \<open>Normalization is a retraction\<close>

text \<open>A graph as the endpoint sends it when nothing is left out.\<close>

definition full_progress :: "graph_progress \<Rightarrow> partial_progress" where
  "full_progress p = \<lparr>pp_bronze_total = Some (gp_bronze_total p),
     pp_bronze_bytes = Some (gp_bronze_bytes p),
     pp_bronze_completed = Some (gp_bronze_completed p),
     pp_bronze_pending = Some (gp_bronze_pending p),
     pp_bronze_failed = Some (gp_bronze_failed p),
     pp_bronze_observed = Some (gp_bronze_observed p),
     pp_bronze_lightcurves = Some (gp_bronze_lightcurves p),
     pp_bronze_target_pixels = Some (gp_bronze_target_pixels p),
     pp_silver_total = Some (gp_silver_total p),
     pp_silver_bytes = Some (gp_silver_bytes p),
     pp_silver_lightcurves = Some (gp_silver_lightcurves p),
     pp_silver_target_pixels = Some (gp_silver_target_pixels p),
     pp_gold_total = Some (gp_gold_total p),
     pp_gold_bytes = Some (gp_gold_bytes p),
     pp_footprint_observed = Some (gp_footprint_observed p),
     pp_checkpoint_total = Some (gp_checkpoint_total p),
     pp_checkpoint_completed = Some (gp_checkpoint_completed p),
     pp_checkpoint_pending = Some (gp_checkpoint_pending p),
     pp_checkpoint_failed = Some (gp_checkpoint_failed p),
     pp_completed_lightcurves = Some (gp_completed_lightcurves p),
     pp_completed_target_pixels = Some (gp_completed_target_pixels p),
     pp_backlog_pending = Some (gp_backlog_pending p),
     pp_backlog_ack_pending = Some (gp_backlog_ack_pending p),
     pp_items_to_process = Some (gp_items_to_process p),
     pp_observed_at = gp_observed_at p\<rparr>"

definition full_runtime :: "graph_runtime \<Rightarrow> partial_runtime" where
  "full_runtime r = \<lparr>prt_desired_workers = Some (gr_desired_workers r),
     prt_actual_workers = Some (gr_actual_workers r),
     prt_processing = Some (gr_processing r),
     prt_throughput = Some (gr_throughput r),
     prt_completed = Some (gr_completed r),
     prt_failed = Some (gr_failed r),
     prt_observed_at = gr_observed_at r,
     prt_workers = Some (gr_workers r),
     prt_trace = Some (gr_trace r)\<rparr>"

definition full_graph :: "PreprocessingGraph \<Rightarrow> partial_graph" where
  "full_graph g = \<lparr>pgr_status = Some (pg_status g), pgr_observed_at = Some (pg_observed_at g), pgr_run = pg_run g,
     pgr_runtime = Some (full_runtime (pg_runtime g)), pgr_progress = Some (full_progress (pg_progress g)),
     pgr_hops = Some (pg_hops g), pgr_edges = Some (pg_edges g)\<rparr>"

lemma nullish2_None [simp]: "nullish2 x None = x"
  by (cases x) simp_all

lemma spread_full_progress: "spread_progress EMPTY_PROGRESS (full_progress p) = p"
  by (simp add: spread_progress_def full_progress_def EMPTY_PROGRESS_def)

lemma spread_full_runtime: "spread_runtime EMPTY_RUNTIME (full_runtime r) = r"
  by (simp add: spread_runtime_def full_runtime_def EMPTY_RUNTIME_def)

lemma normalize_full: "normalizePreprocessingGraph (Some (full_graph g)) = g"
  by (simp add: normalizePreprocessingGraph_def full_graph_def spread_full_progress spread_full_runtime)
     (simp add: full_runtime_def)

lemma normalize_absent:
  "normalizePreprocessingGraph None = \<lparr>pg_status = HS_not_observed, pg_observed_at = [], pg_run = None,
     pg_runtime = EMPTY_RUNTIME, pg_progress = EMPTY_PROGRESS, pg_hops = [], pg_edges = []\<rparr>"
  by (simp add: normalizePreprocessingGraph_def) (simp add: EMPTY_RUNTIME_def)

end
