(* ===== verification/TicketBoard.thy ===== *)
theory TicketBoard
  imports RunnerTicket PipelineTypes NumSort
begin

text \<open>
  The runner-tickets page (\<open>pages/runner-tickets\<close>): the data contract of runs and ticket
  records (\<open>types.ts\<close>), the time and status helpers (\<open>utils.ts\<close>), the aggregation of
  catalog tickets and stage runs into ticket records, the page's loading and selection
  (\<open>page.tsx\<close>), and the execution history of the inspector
  (\<open>components/RunnerTicketInspector.tsx\<close>).
\<close>

section \<open>Data\<close>

record PipelineRun =
  pr_pipeline :: str
  pr_run_id :: str
  pr_mode :: str
  pr_status :: str
  pr_started_at :: str
  pr_finished_at :: "str option"
  pr_max_batch_records :: jsnum
  pr_idle_flush_seconds :: jsnum
  pr_pending_inputs :: jsnum
  pr_completed_batches :: jsnum
  pr_input_records :: jsnum
  pr_output_rows :: jsnum
  pr_indexed_rows :: jsnum
  pr_last_snapshot_id :: "str option"
  pr_last_error :: "str option"
  pr_updated_at :: str

record PipelineBatch =
  pb_batch_id :: str
  pb_mode :: str
  pb_status :: str
  pb_started_at :: str
  pb_completed_at :: "str option"
  pb_input_records :: jsnum
  pb_candidate_rows :: jsnum
  pb_artifact_count :: jsnum
  pb_indexed_rows :: jsnum
  pb_snapshot_id :: "str option"
  pb_snapshot_fingerprint :: "str option"
  pb_manifest_key :: "str option"
  pb_manifest_sha256 :: "str option"
  pb_error :: "str option"

record PipelineComponentEvent =
  pce_component_id :: str
  pce_status :: str
  pce_occurred_at :: str
  pce_input_records :: jsnum
  pce_output_rows :: jsnum
  pce_indexed_rows :: jsnum
  pce_snapshot_id :: "str option"
  pce_error :: "str option"

record scientific_evidence =
  se_lc_features :: "LCFeatureEvidence option"
  se_bls_search :: "BLSSearchEvidence option"
  se_tpf_spatial :: "TPFSpatialEvidence option"
  se_candidate_assembly :: "CandidateAssemblyEvidence option"
  se_gold_materialization :: "GoldMaterializationEvidence option"
  se_gold_projection :: "GoldProjectionEvidence option"
  se_gold_commit :: "GoldCommitEvidence option"

record PipelineRunDetail =
  prd_run :: PipelineRun
  prd_batches :: "PipelineBatch list"
  prd_components :: "PipelineComponentEvent list"
  prd_scientific_evidence :: "scientific_evidence option"

record TicketRecord =
  tk_ticket_id :: str
  tk_runs :: "PipelineRun list"
  tk_primaryRun :: "PipelineRun option"
  tk_mode :: str
  tk_status :: str
  tk_started_at :: "str option"
  tk_finished_at :: "str option"
  tk_updated_at :: "str option"
  tk_last_snapshot_id :: "str option"
  tk_last_error :: "str option"
  tk_hasIngest :: bool
  tk_hasSilver :: bool
  tk_hasGold :: bool
  tk_ingestRun :: "PipelineRun option"
  tk_silverRun :: "PipelineRun option"
  tk_goldRun :: "PipelineRun option"

datatype ExecutionActionType = EA_started | EA_stopped | EA_completed | EA_failed | EA_running | EA_draining | EA_syncing

record ExecutionActionRecord =
  ea_id :: str
  ea_timestamp :: str
  ea_action :: ExecutionActionType
  ea_actionLabel :: str
  ea_target :: str
  ea_detail :: "str option"
  ea_snapshotId :: "str option"

section \<open>Time and status helpers\<close>

definition parseTime :: "host \<Rightarrow> str option \<Rightarrow> jsnum option" where
  "parseTime h value = (case value of None \<Rightarrow> None
     | Some v \<Rightarrow> if v = [] then None
         else let parsed = date_parse h (if str_includes v (u ''T'') then v else (replace_first 32 84 v @ u ''Z''))
              in if isNaN parsed then None else Some parsed)"

definition displayTime :: "host \<Rightarrow> str option \<Rightarrow> str" where
  "displayTime h value = nullish (nullish2 (map_option (locale_string h) (parseTime h value)) value) emdash"

definition elapsed :: "host \<Rightarrow> str option \<Rightarrow> str option \<Rightarrow> str" where
  "elapsed h start finish = (case (parseTime h start, parseTime h finish) of
      (Some from, Some to) \<Rightarrow>
        if to < from then emdash
        else let seconds = (to - from) / lit 1000 in
          if seconds < lit 60 then (toFixed seconds (if seconds < lit 10 then 1 else 0) @ u ''s'')
          else if seconds < lit 3600 then (toFixed (seconds / lit 60) 1 @ u ''m'')
          else (toFixed (seconds / lit 3600) 1 @ u ''h'')
    | _ \<Rightarrow> emdash)"

definition normalizedStatus :: "str option \<Rightarrow> str" where
  "normalizedStatus value = toLowerCase (trim (nullish value (u ''not_observed'')))"

section \<open>Ticket records\<close>

definition group_runs :: "PipelineRun list \<Rightarrow> (str \<times> PipelineRun list) list" where
  "group_runs runs = fold (\<lambda>run m. if pr_run_id run = [] then m
     else AList.update (pr_run_id run) (nullish (map_of m (pr_run_id run)) [] @ [run]) m) runs []"

definition allTicketIds :: "RunnerTicket list \<Rightarrow> PipelineRun list \<Rightarrow> str list" where
  "allTicketIds catalog runs =
     js_uniq (filter (\<lambda>i. i \<noteq> []) (map ticket_id catalog) @ map fst (group_runs runs))"

definition pipeline_has :: "string \<Rightarrow> PipelineRun \<Rightarrow> bool" where
  "pipeline_has part r = str_includes (toLowerCase (pr_pipeline r)) (u part)"

definition is_ingest_run :: "PipelineRun \<Rightarrow> bool" where
  "is_ingest_run r = (pipeline_has ''ingest'' r \<or> pipeline_has ''bronze'' r)"

definition is_gold_run :: "PipelineRun \<Rightarrow> bool" where
  "is_gold_run r = (pipeline_has ''gold'' r \<or> pipeline_has ''enrich'' r \<or> pipeline_has ''silver_to_gold'' r)"

definition is_silver_run :: "PipelineRun \<Rightarrow> bool" where
  "is_silver_run r = ((pipeline_has ''preprocess'' r \<or> pipeline_has ''silver'' r) \<and>
     \<not> pipeline_has ''gold'' r \<and> \<not> pipeline_has ''silver_to_gold'' r)"

definition run_active :: "PipelineRun \<Rightarrow> bool" where
  "run_active r = (normalizedStatus (Some (pr_status r)) \<in> {u ''running'', u ''draining'', u ''catalog_syncing''})"

definition run_failed :: "PipelineRun \<Rightarrow> bool" where
  "run_failed r = (normalizedStatus (Some (pr_status r)) \<in> {u ''failed'', u ''error''})"

definition run_completed :: "PipelineRun \<Rightarrow> bool" where
  "run_completed r = (normalizedStatus (Some (pr_status r)) = u ''completed'')"

definition overallStatus :: "PipelineRun list \<Rightarrow> str" where
  "overallStatus ticketRuns =
     (if list_ex run_active ticketRuns then u ''running''
      else if list_ex run_failed ticketRuns then u ''failed''
      else if ticketRuns \<noteq> [] \<and> list_all run_completed ticketRuns then u ''completed''
      else u ''idle'')"

definition ticket_record :: "RunnerTicket list \<Rightarrow> PipelineRun list \<Rightarrow> str \<Rightarrow> TicketRecord" where
  "ticket_record catalog runs tid =
     (let ticketRuns = nullish (map_of (group_runs runs) tid) [];
          chTicket = List.find (\<lambda>t. ticket_id t = tid) catalog;
          ingestRun = List.find is_ingest_run ticketRuns;
          goldRun = List.find is_gold_run ticketRuns;
          silverRun = List.find is_silver_run ticketRuns;
          primaryRun = nullish2 goldRun (nullish2 silverRun (nullish2 ingestRun (arr_at ticketRuns 0)));
          startedAt = nullish2 (map_option created_at chTicket)
            (nullish2 (arr_at (sort_by str_le (filter (\<lambda>x. x \<noteq> []) (map pr_started_at ticketRuns))) 0)
              (map_option pr_started_at primaryRun));
          updatedAt = nullish2 (Option.bind chTicket updated_at)
            (nullish2 (arr_at (rev (sort_by str_le (filter (\<lambda>x. x \<noteq> []) (map pr_updated_at ticketRuns)))) 0)
              (map_option pr_updated_at primaryRun))
      in \<lparr>tk_ticket_id = tid, tk_runs = ticketRuns, tk_primaryRun = primaryRun,
          tk_mode = opt_or_str (map_option pr_mode primaryRun) (u ''STREAM''), tk_status = overallStatus ticketRuns,
          tk_started_at = startedAt, tk_finished_at = Option.bind primaryRun pr_finished_at, tk_updated_at = updatedAt,
          tk_last_snapshot_id = Option.bind primaryRun pr_last_snapshot_id,
          tk_last_error = Option.bind (List.find (\<lambda>r. pr_last_error r \<noteq> None \<and> pr_last_error r \<noteq> Some []) ticketRuns) pr_last_error,
          tk_hasIngest = (ingestRun \<noteq> None), tk_hasSilver = (silverRun \<noteq> None), tk_hasGold = (goldRun \<noteq> None),
          tk_ingestRun = ingestRun, tk_silverRun = silverRun, tk_goldRun = goldRun\<rparr>)"

definition record_time :: "host \<Rightarrow> TicketRecord \<Rightarrow> jsnum" where
  "record_time h t = nullish (parseTime h (nullish2 (tk_started_at t) (tk_updated_at t))) (lit 0)"

definition ticketRecords :: "host \<Rightarrow> RunnerTicket list \<Rightarrow> PipelineRun list \<Rightarrow> TicketRecord list" where
  "ticketRecords h catalog runs =
     sort_by (newest_le (record_time h)) (map (ticket_record catalog runs) (allTicketIds catalog runs))"

section \<open>The page\<close>

record tickets_page =
  tb_params :: params
  tb_runs :: "PipelineRun list"
  tb_query :: str
  tb_error :: "str option"
  tb_loading :: bool

definition tickets_page_init :: "params \<Rightarrow> tickets_page" where
  "tickets_page_init ps = \<lparr>tb_params = ps, tb_runs = [], tb_query = [], tb_error = None, tb_loading = True\<rparr>"

definition selectedRunID :: "tickets_page \<Rightarrow> str" where
  "selectedRunID s = nullish (params_get (tb_params s) (u ''run_id'')) []"

definition board_selectRun :: "str \<Rightarrow> tickets_page \<Rightarrow> tickets_page" where
  "board_selectRun runID s = s\<lparr>tb_params := (if runID \<noteq> [] then params_set (u ''run_id'') runID (tb_params s)
     else params_delete (u ''run_id'') (tb_params s))\<rparr>"

definition loadRuns_begin :: "bool \<Rightarrow> tickets_page \<Rightarrow> tickets_page" where
  "loadRuns_begin showLoading s = (if showLoading then s\<lparr>tb_loading := True\<rparr> else s)"

text \<open>The new state and the list the promise resolves with.\<close>

definition loadRuns_settle :: "bool \<Rightarrow> str option + PipelineRun list option \<Rightarrow> tickets_page \<Rightarrow> tickets_page \<times> PipelineRun list" where
  "loadRuns_settle showLoading outcome s =
     (let (s1, items) = (case outcome of
          Inr response_items \<Rightarrow> let items = nullish response_items [] in (s\<lparr>tb_runs := items, tb_error := None\<rparr>, items)
        | Inl message \<Rightarrow> (s\<lparr>tb_error := Some (nullish message (u ''Failed to load Data Factory run history''))\<rparr>, []))
      in (if showLoading then s1\<lparr>tb_loading := False\<rparr> else s1, items))"

text \<open>The mount effect after its load: the first run is selected when the URL names none.\<close>

definition select_initial :: "PipelineRun list \<Rightarrow> tickets_page \<Rightarrow> tickets_page" where
  "select_initial items s =
     (let currentParam = params_get (tb_params s) (u ''run_id'')
      in if currentParam = None \<or> currentParam = Some [] then
           (case arr_at items 0 of Some r \<Rightarrow> if pr_run_id r \<noteq> [] then board_selectRun (pr_run_id r) s else s | None \<Rightarrow> s)
         else s)"

definition opt_includes :: "str \<Rightarrow> str option \<Rightarrow> bool" where
  "opt_includes needle v = (case v of None \<Rightarrow> False | Some x \<Rightarrow> str_includes (toLowerCase x) needle)"

definition filteredTickets :: "str \<Rightarrow> TicketRecord list \<Rightarrow> TicketRecord list" where
  "filteredTickets query records =
     (let needle = toLowerCase (trim query) in
      if needle = [] then records
      else filter (\<lambda>t. list_ex (opt_includes needle) [Some (tk_ticket_id t), tk_last_snapshot_id t, tk_started_at t]) records)"

definition placeholder_ticket :: "str \<Rightarrow> TicketRecord" where
  "placeholder_ticket i = \<lparr>tk_ticket_id = i, tk_runs = [], tk_primaryRun = None, tk_mode = u ''STREAM'', tk_status = u ''idle'',
     tk_started_at = None, tk_finished_at = None, tk_updated_at = None, tk_last_snapshot_id = None, tk_last_error = None,
     tk_hasIngest = False, tk_hasSilver = False, tk_hasGold = False, tk_ingestRun = None, tk_silverRun = None, tk_goldRun = None\<rparr>"

definition selectedTicket :: "TicketRecord list \<Rightarrow> str \<Rightarrow> TicketRecord option" where
  "selectedTicket records sel = nullish2 (List.find (\<lambda>t. tk_ticket_id t = sel) records)
     (if sel \<noteq> [] then Some (placeholder_ticket sel) else None)"

definition completedTicketsCount :: "TicketRecord list \<Rightarrow> nat" where
  "completedTicketsCount records = length (filter (\<lambda>r. normalizedStatus (Some (tk_status r)) = u ''completed'') records)"

definition executionHealth :: "PipelineRun list \<Rightarrow> str" where
  "executionHealth runs =
     (let completed = jsnum_of_nat (length (filter run_completed runs));
          failed = jsnum_of_nat (length (filter run_failed runs))
      in if runs = [] then u ''100%''
         else (num_str (Math_round (completed / (if truthy (completed + failed) then completed + failed else lit 1) * lit 100)) @ u ''%''))"

section \<open>Execution history of a ticket\<close>

text \<open>
  \<open>PIPELINE_NAMES[lower]\<close> for the names the table has; names that only exist on the prototype
  of every object (\<open>constructor\<close>) are not pipelines.
\<close>

definition PIPELINE_NAMES :: "(str \<times> str) list" where
  "PIPELINE_NAMES = [(u ''bronze_ingest'', u ''Bronze Ingest''), (u ''ingest'', u ''Bronze Ingest''), (u ''bronze'', u ''Bronze Ingest''),
     (u ''silver_preprocess'', u ''Silver Preprocessing''), (u ''preprocessing'', u ''Silver Preprocessing''),
     (u ''silver'', u ''Silver Preprocessing''), (u ''silver_to_gold'', u ''Gold Enrichment''),
     (u ''enrichment'', u ''Gold Enrichment''), (u ''gold'', u ''Gold Enrichment'')]"

text \<open>\<open>replace(/\b\w/g, (c) => c.toUpperCase())\<close>: a word character after none is raised.\<close>

definition word_char :: "nat \<Rightarrow> bool" where
  "word_char c = ((65 \<le> c \<and> c \<le> 90) \<or> (97 \<le> c \<and> c \<le> 122) \<or> (48 \<le> c \<and> c \<le> 57) \<or> c = 95)"

fun title_words :: "bool \<Rightarrow> str \<Rightarrow> str" where
  "title_words in_word [] = []"
| "title_words in_word (c # cs) = (if word_char c \<and> \<not> in_word then toUpperCase [c] else [c]) @ title_words (word_char c) cs"

definition formatPipelineName :: "str \<Rightarrow> str" where
  "formatPipelineName i =
     (let lower = toLowerCase i in case map_of PIPELINE_NAMES lower of Some n \<Rightarrow> n
      | None \<Rightarrow> if str_includes lower (u ''gold'') \<or> str_includes lower (u ''enrich'') then u ''Gold Enrichment''
          else if str_includes lower (u ''silver'') \<or> str_includes lower (u ''preprocess'') then u ''Silver Preprocessing''
          else if str_includes lower (u ''bronze'') \<or> str_includes lower (u ''ingest'') then u ''Bronze Ingest''
          else title_words False (map (\<lambda>c. if c = 45 \<or> c = 95 then 32 else c) i))"

definition mode_detail :: "str \<Rightarrow> str option" where
  "mode_detail m = (if m \<noteq> [] then Some ((u ''Mode: '' @ toUpperCase m)) else None)"

text \<open>\<open>finished ?? (updated && updated !== started ? updated : undefined)\<close>\<close>

definition finish_time :: "str option \<Rightarrow> str option \<Rightarrow> str option \<Rightarrow> str option" where
  "finish_time finished updated started = nullish2 finished
     (case updated of Some x \<Rightarrow> if x \<noteq> [] \<and> updated \<noteq> started then updated else None | None \<Rightarrow> None)"

definition run_actions :: "nat \<Rightarrow> PipelineRun \<Rightarrow> ExecutionActionRecord list" where
  "run_actions i r =
     (let targetName = formatPipelineName (pr_pipeline r); ix = int_str (int i) in
      (if pr_started_at r \<noteq> [] then [\<lparr>ea_id = (u ''run-start-'' @ pr_pipeline r @ u ''-'' @ pr_started_at r @ u ''-'' @ ix), ea_timestamp = pr_started_at r,
          ea_action = EA_started, ea_actionLabel = u ''Started'', ea_target = targetName, ea_detail = mode_detail (pr_mode r),
          ea_snapshotId = pr_last_snapshot_id r\<rparr>] else []) @
      (case finish_time (pr_finished_at r) (Some (pr_updated_at r)) (Some (pr_started_at r)) of
         None \<Rightarrow> []
       | Some finished \<Rightarrow> if finished = [] then [] else
           let s = normalizedStatus (Some (pr_status r)); isFailed = (s = u ''failed'' \<or> s = u ''error'');
               isCompleted = (s = u ''completed''); isFrozen = (s = u ''frozen'' \<or> s = u ''paused'')
           in [\<lparr>ea_id = (u ''run-finish-'' @ pr_pipeline r @ u ''-'' @ finished @ u ''-'' @ ix), ea_timestamp = finished,
               ea_action = (if isFailed then EA_failed else if isCompleted then EA_completed else EA_stopped),
               ea_actionLabel = (if isFailed then u ''Failed'' else if isCompleted then u ''Completed''
                  else if isFrozen then u ''Stopped (Frozen)'' else u ''Stopped''),
               ea_target = targetName,
               ea_detail = (case pr_last_error r of
                   Some e \<Rightarrow> if e \<noteq> [] then Some e else if lit 0 < pr_output_rows r then Some ((num_str (pr_output_rows r) @ u '' rows produced'')) else None
                 | None \<Rightarrow> if lit 0 < pr_output_rows r then Some ((num_str (pr_output_rows r) @ u '' rows produced'')) else None),
               ea_snapshotId = pr_last_snapshot_id r\<rparr>]))"

definition fallback_actions :: "TicketRecord \<Rightarrow> ExecutionActionRecord list" where
  "fallback_actions t = (case tk_started_at t of None \<Rightarrow> []
     | Some started \<Rightarrow> if started = [] then [] else
         [\<lparr>ea_id = (u ''ticket-start-'' @ tk_ticket_id t), ea_timestamp = started, ea_action = EA_started, ea_actionLabel = u ''Started'',
           ea_target = u ''Pipeline Run'', ea_detail = mode_detail (tk_mode t), ea_snapshotId = None\<rparr>] @
         (case finish_time (tk_finished_at t) (tk_updated_at t) (tk_started_at t) of
            None \<Rightarrow> []
          | Some finished \<Rightarrow> if finished = [] then [] else
              [\<lparr>ea_id = (u ''ticket-stop-'' @ tk_ticket_id t), ea_timestamp = finished, ea_action = EA_stopped, ea_actionLabel = u ''Stopped'',
                ea_target = u ''Pipeline Run'', ea_detail = tk_last_error t, ea_snapshotId = None\<rparr>]))"

definition action_time :: "host \<Rightarrow> ExecutionActionRecord \<Rightarrow> jsnum" where
  "action_time h a = nullish (parseTime h (Some (ea_timestamp a))) (lit 0)"

definition ticket_actions :: "host \<Rightarrow> TicketRecord option \<Rightarrow> ExecutionActionRecord list" where
  "ticket_actions h ticket = (case ticket of None \<Rightarrow> []
     | Some t \<Rightarrow> let items = concat (map (\<lambda>(i, r). run_actions i r) (enumerate 0 (tk_runs t)));
                     items' = (if items = [] then fallback_actions t else items)
                 in sort_by (newest_le (action_time h)) items')"

section \<open>Grouping: lemmas\<close>

lemma group_runs_snoc:
  "group_runs (runs @ [r]) = (if pr_run_id r = [] then group_runs runs
     else AList.update (pr_run_id r) (nullish (map_of (group_runs runs) (pr_run_id r)) [] @ [r]) (group_runs runs))"
  by (simp add: group_runs_def)

lemma group_runs_get: "k \<noteq> [] \<Longrightarrow> nullish (map_of (group_runs runs) k) [] = filter (\<lambda>r. pr_run_id r = k) runs"
  by (induction runs rule: rev_induct) (auto simp: group_runs_snoc update_conv' group_runs_def [of "[]"])

lemma group_runs_keys: "map fst (group_runs runs) = js_uniq (filter (\<lambda>i. i \<noteq> []) (map pr_run_id runs))"
proof (induction runs rule: rev_induct)
  case (snoc r runs)
  have "pr_run_id r \<in> fst ` set (group_runs runs) \<longleftrightarrow> pr_run_id r \<noteq> [] \<and> pr_run_id r \<in> pr_run_id ` set runs"
    using arg_cong [OF snoc.IH, of set] by auto
  then show ?case using snoc.IH by (auto simp: group_runs_snoc update_keys js_uniq_snoc)
qed (simp add: group_runs_def js_uniq_def)

lemma allTicketIds_set: "set (allTicketIds catalog runs) = (ticket_id ` set catalog \<union> pr_run_id ` set runs) - {[]}"
  by (auto simp: allTicketIds_def group_runs_keys)

lemma ticket_record_id [simp]: "tk_ticket_id (ticket_record catalog runs i) = i"
  by (simp add: ticket_record_def Let_def)

lemma ticket_record_runs:
  "i \<noteq> [] \<Longrightarrow> tk_runs (ticket_record catalog runs i) = filter (\<lambda>r. pr_run_id r = i) runs"
  by (simp add: ticket_record_def Let_def group_runs_get)

lemma ticket_record_status:
  "i \<noteq> [] \<Longrightarrow> tk_status (ticket_record catalog runs i) = overallStatus (filter (\<lambda>r. pr_run_id r = i) runs)"
  by (simp add: ticket_record_def Let_def group_runs_get)

lemma parseTime_ok: "dates_ok h \<Longrightarrow> parseTime h v = Some t \<Longrightarrow> num_ok t"
  by (auto simp: parseTime_def dates_ok_def isNaN_def Let_def split: option.splits if_splits)

lemma num_ok_zero: "num_ok (lit 0)"
  using wf_lit [of 0] by (simp add: num_ok_def)

lemma record_time_ok: "dates_ok h \<Longrightarrow> num_ok (record_time h t)"
  using num_ok_zero
  by (cases "parseTime h (nullish2 (tk_started_at t) (tk_updated_at t))") (auto simp: record_time_def dest: parseTime_ok)

lemma action_time_ok: "dates_ok h \<Longrightarrow> num_ok (action_time h a)"
  using num_ok_zero by (cases "parseTime h (Some (ea_timestamp a))") (auto simp: action_time_def dest: parseTime_ok)

text \<open>The three kinds of status are exclusive.\<close>

lemma run_status_exclusive:
  "run_active r \<Longrightarrow> \<not> run_failed r" "run_active r \<Longrightarrow> \<not> run_completed r" "run_failed r \<Longrightarrow> \<not> run_completed r"
  by (auto simp: run_active_def run_failed_def run_completed_def)

section \<open>Properties\<close>

text \<open>
  C5. The board has one record per ticket: its identifiers are
  exactly those of the catalog and of the runs (blank ones apart), without repetition, every
  record holds exactly the runs of its ticket in their order, so that each run of a ticket is
  on the board once, and the records are ordered newest first.
\<close>

theorem ticket_records_partition:
  fixes h catalog runs
  assumes "dates_ok h"
  defines "rs \<equiv> ticketRecords h catalog runs"
  shows "distinct (map tk_ticket_id rs) \<and>
    set (map tk_ticket_id rs) = (ticket_id ` set catalog \<union> pr_run_id ` set runs) - {[]} \<and>
    (\<forall>t\<in>set rs. tk_runs t = filter (\<lambda>r. pr_run_id r = tk_ticket_id t) runs) \<and>
    (\<forall>i j. i < j \<longrightarrow> j < length rs \<longrightarrow> val (record_time h (rs ! j)) \<le> val (record_time h (rs ! i)))"
proof (intro conjI ballI allI impI)
  let ?xs = "map (ticket_record catalog runs) (allTicketIds catalog runs)"
  have "mset rs = mset ?xs" by (simp add: rs_def ticketRecords_def)
  then have "mset (map tk_ticket_id rs) = mset (map tk_ticket_id ?xs)" by (metis mset_map)
  moreover have "map tk_ticket_id ?xs = allTicketIds catalog runs" by (simp add: comp_def)
  ultimately have m: "mset (map tk_ticket_id rs) = mset (allTicketIds catalog runs)" by (simp only:)
  then show "distinct (map tk_ticket_id rs)"
    by (metis allTicketIds_def js_uniq_distinct mset_eq_imp_distinct_iff)
  show "set (map tk_ticket_id rs) = (ticket_id ` set catalog \<union> pr_run_id ` set runs) - {[]}"
    unfolding mset_eq_setD [OF m] by (rule allTicketIds_set)
next
  fix t assume "t \<in> set rs"
  then obtain i where "i \<in> set (allTicketIds catalog runs)" "t = ticket_record catalog runs i"
    by (auto simp: rs_def ticketRecords_def)
  then show "tk_runs t = filter (\<lambda>r. pr_run_id r = tk_ticket_id t) runs"
    by (simp add: allTicketIds_set ticket_record_runs)
next
  fix i j assume "i < j" "j < length rs"
  then show "val (record_time h (rs ! j)) \<le> val (record_time h (rs ! i))"
    unfolding rs_def ticketRecords_def using assms(1) by (intro newest_first) (simp_all add: record_time_ok)
qed

definition sample_pipeline_run :: PipelineRun where
  "sample_pipeline_run = \<lparr>pr_pipeline = u ''gold'', pr_run_id = u ''R1'', pr_mode = u ''batch'', pr_status = u ''completed'',
     pr_started_at = u ''2026'', pr_finished_at = None, pr_max_batch_records = Fin 1, pr_idle_flush_seconds = Fin 1,
     pr_pending_inputs = Fin 0, pr_completed_batches = Fin 1, pr_input_records = Fin 1, pr_output_rows = Fin 1,
     pr_indexed_rows = Fin 1, pr_last_snapshot_id = None, pr_last_error = None, pr_updated_at = u ''2026''\<rparr>"

theorem ticket_records_partition_witness:
  "set (map tk_ticket_id (ticketRecords sample_host [] [sample_pipeline_run, sample_pipeline_run])) = {u ''R1''}"
  using ticket_records_partition [OF sample_dates, of "[]" "[sample_pipeline_run, sample_pipeline_run]"]
  by (simp add: sample_pipeline_run_def)

text \<open>
  The status of a ticket follows its runs: running exactly when some
  run is active, failed exactly when none is active and some failed, completed exactly when it
  has runs and all completed, and idle otherwise; the inspector labels the finish of a run as
  failed or completed exactly when the run counts as such.
\<close>

theorem ticket_status_exact:
  fixes catalog runs i
  assumes "i \<noteq> []"
  defines "t \<equiv> ticket_record catalog runs i" and "mine \<equiv> {r \<in> set runs. pr_run_id r = i}"
  shows "(tk_status t = u ''running'') = (\<exists>r\<in>mine. run_active r) \<and>
    (tk_status t = u ''failed'') = ((\<forall>r\<in>mine. \<not> run_active r) \<and> (\<exists>r\<in>mine. run_failed r)) \<and>
    (tk_status t = u ''completed'') = (mine \<noteq> {} \<and> (\<forall>r\<in>mine. run_completed r)) \<and>
    tk_status t \<in> {u ''running'', u ''failed'', u ''completed'', u ''idle''} \<and>
    (\<forall>r n a. a \<in> set (run_actions n r) \<longrightarrow> ea_action a \<noteq> EA_started \<longrightarrow>
       (ea_action a = EA_failed) = run_failed r \<and> (ea_action a = EA_completed) = run_completed r)"
proof -
  let ?rs = "filter (\<lambda>r. pr_run_id r = i) runs"
  have st: "tk_status t = overallStatus ?rs" using assms(1) by (simp add: t_def ticket_record_status)
  have ex: "list_ex P ?rs = (\<exists>r\<in>mine. P r)" for P by (auto simp: list_ex_iff mine_def)
  have al: "list_all P ?rs = (\<forall>r\<in>mine. P r)" for P by (auto simp: list_all_iff mine_def)
  have ne: "(?rs = []) = (mine = {})" by (auto simp: mine_def filter_empty_conv)
  have ov: "overallStatus ?rs = (if \<exists>r\<in>mine. run_active r then u ''running'' else if \<exists>r\<in>mine. run_failed r then u ''failed''
      else if mine \<noteq> {} \<and> (\<forall>r\<in>mine. run_completed r) then u ''completed'' else u ''idle'')"
    unfolding overallStatus_def ex al ne by (rule refl)
  have act: "(ea_action a = EA_failed) = run_failed r \<and> (ea_action a = EA_completed) = run_completed r"
    if "a \<in> set (run_actions n r)" "ea_action a \<noteq> EA_started" for a n r
    using that by (auto simp: run_actions_def Let_def run_failed_def run_completed_def split: option.splits if_splits)
  show ?thesis unfolding st ov using act run_status_exclusive by auto
qed

theorem ticket_status_exact_witness: "tk_status (ticket_record [] [sample_pipeline_run] (u ''R1'')) = u ''completed''"
proof -
  have "trim (u ''completed'') = u ''completed''" by (simp add: trim_def u_def is_space_def)
  then have "run_completed sample_pipeline_run"
    by (simp add: run_completed_def sample_pipeline_run_def normalizedStatus_def toLowerCase_def u_def)
  then show ?thesis using ticket_status_exact [of "u ''R1''" "[]" "[sample_pipeline_run]"]
    by (simp add: sample_pipeline_run_def)
qed

section \<open>The history is complete and ordered\<close>

lemma ticket_actions_newest_first:
  assumes "dates_ok h" "i < j" "j < length (ticket_actions h (Some t))"
  shows "val (action_time h (ticket_actions h (Some t) ! j)) \<le> val (action_time h (ticket_actions h (Some t) ! i))"
  using assms unfolding ticket_actions_def option.case Let_def
  by (intro newest_first) (simp_all add: action_time_ok)

lemma run_actions_start:
  "pr_started_at r \<noteq> [] \<Longrightarrow> \<exists>a\<in>set (run_actions n r). ea_action a = EA_started \<and> ea_timestamp a = pr_started_at r"
  by (rule bexI [of _ "hd (run_actions n r)"]) (simp_all add: run_actions_def Let_def)

text \<open>Every run with a start time has its start in the history.\<close>

lemma ticket_actions_starts:
  assumes "r \<in> set (tk_runs t)" "pr_started_at r \<noteq> []"
  shows "\<exists>a\<in>set (ticket_actions h (Some t)). ea_action a = EA_started \<and> ea_timestamp a = pr_started_at r"
proof -
  obtain n where "n < length (tk_runs t)" "tk_runs t ! n = r" using assms(1) by (auto simp: in_set_conv_nth)
  then have n: "(n, r) \<in> set (enumerate 0 (tk_runs t))" by (simp add: in_set_enumerate_eq)
  obtain a where a: "a \<in> set (run_actions n r)" "ea_action a = EA_started" "ea_timestamp a = pr_started_at r"
    using run_actions_start [OF assms(2)] by blast
  let ?items = "concat (map (\<lambda>(i, r). run_actions i r) (enumerate 0 (tk_runs t)))"
  have mem: "a \<in> set ?items" using n a(1) by force
  then have "?items \<noteq> []" by (metis empty_iff list.set(1))
  then have "set (ticket_actions h (Some t)) = set ?items"
    by (simp only: ticket_actions_def Let_def option.case if_False set_sort_by)
  then show ?thesis using mem a by blast
qed

end
