(* ===== verification/JsConvert.thy ===== *)
theory JsConvert
  imports JsText
begin

text \<open>
  Conversions of untyped values: \<open>String(v)\<close> and \<open>Number(v)\<close> on what \<open>JSON.parse\<close> returns,
  \<open>undefined\<close> being \<open>None\<close>. An array converts through the text of its elements, a plain
  object through \<open>[object Object]\<close>.
\<close>

fun join_comma :: "str list \<Rightarrow> str" where
  "join_comma [] = []"
| "join_comma [s] = s"
| "join_comma (s # t # ss) = s @ 44 # join_comma (t # ss)"

fun json_text :: "json \<Rightarrow> str" where
  "json_text JNull = u ''null''"
| "json_text (JBool b) = (if b then u ''true'' else u ''false'')"
| "json_text (JNum x) = num_str x"
| "json_text (JStr s) = s"
| "json_text (JArr vs) = join_comma (map (\<lambda>v. if v = JNull then [] else json_text v) vs)"
| "json_text (JObj fs) = u ''[object Object]''"

definition String_of :: "json option \<Rightarrow> str" where
  "String_of v = (case v of None \<Rightarrow> u ''undefined'' | Some j \<Rightarrow> json_text j)"

definition Number_of :: "json option \<Rightarrow> jsnum" where
  "Number_of v = (case v of None \<Rightarrow> NaN | Some JNull \<Rightarrow> Fin 0 | Some (JBool b) \<Rightarrow> if b then Fin 1 else Fin 0
     | Some (JNum x) \<Rightarrow> x | Some j \<Rightarrow> Number_of_str (json_text j))"

lemma Number_of_simps [simp]:
  "Number_of None = NaN" "Number_of (Some JNull) = Fin 0" "Number_of (Some (JNum x)) = x"
  "Number_of (Some (JStr s)) = Number_of_str s"
  by (simp_all add: Number_of_def)

text \<open>\<open>parseInt(s, 10)\<close>: the digits after leading white space and a sign, whatever follows them.\<close>

definition parseInt :: "str \<Rightarrow> jsnum" where
  "parseInt s0 =
     (let s = dropWhile is_space s0;
          neg = (s \<noteq> [] \<and> hd s = 45);
          r = (if s \<noteq> [] \<and> (hd s = 45 \<or> hd s = 43) then tl s else s);
          ds = takeWhile digit r
      in if ds = [] then NaN else mk neg (of_int (if neg then - read_dec ds else read_dec ds)))"

end
