(* ===== verification/Enrichment.thy ===== *)
theory Enrichment
  imports TicketBoard JsConvert LatestRequest
begin

text \<open>
  The Gold enrichment console (\<open>pages/enrichment\<close>): the control and runtime contract
  (\<open>types.ts\<close>), labels and stored configuration (\<open>constants.ts\<close>), and the state of
  \<open>page.tsx\<close>: the polled overview, the run history, the live worker feed of the event stream
  and the start and stop commands. Handlers with an \<open>await\<close> are split there.
\<close>

section \<open>Data\<close>

datatype control_mode = CM_PAUSED | CM_STREAM | CM_BATCH

record GoldWorkerTelemetry =
  gwt_worker_id :: str
  gwt_lifecycle :: str
  gwt_action :: str
  gwt_ticket_id :: "str option"
  gwt_command_id :: "str option"
  gwt_batch_ref :: "str option"
  gwt_input_count :: jsnum
  gwt_snapshot_id :: "str option"
  gwt_detail :: "str option"
  gwt_step_index :: "jsnum option"
  gwt_step_name :: "str option"
  gwt_updated_at :: str

record gold_control =
  gct_mode :: control_mode
  gct_max_batch_records :: jsnum
  gct_idle_flush_seconds :: jsnum
  gct_ticket_id :: "str option"
  gct_command_id :: "str option"
  gct_updated_at :: "str option"
  gct_requested_by :: "str option"

record gold_readiness =
  grd_catalog_ready :: bool
  grd_tic_catalog_ready :: bool
  grd_toi_catalog_ready :: bool
  grd_waiting_lightcurves :: jsnum
  grd_ready_lightcurves :: jsnum
  grd_missing_tpf :: jsnum
  grd_tpf_contexts :: jsnum
  grd_contracted_lightcurves :: jsnum
  grd_uncontracted_lightcurves :: jsnum

record gold_catalog_sync =
  gcs_mode :: str
  gcs_state :: str
  gcs_target_count :: jsnum
  gcs_tic_records :: jsnum
  gcs_toi_records :: jsnum
  gcs_snapshot_ids :: "(str \<times> str) list"
  gcs_cache_hit :: bool
  gcs_error :: "str option"

record gold_runtime =
  grt_state :: str
  grt_mode :: str
  grt_max_batch_records :: jsnum
  grt_idle_flush_seconds :: jsnum
  grt_pending_total :: jsnum
  grt_pending_by_kind :: "(str \<times> jsnum) list"
  grt_readiness :: "gold_readiness option"
  grt_catalog_sync :: "gold_catalog_sync option"
  grt_active_builds :: jsnum
  grt_workers :: "GoldWorkerTelemetry list"
  grt_first_silver_at :: "str option"
  grt_last_silver_at :: "str option"
  grt_next_flush_at :: "str option"
  grt_last_snapshot_id :: "str option"
  grt_last_error :: "str option"
  grt_updated_at :: "str option"

record GoldControlOverview =
  gco_control :: gold_control
  gco_runtime :: "gold_runtime option"

record gold_event_payload =
  gep_event_type :: "str option"
  gep_ticket_id :: "str option"
  gep_command_id :: "str option"
  gep_occurred_at :: "str option"
  gep_worker :: "GoldWorkerTelemetry option"
  gep_runtime :: "gold_runtime option"

record GoldLiveEvent =
  gle_id :: "str option"
  gle_type :: "str option"
  gle_workflow :: "str option"
  gle_status :: "str option"
  gle_job_id :: "str option"
  gle_ticket_id :: "str option"
  gle_occurred_at :: "str option"
  gle_payload :: "gold_event_payload option"

datatype gold_mode = GM_stream | GM_batch

record GoldConfig =
  gcf_mode :: gold_mode
  gcf_maxBatchRecords :: jsnum
  gcf_idleFlushSeconds :: jsnum

datatype ConnectionState = CS_connecting | CS_live | CS_reconnecting

record EventRow =
  er_id :: str
  er_worker :: GoldWorkerTelemetry
  er_observedAt :: str

record PipelineStep =
  ps_step :: nat
  ps_label :: str
  ps_key :: str

section \<open>Labels and stored configuration\<close>

definition CONFIG_KEY :: str where
  "CONFIG_KEY = u ''aurora.gold.console.config.v1''"

definition PIPELINE_STEPS :: "PipelineStep list" where
  "PIPELINE_STEPS = map (\<lambda>(n, l, k). \<lparr>ps_step = n, ps_label = u l, ps_key = u k\<rparr>)
     [(1, ''01 Intake'', ''INTAKE''), (2, ''02 Pairing'', ''PAIRING''), (3, ''03 Catalog'', ''CATALOG''),
      (4, ''04 Extract'', ''EXTRACT''), (5, ''05 Parquet'', ''PARQUET''), (6, ''06 Index'', ''INDEX''), (7, ''07 Commit'', ''COMMIT'')]"

definition stateLabel :: "(str \<times> str) list" where
  "stateLabel = map (\<lambda>(k, v). (u k, u v))
     [(''IDLE'', ''IDLE''), (''RUNNING'', ''RUNNING''), (''DRAINING'', ''DRAINING''), (''FROZEN'', ''FROZEN''),
      (''CATALOG_SYNCING'', ''CATALOG SYNC''), (''WAITING_FOR_CATALOG_SYNC'', ''CATALOG RETRY''),
      (''WAITING_FOR_MODALITY'', ''WAITING LC/TPF''), (''READY'', ''READY'')]"

definition actionLabel :: "(str \<times> str) list" where
  "actionLabel =
     [(u ''WAITING_FOR_BATCH'', u ''WAITING FOR BATCH''), (u ''FROZEN'', u ''FROZEN BY OPERATOR''),
      (u ''DEQUEUED_BATCH'', u ''CLAIMED BATCH''), (u ''WAITING_FOR_RESUME'', u ''WAITING FOR RESUME''),
      (u ''VERIFYING_PAIRING'', u ''VERIFYING PAIRING''), (u ''SYNCING_CATALOGS'', u ''SYNCING TIC / TOI''),
      (u ''EXTRACTING_FEATURES'', u ''EXTRACTING LC+TPF''), (u ''MATERIALIZING_PARQUET'', u ''WRITING PARQUET''),
      (u ''MATERIALIZING_AND_INDEXING'', u ''MATERIALIZING + INDEXING''), (u ''INDEXING_CLICKHOUSE'', u ''INDEXING CLICKHOUSE''),
      (u ''COMMITTING_SNAPSHOT'', u ''COMMITTING SNAPSHOT''), (u ''SNAPSHOT_COMMITTED'', u ''SNAPSHOT COMMITTED''),
      (u ''RETRYING_CATALOG_SYNC'', u ''CATALOG RETRY''), (u ''FAILED_RETRY_SCHEDULED'', (ue ''FAILED ~00B7 RETRY SCHEDULED'')),
      (u ''CANCELLED'', u ''KILLED / CANCELLED'')]"

text \<open>The stored item: \<open>None\<close> when reading or parsing throws, \<open>Some JNull\<close> when it is absent.\<close>

definition loadLocalConfig :: "json option \<Rightarrow> GoldConfig" where
  "loadLocalConfig item =
     (let fallback = \<lparr>gcf_mode = GM_stream, gcf_maxBatchRecords = lit 500, gcf_idleFlushSeconds = lit 180\<rparr> in
      case item of None \<Rightarrow> fallback
      | Some parsed \<Rightarrow> if \<not> json_truthy (Some parsed) then fallback
          else \<lparr>gcf_mode = (if json_prop (Some parsed) (u ''mode'') = Some (JStr (u ''batch'')) then GM_batch else GM_stream),
            gcf_maxBatchRecords = opt_or_num (Some (Number_of (json_prop (Some parsed) (u ''maxBatchRecords'')))) (gcf_maxBatchRecords fallback),
            gcf_idleFlushSeconds = opt_or_num (Some (Number_of (json_prop (Some parsed) (u ''idleFlushSeconds'')))) (gcf_idleFlushSeconds fallback)\<rparr>)"

text \<open>The object the page stores; \<open>JSON.stringify\<close> writes a number that is not finite as \<open>null\<close>.\<close>

definition mode_str :: "gold_mode \<Rightarrow> str" where
  "mode_str m = (case m of GM_stream \<Rightarrow> u ''stream'' | GM_batch \<Rightarrow> u ''batch'')"

definition json_num :: "jsnum \<Rightarrow> json" where
  "json_num x = (if isFinite x then JNum (if x = NegZero then Fin 0 else x) else JNull)"

definition stored_gold_config :: "GoldConfig \<Rightarrow> json" where
  "stored_gold_config c = JObj [(u ''mode'', JStr (mode_str (gcf_mode c))), (u ''maxBatchRecords'', json_num (gcf_maxBatchRecords c)),
     (u ''idleFlushSeconds'', json_num (gcf_idleFlushSeconds c))]"

definition gold_formatDate :: "host \<Rightarrow> str option \<Rightarrow> str" where
  "gold_formatDate h value = (case value of None \<Rightarrow> emdash
     | Some v \<Rightarrow> if v = [] then emdash else let date = date_parse h v in if isNaN date then v else locale_string h date)"

definition shortTime :: "host \<Rightarrow> str option \<Rightarrow> str" where
  "shortTime h value = (case value of None \<Rightarrow> emdash
     | Some v \<Rightarrow> if v = [] then emdash else let date = date_parse h v in if isNaN date then emdash else locale_time h date)"

datatype gold_variant = GV_default | GV_secondary | GV_destructive | GV_outline

definition gold_statusVariant :: "str \<Rightarrow> gold_variant" where
  "gold_statusVariant status =
     (let s = toUpperCase status in
      if s \<in> {u ''RUNNING'', u ''READY'', u ''MATERIALIZING'', u ''COMMITTED''} then GV_default
      else if s \<in> {u ''FROZEN'', u ''PAUSED'', u ''DRAINING''} then GV_secondary
      else if s \<in> {u ''FAILED'', u ''KILLED'', u ''ERROR''} then GV_destructive
      else GV_outline)"

section \<open>Page state\<close>

record enrichment =
  en_overview :: "GoldControlOverview option"
  en_runDetail :: "PipelineRunDetail option"
  en_mode :: gold_mode
  en_maxBatchRecords :: jsnum
  en_idleFlushSeconds :: jsnum
  en_liveWorkers :: "(str \<times> GoldWorkerTelemetry) list"
  en_eventRows :: "EventRow list"
  en_pausedFeed :: bool
  en_copiedId :: "str option"
  en_connection :: ConnectionState
  en_busy :: bool
  en_error :: "str option"
  en_historyLoading :: bool
  en_latestOverview :: "GoldControlOverview option"
  en_overviewInFlight :: bool
  en_historyInFlight :: bool

definition enrichment_init :: "GoldConfig \<Rightarrow> enrichment" where
  "enrichment_init c = \<lparr>en_overview = None, en_runDetail = None, en_mode = gcf_mode c, en_maxBatchRecords = gcf_maxBatchRecords c,
     en_idleFlushSeconds = gcf_idleFlushSeconds c, en_liveWorkers = [], en_eventRows = [], en_pausedFeed = False,
     en_copiedId = None, en_connection = CS_connecting, en_busy = False, en_error = None, en_historyLoading = False,
     en_latestOverview = None, en_overviewInFlight = False, en_historyInFlight = False\<rparr>"

definition copyId :: "str \<Rightarrow> enrichment \<Rightarrow> enrichment" where
  "copyId i s = s\<lparr>en_copiedId := Some i\<rparr>"

definition copy_timeout :: "str \<Rightarrow> enrichment \<Rightarrow> enrichment" where
  "copy_timeout i s = (if en_copiedId s = Some i then s\<lparr>en_copiedId := None\<rparr> else s)"

text \<open>\<open>loadOverview\<close> up to its fetch: whether one is started.\<close>

definition loadOverview_begin :: "enrichment \<Rightarrow> enrichment \<times> bool" where
  "loadOverview_begin s = (if en_overviewInFlight s then (s, False) else (s\<lparr>en_overviewInFlight := True\<rparr>, True))"

definition loadOverview_settle :: "str option + GoldControlOverview \<Rightarrow> enrichment \<Rightarrow> enrichment" where
  "loadOverview_settle outcome s =
     (case outcome of
        Inr next_overview \<Rightarrow> s\<lparr>en_latestOverview := Some next_overview, en_overview := Some next_overview, en_error := None\<rparr>
      | Inl message \<Rightarrow> s\<lparr>en_error := Some (nullish message (u ''Enrichment control plane observation unavailable''))\<rparr>)
     \<lparr>en_overviewInFlight := False\<rparr>"

text \<open>\<open>loadHistory\<close>: the command whose run is fetched, if any.\<close>

definition loadHistory_begin :: "str option \<Rightarrow> enrichment \<Rightarrow> enrichment \<times> str option" where
  "loadHistory_begin commandID s =
     (case commandID of None \<Rightarrow> (s\<lparr>en_runDetail := None\<rparr>, None)
      | Some c \<Rightarrow> if c = [] then (s\<lparr>en_runDetail := None\<rparr>, None)
          else if en_historyInFlight s then (s, None)
          else (s\<lparr>en_historyInFlight := True, en_historyLoading := True\<rparr>, Some c))"

definition loadHistory_settle :: "str option + PipelineRunDetail \<Rightarrow> enrichment \<Rightarrow> enrichment" where
  "loadHistory_settle outcome s =
     (case outcome of Inr detail \<Rightarrow> s\<lparr>en_runDetail := Some detail\<rparr> | Inl _ \<Rightarrow> s\<lparr>en_runDetail := None\<rparr>)
     \<lparr>en_historyInFlight := False, en_historyLoading := False\<rparr>"

text \<open>\<open>overview?.control.ticket_id || overview?.control.command_id\<close>\<close>

definition or_command :: "str option \<Rightarrow> str option \<Rightarrow> str option" where
  "or_command a b = (case a of Some x \<Rightarrow> if x \<noteq> [] then a else b | None \<Rightarrow> b)"

definition history_command :: "enrichment \<Rightarrow> str option" where
  "history_command s = or_command (Option.bind (en_overview s) (\<lambda>ov. gct_ticket_id (gco_control ov)))
     (Option.bind (en_overview s) (\<lambda>ov. gct_command_id (gco_control ov)))"

definition stream_opened :: "enrichment \<Rightarrow> enrichment" where
  "stream_opened s = s\<lparr>en_connection := CS_live\<rparr>"

definition stream_failed :: "enrichment \<Rightarrow> enrichment" where
  "stream_failed s = s\<lparr>en_connection := CS_reconnecting\<rparr>"

definition event_id :: "GoldWorkerTelemetry \<Rightarrow> str" where
  "event_id w = (gwt_worker_id w @ u '':'' @ gwt_updated_at w @ u '':'' @ gwt_action w)"

definition push_row :: "EventRow \<Rightarrow> EventRow list \<Rightarrow> EventRow list" where
  "push_row row current = (if list_ex (\<lambda>r. er_id r = er_id row) current then current else take 80 (row # current))"

definition on_runtime :: "gold_runtime \<Rightarrow> enrichment \<Rightarrow> enrichment" where
  "on_runtime rt s = (case en_overview s of None \<Rightarrow> s
     | Some current \<Rightarrow> let next_overview = current\<lparr>gco_runtime := Some rt\<rparr>
         in s\<lparr>en_latestOverview := Some next_overview, en_overview := Some next_overview\<rparr>)"

definition on_worker :: "GoldLiveEvent \<Rightarrow> gold_event_payload \<Rightarrow> GoldWorkerTelemetry \<Rightarrow> enrichment \<Rightarrow> enrichment" where
  "on_worker message payload worker s =
     (let s1 = s\<lparr>en_liveWorkers := AList.update (gwt_worker_id worker) worker (en_liveWorkers s)\<rparr>;
          row = \<lparr>er_id = event_id worker, er_worker = worker,
            er_observedAt = nullish (nullish2 (gep_occurred_at payload) (gle_occurred_at message)) (gwt_updated_at worker)\<rparr>;
          s2 = (if en_pausedFeed s1 then s1 else s1\<lparr>en_eventRows := push_row row (en_eventRows s1)\<rparr>)
      in if gwt_action worker = u ''SNAPSHOT_COMMITTED''
         then fst (loadHistory_begin (or_command (gwt_ticket_id worker) (gwt_command_id worker)) s2) else s2)"

text \<open>The stream's listener; \<open>None\<close> is a message that does not parse.\<close>

definition on_gold_event :: "GoldLiveEvent option \<Rightarrow> enrichment \<Rightarrow> enrichment" where
  "on_gold_event event s = (case event of None \<Rightarrow> s
     | Some message \<Rightarrow> (case gle_payload message of None \<Rightarrow> s
       | Some payload \<Rightarrow>
           let s1 = (case gep_runtime payload of Some rt \<Rightarrow> on_runtime rt s | None \<Rightarrow> s)
           in case gep_worker payload of Some worker \<Rightarrow> on_worker message payload worker s1 | None \<Rightarrow> s1))"

definition toggle_feed :: "enrichment \<Rightarrow> enrichment" where
  "toggle_feed s = s\<lparr>en_pausedFeed := \<not> en_pausedFeed s\<rparr>"

definition clear_feed :: "enrichment \<Rightarrow> enrichment" where
  "clear_feed s = s\<lparr>en_eventRows := []\<rparr>"

section \<open>Commands\<close>

record gold_start_request =
  sr_mode :: gold_mode
  sr_max_batch_records :: jsnum
  sr_idle_flush_seconds :: jsnum
  sr_ticket_id :: str

definition start_body :: "str \<Rightarrow> enrichment \<Rightarrow> gold_start_request" where
  "start_body ticket s = \<lparr>sr_mode = en_mode s, sr_max_batch_records = en_maxBatchRecords s,
     sr_idle_flush_seconds = en_idleFlushSeconds s, sr_ticket_id = ticket\<rparr>"

definition control_begin :: "enrichment \<Rightarrow> enrichment" where
  "control_begin s = s\<lparr>en_busy := True, en_error := None\<rparr>"

text \<open>
  The command has been answered. After a success the overview is reloaded and awaited; when a
  poll is in flight there is nothing to await and the handler ends at once.
\<close>

definition control_posted :: "str \<Rightarrow> str option + unit \<Rightarrow> enrichment \<Rightarrow> enrichment \<times> bool" where
  "control_posted failure outcome s = (case outcome of
      Inl message \<Rightarrow> (s\<lparr>en_error := Some (nullish message failure), en_busy := False\<rparr>, False)
    | Inr _ \<Rightarrow> let (s1, started) = loadOverview_begin s in (if started then s1 else s1\<lparr>en_busy := False\<rparr>, started))"

definition start_posted :: "str option + unit \<Rightarrow> enrichment \<Rightarrow> enrichment \<times> bool" where
  "start_posted = control_posted (u ''Failed to launch Enrichment run'')"

definition stop_posted :: "str option + unit \<Rightarrow> enrichment \<Rightarrow> enrichment \<times> bool" where
  "stop_posted = control_posted (u ''Failed to freeze Enrichment Builder'')"

definition control_finished :: "str option + GoldControlOverview \<Rightarrow> enrichment \<Rightarrow> enrichment" where
  "control_finished outcome s = (loadOverview_settle outcome s)\<lparr>en_busy := False\<rparr>"

section \<open>Derived values\<close>

definition en_runtime :: "enrichment \<Rightarrow> gold_runtime option" where
  "en_runtime s = Option.bind (en_overview s) gco_runtime"

definition isFrozen :: "enrichment \<Rightarrow> bool" where
  "isFrozen s = (map_option (\<lambda>ov. gct_mode (gco_control ov)) (en_overview s) = Some CM_PAUSED)"

definition runtimeState :: "enrichment \<Rightarrow> str" where
  "runtimeState s = nullish (map_option grt_state (en_runtime s)) (if isFrozen s then u ''FROZEN'' else u ''IDLE'')"

definition merged_workers :: "GoldWorkerTelemetry list \<Rightarrow> (str \<times> GoldWorkerTelemetry) list \<Rightarrow> (str \<times> GoldWorkerTelemetry) list" where
  "merged_workers reported live =
     fold (\<lambda>w. AList.update (gwt_worker_id w) w) (map snd live) (fold (\<lambda>w. AList.update (gwt_worker_id w) w) reported [])"

definition gold_workers :: "host \<Rightarrow> enrichment \<Rightarrow> GoldWorkerTelemetry list" where
  "gold_workers h s = sort_by (\<lambda>a b. locale_compare h (gwt_worker_id a) (gwt_worker_id b) \<le> 0)
     (map snd (merged_workers (case en_runtime s of Some r \<Rightarrow> grt_workers r | None \<Rightarrow> []) (en_liveWorkers s)))"

definition activeWorkers :: "host \<Rightarrow> enrichment \<Rightarrow> nat" where
  "activeWorkers h s = length (filter (\<lambda>w. gwt_lifecycle w \<noteq> u ''KILLED'') (gold_workers h s))"

definition latestBatches :: "enrichment \<Rightarrow> PipelineBatch list" where
  "latestBatches s = take 8 (rev (case en_runDetail s of Some d \<Rightarrow> prd_batches d | None \<Rightarrow> []))"

definition pendingTotal :: "enrichment \<Rightarrow> jsnum" where
  "pendingTotal s = nullish (map_option grt_pending_total (en_runtime s)) (lit 0)"

definition completedInputRows :: "enrichment \<Rightarrow> jsnum" where
  "completedInputRows s = (case en_runDetail s of Some d \<Rightarrow> if truthy (pr_input_records (prd_run d)) then pr_input_records (prd_run d) else lit 0
     | None \<Rightarrow> lit 0)"

definition totalInputObserved :: "enrichment \<Rightarrow> jsnum" where
  "totalInputObserved s = pendingTotal s + completedInputRows s"

definition lastSnapshotId :: "enrichment \<Rightarrow> str option" where
  "lastSnapshotId s = Option.bind (en_runtime s) grt_last_snapshot_id"

definition synthesisPercent :: "enrichment \<Rightarrow> jsnum" where
  "synthesisPercent s =
     (if lit 0 < totalInputObserved s then Math_min (lit 100) (completedInputRows s / totalInputObserved s * lit 100)
      else if lastSnapshotId s \<noteq> None \<and> lastSnapshotId s \<noteq> Some [] then lit 100 else lit 0)"

definition catalogDetail :: "host \<Rightarrow> gold_catalog_sync option \<Rightarrow> str" where
  "catalogDetail h catalog = (case catalog of None \<Rightarrow> u ''No catalog sync record''
     | Some c \<Rightarrow> if gcs_error c \<noteq> None \<and> gcs_error c \<noteq> Some [] then (u ''Error: '' @ the (gcs_error c))
         else if lit 0 < gcs_tic_records c \<or> lit 0 < gcs_toi_records c
         then let hitLabel = (if gcs_cache_hit c then u ''cache hit'' else u ''synced'')
              in (num_str (gcs_target_count c) @ ue '' targets ~00B7 '' @ number_locale h None (gcs_tic_records c) @ u '' TIC / '' @ number_locale h None (gcs_toi_records c) @ u '' TOI ('' @ hitLabel @ u '')'')
         else (num_str (gcs_target_count c) @ u '' TIC / TOI targets indexed''))"

definition catalogTooltip :: "host \<Rightarrow> gold_catalog_sync option \<Rightarrow> str option" where
  "catalogTooltip h catalog = map_option (\<lambda>c.
     (u ''State: '' @ gcs_state c @ u '' | Targets: '' @ num_str (gcs_target_count c) @ u '' | TIC Records: '' @ number_locale h None (gcs_tic_records c) @ u '' | TOI Records: '' @ number_locale h None (gcs_toi_records c) @ u '' | Cache Hit: '' @ (if gcs_cache_hit c then u ''YES'' else u ''NO'') @ (case gcs_error c of Some e \<Rightarrow> if e \<noteq> [] then (u '' | Error: '' @ e) else [] | None \<Rightarrow> []))) catalog"

section \<open>Stored configuration: lemmas\<close>

text \<open>The batch limits read from storage are never zero or NaN, whatever the item holds.\<close>

lemma loadLocalConfig_truthy:
  "truthy (gcf_maxBatchRecords (loadLocalConfig item)) \<and> truthy (gcf_idleFlushSeconds (loadLocalConfig item))"
  by (auto simp: loadLocalConfig_def Let_def truthy_def split: option.split)

lemma loadLocalConfig_stored:
  assumes "isFinite (gcf_maxBatchRecords c)" "truthy (gcf_maxBatchRecords c)"
    and "isFinite (gcf_idleFlushSeconds c)" "truthy (gcf_idleFlushSeconds c)"
  shows "loadLocalConfig (Some (stored_gold_config c)) = c"
proof -
  have n: "json_num x = JNum x" if "isFinite x" "truthy x" for x
    using that by (auto simp: json_num_def truthy_def)
  show ?thesis using assms
    by (cases "gcf_mode c")
       (simp_all add: loadLocalConfig_def stored_gold_config_def json_truthy_def json_prop_def mode_str_def n Let_def)
qed

section \<open>Live feed: lemmas\<close>

definition feed_ok :: "enrichment \<Rightarrow> bool" where
  "feed_ok s \<longleftrightarrow> length (en_eventRows s) \<le> 80 \<and> distinct (map er_id (en_eventRows s)) \<and>
     (\<forall>r\<in>set (en_eventRows s). er_id r = event_id (er_worker r)) \<and>
     distinct (map fst (en_liveWorkers s)) \<and> (\<forall>(k, w)\<in>set (en_liveWorkers s). gwt_worker_id w = k)"

lemma push_row_ids:
  "distinct (map er_id rows) \<Longrightarrow> distinct (map er_id (push_row r rows))"
  "length rows \<le> 80 \<Longrightarrow> length (push_row r rows) \<le> 80"
  "set (push_row r rows) \<subseteq> insert r (set rows)"
  by (auto simp: push_row_def list_ex_iff distinct_map inj_on_def dest: in_set_takeD simp flip: take_map)

lemma live_update_ok:
  assumes "distinct (map fst m)" "\<forall>(k, w)\<in>set m. gwt_worker_id w = k"
  shows "distinct (map fst (AList.update (gwt_worker_id w) w m))"
    "\<forall>(k, w')\<in>set (AList.update (gwt_worker_id w) w m). gwt_worker_id w' = k"
proof -
  show d: "distinct (map fst (AList.update (gwt_worker_id w) w m))" using assms(1) by (rule amap.distinct_set)
  show "\<forall>(k, w')\<in>set (AList.update (gwt_worker_id w) w m). gwt_worker_id w' = k"
  proof (clarify)
    fix k w' assume "(k, w') \<in> set (AList.update (gwt_worker_id w) w m)"
    then have "map_of (AList.update (gwt_worker_id w) w m) k = Some w'" using d by simp
    then show "gwt_worker_id w' = k" using assms(2) by (auto simp: update_conv' split: if_splits dest: map_of_SomeD)
  qed
qed

lemma feed_ok_cong:
  "en_eventRows s' = en_eventRows s \<Longrightarrow> en_liveWorkers s' = en_liveWorkers s \<Longrightarrow> feed_ok s' = feed_ok s"
  by (simp add: feed_ok_def)

lemma loadHistory_begin_feed [simp]:
  "en_eventRows (fst (loadHistory_begin c s)) = en_eventRows s" "en_liveWorkers (fst (loadHistory_begin c s)) = en_liveWorkers s"
  by (simp_all add: loadHistory_begin_def split: option.split)

lemma on_runtime_feed [simp]:
  "en_eventRows (on_runtime rt s) = en_eventRows s" "en_liveWorkers (on_runtime rt s) = en_liveWorkers s"
  by (simp_all add: on_runtime_def Let_def split: option.split)

lemma on_worker_rows:
  "en_eventRows (on_worker m p w s) = (if en_pausedFeed s then en_eventRows s
     else push_row \<lparr>er_id = event_id w, er_worker = w,
       er_observedAt = nullish (nullish2 (gep_occurred_at p) (gle_occurred_at m)) (gwt_updated_at w)\<rparr> (en_eventRows s))"
  "en_liveWorkers (on_worker m p w s) = AList.update (gwt_worker_id w) w (en_liveWorkers s)"
  by (simp_all add: on_worker_def Let_def)

lemma on_worker_feed:
  assumes "feed_ok s"
  shows "feed_ok (on_worker m p w s)"
proof -
  let ?r = "\<lparr>er_id = event_id w, er_worker = w,
      er_observedAt = nullish (nullish2 (gep_occurred_at p) (gle_occurred_at m)) (gwt_updated_at w)\<rparr>"
  have "\<forall>r\<in>set (push_row ?r (en_eventRows s)). er_id r = event_id (er_worker r)"
    using assms push_row_ids(3) [of ?r "en_eventRows s"] by (auto simp: feed_ok_def)
  then show ?thesis
    using assms push_row_ids(1,2) [of "en_eventRows s" ?r] live_update_ok [of "en_liveWorkers s" w]
    unfolding feed_ok_def on_worker_rows by simp
qed

datatype feed_event = Live_event "GoldLiveEvent option" | Toggle_feed | Clear_feed | Stream_open | Stream_error
  | Overview_settled "str option + GoldControlOverview" | History_settled "str option + PipelineRunDetail"

fun feed_step :: "enrichment \<Rightarrow> feed_event \<Rightarrow> enrichment" where
  "feed_step s (Live_event e) = on_gold_event e s"
| "feed_step s Toggle_feed = toggle_feed s"
| "feed_step s Clear_feed = clear_feed s"
| "feed_step s Stream_open = stream_opened s"
| "feed_step s Stream_error = stream_failed s"
| "feed_step s (Overview_settled x) = loadOverview_settle x s"
| "feed_step s (History_settled x) = loadHistory_settle x s"

lemma on_gold_event_feed: "feed_ok s \<Longrightarrow> feed_ok (on_gold_event e s)"
  by (auto simp: on_gold_event_def Let_def intro!: on_worker_feed cong: feed_ok_cong split: option.split)

interpretation feed: reducer feed_step feed_ok
proof
  fix s and e :: feed_event
  assume "feed_ok s"
  moreover from this have "feed_ok (on_gold_event x s)" for x by (rule on_gold_event_feed)
  ultimately show "feed_ok (feed_step s e)"
    by (cases e; simp split: sum.split)
       (auto simp: toggle_feed_def clear_feed_def stream_opened_def stream_failed_def
          loadOverview_settle_def loadHistory_settle_def feed_ok_def split: sum.split)
qed

section \<open>Workers and progress: lemmas\<close>

text \<open>The telemetry shown for a worker is its live one, or the reported one when there is none.\<close>

lemma fold_workers_get:
  fixes ws :: "GoldWorkerTelemetry list"
  shows "distinct (map gwt_worker_id ws) \<Longrightarrow> map_of (fold (\<lambda>w. AList.update (gwt_worker_id w) w) ws m) k =
     (case List.find (\<lambda>w. gwt_worker_id w = k) ws of Some w \<Rightarrow> Some w | None \<Rightarrow> map_of m k)"
proof (induction ws arbitrary: m)
  case (Cons w ws)
  have "List.find (\<lambda>w'. gwt_worker_id w' = gwt_worker_id w) ws = None"
    using Cons.prems unfolding find_None_iff by (metis distinct.simps(2) image_eqI list.set_map list.simps(9))
  then show ?case using Cons by (auto simp: update_conv' split: option.split)
qed simp

lemma merged_workers_get:
  assumes "distinct (map fst live)" "\<forall>(k, w)\<in>set live. gwt_worker_id w = k"
  shows "map_of (merged_workers reported live) k =
    (case map_of live k of Some w \<Rightarrow> Some w | None \<Rightarrow> map_of (fold (\<lambda>w. AList.update (gwt_worker_id w) w) reported []) k)"
proof -
  have ids: "map gwt_worker_id (map snd live) = map fst live" using assms(2) by auto
  have "List.find (\<lambda>w. gwt_worker_id w = k) (map snd live) = map_of live k"
    using assms(2) by (induction live) auto
  then show ?thesis using assms(1) by (simp add: merged_workers_def fold_workers_get ids [symmetric])
qed

lemma synthesis_in_percent:
  assumes "isFinite (pendingTotal s)" "0 \<le> val (pendingTotal s)" "isFinite (completedInputRows s)" "0 \<le> val (completedInputRows s)"
  shows "lit 0 \<le> synthesisPercent s \<and> synthesisPercent s \<le> lit 100"
proof (cases "lit 0 < totalInputObserved s")
  case True
  let ?c = "completedInputRows s" and ?t = "totalInputObserved s"
  have t: "?t \<noteq> NaN" "Fin 0 < ?t" using True by auto
  have q: "Fin 0 \<le> ?c / ?t"
  proof (cases "isFinite ?t")
    case True
    then have "0 < val ?t" using t by simp
    then show ?thesis using assms True finite_divide [of ?c ?t] by (simp add: mk_nonneg)
  next
    case False
    then have "?t = PInf" using t by (auto simp: isFinite_iff)
    then show ?thesis using assms by (cases ?c) (auto simp: divide_jsnum_def zero_of_def Let_def)
  qed
  have "Fin 0 \<le> ?c / ?t * lit 100"
    using q by (cases "?c / ?t") (auto simp: times_jsnum_def Let_def inf_of_def zero_of_def intro: mk_nonneg)
  moreover from this have "?c / ?t * lit 100 \<noteq> NaN" by auto
  ultimately show ?thesis using True Math_min_le [of "lit 100" "?c / ?t * lit 100"] Math_min_cases [of "lit 100" "?c / ?t * lit 100"]
    by (auto simp: synthesisPercent_def)
qed (auto simp: synthesisPercent_def)

section \<open>Properties\<close>

text \<open>
  C14. Whatever arrives on the event stream (messages that do not parse
  included) and however the operator pauses or clears the feed, the activity log has at most
  80 rows with distinct identifiers, each the identifier of the worker event it shows, and the
  live table has one entry per worker, under that worker's own identifier.
\<close>

theorem gold_feed_invariant:
  fixes c es
  defines "s \<equiv> foldl feed_step (enrichment_init c) es"
  shows "length (en_eventRows s) \<le> 80 \<and> distinct (map er_id (en_eventRows s)) \<and>
    (\<forall>r\<in>set (en_eventRows s). er_id r = event_id (er_worker r)) \<and> distinct (map fst (en_liveWorkers s)) \<and>
    (\<forall>k w. map_of (en_liveWorkers s) k = Some w \<longrightarrow> gwt_worker_id w = k)"
proof -
  have "feed_ok s" unfolding s_def by (rule feed.run_inv) (simp add: feed_ok_def enrichment_init_def)
  then show ?thesis by (auto simp: feed_ok_def dest: map_of_SomeD)
qed

theorem gold_feed_invariant_witness:
  "length (en_eventRows (foldl feed_step (enrichment_init (loadLocalConfig None)) [Live_event None, Toggle_feed])) \<le> 80"
  using gold_feed_invariant [of "loadLocalConfig None" "[Live_event None, Toggle_feed]"] by (rule conjunct1)

text \<open>
  While the history of one command is being fetched, the effect
  for another command starts nothing, and the answer for the first one is then shown, without
  a loading indicator, although the overview names the other: the in-flight flag does not
  remember which command it stands for.
\<close>

theorem history_request_dropped:
  fixes s :: enrichment
  assumes "a \<noteq> []" "\<not> en_historyInFlight s" "b \<noteq> []" "history_command (s\<lparr>en_overview := Some ov\<rparr>) = Some b"
  defines "s1 \<equiv> (fst (loadHistory_begin (Some a) s))\<lparr>en_overview := Some ov\<rparr>"
  shows "snd (loadHistory_begin (Some a) s) = Some a \<and> history_command s1 = Some b \<and>
    loadHistory_begin (history_command s1) s1 = (s1, None) \<and>
    (\<forall>d. en_runDetail (loadHistory_settle (Inr d) s1) = Some d \<and> \<not> en_historyLoading (loadHistory_settle (Inr d) s1))"
proof -
  have "history_command s1 = Some b"
    using assms(4) by (simp add: history_command_def s1_def)
  moreover have "en_historyInFlight s1" using assms(1,2) by (simp add: s1_def loadHistory_begin_def)
  ultimately show ?thesis using assms(1-3) by (simp add: loadHistory_begin_def loadHistory_settle_def)
qed

definition sample_overview :: "str \<Rightarrow> GoldControlOverview" where
  "sample_overview cmd = \<lparr>gco_control = \<lparr>gct_mode = CM_STREAM, gct_max_batch_records = Fin 1, gct_idle_flush_seconds = Fin 1,
     gct_ticket_id = Some cmd, gct_command_id = None, gct_updated_at = None, gct_requested_by = None\<rparr>, gco_runtime = None\<rparr>"

theorem history_request_dropped_witness:
  "snd (loadHistory_begin (Some (u ''A'')) (enrichment_init (loadLocalConfig None))) = Some (u ''A'')"
proof -
  have "history_command ((enrichment_init (loadLocalConfig None))\<lparr>en_overview := Some (sample_overview (u ''B''))\<rparr>) = Some (u ''B'')"
    by (simp add: history_command_def or_command_def sample_overview_def)
  then show ?thesis
    using history_request_dropped [of "u ''A''" "enrichment_init (loadLocalConfig None)" "u ''B''" "sample_overview (u ''B'')"]
    by (simp add: enrichment_init_def)
qed

end
