(* ===== verification/Ingest.thy ===== *)
theory Ingest
  imports RunnerTicket JsConvert NumSort
begin

text \<open>
  The ingestion console (\<open>pages/ingest\<close>): the status contract and formatting of \<open>types.ts\<close>,
  and the state of \<open>page.tsx\<close>: the deduplicated status query, the reducer of workflow events
  (planning progress, worker transfers, overall progress), the start and cancel commands and
  the number of workers shown, which keeps a high-water mark while a run is active.
\<close>

section \<open>Data\<close>

record IngestProduct =
  ip_id :: str
  ip_kind :: str
  ip_object_key :: str
  ip_state :: str
  ip_size_bytes :: jsnum
  ip_expected_size_bytes :: jsnum
  ip_attempts :: jsnum
  ip_last_error :: "str option"
  ip_updated_at :: str

record IngestKindSummary =
  iks_planned :: jsnum
  iks_completed :: jsnum
  iks_downloading :: jsnum
  iks_failed :: jsnum

record IngestControlJob =
  icj_ticket_id :: str
  icj_status :: str
  icj_sector :: "jsnum option"
  icj_concurrency :: "jsnum option"
  icj_manifest_path :: "str option"
  icj_started_at :: str
  icj_updated_at :: str
  icj_error :: "str option"

record PlanningSignal =
  pls_stage :: "str option"
  pls_completed :: "jsnum option"
  pls_total :: "jsnum option"
  pls_products :: "jsnum option"
  pls_occurredAt :: "str option"

record WorkerSignal =
  ws_workerId :: jsnum
  ws_productId :: str
  ws_productKind :: "str option"
  ws_bytesRead :: jsnum
  ws_expectedBytes :: jsnum
  ws_occurredAt :: "str option"

record ingest_catalog_progress =
  icp_state :: str
  icp_stage :: str
  icp_tic_rows :: jsnum
  icp_toi_rows :: jsnum
  icp_completed :: jsnum
  icp_total :: jsnum
  icp_tic_snapshot_id :: "str option"
  icp_toi_snapshot_id :: "str option"
  icp_error :: "str option"

record ingest_manifest_progress =
  imp_state :: str
  imp_stage :: str
  imp_completed :: jsnum
  imp_total :: jsnum
  imp_stage_completed :: "jsnum option"
  imp_stage_total :: "jsnum option"
  imp_discovered_products :: jsnum
  imp_paired_samples :: jsnum
  imp_selected_samples :: jsnum
  imp_priority_samples :: jsnum
  imp_catalog_snapshots :: "(str \<times> str) list option"
  imp_error :: "str option"
  imp_updated_at :: "str option"

record IngestStatus =
  is_observed :: bool
  is_run_id :: "str option"
  is_ticket_id :: "str option"
  is_status :: str
  is_error :: "str option"
  is_manifest_path :: "str option"
  is_started_at :: "str option"
  is_updated_at :: "str option"
  is_total_products :: jsnum
  is_completed_products :: jsnum
  is_downloading :: jsnum
  is_failed_products :: jsnum
  is_expected_bytes :: jsnum
  is_completed_bytes :: jsnum
  is_products_per_second :: jsnum
  is_bytes_per_second :: jsnum
  is_queue_depth :: jsnum
  is_inflight_products :: jsnum
  is_observed_at :: str
  is_products :: "IngestProduct list option"
  is_products_truncated :: "bool option"
  is_product_kinds :: "(str \<times> IngestKindSummary) list option"
  is_catalog_progress :: "ingest_catalog_progress option"
  is_manifest_progress :: "ingest_manifest_progress option"

section \<open>Formatting\<close>

definition ingest_formatBytes :: "jsnum \<Rightarrow> str" where
  "ingest_formatBytes value =
     (if \<not> isFinite value \<or> value \<le> lit 0 then emdash
      else if value < lit 1024 then (num_str value @ u '' B'')
      else if value < lit (1024 ^ 2) then (toFixed (value / lit 1024) 1 @ u '' KB'')
      else if value < lit (1024 ^ 3) then (toFixed (value / lit (1024 ^ 2)) 1 @ u '' MB'')
      else (toFixed (value / lit (1024 ^ 3)) 2 @ u '' GB''))"

definition formatTransferBytes :: "jsnum \<Rightarrow> str" where
  "formatTransferBytes value = (if num_eq value (lit 0) then u ''0 B'' else ingest_formatBytes value)"

definition formatRate :: "jsnum \<Rightarrow> str \<Rightarrow> str" where
  "formatRate value unit_text = (if lit 0 < value then (ingest_formatBytes value @ u ''/'' @ unit_text) else emdash)"

definition ingest_formatDate :: "host \<Rightarrow> str option \<Rightarrow> str" where
  "ingest_formatDate h value = (case value of None \<Rightarrow> emdash
     | Some v \<Rightarrow> if v = [] then emdash else let date = date_parse h v in if isNaN date then v else locale_string h date)"

datatype ingest_variant = IV_default | IV_secondary | IV_destructive | IV_outline

definition ingest_statusVariant :: "str \<Rightarrow> ingest_variant" where
  "ingest_statusVariant status =
     (if status = u ''completed'' \<or> status = u ''published'' then IV_default
      else if status = u ''failed'' \<or> status = u ''completed_with_failures'' then IV_destructive
      else if status \<in> {u ''running'', u ''planning'', u ''downloading'', u ''draining''} then IV_secondary
      else IV_outline)"

section \<open>Page state\<close>

definition SECTOR_STORAGE_KEY :: str where
  "SECTOR_STORAGE_KEY = u ''aurora.ingest.sector''"

definition CONCURRENCY_STORAGE_KEY :: str where
  "CONCURRENCY_STORAGE_KEY = u ''aurora.ingest.concurrency''"

text \<open>\<open>Number(null)\<close> is 0: an absent item takes the default.\<close>

definition stored_integer :: "nat \<Rightarrow> str \<Rightarrow> str option \<Rightarrow> str" where
  "stored_integer hi default_text saved =
     (let value = (case saved of None \<Rightarrow> Fin 0 | Some s \<Rightarrow> Number_of_str s)
      in if isInteger value \<and> lit 1 \<le> value \<and> value \<le> lit (of_nat hi) then num_str value else default_text)"

record ingest_page =
  ing_status :: "IngestStatus option"
  ing_loading :: bool
  ing_error :: "str option"
  ing_controlJob :: "IngestControlJob option"
  ing_sector :: str
  ing_concurrency :: str
  ing_controlBusy :: bool
  ing_planningSignal :: "PlanningSignal option"
  ing_workerSignals :: "(str \<times> WorkerSignal) list" \<comment> \<open>an object: the keys are the texts of the worker numbers\<close>
  ing_loadInFlight :: bool
  ing_workerHighWater :: jsnum

definition ingest_init :: "str option \<Rightarrow> str option \<Rightarrow> ingest_page" where
  "ingest_init savedSector savedConcurrency = \<lparr>ing_status = None, ing_loading = True, ing_error = None, ing_controlJob = None,
     ing_sector = stored_integer 100 (u ''1'') savedSector, ing_concurrency = stored_integer 32 (u ''8'') savedConcurrency,
     ing_controlBusy = False, ing_planningSignal = None, ing_workerSignals = [], ing_loadInFlight = False,
     ing_workerHighWater = Fin 0\<rparr>"

text \<open>\<open>load\<close>: nothing happens while a query is in flight.\<close>

definition ingest_load :: "ingest_page \<Rightarrow> ingest_page" where
  "ingest_load s = (if ing_loadInFlight s then s else s\<lparr>ing_error := None, ing_loadInFlight := True\<rparr>)"

definition ingest_settle :: "str option + IngestStatus \<Rightarrow> ingest_page \<Rightarrow> ingest_page" where
  "ingest_settle outcome s =
     (case outcome of Inr nextStatus \<Rightarrow> s\<lparr>ing_status := Some nextStatus\<rparr>
      | Inl message \<Rightarrow> s\<lparr>ing_error := Some (nullish message (u ''Failed to load ingest status''))\<rparr>)
     \<lparr>ing_loading := False, ing_loadInFlight := False\<rparr>"

definition sse_topic :: "str \<Rightarrow> ingest_page \<Rightarrow> str option" where
  "sse_topic ticket s =
     (let effectiveTicket = (if ticket \<noteq> [] then Some ticket else Option.bind (ing_status s) is_ticket_id)
      in encodeURIComponent (case effectiveTicket of Some t \<Rightarrow> if t \<noteq> [] then (u ''ingest:'' @ t) else u ''ingest'' | None \<Rightarrow> u ''ingest''))"

section \<open>Workflow events\<close>

text \<open>
  The fields of an event the listener reads, from the message itself or from its \<open>payload\<close>
  object. Fields that are converted by \<open>Number\<close> or \<open>String\<close> or only tested are untyped values.
\<close>

record ingest_fields =
  if_status :: "str option"
  if_planning_stage :: "str option"
  if_planning_completed :: "jsnum option"
  if_planning_total :: "jsnum option"
  if_planning_products :: "jsnum option"
  if_occurred_at :: "str option"
  if_worker_id :: "json option"
  if_product_id :: "json option"
  if_product_kind :: "str option"
  if_product_bytes :: "json option"
  if_product_expected_bytes :: "json option"
  if_completed_products :: "json option"
  if_total_products :: "json option"
  if_completed_bytes :: "json option"
  if_expected_bytes :: "json option"
  if_active_workers :: "json option"

text \<open>A parsed message: its own fields and those of its \<open>payload\<close> when that is an object.\<close>

record ingest_message =
  im_raw :: ingest_fields
  im_payload :: "ingest_fields option"

definition planning_stages :: "str list" where
  "planning_stages = [u ''DISCOVERING_MAST_TARGETS'', u ''RESOLVING_MAST_PRODUCTS'', u ''DOWNLOADING_TIC'',
     u ''PINNING_CATALOG_SNAPSHOTS'', u ''MANIFEST_READY'']"

definition plan_status :: "PlanningSignal \<Rightarrow> str \<Rightarrow> IngestStatus \<Rightarrow> IngestStatus" where
  "plan_status signal stage current = (case is_manifest_progress current of None \<Rightarrow> current
     | Some mp \<Rightarrow> current\<lparr>is_observed := True, is_status := u ''planning'',
         is_observed_at := nullish (pls_occurredAt signal) (is_observed_at current),
         is_manifest_progress := Some (mp\<lparr>imp_state := u ''RUNNING'', imp_stage := stage,
           imp_stage_completed := Some (nullish (pls_completed signal) (lit 0)),
           imp_stage_total := Some (nullish (pls_total signal) (lit 0)),
           imp_discovered_products := nullish (pls_products signal) (imp_discovered_products mp),
           imp_updated_at := nullish2 (pls_occurredAt signal) (imp_updated_at mp)\<rparr>)\<rparr>)"

text \<open>Each of the four parts of the listener returns the state and whether it consumed the event.\<close>

definition on_planning :: "ingest_message \<Rightarrow> ingest_fields \<Rightarrow> ingest_page \<Rightarrow> ingest_page \<times> bool" where
  "on_planning m p s =
     (let signal = \<lparr>pls_stage = if_planning_stage p, pls_completed = if_planning_completed p, pls_total = if_planning_total p,
            pls_products = if_planning_products p, pls_occurredAt = nullish2 (if_occurred_at p) (if_occurred_at (im_raw m))\<rparr>;
          s1 = s\<lparr>ing_planningSignal := Some signal\<rparr>
      in case if_planning_stage p of
           Some stage \<Rightarrow> if stage \<in> set planning_stages
             then (s1\<lparr>ing_status := map_option (plan_status signal stage) (ing_status s1)\<rparr>, True) else (s1, False)
         | None \<Rightarrow> (s1, False))"

definition worker_signal :: "ingest_message \<Rightarrow> ingest_fields \<Rightarrow> WorkerSignal" where
  "worker_signal m p = \<lparr>ws_workerId = Number_of (if_worker_id p), ws_productId = String_of (if_product_id p),
     ws_productKind = if_product_kind p,
     ws_bytesRead = Math_max (lit 0) (Number_of (json_nullish (if_product_bytes p) (Some (JNum (lit 0))))),
     ws_expectedBytes = Math_max (lit 0) (Number_of (json_nullish (if_product_expected_bytes p) (Some (JNum (lit 0))))),
     ws_occurredAt = nullish2 (if_occurred_at p) (if_occurred_at (im_raw m))\<rparr>"

definition on_transfer :: "ingest_message \<Rightarrow> ingest_fields \<Rightarrow> ingest_page \<Rightarrow> ingest_page \<times> bool" where
  "on_transfer m p s =
     (if json_truthy (if_worker_id p) \<and> json_truthy (if_product_id p)
      then (s\<lparr>ing_workerSignals := AList.update (num_str (Number_of (if_worker_id p))) (worker_signal m p) (ing_workerSignals s)\<rparr>, True)
      else (s, False))"

definition on_transfer_complete :: "ingest_fields \<Rightarrow> ingest_page \<Rightarrow> ingest_page \<times> bool" where
  "on_transfer_complete p s =
     (if json_truthy (if_worker_id p)
      then (s\<lparr>ing_workerSignals := AList.delete (num_str (Number_of (if_worker_id p))) (ing_workerSignals s)\<rparr>, True)
      else (s, False))"

definition progress_field :: "json option \<Rightarrow> jsnum \<Rightarrow> jsnum" where
  "progress_field v current = Number_of (json_nullish v (Some (JNum current)))"

definition on_ingest_progress :: "ingest_fields \<Rightarrow> ingest_page \<Rightarrow> ingest_page \<times> bool" where
  "on_ingest_progress p s =
     (s\<lparr>ing_status := map_option (\<lambda>current. current\<lparr>
          is_completed_products := progress_field (if_completed_products p) (is_completed_products current),
          is_total_products := progress_field (if_total_products p) (is_total_products current),
          is_completed_bytes := progress_field (if_completed_bytes p) (is_completed_bytes current),
          is_expected_bytes := progress_field (if_expected_bytes p) (is_expected_bytes current),
          is_downloading := progress_field (if_active_workers p) (is_downloading current),
          is_inflight_products := progress_field (if_active_workers p) (is_inflight_products current)\<rparr>) (ing_status s)\<rparr>, True)"

text \<open>\<open>None\<close> is a message that does not parse (or is \<open>null\<close>): it is answered by a reload.\<close>

definition handle_message :: "ingest_message option \<Rightarrow> ingest_page \<Rightarrow> ingest_page \<times> bool" where
  "handle_message event s = (case event of None \<Rightarrow> (s, False)
     | Some m \<Rightarrow>
         let p = nullish (im_payload m) (im_raw m); runtimeStatus = nullish2 (if_status p) (if_status (im_raw m)) in
         if runtimeStatus = Some (u ''planning'') then on_planning m p s
         else if runtimeStatus = Some (u ''transfer'') then on_transfer m p s
         else if runtimeStatus = Some (u ''transfer_complete'') then on_transfer_complete p s
         else if runtimeStatus = Some (u ''progress'') then on_ingest_progress p s
         else (s, False))"

definition on_ingest_event :: "ingest_message option \<Rightarrow> ingest_page \<Rightarrow> ingest_page" where
  "on_ingest_event event s = (let (s1, consumed) = handle_message event s in if consumed then s1 else ingest_load s1)"

section \<open>Activity and workers\<close>

definition reportedStatus :: "ingest_page \<Rightarrow> str option" where
  "reportedStatus s = nullish2 (map_option is_status (ing_status s)) (map_option icj_status (ing_controlJob s))"

definition isIngesting :: "ingest_page \<Rightarrow> bool" where
  "isIngesting s =
     (let st = toLowerCase (nullish (reportedStatus s) []) in
      st \<in> {u ''running'', u ''planning'', u ''downloading'', u ''draining'', u ''cancelling''}
      \<or> lit 0 < nullish (map_option is_downloading (ing_status s)) (lit 0)
      \<or> lit 0 < nullish (map_option is_inflight_products (ing_status s)) (lit 0))"

definition isDraining :: "ingest_page \<Rightarrow> bool" where
  "isDraining s = (toLowerCase (nullish (reportedStatus s) []) = u ''draining'')"

text \<open>The effect on \<open>isIngesting\<close>, run when it has changed.\<close>

definition idle_effect :: "ingest_page \<Rightarrow> ingest_page" where
  "idle_effect s = (if isIngesting s then s else s\<lparr>ing_workerSignals := [], ing_workerHighWater := Fin 0\<rparr>)"

definition rawSpawnedCount :: "ingest_page \<Rightarrow> jsnum" where
  "rawSpawnedCount s = Math_max (Math_max (lit 0) (Math_round (nullish (map_option is_downloading (ing_status s)) (lit 0))))
     (jsnum_of_nat (length (ing_workerSignals s)))"

text \<open>A render raises the high-water mark while a run is active and shows the greater of the two.\<close>

definition render_mark :: "ingest_page \<Rightarrow> ingest_page" where
  "render_mark s = (if isIngesting s \<and> ing_workerHighWater s < rawSpawnedCount s
     then s\<lparr>ing_workerHighWater := rawSpawnedCount s\<rparr> else s)"

definition spawnedWorkerCount :: "ingest_page \<Rightarrow> jsnum" where
  "spawnedWorkerCount s = (if isIngesting s then Math_max (rawSpawnedCount s) (ing_workerHighWater s) else rawSpawnedCount s)"

section \<open>Commands and derived values\<close>

definition handleStart_begin :: "str \<Rightarrow> ingest_page \<Rightarrow> ingest_page \<times> (jsnum \<times> jsnum \<times> str) option" where
  "handleStart_begin ticket s =
     (if ticket = [] then (s\<lparr>ing_error := Some (u ''Please select a Runner Ticket before starting an ingestion run.'')\<rparr>, None)
      else (s\<lparr>ing_controlBusy := True, ing_error := None, ing_workerSignals := []\<rparr>,
            Some (Number_of_str (ing_sector s), Number_of_str (ing_concurrency s), ticket)))"

text \<open>
  The command has been answered; a success is followed by an awaited \<open>load\<close>, after which the
  handler ends.
\<close>

definition command_posted :: "str \<Rightarrow> str option + IngestControlJob \<Rightarrow> ingest_page \<Rightarrow> ingest_page" where
  "command_posted failure outcome s = (case outcome of
      Inr job \<Rightarrow> ingest_load (s\<lparr>ing_controlJob := Some job\<rparr>)
    | Inl message \<Rightarrow> s\<lparr>ing_error := Some (nullish message failure), ing_controlBusy := False\<rparr>)"

definition handleStart_posted :: "str option + IngestControlJob \<Rightarrow> ingest_page \<Rightarrow> ingest_page" where
  "handleStart_posted = command_posted (u ''Failed to start ingestion job'')"

definition handleCancel_begin :: "ingest_page \<Rightarrow> ingest_page" where
  "handleCancel_begin s = s\<lparr>ing_controlBusy := True, ing_error := None\<rparr>"

definition cancel_path :: "str \<Rightarrow> ingest_page \<Rightarrow> str option" where
  "cancel_path ticket s =
     (let ticketId = opt_or_str (Some ticket) (opt_or_str (map_option icj_ticket_id (ing_controlJob s))
            (opt_or_str (Option.bind (ing_status s) is_ticket_id) (u ''active'')))
      in map_option (\<lambda>t. (u ''/v1/ingest/jobs/'' @ t @ u ''/cancel'')) (encodeURIComponent ticketId))"

definition handleCancel_posted :: "str option + IngestControlJob \<Rightarrow> ingest_page \<Rightarrow> ingest_page" where
  "handleCancel_posted = command_posted (u ''Failed to stop ingestion job'')"

definition command_finished :: "ingest_page \<Rightarrow> ingest_page" where
  "command_finished s = s\<lparr>ing_controlBusy := False\<rparr>"

definition ingest_percent :: "ingest_page \<Rightarrow> jsnum" where
  "ingest_percent s = (case ing_status s of None \<Rightarrow> lit 0
     | Some st \<Rightarrow> if \<not> truthy (is_total_products st) then lit 0
         else Math_min (lit 100) (Math_round (is_completed_products st / is_total_products st * lit 100)))"

definition downloadingProducts :: "ingest_page \<Rightarrow> IngestProduct list" where
  "downloadingProducts s = filter (\<lambda>p. ip_state p = u ''downloading'' \<or> ip_state p = u ''running'')
     (nullish (Option.bind (ing_status s) is_products) [])"

definition activeStatus :: "ingest_page \<Rightarrow> str option" where
  "activeStatus s = (if map_option toLowerCase (reportedStatus s) = Some (u ''not_observed'') then None else reportedStatus s)"

definition manifest_progress :: "ingest_page \<Rightarrow> ingest_manifest_progress option" where
  "manifest_progress s = Option.bind (ing_status s) is_manifest_progress"

definition manifestDiscoveryActive :: "ingest_page \<Rightarrow> bool" where
  "manifestDiscoveryActive s = (activeStatus s = Some (u ''planning'') \<and>
     (case manifest_progress s of Some mp \<Rightarrow> imp_stage mp \<in> insert (u ''DISCOVERING_MAST_PRODUCTS'') (set planning_stages) | None \<Rightarrow> False))"

definition manifestStageCompleted :: "ingest_page \<Rightarrow> jsnum" where
  "manifestStageCompleted s = nullish (nullish2 (Option.bind (manifest_progress s) imp_stage_completed)
     (Option.bind (ing_planningSignal s) pls_completed)) (lit 0)"

definition manifestStageTotal :: "ingest_page \<Rightarrow> jsnum" where
  "manifestStageTotal s = nullish (nullish2 (Option.bind (manifest_progress s) imp_stage_total)
     (Option.bind (ing_planningSignal s) pls_total)) (lit 0)"

definition manifestProgressPercent :: "ingest_page \<Rightarrow> jsnum" where
  "manifestProgressPercent s =
     (if manifestDiscoveryActive s \<and> lit 0 < manifestStageTotal s
      then manifestStageCompleted s / manifestStageTotal s * lit 100
      else case manifest_progress s of
          Some mp \<Rightarrow> if truthy (imp_total mp) then imp_completed mp / imp_total mp * lit 100 else lit 0
        | None \<Rightarrow> lit 0)"

section \<open>Steps of the page\<close>

datatype ingest_act = Workflow "ingest_message option" | Settled "str option + IngestStatus" | Ready
  | Start str | Cancel | Start_answer "str option + IngestControlJob" | Cancel_answer "str option + IngestControlJob" | Command_end

fun ingest_step :: "ingest_page \<Rightarrow> ingest_act \<Rightarrow> ingest_page" where
  "ingest_step s (Workflow e) = on_ingest_event e s"
| "ingest_step s (Settled x) = ingest_settle x s"
| "ingest_step s Ready = ingest_load s"
| "ingest_step s (Start t) = fst (handleStart_begin t s)"
| "ingest_step s Cancel = handleCancel_begin s"
| "ingest_step s (Start_answer x) = handleStart_posted x s"
| "ingest_step s (Cancel_answer x) = handleCancel_posted x s"
| "ingest_step s Command_end = command_finished s"

text \<open>A step, the effect on the activity and the render after it.\<close>

definition frame :: "ingest_page \<Rightarrow> ingest_act \<Rightarrow> ingest_page" where
  "frame s a = render_mark (idle_effect (ingest_step s a))"

lemma ingest_load_keeps [simp]:
  "ing_workerSignals (ingest_load s) = ing_workerSignals s" "ing_workerHighWater (ingest_load s) = ing_workerHighWater s"
  "ing_status (ingest_load s) = ing_status s"
  by (simp_all add: ingest_load_def)

lemmas message_defs = handle_message_def on_planning_def on_transfer_def on_transfer_complete_def on_ingest_progress_def Let_def

lemma handle_message_mark [simp]: "ing_workerHighWater (fst (handle_message e s)) = ing_workerHighWater s"
  by (simp add: message_defs split: option.split)

lemma handle_message_signals:
  "ing_workerSignals (fst (handle_message e s)) = ing_workerSignals s \<or>
   (\<exists>m p. ing_workerSignals (fst (handle_message e s)) =
      AList.update (num_str (ws_workerId (worker_signal m p))) (worker_signal m p) (ing_workerSignals s)) \<or>
   (\<exists>k. ing_workerSignals (fst (handle_message e s)) = AList.delete k (ing_workerSignals s))"
  by (cases e) (auto simp: message_defs worker_signal_def split: option.split)

lemma on_ingest_event_projections:
  "ing_workerSignals (on_ingest_event e s) = ing_workerSignals (fst (handle_message e s))"
  "ing_workerHighWater (on_ingest_event e s) = ing_workerHighWater s"
  by (simp_all add: on_ingest_event_def split_beta Let_def)

lemma ingest_step_mark: "ing_workerHighWater (ingest_step s a) = ing_workerHighWater s"
  by (cases a)
     (simp_all add: on_ingest_event_projections ingest_settle_def handleStart_begin_def handleCancel_begin_def handleStart_posted_def
        handleCancel_posted_def command_posted_def command_finished_def split: sum.split)

section \<open>Worker signals: lemmas\<close>

definition signal_ok :: "WorkerSignal \<Rightarrow> bool" where
  "signal_ok w \<longleftrightarrow> (ws_bytesRead w = NaN \<or> Fin 0 \<le> ws_bytesRead w) \<and> (ws_expectedBytes w = NaN \<or> Fin 0 \<le> ws_expectedBytes w)"

definition signals_ok :: "ingest_page \<Rightarrow> bool" where
  "signals_ok s \<longleftrightarrow> distinct (map fst (ing_workerSignals s)) \<and>
     (\<forall>k w. map_of (ing_workerSignals s) k = Some w \<longrightarrow> k = num_str (ws_workerId w) \<and> signal_ok w)"

lemma worker_signal_ok: "signal_ok (worker_signal m p)"
proof -
  have "Math_max (lit 0) x = NaN \<or> Fin 0 \<le> Math_max (lit 0) x" for x
    using Math_max_ge [of "lit 0" x] by (cases "x = NaN") auto
  then show ?thesis by (simp add: signal_ok_def worker_signal_def)
qed

lemma signals_ok_cong: "ing_workerSignals s' = ing_workerSignals s \<Longrightarrow> signals_ok s' = signals_ok s"
  by (simp add: signals_ok_def)

lemma on_ingest_event_signals:
  assumes "signals_ok s"
  shows "signals_ok (on_ingest_event e s)"
proof -
  let ?m = "ing_workerSignals (fst (handle_message e s))"
  have d: "distinct (map fst (ing_workerSignals s))" using assms by (simp add: signals_ok_def)
  consider "?m = ing_workerSignals s"
    | m p where "?m = AList.update (num_str (ws_workerId (worker_signal m p))) (worker_signal m p) (ing_workerSignals s)"
    | k where "?m = AList.delete k (ing_workerSignals s)"
    using handle_message_signals [of e s] by blast
  then show ?thesis
  proof cases
    case 1
    then show ?thesis using assms by (simp add: signals_ok_def on_ingest_event_projections)
  next
    case (2 m p)
    then show ?thesis using assms worker_signal_ok [of m p] amap.distinct_set [OF d]
      by (simp add: signals_ok_def on_ingest_event_projections update_conv')
  next
    case (3 k)
    then show ?thesis using assms amap.distinct_delete [OF d]
      by (simp add: signals_ok_def on_ingest_event_projections amap.get_delete [OF d])
  qed
qed

interpretation signals: reducer ingest_step signals_ok
proof
  fix s and a :: ingest_act
  assume "signals_ok s"
  moreover from this have "signals_ok (on_ingest_event e s)" for e by (rule on_ingest_event_signals)
  ultimately show "signals_ok (ingest_step s a)"
    by (cases a)
       (simp_all add: ingest_settle_def handleStart_begin_def handleCancel_begin_def handleStart_posted_def
          handleCancel_posted_def command_posted_def command_finished_def signals_ok_def split: sum.split)
qed

text \<open>An event is answered by a reload exactly when no part of the listener consumes it.\<close>

definition consumes :: "ingest_message \<Rightarrow> bool" where
  "consumes m \<longleftrightarrow> (let p = nullish (im_payload m) (im_raw m); st = nullish2 (if_status p) (if_status (im_raw m)) in
     st = Some (u ''progress'') \<or>
     (st = Some (u ''planning'') \<and> (\<exists>g\<in>set planning_stages. if_planning_stage p = Some g)) \<or>
     (st = Some (u ''transfer'') \<and> json_truthy (if_worker_id p) \<and> json_truthy (if_product_id p)) \<or>
     (st = Some (u ''transfer_complete'') \<and> json_truthy (if_worker_id p)))"

lemma handle_message_flight [simp]: "ing_loadInFlight (fst (handle_message e s)) = ing_loadInFlight s"
  by (simp add: message_defs split: option.split)

lemma handle_message_consumed: "snd (handle_message e s) = (case e of Some m \<Rightarrow> consumes m | None \<Rightarrow> False)"
  by (cases e) (auto simp: message_defs consumes_def split: option.split)

lemma reload_iff:
  assumes "\<not> ing_loadInFlight s"
  shows "ing_loadInFlight (on_ingest_event e s) \<longleftrightarrow> (\<forall>m. e = Some m \<longrightarrow> \<not> consumes m)"
  using assms
  by (cases e) (auto simp: on_ingest_event_def split_beta Let_def ingest_load_def handle_message_consumed)

section \<open>Worker count: lemmas\<close>

lemma idle_effect_active: "isIngesting s \<Longrightarrow> idle_effect s = s"
  by (simp add: idle_effect_def)

lemma idle_effect_ingesting: "isIngesting (idle_effect s) = isIngesting s"
  by (auto simp: idle_effect_def isIngesting_def reportedStatus_def Let_def)

lemma render_mark_keeps [simp]:
  "isIngesting (render_mark s) = isIngesting s" "rawSpawnedCount (render_mark s) = rawSpawnedCount s"
  by (simp_all add: render_mark_def isIngesting_def reportedStatus_def rawSpawnedCount_def Let_def)

lemma render_mark_high:
  assumes "isIngesting s" "rawSpawnedCount s \<noteq> NaN" "ing_workerHighWater s \<noteq> NaN"
  shows "rawSpawnedCount s \<le> ing_workerHighWater (render_mark s)" "ing_workerHighWater s \<le> ing_workerHighWater (render_mark s)"
  using assms by (auto simp: render_mark_def num_le_refl num_not_less num_less_imp_le)

lemma spawned_after_render:
  assumes "isIngesting s" "rawSpawnedCount s \<le> ing_workerHighWater s"
  shows "spawnedWorkerCount s \<le> ing_workerHighWater s \<and> ing_workerHighWater s \<le> spawnedWorkerCount s"
proof -
  have "rawSpawnedCount s \<noteq> NaN" "ing_workerHighWater s \<noteq> NaN" using assms(2) by auto
  then show ?thesis using assms Math_max_cases [of "rawSpawnedCount s" "ing_workerHighWater s"]
      Math_max_ge [of "rawSpawnedCount s" "ing_workerHighWater s"]
    by (auto simp: spawnedWorkerCount_def num_le_refl)
qed

definition frames :: "ingest_page \<Rightarrow> ingest_act list \<Rightarrow> nat \<Rightarrow> ingest_page" where
  "frames s acts k = foldl frame s (take k acts)"

lemma frames_Suc: "k < length acts \<Longrightarrow> frames s acts (Suc k) = frame (frames s acts k) (acts ! k)"
  by (simp add: frames_def take_Suc_conv_app_nth)

lemma frame_high:
  assumes "isIngesting (frame s a)" "rawSpawnedCount (frame s a) \<noteq> NaN" "ing_workerHighWater s \<noteq> NaN"
  shows "rawSpawnedCount (frame s a) \<le> ing_workerHighWater (frame s a)" "ing_workerHighWater s \<le> ing_workerHighWater (frame s a)"
proof -
  let ?t = "ingest_step s a"
  have i: "isIngesting ?t" using assms(1) by (simp add: frame_def idle_effect_ingesting)
  then have f: "frame s a = render_mark ?t" by (simp add: frame_def idle_effect_active)
  have "rawSpawnedCount ?t \<noteq> NaN" "ing_workerHighWater ?t \<noteq> NaN" using assms(2,3) by (simp_all add: f ingest_step_mark)
  then show "rawSpawnedCount (frame s a) \<le> ing_workerHighWater (frame s a)" "ing_workerHighWater s \<le> ing_workerHighWater (frame s a)"
    using render_mark_high [OF i] by (simp_all add: f ingest_step_mark)
qed

lemma frames_high:
  assumes "\<forall>k\<le>length acts. isIngesting (frames s acts k) \<and> rawSpawnedCount (frames s acts k) \<noteq> NaN"
    and "rawSpawnedCount s \<le> ing_workerHighWater s" "k \<le> length acts"
  shows "rawSpawnedCount (frames s acts k) \<le> ing_workerHighWater (frames s acts k) \<and>
    (\<forall>i\<le>k. ing_workerHighWater (frames s acts i) \<le> ing_workerHighWater (frames s acts k))"
  using assms(3)
proof (induction k)
  case 0
  have "ing_workerHighWater s \<noteq> NaN" using assms(2) by auto
  then show ?case using assms(2) num_le_refl [of "ing_workerHighWater s"] by (simp add: frames_def)
next
  case (Suc k)
  let ?s = "frames s acts k" and ?t = "frames s acts (Suc k)"
  have t: "?t = frame ?s (acts ! k)" using Suc.prems by (simp add: frames_Suc)
  have IH: "rawSpawnedCount ?s \<le> ing_workerHighWater ?s" "\<forall>i\<le>k. ing_workerHighWater (frames s acts i) \<le> ing_workerHighWater ?s"
    using Suc by auto
  have n: "ing_workerHighWater ?s \<noteq> NaN" using IH(1) by auto
  have h: "rawSpawnedCount ?t \<le> ing_workerHighWater ?t" "ing_workerHighWater ?s \<le> ing_workerHighWater ?t"
    using frame_high [of ?s "acts ! k"] assms(1) Suc.prems n unfolding t [symmetric] by auto
  have "ing_workerHighWater (frames s acts i) \<le> ing_workerHighWater ?t" if "i \<le> Suc k" for i
  proof (cases "i = Suc k")
    case True
    moreover have "ing_workerHighWater ?t \<noteq> NaN" using h(1) by auto
    ultimately show ?thesis using num_le_refl by simp
  next
    case False
    then show ?thesis using that IH(2) h(2) num_le_trans by (metis le_SucE)
  qed
  then show ?case using h(1) by blast
qed

section \<open>Properties\<close>

text \<open>
  C7. While a run is active the number of workers shown never drops:
  over any sequence of workflow events, status answers and commands during which the run stays
  active and the counts are numbers, a later render shows at least as many workers as an
  earlier one, also when workers finish and their signals are removed.
\<close>

theorem worker_count_monotone:
  assumes "\<forall>k\<le>length acts. isIngesting (frames s acts k) \<and> rawSpawnedCount (frames s acts k) \<noteq> NaN"
    and "rawSpawnedCount s \<le> ing_workerHighWater s" "i \<le> j" "j \<le> length acts"
  shows "spawnedWorkerCount (frames s acts i) \<le> spawnedWorkerCount (frames s acts j)"
proof -
  have "rawSpawnedCount (frames s acts k) \<le> ing_workerHighWater (frames s acts k)" "isIngesting (frames s acts k)" if "k \<le> length acts" for k
    using frames_high [OF assms(1,2) that] assms(1) that by auto
  then have "spawnedWorkerCount (frames s acts i) \<le> ing_workerHighWater (frames s acts i)"
    "ing_workerHighWater (frames s acts j) \<le> spawnedWorkerCount (frames s acts j)"
    using assms(3,4) spawned_after_render by (meson le_trans)+
  moreover have "ing_workerHighWater (frames s acts i) \<le> ing_workerHighWater (frames s acts j)"
    using frames_high [OF assms(1,2,4)] assms(3) by blast
  ultimately show ?thesis using num_le_trans by blast
qed

definition sample_job :: IngestControlJob where
  "sample_job = \<lparr>icj_ticket_id = u ''T'', icj_status = u ''running'', icj_sector = None, icj_concurrency = None,
     icj_manifest_path = None, icj_started_at = [], icj_updated_at = [], icj_error = None\<rparr>"

definition sample_ingest :: ingest_page where
  "sample_ingest = (ingest_init None None)\<lparr>ing_controlJob := Some sample_job,
     ing_workerSignals := [(u ''1'', \<lparr>ws_workerId = Fin 1, ws_productId = [], ws_productKind = None, ws_bytesRead = Fin 0,
       ws_expectedBytes = Fin 0, ws_occurredAt = None\<rparr>)], ing_workerHighWater := Fin 1\<rparr>"

theorem worker_count_monotone_witness:
  "spawnedWorkerCount (frames sample_ingest [Start (u ''T'')] 0) \<le> spawnedWorkerCount (frames sample_ingest [Start (u ''T'')] 1)"
proof -
  have low: "toLowerCase (u ''running'') = u ''running''" by (simp add: toLowerCase_def u_def)
  have "\<lfloor>1 / 2 :: rat\<rfloor> = 0" by (simp add: floor_eq_iff)
  then have r: "Math_round (Fin 0) = Fin 0" by (simp add: Math_round_def)
  let ?t = "sample_ingest\<lparr>ing_controlBusy := True, ing_error := None, ing_workerSignals := []\<rparr>"
  have i: "isIngesting sample_ingest" "isIngesting ?t"
    by (simp_all add: isIngesting_def reportedStatus_def sample_ingest_def ingest_init_def sample_job_def low Let_def)
  have c: "rawSpawnedCount sample_ingest = Fin 1" "rawSpawnedCount ?t = Fin 0"
    by (simp_all add: rawSpawnedCount_def sample_ingest_def ingest_init_def r jsnum_of_nat_exact Math_max_def zero_of_def)
  have "frames sample_ingest [Start (u ''T'')] 1 = render_mark ?t"
    using i(2) by (simp add: frames_def frame_def handleStart_begin_def idle_effect_active)
  then have "\<forall>k\<le>length [Start (u ''T'')]. isIngesting (frames sample_ingest [Start (u ''T'')] k) \<and>
      rawSpawnedCount (frames sample_ingest [Start (u ''T'')] k) \<noteq> NaN"
    using i c by (auto simp: le_Suc_eq) (simp_all add: frames_def)
  moreover have "rawSpawnedCount sample_ingest \<le> ing_workerHighWater sample_ingest" unfolding c(1) by (simp add: sample_ingest_def)
  ultimately show ?thesis using worker_count_monotone [of "[Start (u ''T'')]" sample_ingest 0 1] by simp
qed

text \<open>
  Whatever the ingester sends, the table of transferring workers
  has one entry per worker, stored under the text of that worker's number, and no byte count
  in it is negative (a text that is no number shows as NaN).
\<close>

theorem worker_signals_invariant:
  fixes a b acts
  defines "s \<equiv> foldl ingest_step (ingest_init a b) acts"
  shows "distinct (map fst (ing_workerSignals s)) \<and>
    (\<forall>k w. map_of (ing_workerSignals s) k = Some w \<longrightarrow> k = num_str (ws_workerId w) \<and>
       (ws_bytesRead w = NaN \<or> Fin 0 \<le> ws_bytesRead w) \<and> (ws_expectedBytes w = NaN \<or> Fin 0 \<le> ws_expectedBytes w))"
proof -
  have "signals_ok s" unfolding s_def by (rule signals.run_inv) (simp add: signals_ok_def ingest_init_def)
  then show ?thesis by (auto simp: signals_ok_def signal_ok_def)
qed

theorem worker_signals_invariant_witness:
  "distinct (map fst (ing_workerSignals (foldl ingest_step (ingest_init None None) [Ready, Workflow None])))"
  using worker_signals_invariant [of None None "[Ready, Workflow None]"] by (rule conjunct1)

end
