(* ===== verification/TicketSpec.thy ===== *)
theory TicketSpec
  imports RunnerTicket
begin

text \<open>
  What the ticket session (\<open>lib/runner-ticket.ts\<close>) promises, without requests, markers, listeners
  and hooks: a catalog that may not have arrived yet and the active ticket of the browser. Every
  step of the detailed session, whatever is in flight and mounted, is one step of this
  specification or changes nothing it sees.
\<close>

section \<open>Specification\<close>

record ticket_session =
  ss_catalog :: "RunnerTicket list option"
  ss_active :: str

text \<open>An active ticket that the catalog does not have is replaced by the first one.\<close>

definition adopt :: "RunnerTicket list \<Rightarrow> str \<Rightarrow> str" where
  "adopt items a = (if items \<noteq> [] \<and> (a = [] \<or> \<not> has_ticket items a) \<and> trim (ticket_id (hd items)) \<noteq> []
     then trim (ticket_id (hd items)) else a)"

definition publish :: "RunnerTicket list \<Rightarrow> ticket_session \<Rightarrow> ticket_session" where
  "publish items s = \<lparr>ss_catalog = Some items, ss_active = (if items = [] then [] else adopt items (ss_active s))\<rparr>"

definition select_ticket :: "str \<Rightarrow> ticket_session \<Rightarrow> ticket_session" where
  "select_ticket t s = (if trim t = [] then s else s\<lparr>ss_active := trim t\<rparr>)"

definition align_session :: "ticket_session \<Rightarrow> ticket_session" where
  "align_session s = s\<lparr>ss_active := adopt (nullish (ss_catalog s) []) (ss_active s)\<rparr>"

definition prepend :: "str \<Rightarrow> RunnerTicket \<Rightarrow> ticket_session \<Rightarrow> ticket_session" where
  "prepend fresh created s =
     s\<lparr>ss_catalog := Some (created # filter (\<lambda>t. ticket_id t \<noteq> fresh) (nullish (ss_catalog s) []))\<rparr>"

inductive session_step :: "ticket_session \<Rightarrow> ticket_session \<Rightarrow> bool" where
  unchanged: "session_step s s"
| published: "session_step s (publish items s)"
| selected: "session_step s (select_ticket t s)"
| aligned: "session_step s (align_session s)"
| prepended: "session_step s (prepend fresh created s)"
| prepended_aligned: "session_step s (align_session (prepend fresh created s))"

section \<open>Abstraction\<close>

definition session_of :: "ticket_world \<Rightarrow> ticket_session" where
  "session_of w = \<lparr>ss_catalog = cachedTickets w, ss_active = getStoredActiveTicket w\<rparr>"

lemma session_of_cong:
  "cachedTickets w' = cachedTickets w \<Longrightarrow> getStoredActiveTicket w' = getStoredActiveTicket w \<Longrightarrow> session_of w' = session_of w"
  by (simp add: session_of_def)

lemma getStored_updates [simp]:
  "getStoredActiveTicket (w\<lparr>cachedTickets := x\<rparr>) = getStoredActiveTicket w"
  "getStoredActiveTicket (w\<lparr>pending := p\<rparr>) = getStoredActiveTicket w"
  "getStoredActiveTicket (w\<lparr>ticketsInFlight := f\<rparr>) = getStoredActiveTicket w"
  "getStoredActiveTicket (w\<lparr>next_request := n\<rparr>) = getStoredActiveTicket w"
  by (rule getStored_cong; simp)+

lemma getStored_set:
  "storage_works w \<Longrightarrow> getStoredActiveTicket (setStoredActiveTicket t w) = (if trim t = [] then getStoredActiveTicket w else trim t)"
  using ticket_store.get_set [of w t] ticket_store.set_blank [of t w] by simp

lemma session_set_active:
  "storage_works w \<Longrightarrow> session_of (set_hook i f (setStoredActiveTicket t w)) = select_ticket t (session_of w)"
  by (simp add: session_of_def select_ticket_def getStored_set)

lemma adopt_idem: "adopt items (adopt items a) = adopt items a"
  by (auto simp: adopt_def)

lemma align_idem: "align_session (align_session s) = align_session s"
  by (simp add: align_session_def adopt_idem)

lemma session_sync:
  assumes "storage_works w"
  shows "session_of (handleSync i w) = align_session (session_of w)"
proof -
  have "getStoredActiveTicket (handleSync i w) = adopt (nullish (cachedTickets w) []) (getStoredActiveTicket w)"
    using assms by (auto simp: handleSync_def Let_def adopt_def getStored_set trim_def)
  then show ?thesis by (simp add: session_of_def align_session_def)
qed

lemma session_notify:
  assumes "storage_works w"
  shows "session_of (notifyListeners w) = (if hooks w = [] then session_of w else align_session (session_of w))"
proof -
  have "session_of (fold handleSync is x) = (if is = [] then session_of x else align_session (session_of x))"
    if "storage_works x" for "is" x
    using that by (induction "is" arbitrary: x) (auto simp: session_sync align_idem)
  then show ?thesis using assms by (simp add: notifyListeners_def)
qed

lemma session_reconcile:
  assumes "storage_works w"
  shows "session_of (reconcile_active items (w\<lparr>cachedTickets := Some items\<rparr>)) = publish items (session_of w)"
proof (cases "items = []")
  case True
  then show ?thesis using assms
    by (simp add: reconcile_active_def session_of_def publish_def getStoredActiveTicket_def)
next
  case False
  then have "getStoredActiveTicket (reconcile_active items (w\<lparr>cachedTickets := Some items\<rparr>)) = adopt items (getStoredActiveTicket w)"
    using assms by (auto simp: reconcile_active_def Let_def adopt_def getStored_set trim_def)
  then show ?thesis using False by (simp add: session_of_def publish_def)
qed

lemma align_publish: "align_session (publish items s) = publish items s"
  by (simp add: align_session_def publish_def adopt_idem) (simp add: adopt_def)

lemma session_settle:
  assumes "storage_works w"
  shows "session_of (settle_catalog r (Some items) w) = publish items (session_of w)"
proof -
  let ?w0 = "w\<lparr>pending := removeAll (Catalog r) (pending w)\<rparr>"
  let ?w1 = "reconcile_active items (?w0\<lparr>cachedTickets := Some items\<rparr>)"
  have "storage_works ?w0" "session_of ?w0 = session_of w" using assms by (simp_all add: session_of_def)
  then have r: "session_of ?w1 = publish items (session_of w)" using session_reconcile [of ?w0 items] by simp
  have "storage_works ?w1" using assms by simp
  from session_notify [OF this] have "session_of (notifyListeners ?w1) = publish items (session_of w)"
    unfolding r by (simp add: align_publish)
  then show ?thesis by (simp add: settle_catalog_def Let_def session_of_def)
qed

lemma session_create:
  assumes "storage_works w"
  shows "session_of (settle_create r fresh (Some created) w) =
    (if hooks w = [] then prepend fresh created (session_of w) else align_session (prepend fresh created (session_of w)))"
proof -
  let ?w1 = "w\<lparr>pending := removeAll (Create r fresh) (pending w),
    cachedTickets := Some (created # filter (\<lambda>t. ticket_id t \<noteq> fresh) (nullish (cachedTickets w) []))\<rparr>"
  have "session_of ?w1 = prepend fresh created (session_of w)" by (simp add: session_of_def prepend_def)
  moreover have "storage_works ?w1" using assms by simp
  ultimately show ?thesis using session_notify [of ?w1] by (simp add: settle_create_def Let_def)
qed

lemma session_fetch: "session_of (snd (fetchTicketCatalog force w)) = session_of w"
  by (auto simp: fetchTicketCatalog_def start_request_def session_of_def)

section \<open>Refinement\<close>

lemma step_refines:
  assumes "ticket_step w w'" "storage_works w"
  shows "session_step (session_of w) (session_of w')"
  using assms
proof cases
  case mount
  have "session_of (mount_hook w) = session_of w \<or> session_of (mount_hook w) = align_session (session_of w)"
    using assms(2) by (auto simp: mount_hook_def Let_def session_fetch session_sync) (auto simp: session_of_def)
  then show ?thesis unfolding mount by (auto intro: session_step.intros)
next
  case (catalog_settles r res)
  show ?thesis
  proof (cases res)
    case None
    then have "session_of w' = session_of w" by (simp add: catalog_settles settle_catalog_def session_of_def)
    then show ?thesis by (simp add: unchanged)
  qed (use catalog_settles session_settle [OF assms(2)] published in auto)
next
  case (create_settles r fresh created)
  show ?thesis
  proof (cases created)
    case None
    then have "session_of w' = session_of w" by (simp add: create_settles settle_create_def session_of_def)
    then show ?thesis by (simp add: unchanged)
  qed (use create_settles session_create [OF assms(2)] prepended prepended_aligned in auto)
next
  case (create i fresh)
  have "session_of w' = select_ticket fresh (session_of w)"
    using session_set_active [OF assms(2), of i _ fresh] by (simp add: create createNewTicket_def Let_def session_of_def)
  then show ?thesis by (simp add: selected)
next
  case (sync i)
  then show ?thesis using session_sync [OF assms(2)] aligned by simp
next
  case (choose i t)
  then show ?thesis using session_set_active [OF assms(2)] selected by (simp add: setActiveTicket_def)
next
  case (fetch force)
  then show ?thesis by (simp add: session_fetch unchanged)
next
  case (refresh i)
  have "session_of w' = session_of w" unfolding refresh loadTickets_def session_fetch by (simp add: session_of_def)
  then show ?thesis by (simp add: unchanged)
qed (simp_all add: unmount_hook_def load_done_def session_of_def unchanged)

lemma step_storage: "ticket_step w w' \<Longrightarrow> storage_works w' = storage_works w"
proof (induction rule: ticket_step.induct)
  have n: "storage_works (notifyListeners x) = storage_works x" for x
  proof -
    have "storage_works (fold handleSync is y) = storage_works y" for "is" y by (induction "is" arbitrary: y) simp_all
    then show ?thesis by (simp add: notifyListeners_def)
  qed
  have f: "storage_works (snd (fetchTicketCatalog b x)) = storage_works x" for b x
    by (simp add: fetchTicketCatalog_def start_request_def)
  show "storage_works (mount_hook w) = storage_works w" for w by (simp add: mount_hook_def Let_def f)
  show "storage_works (snd (fetchTicketCatalog force w)) = storage_works w" for force w by (rule f)
  show "storage_works (loadTickets i w) = storage_works w" for i w by (simp add: loadTickets_def f)
  show "storage_works (settle_catalog r res w) = storage_works w" for r res w
    by (simp add: settle_catalog_def Let_def n split: option.split)
  show "storage_works (settle_create r fresh created w) = storage_works w" for r fresh created w
    by (simp add: settle_create_def Let_def n split: option.split)
qed (simp_all add: unmount_hook_def load_done_def setActiveTicket_def createNewTicket_def Let_def ticket_store.set_usable)

lemma reachable_refines:
  "ticket_reachable True st w \<Longrightarrow> storage_works w \<and> session_step\<^sup>*\<^sup>* (session_of (init_world True st)) (session_of w)"
proof (induction rule: ticket_reachable.induct)
  case start
  then show ?case by (simp add: init_world_def)
next
  case (step w w')
  then have "session_step (session_of w) (session_of w')" using step_refines by blast
  then show ?case using step step_storage by (auto intro: rtranclp.rtrancl_into_rtrancl)
qed

section \<open>Properties\<close>

text \<open>
  C3. With a working local storage the ticket session implements its
  specification: every reachable state, for any interleaving of calls, answers and mounted
  components, abstracts to a state the specification reaches, and a successful answer, whichever
  request it belongs to and whatever else is pending, has exactly the effect of publishing its
  list.
\<close>

theorem session_refinement:
  assumes "ticket_reachable True st w"
  shows "session_step\<^sup>*\<^sup>* (session_of (init_world True st)) (session_of w) \<and>
    (\<forall>r items. session_of (settle_catalog r (Some items) w) = publish items (session_of w))"
  using reachable_refines [OF assms] session_settle by blast

theorem session_refinement_witness:
  "session_of (settle_catalog 0 (Some [sample_ticket]) (mount_hook (init_world True (Some (u ''OLD''))))) =
     \<lparr>ss_catalog = Some [sample_ticket], ss_active = u ''RUN-1''\<rparr>"
proof -
  let ?w = "mount_hook (init_world True (Some (u ''OLD'')))"
  have "ticket_reachable True (Some (u ''OLD'')) ?w" by (rule ticket_reachable.step [OF ticket_reachable.start ticket_step.mount])
  then have "session_of (settle_catalog 0 (Some [sample_ticket]) ?w) = publish [sample_ticket] (session_of ?w)"
    using session_refinement by blast
  moreover have "\<not> has_ticket [sample_ticket] (getStoredActiveTicket ?w)"
    by (simp add: mount_hook_def init_world_def fetchTicketCatalog_def start_request_def getStoredActiveTicket_def has_ticket_def
        sample_ticket_def trim_def u_def is_space_def)
  moreover have "trim (ticket_id sample_ticket) = u ''RUN-1''" "u ''RUN-1'' \<noteq> []"
    by (simp_all add: sample_ticket_def trim_def u_def is_space_def)
  ultimately show ?thesis by (simp add: publish_def adopt_def session_of_def)
qed

end
