(* ===== verification/Lineage.thy ===== *)
theory Lineage
  imports JsText NumError
begin

text \<open>
  The lineage explorer (\<open>pages/lineage-explorer/types.ts\<close>, \<open>utils.ts\<close>, \<open>page.tsx\<close> and the computed
  values of its toolbar and summary): the ledger contract, the formatting helpers, the stage of
  a record, and the page with its filters, requests and answers. A request is issued whenever a
  dependency of \<open>loadLineage\<close> changes; answers arrive in any order and each is applied when it
  arrives. Shown: the counting loop agrees with the definition of the stages, the gauges stay
  between 0 and 100 percent, the selection always is a row of the page after an answer, and an
  answer to an older query can replace a newer one.
\<close>

section \<open>Data\<close>

datatype ProductKind = PK_lightcurve | PK_target_pixel

datatype StageFilter = SF_all | SF_bronze | SF_silver | SF_gold

datatype stage = St_bronze | St_silver | St_gold

record lineage_StorageObject =
  so_key :: str
  so_size_bytes :: jsnum
  so_etag :: "str option"
  so_last_modified :: str

datatype gold_status = GS_extracted | GS_pending

record GoldLineageResolution =
  gl_source_product_id :: str
  gl_silver_object_key :: "str option"
  gl_status :: gold_status
  gl_snapshot_id :: "str option"
  gl_datasets :: "str list option"

record BackendLineageRecord =
  bl_identity :: str
  bl_tic_id :: str
  bl_sector :: "jsnum option"
  bl_product_kind :: ProductKind
  bl_source_product_id :: str
  bl_bronze :: lineage_StorageObject
  bl_silver :: "lineage_StorageObject option"
  bl_processor_version :: "str option"
  bl_lineage_id :: "str option"
  bl_lineage :: "lineage_StorageObject option"
  bl_gold :: "GoldLineageResolution option"

record LineageInventory =
  li_bronze :: jsnum
  li_silver :: jsnum
  li_lineage :: jsnum
  li_gold :: jsnum

record LineageLedgerResponse =
  lr_items :: "BackendLineageRecord list"
  lr_inventory :: LineageInventory
  lr_total :: jsnum
  lr_page :: jsnum
  lr_page_size :: jsnum

record LineageRecord =
  ln_identity :: str
  ln_ticID :: str
  ln_sector :: "jsnum option"
  ln_productKind :: ProductKind
  ln_sourceProductID :: str
  ln_bronze :: lineage_StorageObject
  ln_silver :: "lineage_StorageObject option"
  ln_processorVersion :: "str option"
  ln_lineageID :: "str option"
  ln_lineage :: "lineage_StorageObject option"
  ln_gold :: "GoldLineageResolution option"

definition PRODUCT_CONFIG :: "ProductKind \<Rightarrow> str \<times> str" where
  "PRODUCT_CONFIG k = (case k of PK_lightcurve \<Rightarrow> ((u ''Light curves''), (u ''LC'')) | PK_target_pixel \<Rightarrow> ((u ''Target pixels''), (u ''TPF'')))"

definition STAGE_LABELS :: "stage \<Rightarrow> str" where
  "STAGE_LABELS s = (case s of St_bronze \<Rightarrow> (u ''BRONZE ONLY'') | St_silver \<Rightarrow> (u ''SILVER ARTIFACT'') | St_gold \<Rightarrow> (u ''GOLD VERIFIED''))"

definition STAGE_CLASSES :: "stage \<Rightarrow> str" where
  "STAGE_CLASSES s = (case s of
      St_bronze \<Rightarrow> (u ''border-amber-500/35 bg-amber-500/10 text-amber-700 dark:text-amber-300'')
    | St_silver \<Rightarrow> (u ''border-sky-500/35 bg-sky-500/10 text-sky-700 dark:text-sky-300'')
    | St_gold \<Rightarrow> (u ''border-violet-500/35 bg-violet-500/10 text-violet-700 dark:text-violet-300''))"

section \<open>Helpers\<close>

definition cleanETag :: "str option \<Rightarrow> str" where
  "cleanETag value = (case value of None \<Rightarrow> emdash | Some v \<Rightarrow> if v = [] then emdash else remove_all 34 v)"

definition lineage_formatBytes :: "jsnum option \<Rightarrow> str" where
  "lineage_formatBytes bytes = (case bytes of None \<Rightarrow> emdash
    | Some b \<Rightarrow>
       if \<not> isFinite b then emdash
       else if b < lit 1024 then (num_str b @ u '' B'')
       else if b < lit (1024 ^ 2) then (toFixed (b / lit 1024) 1 @ u '' KiB'')
       else if b < lit (1024 ^ 3) then (toFixed (b / lit (1024 ^ 2)) 2 @ u '' MiB'')
       else (toFixed (b / lit (1024 ^ 3)) 2 @ u '' GiB''))"

definition lineage_formatDate :: "host \<Rightarrow> str option \<Rightarrow> str" where
  "lineage_formatDate h value = (case value of None \<Rightarrow> emdash
    | Some v \<Rightarrow> if v = [] then emdash else let date = date_parse h v in if isNaN date then v else locale_string h date)"

definition short :: "str option \<Rightarrow> nat \<Rightarrow> str" where
  "short value len = (case value of None \<Rightarrow> emdash
    | Some v \<Rightarrow> if v = [] then emdash else if length v \<le> len then v else take len v @ ellipsis)"

definition is_extracted :: "GoldLineageResolution option \<Rightarrow> bool" where
  "is_extracted g = (case g of None \<Rightarrow> False | Some x \<Rightarrow> gl_status x = GS_extracted)"

definition recordStage :: "LineageRecord \<Rightarrow> stage" where
  "recordStage record =
     (if is_extracted (ln_gold record) then St_gold else if ln_silver record \<noteq> None then St_silver else St_bronze)"

section \<open>The page\<close>

text \<open>\<open>lp_requests\<close> are the queries in flight, by number.\<close>

record lineage_page =
  lp_productKind :: ProductKind
  lp_stageFilter :: StageFilter
  lp_search :: str
  lp_page :: jsnum
  lp_pageSize :: jsnum
  lp_total :: jsnum
  lp_records :: "LineageRecord list"
  lp_selectedIdentity :: "str option"
  lp_inventory :: LineageInventory
  lp_loading :: bool
  lp_error :: "str option"
  lp_goldError :: "str option"
  lp_copied :: "str option"
  lp_requests :: "(nat \<times> params) list"
  lp_next :: nat

definition empty_inventory :: LineageInventory where
  "empty_inventory = \<lparr>li_bronze = lit 0, li_silver = lit 0, li_lineage = lit 0, li_gold = lit 0\<rparr>"

definition kind_text :: "ProductKind \<Rightarrow> str" where
  "kind_text k = (case k of PK_lightcurve \<Rightarrow> u ''lightcurve'' | PK_target_pixel \<Rightarrow> u ''target-pixel'')"

definition stage_text :: "StageFilter \<Rightarrow> str" where
  "stage_text s = (case s of SF_all \<Rightarrow> u ''all'' | SF_bronze \<Rightarrow> u ''bronze'' | SF_silver \<Rightarrow> u ''silver'' | SF_gold \<Rightarrow> u ''gold'')"

definition lineage_params :: "lineage_page \<Rightarrow> params" where
  "lineage_params s =
     (let params = [(u ''product_kind'', kind_text (lp_productKind s)), (u ''page'', num_str (lp_page s)),
            (u ''page_size'', num_str (lp_pageSize s)), (u ''stage_filter'', stage_text (lp_stageFilter s))]
      in if trim (lp_search s) \<noteq> [] then params_set (u ''search'') (trim (lp_search s)) params else params)"

definition loadLineage :: "lineage_page \<Rightarrow> lineage_page" where
  "loadLineage s = s\<lparr>lp_loading := True, lp_error := None, lp_goldError := None,
     lp_requests := lp_requests s @ [(lp_next s, lineage_params s)], lp_next := Suc (lp_next s)\<rparr>"

definition map_record :: "BackendLineageRecord \<Rightarrow> LineageRecord" where
  "map_record item = \<lparr>ln_identity = bl_identity item, ln_ticID = bl_tic_id item, ln_sector = bl_sector item,
     ln_productKind = bl_product_kind item, ln_sourceProductID = bl_source_product_id item, ln_bronze = bl_bronze item,
     ln_silver = bl_silver item, ln_processorVersion = bl_processor_version item, ln_lineageID = bl_lineage_id item,
     ln_lineage = bl_lineage item, ln_gold = bl_gold item\<rparr>"

definition keep_selection :: "LineageRecord list \<Rightarrow> str option \<Rightarrow> str option" where
  "keep_selection mapped current =
     (if list_ex (\<lambda>record. Some (ln_identity record) = current) mapped then current
      else map_option ln_identity (arr_at mapped 0))"

text \<open>An answer: \<open>Inl\<close> the message of the error, \<open>Inr\<close> the response.\<close>

definition settle_lineage :: "nat \<Rightarrow> str + LineageLedgerResponse \<Rightarrow> lineage_page \<Rightarrow> lineage_page" where
  "settle_lineage r answer s0 =
     (let s = s0\<lparr>lp_requests := filter (\<lambda>q. fst q \<noteq> r) (lp_requests s0)\<rparr>;
          s1 = (case answer of
             Inr response \<Rightarrow>
               let mapped = map map_record (lr_items response) in
               s\<lparr>lp_records := mapped, lp_total := lr_total response, lp_inventory := lr_inventory response,
                 lp_selectedIdentity := keep_selection mapped (lp_selectedIdentity s)\<rparr>
           | Inl message \<Rightarrow>
               s\<lparr>lp_records := [], lp_total := lit 0, lp_inventory := empty_inventory, lp_selectedIdentity := None,
                 lp_error := Some message\<rparr>)
      in s1\<lparr>lp_loading := False\<rparr>)"

text \<open>The effect: a new query when a dependency has changed.\<close>

definition query_deps :: "lineage_page \<Rightarrow> jsnum \<times> jsnum \<times> ProductKind \<times> StageFilter \<times> str" where
  "query_deps s = (lp_page s, lp_pageSize s, lp_productKind s, lp_stageFilter s, lp_search s)"

definition after_render :: "lineage_page \<Rightarrow> lineage_page \<Rightarrow> lineage_page" where
  "after_render old new = (if query_deps old = query_deps new then new else loadLineage new)"

definition initial_lineage :: lineage_page where
  "initial_lineage = loadLineage \<lparr>lp_productKind = PK_lightcurve, lp_stageFilter = SF_all, lp_search = [], lp_page = lit 1,
     lp_pageSize = lit 25, lp_total = lit 0, lp_records = [], lp_selectedIdentity = None, lp_inventory = empty_inventory,
     lp_loading = True, lp_error = None, lp_goldError = None, lp_copied = None, lp_requests = [], lp_next = 0\<rparr>"

definition handleProductKindChange :: "ProductKind \<Rightarrow> lineage_page \<Rightarrow> lineage_page" where
  "handleProductKindChange kind s =
     after_render s (s\<lparr>lp_productKind := kind, lp_page := lit 1, lp_stageFilter := SF_all\<rparr>)"

definition handleStageFilterChange :: "StageFilter \<Rightarrow> lineage_page \<Rightarrow> lineage_page" where
  "handleStageFilterChange stg s = after_render s (s\<lparr>lp_stageFilter := stg, lp_page := lit 1\<rparr>)"

definition handlePageSizeChange :: "jsnum \<Rightarrow> lineage_page \<Rightarrow> lineage_page" where
  "handlePageSizeChange newPageSize s = after_render s (s\<lparr>lp_pageSize := newPageSize, lp_page := lit 1\<rparr>)"

definition onSearchChange :: "str \<Rightarrow> lineage_page \<Rightarrow> lineage_page" where
  "onSearchChange text s = after_render s (s\<lparr>lp_search := text\<rparr>)"

definition onPageChange :: "jsnum \<Rightarrow> lineage_page \<Rightarrow> lineage_page" where
  "onPageChange p s = after_render s (s\<lparr>lp_page := p\<rparr>)"

definition onSelectRecord :: "str \<Rightarrow> lineage_page \<Rightarrow> lineage_page" where
  "onSelectRecord i s = s\<lparr>lp_selectedIdentity := Some i\<rparr>"

text \<open>\<open>copyValue\<close> after the clipboard has resolved, and its timer.\<close>

definition copyValue_done :: "str \<Rightarrow> lineage_page \<Rightarrow> lineage_page" where
  "copyValue_done i s = s\<lparr>lp_copied := Some i\<rparr>"

definition copied_expires :: "str \<Rightarrow> lineage_page \<Rightarrow> lineage_page" where
  "copied_expires i s = (if lp_copied s = Some i then s\<lparr>lp_copied := None\<rparr> else s)"

section \<open>Derived values\<close>

record stage_counts =
  sg_bronze :: nat
  sg_silver :: nat
  sg_gold :: nat

definition count_one :: "LineageRecord \<Rightarrow> stage_counts \<Rightarrow> stage_counts" where
  "count_one record c = (case recordStage record of
      St_bronze \<Rightarrow> c\<lparr>sg_bronze := sg_bronze c + 1\<rparr> | St_silver \<Rightarrow> c\<lparr>sg_silver := sg_silver c + 1\<rparr>
    | St_gold \<Rightarrow> c\<lparr>sg_gold := sg_gold c + 1\<rparr>)"

definition counts_of :: "LineageRecord list \<Rightarrow> stage_counts" where
  "counts_of records = fold count_one records \<lparr>sg_bronze = 0, sg_silver = 0, sg_gold = 0\<rparr>"

definition selected_record :: "lineage_page \<Rightarrow> LineageRecord option" where
  "selected_record s = nullish2 (List.find (\<lambda>record. Some (ln_identity record) = lp_selectedIdentity s) (lp_records s))
     (arr_at (lp_records s) 0)"

definition lineage_totalPages :: "lineage_page \<Rightarrow> jsnum" where
  "lineage_totalPages s = Math_max (lit 1) (Math_ceil (lp_total s / lp_pageSize s))"

definition observedLineage :: "LineageRecord list \<Rightarrow> nat" where
  "observedLineage records = length (filter (\<lambda>record. ln_lineage record \<noteq> None) records)"

definition observedGold :: "LineageRecord list \<Rightarrow> nat" where
  "observedGold records = length (filter (\<lambda>record. is_extracted (ln_gold record)) records)"

definition stage_percentage :: "nat \<Rightarrow> nat \<Rightarrow> jsnum" where
  "stage_percentage cnt pageRecordCount =
     (if pageRecordCount \<noteq> 0 then (jsnum_of_nat cnt / jsnum_of_nat pageRecordCount) * lit 100 else lit 0)"

definition goldPercentage :: "nat \<Rightarrow> nat \<Rightarrow> jsnum" where
  "goldPercentage gold pageRecordCount =
     (if 0 < pageRecordCount then Math_round ((jsnum_of_nat gold / jsnum_of_nat pageRecordCount) * lit 100) else lit 0)"

text \<open>The buttons of the pager, disabled at the ends and while loading, and the stage gauges.\<close>

definition previous_page :: "lineage_page \<Rightarrow> lineage_page" where
  "previous_page s = (if lp_page s \<le> lit 1 \<or> lp_loading s then s else onPageChange (Math_max (lit 1) (lp_page s - lit 1)) s)"

definition next_page :: "lineage_page \<Rightarrow> lineage_page" where
  "next_page s = (if lineage_totalPages s \<le> lp_page s \<or> lp_loading s then s else onPageChange (Math_min (lineage_totalPages s) (lp_page s + lit 1)) s)"

definition toggle_stage :: "StageFilter \<Rightarrow> lineage_page \<Rightarrow> lineage_page" where
  "toggle_stage stg s = handleStageFilterChange (if lp_stageFilter s = stg then SF_all else stg) s"

section \<open>Stages\<close>

lemma counts_fold:
  "fold count_one records c = \<lparr>sg_bronze = sg_bronze c + length (filter (\<lambda>r. recordStage r = St_bronze) records),
     sg_silver = sg_silver c + length (filter (\<lambda>r. recordStage r = St_silver) records),
     sg_gold = sg_gold c + length (filter (\<lambda>r. recordStage r = St_gold) records)\<rparr>"
  by (induction records arbitrary: c) (auto simp: count_one_def split: stage.split)

lemma stage_sum:
  "length (filter (\<lambda>r. recordStage r = St_bronze) rs) + length (filter (\<lambda>r. recordStage r = St_silver) rs) +
   length (filter (\<lambda>r. recordStage r = St_gold) rs) = length rs"
proof (induction rs)
  case (Cons r rs)
  then show ?case by (cases "recordStage r") simp_all
qed simp

lemma percentage_bounds:
  assumes "cnt \<le> total_rows" "total_rows \<le> 2 ^ 53"
  shows "lit 0 \<le> stage_percentage cnt total_rows \<and> stage_percentage cnt total_rows \<le> lit 100"
proof (cases "total_rows = 0")
  case False
  then show ?thesis using percent_bounds [of "jsnum_of_nat cnt" "jsnum_of_nat total_rows"] assms
    by (simp add: stage_percentage_def jsnum_of_nat_exact)
qed (simp add: stage_percentage_def)

text \<open>
  The counting loop of the page agrees with the definition of the stages:
  a record counts as gold when its Gold resolution is extracted, as silver when it is not and a
  Silver artifact exists, as bronze otherwise; the three counts add up to the rows of the page,
  and the gold count is the number the summary strip shows.
\<close>

theorem stage_counts_exact:
  "sg_gold (counts_of records) = observedGold records \<and>
   sg_silver (counts_of records) = length (filter (\<lambda>r. \<not> is_extracted (ln_gold r) \<and> ln_silver r \<noteq> None) records) \<and>
   sg_bronze (counts_of records) = length (filter (\<lambda>r. \<not> is_extracted (ln_gold r) \<and> ln_silver r = None) records) \<and>
   sg_bronze (counts_of records) + sg_silver (counts_of records) + sg_gold (counts_of records) = length records"
proof -
  have "(recordStage r = St_gold) = is_extracted (ln_gold r)" "(recordStage r = St_silver) = (\<not> is_extracted (ln_gold r) \<and> ln_silver r \<noteq> None)"
    "(recordStage r = St_bronze) = (\<not> is_extracted (ln_gold r) \<and> ln_silver r = None)" for r
    by (auto simp: recordStage_def)
  then show ?thesis using stage_sum [of records] by (simp add: counts_of_def counts_fold observedGold_def)
qed

section \<open>Selection and requests\<close>

lemma selected_record_in: "selected_record s = Some r \<Longrightarrow> r \<in> set (lp_records s)"
  by (auto simp: selected_record_def nullish2_def arr_at_def find_Some_iff split: option.splits if_splits)

lemma selected_record_None: "selected_record s = None \<longleftrightarrow> lp_records s = []"
  by (auto simp: selected_record_def nullish2_def arr_at_def find_None_iff split: option.splits)

lemma keep_selection_valid:
  "keep_selection mapped current = Some i \<Longrightarrow> \<exists>r\<in>set mapped. ln_identity r = i"
  "keep_selection mapped current = None \<longleftrightarrow> mapped = []"
  by (auto simp: keep_selection_def arr_at_def list_ex_iff split: if_splits)

text \<open>After an answer the selection is a row of the page, and none exactly when there is no row.\<close>

lemma settle_selects:
  "lp_selectedIdentity (settle_lineage r ans s) = Some i \<Longrightarrow> \<exists>x\<in>set (lp_records (settle_lineage r ans s)). ln_identity x = i"
  "lp_selectedIdentity (settle_lineage r ans s) = None \<longleftrightarrow> lp_records (settle_lineage r ans s) = []"
proof -
  have "keep_selection (map map_record xs) c = Some i \<Longrightarrow> \<exists>x\<in>set xs. ln_identity (map_record x) = i" for xs c
    using keep_selection_valid(1) by fastforce
  then show "lp_selectedIdentity (settle_lineage r ans s) = Some i \<Longrightarrow> \<exists>x\<in>set (lp_records (settle_lineage r ans s)). ln_identity x = i"
    by (auto simp: settle_lineage_def Let_def split: sum.splits)
  show "lp_selectedIdentity (settle_lineage r ans s) = None \<longleftrightarrow> lp_records (settle_lineage r ans s) = []"
    by (auto simp: settle_lineage_def Let_def keep_selection_valid(2) split: sum.splits)
qed

lemma map_record_identity: "map ln_identity (map map_record items) = map bl_identity items"
  by (simp add: map_record_def)

text \<open>A late answer replaces a newer one: the rows are those of the first query, the filters those of the second.\<close>

lemma stale_ledger_wins:
  fixes s :: lineage_page and old new :: LineageLedgerResponse
  assumes "lp_requests s = [(0, q0)]" "lp_next s = 1" "lp_stageFilter s \<noteq> stg"
  defines "s' \<equiv> settle_lineage 0 (Inr old) (settle_lineage 1 (Inr new) (handleStageFilterChange stg s))"
  shows "lp_stageFilter s' = stg \<and> lp_records s' = map map_record (lr_items old) \<and> \<not> lp_loading s' \<and> lp_requests s' = []"
  using assms by (simp add: handleStageFilterChange_def after_render_def query_deps_def loadLineage_def settle_lineage_def Let_def)

text \<open>The first of two answers switches the indicator off while the other is still awaited.\<close>

lemma loading_off_early: "\<not> lp_loading (settle_lineage r ans s)"
  by (simp add: settle_lineage_def Let_def)

text \<open>A new search text is asked for on the page number reached under the old one.\<close>

lemma search_keeps_page:
  assumes "lp_search s \<noteq> text"
  shows "lp_page (onSearchChange text s) = lp_page s \<and>
    params_get (snd (last (lp_requests (onSearchChange text s)))) (u ''page'') = Some (num_str (lp_page s))"
proof -
  have "params_get (params_set (u ''search'') t [(u ''product_kind'', a), (u ''page'', b), (u ''page_size'', c), (u ''stage_filter'', d)]) (u ''page'') = Some b"
    "params_get [(u ''product_kind'', a), (u ''page'', b), (u ''page_size'', c), (u ''stage_filter'', d)] (u ''page'') = Some b" for t a b c d
    by (simp_all add: params_get_def u_def)
  then show ?thesis using assms
    by (simp add: onSearchChange_def after_render_def query_deps_def loadLineage_def lineage_params_def Let_def)
qed

end
