(* ===== verification/LabelingPage.thy ===== *)
theory LabelingPage
  imports Labeling ModelRegistry JsConvert
begin

text \<open>
  The page of the labeling studio (\<open>pages/labeling-studio/page.tsx\<close>): the stored scope, the
  snapshots, the workspace of the selected scope, the evidence and light curve of the selected
  target, and the saving of a label. The effects of the component are modelled as the code
  declares them: in order, each run when one of its dependencies changed since the last commit,
  reading the values of the commit it runs in, until nothing it depends on changes. Requests
  are recorded when they are sent and answered in any order.
\<close>

section \<open>State\<close>

definition labeling_PAGE_SIZE :: jsnum where
  "labeling_PAGE_SIZE = lit 12"

text \<open>
  The storage entry as the parsed value, \<open>None\<close> when it is absent or does not parse.
\<close>

definition readStoredScope :: "json option \<Rightarrow> str list option" where
  "readStoredScope stored_value = (case stored_value of
      Some (JArr vs) \<Rightarrow> Some (concat (map (\<lambda>v. case v of JStr s \<Rightarrow> [s] | _ \<Rightarrow> []) vs))
    | _ \<Rightarrow> None)"

definition itemKey :: "LabelingQueueSummaryItem \<Rightarrow> str" where
  "itemKey item = (qi_snapshot_id item @ u '':'' @ qi_source_product_id item)"

datatype labeling_request =
    Rq_models | Rq_snapshots
  | Rq_workspace nat "str list" jsnum
  | Rq_detail nat str str
  | Rq_curve nat jsnum jsnum jsnum
  | Rq_label str str training_label str jsnum "str list" jsnum

text \<open>
  \<open>gp_idsVersion\<close> is the identity of the array \<open>snapshotIds\<close> and \<open>gp_availableVersion\<close> that of
  \<open>availableSnapshots\<close>: every update makes a new array.
  \<open>gp_detailActive\<close> and \<open>gp_curveActive\<close> name the request of the effect run whose \<open>active\<close> is
  still true.
\<close>

record labeling_page =
  gp_models :: "ModelRecord list"
  gp_modelsError :: "str option"
  gp_available :: "LabelingSnapshotItem list"
  gp_availableVersion :: nat
  gp_snapshotsLoading :: bool
  gp_snapshotIds :: "str list"
  gp_idsVersion :: nat
  gp_initialized :: bool
  gp_storage :: "json option"
  gp_disposition :: "LabelingCohortDisposition option"
  gp_queueItems :: "LabelingQueueSummaryItem list"
  gp_queueCount :: jsnum
  gp_queueOffset :: jsnum
  gp_queueHasMore :: bool
  gp_workspaceLoading :: bool
  gp_workspaceError :: "str option"
  gp_workspaceRequest :: nat
  gp_selectedKey :: str
  gp_selectedDetail :: "LabelingTargetDetail option"
  gp_detailLoading :: bool
  gp_detailRequest :: nat
  gp_detailActive :: "nat option"
  gp_lightcurve :: "LightcurveSeries option"
  gp_curveLoading :: bool
  gp_curveNext :: nat
  gp_curveActive :: "nat option"
  gp_sent :: "labeling_request list"

definition initial_page :: "json option \<Rightarrow> labeling_page" where
  "initial_page st =
     \<lparr>gp_models = [], gp_modelsError = None, gp_available = [], gp_availableVersion = 0, gp_snapshotsLoading = False,
      gp_snapshotIds = nullish (readStoredScope st) [], gp_idsVersion = 0, gp_initialized = (readStoredScope st \<noteq> None),
      gp_storage = st, gp_disposition = None, gp_queueItems = [], gp_queueCount = lit 0, gp_queueOffset = lit 0,
      gp_queueHasMore = False, gp_workspaceLoading = False, gp_workspaceError = None, gp_workspaceRequest = 0,
      gp_selectedKey = [], gp_selectedDetail = None, gp_detailLoading = False, gp_detailRequest = 0, gp_detailActive = None,
      gp_lightcurve = None, gp_curveLoading = False, gp_curveNext = 0, gp_curveActive = None, gp_sent = []\<rparr>"

definition send :: "labeling_request \<Rightarrow> labeling_page \<Rightarrow> labeling_page" where
  "send q s = s\<lparr>gp_sent := gp_sent s @ [q]\<rparr>"

definition set_ids :: "str list \<Rightarrow> labeling_page \<Rightarrow> labeling_page" where
  "set_ids ids s = s\<lparr>gp_snapshotIds := ids, gp_idsVersion := Suc (gp_idsVersion s)\<rparr>"

section \<open>Loading\<close>

definition loadAvailableSnapshots :: "labeling_page \<Rightarrow> labeling_page" where
  "loadAvailableSnapshots s = send Rq_snapshots (s\<lparr>gp_snapshotsLoading := True\<rparr>)"

definition clear_workspace :: "labeling_page \<Rightarrow> labeling_page" where
  "clear_workspace s = s\<lparr>gp_disposition := None, gp_queueItems := [], gp_queueCount := lit 0, gp_queueHasMore := False,
     gp_selectedKey := [], gp_selectedDetail := None, gp_lightcurve := None\<rparr>"

definition loadWorkspace :: "str list \<Rightarrow> jsnum \<Rightarrow> labeling_page \<Rightarrow> labeling_page" where
  "loadWorkspace currentSnapshots currentOffset s =
     (if currentSnapshots = [] then clear_workspace s
      else let reqID = Suc (gp_workspaceRequest s) in
           send (Rq_workspace reqID currentSnapshots currentOffset)
             (s\<lparr>gp_workspaceRequest := reqID, gp_workspaceLoading := True, gp_workspaceError := None\<rparr>))"

text \<open>The query string of a workspace request.\<close>

definition workspace_params :: "str list \<Rightarrow> jsnum \<Rightarrow> params" where
  "workspace_params currentSnapshots currentOffset =
     params_set (u ''offset'') (num_str currentOffset) (params_set (u ''limit'') (num_str labeling_PAGE_SIZE)
       (map (\<lambda>i. (u ''snapshot_id'', i)) currentSnapshots))"

definition choose_key :: "LabelingQueueSummaryItem list \<Rightarrow> str \<Rightarrow> str" where
  "choose_key items prev = (if items = [] then [] else if list_ex (\<lambda>i. itemKey i = prev) items then prev else itemKey (hd items))"

section \<open>Effects\<close>

definition selectedItem :: "labeling_page \<Rightarrow> LabelingQueueSummaryItem option" where
  "selectedItem s = List.find (\<lambda>i. itemKey i = gp_selectedKey s) (gp_queueItems s)"

definition selectionSignature :: "labeling_page \<Rightarrow> str" where
  "selectionSignature s = join_comma (sort_by str_le (gp_snapshotIds s))"

text \<open>
  The effects; \<open>r\<close> is the committed state whose values they close over, \<open>s\<close> the state they update.
\<close>

definition sync_effect :: "labeling_page \<Rightarrow> labeling_page \<Rightarrow> labeling_page" where
  "sync_effect r s =
     (if gp_snapshotsLoading r then s
      else let available = map lsi_snapshot_id (gp_available r);
               valid = filter (\<lambda>i. i \<in> set available) (gp_snapshotIds s)
           in (set_ids (if valid \<noteq> [] \<or> gp_initialized s \<or> gp_available r = [] then valid else available) s)
                \<lparr>gp_initialized := True\<rparr>)"

definition store_effect :: "labeling_page \<Rightarrow> labeling_page \<Rightarrow> labeling_page" where
  "store_effect r s = (if gp_initialized s then s\<lparr>gp_storage := Some (JArr (map JStr (gp_snapshotIds r)))\<rparr> else s)"

definition detail_effect :: "labeling_page \<Rightarrow> labeling_page \<Rightarrow> labeling_page" where
  "detail_effect r s = (case selectedItem r of
      None \<Rightarrow> s\<lparr>gp_selectedDetail := None, gp_detailActive := None\<rparr>
    | Some item \<Rightarrow>
        let reqID = Suc (gp_detailRequest s) in
        send (Rq_detail reqID (qi_snapshot_id item) (qi_source_product_id item))
          (s\<lparr>gp_detailRequest := reqID, gp_detailActive := Some reqID, gp_detailLoading := True\<rparr>))"

definition requestedCadences :: "LabelingTargetDetail \<Rightarrow> jsnum" where
  "requestedCadences d = Math_min (lit 50000) (Math_max (lit 1000) (n_points d))"

definition curve_effect :: "labeling_page \<Rightarrow> labeling_page \<Rightarrow> labeling_page" where
  "curve_effect r s0 =
     (let s = s0\<lparr>gp_lightcurve := None, gp_curveActive := None\<rparr> in
      case gp_selectedDetail r of None \<Rightarrow> s
      | Some d \<Rightarrow>
          if \<not> truthy (td_tic_id d) \<or> \<not> truthy (td_sector d) then s
          else send (Rq_curve (gp_curveNext s) (td_tic_id d) (td_sector d) (requestedCadences d))
            (s\<lparr>gp_curveLoading := True, gp_curveActive := Some (gp_curveNext s), gp_curveNext := Suc (gp_curveNext s)\<rparr>))"

text \<open>The dependency lists.\<close>

definition sync_deps :: "labeling_page \<Rightarrow> LabelingSnapshotItem list \<times> nat \<times> bool" where
  "sync_deps s = (gp_available s, gp_availableVersion s, gp_snapshotsLoading s)"

definition ids_deps :: "labeling_page \<Rightarrow> str list \<times> nat" where
  "ids_deps s = (gp_snapshotIds s, gp_idsVersion s)"

definition detail_deps :: "labeling_page \<Rightarrow> str option \<times> str option \<times> str" where
  "detail_deps s = (map_option qi_snapshot_id (selectedItem s), map_option qi_source_product_id (selectedItem s), gp_selectedKey s)"

definition curve_deps :: "labeling_page \<Rightarrow> jsnum option \<times> jsnum option \<times> jsnum option" where
  "curve_deps s = (map_option td_tic_id (gp_selectedDetail s), map_option td_sector (gp_selectedDetail s),
     map_option n_points (gp_selectedDetail s))"

definition on_change :: "bool \<Rightarrow> (labeling_page \<Rightarrow> labeling_page) \<Rightarrow> labeling_page \<Rightarrow> labeling_page" where
  "on_change b f s = (if b then f s else s)"

text \<open>One pass over the effects after a commit of \<open>r\<close>, when \<open>p\<close> was committed before.\<close>

definition run_effects :: "labeling_page \<Rightarrow> labeling_page \<Rightarrow> labeling_page" where
  "run_effects p r =
     (let s1 = on_change (sync_deps p \<noteq> sync_deps r) (sync_effect r) r;
          s2 = on_change (ids_deps p \<noteq> ids_deps r) (store_effect r) s1;
          s3 = on_change (selectionSignature p \<noteq> selectionSignature r) (\<lambda>s. s\<lparr>gp_queueOffset := lit 0\<rparr>) s2;
          s4 = on_change (ids_deps p \<noteq> ids_deps r \<or> gp_queueOffset p \<noteq> gp_queueOffset r)
                 (loadWorkspace (gp_snapshotIds r) (gp_queueOffset r)) s3;
          s5 = on_change (detail_deps p \<noteq> detail_deps r) (detail_effect r) s4
      in on_change (curve_deps p \<noteq> curve_deps r) (curve_effect r) s5)"

text \<open>The pass of the mounting commit runs every effect, the two loads first.\<close>

definition mount_effects :: "labeling_page \<Rightarrow> labeling_page" where
  "mount_effects r =
     (let s0 = loadAvailableSnapshots (send Rq_models r); s1 = sync_effect r s0; s2 = store_effect r s1;
          s3 = s2\<lparr>gp_queueOffset := lit 0\<rparr>; s4 = loadWorkspace (gp_snapshotIds r) (gp_queueOffset r) s3;
          s5 = detail_effect r s4
      in curve_effect r s5)"

definition effect_deps :: "labeling_page \<Rightarrow> (LabelingSnapshotItem list \<times> nat \<times> bool) \<times> (str list \<times> nat) \<times> jsnum \<times>
    (str option \<times> str option \<times> str) \<times> (jsnum option \<times> jsnum option \<times> jsnum option)" where
  "effect_deps s = (sync_deps s, ids_deps s, gp_queueOffset s, detail_deps s, curve_deps s)"

text \<open>Commits follow until the effects change none of their dependencies.\<close>

fun commits :: "nat \<Rightarrow> labeling_page \<Rightarrow> labeling_page \<Rightarrow> labeling_page" where
  "commits 0 p r = r"
| "commits (Suc n) p r = (if effect_deps p = effect_deps r then r else commits n r (run_effects p r))"

definition commit :: "labeling_page \<Rightarrow> labeling_page \<Rightarrow> labeling_page" where
  "commit p r = commits 6 p r"

definition mounted :: "json option \<Rightarrow> labeling_page" where
  "mounted st = commit (initial_page st) (mount_effects (initial_page st))"

section \<open>Answers and actions\<close>

definition models_answer :: "str + ModelRecord list \<Rightarrow> labeling_page \<Rightarrow> labeling_page" where
  "models_answer res s = (case res of Inr ms \<Rightarrow> s\<lparr>gp_models := ms\<rparr> | Inl msg \<Rightarrow> s\<lparr>gp_modelsError := Some msg\<rparr>)"

definition snapshots_answer :: "LabelingSnapshotItem list option \<Rightarrow> labeling_page \<Rightarrow> labeling_page" where
  "snapshots_answer res s = commit s (s\<lparr>gp_available := nullish res [], gp_availableVersion := Suc (gp_availableVersion s), gp_snapshotsLoading := False\<rparr>)"

definition workspace_answer :: "nat \<Rightarrow> str + LabelingCohortWorkspace \<Rightarrow> labeling_page \<Rightarrow> labeling_page" where
  "workspace_answer reqID res s =
     (if reqID \<noteq> gp_workspaceRequest s then s
      else commit s (case res of
          Inr w \<Rightarrow> s\<lparr>gp_disposition := Some (cw_disposition w), gp_queueItems := lq_items (cw_queue w),
             gp_queueCount := lq_total_count (cw_queue w), gp_queueHasMore := lq_has_more (cw_queue w),
             gp_selectedKey := choose_key (lq_items (cw_queue w)) (gp_selectedKey s), gp_workspaceLoading := False\<rparr>
        | Inl msg \<Rightarrow> (clear_workspace s)\<lparr>gp_workspaceError := Some msg, gp_workspaceLoading := False\<rparr>))"

definition detail_answer :: "nat \<Rightarrow> LabelingTargetDetail option \<Rightarrow> labeling_page \<Rightarrow> labeling_page" where
  "detail_answer reqID res s =
     (if gp_detailActive s = Some reqID \<and> reqID = gp_detailRequest s
      then commit s (s\<lparr>gp_selectedDetail := res, gp_detailLoading := False\<rparr>) else s)"

definition curve_answer :: "nat \<Rightarrow> LightcurveSeries option \<Rightarrow> labeling_page \<Rightarrow> labeling_page" where
  "curve_answer i res s = (if gp_curveActive s = Some i then s\<lparr>gp_lightcurve := res, gp_curveLoading := False\<rparr> else s)"

definition onSnapshotIdsChange :: "str list \<Rightarrow> labeling_page \<Rightarrow> labeling_page" where
  "onSnapshotIdsChange ids s = commit s (set_ids ids s)"

definition onSelectKey :: "str \<Rightarrow> labeling_page \<Rightarrow> labeling_page" where
  "onSelectKey k s = commit s (s\<lparr>gp_selectedKey := k\<rparr>)"

definition onOffsetChange :: "jsnum \<Rightarrow> labeling_page \<Rightarrow> labeling_page" where
  "onOffsetChange o' s = commit s (s\<lparr>gp_queueOffset := o'\<rparr>)"

definition onRefreshSnapshots :: "labeling_page \<Rightarrow> labeling_page" where
  "onRefreshSnapshots s = commit s (loadAvailableSnapshots s)"

definition onRefresh :: "labeling_page \<Rightarrow> labeling_page" where
  "onRefresh s = commit s (loadWorkspace (gp_snapshotIds s) (gp_queueOffset s) s)"

text \<open>A workflow event of the stream, open while a scope is selected.\<close>

definition onWorkflow :: "labeling_page \<Rightarrow> labeling_page" where
  "onWorkflow s = (if gp_snapshotIds s = [] then s else onRefresh s)"

text \<open>Saving keeps the scope and offset of the moment it was called for the reload after it.\<close>

definition handleSaveLabel :: "training_label \<Rightarrow> str \<Rightarrow> jsnum \<Rightarrow> labeling_page \<Rightarrow> labeling_page" where
  "handleSaveLabel trainingLabel reason conf s = (case gp_selectedDetail s of None \<Rightarrow> s
    | Some d \<Rightarrow> send (Rq_label (td_snapshot_id d) (td_source_product_id d) trainingLabel reason conf
        (gp_snapshotIds s) (gp_queueOffset s)) s)"

definition label_saved :: "str list \<Rightarrow> jsnum \<Rightarrow> labeling_page \<Rightarrow> labeling_page" where
  "label_saved ids off s = commit s (loadWorkspace ids off s)"

section \<open>Commits end\<close>

lemma detail_deps_cong:
  "gp_queueItems s' = gp_queueItems s \<Longrightarrow> gp_selectedKey s' = gp_selectedKey s \<Longrightarrow> detail_deps s' = detail_deps s"
  by (simp add: detail_deps_def selectedItem_def)

lemma curve_deps_cong: "gp_selectedDetail s' = gp_selectedDetail s \<Longrightarrow> curve_deps s' = curve_deps s"
  by (simp add: curve_deps_def)

text \<open>What each effect leaves alone.\<close>

lemma sync_effect_frame [simp]:
  "sync_deps (sync_effect r s) = sync_deps s" "gp_queueOffset (sync_effect r s) = gp_queueOffset s"
  "gp_queueItems (sync_effect r s) = gp_queueItems s" "gp_selectedKey (sync_effect r s) = gp_selectedKey s"
  "gp_selectedDetail (sync_effect r s) = gp_selectedDetail s"
  by (simp_all add: sync_effect_def set_ids_def sync_deps_def Let_def)

lemma store_effect_frame [simp]:
  "sync_deps (store_effect r s) = sync_deps s" "ids_deps (store_effect r s) = ids_deps s"
  "gp_queueOffset (store_effect r s) = gp_queueOffset s" "gp_queueItems (store_effect r s) = gp_queueItems s"
  "gp_selectedKey (store_effect r s) = gp_selectedKey s" "gp_selectedDetail (store_effect r s) = gp_selectedDetail s"
  by (simp_all add: store_effect_def sync_deps_def ids_deps_def)

lemma loadWorkspace_frame [simp]:
  "sync_deps (loadWorkspace i off s) = sync_deps s" "ids_deps (loadWorkspace i off s) = ids_deps s"
  "gp_queueOffset (loadWorkspace i off s) = gp_queueOffset s"
  by (simp_all add: loadWorkspace_def clear_workspace_def send_def sync_deps_def ids_deps_def Let_def)

lemma detail_effect_frame [simp]:
  "sync_deps (detail_effect r s) = sync_deps s" "ids_deps (detail_effect r s) = ids_deps s"
  "gp_queueOffset (detail_effect r s) = gp_queueOffset s" "gp_queueItems (detail_effect r s) = gp_queueItems s"
  "gp_selectedKey (detail_effect r s) = gp_selectedKey s"
  by (simp_all add: detail_effect_def send_def sync_deps_def ids_deps_def Let_def split: option.split)

lemma curve_effect_frame [simp]:
  "sync_deps (curve_effect r s) = sync_deps s" "ids_deps (curve_effect r s) = ids_deps s"
  "gp_queueOffset (curve_effect r s) = gp_queueOffset s" "gp_queueItems (curve_effect r s) = gp_queueItems s"
  "gp_selectedKey (curve_effect r s) = gp_selectedKey s" "gp_selectedDetail (curve_effect r s) = gp_selectedDetail s"
  by (simp_all add: curve_effect_def send_def sync_deps_def ids_deps_def Let_def split: option.split)

lemma offset_update_frame [simp]:
  "sync_deps (s\<lparr>gp_queueOffset := x\<rparr>) = sync_deps s" "ids_deps (s\<lparr>gp_queueOffset := x\<rparr>) = ids_deps s"
  by (simp_all add: sync_deps_def ids_deps_def)

lemma signature_ids: "ids_deps p = ids_deps r \<Longrightarrow> selectionSignature p = selectionSignature r"
  by (simp add: ids_deps_def selectionSignature_def)

lemma run_effects_frames:
  "sync_deps (run_effects p r) = sync_deps r"
  "sync_deps p = sync_deps r \<Longrightarrow> ids_deps (run_effects p r) = ids_deps r"
  "ids_deps p = ids_deps r \<Longrightarrow> gp_queueOffset (run_effects p r) = gp_queueOffset r"
  "ids_deps p = ids_deps r \<Longrightarrow> gp_queueOffset p = gp_queueOffset r \<Longrightarrow> detail_deps (run_effects p r) = detail_deps r"
  "ids_deps p = ids_deps r \<Longrightarrow> gp_queueOffset p = gp_queueOffset r \<Longrightarrow> detail_deps p = detail_deps r \<Longrightarrow>
   curve_deps (run_effects p r) = curve_deps r"
proof -
  show "sync_deps (run_effects p r) = sync_deps r" by (simp add: run_effects_def Let_def on_change_def)
  show "sync_deps p = sync_deps r \<Longrightarrow> ids_deps (run_effects p r) = ids_deps r" by (simp add: run_effects_def Let_def on_change_def)
  show "ids_deps p = ids_deps r \<Longrightarrow> gp_queueOffset (run_effects p r) = gp_queueOffset r"
    using signature_ids [of p r] by (simp add: run_effects_def Let_def on_change_def)
  show "ids_deps p = ids_deps r \<Longrightarrow> gp_queueOffset p = gp_queueOffset r \<Longrightarrow> detail_deps (run_effects p r) = detail_deps r"
    using signature_ids [of p r] by (intro detail_deps_cong) (simp_all add: run_effects_def Let_def on_change_def)
  show "ids_deps p = ids_deps r \<Longrightarrow> gp_queueOffset p = gp_queueOffset r \<Longrightarrow> detail_deps p = detail_deps r \<Longrightarrow>
     curve_deps (run_effects p r) = curve_deps r"
    using signature_ids [of p r] by (intro curve_deps_cong) (simp add: run_effects_def Let_def on_change_def)
qed

text \<open>After \<open>k\<close> passes the first \<open>k\<close> of the five dependency lists no longer change.\<close>

definition agree :: "nat \<Rightarrow> labeling_page \<Rightarrow> labeling_page \<Rightarrow> bool" where
  "agree k p r \<longleftrightarrow> (1 \<le> k \<longrightarrow> sync_deps p = sync_deps r) \<and> (2 \<le> k \<longrightarrow> ids_deps p = ids_deps r) \<and>
     (3 \<le> k \<longrightarrow> gp_queueOffset p = gp_queueOffset r) \<and> (4 \<le> k \<longrightarrow> detail_deps p = detail_deps r) \<and>
     (5 \<le> k \<longrightarrow> curve_deps p = curve_deps r)"

lemma agree_step: "agree k p r \<Longrightarrow> agree (Suc k) r (run_effects p r)"
  using run_effects_frames [of p r] unfolding agree_def by auto

lemma agree_done: "5 \<le> k \<Longrightarrow> agree k p r \<Longrightarrow> effect_deps p = effect_deps r"
  by (simp add: agree_def effect_deps_def)

lemma commits_fuel: "agree k p r \<Longrightarrow> 5 < n + k \<Longrightarrow> commits (n + m) p r = commits n p r"
proof (induction n arbitrary: k p r)
  case 0
  then have "effect_deps p = effect_deps r" by (intro agree_done [of k]) auto
  then show ?case by (cases m) simp_all
next
  case (Suc n)
  show ?case
  proof (cases "effect_deps p = effect_deps r")
    case False
    have "commits (n + m) r (run_effects p r) = commits n r (run_effects p r)"
      using Suc.IH [OF agree_step [OF Suc.prems(1)]] Suc.prems(2) by simp
    then show ?thesis using False by simp
  qed simp
qed

lemma commit_same: "effect_deps p = effect_deps r \<Longrightarrow> commit p r = r"
  by (simp add: commit_def numeral_eq_Suc)

lemma commit_step:
  assumes "effect_deps p \<noteq> effect_deps r"
  shows "commit p r = commit r (run_effects p r)"
proof -
  have "commit p r = commits 5 r (run_effects p r)" using assms by (simp add: commit_def numeral_eq_Suc)
  also have "\<dots> = commits (5 + 1) r (run_effects p r)"
    by (rule commits_fuel [symmetric, of "Suc 0"]) (use agree_step [of 0 p r] in \<open>simp_all add: agree_def\<close>)
  finally show ?thesis by (simp add: commit_def)
qed

section \<open>The scope\<close>

text \<open>An empty scope stays empty through the effects once the page is initialised.\<close>

definition scope_empty :: "labeling_page \<Rightarrow> bool" where
  "scope_empty s \<longleftrightarrow> gp_snapshotIds s = [] \<and> gp_initialized s"

lemma scope_fields [simp]:
  "gp_snapshotIds (store_effect r s) = gp_snapshotIds s" "gp_initialized (store_effect r s) = gp_initialized s"
  "gp_snapshotIds (loadWorkspace i off s) = gp_snapshotIds s" "gp_initialized (loadWorkspace i off s) = gp_initialized s"
  "gp_storage (loadWorkspace i off s) = gp_storage s"
  "gp_snapshotIds (detail_effect r s) = gp_snapshotIds s" "gp_initialized (detail_effect r s) = gp_initialized s"
  "gp_storage (detail_effect r s) = gp_storage s"
  "gp_snapshotIds (curve_effect r s) = gp_snapshotIds s" "gp_initialized (curve_effect r s) = gp_initialized s"
  "gp_storage (curve_effect r s) = gp_storage s" "gp_storage (sync_effect r s) = gp_storage s"
  by (simp_all add: store_effect_def loadWorkspace_def clear_workspace_def detail_effect_def curve_effect_def sync_effect_def
      set_ids_def send_def Let_def split: option.split)

lemma sync_empty: "scope_empty s \<Longrightarrow> scope_empty (sync_effect r s)"
  by (simp add: scope_empty_def sync_effect_def set_ids_def Let_def)

lemma run_effects_empty:
  assumes "scope_empty r"
  shows "scope_empty (run_effects p r)"
    and "gp_storage r = Some (JArr []) \<or> ids_deps p \<noteq> ids_deps r \<Longrightarrow> gp_storage (run_effects p r) = Some (JArr [])"
proof -
  let ?s1 = "on_change (sync_deps p \<noteq> sync_deps r) (sync_effect r) r"
  have s1: "scope_empty ?s1" "gp_storage ?s1 = gp_storage r" using assms sync_empty by (simp_all add: on_change_def)
  show "scope_empty (run_effects p r)" using s1(1) by (simp add: run_effects_def Let_def on_change_def scope_empty_def)
  have "gp_storage (store_effect r ?s1) = Some (JArr [])" using s1(1) assms by (simp add: store_effect_def scope_empty_def)
  then show "gp_storage r = Some (JArr []) \<or> ids_deps p \<noteq> ids_deps r \<Longrightarrow> gp_storage (run_effects p r) = Some (JArr [])"
    using s1(2) by (auto simp: run_effects_def Let_def on_change_def)
qed

lemma commits_empty:
  "scope_empty r \<Longrightarrow> gp_storage r = Some (JArr []) \<or> ids_deps p \<noteq> ids_deps r \<Longrightarrow>
   scope_empty (commits n p r) \<and> (0 < n \<longrightarrow> gp_storage (commits n p r) = Some (JArr []))"
proof (induction n arbitrary: p r)
  case (Suc n)
  show ?case
  proof (cases "effect_deps p = effect_deps r")
    case True
    then have "ids_deps p = ids_deps r" by (simp add: effect_deps_def)
    then show ?thesis using Suc.prems True by simp
  next
    case False
    note e = run_effects_empty [OF Suc.prems(1), of p]
    have "scope_empty (commits n r (run_effects p r)) \<and> (0 < n \<longrightarrow> gp_storage (commits n r (run_effects p r)) = Some (JArr []))"
      using Suc.IH e Suc.prems(2) by blast
    then show ?thesis using False e(2) Suc.prems(2) by (cases n) auto
  qed
qed simp

lemma mount_empty:
  "scope_empty (mount_effects (initial_page st)) \<and> ids_deps (initial_page st) \<noteq> ids_deps (mount_effects (initial_page st))"
proof -
  let ?s = "sync_effect (initial_page st) (loadAvailableSnapshots (send Rq_models (initial_page st)))"
  have "scope_empty ?s" "ids_deps ?s \<noteq> ids_deps (initial_page st)"
    by (simp_all add: sync_effect_def initial_page_def set_ids_def loadAvailableSnapshots_def send_def scope_empty_def ids_deps_def)
  then show ?thesis by (simp add: mount_effects_def Let_def scope_empty_def)
qed

lemma mounted_empty: "scope_empty (mounted st) \<and> gp_storage (mounted st) = Some (JArr [])"
  using commits_empty [of "mount_effects (initial_page st)" "initial_page st" 6] mount_empty
  by (simp add: mounted_def commit_def)

section \<open>The workspace\<close>

text \<open>When scope, offset and snapshots are unchanged the commits leave the workspace alone.\<close>

definition workspace_view :: "labeling_page \<Rightarrow> LabelingQueueSummaryItem list \<times> str \<times> LabelingCohortDisposition option \<times> bool \<times> nat \<times> str list" where
  "workspace_view s = (gp_queueItems s, gp_selectedKey s, gp_disposition s, gp_workspaceLoading s, gp_workspaceRequest s, gp_snapshotIds s)"

lemma workspace_view_frame [simp]:
  "workspace_view (detail_effect r s) = workspace_view s" "workspace_view (curve_effect r s) = workspace_view s"
  by (simp_all add: workspace_view_def detail_effect_def curve_effect_def send_def Let_def split: option.split)

lemma run_effects_workspace:
  assumes "agree 3 p r"
  shows "workspace_view (run_effects p r) = workspace_view r"
  using assms signature_ids [of p r] by (simp add: agree_def run_effects_def Let_def on_change_def)

lemma commits_workspace: "agree 3 p r \<Longrightarrow> workspace_view (commits n p r) = workspace_view r"
proof (induction n arbitrary: p r)
  case (Suc n)
  have "agree 3 r (run_effects p r)" using agree_step [OF Suc.prems] by (simp add: agree_def)
  then show ?case using Suc.IH run_effects_workspace [OF Suc.prems] by simp
qed simp

lemma commit_workspace:
  "sync_deps p = sync_deps r \<Longrightarrow> ids_deps p = ids_deps r \<Longrightarrow> gp_queueOffset p = gp_queueOffset r \<Longrightarrow>
   workspace_view (commit p r) = workspace_view r"
  unfolding commit_def by (rule commits_workspace) (simp add: agree_def)

lemma choose_key_valid:
  "(choose_key items prev = [] \<longleftrightarrow> items = []) \<and> (items \<noteq> [] \<longrightarrow> (\<exists>i\<in>set items. itemKey i = choose_key items prev))"
  by (auto simp: choose_key_def list_ex_iff itemKey_def)

text \<open>Clearing the scope issues no request and takes no new number.\<close>

lemma run_effects_cleared:
  assumes "sync_deps p = sync_deps r" "gp_snapshotIds r = []"
  shows "gp_snapshotIds (run_effects p r) = []" "gp_workspaceRequest (run_effects p r) = gp_workspaceRequest r"
    and "sync_deps r = sync_deps (run_effects p r)"
proof -
  have w: "gp_workspaceRequest (store_effect x s) = gp_workspaceRequest s" "gp_workspaceRequest (detail_effect x s) = gp_workspaceRequest s"
    "gp_workspaceRequest (curve_effect x s) = gp_workspaceRequest s" "gp_workspaceRequest (loadWorkspace [] off s) = gp_workspaceRequest s" for x s off
    by (simp_all add: store_effect_def detail_effect_def curve_effect_def loadWorkspace_def clear_workspace_def send_def Let_def split: option.split)
  show "gp_snapshotIds (run_effects p r) = []" using assms by (simp add: run_effects_def Let_def on_change_def)
  show "gp_workspaceRequest (run_effects p r) = gp_workspaceRequest r" using assms by (simp add: run_effects_def Let_def on_change_def w)
  show "sync_deps r = sync_deps (run_effects p r)" by (simp add: run_effects_frames(1))
qed

lemma commits_cleared:
  "sync_deps p = sync_deps r \<Longrightarrow> gp_snapshotIds r = [] \<Longrightarrow>
   gp_snapshotIds (commits n p r) = [] \<and> gp_workspaceRequest (commits n p r) = gp_workspaceRequest r"
proof (induction n arbitrary: p r)
  case (Suc n)
  note c = run_effects_cleared [OF Suc.prems]
  show ?case using Suc.IH [OF c(3,1)] Suc.prems c by simp
qed simp

lemma cleared_request:
  "gp_snapshotIds (onSnapshotIdsChange [] s) = [] \<and> gp_workspaceRequest (onSnapshotIdsChange [] s) = gp_workspaceRequest s"
  unfolding onSnapshotIdsChange_def commit_def
  using commits_cleared [of s "set_ids [] s" 6] by (simp add: set_ids_def sync_deps_def)

section \<open>Evidence\<close>

text \<open>Without a selected item no run of the evidence effect is active.\<close>

lemma run_effects_active:
  assumes "selectedItem p = None \<longrightarrow> gp_detailActive r = None"
  shows "selectedItem r = None \<longrightarrow> gp_detailActive (run_effects p r) = None"
proof -
  have d: "gp_detailActive (sync_effect x s) = gp_detailActive s" "gp_detailActive (store_effect x s) = gp_detailActive s"
    "gp_detailActive (loadWorkspace i off s) = gp_detailActive s" "gp_detailActive (curve_effect x s) = gp_detailActive s" for x s i off
    by (simp_all add: sync_effect_def store_effect_def loadWorkspace_def clear_workspace_def curve_effect_def set_ids_def send_def Let_def
        split: option.split)
  have "selectedItem p = None" if "detail_deps p = detail_deps r" "selectedItem r = None"
    using that by (simp add: detail_deps_def)
  then show ?thesis using assms by (auto simp: run_effects_def Let_def on_change_def d detail_effect_def)
qed

lemma commits_active:
  "(selectedItem p = None \<longrightarrow> gp_detailActive r = None) \<Longrightarrow> agree k p r \<Longrightarrow> 5 < n + k \<Longrightarrow>
   selectedItem (commits n p r) = None \<longrightarrow> gp_detailActive (commits n p r) = None"
proof (induction n arbitrary: k p r)
  case 0
  then have "effect_deps p = effect_deps r" using agree_done [of k p r] by simp
  then show ?case using 0 by (auto simp: effect_deps_def detail_deps_def)
next
  case (Suc n)
  show ?case
  proof (cases "effect_deps p = effect_deps r")
    case True
    then show ?thesis using Suc.prems(1) by (auto simp: effect_deps_def detail_deps_def)
  next
    case False
    then show ?thesis using Suc.IH [OF run_effects_active [OF Suc.prems(1)] agree_step [OF Suc.prems(2)]] Suc.prems(3) by simp
  qed
qed

lemma active_settled:
  "(selectedItem p = None \<longrightarrow> gp_detailActive r = None) \<Longrightarrow> selectedItem (commit p r) = None \<longrightarrow> gp_detailActive (commit p r) = None"
  unfolding commit_def by (rule commits_active [of _ _ 0]) (simp_all add: agree_def)

text \<open>
  When the selection goes away while evidence is loading, every answer is discarded: the loading
  flag stays on until another target is selected.
\<close>

lemma evidence_loading_stuck:
  assumes "selectedItem s = None" "gp_detailActive s = None" "gp_detailLoading s"
  shows "gp_detailLoading (detail_answer k res s)"
  using assms by (simp add: detail_answer_def)

text \<open>A workspace of two targets.\<close>

definition sample_item :: "str \<Rightarrow> LabelingQueueSummaryItem" where
  "sample_item i = \<lparr>qi_snapshot_id = u ''S1'', qi_source_product_id = i, qi_tic_id = lit 7, qi_sector = lit 1, qi_bls_power = lit 12,
     qi_toi_match_status = u ''none'', qi_matched_toi_id = None, qi_candidate_score = None, qi_above_threshold = None\<rparr>"

definition sample_workspace :: LabelingCohortWorkspace where
  "sample_workspace = \<lparr>cw_disposition = \<lparr>cd_total_rows = lit 2, cd_positive_rows = lit 0, cd_negative_rows = lit 0,
       cd_unresolved_rows = lit 2, cd_positive_targets = lit 0, cd_negative_targets = lit 0\<rparr>,
     cw_queue = \<lparr>lq_items = [sample_item (u ''P1''), sample_item (u ''P2'')], lq_total_count = lit 2, lq_limit = lit 12,
       lq_offset = lit 0, lq_has_more = False\<rparr>\<rparr>"

section \<open>Properties\<close>

text \<open>
  C20. The effects of the page come to rest: after at most six passes no effect changes what
  an effect depends on, from every pair of commits, so further passes change nothing.
\<close>

lemma effects_settle: "commits (6 + m) p r = commit p r"
  unfolding commit_def by (rule commits_fuel [of 0]) (simp_all add: agree_def)

text \<open>
  Whatever scope the browser stored, mounting the page empties it, in the state and in the
  storage, and the snapshots that arrive later are not selected either.
\<close>

lemma stored_scope_lost:
  "gp_snapshotIds (mounted st) = [] \<and> gp_storage (mounted st) = Some (JArr []) \<and>
   gp_snapshotIds (snapshots_answer res (mounted st)) = []"
proof -
  let ?r = "(mounted st)\<lparr>gp_available := nullish res [], gp_availableVersion := Suc (gp_availableVersion (mounted st)),
      gp_snapshotsLoading := False\<rparr>"
  have "scope_empty ?r" "gp_storage ?r = Some (JArr [])" using mounted_empty [of st] by (simp_all add: scope_empty_def)
  then have "scope_empty (commit (mounted st) ?r)" unfolding commit_def using commits_empty by blast
  then show ?thesis using mounted_empty [of st] by (simp add: snapshots_answer_def scope_empty_def)
qed

text \<open>
  C13. An answer to a workspace request that is not the latest one changes nothing. The
  answer to the latest one ends the loading; when it succeeds the queue shown is the answer's, and
  a key is selected that belongs to one of its items, none exactly when it has no items; when it
  fails the queue is empty and nothing is selected.
\<close>

lemma workspace_answer_sound:
  "(k \<noteq> gp_workspaceRequest s \<longrightarrow> workspace_answer k res s = s) \<and>
   (k = gp_workspaceRequest s \<longrightarrow>
     \<not> gp_workspaceLoading (workspace_answer k res s) \<and>
     (case res of
        Inr w \<Rightarrow> gp_queueItems (workspace_answer k res s) = lq_items (cw_queue w) \<and>
          (lq_items (cw_queue w) = [] \<longleftrightarrow> gp_selectedKey (workspace_answer k res s) = []) \<and>
          (lq_items (cw_queue w) \<noteq> [] \<longrightarrow>
             (\<exists>i\<in>set (lq_items (cw_queue w)). itemKey i = gp_selectedKey (workspace_answer k res s)))
      | Inl _ \<Rightarrow> gp_queueItems (workspace_answer k res s) = [] \<and> gp_selectedKey (workspace_answer k res s) = []))"
proof (cases "k = gp_workspaceRequest s")
  case True
  define r where "r = (case res of
      Inr w \<Rightarrow> s\<lparr>gp_disposition := Some (cw_disposition w), gp_queueItems := lq_items (cw_queue w),
         gp_queueCount := lq_total_count (cw_queue w), gp_queueHasMore := lq_has_more (cw_queue w),
         gp_selectedKey := choose_key (lq_items (cw_queue w)) (gp_selectedKey s), gp_workspaceLoading := False\<rparr>
    | Inl msg \<Rightarrow> (clear_workspace s)\<lparr>gp_workspaceError := Some msg, gp_workspaceLoading := False\<rparr>)"
  have "workspace_view (commit s r) = workspace_view r"
    by (rule commit_workspace) (simp_all add: r_def clear_workspace_def sync_deps_def ids_deps_def split: sum.split)
  moreover have "workspace_answer k res s = commit s r" using True by (simp add: workspace_answer_def r_def)
  ultimately show ?thesis using True choose_key_valid
    by (auto simp: workspace_view_def r_def clear_workspace_def split: sum.split)
qed (simp add: workspace_answer_def split: sum.split)

lemma workspace_answer_sound_witness:
  "gp_queueItems (workspace_answer 0 (Inr sample_workspace) (initial_page None)) = [sample_item (u ''P1''), sample_item (u ''P2'')] \<and>
   gp_selectedKey (workspace_answer 0 (Inr sample_workspace) (initial_page None)) \<noteq> [] \<and>
   \<not> gp_workspaceLoading (workspace_answer 0 (Inr sample_workspace) (initial_page None)) \<and>
   workspace_answer 5 (Inr sample_workspace) (initial_page None) = initial_page None"
  using workspace_answer_sound [of 0 "initial_page None" "Inr sample_workspace"]
    workspace_answer_sound [of 5 "initial_page None" "Inr sample_workspace"]
  by (simp add: initial_page_def sample_workspace_def)

text \<open>
  Clearing the scope does not withdraw the workspace request that is in flight: its
  answer still fills the queue, with no snapshot selected.
\<close>

lemma cleared_scope_refilled:
  fixes s :: labeling_page and w :: LabelingCohortWorkspace
  defines "s' \<equiv> workspace_answer (gp_workspaceRequest s) (Inr w) (onSnapshotIdsChange [] s)"
  shows "gp_snapshotIds s' = [] \<and> gp_queueItems s' = lq_items (cw_queue w)"
proof -
  let ?c = "onSnapshotIdsChange [] s"
  let ?r = "?c\<lparr>gp_disposition := Some (cw_disposition w), gp_queueItems := lq_items (cw_queue w),
         gp_queueCount := lq_total_count (cw_queue w), gp_queueHasMore := lq_has_more (cw_queue w),
         gp_selectedKey := choose_key (lq_items (cw_queue w)) (gp_selectedKey ?c), gp_workspaceLoading := False\<rparr>"
  have "workspace_view (commit ?c ?r) = workspace_view ?r"
    by (rule commit_workspace) (simp_all add: sync_deps_def ids_deps_def)
  moreover have "s' = commit ?c ?r" using cleared_request [of s] by (simp add: s'_def workspace_answer_def)
  ultimately show ?thesis using cleared_request [of s] by (simp add: workspace_view_def)
qed

end
