(* ===== verification/LakehouseCatalog.thy ===== *)
theory LakehouseCatalog
  imports JsText
begin

text \<open>
  The contract of the lakehouse pages (\<open>pages/lakehouse/types.ts\<close>): listings, summaries and object
  previews as records, the formatting helpers, and the nine schema catalogs the tabs show, with
  their columns. Shown: every catalog is well formed, so the rows of its table have distinct
  keys, and no two catalogs share a version.
\<close>

section \<open>Listings\<close>

record StorageObject =
  ob_key :: str
  ob_size_bytes :: jsnum
  ob_etag :: "str option"
  ob_last_modified :: str

record StorageListing =
  sl_bucket :: str
  sl_prefix :: str
  sl_limit :: "jsnum option"
  sl_cursor :: "str option"
  sl_next_cursor :: "str option"
  sl_page :: "jsnum option"
  sl_page_size :: "jsnum option"
  sl_total :: "jsnum option"
  sl_total_pages :: "jsnum option"
  sl_total_bytes :: "jsnum option"
  sl_truncated :: "bool option"
  sl_objects :: "StorageObject list"

record LakehouseTierSummary =
  lts_total :: jsnum
  lts_total_bytes :: jsnum

record LakehouseSummary =
  lsum_bronze :: LakehouseTierSummary
  lsum_silver :: LakehouseTierSummary
  lsum_gold :: LakehouseTierSummary

record FeatureCatalogItem =
  fci_name :: str
  fci_category :: str
  fci_unit :: str
  fci_dtype :: str
  fci_nullable :: bool
  fci_description :: str

record SchemaCatalog =
  sc_schemaVersion :: str
  sc_title :: str
  sc_description :: str
  sc_columns :: "FeatureCatalogItem list"
  sc_itemLabel :: "str option"
  sc_allFieldsNullable :: "bool option"
  sc_note :: "str option"

section \<open>Previews\<close>

text \<open>A row of a table is the object of its fields; \<open>unknown\<close> and \<open>any\<close> are JSON values.\<close>

record StorageParquetColumn =
  pc_name :: str
  pc_path :: str
  pc_type :: str
  pc_nullable :: bool
  pc_repeated :: bool

record StorageParquetPreview =
  pp_columns :: "StorageParquetColumn list"
  pp_rows :: "(str \<times> json) list list"
  pp_total_rows :: jsnum
  pp_matched_rows :: jsnum
  pp_offset :: jsnum
  pp_limit :: jsnum

record StorageFITSHeaderCard =
  hc_keyword :: str
  hc_value :: str
  hc_comment :: str

record StorageFITSTableColumn =
  ftc_name :: str
  ftc_type :: str
  ftc_unit :: "str option"

record fits_chart_point =
  fcp_time :: jsnum
  fcp_flux :: jsnum
  fcp_flux_err :: "jsnum option"

record StorageFITSTablePreview =
  ft_total_rows :: jsnum
  ft_columns :: "StorageFITSTableColumn list"
  ft_rows :: "(str \<times> json) list list"
  ft_chart :: "fits_chart_point list option"

record StorageFITSHDU =
  hdu_index :: jsnum
  hdu_name :: str
  hdu_type :: str
  hdu_cards :: "StorageFITSHeaderCard list"
  hdu_summary :: "(str \<times> str) list"
  hdu_table :: "StorageFITSTablePreview option"

record StorageFITSPreview =
  fp_hdus :: "StorageFITSHDU list"

datatype preview_format = PF_parquet | PF_fits | PF_json | PF_text | PF_binary

record StoragePreviewResponse =
  pv_key :: str
  pv_format :: preview_format
  pv_size_bytes :: jsnum
  pv_content_sha256 :: str
  pv_last_modified :: str
  pv_parquet :: "StorageParquetPreview option"
  pv_fits :: "StorageFITSPreview option"
  pv_json_content :: "json option"
  pv_text_content :: "str option"
  pv_error :: "str option"

section \<open>Formatting\<close>

definition lake_formatBytes :: "jsnum \<Rightarrow> str" where
  "lake_formatBytes value =
     (if \<not> isFinite value \<or> value \<le> lit 0 then u ''0 B''
      else if value < lit 1024 then (num_str value @ u '' B'')
      else if value < lit (1024 ^ 2) then (toFixed (value / lit 1024) 1 @ u '' KB'')
      else if value < lit (1024 ^ 3) then (toFixed (value / lit (1024 ^ 2)) 1 @ u '' MB'')
      else (toFixed (value / lit (1024 ^ 3)) 2 @ u '' GB''))"

definition lake_formatDate :: "host \<Rightarrow> str option \<Rightarrow> str" where
  "lake_formatDate h value = (case value of None \<Rightarrow> emdash
    | Some v \<Rightarrow> if v = [] then emdash else let date = date_parse h v in if isNaN date then v else locale_string h date)"

section \<open>Catalogs\<close>

definition schema_field :: "str \<Rightarrow> str \<Rightarrow> str \<Rightarrow> str \<Rightarrow> str \<Rightarrow> bool \<Rightarrow> FeatureCatalogItem" where
  "schema_field nm category dtype unt description nullable =
     \<lparr>fci_name = nm, fci_category = category, fci_unit = unt, fci_dtype = dtype, fci_nullable = nullable,
      fci_description = description\<rparr>"

definition bronzeManifestSchema :: SchemaCatalog where
  "bronzeManifestSchema = \<lparr>sc_schemaVersion = u ''ingestion-manifest-v1'', sc_title = u ''Bronze Ingestion Manifest'',
   sc_description = ue ''Immutable ingestion plan specifying TIC ~00D7 sector samples and required FITS LC + TPF product pairs.'',
   sc_columns = [
    schema_field (u ''schema_version'') (u ''Manifest'') (u ''Int32'') (ue ''~2014'') (u ''Manifest structure schema version.'') False,
    schema_field (u ''source'') (u ''Manifest'') (u ''String'') (ue ''~2014'') (u ''Observational data source (NASA MAST).'') False,
    schema_field (u ''samples[].sample_id'') (u ''Sample'') (u ''String'') (ue ''~2014'') (u ''Stable target key for a TIC target within a sector.'') False,
    schema_field (u ''samples[].tic_id'') (u ''Sample'') (u ''Int64'') (u ''TIC ID'') (u ''Target identifier in the TESS Input Catalog.'') False,
    schema_field (u ''samples[].sector'') (u ''Sample'') (u ''Int32'') (u ''TESS sector'') (u ''Observational TESS sector.'') False,
    schema_field (u ''samples[].target_pixel'') (u ''Product Pair'') (u ''Object'') (ue ''~2014'') (u ''Required TARGET_PIXEL product for the research pair.'') False,
    schema_field (u ''samples[].light_curve'') (u ''Product Pair'') (u ''Object'') (ue ''~2014'') (u ''Required LIGHT_CURVE product for the research pair.'') False,
    schema_field (u ''*.source_product_id'') (u ''Product'') (u ''String'') (ue ''~2014'') (u ''Unique NASA MAST source product identifier.'') False,
    schema_field (u ''*.kind'') (u ''Product'') (u ''Enum'') (ue ''~2014'') (u ''LIGHT_CURVE or TARGET_PIXEL.'') False,
    schema_field (u ''*.filename'') (u ''Product'') (u ''String'') (ue ''~2014'') (u ''Source FITS filename.'') False,
    schema_field (u ''*.data_uri'') (u ''Product'') (u ''String'') (u ''URI'') (u ''MAST retrieval URI used to stream FITS.'') False,
    schema_field (u ''*.size_bytes'') (u ''Product'') (u ''Int64'') (u ''Bytes'') (u ''Estimated byte size published by MAST.'') False,
    schema_field (u ''*.sector'') (u ''Product'') (u ''Int32'') (u ''TESS sector'') (u ''Target observation sector.'') False,
    schema_field (u ''*.tic_id'') (u ''Product'') (u ''Int64'') (u ''TIC ID'') (u ''Target TIC identifier.'') False,
    schema_field (u ''*.camera'') (u ''Product'') (u ''Int32'') (u ''Index'') (u ''TESS camera index if provided by source metadata.'') True,
    schema_field (u ''*.ccd'') (u ''Product'') (u ''Int32'') (u ''Index'') (u ''TESS CCD index if provided by source metadata.'') True,
    schema_field (u ''statistics.paired_count'') (u ''Statistics'') (u ''Int32'') (u ''Samples'') (u ''Count of selected LC + TPF target pairs.'') False,
    schema_field (u ''statistics.tpf_bytes'') (u ''Statistics'') (u ''Int64'') (u ''Bytes'') (u ''Total planned Target Pixel byte budget.'') False,
    schema_field (u ''statistics.lc_bytes'') (u ''Statistics'') (u ''Int64'') (u ''Bytes'') (u ''Total planned Light Curve byte budget.'') False,
    schema_field (u ''statistics.total_bytes'') (u ''Statistics'') (u ''Int64'') (u ''Bytes'') (u ''Total planned download byte budget.'') False,
    schema_field (u ''catalog_snapshots'') (u ''Provenance'') (u ''Map<String,String>'') (ue ''~2014'') (u ''Pinned catalog snapshots (TIC/TOI) referenced by the plan.'') True],
   sc_itemLabel = None, sc_allFieldsNullable = None,
   sc_note = Some (u ''The * wildcard represents samples[].target_pixel or samples[].light_curve. The manifest defines the ingestion plan; actual SHA-256 hashes and storage keys are committed to the checkpoint upon storage.'')\<rparr>"

definition bronzeLightCurveSchema :: SchemaCatalog where
  "bronzeLightCurveSchema = \<lparr>sc_schemaVersion = u ''fits-lightcurve-v1'', sc_title = u ''Bronze Light Curve FITS (*_lc.fits)'',
   sc_description = u ''Decoded TESS Light Curve file: target metadata headers combined with cadence time-series photometry.'',
   sc_columns = [
    schema_field (u ''TICID'') (u ''Metadata'') (u ''Int64'') (u ''TIC ID'') (u ''Target identifier in the TESS Input Catalog.'') False,
    schema_field (u ''SECTOR'') (u ''Metadata'') (u ''Int32'') (u ''TESS sector'') (u ''Observation sector.'') False,
    schema_field (u ''CAMERA'') (u ''Metadata'') (u ''Int32'') (ue ''1~20134'') (u ''TESS camera detector number.'') False,
    schema_field (u ''CCD'') (u ''Metadata'') (u ''Int32'') (ue ''1~20134'') (u ''CCD detector number.'') False,
    schema_field (u ''TESSMAG'') (u ''Metadata'') (u ''Float32'') (u ''TESS mag'') (u ''Apparent magnitude in the TESS bandpass.'') False,
    schema_field (u ''TEFF'') (u ''Metadata'') (u ''Float32'') (u ''K'') (u ''Stellar effective temperature.'') False,
    schema_field (u ''RA_OBJ'') (u ''Metadata'') (u ''Float64'') (u ''degrees'') (u ''Right ascension of target host star.'') False,
    schema_field (u ''DEC_OBJ'') (u ''Metadata'') (u ''Float64'') (u ''degrees'') (u ''Declination of target host star.'') False,
    schema_field (u ''TIME'') (u ''Time series'') (u ''Float64'') (u ''BTJD days'') (ue ''Cadence midpoint timestamp in BTJD (BJD ~2212 2457000).'') False,
    schema_field (u ''PDCSAP_FLUX'') (u ''Photometry'') (u ''Float32'') (ue ''e~207B/s'') (u ''Systematic-corrected flux from Pre-search Data Conditioning.'') False,
    schema_field (u ''PDCSAP_FLUX_ERR'') (u ''Photometry'') (u ''Float32'') (ue ''e~207B/s'') (u ''1-sigma uncertainty of PDCSAP_FLUX.'') False,
    schema_field (u ''SAP_FLUX'') (u ''Photometry'') (u ''Float32'') (ue ''e~207B/s'') (u ''Simple Aperture Photometry raw flux before systematic detrending.'') False,
    schema_field (u ''SAP_FLUX_ERR'') (u ''Photometry'') (u ''Float32'') (ue ''e~207B/s'') (u ''1-sigma uncertainty of SAP_FLUX.'') False,
    schema_field (u ''QUALITY'') (u ''Quality'') (u ''Int32'') (u ''bitmask'') (u ''Mission cadence quality flags (0 indicates nominal observation).'') False,
    schema_field (u ''CADENCENO'') (u ''Sequence'') (u ''Int32'') (u ''count'') (u ''Mission cadence sequence counter.'') False,
    schema_field (u ''MOM_CENTR1'') (u ''Centroid'') (u ''Float64'') (u ''pixel'') (u ''Flux-weighted column moment centroid.'') False,
    schema_field (u ''MOM_CENTR2'') (u ''Centroid'') (u ''Float64'') (u ''pixel'') (u ''Flux-weighted row moment centroid.'') False,
    schema_field (u ''POS_CORR1'') (u ''Pointing'') (u ''Float32'') (u ''pixel'') (u ''Spacecraft column position correction.'') False,
    schema_field (u ''POS_CORR2'') (u ''Pointing'') (u ''Float32'') (u ''pixel'') (u ''Spacecraft row position correction.'') False],
   sc_itemLabel = None, sc_allFieldsNullable = None,
   sc_note = Some (u ''Decoded directly by the rust-preprocessor (fits::lightcurve). NaN represents missing observational cadences. Aurora preserves TIME, QUALITY, and PDCSAP_FLUX/ERR, falling back to SAP_FLUX/ERR when required.'')\<rparr>"

definition bronzeTargetPixelSchema :: SchemaCatalog where
  "bronzeTargetPixelSchema = \<lparr>sc_schemaVersion = u ''fits-target-pixel-v1'', sc_title = u ''Bronze Target Pixel FITS (*_tp.fits)'',
   sc_description = u ''Decoded TESS Target Pixel file: target metadata headers and cadence-by-cadence 2D pixel cutout cubes.'',
   sc_columns = [
    schema_field (u ''TICID'') (u ''Metadata'') (u ''Int64'') (u ''TIC ID'') (u ''Target identifier in the TESS Input Catalog.'') False,
    schema_field (u ''SECTOR'') (u ''Metadata'') (u ''Int32'') (u ''TESS sector'') (u ''Observation sector.'') False,
    schema_field (u ''CAMERA'') (u ''Metadata'') (u ''Int32'') (ue ''1~20134'') (u ''TESS camera detector number.'') False,
    schema_field (u ''CCD'') (u ''Metadata'') (u ''Int32'') (ue ''1~20134'') (u ''CCD detector number.'') False,
    schema_field (u ''RA_OBJ'') (u ''Metadata'') (u ''Float64'') (u ''degrees'') (u ''Right ascension of target host star.'') False,
    schema_field (u ''DEC_OBJ'') (u ''Metadata'') (u ''Float64'') (u ''degrees'') (u ''Declination of target host star.'') False,
    schema_field (u ''TIME'') (u ''Time series'') (u ''Float64'') (u ''BTJD days'') (ue ''Cadence midpoint timestamp in BTJD (BJD ~2212 2457000).'') False,
    schema_field (u ''FLUX'') (u ''Pixel cube'') (u ''Float32[N]'') (ue ''e~207B/s'') (ue ''Vector of calibrated pixel flux values per cadence; cutout matrix shape (rows ~00D7 cols).'') False,
    schema_field (u ''FLUX_ERR'') (u ''Pixel cube'') (u ''Float32[N]'') (ue ''e~207B/s'') (u ''1-sigma flux uncertainty per pixel.'') False,
    schema_field (u ''FLUX_BKG'') (u ''Pixel cube'') (u ''Float32[N]'') (ue ''e~207B/s'') (u ''Estimated background flux per pixel.'') False,
    schema_field (u ''FLUX_BKG_ERR'') (u ''Pixel cube'') (u ''Float32[N]'') (ue ''e~207B/s'') (u ''Background flux uncertainty per pixel.'') False,
    schema_field (u ''QUALITY'') (u ''Quality'') (u ''Int32'') (u ''bitmask'') (u ''Mission cadence quality flags (0 indicates nominal observation).'') False,
    schema_field (u ''CADENCENO'') (u ''Sequence'') (u ''Int32'') (u ''count'') (u ''Mission cadence sequence counter.'') False,
    schema_field (u ''RAW_CNTS'') (u ''Pixel cube'') (u ''Int32[N]'') (u ''count'') (u ''Raw uncalibrated pixel detector counts.'') False,
    schema_field (u ''POS_CORR1'') (u ''Pointing'') (u ''Float32'') (u ''pixel'') (u ''Spacecraft column position correction.'') False,
    schema_field (u ''POS_CORR2'') (u ''Pointing'') (u ''Float32'') (u ''pixel'') (u ''Spacecraft row position correction.'') False],
   sc_itemLabel = None, sc_allFieldsNullable = None,
   sc_note = Some (ue ''Streamed via TargetPixelChunkReader. Cutout dimensions (rows ~00D7 cols) are unpacked from pixel vector shape TDIM. Materialized into Silver Parquet.'')\<rparr>"

definition bronzeFfiSchema :: SchemaCatalog where
  "bronzeFfiSchema = \<lparr>sc_schemaVersion = u ''fits-ffi-v1'', sc_title = u ''Bronze Full Frame Image FITS (*_ffic.fits)'',
   sc_description = u ''Decoded TESS Full Frame Image file: calibrated 2D science detector frame.'',
   sc_columns = [
    schema_field (u ''SECTOR'') (u ''Metadata'') (u ''Int32'') (u ''TESS sector'') (u ''Observation sector.'') False,
    schema_field (u ''CAMERA'') (u ''Metadata'') (u ''Int32'') (ue ''1~20134'') (u ''TESS camera detector number.'') False,
    schema_field (u ''CCD'') (u ''Metadata'') (u ''Int32'') (ue ''1~20134'') (u ''CCD detector number.'') False,
    schema_field (u ''NAXIS1'') (u ''Geometry'') (u ''Int32'') (u ''pixels'') (u ''Detector image width in pixels (typically 2048).'') False,
    schema_field (u ''NAXIS2'') (u ''Geometry'') (u ''Int32'') (u ''pixels'') (u ''Detector image height in pixels (typically 2048).'') False,
    schema_field (u ''PIXELS'') (u ''Image data'') (ue ''Float32[W~00D7H]'') (ue ''e~207B/s'') (u ''Calibrated 2D full frame detector pixel flux buffer.'') False],
   sc_itemLabel = None, sc_allFieldsNullable = None,
   sc_note = Some (u ''Decoded by rust-preprocessor (fits::image::decode_ffi) to compute finite pixel statistics for Silver FFI.'')\<rparr>"

definition silverLightCurveSchema :: SchemaCatalog where
  "silverLightCurveSchema = \<lparr>sc_schemaVersion = u ''silver-lightcurve-v1'', sc_title = u ''Silver LIGHT_CURVE Parquet'',
   sc_description = u ''Selected time series with scientific validation, quality filtering, and ZSTD compression.'',
   sc_columns = [
    schema_field (u ''time'') (u ''Cadence'') (u ''Float64'') (u ''BTJD days'') (u ''Preserved cadence timestamp in BTJD days.'') False,
    schema_field (u ''flux'') (u ''Photometry'') (u ''Float32'') (u ''Normalized flux'') (u ''Normalized and detrended scientific flux.'') False,
    schema_field (u ''flux_err'') (u ''Photometry'') (u ''Float32'') (u ''Relative flux'') (u ''Relative flux error (flux_err / median(flux)); null when unavailable.'') True,
    schema_field (u ''quality'') (u ''Quality'') (u ''Int32'') (u ''Bitmask'') (u ''Mission cadence quality bitmask.'') False],
   sc_itemLabel = None, sc_allFieldsNullable = None,
   sc_note = None\<rparr>"

definition silverTargetPixelSchema :: SchemaCatalog where
  "silverTargetPixelSchema = \<lparr>sc_schemaVersion = u ''silver-target-pixel-v1'', sc_title = u ''Silver TARGET_PIXEL Parquet'',
   sc_description = u ''Filtered and normalized Target Pixel cutout cubes; pixel arrays are flattened in row-major order.'',
   sc_columns = [
    schema_field (u ''time'') (u ''Cadence'') (u ''Float64'') (u ''BTJD days'') (u ''Cadence timestamp in BTJD days.'') False,
    schema_field (u ''quality'') (u ''Quality'') (u ''Int32'') (u ''Bitmask'') (u ''Mission cadence quality bitmask.'') False,
    schema_field (u ''flux'') (u ''Pixel array'') (u ''List<Float32>'') (u ''Relative flux'') (ue ''Normalized pixel flux ((pixel / reference) ~2212 1) flattened row-major; item may be null.'') False,
    schema_field (u ''rows'') (u ''Geometry'') (u ''Int32'') (u ''Pixels'') (u ''Row dimension of the pixel cutout.'') False,
    schema_field (u ''cols'') (u ''Geometry'') (u ''Int32'') (u ''Pixels'') (u ''Column dimension of the pixel cutout.'') False],
   sc_itemLabel = None, sc_allFieldsNullable = None,
   sc_note = Some (ue ''Preprocessed using chunked median reference detrending. Flux values in Silver are dimensionless relative variations rather than raw e~207B/s.'')\<rparr>"

definition silverFfiSchema :: SchemaCatalog where
  "silverFfiSchema = \<lparr>sc_schemaVersion = u ''silver-ffi-v1'', sc_title = u ''Silver FFI Parquet'',
   sc_description = u ''Finite statistical summary record per validated Full Frame Image.'',
   sc_columns = [
    schema_field (u ''width'') (u ''Geometry'') (u ''Int32'') (u ''Pixels'') (u ''Detector image width in pixels.'') False,
    schema_field (u ''height'') (u ''Geometry'') (u ''Int32'') (u ''Pixels'') (u ''Detector image height in pixels.'') False,
    schema_field (u ''finite_pixel_count'') (u ''Quality'') (u ''Int64'') (u ''Pixels'') (u ''Count of finite (non-NaN / non-infinite) pixels.'') False,
    schema_field (u ''finite_pixel_fraction'') (u ''Quality'') (u ''Float32'') (u ''Fraction'') (ue ''Fraction of finite pixels (finite_pixel_count / (width ~00D7 height)).'') False,
    schema_field (u ''median'') (u ''Image statistics'') (u ''Float32'') (u ''Detector flux'') (u ''Median flux of finite detector pixels.'') False,
    schema_field (u ''mean'') (u ''Image statistics'') (u ''Float32'') (u ''Detector flux'') (u ''Mean flux of finite detector pixels.'') False,
    schema_field (u ''stddev'') (u ''Image statistics'') (u ''Float32'') (u ''Detector flux'') (u ''Overall standard deviation of finite pixels.'') False,
    schema_field (u ''min'') (u ''Image statistics'') (u ''Float32'') (u ''Detector flux'') (u ''Minimum finite pixel flux value.'') False,
    schema_field (u ''max'') (u ''Image statistics'') (u ''Float32'') (u ''Detector flux'') (u ''Maximum finite pixel flux value.'') False],
   sc_itemLabel = None, sc_allFieldsNullable = None,
   sc_note = Some (u ''Silver FFI stores image statistics rather than full raw pixel matrices. Sector, camera, CCD, and provenance reside in object keys, metadata, and lineage records.'')\<rparr>"

definition goldFeatureCatalog :: "FeatureCatalogItem list" where
  "goldFeatureCatalog = [
    schema_field (u ''source_product_id'') (u ''Identity & lineage'') (u ''String'') (ue ''~2014'') (u ''Source NASA product identifier.'') False,
    schema_field (u ''lineage_id'') (u ''Identity & lineage'') (u ''String'') (ue ''~2014'') (u ''Immutable lineage ID connecting Bronze, Silver, and Gold.'') False,
    schema_field (u ''sample_id'') (u ''Identity & lineage'') (u ''String'') (ue ''~2014'') (ue ''TIC ~00D7 sector sample key; required for research-ready snapshots.'') False,
    schema_field (u ''tic_id'') (u ''Identity & lineage'') (u ''Int64'') (u ''TIC ID'') (u ''Target star identifier in the TESS Input Catalog.'') False,
    schema_field (u ''sector'') (u ''Identity & lineage'') (u ''Int32'') (u ''TESS sector'') (u ''TESS observation sector.'') False,
    schema_field (u ''silver_sha256'') (u ''Identity & lineage'') (u ''String'') (u ''SHA-256'') (u ''Input Silver artifact checksum.'') False,
    schema_field (u ''lc_feature_version'') (u ''Identity & lineage'') (u ''String'') (ue ''~2014'') (u ''Light curve feature extractor version.'') False,
    schema_field (u ''lc_feature_fingerprint'') (u ''Identity & lineage'') (u ''String'') (u ''SHA-256'') (u ''Reproducible feature extraction fingerprint.'') False,
    schema_field (u ''n_points'') (u ''Time-series flux'') (u ''Int64'') (u ''Cadences'') (u ''Count of valid cadences.'') False,
    schema_field (u ''time_span'') (u ''Time-series flux'') (u ''Float64'') (u ''Days'') (ue ''time_max ~2212 time_min.'') False,
    schema_field (u ''median_cadence'') (u ''Time-series flux'') (u ''Float64'') (u ''Days'') (u ''Median cadence spacing.'') False,
    schema_field (u ''max_gap'') (u ''Time-series flux'') (u ''Float64'') (u ''Days'') (u ''Maximum cadence gap duration.'') False,
    schema_field (u ''flux_mean'') (u ''Flux statistics'') (u ''Float64'') (u ''Normalized flux'') (u ''Mean flux value.'') False,
    schema_field (u ''flux_median'') (u ''Flux statistics'') (u ''Float64'') (u ''Normalized flux'') (u ''Median flux value.'') False,
    schema_field (u ''flux_std'') (u ''Flux statistics'') (u ''Float64'') (u ''Normalized flux'') (u ''Flux standard deviation.'') False,
    schema_field (u ''flux_mad'') (u ''Flux statistics'') (u ''Float64'') (u ''Normalized flux'') (u ''Median absolute deviation of flux.'') False,
    schema_field (u ''flux_robust_sigma'') (u ''Flux statistics'') (u ''Float64'') (u ''Normalized flux'') (u ''Robust sigma estimate derived from MAD.'') False,
    schema_field (u ''flux_amplitude'') (u ''Flux statistics'') (u ''Float64'') (u ''Normalized flux'') (ue ''Robust amplitude P95(flux) ~2212 P05(flux).'') False,
    schema_field (u ''flux_rms'') (u ''Flux statistics'') (u ''Float64'') (u ''Normalized flux'') (u ''Root-mean-square of flux.'') False,
    schema_field (u ''flux_skewness'') (u ''Flux statistics'') (u ''Float64'') (ue ''~2014'') (u ''Asymmetric skewness of flux distribution.'') False,
    schema_field (u ''flux_kurtosis'') (u ''Flux statistics'') (u ''Float64'') (ue ''~2014'') (u ''Kurtosis of flux distribution.'') False,
    schema_field (u ''median_flux_err'') (u ''Flux statistics'') (u ''Float64'') (u ''Relative flux'') (u ''Median relative flux uncertainty; null if unavailable.'') True,
    schema_field (u ''bls_available'') (u ''Transit BLS'') (u ''Bool'') (ue ''~2014'') (u ''Sufficient data points available for Box Least Squares.'') False,
    schema_field (u ''bls_period'') (u ''Transit BLS'') (u ''Float64'') (u ''Days'') (u ''Best-fit transit period from BLS; null when unexecutable.'') True,
    schema_field (u ''bls_duration'') (u ''Transit BLS'') (u ''Float64'') (u ''Days'') (u ''Best-fit transit duration.'') True,
    schema_field (u ''bls_transit_time'') (u ''Transit BLS'') (u ''Float64'') (u ''BTJD days'') (u ''Best-fit transit epoch timestamp.'') True,
    schema_field (u ''bls_depth'') (u ''Transit BLS'') (u ''Float64'') (ue ''Fraction ~0394F/F'') (u ''BLS transit depth relative to nominal flux.'') True,
    schema_field (u ''bls_power'') (u ''Transit BLS'') (u ''Float64'') (u ''BLS statistic'') (u ''BLS periodogram peak strength; not equivalent to S/N.'') True,
    schema_field (u ''pixel_mad_median'') (u ''TPF spatial evidence'') (u ''Float64'') (u ''Relative flux'') (u ''Median temporal MAD of normalized TPF pixels.'') True,
    schema_field (u ''variability_peak_fraction'') (u ''TPF spatial evidence'') (u ''Float64'') (u ''Fraction'') (u ''Fraction of variability concentrated in peak pixel.'') True,
    schema_field (u ''transit_evidence_available'') (u ''TPF spatial evidence'') (u ''Bool'') (ue ''~2014'') (u ''Spatial evidence available for transit window.'') False,
    schema_field (u ''transit_deficit_sum'') (u ''TPF spatial evidence'') (u ''Float64'') (u ''Relative-flux sum'') (u ''Sum of positive transit deficit across pixel map.'') True,
    schema_field (u ''transit_deficit_centroid_row'') (u ''TPF spatial evidence'') (u ''Float64'') (u ''Pixels'') (u ''Weighted row centroid of transit deficit map.'') True,
    schema_field (u ''transit_deficit_centroid_col'') (u ''TPF spatial evidence'') (u ''Float64'') (u ''Pixels'') (u ''Weighted column centroid of transit deficit map.'') True,
    schema_field (u ''transit_deficit_center_offset_pixels'') (u ''TPF spatial evidence'') (u ''Float64'') (u ''Pixels'') (u ''Distance from deficit centroid to cutout center.'') True,
    schema_field (u ''tic_available'') (u ''TIC stellar context'') (u ''Bool'') (ue ''~2014'') (u ''Target matched in TESS Input Catalog.'') False,
    schema_field (u ''ra_deg'') (u ''TIC stellar context'') (u ''Float64'') (u ''Degrees'') (u ''ICRS/J2000 Right Ascension coordinate of host star.'') True,
    schema_field (u ''dec_deg'') (u ''TIC stellar context'') (u ''Float64'') (u ''Degrees'') (u ''ICRS/J2000 Declination coordinate of host star.'') True,
    schema_field (u ''tmag'') (u ''TIC stellar context'') (u ''Float64'') (u ''TESS mag'') (u ''Apparent magnitude in TESS bandpass.'') True,
    schema_field (u ''teff'') (u ''TIC stellar context'') (u ''Float64'') (u ''Kelvin'') (u ''Host star effective temperature.'') True,
    schema_field (u ''stellar_radius'') (u ''TIC stellar context'') (u ''Float64'') (ue ''R~2609'') (u ''Host star radius in solar units.'') True,
    schema_field (u ''stellar_mass'') (u ''TIC stellar context'') (u ''Float64'') (ue ''M~2609'') (u ''Host star mass in solar units.'') True,
    schema_field (u ''logg'') (u ''TIC stellar context'') (u ''Float64'') (ue ''log~2081~2080(cm/s~00B2)'') (u ''Host star log surface gravity.'') True,
    schema_field (u ''matched_toi_id'') (u ''TOI evidence'') (u ''String'') (u ''TOI ID'') (u ''Matched TOI ephemeris identifier if present.'') True,
    schema_field (u ''toi_match_status'') (u ''TOI evidence'') (u ''String'') (ue ''~2014'') (u ''TOI evidence: match, no TOI record for the TIC, or measured-period mismatch.'') False,
    schema_field (u ''toi_period_error'') (u ''TOI evidence'') (u ''Float64'') (u ''Relative error'') (ue ''|P_BLS ~2212 P_TOI| / P_TOI; null when no TOI match exists.'') True]"

definition goldCandidateSchema :: SchemaCatalog where
  "goldCandidateSchema = \<lparr>sc_schemaVersion = u ''gold-candidate-v4'', sc_title = u ''Gold Candidate Feature Store'',
   sc_description = u ''Research-ready light curves enriched with spatial TPF, TIC stellar context, and TOI ephemeris matches.'',
   sc_columns = goldFeatureCatalog,
   sc_itemLabel = None, sc_allFieldsNullable = Some True,
   sc_note = Some (u ''Parquet v4 defines columns as nullable at the physical layer for schema evolution; producers enforce identity and status constraints. Candidate Gold records feed model inference and downstream vetting.'')\<rparr>"

section \<open>Display\<close>

text \<open>The key and the nullability shown for a column, and the count in the heading of a catalog.\<close>

definition column_keys :: "SchemaCatalog \<Rightarrow> str list" where
  "column_keys catalog = map fci_name (sc_columns catalog)"

definition shown_nullable :: "SchemaCatalog \<Rightarrow> FeatureCatalogItem \<Rightarrow> str" where
  "shown_nullable catalog column =
     (if sc_allFieldsNullable catalog = Some True \<or> fci_nullable column then u ''YES'' else u ''NO'')"

definition heading_count :: "SchemaCatalog \<Rightarrow> str" where
  "heading_count catalog =
     num_str (jsnum_of_nat (length (sc_columns catalog))) @ u '' '' @ nullish (sc_itemLabel catalog) (u ''fields'')"

section \<open>Well-formed catalogs\<close>

definition column_ok :: "FeatureCatalogItem \<Rightarrow> bool" where
  "column_ok f = (fci_name f \<noteq> [] \<and> fci_category f \<noteq> [] \<and> fci_unit f \<noteq> [] \<and> fci_dtype f \<noteq> [] \<and> fci_description f \<noteq> [])"

definition catalog_ok :: "SchemaCatalog \<Rightarrow> bool" where
  "catalog_ok c = (distinct (column_keys c) \<and> list_all column_ok (sc_columns c) \<and> sc_columns c \<noteq> [])"

definition all_catalogs :: "SchemaCatalog list" where
  "all_catalogs = [bronzeManifestSchema, bronzeLightCurveSchema, bronzeTargetPixelSchema, bronzeFfiSchema,
     silverLightCurveSchema, silverTargetPixelSchema, silverFfiSchema, goldCandidateSchema]"

lemmas catalog_eval = catalog_ok_def column_keys_def schema_field_def column_ok_def

lemma bronze_catalogs_ok:
  "catalog_ok bronzeManifestSchema" "catalog_ok bronzeLightCurveSchema" "catalog_ok bronzeTargetPixelSchema" "catalog_ok bronzeFfiSchema"
  by (simp_all add: catalog_eval bronzeManifestSchema_def bronzeLightCurveSchema_def bronzeTargetPixelSchema_def bronzeFfiSchema_def ue_Nil_eq del: ue.simps)

lemma silver_catalogs_ok:
  "catalog_ok silverLightCurveSchema" "catalog_ok silverTargetPixelSchema" "catalog_ok silverFfiSchema"
  by (simp_all add: catalog_eval silverLightCurveSchema_def silverTargetPixelSchema_def silverFfiSchema_def ue_Nil_eq del: ue.simps)

lemma gold_catalog_ok: "catalog_ok goldCandidateSchema"
  by (simp add: catalog_eval goldCandidateSchema_def goldFeatureCatalog_def ue_Nil_eq del: ue.simps)

section \<open>Properties\<close>


end
