(* ===== verification/Lakehouse.thy ===== *)
theory Lakehouse
  imports LakehouseCatalog JsConvert
begin

text \<open>
  The lakehouse page (\<open>pages/lakehouse/page.tsx\<close>) with the computed values of its tier cards
  and the pager of its object table: three tiers with a listing each, queries keyed by their
  text so that no query is sent twice at once, and answers in any order. Shown: the set of
  queries in flight is exact for every sequence of actions and answers; the pager only asks for
  pages that exist; and three ways in which the table shows something else than was asked for.
\<close>

section \<open>State\<close>

definition lakehouse_PAGE_SIZE :: jsnum where
  "lakehouse_PAGE_SIZE = lit 25"

datatype tier = T_bronze | T_silver | T_gold

definition tier_name :: "tier \<Rightarrow> str" where
  "tier_name t = (case t of T_bronze \<Rightarrow> u ''bronze'' | T_silver \<Rightarrow> u ''silver'' | T_gold \<Rightarrow> u ''gold'')"

text \<open>\<open>lk_requests\<close> are the calls of \<open>loadTier\<close> that wait for their answer, with prefix and query.\<close>

record lakehouse_page =
  lk_activeTab :: tier
  lk_bronzeData :: "StorageListing option"
  lk_silverData :: "StorageListing option"
  lk_goldData :: "StorageListing option"
  lk_summary :: "LakehouseSummary option"
  lk_currentPrefix :: str
  lk_page :: jsnum
  lk_loading :: bool
  lk_error :: "str option"
  lk_searchQuery :: str
  lk_inFlight :: "str list"
  lk_requests :: "(nat \<times> str \<times> str) list"
  lk_next :: nat

section \<open>Queries\<close>

text \<open>\<open>None\<close> when a part of the query cannot be encoded.\<close>

definition tier_query :: "str \<Rightarrow> jsnum \<Rightarrow> str \<Rightarrow> str option" where
  "tier_query tierPrefix targetPage search =
     (case (encodeURIComponent tierPrefix, if search = [] then Some [] else map_option (\<lambda>e. u ''&search='' @ e) (encodeURIComponent search)) of
        (Some p, Some q) \<Rightarrow> Some ((u ''/v1/lakehouse/objects?prefix='' @ p @ u ''&page='' @ num_str targetPage @ u ''&limit='' @ num_str lakehouse_PAGE_SIZE @ q))
      | _ \<Rightarrow> None)"

definition loadTier :: "str \<Rightarrow> jsnum \<Rightarrow> str \<Rightarrow> lakehouse_page \<Rightarrow> lakehouse_page" where
  "loadTier tierPrefix targetPage search s = (case tier_query tierPrefix targetPage search of None \<Rightarrow> s
    | Some query \<Rightarrow>
        if query \<in> set (lk_inFlight s) then s
        else s\<lparr>lk_inFlight := lk_inFlight s @ [query], lk_loading := True, lk_error := None,
               lk_requests := lk_requests s @ [(lk_next s, tierPrefix, query)], lk_next := Suc (lk_next s)\<rparr>)"

definition set_tier :: "str \<Rightarrow> StorageListing \<Rightarrow> lakehouse_page \<Rightarrow> lakehouse_page" where
  "set_tier tierPrefix data s =
     (if startsWith tierPrefix (u ''bronze'') then s\<lparr>lk_bronzeData := Some data\<rparr>
      else if startsWith tierPrefix (u ''silver'') then s\<lparr>lk_silverData := Some data\<rparr>
      else if startsWith tierPrefix (u ''gold'') then s\<lparr>lk_goldData := Some data\<rparr> else s)"

text \<open>The answer to call \<open>r\<close>: \<open>Inl\<close> the message of the error, \<open>Inr\<close> the listing.\<close>

definition settle_tier :: "nat \<Rightarrow> str + StorageListing \<Rightarrow> lakehouse_page \<Rightarrow> lakehouse_page" where
  "settle_tier r answer s = (case map_of (lk_requests s) r of None \<Rightarrow> s
    | Some (tierPrefix, query) \<Rightarrow>
        (case answer of Inr data \<Rightarrow> set_tier tierPrefix data s | Inl message \<Rightarrow> s\<lparr>lk_error := Some message\<rparr>)
          \<lparr>lk_inFlight := filter (\<lambda>q. q \<noteq> query) (lk_inFlight s), lk_loading := False,
           lk_requests := filter (\<lambda>x. fst x \<noteq> r) (lk_requests s)\<rparr>)"

definition initial_lakehouse :: lakehouse_page where
  "initial_lakehouse = loadTier (u ''gold/'') (lit 1) [] \<lparr>lk_activeTab = T_gold, lk_bronzeData = None, lk_silverData = None,
     lk_goldData = None, lk_summary = None, lk_currentPrefix = u ''gold/'', lk_page = lit 1, lk_loading = False, lk_error = None,
     lk_searchQuery = [], lk_inFlight = [], lk_requests = [], lk_next = 0\<rparr>"

text \<open>The answer of the summary request; a failure leaves the summary as it is.\<close>

definition settle_summary :: "LakehouseSummary option \<Rightarrow> lakehouse_page \<Rightarrow> lakehouse_page" where
  "settle_summary answer s = (case answer of Some d \<Rightarrow> s\<lparr>lk_summary := Some d\<rparr> | None \<Rightarrow> s)"

section \<open>Handlers\<close>

definition tier_data :: "tier \<Rightarrow> lakehouse_page \<Rightarrow> StorageListing option" where
  "tier_data t s = (case t of T_bronze \<Rightarrow> lk_bronzeData s | T_silver \<Rightarrow> lk_silverData s | T_gold \<Rightarrow> lk_goldData s)"

definition handleTabChange :: "tier \<Rightarrow> lakehouse_page \<Rightarrow> lakehouse_page" where
  "handleTabChange nextTab s =
     (let prefix = tier_name nextTab @ u ''/'';
          s1 = s\<lparr>lk_activeTab := nextTab, lk_page := lit 1, lk_searchQuery := [], lk_currentPrefix := prefix\<rparr>;
          alreadyLoaded = (tier_data nextTab s \<noteq> None)
      in if alreadyLoaded then s1 else loadTier prefix (lit 1) [] s1)"

definition handleSearchOrFilter :: "str \<Rightarrow> lakehouse_page \<Rightarrow> lakehouse_page" where
  "handleSearchOrFilter target s =
     (let trimmed = trim target;
          (nextPrefix, nextSearch) =
            (if str_includes trimmed (u ''/'') then (trimmed, [])
             else if trimmed \<noteq> [] then (tier_name (lk_activeTab s) @ u ''/'', trimmed)
             else (tier_name (lk_activeTab s) @ u ''/'', []))
      in loadTier nextPrefix (lit 1) nextSearch
           (s\<lparr>lk_page := lit 1, lk_currentPrefix := nextPrefix, lk_searchQuery := nextSearch\<rparr>))"

definition handlePageChange :: "jsnum \<Rightarrow> lakehouse_page \<Rightarrow> lakehouse_page" where
  "handlePageChange newPage s = loadTier (lk_currentPrefix s) newPage (lk_searchQuery s) (s\<lparr>lk_page := newPage\<rparr>)"

text \<open>The search forms of the bronze and gold tabs, and the presets of the silver tab.\<close>

definition handleSubmit :: "str \<Rightarrow> lakehouse_page \<Rightarrow> lakehouse_page" where
  "handleSubmit searchPrefix s =
     handleSearchOrFilter (if trim searchPrefix \<noteq> [] then trim searchPrefix else tier_name (lk_activeTab s) @ u ''/'') s"

definition silver_presets :: "str list" where
  "silver_presets = [u ''silver/tess/lightcurve/'', u ''silver/tess/target-pixel/'', u ''silver/tess/ffi/'']"

section \<open>Derived values\<close>

definition activeListing :: "lakehouse_page \<Rightarrow> StorageListing option" where
  "activeListing s = tier_data (lk_activeTab s) s"

definition lake_totalPages :: "StorageListing option \<Rightarrow> jsnum" where
  "lake_totalPages listing =
     (let tp = Option.bind listing sl_total_pages; tot = Option.bind listing sl_total in
      if (case tp of Some p \<Rightarrow> truthy p \<and> lit 0 < p | None \<Rightarrow> False) then the tp
      else case tot of None \<Rightarrow> lit 1
        | Some total_objects \<Rightarrow> if total_objects \<le> lit 0 then lit 1 else Math_max (lit 1) (Math_ceil (total_objects / lakehouse_PAGE_SIZE)))"

text \<open>The tier cards.\<close>

definition tier_bytes :: "StorageListing option \<Rightarrow> LakehouseTierSummary option \<Rightarrow> jsnum option" where
  "tier_bytes data sm = nullish2 (Option.bind data sl_total_bytes) (map_option lts_total_bytes sm)"

definition tier_total :: "StorageListing option \<Rightarrow> LakehouseTierSummary option \<Rightarrow> jsnum option" where
  "tier_total data sm = (case data of Some d \<Rightarrow> sl_total d | None \<Rightarrow> map_option lts_total sm)"

definition bronzeBufferCapacity :: jsnum where
  "bronzeBufferCapacity = lit (100 * 1024 * 1024 * 1024)"

definition bronzeUsedPercent :: "jsnum option \<Rightarrow> jsnum" where
  "bronzeUsedPercent bronzeBytes = (case bronzeBytes of
      Some b \<Rightarrow> Math_min (lit 100) (Math_round ((b / bronzeBufferCapacity) * lit 100)) | None \<Rightarrow> lit 0)"

text \<open>
  The pager of the object table: the page a control asks for, \<open>None\<close> when it is disabled or
  the typed number is not accepted.
\<close>

datatype pager = First | Previous | Jump str | Next | Last

definition handleJumpSubmit :: "str \<Rightarrow> jsnum \<Rightarrow> jsnum \<Rightarrow> jsnum option" where
  "handleJumpSubmit jumpPage pg pages =
     (let parsed = parseInt jumpPage in
      if \<not> isNaN parsed \<and> lit 1 \<le> parsed \<and> parsed \<le> pages \<and> \<not> num_eq parsed pg then Some parsed else None)"

definition pager_page :: "pager \<Rightarrow> lakehouse_page \<Rightarrow> jsnum option" where
  "pager_page b s =
     (let pg = lk_page s; pages = lake_totalPages (activeListing s); busy = lk_loading s in
      case b of
        First \<Rightarrow> if pg \<le> lit 1 \<or> busy then None else Some (lit 1)
      | Previous \<Rightarrow> if pg \<le> lit 1 \<or> busy then None else Some (pg - lit 1)
      | Jump text \<Rightarrow> handleJumpSubmit text pg pages
      | Next \<Rightarrow> if pages \<le> pg \<or> busy then None else Some (pg + lit 1)
      | Last \<Rightarrow> if pages \<le> pg \<or> busy then None else Some pages)"

definition use_pager :: "pager \<Rightarrow> lakehouse_page \<Rightarrow> lakehouse_page" where
  "use_pager b s = (case pager_page b s of Some p \<Rightarrow> handlePageChange p s | None \<Rightarrow> s)"

text \<open>The link of a row of the table.\<close>

definition inspector_link :: "str \<Rightarrow> str option" where
  "inspector_link key = map_option (\<lambda>e. u ''/lakehouse/inspector?key='' @ e) (encodeURIComponent key)"

section \<open>Runs of the page\<close>

datatype lake_event =
    Tab tier | Submit str | Preset nat | Pager pager | Answer nat "str + StorageListing" | Summary "LakehouseSummary option"

definition lake_step :: "lakehouse_page \<Rightarrow> lake_event \<Rightarrow> lakehouse_page" where
  "lake_step s e = (case e of
      Tab t \<Rightarrow> handleTabChange t s
    | Submit text \<Rightarrow> handleSubmit text s
    | Preset i \<Rightarrow> (case arr_at silver_presets i of Some p \<Rightarrow> handleSearchOrFilter p s | None \<Rightarrow> s)
    | Pager b \<Rightarrow> use_pager b s
    | Answer r answer \<Rightarrow> settle_tier r answer s
    | Summary answer \<Rightarrow> settle_summary answer s)"

section \<open>Queries in flight\<close>

definition flight_exact :: "lakehouse_page \<Rightarrow> bool" where
  "flight_exact s = (lk_inFlight s = map (snd \<circ> snd) (lk_requests s) \<and> distinct (lk_inFlight s) \<and>
     distinct (map fst (lk_requests s)) \<and> list_all (\<lambda>x. fst x < lk_next s) (lk_requests s))"

lemma flight_cong:
  "lk_inFlight s' = lk_inFlight s \<Longrightarrow> lk_requests s' = lk_requests s \<Longrightarrow> lk_next s' = lk_next s \<Longrightarrow>
   flight_exact s' = flight_exact s"
  by (simp add: flight_exact_def)

lemma flight_updates [simp]:
  "flight_exact (s\<lparr>lk_page := p\<rparr>) = flight_exact s" "flight_exact (s\<lparr>lk_summary := m\<rparr>) = flight_exact s"
  "flight_exact (s\<lparr>lk_page := p, lk_currentPrefix := c, lk_searchQuery := q\<rparr>) = flight_exact s"
  "flight_exact (s\<lparr>lk_activeTab := t, lk_page := p, lk_searchQuery := q, lk_currentPrefix := c\<rparr>) = flight_exact s"
  by (simp_all add: flight_exact_def)

lemma flight_load: "flight_exact s \<Longrightarrow> flight_exact (loadTier p n q s)"
  by (auto simp: loadTier_def flight_exact_def list_all_iff split: option.split)

lemma filter_snd_fst:
  "distinct (map fst xs) \<Longrightarrow> distinct (map (snd \<circ> snd) xs) \<Longrightarrow> (r, p, q) \<in> set xs \<Longrightarrow>
   filter (\<lambda>y. y \<noteq> q) (map (snd \<circ> snd) xs) = map (snd \<circ> snd) (filter (\<lambda>x. fst x \<noteq> r) xs)"
proof (induction xs)
  case (Cons x xs)
  have "filter (\<lambda>y. y \<noteq> q) (map (snd \<circ> snd) xs) = map (snd \<circ> snd) xs" "filter (\<lambda>x. fst x \<noteq> r) xs = xs"
    if "x = (r, p, q)"
    using that Cons.prems by (auto simp: filter_id_conv image_iff) 
  moreover have "fst x \<noteq> r \<and> snd (snd x) \<noteq> q" if "(r, p, q) \<in> set xs"
    using that Cons.prems by (force simp: image_iff)
  ultimately show ?case using Cons by (auto simp: comp_def)
qed simp

lemma set_tier_frame [simp]:
  "lk_inFlight (set_tier p d s) = lk_inFlight s" "lk_requests (set_tier p d s) = lk_requests s" "lk_next (set_tier p d s) = lk_next s"
  "lk_page (set_tier p d s) = lk_page s" "lk_activeTab (set_tier p d s) = lk_activeTab s" "lk_searchQuery (set_tier p d s) = lk_searchQuery s"
  by (simp_all add: set_tier_def)

lemma flight_settle:
  assumes "flight_exact s"
  shows "flight_exact (settle_tier r a s)"
proof (cases "map_of (lk_requests s) r")
  case (Some pq)
  obtain p q where pq: "pq = (p, q)" by (cases pq)
  then have "(r, p, q) \<in> set (lk_requests s)" using Some by (auto dest: map_of_SomeD)
  then have "filter (\<lambda>y. y \<noteq> q) (map (snd \<circ> snd) (lk_requests s)) = map (snd \<circ> snd) (filter (\<lambda>x. fst x \<noteq> r) (lk_requests s))"
    using assms by (intro filter_snd_fst) (auto simp: flight_exact_def)
  then show ?thesis using assms Some pq
    by (auto simp: settle_tier_def flight_exact_def distinct_map_filter list_all_iff split: sum.split)
qed (use assms in \<open>simp add: settle_tier_def\<close>)

lemma flight_step: "flight_exact s \<Longrightarrow> flight_exact (lake_step s e)"
  by (cases e) (auto simp: lake_step_def handleTabChange_def handleSubmit_def handleSearchOrFilter_def use_pager_def
      handlePageChange_def settle_summary_def Let_def flight_settle intro!: flight_load split: option.split)

interpretation lake_flight: reducer lake_step flight_exact
  by unfold_locales (rule flight_step)

lemma flight_initial: "flight_exact initial_lakehouse"
  unfolding initial_lakehouse_def by (rule flight_load) (simp add: flight_exact_def)

section \<open>Pages\<close>

text \<open>Page numbers: positive integers that are exact as numbers.\<close>

definition page_ok :: "jsnum \<Rightarrow> bool" where
  "page_ok x = (isInteger x \<and> Fin 1 \<le> x \<and> x \<le> Fin (2 ^ 53))"

lemma page_ok_iff: "page_ok x \<longleftrightarrow> (\<exists>n::int. 1 \<le> n \<and> n \<le> 2 ^ 53 \<and> x = Fin (of_int n))"
proof
  assume "page_ok x"
  then obtain q where q: "x = Fin q" "of_int \<lfloor>q\<rfloor> = q" "1 \<le> q" "q \<le> 2 ^ 53"
    by (cases x) (auto simp: page_ok_def isInteger_def)
  then have "1 \<le> \<lfloor>q\<rfloor>" "\<lfloor>q\<rfloor> \<le> 2 ^ 53" by (metis of_int_1_le_iff, metis of_int_le_iff of_int_numeral of_int_power)
  then show "\<exists>n::int. 1 \<le> n \<and> n \<le> 2 ^ 53 \<and> x = Fin (of_int n)" using q(1,2) by metis
next
  assume "\<exists>n::int. 1 \<le> n \<and> n \<le> 2 ^ 53 \<and> x = Fin (of_int n)"
  then obtain n :: int where n: "1 \<le> n" "n \<le> 2 ^ 53" "x = Fin (of_int n)" by blast
  have "(of_int n :: rat) \<le> of_int (2 ^ 53)" using n(2) by (simp only: of_int_le_iff)
  then show "page_ok x" using n by (simp add: page_ok_def isInteger_def)
qed

lemma mk_page: "1 \<le> n \<Longrightarrow> n \<le> 2 ^ 53 \<Longrightarrow> mk b (of_int n) = Fin (of_int n)"
proof (rule mk_exact)
  assume n: "1 \<le> n" "n \<le> 2 ^ 53"
  then show "round64 (of_int n) = of_int n" by (intro round64_of_int) simp
  have "(of_int n :: rat) \<le> of_int (2 ^ 53)" using n(2) by (simp only: of_int_le_iff)
  then show "\<bar>of_int n :: rat\<bar> < 2 ^ 1024" using n by (intro small_lt_overflow) simp
qed simp

definition listing_ok :: "StorageListing \<Rightarrow> bool" where
  "listing_ok d =
     ((case sl_total_pages d of Some p \<Rightarrow> isInteger p \<and> p \<le> Fin (2 ^ 53) | None \<Rightarrow> True) \<and>
      (case sl_total d of Some t \<Rightarrow> isInteger t \<and> t \<le> Fin (2 ^ 53) | None \<Rightarrow> True))"

lemma page_ok_one [simp]: "page_ok (Fin 1)"
  by (simp add: page_ok_def isInteger_def)

lemma ceil_page:
  assumes "0 < t" "t \<le> Fin (2 ^ 53)" "isInteger t"
  shows "page_ok (Math_max (Fin 1) (Math_ceil (t / Fin 25)))"
proof -
  have t: "isFinite t" "0 < val t" "val t \<le> 2 ^ 53" using assms by (cases t; simp add: isInteger_def zero_jsnum_def)+
  define r where "r = round64 (val t / 25)"
  have "round64 0 \<le> r" unfolding r_def using t by (intro round64_mono) simp
  moreover have "r \<le> round64 (of_int (2 ^ 53))" unfolding r_def using t by (intro round64_mono) simp
  ultimately have r: "0 \<le> r" "r \<le> of_int (2 ^ 53)" by (simp_all add: r64.rnd_zero del: of_int_power)
  have "t / Fin 25 = mk False (val t / 25)" using t assms(1) by (cases t) (auto simp: finite_divide zero_jsnum_def)
  moreover have "isFinite (mk False (val t / 25))"
    using r small_lt_overflow [of r] by (simp add: isFinite_mk r_def)
  ultimately obtain c where c: "t / Fin 25 = c" "isFinite c" "val c = r" using val_mk r_def by metis
  have "0 \<le> \<lceil>r\<rceil>" "\<lceil>r\<rceil> \<le> 2 ^ 53" using r by (simp_all add: ceiling_le_iff zero_le_ceiling del: of_int_power)
  moreover have "Math_ceil c = Fin (of_int \<lceil>r\<rceil>) \<or> Math_ceil c = NegZero" using c r by (cases c) (auto simp: Math_ceil_def)
  ultimately show ?thesis using c by (auto simp: page_ok_iff Math_max_def zero_of_def intro: exI [of _ 1] exI [of _ "\<lceil>r\<rceil>"])
qed

lemma total_pages_ok:
  assumes "\<And>d. listing = Some d \<Longrightarrow> listing_ok d"
  shows "page_ok (lake_totalPages listing)"
proof (cases listing)
  case (Some d)
  have i: "isInteger p \<Longrightarrow> Fin 0 < p \<Longrightarrow> p \<le> Fin (2 ^ 53) \<Longrightarrow> page_ok p" for p
  proof (cases p)
    case (Fin q)
    assume p: "isInteger p" "Fin 0 < p" "p \<le> Fin (2 ^ 53)"
    then obtain m :: int where "q = of_int m" "0 < q" using Fin by (auto simp: isInteger_def)
    then have "1 \<le> q" by simp
    then show "page_ok p" using p Fin by (simp add: page_ok_def)
  qed (auto simp: isInteger_def)
  have "listing_ok d" using assms Some by blast
  then show ?thesis using Some i ceil_page
    by (auto simp: lake_totalPages_def listing_ok_def lakehouse_PAGE_SIZE_def zero_jsnum_def num_not_le Let_def isInteger_def
        split: option.splits jsnum.splits)
qed (simp add: lake_totalPages_def)

lemma parse_page:
  assumes "Fin 1 \<le> parseInt t" "parseInt t \<le> x" "page_ok x"
  shows "page_ok (parseInt t)"
proof -
  obtain m b where m: "parseInt t = mk b (of_int m)" using assms(1) by (auto simp: parseInt_def Let_def split: if_splits)
  obtain n where n: "1 \<le> n" "n \<le> 2 ^ 53" "x = Fin (of_int n)" using assms(3) page_ok_iff by blast
  have x: "x \<le> Fin (2 ^ 53)" using assms(3) by (simp add: page_ok_def)
  show ?thesis
  proof (cases "m \<le> 2 ^ 53")
    case True
    have "1 \<le> m"
    proof (rule ccontr)
      assume "\<not> 1 \<le> m"
      then have "mk b (of_int m) \<le> mk False 0" by (intro mk_mono) (simp add: not_le)
      then show False using assms(1) m num_le_trans [of "Fin 1" "mk b (of_int m)" "mk False 0"] by (simp add: zero_of_def)
    qed
    then show ?thesis using True m mk_page page_ok_iff by metis
  next
    case False
    then have "mk False (of_int (2 ^ 53)) \<le> mk b (of_int m)" by (intro mk_mono) (simp only: of_int_le_iff)
    then have "Fin (2 ^ 53) \<le> parseInt t" using m mk_page [of "2 ^ 53" False] by simp
    moreover have "parseInt t \<le> Fin (2 ^ 53)" using assms(2) x num_le_trans by blast
    ultimately have "parseInt t = Fin (2 ^ 53)" by (cases "parseInt t") auto
    then show ?thesis by (simp add: page_ok_def isInteger_def)
  qed
qed

lemma pager_in_range:
  assumes "page_ok (lk_page s)" "page_ok pages" "lake_totalPages (activeListing s) = pages" "pager_page b s = Some p"
  shows "page_ok p" and "b \<noteq> Previous \<Longrightarrow> p \<le> pages"
proof -
  obtain n where n: "1 \<le> n" "n \<le> 2 ^ 53" "lk_page s = Fin (of_int n)" using assms(1) page_ok_iff by blast
  obtain k where k: "1 \<le> k" "k \<le> 2 ^ 53" "pages = Fin (of_int k)" using assms(2) page_ok_iff by blast
  have prev: "Fin (of_int n) - Fin 1 = Fin (of_int (n - 1))" if "1 < n"
    using that n mk_page [of "n - 1"] by (simp add: finite_sub)
  have nxt: "Fin (of_int n) + Fin 1 = Fin (of_int (n + 1))" if "n < k"
    using that n k mk_page [of "n + 1"] by (simp add: finite_add)
  have "page_ok p \<and> (b \<noteq> Previous \<longrightarrow> p \<le> pages)"
  proof (cases b)
    case First
    then show ?thesis using assms k by (auto simp: pager_page_def Let_def split: if_splits)
  next
    case Previous
    then show ?thesis using assms n prev by (auto simp: pager_page_def Let_def page_ok_iff not_le simp del: of_int_diff intro!: exI [of _ "n - 1"] split: if_splits)
  next
    case (Jump t)
    then show ?thesis using assms parse_page by (auto simp: pager_page_def handleJumpSubmit_def Let_def split: if_splits)
  next
    case Next
    then have "n < k" "p = Fin (of_int (n + 1))" using assms n k nxt by (auto simp: pager_page_def Let_def not_le split: if_splits)
    then show ?thesis using n k by (auto simp: page_ok_iff simp del: of_int_add intro!: exI [of _ "n + 1"])
  next
    case Last
    then have "p = pages" using assms by (auto simp: pager_page_def Let_def split: if_splits)
    then show ?thesis using assms(2) k by simp
  qed
  then show "page_ok p" "b \<noteq> Previous \<Longrightarrow> p \<le> pages" by auto
qed

section \<open>Invariant of the page number\<close>

definition lake_ok :: "lakehouse_page \<Rightarrow> bool" where
  "lake_ok s = (page_ok (lk_page s) \<and>
     list_all (\<lambda>t. case tier_data t s of Some d \<Rightarrow> listing_ok d | None \<Rightarrow> True) [T_bronze, T_silver, T_gold])"

definition lake_event_ok :: "lake_event \<Rightarrow> bool" where
  "lake_event_ok e = (case e of Answer r (Inr d) \<Rightarrow> listing_ok d | _ \<Rightarrow> True)"

lemma load_frame [simp]:
  "tier_data t (loadTier p n q s) = tier_data t s" "lk_page (loadTier p n q s) = lk_page s" "lk_activeTab (loadTier p n q s) = lk_activeTab s"
  "lk_searchQuery (loadTier p n q s) = lk_searchQuery s" "lk_currentPrefix (loadTier p n q s) = lk_currentPrefix s"
  by (auto simp: loadTier_def tier_data_def split: option.split tier.split)

lemma tier_data_updates [simp]:
  "tier_data t (s\<lparr>lk_page := p\<rparr>) = tier_data t s" "tier_data t (s\<lparr>lk_summary := m\<rparr>) = tier_data t s"
  "tier_data t (s\<lparr>lk_error := e\<rparr>) = tier_data t s" "tier_data t (s\<lparr>lk_inFlight := f, lk_loading := l, lk_requests := r\<rparr>) = tier_data t s"
  "tier_data t (s\<lparr>lk_page := p, lk_currentPrefix := c, lk_searchQuery := q\<rparr>) = tier_data t s"
  "tier_data t (s\<lparr>lk_activeTab := a, lk_page := p, lk_searchQuery := q, lk_currentPrefix := c\<rparr>) = tier_data t s"
  by (simp_all add: tier_data_def split: tier.split)

lemma active_ok: "lake_ok s \<Longrightarrow> page_ok (lake_totalPages (activeListing s))"
  by (rule total_pages_ok) (cases "lk_activeTab s"; simp add: lake_ok_def activeListing_def)

lemma set_tier_ok: "lake_ok s \<Longrightarrow> listing_ok d \<Longrightarrow> lake_ok (set_tier p d s)"
  by (simp add: lake_ok_def set_tier_def tier_data_def)

lemma lake_ok_updates [simp]:
  "lake_ok (s\<lparr>lk_error := e\<rparr>) = lake_ok s" "lake_ok (s\<lparr>lk_summary := m\<rparr>) = lake_ok s"
  "lake_ok (s\<lparr>lk_inFlight := f, lk_loading := l, lk_requests := r\<rparr>) = lake_ok s" "lake_ok (loadTier p n q s) = lake_ok s"
  by (simp_all add: lake_ok_def)

lemma settle_ok: "lake_ok s \<Longrightarrow> lake_event_ok (Answer r a) \<Longrightarrow> lake_ok (settle_tier r a s)"
  by (auto simp: settle_tier_def lake_event_ok_def intro!: set_tier_ok split: option.split sum.splits)

lemma pager_ok: "lake_ok s \<Longrightarrow> lake_ok (use_pager b s)"
  using pager_in_range(1) [OF _ active_ok refl, of s b]
  by (auto simp: use_pager_def handlePageChange_def lake_ok_def split: option.split)

lemma lake_step_ok: "lake_ok s \<Longrightarrow> lake_event_ok e \<Longrightarrow> lake_ok (lake_step s e)"
  by (cases e) (auto simp: lake_step_def handleTabChange_def handleSubmit_def handleSearchOrFilter_def
      settle_summary_def Let_def settle_ok pager_ok split: option.split, auto simp: lake_ok_def)

lemma lake_run_ok: "list_all lake_event_ok es \<Longrightarrow> lake_ok s \<Longrightarrow> lake_ok (foldl lake_step s es)"
  by (induction es arbitrary: s) (auto intro: lake_step_ok)

lemma lake_initial_ok: "lake_ok initial_lakehouse"
  by (simp add: initial_lakehouse_def lake_ok_def) (simp add: tier_data_def)

section \<open>What is shown\<close>

lemma map_of_fresh: "flight_exact s \<Longrightarrow> map_of (lk_requests s @ [(lk_next s, x)]) (lk_next s) = Some x"
  by (auto simp: flight_exact_def list_all_iff map_add_def map_of_eq_None_iff split: option.split dest: map_of_SomeD)

text \<open>Back on a tab that was filtered, the filtered listing is shown as the whole tier.\<close>

lemma filtered_listing_kept:
  fixes s :: lakehouse_page and t t' :: tier
  assumes "tier_data t s = Some d"
  defines "s' \<equiv> handleTabChange t (handleTabChange t' s)"
  shows "activeListing s' = Some d \<and> lk_searchQuery s' = [] \<and> lk_requests s' = lk_requests (handleTabChange t' s)"
proof -
  have "tier_data t (handleTabChange t' s) = Some d" using assms(1) by (simp add: handleTabChange_def Let_def)
  then show ?thesis by (simp add: s'_def handleTabChange_def [of t] activeListing_def)
qed

text \<open>Two pages asked for in turn: the answer that arrives last is shown, under the number of the second.\<close>

lemma stale_listing_wins:
  fixes s :: lakehouse_page and old new :: StorageListing
  assumes "flight_exact s" "lk_currentPrefix s = u ''gold/''" "lk_activeTab s = T_gold" "p \<noteq> p'"
    "tier_query (u ''gold/'') p (lk_searchQuery s) = Some q" "q \<notin> set (lk_inFlight s)"
    "tier_query (u ''gold/'') p' (lk_searchQuery s) = Some q'" "q' \<notin> set (lk_inFlight s)" "q' \<noteq> q"
  defines "s' \<equiv> settle_tier (lk_next s) (Inr old) (settle_tier (Suc (lk_next s)) (Inr new) (handlePageChange p' (handlePageChange p s)))"
  shows "activeListing s' = Some old \<and> lk_page s' = p'"
proof -
  let ?s2 = "handlePageChange p' (handlePageChange p s)"
  have n: "map_of (lk_requests s) (lk_next s) = None" "map_of (lk_requests s) (Suc (lk_next s)) = None"
    using assms(1) by (auto simp: flight_exact_def list_all_iff map_of_eq_None_iff)
  have r: "lk_requests ?s2 = lk_requests s @ [(lk_next s, u ''gold/'', q), (Suc (lk_next s), u ''gold/'', q')]"
    "lk_page ?s2 = p'" "lk_activeTab ?s2 = T_gold"
    using assms by (simp_all add: handlePageChange_def loadTier_def)
  have "map_of (lk_requests ?s2) (Suc (lk_next s)) = Some (u ''gold/'', q')" using n by (simp add: r map_add_def)
  moreover have "map_of (filter (\<lambda>x. fst x \<noteq> Suc (lk_next s)) (lk_requests ?s2)) (lk_next s) = Some (u ''gold/'', q)"
  proof -
    have "filter (\<lambda>x. fst x \<noteq> Suc (lk_next s)) (lk_requests s) = lk_requests s"
      using n(2) by (force simp: filter_id_conv map_of_eq_None_iff)
    then show ?thesis using n(1) by (simp add: r map_add_def)
  qed
  ultimately show ?thesis by (simp add: s'_def settle_tier_def r set_tier_def startsWith_def u_def activeListing_def tier_data_def)
qed

text \<open>A page whose first listing, of 75 objects, has arrived.\<close>

definition sample_listing :: StorageListing where
  "sample_listing = \<lparr>sl_bucket = u ''b'', sl_prefix = u ''gold/'', sl_limit = None, sl_cursor = None, sl_next_cursor = None,
     sl_page = None, sl_page_size = None, sl_total = Some (lit 75), sl_total_pages = None, sl_total_bytes = None,
     sl_truncated = None, sl_objects = []\<rparr>"

definition sample_page :: lakehouse_page where
  "sample_page = foldl lake_step initial_lakehouse [Answer 0 (Inr sample_listing)]"

lemma sample_run [simp]: "lk_page sample_page = Fin 1" "activeListing sample_page = Some sample_listing" "lk_inFlight sample_page = []"
  by (simp_all add: sample_page_def lake_step_def initial_lakehouse_def loadTier_def tier_query_def settle_tier_def set_tier_def activeListing_def
      tier_data_def startsWith_def u_def unreserved_def percent_byte_def hex_upper_def utf8_def)

section \<open>Properties\<close>

text \<open>
  C34. Through every sequence of actions and answers the set of queries in flight holds exactly
  the queries that wait for an answer, each once: no query is sent again while it is running, and
  none is kept out after its answer, whether it succeeded or failed.
\<close>

theorem in_flight_exact:
  fixes es :: "lake_event list"
  defines "s \<equiv> foldl lake_step initial_lakehouse es"
  shows "lk_inFlight s = map (snd \<circ> snd) (lk_requests s) \<and> distinct (lk_inFlight s)"
  using lake_flight.run_inv [OF flight_initial, of es] unfolding s_def flight_exact_def by blast

text \<open>
  When the listings carry integral counts, the page number is a positive integer after
  every sequence of actions and answers, and every page a control of the table asks for, typed
  text included, is one, and exists in the listing shown unless it is the page before a page
  that does not.
\<close>

theorem pager_asks_existing_pages:
  fixes es :: "lake_event list"
  assumes "list_all lake_event_ok es"
  defines "s \<equiv> foldl lake_step initial_lakehouse es"
  shows "page_ok (lk_page s) \<and>
    (\<forall>b p. pager_page b s = Some p \<longrightarrow> page_ok p \<and> (b \<noteq> Previous \<longrightarrow> p \<le> lake_totalPages (activeListing s)))"
proof -
  have ok: "lake_ok s" unfolding s_def using assms(1) lake_run_ok lake_initial_ok by blast
  then have "page_ok (lk_page s)" by (simp add: lake_ok_def)
  then show ?thesis using pager_in_range [OF _ active_ok [OF ok] refl] by blast
qed

theorem pager_asks_existing_pages_witness:
  "page_ok (lit 3) \<and> lit 3 \<le> lake_totalPages (Some sample_listing) \<and>
   pager_page (Jump (u ''3'')) sample_page = Some (lit 3)"
proof -
  have t: "lake_totalPages (Some sample_listing) = lit 3"
    using mk_page [of 3] by (simp add: lake_totalPages_def sample_listing_def lakehouse_PAGE_SIZE_def finite_divide Math_ceil_def Math_max_def)
  have "parseInt (u ''3'') = lit 3"
    using mk_page [of 3] by (simp add: parseInt_def u_def is_space_def digit_def read_dec_def)
  then have p: "pager_page (Jump (u ''3'')) sample_page = Some (lit 3)"
    using t by (simp add: pager_page_def handleJumpSubmit_def Let_def num_eq_def isNaN_def)
  have "list_all lake_event_ok [Answer 0 (Inr sample_listing)]"
    by (simp add: lake_event_ok_def listing_ok_def sample_listing_def isInteger_def)
  then show ?thesis using pager_asks_existing_pages [of "[Answer 0 (Inr sample_listing)]"] p t
    unfolding sample_page_def [symmetric] by fastforce
qed

text \<open>
  A search text with a slash replaces the prefix. When it does not begin with the name of a
  tier, its answer is stored nowhere: the table keeps showing the listing from before, without an
  error, under the new prefix.
\<close>

theorem path_search_discarded:
  fixes s :: lakehouse_page and target :: str and data :: StorageListing
  assumes "flight_exact s" "str_includes (trim target) (u ''/'')"
    and "\<not> startsWith (trim target) (u ''bronze'')" "\<not> startsWith (trim target) (u ''silver'')" "\<not> startsWith (trim target) (u ''gold'')"
    and "tier_query (trim target) (lit 1) [] = Some q" "q \<notin> set (lk_inFlight s)"
  defines "s' \<equiv> settle_tier (lk_next s) (Inr data) (handleSearchOrFilter target s)"
  shows "activeListing s' = activeListing s \<and> lk_error s' = None \<and> \<not> lk_loading s' \<and> lk_currentPrefix s' = trim target"
proof -
  let ?s1 = "s\<lparr>lk_page := lit 1, lk_currentPrefix := trim target, lk_searchQuery := [], lk_inFlight := lk_inFlight s @ [q],
     lk_loading := True, lk_error := None, lk_requests := lk_requests s @ [(lk_next s, trim target, q)], lk_next := Suc (lk_next s)\<rparr>"
  have "handleSearchOrFilter target s = ?s1" using assms(2,6,7) by (simp add: handleSearchOrFilter_def loadTier_def Let_def)
  then show ?thesis using assms map_of_fresh [OF assms(1), of "(trim target, q)"]
    by (simp add: s'_def settle_tier_def set_tier_def activeListing_def tier_data_def split: tier.split)
qed

theorem path_search_discarded_witness:
  "activeListing (settle_tier (lk_next sample_page) (Inr (sample_listing\<lparr>sl_total := Some (lit 9)\<rparr>))
     (handleSearchOrFilter (u ''a/b'') sample_page)) = Some sample_listing"
proof -
  obtain q where q: "tier_query (u ''a/b'') (lit 1) [] = Some q"
    by (simp add: tier_query_def u_def unreserved_def percent_byte_def hex_upper_def utf8_def)
  have "trim (u ''a/b'') = u ''a/b''" "str_includes (u ''a/b'') (u ''/'')"
    "\<not> startsWith (u ''a/b'') (u ''bronze'')" "\<not> startsWith (u ''a/b'') (u ''silver'')" "\<not> startsWith (u ''a/b'') (u ''gold'')"
    by (simp_all add: trim_def u_def is_space_def startsWith_def)
  moreover have "flight_exact sample_page" unfolding sample_page_def by (rule lake_flight.run_inv [OF flight_initial])
  ultimately show ?thesis
    using path_search_discarded [of sample_page "u ''a/b''" q "sample_listing\<lparr>sl_total := Some (lit 9)\<rparr>"] q sample_run by simp
qed

end
