(* ===== verification/DagPage.thy ===== *)
theory DagPage
  imports Enrichment
begin

text \<open>
  The state of the pipeline graph page (\<open>pages/pipeline-dag/page.tsx\<close>): the overview of graph and
  gold control, the evidence of the live run with its cache, the run selected in the address,
  and the refresh that the event streams schedule. A call that awaits is recorded with the
  values it closed over, and answers arrive in any order.
\<close>

section \<open>State\<close>

datatype dag_call =
    Overview str bool
  | Evidence str str bool
  | Run str bool

text \<open>\<open>dg_timer\<close> says whether a refresh is scheduled; the streams that schedule it are closed and the timer is cleared when its closure changes.\<close>

record dag_page =
  dg_activeTicket :: str
  dg_selectedRunID :: str
  dg_graph :: "PreprocessingGraph option"
  dg_goldControl :: "GoldControlOverview option"
  dg_historicalRun :: "PipelineRunDetail option"
  dg_liveEvidenceRun :: "PipelineRunDetail option"
  dg_selectedHopID :: "str option"
  dg_error :: "str option"
  dg_loading :: bool
  dg_historyLoading :: bool
  dg_timer :: bool
  dg_cache :: "(str \<times> PipelineRunDetail) option"
  dg_calls :: "(nat \<times> dag_call) list"
  dg_next :: nat

definition add_call :: "dag_call \<Rightarrow> dag_page \<Rightarrow> dag_page" where
  "add_call c s = s\<lparr>dg_calls := dg_calls s @ [(dg_next s, c)], dg_next := Suc (dg_next s)\<rparr>"

section \<open>The overview\<close>

definition loadOverview :: "bool \<Rightarrow> dag_page \<Rightarrow> dag_page" where
  "loadOverview showLoading s =
     add_call (Overview (dg_activeTicket s) showLoading) (if showLoading then s\<lparr>dg_loading := True\<rparr> else s)"

definition finish_overview :: "bool \<Rightarrow> dag_page \<Rightarrow> dag_page" where
  "finish_overview showLoading s = (if showLoading then s\<lparr>dg_loading := False\<rparr> else s)"

definition liveRunID :: "str \<Rightarrow> GoldControlOverview \<Rightarrow> str" where
  "liveRunID ticket gold = opt_or_str (gct_command_id (gco_control gold)) ticket"

definition committedSnapshotID :: "GoldControlOverview \<Rightarrow> str" where
  "committedSnapshotID gold = nullish (Option.bind (gco_runtime gold) grt_last_snapshot_id) []"

definition evidenceKey :: "str \<Rightarrow> GoldControlOverview \<Rightarrow> str" where
  "evidenceKey ticket gold = (liveRunID ticket gold @ u '':'' @ committedSnapshotID gold)"

text \<open>
  The continuation of \<open>loadOverview\<close> after both requests: it stores them and goes on to the
  evidence of the live run, from the cache when its key is there.
\<close>

definition overview_settled :: "str \<Rightarrow> bool \<Rightarrow> str + partial_graph \<times> GoldControlOverview \<Rightarrow> dag_page \<Rightarrow> dag_page" where
  "overview_settled ticket showLoading res s = (case res of
      Inl message \<Rightarrow> finish_overview showLoading (s\<lparr>dg_error := Some message\<rparr>)
    | Inr (nextGraph, nextGold) \<Rightarrow>
        let s1 = s\<lparr>dg_graph := Some (normalizePreprocessingGraph (Some nextGraph)), dg_goldControl := Some nextGold\<rparr>;
            key = evidenceKey ticket nextGold
        in if liveRunID ticket nextGold \<noteq> [] \<and> committedSnapshotID nextGold \<noteq> [] then
             (if map_option fst (dg_cache s1) = Some key
              then finish_overview showLoading (s1\<lparr>dg_liveEvidenceRun := map_option snd (dg_cache s1), dg_error := None\<rparr>)
              else case encodeURIComponent (liveRunID ticket nextGold) of
                  None \<Rightarrow> finish_overview showLoading (s1\<lparr>dg_liveEvidenceRun := None, dg_error := None\<rparr>)
                | Some run \<Rightarrow> add_call (Evidence key run showLoading) s1)
           else finish_overview showLoading (s1\<lparr>dg_cache := None, dg_liveEvidenceRun := None, dg_error := None\<rparr>))"

definition evidence_settled :: "str \<Rightarrow> bool \<Rightarrow> PipelineRunDetail option \<Rightarrow> dag_page \<Rightarrow> dag_page" where
  "evidence_settled key showLoading res s =
     finish_overview showLoading ((case res of
         Some detail \<Rightarrow> s\<lparr>dg_cache := Some (key, detail), dg_liveEvidenceRun := Some detail\<rparr>
       | None \<Rightarrow> s\<lparr>dg_liveEvidenceRun := None\<rparr>)\<lparr>dg_error := None\<rparr>)"

section \<open>The selected run\<close>

definition run_settled :: "bool \<Rightarrow> str + PipelineRunDetail \<Rightarrow> dag_page \<Rightarrow> dag_page" where
  "run_settled showLoading res s =
     (let s1 = (case res of
         Inr detail \<Rightarrow> s\<lparr>dg_historicalRun := Some detail, dg_error := None\<rparr>
       | Inl message \<Rightarrow> s\<lparr>dg_historicalRun := None, dg_error := Some message\<rparr>)
      in if showLoading then s1\<lparr>dg_historyLoading := False\<rparr> else s1)"

definition loadRun :: "str \<Rightarrow> bool \<Rightarrow> dag_page \<Rightarrow> dag_page" where
  "loadRun runID showLoading s =
     (if runID = [] then s\<lparr>dg_historicalRun := None\<rparr>
      else let s1 = (if showLoading then s\<lparr>dg_historyLoading := True, dg_historicalRun := None\<rparr> else s)
           in case encodeURIComponent runID of
               None \<Rightarrow> run_settled showLoading (Inl (u ''URI malformed'')) s1
             | Some run \<Rightarrow> add_call (Run run showLoading) s1)"

datatype dag_answer =
    A_overview "str + partial_graph \<times> GoldControlOverview"
  | A_evidence "PipelineRunDetail option"
  | A_run "str + PipelineRunDetail"

definition settle_call :: "nat \<Rightarrow> dag_answer \<Rightarrow> dag_page \<Rightarrow> dag_page" where
  "settle_call r answer s0 =
     (let s = s0\<lparr>dg_calls := filter (\<lambda>c. fst c \<noteq> r) (dg_calls s0)\<rparr> in
      case (map_of (dg_calls s0) r, answer) of
        (Some (Overview ticket sl), A_overview res) \<Rightarrow> overview_settled ticket sl res s
      | (Some (Evidence key run sl), A_evidence res) \<Rightarrow> evidence_settled key sl res s
      | (Some (Run run sl), A_run res) \<Rightarrow> run_settled sl res s
      | _ \<Rightarrow> s0)"

section \<open>Effects and handlers\<close>

definition mount_dag :: "str \<Rightarrow> str \<Rightarrow> dag_page" where
  "mount_dag ticket runID = loadRun runID True (loadOverview True
     \<lparr>dg_activeTicket = ticket, dg_selectedRunID = runID, dg_graph = None, dg_goldControl = None, dg_historicalRun = None,
      dg_liveEvidenceRun = None, dg_selectedHopID = None, dg_error = None, dg_loading = True, dg_historyLoading = False,
      dg_timer = False, dg_cache = None, dg_calls = [], dg_next = 0\<rparr>)"

text \<open>\<open>selectRun\<close> sets the parameter of the address; the effects that depend on it run when it changed.\<close>

definition selectRun :: "str \<Rightarrow> dag_page \<Rightarrow> dag_page" where
  "selectRun runID s = (if runID = dg_selectedRunID s then s
     else loadRun runID True (s\<lparr>dg_selectedRunID := runID, dg_selectedHopID := None, dg_timer := False\<rparr>))"

definition ticket_changed :: "str \<Rightarrow> dag_page \<Rightarrow> dag_page" where
  "ticket_changed ticket s = (if ticket = dg_activeTicket s then s
     else loadOverview True (s\<lparr>dg_activeTicket := ticket, dg_timer := False\<rparr>))"

definition scheduleRefresh :: "dag_page \<Rightarrow> dag_page" where
  "scheduleRefresh s = s\<lparr>dg_timer := True\<rparr>"

definition refresh_fires :: "dag_page \<Rightarrow> dag_page" where
  "refresh_fires s = (if \<not> dg_timer s then s
     else let s1 = loadOverview False (s\<lparr>dg_timer := False\<rparr>)
          in if dg_selectedRunID s1 \<noteq> [] then loadRun (dg_selectedRunID s1) False s1 else s1)"

definition onSelectHop :: "str option \<Rightarrow> dag_page \<Rightarrow> dag_page" where
  "onSelectHop hop s = s\<lparr>dg_selectedHopID := hop\<rparr>"

datatype dag_view = V_loading | V_run_loading | V_run_missing | V_canvas

definition shown_view :: "dag_page \<Rightarrow> dag_view" where
  "shown_view s =
     (if dg_loading s \<and> dg_graph s = None then V_loading
      else if dg_historyLoading s \<and> dg_selectedRunID s \<noteq> [] \<and> dg_historicalRun s = None then V_run_loading
      else if dg_selectedRunID s \<noteq> [] \<and> dg_historicalRun s = None then V_run_missing
      else V_canvas)"

datatype dag_event =
    Settle nat dag_answer | Select str | Ticket str | Workflow | Refresh | Hop_selected "str option"

definition dag_step :: "dag_page \<Rightarrow> dag_event \<Rightarrow> dag_page" where
  "dag_step s e = (case e of
      Settle r a \<Rightarrow> settle_call r a s | Select runID \<Rightarrow> selectRun runID s | Ticket t \<Rightarrow> ticket_changed t s
    | Workflow \<Rightarrow> scheduleRefresh s | Refresh \<Rightarrow> refresh_fires s | Hop_selected hop \<Rightarrow> onSelectHop hop s)"

end
