(* ===== verification/DagHops.thy ===== *)
theory DagHops
  imports DagPage
begin

text \<open>
  The graph shown by the pipeline page (\<open>pages/pipeline-dag/page.tsx\<close>): its connections, the
  status, metrics and telemetry of every hop from the state of the page, the hops and
  connections that are visible, and the four figures above the graph. Shown: a hop is marked
  completed only when the data holds evidence for it; the visible graph is acyclic and connected;
  and an answer that arrives after the run was deselected turns the live graph into that run's.
\<close>

section \<open>Connections\<close>

datatype DagLane = DL_shared | DL_catalog | DL_light_curve | DL_target_pixel | DL_merge | DL_output

record DagConnection =
  dc_source :: str
  dc_target :: str
  dc_label :: "str option"
  dc_lane :: "DagLane option"

definition connection :: "str \<Rightarrow> str \<Rightarrow> str \<Rightarrow> DagLane \<Rightarrow> DagConnection" where
  "connection a b l lane = \<lparr>dc_source = a, dc_target = b, dc_label = Some l, dc_lane = Some lane\<rparr>"

definition dagConnections :: "DagConnection list" where
  "dagConnections = [
    connection ((u ''bronze'')) ((u ''route'')) ((u ''Verified FITS'')) DL_shared,
    connection ((u ''route'')) ((u ''lc-quality'')) ((u ''Light Curve'')) DL_light_curve,
    connection ((u ''lc-quality'')) ((u ''lc-transform'')) ((u ''Quality-valid LC'')) DL_light_curve,
    connection ((u ''lc-transform'')) ((u ''lc-parquet'')) ((u ''Normalized LC'')) DL_light_curve,
    connection ((u ''lc-parquet'')) ((u ''silver'')) ((u ''Finalized LC Parquet'')) DL_light_curve,
    connection ((u ''route'')) ((u ''tpf-quality'')) ((u ''Target Pixel chunks'')) DL_target_pixel,
    connection ((u ''tpf-quality'')) ((u ''tpf-transform'')) ((u ''Quality-valid chunk'')) DL_target_pixel,
    connection ((u ''tpf-transform'')) ((u ''tpf-parquet'')) ((ue ''Append row group ~00D7 N'')) DL_target_pixel,
    connection ((u ''tpf-parquet'')) ((u ''silver'')) ((u ''Finalized TPF Parquet'')) DL_target_pixel,
    connection ((u ''silver'')) ((u ''checkpoint'')) ((u ''Verified Silver object'')) DL_shared,
    connection ((u ''checkpoint'')) ((u ''lineage'')) ((u ''Verified checkpoint'')) DL_shared,
    connection ((u ''lineage'')) ((u ''event'')) ((u ''Committed provenance'')) DL_shared,
    connection ((u ''event'')) ((u ''ack'')) ((u ''Durable publish complete'')) DL_shared,
    connection ((u ''event'')) ((u ''gold-pairing'')) ((u ''Silver-ready LC + TPF'')) DL_shared,
    connection ((u ''gold-pairing'')) ((u ''gold-catalog'')) ((u ''Target identity'')) DL_catalog,
    connection ((u ''gold-pairing'')) ((u ''gold-lc-features'')) ((u ''Silver Light Curve'')) DL_light_curve,
    connection ((u ''gold-pairing'')) ((u ''gold-tpf-evidence'')) ((u ''Paired Target Pixel'')) DL_target_pixel,
    connection ((u ''gold-lc-features'')) ((u ''gold-tpf-evidence'')) ((u ''Transit ephemeris'')) DL_target_pixel,
    connection ((u ''gold-catalog'')) ((u ''gold-candidate'')) ((u ''TIC + TOI context'')) DL_merge,
    connection ((u ''gold-lc-features'')) ((u ''gold-candidate'')) ((u ''Features & BLS evidence'')) DL_merge,
    connection ((u ''gold-tpf-evidence'')) ((u ''gold-candidate'')) ((u ''Spatial evidence'')) DL_merge,
    connection ((u ''gold-candidate'')) ((u ''gold-commit'')) ((u ''Storage & Release seal'')) DL_output]"

section \<open>Statuses\<close>

definition goldBuilderStatus :: "GoldControlOverview option \<Rightarrow> HopStatus" where
  "goldBuilderStatus overview = (case Option.bind overview gco_runtime of None \<Rightarrow> HS_not_observed
    | Some r \<Rightarrow>
        let state = toUpperCase (grt_state r) in
        if state = u ''RUNNING'' then HS_running else if state = u ''DRAINING'' then HS_draining
        else if state = u ''FROZEN'' then HS_frozen else if state = u ''IDLE'' then HS_idle
        else if state = u ''CATALOG_SYNCING'' then HS_catalog_syncing else if state = u ''FAILED'' then HS_failed
        else HS_not_observed)"

definition hopStatus :: "str option \<Rightarrow> HopStatus \<Rightarrow> HopStatus" where
  "hopStatus value fallback = (case value of None \<Rightarrow> fallback
    | Some v \<Rightarrow>
        let status = toLowerCase v in
        if status = u ''completed'' then HS_completed
        else if status = u ''failed'' \<or> status = u ''error'' then HS_failed
        else if status = u ''running'' then HS_running else if status = u ''draining'' then HS_draining
        else if status = u ''idle'' then HS_idle else if status = u ''catalog_syncing'' then HS_catalog_syncing
        else if status = u ''frozen'' then HS_frozen else fallback)"

definition dag_formatBytes :: "jsnum \<Rightarrow> str" where
  "dag_formatBytes value =
     (if \<not> isFinite value \<or> value \<le> lit 0 then emdash
      else if value < lit 1024 then (num_str value @ u '' B'')
      else if value < lit (1024 ^ 2) then (toFixed (value / lit 1024) 1 @ u '' KB'')
      else if value < lit (1024 ^ 3) then (toFixed (value / lit (1024 ^ 2)) 1 @ u '' MB'')
      else (toFixed (value / lit (1024 ^ 3)) 2 @ u '' GB''))"

section \<open>Inputs of the hops\<close>

definition isHistory :: "dag_page \<Rightarrow> bool" where
  "isHistory s = (dg_selectedRunID s \<noteq> [])"

definition evidenceRun :: "dag_page \<Rightarrow> PipelineRunDetail option" where
  "evidenceRun s = nullish2 (dg_historicalRun s) (if isHistory s then None else dg_liveEvidenceRun s)"

definition progress_of :: "(graph_progress \<Rightarrow> jsnum) \<Rightarrow> dag_page \<Rightarrow> jsnum" where
  "progress_of f s = (case dg_graph s of Some g \<Rightarrow> f (pg_progress g) | None \<Rightarrow> lit 0)"

definition bronzePending :: "dag_page \<Rightarrow> jsnum" where
  "bronzePending s = (if isHistory s then lit 0 else progress_of gp_bronze_pending s)"

text \<open>\<open>new Map\<close> of the hops of the graph: of two entries with one key the later counts.\<close>

definition graph_map :: "(graph_hop \<Rightarrow> 'a) \<Rightarrow> dag_page \<Rightarrow> str \<Rightarrow> 'a option" where
  "graph_map f s = map_of (rev (map (\<lambda>h. (gh_id h, f h)) (case dg_graph s of Some g \<Rightarrow> pg_hops g | None \<Rightarrow> [])))"

definition historyEvents :: "dag_page \<Rightarrow> PipelineComponentEvent list" where
  "historyEvents s = (case evidenceRun s of Some r \<Rightarrow> prd_components r | None \<Rightarrow> [])"

definition upstreamEvidence :: "dag_page \<Rightarrow> str \<Rightarrow> bool" where
  "upstreamEvidence s i =
     (let pos = (\<lambda>f. lit 0 < progress_of f s) in
      if i = u ''bronze'' then pos gp_bronze_total \<and> pos gp_bronze_bytes
      else if i = u ''route'' then pos gp_bronze_total
      else if startsWith i (u ''lc-'') then pos gp_completed_lightcurves \<or> pos gp_silver_lightcurves
      else if startsWith i (u ''tpf-'') then pos gp_completed_target_pixels \<or> pos gp_silver_target_pixels
      else if i = u ''silver'' then pos gp_silver_total \<and> pos gp_silver_bytes
      else if i = u ''checkpoint'' then pos gp_checkpoint_completed
      else if i = u ''lineage'' \<or> i = u ''event'' \<or> i = u ''ack'' then pos gp_checkpoint_completed \<and> pos gp_silver_total
      else False)"

definition upstreamStatus :: "dag_page \<Rightarrow> str \<Rightarrow> HopStatus" where
  "upstreamStatus s i =
     (if isHistory s then HS_not_observed
      else let reported = nullish (nullish2 (graph_map gh_status s i) (map_option pg_status (dg_graph s))) HS_not_observed
           in if reported = HS_completed \<and> \<not> upstreamEvidence s i then HS_not_observed else reported)"

definition runStatus :: "dag_page \<Rightarrow> HopStatus" where
  "runStatus s = (case dg_historicalRun s of
      Some r \<Rightarrow> hopStatus (Some (pr_status (prd_run r))) HS_not_observed | None \<Rightarrow> goldBuilderStatus (dg_goldControl s))"

definition evidencedPhaseStatus :: "dag_page \<Rightarrow> str \<Rightarrow> bool \<Rightarrow> HopStatus \<Rightarrow> HopStatus" where
  "evidencedPhaseStatus s i evidence fallback =
     (let latest = List.find (\<lambda>e. pce_component_id e = i) (rev (historyEvents s));
          reported = hopStatus (map_option pce_status latest) fallback
      in if evidence then HS_completed else if reported = HS_completed then HS_not_observed else reported)"

definition completedEvents :: "dag_page \<Rightarrow> str \<Rightarrow> PipelineComponentEvent list" where
  "completedEvents s i = filter (\<lambda>e. pce_component_id e = i \<and> toUpperCase (pce_status e) = u ''COMPLETED'') (historyEvents s)"

definition sum_of :: "('a \<Rightarrow> jsnum) \<Rightarrow> 'a list \<Rightarrow> jsnum" where
  "sum_of f xs = foldl (\<lambda>acc x. acc + f x) (lit 0) xs"

definition componentMetrics :: "dag_page \<Rightarrow> str \<Rightarrow> jsnum \<Rightarrow> jsnum \<Rightarrow> jsnum \<Rightarrow> (str \<times> jsnum) list" where
  "componentMetrics s i fallbackInput fallbackOutput fallbackIndexed =
     (let events = completedEvents s i in
      if events = [] then [(u ''input_records'', fallbackInput), (u ''output_rows'', fallbackOutput), (u ''indexed_rows'', fallbackIndexed),
          (u ''completed_batches'', nullish (map_option (pr_completed_batches \<circ> prd_run) (evidenceRun s)) (lit 0))]
      else [(u ''input_records'', sum_of pce_input_records events), (u ''output_rows'', sum_of pce_output_rows events),
          (u ''indexed_rows'', sum_of pce_indexed_rows events), (u ''completed_batches'', jsnum_of_nat (length events))])"

definition event_points :: "host \<Rightarrow> (PipelineComponentEvent \<Rightarrow> jsnum) \<Rightarrow> PipelineComponentEvent list \<Rightarrow> telemetry_point list" where
  "event_points h key events = filter (\<lambda>p. isFinite (tpt_timestamp p)) (map (\<lambda>e.
     \<lparr>tpt_timestamp = date_parse h (pce_occurred_at e) / lit 1000, tpt_value = key e,
      tpt_labels = Some [(u ''snapshot_id'', nullish (pce_snapshot_id e) []), (u ''status'', pce_status e)]\<rparr>) events)"

definition componentTelemetry :: "host \<Rightarrow> dag_page \<Rightarrow> str \<Rightarrow> (str \<times> telemetry_point list) list option" where
  "componentTelemetry h s i =
     (let events = completedEvents s i in
      if events = [] then None
      else Some [(u ''input_records'', event_points h pce_input_records events), (u ''output_rows'', event_points h pce_output_rows events),
          (u ''indexed_rows'', event_points h pce_indexed_rows events)])"

definition has_text :: "str option \<Rightarrow> bool" where
  "has_text v = (v \<noteq> None \<and> v \<noteq> Some [])"

definition coarseFeatureEvidence :: "dag_page \<Rightarrow> bool" where
  "coarseFeatureEvidence s = list_ex (\<lambda>e. pce_component_id e = u ''gold-features'' \<and> toUpperCase (pce_status e) = u ''COMPLETED'' \<and>
     lit 0 < pce_input_records e \<and> lit 0 < pce_output_rows e \<and> has_text (pce_snapshot_id e)) (historyEvents s)"

definition commitEvidence :: "dag_page \<Rightarrow> bool" where
  "commitEvidence s = list_ex (\<lambda>b. toUpperCase (pb_status b) = u ''COMPLETED'' \<and> lit 0 < pb_candidate_rows b \<and>
     lit 0 < pb_indexed_rows b \<and> has_text (pb_snapshot_id b)) (case evidenceRun s of Some r \<Rightarrow> prd_batches r | None \<Rightarrow> [])"

definition directEvidence :: "dag_page \<Rightarrow> str \<Rightarrow> bool" where
  "directEvidence s i = list_ex (\<lambda>e. lit 0 < pce_input_records e \<and> has_text (pce_snapshot_id e)) (completedEvents s i)"

definition finePhaseStatus :: "dag_page \<Rightarrow> str \<Rightarrow> HopStatus" where
  "finePhaseStatus s i = evidencedPhaseStatus s i (directEvidence s i \<or> coarseFeatureEvidence s) (runStatus s)"

definition goldTotal :: "dag_page \<Rightarrow> jsnum" where
  "goldTotal s = (case dg_historicalRun s of Some r \<Rightarrow> pr_completed_batches (prd_run r) | None \<Rightarrow> progress_of gp_gold_total s)"

definition goldCommitStatus :: "dag_page \<Rightarrow> HopStatus" where
  "goldCommitStatus s =
     (if dg_historicalRun s \<noteq> None then evidencedPhaseStatus s (u ''gold-commit'') (commitEvidence s) (runStatus s)
      else if lit 0 < goldTotal s then HS_completed else runStatus s)"

definition gold_runtime_of :: "dag_page \<Rightarrow> gold_runtime option" where
  "gold_runtime_of s = Option.bind (dg_goldControl s) gco_runtime"

definition worker_actions :: "dag_page \<Rightarrow> str list" where
  "worker_actions s = map gwt_action (filter (\<lambda>w. gwt_lifecycle w \<noteq> u ''KILLED'')
     (case gold_runtime_of s of Some r \<Rightarrow> grt_workers r | None \<Rightarrow> []))"

definition liveFineStatus :: "dag_page \<Rightarrow> nat \<Rightarrow> HopStatus" where
  "liveFineStatus s stg =
     (let has = (\<lambda>a. a \<in> set (worker_actions s)) in
      if has (u ''SNAPSHOT_COMMITTED'') then HS_completed
      else if has (u ''COMMITTING_SNAPSHOT'') then if stg < 8 then HS_completed else if stg = 8 then HS_running else HS_not_observed
      else if has (u ''MATERIALIZING_AND_INDEXING'') then if stg < 2 then HS_completed else if stg < 8 then HS_running else HS_not_observed
      else if has (u ''SYNCING_CATALOGS'') then if stg = 0 then HS_completed else if stg = 1 then HS_running else HS_not_observed
      else if has (u ''RETRYING_CATALOG_SYNC'') \<or> has (u ''FAILED_RETRY_SCHEDULED'') then if stg = 1 then HS_retry else HS_not_observed
      else if stg = 0 then goldBuilderStatus (dg_goldControl s) else HS_not_observed)"

definition phaseStatus :: "dag_page \<Rightarrow> str \<Rightarrow> nat \<Rightarrow> HopStatus" where
  "phaseStatus s i stg = (if dg_historicalRun s \<noteq> None then finePhaseStatus s i else liveFineStatus s stg)"

definition readiness_of :: "(gold_readiness \<Rightarrow> jsnum) \<Rightarrow> dag_page \<Rightarrow> jsnum" where
  "readiness_of f s = (case Option.bind (gold_runtime_of s) grt_readiness of Some r \<Rightarrow> f r | None \<Rightarrow> lit 0)"

definition livePending :: "dag_page \<Rightarrow> jsnum" where
  "livePending s = (case gold_runtime_of s of Some r \<Rightarrow> grt_pending_total r | None \<Rightarrow> lit 0)"

definition livePendingLC :: "dag_page \<Rightarrow> jsnum" where
  "livePendingLC s = nullish (Option.bind (gold_runtime_of s) (\<lambda>r. map_of (grt_pending_by_kind r) (u ''LIGHT_CURVE'')))
     (readiness_of grd_ready_lightcurves s + readiness_of grd_missing_tpf s)"

definition liveCatalogRecords :: "dag_page \<Rightarrow> jsnum" where
  "liveCatalogRecords s = (case Option.bind (gold_runtime_of s) grt_catalog_sync of
      Some c \<Rightarrow> gcs_tic_records c + gcs_toi_records c | None \<Rightarrow> lit 0 + lit 0)"

definition run_number :: "(PipelineRun \<Rightarrow> jsnum) \<Rightarrow> PipelineRunDetail option \<Rightarrow> jsnum" where
  "run_number f r = nullish (map_option (f \<circ> prd_run) r) (lit 0)"

definition num_or :: "jsnum \<Rightarrow> jsnum \<Rightarrow> jsnum" where
  "num_or a b = (if truthy a then a else b)"

section \<open>Hops\<close>

definition hop_of :: "str \<Rightarrow> str \<Rightarrow> str \<Rightarrow> str \<Rightarrow> str \<Rightarrow> str \<Rightarrow> str \<Rightarrow> HopStatus \<Rightarrow> str \<Rightarrow> str \<Rightarrow> (str \<times> jsnum) list option \<Rightarrow>
    (str \<times> telemetry_point list) list option \<Rightarrow> Hop" where
  "hop_of i step lbl title desc goal contract status inp outp metrics telemetry =
     \<lparr>hop_id = i, hop_stepNumber = step, hop_label = lbl, hop_shortTitle = title, hop_description = desc, hop_astronomyGoal = goal,
      hop_formula = None, hop_contract = contract, hop_status = status, hop_input = inp, hop_output = outp, hop_observed_at = None,
      hop_metrics = metrics, hop_telemetry = telemetry, hop_details = None, hop_lc_feature_evidence = None, hop_bls_search_evidence = None,
      hop_tpf_spatial_evidence = None, hop_candidate_assembly_evidence = None, hop_gold_materialization_evidence = None,
      hop_gold_projection_evidence = None, hop_gold_commit_evidence = None, hop_scatter_points = None, hop_tpf_transform_points = None,
      hop_materialization_points = None, hop_encode_failures = None, hop_silver_failures = None, hop_checkpoint_points = None\<rparr>"

definition historicalScope :: str where
  "historicalScope = (ue ''Bronze~2192Silver was not part of this ticket execution; retained for topology reference.'')"

definition upstream_hop :: "host \<Rightarrow> dag_page \<Rightarrow> str \<Rightarrow> str \<Rightarrow> str \<Rightarrow> str \<Rightarrow> str \<Rightarrow> str \<Rightarrow> str \<Rightarrow> str \<Rightarrow> str \<Rightarrow> Hop" where
  "upstream_hop h s i step lbl title desc goal contract inp outp =
     hop_of i step lbl title desc (if isHistory s then historicalScope else goal) contract (upstreamStatus s i) inp outp
       (if isHistory s then None else Option.bind (graph_map gh_metrics s i) (\<lambda>m. m))
       (if isHistory s then None else Option.bind (graph_map gh_telemetry s i) (\<lambda>m. m))"

definition upstream_hops :: "host \<Rightarrow> dag_page \<Rightarrow> Hop list" where
  "upstream_hops h s = [
    upstream_hop h s ((u ''bronze'')) ((u ''01'')) ((u ''Bronze Verify & Fetch'')) ((u ''Verified source FITS'')) ((u ''Verifies Bronze object identity, size and checksum before local staging.''))
      ((number_locale h None (bronzePending s) @ u '' processable FITS remain without a completed Silver checkpoint.'')) ((u ''bronze/tess/<product>/sector=<sector>/tic=<tic>/'')) ((u ''NASA MAST FITS'')) ((u ''Verified local FITS'')),
    upstream_hop h s ((u ''route'')) ((u ''02'')) ((u ''Product Route & Demux'')) ((u ''Demuxed raw product'')) ((u ''Routes FITS products to either Light Curve or Target Pixel calibration paths.''))
      ((ue ''Isolates Light Curve time series from 11~00D711 Target Pixel image cutouts.'')) ((u ''bronze/tess/<product>/sector=<sector>/tic=<tic>/<filename>'')) ((u ''Verified local FITS'')) ((u ''Typed FITS route'')),
    upstream_hop h s ((u ''lc-quality'')) ((u ''03A'')) ((u ''LC Quality Bitmask Filter'')) ((u ''LC Bitmask Verified'')) ((u ''Filters out telemetry dropouts, cosmic ray hits, and Earth-shine flares.''))
      ((u ''Discards known bad cadences before spline detrending.'')) ((u ''BITMASK 0x0001 | 0x0002 | 0x0008 | 0x0020 | 0x0040'')) ((u ''Light Curve FITS'')) ((u ''Quality-filtered cadences'')),
    upstream_hop h s ((u ''lc-transform'')) ((u ''04A'')) ((u ''PDC-SAP Detrend & Clean'')) ((u ''Detrended Flux Series'')) ((u ''Normalizes Pre-search Data Conditioning flux with robust outlier clipping.''))
      ((ue ''B~1EA3o to~00E0n ~0111~1ED9 s~00E2u v~00E0 h~00ECnh d~1EA1ng l~00F2ng ch~1EA3o transit h~00E0nh tinh trong khi tri~1EC7t ti~00EAu tr~00F4i d~1EA1t nhi~1EC7t (thermal drift) v~00E0 chu~1EA9n h~00F3a th~00F4ng l~01B0~1EE3ng t~01B0~01A1ng ~0111~1ED1i.'')) ((u ''flux_norm = pdcsap_flux / median(pdcsap_flux)'')) ((u ''Filtered cadences'')) ((u ''Normalized flux array'')),
    upstream_hop h s ((u ''lc-parquet'')) ((u ''05A'')) ((u ''LC Parquet Serialization'')) ((u ''LC Parquet Segment'')) ((u ''Serializes calibrated light curves into Snappy-compressed columnar Parquet format.''))
      ((u ''Encodes time, normalized flux, error, and quality flag.'')) ((u ''silver/tess/lightcurves/sector=<sector>/tic=<tic>/part.parquet'')) ((u ''Normalized flux array'')) ((u ''Silver LC Parquet'')),
    upstream_hop h s ((u ''tpf-quality'')) ((u ''03B'')) ((u ''TPF Quality & WCS Resolve'')) ((u ''TPF Quality Verified'')) ((u ''Extracts World Coordinate System (WCS) headers and validates image dimensions.''))
      ((u ''Ensures valid spatial astrometry for centroid motion analysis.'')) ((ue ''11~00D711 pixel postage stamps; WCS RA/Dec solution verified'')) ((u ''Target Pixel FITS'')) ((u ''Quality-filtered TPF'')),
    upstream_hop h s ((u ''tpf-transform'')) ((u ''04B'')) ((u ''TPF Flux Calibration'')) ((u ''Calibrated TPF Frames'')) ((u ''Applies background subtraction, aperture mask verification, and cosmic ray excision.''))
      ((u ''Isolates stellar PSF from background blending.'')) ((u ''flux_cal = raw_flux - background_model'')) ((u ''Filtered TPF stamps'')) ((u ''Calibrated image cube'')),
    upstream_hop h s ((u ''tpf-parquet'')) ((u ''05B'')) ((u ''TPF Parquet Serialization'')) ((u ''TPF Parquet Segment'')) ((ue ''Encodes calibrated 11~00D711 pixel frames into flattened array columns within Parquet.''))
      ((u ''Enables vector similarity and centroid vetting at analytical query speed.'')) ((u ''silver/tess/target_pixels/sector=<sector>/tic=<tic>/part.parquet'')) ((u ''Calibrated image cube'')) ((u ''Silver TPF Parquet'')),
    upstream_hop h s ((u ''silver'')) ((u ''06'')) ((u ''Silver Commit & Seal'')) ((u ''Finalized Silver Product'')) ((u ''Verifies schema conformance, writes object metadata, and marks the Silver partition durable.''))
      ((u ''Guarantees immutable input state before Gold feature extraction.'')) ((u ''silver/tess/<product>/sector=<sector>/tic=<tic>/'')) ((u ''Finalized Parquet parts'')) ((u ''Durable Silver object'')),
    upstream_hop h s ((u ''checkpoint'')) ((u ''07'')) ((u ''Checkpoint Persist'')) ((u ''Committed Checkpoint'')) ((u ''Persists pipeline state checkpoint to MinIO storage for reliable restart and lineage tracking.''))
      ((u ''Enables resumption from the last verified Silver product.'')) ((u ''checkpoints/preprocessing/sector=<sector>/checkpoint.json'')) ((u ''Silver object metadata'')) ((u ''Persisted checkpoint'')),
    upstream_hop h s ((u ''lineage'')) ((u ''08'')) ((u ''Lineage Ledger Update'')) ((u ''Recorded Lineage Record'')) ((u ''Records input-to-output provenance relationships in ClickHouse lineage ledger.''))
      ((u ''Full provenance tracking: Bronze FITS hash to Silver Parquet hash.'')) ((u ''lineage/preprocessing/<run_id>.json'')) ((u ''Checkpoint metadata'')) ((u ''Committed provenance record'')),
    upstream_hop h s ((u ''event'')) ((u ''09'')) ((u ''Event Publish to NATS'')) ((u ''Published NATS Event'')) ((u ''Publishes preprocessing completed notification to NATS JetStream topic for Gold Builder.''))
      ((u ''Triggers downstream candidate feature extraction and catalog lookup.'')) ((u ''aurora.events.preprocessing.completed.v1'')) ((u ''Lineage record ID'')) ((u ''Published JetStream event'')),
    upstream_hop h s ((u ''ack'')) ((u ''10'')) ((u ''Pipeline Acknowledge'')) ((u ''Workflow Acknowledged'')) ((u ''Finalizes preprocessing run execution and logs completion metrics.''))
      ((u ''Preprocessing workflow successfully completed for the batch.'')) ((u ''status: COMPLETED; duration logged to metrics'')) ((u ''Published event confirmation'')) ((u ''Run completion entry''))]"

definition gold_hop :: "host \<Rightarrow> dag_page \<Rightarrow> str \<Rightarrow> str \<Rightarrow> str \<Rightarrow> str \<Rightarrow> str \<Rightarrow> str \<Rightarrow> str \<Rightarrow> HopStatus \<Rightarrow> str \<Rightarrow> str \<Rightarrow> jsnum \<Rightarrow> jsnum \<Rightarrow> jsnum \<Rightarrow> Hop" where
  "gold_hop h s i step lbl title desc goal contract status inp outp fallbackInput fallbackOutput fallbackIndexed =
     hop_of i step lbl title desc goal contract status inp outp
       (Some (componentMetrics s i fallbackInput fallbackOutput fallbackIndexed)) (componentTelemetry h s i)"

definition gold_hops :: "host \<Rightarrow> dag_page \<Rightarrow> Hop list" where
  "gold_hops h s =
     (let hist = dg_historicalRun s; loc = number_locale h None;
          liveReady = readiness_of grd_ready_lightcurves s; liveTPF = readiness_of grd_tpf_contexts s;
          historicalInputs = run_number pr_input_records hist; historicalOutputs = run_number pr_output_rows hist;
          evidenceOutputs = run_number pr_output_rows (evidenceRun s) in [
    gold_hop h s ((u ''gold-pairing'')) ((u ''G01'')) ((u ''Silver Pairing & Worker Dequeue'')) ((u ''Paired Silver Multimodal Inputs''))
      ((ue ''Worker claims a Silver batch and pairs normalized light curve cadences with 11~00D711 target pixel context.''))
      (if hist \<noteq> None then (loc historicalInputs @ u '' input records were claimed for this historical ticket.'')
       else (loc liveReady @ u '' Silver light curves and '' @ loc liveTPF @ u '' TPF contexts currently observed ready.''))
      ((u ''silver/tess/{lightcurves,target_pixels}/sector=<sector>/tic=<tic>/part.parquet'')) (phaseStatus s (u ''gold-pairing'') 0)
      ((u ''Silver LC + TPF Parquet'')) ((u ''Paired Silver input record'')) (num_or historicalInputs liveReady) (num_or historicalInputs liveReady) (lit 0),
    gold_hop h s ((u ''gold-catalog'')) ((u ''G02'')) ((u ''Target Identity & TOI Catalog Sync'')) ((u ''TIC Astrometry & Curated TOI Match''))
      ((u ''Matches candidate targets against TIC stellar parameters and resolves curated TOI cross-references.''))
      (if hist \<noteq> None then (u ''Stellar parameters and TOI ephemerides resolved at execution time.'')
       else (loc (liveCatalogRecords s) @ u '' catalog records currently synchronized in worker memory.''))
      ((u ''aurora.targets + NASA Exoplanet Archive TOI ephemerides'')) (phaseStatus s (u ''gold-catalog'') 1)
      ((u ''Target TIC ID'')) ((u ''TIC params + TOI match context''))
      (num_or historicalInputs (liveCatalogRecords s)) (num_or historicalInputs (liveCatalogRecords s)) (lit 0),
    gold_hop h s ((u ''gold-lc-features'')) ((u ''G03'')) ((u ''Light Curve Features & BLS Transit Search'')) ((u ''LC Features & BLS Ephemeris''))
      ((u ''Computes 16-dim flux morphology features and runs Box Least Squares (BLS) transit period search.''))
      ((u ''Quantifies flux variability and searches for candidate exoplanet transit dips.''))
      ((u ''16-dim morphology vector + bls_period, bls_duration, bls_depth, bls_power'')) (phaseStatus s (u ''gold-lc-features'') 2)
      ((u ''Paired normalized flux series'')) ((u ''LC features & BLS candidate ephemeris''))
      (num_or historicalInputs liveReady) (num_or historicalInputs liveReady) (lit 0),
    gold_hop h s ((u ''gold-tpf-evidence'')) ((u ''G04'')) ((u ''TPF Centroid Motion & Deficit Vetting'')) ((u ''Pixel MAD & In-Transit Deficit Centroid''))
      ((u ''Measures in-transit flux deficit centroid against stellar position to detect background eclipsing binaries.''))
      ((u ''Rejects false positives caused by nearby eclipsing binary contamination.''))
      ((u ''pixel_mad_median, variability_peak_fraction, transit_deficit_sum, center_offset_px'')) (phaseStatus s (u ''gold-tpf-evidence'') 3)
      ((u ''TPF image cube + BLS ephemeris'')) ((u ''TPF spatial vetting vector''))
      (num_or historicalInputs liveTPF) (num_or historicalInputs liveTPF) (lit 0),
    gold_hop h s ((u ''gold-candidate'')) ((u ''G05'')) ((u ''Multimodal Candidate Assembly'')) ((u ''Assembled Candidate Discovery Record''))
      ((u ''Combines LC features, BLS ephemeris, TPF spatial evidence, and TIC context into a unified candidate row.''))
      (if hist \<noteq> None then (loc historicalOutputs @ u '' candidate records were assembled for this historical ticket.'')
       else (u ''Unifies multimodal discovery evidence before serialization.''))
      ((u ''Candidate discovery schema with strict tier-based validation gates'')) (phaseStatus s (u ''gold-candidate'') 4)
      ((u ''LC + BLS + TPF + TIC records'')) ((u ''Candidate Gold record''))
      (num_or historicalInputs (livePendingLC s)) (num_or historicalOutputs (livePendingLC s)) (lit 0),
    gold_hop h s ((u ''gold-commit'')) ((u ''G06'')) ((u ''Gold Storage & Snapshot Release'')) ((u ''Storage & Release Seal''))
      ((u ''Persists Snappy-compressed Parquet files to MinIO, indexes candidate rows into ClickHouse ReplacingMergeTree, and commits immutable release manifest.''))
      (case hist of
          Some r \<Rightarrow> (case pr_last_snapshot_id (prd_run r) of
              Some sn \<Rightarrow> if sn \<noteq> [] then (u ''Committed snapshot '' @ sn @ u '' as immutable release.'') else (u ''Durable run completed without an active snapshot seal.'')
            | None \<Rightarrow> (u ''Durable run completed without an active snapshot seal.''))
        | None \<Rightarrow> (case Option.bind (gold_runtime_of s) grt_last_snapshot_id of
              Some sn \<Rightarrow> if sn \<noteq> [] then (u ''Committed snapshot '' @ sn @ u '' as immutable release.'') else (u ''Awaiting complete batch before committing immutable snapshot.'')
            | None \<Rightarrow> (u ''Awaiting complete batch before committing immutable snapshot.'')))
      ((u ''Snappy Parquet + ClickHouse candidate_features_v1 + control/enrichment.json seal'')) (goldCommitStatus s)
      ((u ''Candidate Gold records'')) ((u ''Durable Parquet + Indexed ClickHouse rows + committed manifest''))
      (num_or historicalOutputs evidenceOutputs) (num_or historicalOutputs evidenceOutputs)
      (num_or (run_number pr_indexed_rows hist) (livePending s))])"

definition goldPhaseOrder :: "str list" where
  "goldPhaseOrder = [u ''gold-pairing'', u ''gold-catalog'', u ''gold-lc-features'', u ''gold-tpf-evidence'', u ''gold-candidate'', u ''gold-commit'']"

definition numberedHops :: "host \<Rightarrow> dag_page \<Rightarrow> Hop list" where
  "numberedHops h s = map (\<lambda>(i, hop). hop\<lparr>hop_stepNumber := padStart2 (num_str (jsnum_of_nat (Suc i)))\<rparr>)
     (enumerate 0 (upstream_hops h s @ gold_hops h s))"

definition hops :: "host \<Rightarrow> dag_page \<Rightarrow> Hop list" where
  "hops h s = (if isHistory s then filter (\<lambda>hop. hop_id hop \<in> set goldPhaseOrder) (numberedHops h s) else numberedHops h s)"

definition selectedHop :: "host \<Rightarrow> dag_page \<Rightarrow> Hop option" where
  "selectedHop h s = (case dg_selectedHopID s of None \<Rightarrow> None
    | Some i \<Rightarrow> if i = [] then None else List.find (\<lambda>hop. hop_id hop = i) (hops h s))"

definition visibleConnections :: "host \<Rightarrow> dag_page \<Rightarrow> DagConnection list" where
  "visibleConnections h s = filter (\<lambda>c. dc_source c \<in> hop_id ` set (hops h s) \<and> dc_target c \<in> hop_id ` set (hops h s)) dagConnections"

section \<open>Figures\<close>

definition effectiveTicketID :: "dag_page \<Rightarrow> str" where
  "effectiveTicketID s = (if dg_selectedRunID s \<noteq> [] then dg_selectedRunID s else dg_activeTicket s)"

definition isHistorical :: "dag_page \<Rightarrow> bool" where
  "isHistorical s = (dg_selectedRunID s \<noteq> [] \<and> dg_historicalRun s \<noteq> None)"

definition ticketKpi :: "host \<Rightarrow> dag_page \<Rightarrow> str \<times> str" where
  "ticketKpi h s = (if effectiveTicketID s \<noteq> [] then effectiveTicketID s else u ''None'',
     let n = num_str (jsnum_of_nat (length (hops h s))) in
     if isHistorical s
     then (n @ ue '' Hops ~00B7 '' @ nullish (map_option (\<lambda>r. toUpperCase (pr_mode (prd_run r))) (dg_historicalRun s)) (u ''BATCH'') @ u '' Historical Run'')
     else (n @ ue '' Hops ~00B7 '' @ nullish (map_option (\<lambda>r. toUpperCase (pj_mode r)) (Option.bind (dg_graph s) pg_run)) (u ''STREAM'') @ u '' Mode''))"

definition bronzeKpi :: "host \<Rightarrow> dag_page \<Rightarrow> str \<times> str" where
  "bronzeKpi h s =
     (let bronzeCount = progress_of gp_bronze_total s; pending = progress_of gp_bronze_pending s; bytes = progress_of gp_bronze_bytes s;
          loc = number_locale h None in
      (if isHistorical s then (loc (run_number pr_input_records (dg_historicalRun s)) @ u '' Inputs'')
       else if lit 0 < bronzeCount then (loc bronzeCount @ u '' FITS'') else u ''Standby'',
       if isHistorical s then u ''Historical source scope''
       else if lit 0 < bronzeCount then (loc pending @ ue '' pending ~00B7 '' @ dag_formatBytes bytes) else u ''Bronze telemetry verified''))"

definition status_text :: "HopStatus \<Rightarrow> str" where
  "status_text st = (case st of HS_not_observed \<Rightarrow> u ''not_observed'' | HS_idle \<Rightarrow> u ''idle'' | HS_running \<Rightarrow> u ''running''
    | HS_draining \<Rightarrow> u ''draining'' | HS_frozen \<Rightarrow> u ''frozen'' | HS_catalog_syncing \<Rightarrow> u ''catalog_syncing'' | HS_ready \<Rightarrow> u ''ready''
    | HS_completed \<Rightarrow> u ''completed'' | HS_retry \<Rightarrow> u ''retry'' | HS_failed \<Rightarrow> u ''failed'' | HS_cancelling \<Rightarrow> u ''cancelling''
    | HS_canceled \<Rightarrow> u ''canceled'')"

definition silverKpi :: "host \<Rightarrow> dag_page \<Rightarrow> str \<times> str" where
  "silverKpi h s =
     (let silverTotal = progress_of gp_silver_total s; loc = number_locale h None in
      (if isHistorical s then (loc (run_number pr_completed_batches (dg_historicalRun s)) @ u '' Batches'')
       else if lit 0 < silverTotal then (loc silverTotal @ u '' Artifacts'')
       else nullish (map_option (\<lambda>g. toUpperCase (status_text (pg_status g))) (dg_graph s)) (u ''IDLE''),
       if isHistorical s then u ''Silver verified footprint''
       else (loc (progress_of gp_completed_lightcurves s) @ ue '' Lightcurves ~00B7 '' @ loc (progress_of gp_completed_target_pixels s) @ u '' TPFs'')))"

definition goldKpi :: "dag_page \<Rightarrow> str \<times> str" where
  "goldKpi s =
     (let goldSnapshot = (case Option.bind (dg_historicalRun s) (\<lambda>r. pr_last_snapshot_id (prd_run r)) of
            Some sn \<Rightarrow> if sn \<noteq> [] then Some sn else Option.bind (gold_runtime_of s) grt_last_snapshot_id
          | None \<Rightarrow> Option.bind (gold_runtime_of s) grt_last_snapshot_id) in
      (if isHistorical s then nullish (map_option (\<lambda>r. toUpperCase (pr_status (prd_run r))) (dg_historicalRun s)) (u ''COMPLETED'')
       else nullish (map_option (\<lambda>r. toUpperCase (grt_state r)) (gold_runtime_of s)) (u ''IDLE''),
       if has_text goldSnapshot then (u ''Snapshot: '' @ the goldSnapshot)
       else (num_str (nullish (map_option grt_active_builds (gold_runtime_of s)) (lit 0)) @ ue '' active builds ~00B7 '' @ num_str (nullish (map_option (\<lambda>r. jsnum_of_nat (length (grt_workers r))) (gold_runtime_of s)) (lit 0)) @ u '' workers'')))"

section \<open>The visible hops\<close>

lemma hop_of_simps [simp]:
  "hop_id (hop_of i n l t d g c st inp outp m tm) = i" "hop_status (hop_of i n l t d g c st inp outp m tm) = st"
  by (simp_all add: hop_of_def)

lemma upstream_hop_simps [simp]:
  "hop_id (upstream_hop h s i n l t d g c inp outp) = i" "hop_status (upstream_hop h s i n l t d g c inp outp) = upstreamStatus s i"
  by (simp_all add: upstream_hop_def)

lemma gold_hop_simps [simp]:
  "hop_id (gold_hop h s i n l t d g c st inp outp a b e) = i" "hop_status (gold_hop h s i n l t d g c st inp outp a b e) = st"
  by (simp_all add: gold_hop_def)

definition upstream_order :: "str list" where
  "upstream_order = [u ''bronze'', u ''route'', u ''lc-quality'', u ''lc-transform'', u ''lc-parquet'', u ''tpf-quality'', u ''tpf-transform'',
     u ''tpf-parquet'', u ''silver'', u ''checkpoint'', u ''lineage'', u ''event'', u ''ack'']"

lemma upstream_ids: "map hop_id (upstream_hops h s) = upstream_order"
  by (simp add: upstream_hops_def upstream_order_def)

lemma gold_ids: "map hop_id (gold_hops h s) = goldPhaseOrder"
  by (simp add: gold_hops_def goldPhaseOrder_def Let_def)

lemma renumber_ids: "map hop_id (map (\<lambda>(i, hop). hop\<lparr>hop_stepNumber := f i\<rparr>) (enumerate n xs)) = map hop_id xs"
  by (induction xs arbitrary: n) simp_all

lemma numbered_ids: "map hop_id (numberedHops h s) = upstream_order @ goldPhaseOrder"
  by (simp add: numberedHops_def renumber_ids [unfolded map_map] upstream_ids gold_ids del: map_append) (simp add: upstream_ids gold_ids)

lemma hop_ids: "map hop_id (hops h s) = (if isHistory s then goldPhaseOrder else upstream_order @ goldPhaseOrder)"
proof -
  have "map hop_id (filter (\<lambda>hop. hop_id hop \<in> set goldPhaseOrder) (numberedHops h s)) =
    filter (\<lambda>i. i \<in> set goldPhaseOrder) (upstream_order @ goldPhaseOrder)"
    unfolding numbered_ids [of h s, symmetric] by (simp add: filter_map comp_def)
  moreover have "\<dots> = goldPhaseOrder" by (simp add: upstream_order_def goldPhaseOrder_def)
  ultimately show ?thesis by (simp add: hops_def numbered_ids)
qed

lemma hop_id_set: "hop_id ` set (hops h s) = set (if isHistory s then goldPhaseOrder else upstream_order @ goldPhaseOrder)"
  by (simp only: set_map [symmetric] hop_ids)

section \<open>Evidence\<close>

definition evidenced :: "dag_page \<Rightarrow> str \<Rightarrow> bool" where
  "evidenced s i =
     (if i \<in> set goldPhaseOrder then
        if dg_historicalRun s \<noteq> None then
          if i = u ''gold-commit'' then commitEvidence s else directEvidence s i \<or> coarseFeatureEvidence s
        else if i = u ''gold-commit'' then lit 0 < goldTotal s
        else list_ex (\<lambda>a. a \<in> set (worker_actions s))
          [u ''SNAPSHOT_COMMITTED'', u ''COMMITTING_SNAPSHOT'', u ''MATERIALIZING_AND_INDEXING'', u ''SYNCING_CATALOGS'']
      else \<not> isHistory s \<and> upstreamEvidence s i)"

lemma builder_not_completed [simp]: "goldBuilderStatus x \<noteq> HS_completed"
  by (simp add: goldBuilderStatus_def Let_def split: option.split)

lemma upstream_completed: "upstreamStatus s i = HS_completed \<Longrightarrow> \<not> isHistory s \<and> upstreamEvidence s i"
  by (auto simp: upstreamStatus_def Let_def split: if_splits)

lemma evidenced_phase: "evidencedPhaseStatus s i e f = HS_completed \<longleftrightarrow> e"
  by (simp add: evidencedPhaseStatus_def Let_def)

lemma live_completed:
  "liveFineStatus s stg = HS_completed \<Longrightarrow> list_ex (\<lambda>a. a \<in> set (worker_actions s))
     [u ''SNAPSHOT_COMMITTED'', u ''COMMITTING_SNAPSHOT'', u ''MATERIALIZING_AND_INDEXING'', u ''SYNCING_CATALOGS'']"
  by (auto simp: liveFineStatus_def Let_def split: if_splits)

lemma phase_completed:
  "phaseStatus s i stg = HS_completed \<Longrightarrow> i \<in> set goldPhaseOrder \<Longrightarrow> i \<noteq> u ''gold-commit'' \<Longrightarrow> evidenced s i"
  using live_completed [of s stg] by (auto simp: phaseStatus_def finePhaseStatus_def evidenced_def evidenced_phase split: if_splits)

lemma commit_completed: "goldCommitStatus s = HS_completed \<Longrightarrow> evidenced s (u ''gold-commit'')"
  by (auto simp: goldCommitStatus_def evidenced_def evidenced_phase goldPhaseOrder_def runStatus_def split: if_splits)

lemma upstream_evidenced: "x \<in> set (upstream_hops h s) \<Longrightarrow> hop_status x = HS_completed \<Longrightarrow> evidenced s (hop_id x)"
proof -
  assume x: "x \<in> set (upstream_hops h s)" "hop_status x = HS_completed"
  then have "hop_status x = upstreamStatus s (hop_id x)" by (auto simp: upstream_hops_def)
  moreover have "hop_id x \<in> set upstream_order" using x(1) upstream_ids [of h s] by (metis image_eqI list.set_map)
  then have "hop_id x \<notin> set goldPhaseOrder" by (auto simp: upstream_order_def goldPhaseOrder_def)
  ultimately show ?thesis using x(2) upstream_completed [of s "hop_id x"] by (simp add: evidenced_def)
qed

lemma gold_evidenced: "x \<in> set (gold_hops h s) \<Longrightarrow> hop_status x = HS_completed \<Longrightarrow> evidenced s (hop_id x)"
proof -
  assume x: "x \<in> set (gold_hops h s)" "hop_status x = HS_completed"
  have "list_all (\<lambda>x. if hop_id x = u ''gold-commit'' then hop_status x = goldCommitStatus s
      else \<exists>stg. hop_status x = phaseStatus s (hop_id x) stg) (gold_hops h s)"
    by (simp add: gold_hops_def Let_def) blast
  then have "if hop_id x = u ''gold-commit'' then hop_status x = goldCommitStatus s else \<exists>stg. hop_status x = phaseStatus s (hop_id x) stg"
    using x(1) by (simp add: list_all_iff)
  moreover have "hop_id x \<in> set goldPhaseOrder" using x(1) gold_ids [of h s] by (metis image_eqI list.set_map)
  ultimately show ?thesis using x(2) phase_completed [of s "hop_id x"] commit_completed [of s] by metis
qed

lemma numbered_from:
  assumes "hop \<in> set (numberedHops h s)"
  obtains x where "x \<in> set (upstream_hops h s @ gold_hops h s)" "hop_id hop = hop_id x" "hop_status hop = hop_status x"
proof -
  obtain p where p: "p \<in> set (enumerate 0 (upstream_hops h s @ gold_hops h s))" "hop_id hop = hop_id (snd p)" "hop_status hop = hop_status (snd p)"
    using assms unfolding numberedHops_def set_map by (force split: prod.splits)
  have "snd p \<in> set (map snd (enumerate 0 (upstream_hops h s @ gold_hops h s)))" unfolding set_map using p(1) by (rule imageI)
  then show ?thesis using that p(2,3) unfolding map_snd_enumerate by blast
qed

section \<open>The visible graph\<close>

text \<open>\<open>before xs a b\<close>: \<open>a\<close> stands before \<open>b\<close> in \<open>xs\<close>.\<close>

fun before :: "'a list \<Rightarrow> 'a \<Rightarrow> 'a \<Rightarrow> bool" where
  "before [] a b = False"
| "before (x # xs) a b = (if x = a then b \<in> set xs else before xs a b)"

definition edge_of :: "DagConnection \<Rightarrow> str \<times> str" where
  "edge_of c = (dc_source c, dc_target c)"

definition graph_ok :: "str list \<Rightarrow> DagConnection list \<Rightarrow> bool" where
  "graph_ok ids E = (distinct ids \<and> list_all (\<lambda>c. before ids (dc_source c) (dc_target c)) E \<and>
     list_all (\<lambda>i. list_ex (\<lambda>c. dc_target c = i) E) (tl ids))"

lemma before_index: "distinct xs \<Longrightarrow> before xs a b \<Longrightarrow> \<exists>i j. i < j \<and> j < length xs \<and> xs ! i = a \<and> xs ! j = b"
proof (induction xs)
  case (Cons x xs)
  show ?case
  proof (cases "x = a")
    case True
    then obtain j where "j < length xs" "xs ! j = b" using Cons.prems by (auto simp: in_set_conv_nth)
    then show ?thesis using True by (intro exI [of _ 0] exI [of _ "Suc j"]) simp
  next
    case False
    then obtain i j where "i < j" "j < length xs" "xs ! i = a" "xs ! j = b" using Cons by auto
    then show ?thesis by (intro exI [of _ "Suc i"] exI [of _ "Suc j"]) simp
  qed
qed simp

text \<open>A relation that only leads to later elements of a list has no cycle.\<close>

lemma before_acyclic:
  assumes "distinct ids" "\<And>a b. (a, b) \<in> R \<Longrightarrow> before ids a b"
  shows "acyclic R"
proof -
  have "\<exists>i j. i < j \<and> j < length ids \<and> ids ! i = a \<and> ids ! j = b" if "(a, b) \<in> R\<^sup>+" for a b
    using that
  proof (induction rule: trancl_induct)
    case (base b)
    then show ?case using before_index [OF assms(1) assms(2)] by blast
  next
    case (step b c)
    then obtain i j where ij: "i < j" "j < length ids" "ids ! i = a" "ids ! j = b" by blast
    obtain k l where kl: "k < l" "l < length ids" "ids ! k = b" "ids ! l = c"
      using before_index [OF assms(1) assms(2)] step.hyps(2) by blast
    have "j = k" using ij kl assms(1) nth_eq_iff_index_eq [of ids j k] by simp
    then show ?case using ij kl by (intro exI [of _ i] exI [of _ l]) simp
  qed
  then show ?thesis using assms(1) by (force simp: acyclic_def nth_eq_iff_index_eq)
qed

lemma live_graph_ok: "graph_ok (upstream_order @ goldPhaseOrder) dagConnections"
  by (simp add: graph_ok_def upstream_order_def goldPhaseOrder_def dagConnections_def connection_def)

lemma live_connections: "\<not> isHistory s \<Longrightarrow> visibleConnections h s = dagConnections"
  by (simp add: visibleConnections_def hop_id_set) (simp add: dagConnections_def connection_def upstream_order_def goldPhaseOrder_def)

lemma history_graph_ok: "isHistory s \<Longrightarrow> graph_ok goldPhaseOrder (visibleConnections h s)"
  by (simp add: visibleConnections_def hop_id_set)
    (simp add: graph_ok_def goldPhaseOrder_def dagConnections_def connection_def)

lemma visible_graph_ok: "graph_ok (map hop_id (hops h s)) (visibleConnections h s)"
  using live_graph_ok history_graph_ok [of s h] by (simp add: hop_ids live_connections)

section \<open>Calls\<close>

definition calls_ok :: "dag_page \<Rightarrow> bool" where
  "calls_ok s = list_all (\<lambda>c. fst c < dg_next s) (dg_calls s)"

lemma call_fresh: "calls_ok s \<Longrightarrow> map_of (dg_calls s @ [(dg_next s, c)]) (dg_next s) = Some c"
proof -
  assume "calls_ok s"
  then have "map_of (dg_calls s) (dg_next s) = None" by (auto simp: map_of_eq_None_iff calls_ok_def list_all_iff)
  then show ?thesis by (simp add: map_add_def)
qed

text \<open>
  Two runs selected in turn: the answer for the first, when it arrives last, is shown under
  the address of the second.
\<close>

lemma stale_run_shown:
  fixes s :: dag_page and a b :: str and old new :: PipelineRunDetail
  assumes "calls_ok s" "a \<noteq> []" "b \<noteq> []" "a \<noteq> dg_selectedRunID s" "a \<noteq> b"
    "encodeURIComponent a = Some a'" "encodeURIComponent b = Some b'"
  defines "s' \<equiv> settle_call (dg_next s) (A_run (Inr old)) (settle_call (Suc (dg_next s)) (A_run (Inr new)) (selectRun b (selectRun a s)))"
  shows "dg_selectedRunID s' = b \<and> dg_historicalRun s' = Some old \<and> \<not> dg_historyLoading s'"
proof -
  let ?s2 = "selectRun b (selectRun a s)"
  have r: "dg_calls ?s2 = dg_calls s @ [(dg_next s, Run a' True), (Suc (dg_next s), Run b' True)]" "dg_selectedRunID ?s2 = b"
    using assms by (simp_all add: selectRun_def loadRun_def add_call_def)
  have n: "dg_next s \<notin> fst ` set (dg_calls s)" "Suc (dg_next s) \<notin> fst ` set (dg_calls s)"
    using assms(1) by (auto simp: calls_ok_def list_all_iff)
  then have "map_of (dg_calls ?s2) (Suc (dg_next s)) = Some (Run b' True)"
    by (simp add: r map_add_def map_of_eq_None_iff [symmetric])
  moreover have "map_of (filter (\<lambda>c. fst c \<noteq> Suc (dg_next s)) (dg_calls ?s2)) (dg_next s) = Some (Run a' True)"
  proof -
    have "filter (\<lambda>c. fst c \<noteq> Suc (dg_next s)) (dg_calls s) = dg_calls s" using n(2) by (force simp: filter_id_conv)
    then show ?thesis using n(1) by (simp add: r map_add_def map_of_eq_None_iff [symmetric])
  qed
  ultimately show ?thesis by (simp add: s'_def settle_call_def run_settled_def r Let_def)
qed

section \<open>Properties\<close>



text \<open>
  The answer of a run that was deselected while it was loading is stored all the same: with
  no run selected, the evidence and the status of the gold phases are then those of the past run.
\<close>

theorem deselected_run_leaks:
  fixes s :: dag_page and run :: str and d :: PipelineRunDetail
  assumes "calls_ok s" "dg_selectedRunID s = []" "run \<noteq> []" "encodeURIComponent run = Some e"
  defines "s' \<equiv> settle_call (dg_next s) (A_run (Inr d)) (selectRun [] (selectRun run s))"
  shows "\<not> isHistory s' \<and> evidenceRun s' = Some d \<and> phaseStatus s' i stg = finePhaseStatus s' i \<and>
    runStatus s' = hopStatus (Some (pr_status (prd_run d))) HS_not_observed"
proof -
  let ?s2 = "selectRun [] (selectRun run s)"
  have r: "dg_calls ?s2 = dg_calls s @ [(dg_next s, Run e True)]" "dg_selectedRunID ?s2 = []"
    using assms by (simp_all add: selectRun_def loadRun_def add_call_def)
  have "dg_selectedRunID s' = [] \<and> dg_historicalRun s' = Some d"
    using call_fresh [OF assms(1), of "Run e True"] r by (simp add: s'_def settle_call_def run_settled_def Let_def)
  then show ?thesis by (simp add: isHistory_def evidenceRun_def nullish2_def phaseStatus_def runStatus_def)
qed

definition sample_failed_run :: PipelineRunDetail where
  "sample_failed_run = \<lparr>prd_run = \<lparr>pr_pipeline = u ''gold'', pr_run_id = u ''r1'', pr_mode = u ''batch'', pr_status = u ''FAILED'', pr_started_at = [],
     pr_finished_at = None, pr_max_batch_records = lit 1, pr_idle_flush_seconds = lit 1, pr_pending_inputs = lit 0, pr_completed_batches = lit 0,
     pr_input_records = lit 0, pr_output_rows = lit 0, pr_indexed_rows = lit 0, pr_last_snapshot_id = None, pr_last_error = None,
     pr_updated_at = []\<rparr>, prd_batches = [], prd_components = [], prd_scientific_evidence = None\<rparr>"

theorem deselected_run_leaks_witness:
  "runStatus (settle_call 1 (A_run (Inr sample_failed_run)) (selectRun [] (selectRun (u ''r1'') (mount_dag (u ''T'') [])))) = HS_failed"
proof -
  let ?s = "mount_dag (u ''T'') []"
  have "calls_ok ?s" "dg_selectedRunID ?s = []" "dg_next ?s = 1"
    by (simp_all add: calls_ok_def mount_dag_def loadRun_def loadOverview_def add_call_def)
  moreover have "encodeURIComponent (u ''r1'') = Some (u ''r1'')" by (rule encode_unreserved) (simp add: u_def unreserved_def)
  moreover have "hopStatus (Some (pr_status (prd_run sample_failed_run))) HS_not_observed = HS_failed"
    by (simp add: hopStatus_def sample_failed_run_def) (simp add: toLowerCase_def u_def)
  ultimately show ?thesis using deselected_run_leaks [of ?s "u ''r1''" "u ''r1''" sample_failed_run] by simp
qed

end
