(* ===== verification/DagCanvas.thy ===== *)
theory DagCanvas
  imports DagHops
begin

text \<open>
  The canvas of the pipeline graph (\<open>pages/pipeline-dag/components/PipelineDagCanvas.tsx\<close>):
  positions of the nodes, sides of their handles, nodes and edges from the hops and
  connections, and the effects that update them. The nodes are the state of the component:
  made once when it is mounted, and updated from the hops afterwards. Shown: in both layouts of
  the page the cards do not overlap, and the update never adds or removes a node.
\<close>

section \<open>Positions\<close>

datatype DagLayout = L_grid | L_reverse_c | L_branched

datatype Position = P_Left | P_Right | P_Top | P_Bottom

type_synonym point = "jsnum \<times> jsnum"

definition BRANCHED_POSITIONS :: "(str \<times> point) list" where
  "BRANCHED_POSITIONS = [
    ((u ''bronze''), (lit 20, lit 420)),
    ((u ''route''), (lit 390, lit 420)),
    ((u ''lc-quality''), (lit 780, lit 20)),
    ((u ''lc-transform''), (lit 1160, lit 20)),
    ((u ''lc-parquet''), (lit 1540, lit 20)),
    ((u ''tpf-quality''), (lit 780, lit 820)),
    ((u ''tpf-transform''), (lit 1160, lit 820)),
    ((u ''tpf-parquet''), (lit 1540, lit 820)),
    ((u ''silver''), (lit 1940, lit 420)),
    ((u ''checkpoint''), (lit 2320, lit 420)),
    ((u ''lineage''), (lit 2700, lit 420)),
    ((u ''event''), (lit 3080, lit 420)),
    ((u ''ack''), (lit 3460, lit 80)),
    ((u ''gold-pairing''), (lit 3460, lit 500)),
    ((u ''gold-catalog''), (lit 3880, lit 180)),
    ((u ''gold-lc-features''), (lit 3880, lit 500)),
    ((u ''gold-tpf-evidence''), (lit 4260, lit 780)),
    ((u ''gold-candidate''), (lit 4560, lit 500)),
    ((u ''gold-commit''), (lit 4960, lit 500))]"

definition ENRICHMENT_BRANCHED_POSITIONS :: "(str \<times> point) list" where
  "ENRICHMENT_BRANCHED_POSITIONS = [
    ((u ''gold-pairing''), (lit 50, lit 350)),
    ((u ''gold-catalog''), (lit 450, lit 100)),
    ((u ''gold-lc-features''), (lit 450, lit 350)),
    ((u ''gold-tpf-evidence''), (lit 850, lit 600)),
    ((u ''gold-candidate''), (lit 1150, lit 350)),
    ((u ''gold-commit''), (lit 1550, lit 350))]"

definition nodePosition :: "nat \<Rightarrow> DagLayout \<Rightarrow> str \<Rightarrow> bool \<Rightarrow> point" where
  "nodePosition index layout i isEnrichmentOnly =
     (case if isEnrichmentOnly \<and> i \<noteq> [] then map_of ENRICHMENT_BRANCHED_POSITIONS i else None of Some p \<Rightarrow> p
      | None \<Rightarrow>
          (case if layout = L_branched \<and> i \<noteq> [] then map_of BRANCHED_POSITIONS i else None of Some p \<Rightarrow> p
           | None \<Rightarrow>
               if layout = L_reverse_c
               then let row = index div 4; positionInRow = index mod 4;
                        column = (if row mod 2 = 0 then positionInRow else 3 - positionInRow)
                    in (jsnum_of_nat (50 + column * 350), jsnum_of_nat (60 + row * 250))
               else (jsnum_of_nat ((index mod 3) * 270 + 50), jsnum_of_nat ((index div 3) * 200 + 40))))"

definition handleDirection :: "point \<Rightarrow> point \<Rightarrow> Position" where
  "handleDirection from to =
     (if Math_abs (snd to - snd from) \<le> Math_abs (fst to - fst from)
      then if fst from \<le> fst to then P_Right else P_Left
      else if snd from \<le> snd to then P_Bottom else P_Top)"

definition averagePosition :: "point list \<Rightarrow> point option" where
  "averagePosition positions = (if positions = [] then None
     else Some (sum_of fst positions / jsnum_of_nat (length positions), sum_of snd positions / jsnum_of_nat (length positions)))"

section \<open>Nodes and edges\<close>

record DagNode =
  nd_id :: str
  nd_position :: point
  nd_hop :: Hop
  nd_targetHandle :: Position
  nd_sourceHandle :: Position

record DagEdge =
  de_id :: str
  de_source :: str
  de_target :: str
  de_status :: "HopStatus option"
  de_label :: "str option"
  de_lane :: "DagLane option"

definition isEnrichmentOnly :: "Hop list \<Rightarrow> bool" where
  "isEnrichmentOnly hs = (hs \<noteq> [] \<and> list_all (\<lambda>hop. startsWith (hop_id hop) (u ''gold-'')) hs)"

definition canvasHeight :: "DagLayout \<Rightarrow> Hop list \<Rightarrow> jsnum" where
  "canvasHeight layout hs = (if layout = L_branched then if isEnrichmentOnly hs then lit 850 else lit 1100
     else Math_max (lit 680) (Math_ceil (jsnum_of_nat (length hs) / lit 4) * lit 250 + lit 100))"

definition graphConnections :: "DagConnection list option \<Rightarrow> str list \<Rightarrow> Hop list \<Rightarrow> DagConnection list" where
  "graphConnections connections edgeLabels hs = nullish connections
     (map (\<lambda>(index, hop, nxt). \<lparr>dc_source = hop_id hop, dc_target = hop_id nxt, dc_label = arr_at edgeLabels index, dc_lane = Some DL_shared\<rparr>)
       (enumerate 0 (zip (butlast hs) (tl hs))))"

definition positions_of :: "DagLayout \<Rightarrow> Hop list \<Rightarrow> str \<Rightarrow> point option" where
  "positions_of layout hs = map_of (rev (map (\<lambda>(index, hop).
     (hop_id hop, nodePosition index layout (hop_id hop) (isEnrichmentOnly hs))) (enumerate 0 hs)))"

definition incoming_center :: "(str \<Rightarrow> point option) \<Rightarrow> DagConnection list \<Rightarrow> str \<Rightarrow> point option" where
  "incoming_center at_pos conns i =
     averagePosition (List.map_filter (\<lambda>c. at_pos (dc_source c)) (filter (\<lambda>c. dc_target c = i) conns))"

definition outgoing_center :: "(str \<Rightarrow> point option) \<Rightarrow> DagConnection list \<Rightarrow> str \<Rightarrow> point option" where
  "outgoing_center at_pos conns i =
     averagePosition (List.map_filter (\<lambda>c. at_pos (dc_target c)) (filter (\<lambda>c. dc_source c = i) conns))"

definition node_of :: "(str \<Rightarrow> point option) \<Rightarrow> DagConnection list \<Rightarrow> point \<Rightarrow> Hop \<Rightarrow> DagNode" where
  "node_of at_pos conns position hop =
     \<lparr>nd_id = hop_id hop, nd_position = position, nd_hop = hop,
      nd_targetHandle = (case incoming_center at_pos conns (hop_id hop) of Some c \<Rightarrow> handleDirection position c | None \<Rightarrow> P_Left),
      nd_sourceHandle = (case outgoing_center at_pos conns (hop_id hop) of Some c \<Rightarrow> handleDirection position c | None \<Rightarrow> P_Right)\<rparr>"

definition initialNodes :: "DagLayout \<Rightarrow> Hop list \<Rightarrow> DagConnection list \<Rightarrow> DagNode list" where
  "initialNodes layout hs conns = map (\<lambda>hop.
     node_of (positions_of layout hs) conns (nullish (positions_of layout hs (hop_id hop)) (lit 0, lit 0)) hop) hs"

text \<open>The effect that follows a change of the hops: every node that is there is brought up to date.\<close>

definition update_nodes :: "DagLayout \<Rightarrow> Hop list \<Rightarrow> DagConnection list \<Rightarrow> DagNode list \<Rightarrow> DagNode list" where
  "update_nodes layout hs conns current = map (\<lambda>node.
     case List.find (\<lambda>item. hop_id item = nd_id node) hs of None \<Rightarrow> node
     | Some hop \<Rightarrow> (node_of (positions_of layout hs) conns (nullish (positions_of layout hs (hop_id hop)) (nd_position node)) hop)
         \<lparr>nd_id := nd_id node\<rparr>) current"

definition edges_of :: "Hop list \<Rightarrow> DagConnection list \<Rightarrow> DagEdge list" where
  "edges_of hs conns = map (\<lambda>c. \<lparr>de_id = (u ''edge-'' @ dc_source c @ u ''-'' @ dc_target c), de_source = dc_source c, de_target = dc_target c,
     de_status = map_option hop_status (List.find (\<lambda>hop. hop_id hop = dc_source c) hs), de_label = dc_label c, de_lane = dc_lane c\<rparr>) conns"

section \<open>Appearance\<close>

definition lane_color :: "DagLane \<Rightarrow> str" where
  "lane_color l = (case l of DL_shared \<Rightarrow> u ''#0ea5e9'' | DL_catalog \<Rightarrow> u ''#f59e0b'' | DL_light_curve \<Rightarrow> u ''#22c55e''
    | DL_target_pixel \<Rightarrow> u ''#a855f7'' | DL_merge \<Rightarrow> u ''#06b6d4'' | DL_output \<Rightarrow> u ''#3b82f6'')"

definition edge_color :: "DagEdge \<Rightarrow> str" where
  "edge_color e = (if nullish (de_status e) HS_not_observed = HS_failed then u ''#ef4444'' else lane_color (nullish (de_lane e) DL_shared))"

definition node_badge_variant :: "HopStatus \<Rightarrow> str" where
  "node_badge_variant st = (if st = HS_completed \<or> st = HS_running \<or> st = HS_catalog_syncing \<or> st = HS_ready then u ''default''
     else if st = HS_failed then u ''destructive'' else u ''outline'')"

definition statusLabel :: "HopStatus \<Rightarrow> str" where
  "statusLabel st = (if st = HS_not_observed then u ''standby'' else status_text st)"

definition minimap_color :: "HopStatus \<Rightarrow> str" where
  "minimap_color st = (if st = HS_running \<or> st = HS_completed then u ''#10b981''
     else if st = HS_failed then u ''#ef4444'' else u ''#64748b'')"

section \<open>Nodes are never added\<close>

lemma node_of_id [simp]: "nd_id (node_of p c q hop) = hop_id hop"
  by (simp add: node_of_def)

lemma initial_ids: "map nd_id (initialNodes layout hs conns) = map hop_id hs"
  by (simp add: initialNodes_def)

lemma update_ids: "map nd_id (update_nodes layout hs conns current) = map nd_id current"
  by (simp add: update_nodes_def split: option.split)

section \<open>Cards do not overlap\<close>

text \<open>A card is 250 pixels wide: two cards are more than that apart sideways, or at least 250 apart vertically.\<close>

definition apart :: "point \<Rightarrow> point \<Rightarrow> bool" where
  "apart p q = (250 < \<bar>val (fst p) - val (fst q)\<bar> \<or> 250 \<le> \<bar>val (snd p) - val (snd q)\<bar>)"

fun all_apart :: "point list \<Rightarrow> bool" where
  "all_apart [] = True"
| "all_apart (p # ps) = (list_all (apart p) ps \<and> all_apart ps)"

lemma enrichment_only: "isEnrichmentOnly (hops h s) = isHistory s"
proof -
  have e: "isEnrichmentOnly hs = (map hop_id hs \<noteq> [] \<and> list_all (\<lambda>i. startsWith i (u ''gold-'')) (map hop_id hs))" for hs
    by (simp add: isEnrichmentOnly_def list_all_iff)
  show ?thesis unfolding e hop_ids by (simp add: goldPhaseOrder_def upstream_order_def startsWith_def u_def)
qed

lemma enumerate_keys: "map fst (map (\<lambda>(i, x). (f x, g i x)) (enumerate n xs)) = map f xs"
  by (induction xs arbitrary: n) simp_all

lemma position_in_table:
  assumes "distinct (map hop_id hs)" "hop \<in> set hs" "hop_id hop \<noteq> []"
    and "map_of (if isEnrichmentOnly hs then ENRICHMENT_BRANCHED_POSITIONS else BRANCHED_POSITIONS) (hop_id hop) = Some p"
  shows "positions_of L_branched hs (hop_id hop) = Some p"
proof -
  let ?f = "\<lambda>(index, hop). (hop_id hop, nodePosition index L_branched (hop_id hop) (isEnrichmentOnly hs))"
  let ?m = "map ?f (enumerate 0 hs)"
  have keys: "map fst ?m = map hop_id hs" by (rule enumerate_keys)
  obtain k where "k < length hs" "hs ! k = hop" using assms(2) by (auto simp: in_set_conv_nth)
  then have "(k, hop) \<in> set (enumerate 0 hs)" by (auto simp: in_set_enumerate_eq)
  then have "?f (k, hop) \<in> set ?m" unfolding set_map by (rule imageI)
  moreover have "?f (k, hop) = (hop_id hop, p)" using assms(3,4) by (cases "isEnrichmentOnly hs") (simp_all add: nodePosition_def)
  ultimately have "(hop_id hop, p) \<in> set (rev ?m)" by (metis set_rev)
  moreover have "distinct (map fst (rev ?m))" using assms(1) by (simp only: rev_map [symmetric] distinct_rev keys)
  ultimately show ?thesis unfolding positions_of_def using map_of_is_SomeI by fastforce
qed

text \<open>The position of every hop of the page, from the table of its view.\<close>

definition page_table :: "dag_page \<Rightarrow> (str \<times> point) list" where
  "page_table s = (if isHistory s then ENRICHMENT_BRANCHED_POSITIONS else BRANCHED_POSITIONS)"

lemma tables_cover:
  "list_all (\<lambda>i. i \<noteq> [] \<and> map_of ENRICHMENT_BRANCHED_POSITIONS i \<noteq> None) goldPhaseOrder"
  "list_all (\<lambda>i. i \<noteq> [] \<and> map_of BRANCHED_POSITIONS i \<noteq> None) (upstream_order @ goldPhaseOrder)"
  by (simp_all add: ENRICHMENT_BRANCHED_POSITIONS_def BRANCHED_POSITIONS_def goldPhaseOrder_def upstream_order_def)

lemma page_positions:
  assumes "hop \<in> set (hops h s)"
  shows "positions_of L_branched (hops h s) (hop_id hop) = map_of (page_table s) (hop_id hop)"
proof -
  have "hop_id hop \<in> hop_id ` set (hops h s)" using assms by (rule imageI)
  then have i: "hop_id hop \<in> set (if isHistory s then goldPhaseOrder else upstream_order @ goldPhaseOrder)" unfolding hop_id_set .
  have c: "hop_id hop \<noteq> []" "map_of (page_table s) (hop_id hop) \<noteq> None"
    using i tables_cover unfolding list_all_iff page_table_def by (metis)+
  then obtain p where p: "map_of (page_table s) (hop_id hop) = Some p" by blast
  have "distinct (map hop_id (hops h s))" using visible_graph_ok [of h s] by (simp add: graph_ok_def)
  then have "positions_of L_branched (hops h s) (hop_id hop) = Some p"
    using p c(1) assms by (intro position_in_table) (simp_all add: enrichment_only page_table_def)
  then show ?thesis using p by simp
qed

lemma page_node_positions:
  "map nd_position (initialNodes L_branched (hops h s) conns) =
   map (\<lambda>i. nullish (map_of (page_table s) i) (lit 0, lit 0)) (if isHistory s then goldPhaseOrder else upstream_order @ goldPhaseOrder)"
  unfolding hop_ids [of h s, symmetric] by (simp add: initialNodes_def node_of_def page_positions)

lemma tables_apart:
  "all_apart (map (\<lambda>i. nullish (map_of ENRICHMENT_BRANCHED_POSITIONS i) (lit 0, lit 0)) goldPhaseOrder)"
  "all_apart (map (\<lambda>i. nullish (map_of BRANCHED_POSITIONS i) (lit 0, lit 0)) (upstream_order @ goldPhaseOrder))"
  by (simp_all add: ENRICHMENT_BRANCHED_POSITIONS_def BRANCHED_POSITIONS_def goldPhaseOrder_def upstream_order_def apart_def)

section \<open>Properties\<close>

text \<open>
  On the page no two cards of the graph overlap, in the live view and in the view of a past run:
  when the canvas is mounted any two are more than a card's width apart sideways or at least 250
  pixels apart vertically.
\<close>

theorem cards_do_not_overlap:
  "all_apart (map nd_position (initialNodes L_branched (hops h s) (visibleConnections h s)))"
  using tables_apart by (simp add: page_node_positions page_table_def)

text \<open>
  Returning from a past run to the live graph keeps the canvas mounted: the update changes the
  nodes that are there and adds none, so of the nineteen hops only the six gold ones have a node,
  while the edges name them all.
\<close>

theorem live_graph_incomplete:
  assumes "isHistory s" "\<not> isHistory s'"
  shows "map nd_id (update_nodes L_branched (hops h s') (visibleConnections h s')
       (initialNodes L_branched (hops h s) (visibleConnections h s))) = goldPhaseOrder \<and>
    length (hops h s') = 19 \<and> edges_of (hops h s') (visibleConnections h s') = edges_of (hops h s') dagConnections"
proof -
  have "length (hops h s') = length (map hop_id (hops h s'))" by simp
  also have "\<dots> = 19" unfolding hop_ids using assms(2) by (simp add: upstream_order_def goldPhaseOrder_def)
  finally show ?thesis using assms by (simp add: update_ids initial_ids hop_ids live_connections)
qed

theorem live_graph_incomplete_witness:
  "map nd_id (update_nodes L_branched (hops sample_host (mount_dag (u ''T'') [])) (visibleConnections sample_host (mount_dag (u ''T'') []))
     (initialNodes L_branched (hops sample_host (mount_dag (u ''T'') (u ''r1''))) (visibleConnections sample_host (mount_dag (u ''T'') (u ''r1''))))) =
   goldPhaseOrder"
proof -
  have "encodeURIComponent (u ''r1'') = Some (u ''r1'')" by (rule encode_unreserved) (simp add: u_def unreserved_def)
  then have "isHistory (mount_dag (u ''T'') (u ''r1''))" "\<not> isHistory (mount_dag (u ''T'') [])"
    by (simp_all add: isHistory_def mount_dag_def loadRun_def loadOverview_def add_call_def)
  then show ?thesis by (rule live_graph_incomplete [THEN conjunct1])
qed

end
