(* ===== verification/NumArray.thy ===== *)
theory NumArray
  imports NumSort "HOL-Library.AList"
begin

text \<open>
  Arrays and maps of numbers: reading, \<open>Math.max(...xs)\<close>, arithmetic on integers below
  \<open>2^53\<close>, sorting with \<open>(a, b) => a - b\<close>, and \<open>Map\<close> objects with number keys, which keep the
  order of insertion.
\<close>

section \<open>Reading and extremes\<close>

text \<open>Reading outside the array gives \<open>undefined\<close>, which counts as NaN.\<close>

definition arr_num :: "jsnum list \<Rightarrow> jsnum \<Rightarrow> jsnum" where
  "arr_num xs i = nullish (arr_idx xs i) NaN"

definition Math_max_list :: "jsnum list \<Rightarrow> jsnum" where
  "Math_max_list xs = foldl Math_max NInf xs"

definition Math_min_list :: "jsnum list \<Rightarrow> jsnum" where
  "Math_min_list xs = foldl Math_min PInf xs"

section \<open>Integers\<close>

definition int_num :: "int \<Rightarrow> jsnum" where
  "int_num i = Fin (of_int i)"

lemma int_num_simps [simp]:
  "isFinite (int_num i)" "val (int_num i) = of_int i" "int_num i \<noteq> NaN" "int_num i \<noteq> NegZero" "signbit (int_num i) = (i < 0)"
  "int_num i \<le> int_num j \<longleftrightarrow> i \<le> j" "int_num i < int_num j \<longleftrightarrow> i < j" "int_num i = int_num j \<longleftrightarrow> i = j"
  by (simp_all add: int_num_def)

lemma int_num_eq [simp]: "num_eq (int_num i) (int_num j) \<longleftrightarrow> i = j"
  by (auto simp: num_eq_def)

lemma mk_int: "\<bar>i\<bar> \<le> 2 ^ 53 \<Longrightarrow> i = 0 \<Longrightarrow> mk False (of_int i) = int_num i" "\<bar>i\<bar> \<le> 2 ^ 53 \<Longrightarrow> i \<noteq> 0 \<Longrightarrow> mk s (of_int i) = int_num i"
proof -
  assume i: "\<bar>i\<bar> \<le> 2 ^ 53" "i \<noteq> 0"
  have "round64 (of_int i) = (of_int i :: rat)" using i(1) by (intro round64_representable representable_of_int)
  moreover have "\<bar>of_int i :: rat\<bar> < 2 ^ 1024"
  proof (rule small_lt_overflow)
    have "(of_int \<bar>i\<bar> :: rat) \<le> of_int (2 ^ 53)" using i(1) by (simp only: of_int_le_iff)
    then show "\<bar>of_int i :: rat\<bar> \<le> 2 ^ 53" by simp
  qed
  ultimately show "mk s (of_int i) = int_num i" using i(2) by (simp add: mk_exact int_num_def)
qed (simp add: zero_of_def int_num_def)

lemma int_num_add: "\<bar>i + j\<bar> \<le> 2 ^ 53 \<Longrightarrow> int_num i + int_num j = int_num (i + j)"
proof (cases "i + j = 0")
  case True
  then have e: "of_int i + of_int j = (0 :: rat)" "(i < 0 \<and> j < 0) = False" using True by (simp flip: of_int_add, auto)
  show ?thesis using True unfolding finite_add [OF int_num_simps(1,1)] int_num_simps e by (simp add: zero_of_def int_num_def)
next
  case False
  then have "of_int i + of_int j \<noteq> (0 :: rat)" by (simp flip: of_int_add)
  moreover assume "\<bar>i + j\<bar> \<le> 2 ^ 53"
  ultimately show ?thesis using False mk_int(2) [of "i + j"] by (simp add: finite_add)
qed

lemma int_num_sub: "\<bar>i - j\<bar> \<le> 2 ^ 53 \<Longrightarrow> int_num i - int_num j = int_num (i - j)"
proof -
  have "signbit (- int_num j) \<longleftrightarrow> 0 \<le> j" by (auto simp: int_num_def uminus_jsnum_def)
  then show "\<bar>i - j\<bar> \<le> 2 ^ 53 \<Longrightarrow> int_num i - int_num j = int_num (i - j)"
    using mk_int [of "i - j"] by (cases "i = j") (auto simp: finite_sub simp flip: of_int_diff)
qed

lemma int_num_mult: "0 \<le> i \<Longrightarrow> 0 \<le> j \<Longrightarrow> i * j \<le> 2 ^ 53 \<Longrightarrow> int_num i * int_num j = int_num (i * j)"
  using mk_int [of "i * j"] by (cases "i * j = 0") (auto simp: finite_mult simp flip: of_int_mult)

lemma int_num_lit: "lit 0 = int_num 0" "lit 1 = int_num 1"
  by (simp_all add: int_num_def)

lemma fin_ints: "Fin 0 = int_num 0" "Fin 1 = int_num 1"
  by (simp_all add: int_num_def)

lemma int_num_max: "Math_max (int_num i) (int_num j) = int_num (max i j)" and int_num_min: "Math_min (int_num i) (int_num j) = int_num (min i j)"
  by (auto simp: Math_max_def Math_min_def max_def min_def)

lemma int_num_nat: "n \<le> 2 ^ 53 \<Longrightarrow> jsnum_of_nat n = int_num (int n)"
  by (simp add: jsnum_of_nat_exact int_num_def)

lemma nat_of_int_num [simp]: "nat_of_jsnum (int_num i) = nat i"
  by (simp add: nat_of_jsnum_def)

lemma int_num_ok: "\<bar>i\<bar> \<le> 2 ^ 53 \<Longrightarrow> num_ok (int_num i)"
  using mk_int [of i] num_ok_mk [of False "of_int i"] by (cases "i = 0") auto

text \<open>Extremes of a nonempty array of integers.\<close>

lemma Math_max_ints: "is \<noteq> [] \<Longrightarrow> Math_max_list (map int_num is) = int_num (Max (set is))"
proof -
  have r: "foldl Math_max (int_num i) (map int_num is) = int_num (Max (insert i (set is)))" for i "is"
  proof (induction "is" arbitrary: i)
    case (Cons a "is")
    then show ?case by (cases "is = []") (simp_all add: int_num_max max.commute max.left_commute)
  qed simp
  have "Math_max NInf (int_num i) = int_num i" for i by (simp add: Math_max_def int_num_def)
  then show "is \<noteq> [] \<Longrightarrow> Math_max_list (map int_num is) = int_num (Max (set is))"
    using r by (cases "is") (simp_all only: Math_max_list_def list.map foldl_Cons list.set simp_thms)
qed

lemma Math_min_ints: "is \<noteq> [] \<Longrightarrow> Math_min_list (map int_num is) = int_num (Min (set is))"
proof -
  have r: "foldl Math_min (int_num i) (map int_num is) = int_num (Min (insert i (set is)))" for i "is"
  proof (induction "is" arbitrary: i)
    case (Cons a "is")
    then show ?case by (cases "is = []") (simp_all add: int_num_min min.commute min.left_commute)
  qed simp
  have "Math_min PInf (int_num i) = int_num i" for i by (simp add: Math_min_def int_num_def less_eq_jsnum_def)
  then show "is \<noteq> [] \<Longrightarrow> Math_min_list (map int_num is) = int_num (Min (set is))"
    using r by (cases "is") (simp_all only: Math_min_list_def list.map foldl_Cons list.set simp_thms)
qed

section \<open>Sorting with a difference\<close>

text \<open>The result NaN of a comparator counts as 0.\<close>

definition js_asc :: "('a \<Rightarrow> jsnum) \<Rightarrow> 'a \<Rightarrow> 'a \<Rightarrow> bool" where
  "js_asc key a b = (key a - key b = NaN \<or> diff_le (key a) (key b))"

lemma js_asc_iff: "num_ok (key a) \<Longrightarrow> num_ok (key b) \<Longrightarrow> js_asc key a b \<longleftrightarrow> val (key a) \<le> val (key b)"
  by (auto simp: js_asc_def diff_le_iff finite_sub num_ok_def)

interpretation asc_order: comparator "js_asc key" "\<lambda>x. num_ok (key x)" for key
  by unfold_locales (auto simp: js_asc_iff)

lemma js_asc_sorted:
  assumes "\<forall>x\<in>set xs. num_ok (key x)"
  shows "sorted (map (\<lambda>x. val (key x)) (sort_by (js_asc key) xs))"
proof -
  have "sorted_wrt (js_asc key) (sort_by (js_asc key) xs)" by (rule asc_order.sort_by_sorted [OF assms])
  moreover have "\<forall>x\<in>set (sort_by (js_asc key) xs). num_ok (key x)" using assms by simp
  ultimately show ?thesis by (induction "sort_by (js_asc key) xs" arbitrary: xs) (auto simp: sorted_wrt_map js_asc_iff elim!: sorted_wrt_mono_rel [rotated])
qed

section \<open>Maps\<close>

text \<open>\<open>const row = m.get(k) ?? fresh; \<dots>; m.set(k, row)\<close>.\<close>

definition put :: "'v \<Rightarrow> ('v \<Rightarrow> 'v) \<Rightarrow> 'k \<Rightarrow> ('k \<times> 'v) list \<Rightarrow> ('k \<times> 'v) list" where
  "put fresh f k m = AList.update k (f (nullish (map_of m k) fresh)) m"

text \<open>As a key of a \<open>Map\<close>, NaN is NaN and -0 is stored as 0.\<close>

definition map_key :: "jsnum \<Rightarrow> jsnum" where
  "map_key k = (if k = NegZero then Fin 0 else k)"

lemma put_distinct [simp]: "distinct (map fst m) \<Longrightarrow> distinct (map fst (put fresh f k m))"
  by (simp add: put_def distinct_update)

lemma put_get: "map_of (put fresh f k m) i = (if i = k then Some (f (nullish (map_of m i) fresh)) else map_of m i)"
  by (simp add: put_def update_conv')

lemma put_keys: "fst ` set (put fresh f k m) = insert k (fst ` set m)"
  by (simp add: put_def dom_update)

text \<open>A sum over the entries grows by what the update adds.\<close>

lemma sum_update:
  fixes g :: "'v \<Rightarrow> 'n::comm_monoid_add"
  assumes "distinct (map fst m)"
  shows "(\<Sum>e\<leftarrow>AList.update i (f (nullish (map_of m i) fresh)) m. g (snd e)) + g (nullish (map_of m i) fresh) =
    (\<Sum>e\<leftarrow>m. g (snd e)) + g (f (nullish (map_of m i) fresh)) + (if i \<in> fst ` set m then 0 else g fresh)"
  using assms
proof (induction m)
  case (Cons e m)
  show ?case
  proof (cases "fst e = i")
    case True
    then show ?thesis by (cases e) (simp add: add_ac)
  next
    case False
    then show ?thesis using Cons by (cases e) (simp add: add_ac image_iff)
  qed
qed (simp add: add_ac)

lemma sum_put:
  fixes g :: "'v \<Rightarrow> nat"
  assumes "distinct (map fst m)" "\<And>v. g (f v) = g v + d" "g fresh = 0"
  shows "(\<Sum>e\<leftarrow>put fresh f k m. g (snd e)) = (\<Sum>e\<leftarrow>m. g (snd e)) + d"
  using sum_update [OF assms(1), of g k f fresh] assms(2,3) by (simp add: put_def split: if_splits)

text \<open>Grouping: every element updates the entry of its key.\<close>

definition grouped :: "'v \<Rightarrow> ('a \<Rightarrow> 'v \<Rightarrow> 'v) \<Rightarrow> ('a \<Rightarrow> 'k) \<Rightarrow> 'a list \<Rightarrow> ('k \<times> 'v) list \<Rightarrow> ('k \<times> 'v) list" where
  "grouped fresh f key xs m = fold (\<lambda>x. put fresh (f x) (key x)) xs m"

lemma grouped_distinct [simp]: "distinct (map fst m) \<Longrightarrow> distinct (map fst (grouped fresh f key xs m))"
  unfolding grouped_def by (induction xs arbitrary: m) simp_all

lemma sum_grouped:
  fixes g :: "'v \<Rightarrow> nat"
  assumes "distinct (map fst m)" "\<And>x v. g (f x v) = g v + d x" "g fresh = 0"
  shows "(\<Sum>e\<leftarrow>grouped fresh f key xs m. g (snd e)) = (\<Sum>e\<leftarrow>m. g (snd e)) + (\<Sum>x\<leftarrow>xs. d x)"
  unfolding grouped_def using assms(1)
proof (induction xs arbitrary: m)
  case (Cons x xs)
  then show ?case using sum_put [of m g "f x" "d x" fresh "key x"] assms(2,3) by simp
qed simp

lemma grouped_keys: "fst ` set (grouped fresh f key xs m) = key ` set xs \<union> fst ` set m"
  unfolding grouped_def by (induction xs arbitrary: m) (auto simp: put_keys)

lemma sum_list_perm: "mset xs = mset ys \<Longrightarrow> sum_list (map g xs) = sum_list (map (g :: 'a \<Rightarrow> nat) ys)"
  by (metis mset_map sum_mset_sum_list)

section \<open>Dyadic fractions\<close>

definition part_num :: "nat \<Rightarrow> int \<Rightarrow> jsnum" where
  "part_num d i = Fin (of_int i / 2 ^ d)"

lemma mk_part: "\<bar>i\<bar> \<le> 2 ^ 53 \<Longrightarrow> i \<noteq> 0 \<Longrightarrow> d \<le> 1074 \<Longrightarrow> mk s (of_int i / 2 ^ d) = part_num d i"
  unfolding part_num_def
proof (rule mk_exact)
  assume i: "\<bar>i\<bar> \<le> 2 ^ 53" "i \<noteq> 0" "d \<le> 1074"
  show "round64 (of_int i / 2 ^ d) = (of_int i / 2 ^ d :: rat)" using i by (intro round64_representable representable_dyadic)
  show "\<bar>of_int i / 2 ^ d :: rat\<bar> < 2 ^ 1024"
  proof (rule small_lt_overflow)
    have "(of_int \<bar>i\<bar> :: rat) \<le> of_int (2 ^ 53)" using i(1) by (simp only: of_int_le_iff)
    then have "(of_int \<bar>i\<bar> :: rat) / 2 ^ d \<le> 2 ^ 53 / 1" by (intro frac_le) simp_all
    then show "\<bar>of_int i / 2 ^ d :: rat\<bar> \<le> 2 ^ 53" by simp
  qed
  show "of_int i / 2 ^ d \<noteq> (0 :: rat)" using i(2) by simp
qed

lemma part_divide: "0 < i \<Longrightarrow> i \<le> 2 ^ 53 \<Longrightarrow> d \<le> 53 \<Longrightarrow> int_num i / Fin (2 ^ d) = part_num d i"
  using mk_part [of i d False] by (simp add: finite_divide)

lemma part_num_simps [simp]: "isFinite (part_num d i)" "val (part_num d i) = of_int i / 2 ^ d"
  by (simp_all add: part_num_def)

section \<open>Whole quotients\<close>

text \<open>
  Rounding a quotient of naturals below \<open>2^53\<close> never crosses the next integer, so \<open>Math.floor(a / b)\<close> is
  integer division; the remainder is exact too.
\<close>

lemma floor_between: "mk b q = Fin r \<Longrightarrow> of_nat k \<le> r \<Longrightarrow> r < of_nat k + 1 \<Longrightarrow> Math_floor (mk b q) = Fin (of_nat k)"
proof -
  assume r: "mk b q = Fin r" "of_nat k \<le> r" "r < of_nat k + 1"
  then have "\<lfloor>r\<rfloor> = int k" by (intro floor_unique) simp_all
  then show ?thesis by (simp add: r(1) Math_floor_def)
qed

lemma round_quotient:
  fixes n d :: nat
  assumes "n < 2 ^ 53" "0 < n" "0 < d" "d \<le> 2 ^ 53"
  shows "of_nat (n div d) \<le> round64 (of_nat n / of_nat d)" "round64 (of_nat n / of_nat d) < of_nat (n div d) + 1"
proof -
  define q :: rat where "q = of_nat n / of_nat d"
  have d: "1 \<le> (of_nat d :: rat)" "(of_nat d :: rat) \<le> 2 ^ 53" and n: "1 \<le> (of_nat n :: rat)" "(of_nat n :: rat) < 2 ^ 53"
    using assms of_nat_mono [OF assms(4), where 'a = rat] of_nat_less_iff [of n "2 ^ 53", where 'a = rat] by simp_all
  have k: "n div d \<le> 2 ^ 53" using div_le_dividend [of n d] assms(1) by linarith
  have "of_nat (n div d * d) \<le> (of_nat n :: rat)" by (simp only: of_nat_le_iff div_times_less_eq_dividend)
  then have "of_nat (n div d) \<le> q" using d(1) by (simp add: q_def pos_le_divide_eq)
  then show "of_nat (n div d) \<le> round64 (of_nat n / of_nat d)" using round64_mono [of "of_nat (n div d)" q] round64_of_nat [OF k] by (simp only: q_def)
  have "n + 1 \<le> (n div d + 1) * d" using dividend_less_div_times [OF assms(3), of n] by simp
  then have "of_nat (n + 1) \<le> (of_nat ((n div d + 1) * d) :: rat)" by (rule of_nat_mono)
  then have "of_nat n + 1 \<le> (of_nat (n div d) + 1) * (of_nat d :: rat)" by (simp only: of_nat_add of_nat_mult of_nat_1)
  then have up: "q + 1 / of_nat d \<le> of_nat (n div d) + 1" unfolding q_def add_divide_distrib [symmetric] using d(1) by (simp add: pos_divide_le_eq)
  have "2 powi (- 1022) \<le> (1 / 2 ^ 53 :: rat)" by (simp add: power_int_def field_simps)
  also have "(1 / 2 ^ 53 :: rat) \<le> q" unfolding q_def using d n by (intro frac_le) auto
  finally have "2 powi (- 1022) \<le> \<bar>q\<bar>" by linarith
  then have "round64 q - q \<le> \<bar>q\<bar> / 2 ^ 53" using round64_relative_error abs_le_D1 by blast
  moreover have "0 \<le> q" using d(1) n(1) by (simp add: q_def)
  moreover have "q / 2 ^ 53 < 1 / of_nat d"
  proof -
    have "of_nat n / 2 ^ 53 < (1 :: rat)" using n(2) by (simp only: pos_divide_less_eq [of "2 ^ 53"] zero_less_power zero_less_numeral mult_1_left)
    then have "of_nat n / 2 ^ 53 / of_nat d < 1 / (of_nat d :: rat)" using d(1) by (intro divide_strict_right_mono) simp_all
    then show ?thesis by (simp only: q_def divide_divide_eq_left mult.commute)
  qed
  ultimately have "round64 q < of_nat (n div d) + 1" using up by (simp only: abs_of_nonneg)
  then show "round64 (of_nat n / of_nat d) < of_nat (n div d) + 1" by (simp only: q_def)
qed

lemma floor_divide_nats:
  assumes "n < 2 ^ 53" "0 < d" "d \<le> 2 ^ 53"
  shows "Math_floor (jsnum_of_nat n / jsnum_of_nat d) = jsnum_of_nat (n div d)"
proof -
  let ?q = "of_nat n / of_nat d :: rat"
  have e: "jsnum_of_nat n / jsnum_of_nat d = mk False ?q" using assms by (simp add: jsnum_of_nat_exact finite_divide)
  have k: "n div d \<le> 2 ^ 53" using div_le_dividend [of n d] assms(1) by linarith
  have "(of_nat (n div d) :: rat) \<le> 2 ^ 53" using of_nat_mono [OF k, where 'a = rat] by simp
  then have over: "(of_nat (n div d) :: rat) + 1 \<le> 2 ^ 1024" using small_lt_overflow [of "of_nat (n div d)"] by (rule_tac order_trans [of _ "2 ^ 53 + 1"]) simp_all
  show ?thesis
  proof (cases "n = 0")
    case True
    then show ?thesis unfolding e by (simp add: zero_of_def Math_floor_def jsnum_of_nat_exact)
  next
    case False
    note r = round_quotient [OF assms(1) _ assms(2,3)] and nn = of_nat_0_le_iff [of "n div d", where 'a = rat]
    have "0 \<le> round64 ?q" "round64 ?q < 2 ^ 1024" using False r over nn by linarith+
    then have "mk False ?q = Fin (round64 ?q)" by (auto simp: mk_def Let_def zero_of_def)
    then show ?thesis unfolding e jsnum_of_nat_exact [OF k] using floor_between r False by blast
  qed
qed

lemma mod_nats:
  assumes "n \<le> 2 ^ 53" "0 < d" "d \<le> 2 ^ 53"
  shows "jsnum_of_nat n mod jsnum_of_nat d = jsnum_of_nat (n mod d)"
proof -
  have f: "\<lfloor>of_nat n / of_nat d :: rat\<rfloor> = int (n div d)" by (simp add: floor_divide_of_nat_eq)
  have "(of_nat n :: rat) = of_nat (n div d) * of_nat d + of_nat (n mod d)" by (simp flip: of_nat_mult of_nat_add)
  then have "of_nat n - of_nat d * of_int (int (n div d)) = (of_nat (n mod d) :: rat)" by simp
  moreover have "n mod d \<le> 2 ^ 53" using mod_less_eq_dividend [of n d] assms(1) by linarith
  ultimately show ?thesis using assms mk_int [of "int (n mod d)"]
    by (cases "n mod d = 0") (auto simp: modulo_jsnum_def jsnum_of_nat_exact f int_num_def zero_of_def)
qed

end
