(* ===== verification/TpfPixel.thy ===== *)
theory TpfPixel
  imports AnalyticsTypes NumArray JsText
begin

text \<open>
  The pixel inspector of the target page (\<open>pages/target-detail/components/TpfPixelInspector.tsx\<close>):
  the two colour maps, the grid of pixels with flux, aperture and colour, the readings of the
  selected pixel, and the selection. The exponential function is a parameter. Shown: every
  colour channel stays a byte for every value; the grid and the panel agree on the flux of a
  pixel in transit; and two ways in which the grid shows something else than observed data.
\<close>

section \<open>Colours\<close>

type_synonym rgb = "jsnum \<times> jsnum \<times> jsnum"

definition rgb_text :: "rgb \<Rightarrow> str" where
  "rgb_text p = (case p of (r, g, b) \<Rightarrow> (u ''rgb('' @ num_str r @ u '', '' @ num_str g @ u '', '' @ num_str b @ u '')''))"

definition clamp_unit :: "jsnum \<Rightarrow> jsnum" where
  "clamp_unit v = Math_max (lit 0) (Math_min (lit 1) v)"

definition channel :: "rat \<Rightarrow> jsnum \<Rightarrow> rat \<Rightarrow> jsnum" where
  "channel a t b = Math_round (lit a + t * lit b)"

definition plasma_rgb :: "jsnum \<Rightarrow> rgb" where
  "plasma_rgb v =
     (let clamped = clamp_unit v in
      if clamped < lit (18 / 100) then
        let t = clamped / lit (18 / 100) in (channel 11 t (59 - 11), channel 15 t (7 - 15), channel 30 t (100 - 30))
      else if clamped < lit (45 / 100) then
        let t = (clamped - lit (18 / 100)) / lit (27 / 100) in (channel 59 t (156 - 59), channel 7 t (23 - 7), channel 100 t (158 - 100))
      else if clamped < lit (72 / 100) then
        let t = (clamped - lit (45 / 100)) / lit (27 / 100) in
        (channel 156 t (234 - 156), channel 23 t (88 - 23), Math_round (lit 158 - t * lit 146))
      else if clamped < lit (92 / 100) then
        let t = (clamped - lit (72 / 100)) / lit (2 / 10) in (channel 234 t (253 - 234), channel 88 t (224 - 88), channel 12 t (71 - 12))
      else
        let t = (clamped - lit (92 / 100)) / lit (8 / 100) in (channel 253 t (255 - 253), channel 224 t (255 - 224), channel 71 t (255 - 71)))"

definition getPlasmaColor :: "jsnum \<Rightarrow> str" where
  "getPlasmaColor v = rgb_text (plasma_rgb v)"

definition diff_rgb :: "jsnum \<Rightarrow> rgb" where
  "diff_rgb v =
     (let clamped = clamp_unit v in
      if clamped \<le> lit (2 / 100) then (lit 8, lit 13, lit 26)
      else let t = (clamped - lit (2 / 100)) / lit (98 / 100) in
        (channel 10 t (220 - 10), channel 35 t (235 - 35), channel 70 t (255 - 70)))"

definition getDiffColor :: "jsnum \<Rightarrow> str" where
  "getDiffColor v = rgb_text (diff_rgb v)"

section \<open>State\<close>

datatype view_mode = V_flux | V_diff

record pixel_cell =
  px_r :: jsnum
  px_c :: jsnum
  px_value :: jsnum
  px_inAperture :: bool
  px_eRate :: jsnum
  px_bg :: str

record hover_info =
  hv_r :: jsnum
  hv_c :: jsnum
  hv_flux :: jsnum
  hv_inAperture :: bool

text \<open>The selected pixel of the owner: \<open>None\<close> when it leaves the choice to the component, \<open>Some None\<close> for no pixel.\<close>

record pixel_props =
  pp_currentFlux :: "jsnum option"
  pp_isTransit :: bool
  pp_transitDepthRatio :: "jsnum option"
  pp_currentTime :: "jsnum option"
  pp_cadenceIndex :: "jsnum option"
  pp_centroidOffset :: "jsnum option"
  pp_tpf :: "TPFSample option"
  pp_selectedPixel :: "(jsnum \<times> jsnum) option option"

record pixel_state =
  ps_viewMode :: view_mode
  ps_showAperture :: bool
  ps_hovered :: "hover_info option"
  ps_internalSelected :: "(jsnum \<times> jsnum) option"

definition initial_pixels :: pixel_state where
  "initial_pixels = \<lparr>ps_viewMode = V_flux, ps_showAperture = True, ps_hovered = None, ps_internalSelected = Some (lit 5, lit 5)\<rparr>"

definition activePixelCoord :: "pixel_props \<Rightarrow> pixel_state \<Rightarrow> (jsnum \<times> jsnum) option" where
  "activePixelCoord p s = (case pp_selectedPixel p of Some sel \<Rightarrow> sel | None \<Rightarrow> ps_internalSelected s)"

text \<open>Selecting returns the new state and what the owner is told.\<close>

definition handleSelectPixel :: "jsnum \<Rightarrow> jsnum \<Rightarrow> pixel_props \<Rightarrow> pixel_state \<Rightarrow> pixel_state \<times> (jsnum \<times> jsnum) option" where
  "handleSelectPixel r c p s =
     (let isSame = (case activePixelCoord p s of Some (ar, ac) \<Rightarrow> num_eq ar r \<and> num_eq ac c | None \<Rightarrow> False);
          nxt = (if isSame then None else Some (r, c))
      in (if pp_selectedPixel p = None then s\<lparr>ps_internalSelected := nxt\<rparr> else s, nxt))"

definition setViewMode :: "view_mode \<Rightarrow> pixel_state \<Rightarrow> pixel_state" where
  "setViewMode m s = s\<lparr>ps_viewMode := m\<rparr>"

definition enterPixel :: "pixel_cell \<Rightarrow> pixel_state \<Rightarrow> pixel_state" where
  "enterPixel cell s = s\<lparr>ps_hovered := Some \<lparr>hv_r = px_r cell, hv_c = px_c cell, hv_flux = px_eRate cell, hv_inAperture = px_inAperture cell\<rparr>\<rparr>"

definition leavePixel :: "pixel_state \<Rightarrow> pixel_state" where
  "leavePixel s = s\<lparr>ps_hovered := None\<rparr>"

definition toggleAperture :: "pixel_state \<Rightarrow> pixel_state" where
  "toggleAperture s = s\<lparr>ps_showAperture := \<not> ps_showAperture s\<rparr>"

section \<open>Inputs\<close>

definition transit_ratio :: "pixel_props \<Rightarrow> jsnum" where
  "transit_ratio p = nullish (pp_transitDepthRatio p) (lit 1)"

definition effectiveOffset :: "pixel_props \<Rightarrow> jsnum" where
  "effectiveOffset p = nullish (map_option tpf_centroid_offset_pixels (pp_tpf p)) (nullish (pp_centroidOffset p) (lit (8 / 100)))"

definition effectiveTransitRatio :: "pixel_props \<Rightarrow> jsnum" where
  "effectiveTransitRatio p = (if pp_isTransit p then Math_max (lit (1 / 10)) (transit_ratio p) else lit 0)"

definition stamp_size :: "pixel_props \<Rightarrow> jsnum" where
  "stamp_size p = opt_or_num (map_option tpf_rows (pp_tpf p)) (lit 11)"

text \<open>A map of the sample counts when it has an entry for every pixel of the square.\<close>

definition square_map :: "(TPFSample \<Rightarrow> jsnum list) \<Rightarrow> pixel_props \<Rightarrow> jsnum list option" where
  "square_map f p = (case pp_tpf p of None \<Rightarrow> None
    | Some t \<Rightarrow> if num_eq (jsnum_of_nat (length (f t))) (stamp_size p * stamp_size p) then Some (f t) else None)"

definition centre_of :: "(TPFSample \<Rightarrow> jsnum) \<Rightarrow> jsnum \<Rightarrow> pixel_props \<Rightarrow> jsnum" where
  "centre_of f default_centre p = (case pp_tpf p of
      Some t \<Rightarrow> if truthy (f t) \<and> lit 0 < f t then f t else default_centre | None \<Rightarrow> default_centre)"

definition dist2 :: "mathlib \<Rightarrow> jsnum \<Rightarrow> jsnum \<Rightarrow> jsnum \<Rightarrow> jsnum \<Rightarrow> jsnum" where
  "dist2 m r c centerR centerC = Math_pow m (r - centerR) (lit 2) + Math_pow m (c - centerC) (lit 2)"

definition in_aperture :: "mathlib \<Rightarrow> pixel_props \<Rightarrow> jsnum \<Rightarrow> jsnum \<Rightarrow> bool" where
  "in_aperture m p idx d2 = (case square_map tpf_aperture_mask p of
      Some flags \<Rightarrow> (case arr_idx flags idx of Some v \<Rightarrow> num_eq v (lit 1) | None \<Rightarrow> False)
    | None \<Rightarrow> Math_sqrt m d2 \<le> lit (225 / 100))"

section \<open>The grid\<close>

definition maxBaseline :: "pixel_props \<Rightarrow> jsnum" where
  "maxBaseline p = (case square_map tpf_median_flux_map p of Some xs \<Rightarrow> Math_max_list (xs @ [lit 1]) | None \<Rightarrow> lit 15074)"

definition maxDiff :: "pixel_props \<Rightarrow> jsnum" where
  "maxDiff p = (case square_map tpf_difference_flux_map p of
      Some xs \<Rightarrow> Math_max_list (map Math_abs xs @ [lit 1]) | None \<Rightarrow> lit 21)"

text \<open>Baseline and difference of a pixel: from the maps, or a Gaussian when there is no map of the baseline.\<close>

definition pixel_rates :: "mathlib \<Rightarrow> (jsnum \<Rightarrow> jsnum) \<Rightarrow> pixel_props \<Rightarrow> jsnum \<Rightarrow> jsnum \<Rightarrow> jsnum \<times> jsnum" where
  "pixel_rates m mexp p idx d2 = (case square_map tpf_median_flux_map p of
      Some xs \<Rightarrow> (arr_num xs idx, case square_map tpf_difference_flux_map p of Some ds \<Rightarrow> arr_num ds idx | None \<Rightarrow> lit 0)
    | None \<Rightarrow>
        let psfWeight = mexp (- d2 / (lit 2 * Math_pow m (lit (135 / 100)) (lit 2)));
            baseRate = Math_round (psfWeight * lit 14850)
        in (baseRate, - Math_round (baseRate * lit (14 / 10000) * lit 4)))"

definition pixel_eRate :: "pixel_props \<Rightarrow> jsnum \<Rightarrow> jsnum \<Rightarrow> jsnum" where
  "pixel_eRate p baseRate diffRate =
     (let transitDrop = (if pp_isTransit p then Math_abs diffRate * effectiveTransitRatio p else lit 0)
      in Math_max (lit 0) (Math_round (baseRate - transitDrop)))"

definition pixel_value :: "view_mode \<Rightarrow> pixel_props \<Rightarrow> jsnum \<Rightarrow> jsnum \<Rightarrow> jsnum" where
  "pixel_value mode p baseRate diffRate = (case mode of
      V_diff \<Rightarrow> if pp_isTransit p \<and> lit 0 < maxDiff p then (Math_abs diffRate / maxDiff p) * effectiveTransitRatio p else lit 0
    | V_flux \<Rightarrow>
        let baseNorm = (if lit 0 < maxBaseline p then baseRate / maxBaseline p else lit 0);
            relativeDipStrength = (if lit 0 < maxDiff p then Math_abs diffRate / maxDiff p else lit 0);
            shadowFactor = (if pp_isTransit p then lit 1 - lit (32 / 100) * relativeDipStrength * effectiveTransitRatio p else lit 1)
        in Math_max (lit 0) (Math_min (lit 1) (baseNorm * shadowFactor)))"

definition cell_at :: "mathlib \<Rightarrow> (jsnum \<Rightarrow> jsnum) \<Rightarrow> view_mode \<Rightarrow> pixel_props \<Rightarrow> nat \<Rightarrow> nat \<Rightarrow> pixel_cell" where
  "cell_at m mexp mode p rn cn =
     (let r = jsnum_of_nat rn; c = jsnum_of_nat cn;
          centerR = centre_of tpf_centroid_row (lit 5 + (if truthy (effectiveOffset p) then effectiveOffset p * lit (4 / 10) else lit 0)) p;
          centerC = centre_of tpf_centroid_col (lit 5) p;
          idx = r * stamp_size p + c;
          d2 = dist2 m r c centerR centerC;
          (baseRate, diffRate) = pixel_rates m mexp p idx d2;
          v = pixel_value mode p baseRate diffRate
      in \<lparr>px_r = r, px_c = c, px_value = v, px_inAperture = in_aperture m p idx d2, px_eRate = pixel_eRate p baseRate diffRate,
          px_bg = (case mode of V_diff \<Rightarrow> getDiffColor v | V_flux \<Rightarrow> getPlasmaColor v)\<rparr>)"

text \<open>The counters of the loops run from 0 below the size, which is finite.\<close>

definition side_length :: "pixel_props \<Rightarrow> nat" where
  "side_length p = nat \<lceil>val (stamp_size p)\<rceil>"

definition pixel_grid :: "mathlib \<Rightarrow> (jsnum \<Rightarrow> jsnum) \<Rightarrow> view_mode \<Rightarrow> pixel_props \<Rightarrow> pixel_cell list list" where
  "pixel_grid m mexp mode p = map (\<lambda>r. map (cell_at m mexp mode p r) [0..<side_length p]) [0..<side_length p]"

definition totalApertureFlux :: "pixel_cell list list \<Rightarrow> jsnum" where
  "totalApertureFlux g = foldl (\<lambda>apertureSum cell. if px_inAperture cell then apertureSum + px_eRate cell else apertureSum) (lit 0) (concat g)"

section \<open>The selected pixel\<close>

record pixel_info =
  pi_r :: jsnum
  pi_c :: jsnum
  pi_inAperture :: bool
  pi_baseRate :: jsnum
  pi_currentRate :: jsnum
  pi_deltaFlux :: jsnum
  pi_pctChange :: jsnum

definition selectedPixelInfo :: "mathlib \<Rightarrow> (jsnum \<Rightarrow> jsnum) \<Rightarrow> pixel_props \<Rightarrow> pixel_state \<Rightarrow> pixel_info option" where
  "selectedPixelInfo m mexp p s = (case activePixelCoord p s of None \<Rightarrow> None
    | Some (r, c) \<Rightarrow>
       let size' = stamp_size p in
       if r < lit 0 \<or> size' \<le> r \<or> c < lit 0 \<or> size' \<le> c then None
       else
         let idx = r * size' + c;
             centerR = centre_of tpf_centroid_row (lit 5) p; centerC = centre_of tpf_centroid_col (lit 5) p;
             d2 = dist2 m r c centerR centerC;
             baseRate = (case square_map tpf_median_flux_map p of Some xs \<Rightarrow> arr_num xs idx
               | None \<Rightarrow> Math_round (lit 14850 * mexp (- d2 / (lit 2 * Math_pow m (lit (135 / 100)) (lit 2)))));
             diffVal = (case square_map tpf_difference_flux_map p of Some ds \<Rightarrow> arr_num ds idx
               | None \<Rightarrow> - (baseRate * lit (14 / 10000) * lit 4));
             effectiveRatio = (if pp_isTransit p then transit_ratio p else lit 0);
             currentRate =
               (if pp_isTransit p then Math_max (lit 0) (baseRate - Math_abs diffVal * effectiveRatio)
                else case pp_currentFlux p of
                    Some f \<Rightarrow> if truthy f \<and> isFinite f \<and> lit (5 / 10) < f \<and> f < lit (15 / 10)
                      then Math_max (lit 0) (baseRate * f) else baseRate
                  | None \<Rightarrow> baseRate);
             deltaFlux = currentRate - baseRate
         in Some \<lparr>pi_r = r, pi_c = c, pi_inAperture = in_aperture m p idx d2, pi_baseRate = baseRate, pi_currentRate = currentRate,
              pi_deltaFlux = deltaFlux, pi_pctChange = (if lit 0 < baseRate then (deltaFlux / baseRate) * lit 100 else lit 0)\<rparr>)"

text \<open>The change as it is printed.\<close>

definition delta_text :: "pixel_info \<Rightarrow> str" where
  "delta_text i =
     (if Math_abs (pi_deltaFlux i) < lit (5 / 100) then (ue ''0.0 e~207B/s (0.00%)'')
      else ((if lit 0 \<le> pi_deltaFlux i then u ''+'' else []) @ toFixed (pi_deltaFlux i) 1 @ ue '' e~207B/s ('' @ (if lit 0 \<le> pi_pctChange i then u ''+'' else []) @ toFixed (pi_pctChange i) 2 @ u ''%)''))"

definition cell_title :: "host \<Rightarrow> pixel_cell \<Rightarrow> str" where
  "cell_title h cell = (u ''Pixel ['' @ num_str (px_r cell) @ u '', '' @ num_str (px_c cell) @ u '']: '' @ number_locale h None (px_eRate cell) @ ue '' e~207B/s '' @ (if px_inAperture cell then (u ''(Trong Aperture)'') else (ue ''(N~1EC1n)'')) @ ue '' - Nh~1EA5p ~0111~1EC3 ch~1ECDn'')"

section \<open>Colour channels\<close>

definition byte :: "jsnum \<Rightarrow> bool" where
  "byte x = (Fin 0 \<le> x \<and> x \<le> Fin 255)"

definition rgb_ok :: "rgb \<Rightarrow> bool" where
  "rgb_ok p = (case p of (r, g, b) \<Rightarrow> byte r \<and> byte g \<and> byte b)"

text \<open>The fraction of a segment of the colour map stays in \<open>[0, 1025/1024]\<close>, rounding included.\<close>

definition frac_ok :: "jsnum \<Rightarrow> bool" where
  "frac_ok t = (Fin 0 \<le> t \<and> t \<le> Fin (1025 / 1024))"

lemma Math_round_between:
  assumes "isFinite x" "of_int lo - 1 / 2 \<le> val x" "val x < of_int hi + 1 / 2" "0 \<le> lo"
  shows "Fin (of_int lo) \<le> Math_round x \<and> Math_round x \<le> Fin (of_int hi)"
proof -
  have "val x + 1 / 2 < of_int hi + 1" using assms(3) by simp
  then have "lo \<le> \<lfloor>val x + 1 / 2\<rfloor>" "\<lfloor>val x + 1 / 2\<rfloor> \<le> hi" using assms(2) by (simp_all add: le_floor_iff floor_le_iff)
  moreover have "\<lfloor>1 / 2 :: rat\<rfloor> = 0" by (simp add: floor_eq_iff)
  ultimately show ?thesis using assms(1,4) by (cases x) (auto simp: Math_round_def)
qed

lemma round64_1024: "\<bar>k\<bar> \<le> 2 ^ 53 \<Longrightarrow> round64 (of_int k / 1024) = of_int k / 1024"
proof (rule round64_representable)
  assume k: "\<bar>k\<bar> \<le> 2 ^ 53"
  have "of_int k / 1024 = (of_int k * 2 powi (- 10) :: rat)" by (simp add: power_int_minus)
  then show "representable (of_int k / 1024)" unfolding representable_def using k by (intro exI [of _ k] exI [of _ "- 10"]) simp
qed

lemma mk_between:
  assumes "\<bar>i\<bar> \<le> 2 ^ 30" "\<bar>j\<bar> \<le> 2 ^ 30" "of_int i / 1024 \<le> q" "q \<le> of_int j / 1024"
  shows "isFinite (mk s q) \<and> of_int i / 1024 \<le> val (mk s q) \<and> val (mk s q) \<le> of_int j / 1024"
proof -
  have r: "round64 (of_int i / 1024) = of_int i / 1024" "round64 (of_int j / 1024) = of_int j / 1024"
    by (rule round64_1024; use assms(1,2) in simp)+
  have b: "of_int i / 1024 \<le> round64 q" "round64 q \<le> of_int j / 1024"
    using round64_mono [OF assms(3)] round64_mono [OF assms(4)] r by auto
  have "(of_int \<bar>i\<bar> :: rat) \<le> of_int (2 ^ 30)" "(of_int \<bar>j\<bar> :: rat) \<le> of_int (2 ^ 30)"
    using assms(1,2) by (simp_all only: of_int_le_iff)
  then have "\<bar>round64 q\<bar> \<le> 2 ^ 53" using b by (simp add: abs_le_iff)
  then have "isFinite (mk s q)" using small_lt_overflow by (simp add: isFinite_mk)
  then show ?thesis using b by (simp add: val_mk)
qed

lemma channel_sum:
  fixes a b :: int
  assumes "frac_ok t" "0 \<le> a" "a \<le> 255" "\<bar>b\<bar> \<le> 255"
  defines "p \<equiv> t * lit (of_int b)"
  shows "isFinite p \<and> of_int (min 0 (1025 * b)) / 1024 \<le> val p \<and> val p \<le> of_int (max 0 (1025 * b)) / 1024"
proof -
  have t: "isFinite t" "0 \<le> val t" "val t \<le> 1025 / 1024" using assms(1) by (cases t; simp add: frac_ok_def)+
  have l: "lit (of_int b) = Fin (of_int b)" using assms(4) by (intro lit_of_int) simp
  have "val t * of_int b \<le> of_int (max 0 (1025 * b)) / 1024 \<and> of_int (min 0 (1025 * b)) / 1024 \<le> val t * of_int b"
  proof (cases "0 \<le> b")
    case True
    then have "val t * of_int b \<le> 1025 / 1024 * of_int b" using t by (intro mult_right_mono) auto
    then show ?thesis using True t by (simp add: max_def min_def)
  next
    case False
    then have "1025 / 1024 * of_int b \<le> val t * of_int b" using t by (intro mult_right_mono_neg) auto
    then show ?thesis using False t by (simp add: max_def min_def mult_nonneg_nonpos)
  qed
  moreover obtain s where "p = mk s (val t * of_int b)" unfolding p_def l using t(1) by (metis finite_mult isFinite_simps(1) val_simps(1))
  moreover have "\<bar>min 0 (1025 * b)\<bar> \<le> 2 ^ 30" "\<bar>max 0 (1025 * b)\<bar> \<le> 2 ^ 30" using assms(4) by (auto simp: max_def min_def)
  ultimately show ?thesis using mk_between by blast
qed

lemma channel_byte:
  fixes a b :: int
  assumes "frac_ok t" "0 \<le> a" "a \<le> 255" "\<bar>b\<bar> \<le> 255" "- 512 \<le> 1024 * a + 1025 * b" "1024 * a + 1025 * b < 261632"
  shows "byte (channel (of_int a) t (of_int b))" and "byte (Math_round (lit (of_int a) - t * lit (of_int (- b))))"
proof -
  have l: "lit (of_int a) = Fin (of_int a)" using assms(2,3) by (intro lit_of_int) simp
  have byte: "byte (Math_round (mk s q))"
    if "of_int (1024 * a + min 0 (1025 * b)) / 1024 \<le> q" "q \<le> of_int (1024 * a + max 0 (1025 * b)) / 1024" for s q
  proof -
    have m: "isFinite (mk s q) \<and> of_int (1024 * a + min 0 (1025 * b)) / 1024 \<le> val (mk s q) \<and>
        val (mk s q) \<le> of_int (1024 * a + max 0 (1025 * b)) / 1024"
      using assms that by (intro mk_between) (auto simp: max_def min_def)
    have "- 512 \<le> 1024 * a + min 0 (1025 * b)" "1024 * a + max 0 (1025 * b) < 261632" using assms by (auto simp: max_def min_def)
    then have "of_int (- 512) \<le> (of_int (1024 * a + min 0 (1025 * b)) :: rat)" "(of_int (1024 * a + max 0 (1025 * b)) :: rat) < of_int 261632"
      by (simp_all only: of_int_le_iff of_int_less_iff)
    then have "Fin (of_int 0) \<le> Math_round (mk s q) \<and> Math_round (mk s q) \<le> Fin (of_int 255)"
      using m by (intro Math_round_between) auto
    then show ?thesis by (simp add: byte_def)
  qed
  define p where "p = t * lit (of_int b)"
  have p: "isFinite p" "of_int (min 0 (1025 * b)) / 1024 \<le> val p" "val p \<le> of_int (max 0 (1025 * b)) / 1024"
    using channel_sum [OF assms(1-4)] by (simp_all add: p_def)
  obtain s where "lit (of_int a) + p = mk s (of_int a + val p)" unfolding l using p(1) by (metis finite_add isFinite_simps(1) val_simps(1))
  moreover have "byte (Math_round (mk s (of_int a + val p)))" using p(2,3) by (intro byte) (simp_all add: add_divide_distrib)
  ultimately show "byte (channel (of_int a) t (of_int b))" by (simp add: channel_def p_def)
  define n where "n = t * lit (of_int (- b))"
  have n: "isFinite n" "of_int (min 0 (1025 * - b)) / 1024 \<le> val n" "val n \<le> of_int (max 0 (1025 * - b)) / 1024"
    using channel_sum [OF assms(1-3), of "- b"] assms(4) by (simp_all add: n_def)
  obtain s' where "lit (of_int a) - n = mk s' (of_int a - val n)" unfolding l using n(1) by (metis finite_sub isFinite_simps(1) val_simps(1))
  moreover have "byte (Math_round (mk s' (of_int a - val n)))"
    using n(2,3) by (intro byte) (auto simp: add_divide_distrib max_def min_def split: if_splits)
  ultimately show "byte (Math_round (lit (of_int a) - t * lit (of_int (- b))))" by (simp add: n_def)
qed

lemma segment_frac:
  assumes "isFinite c" "lit x \<le> c" "c \<le> lit y" "isFinite (lit x)" "isFinite (lit y)" "isFinite (lit w)" "0 < val (lit w)"
    "(lit y - lit x) / lit w \<le> Fin (1025 / 1024)" "isFinite (lit y - lit x)"
  shows "frac_ok ((c - lit x) / lit w)"
proof -
  let ?d = "c - lit x" and ?e = "lit y - lit x"
  obtain s s' where e: "?d = mk s (val c - val (lit x))" "?e = mk s' (val (lit y) - val (lit x))"
    using assms(1,4,5) finite_sub by metis
  have d: "mk False 0 \<le> ?d" "?d \<le> ?e" unfolding e using assms(1-5) by (intro mk_mono; simp)+
  then have f: "isFinite ?d" "0 \<le> val ?d" "val ?d \<le> val ?e" using assms(9) by (cases ?d; cases ?e; auto simp: zero_of_def)+
  obtain u' u'' where q: "?d / lit w = mk u' (val ?d / val (lit w))" "?e / lit w = mk u'' (val ?e / val (lit w))"
    using f(1) assms(6,7,9) finite_divide by (metis less_irrefl)
  have "mk False 0 \<le> ?d / lit w" "?d / lit w \<le> ?e / lit w" unfolding q using f assms(7) by (intro mk_mono; simp add: divide_right_mono)+
  then show ?thesis using assms(8) num_le_trans by (auto simp: frac_ok_def zero_of_def)
qed

lemma channels_byte:
  assumes "frac_ok t"
  shows "byte (channel 11 t 48)"
    "byte (channel 15 t (- 8))"
    "byte (channel 30 t 70)"
    "byte (channel 59 t 97)"
    "byte (channel 7 t 16)"
    "byte (channel 100 t 58)"
    "byte (channel 156 t 78)"
    "byte (channel 23 t 65)"
    "byte (channel 234 t 19)"
    "byte (channel 88 t 136)"
    "byte (channel 12 t 59)"
    "byte (channel 253 t 2)"
    "byte (channel 224 t 31)"
    "byte (channel 71 t 184)"
    "byte (channel 10 t 210)"
    "byte (channel 35 t 200)"
    "byte (channel 70 t 185)"
    "byte (Math_round (lit 158 - t * lit 146))"
  using channel_byte(1) [OF assms, of 11 "48"]
    channel_byte(1) [OF assms, of 15 "- 8"]
    channel_byte(1) [OF assms, of 30 "70"]
    channel_byte(1) [OF assms, of 59 "97"]
    channel_byte(1) [OF assms, of 7 "16"]
    channel_byte(1) [OF assms, of 100 "58"]
    channel_byte(1) [OF assms, of 156 "78"]
    channel_byte(1) [OF assms, of 23 "65"]
    channel_byte(1) [OF assms, of 234 "19"]
    channel_byte(1) [OF assms, of 88 "136"]
    channel_byte(1) [OF assms, of 12 "59"]
    channel_byte(1) [OF assms, of 253 "2"]
    channel_byte(1) [OF assms, of 224 "31"]
    channel_byte(1) [OF assms, of 71 "184"]
    channel_byte(1) [OF assms, of 10 "210"]
    channel_byte(1) [OF assms, of 35 "200"]
    channel_byte(1) [OF assms, of 70 "185"]
    channel_byte(2) [OF assms, of 158 "- 146"]
  by simp_all

lemma clamp_unit_range: "v \<noteq> NaN \<Longrightarrow> isFinite (clamp_unit v) \<and> Fin 0 \<le> clamp_unit v \<and> clamp_unit v \<le> Fin 1"
  by (cases v) (auto simp: clamp_unit_def Math_max_def Math_min_def)

lemma unit_frac:
  assumes "isFinite c" "Fin 0 \<le> c" "c \<le> lit w" "isFinite (lit w)" "0 < val (lit w)"
  shows "frac_ok (c / lit w)"
proof -
  have v: "0 \<le> val c" "val c \<le> val (lit w)" using assms by (cases c; cases "lit w"; auto)+
  obtain s where q: "c / lit w = mk s (val c / val (lit w))" using assms finite_divide by (metis less_irrefl)
  have "mk False 0 \<le> c / lit w" "c / lit w \<le> mk False 1" unfolding q using v assms(5) by (intro mk_mono; simp add: divide_le_eq_1)+
  moreover have "mk False 1 = Fin 1" using lit_one by (simp add: lit_def)
  ultimately show ?thesis using num_le_trans [of "c / lit w" "Fin 1" "Fin (1025 / 1024)"] unfolding frac_ok_def by (simp add: zero_of_def)
qed

text \<open>The boundaries of the segments as numbers.\<close>

lemma plasma_segments:
  "isFinite (lit (18 / 100))" "0 < val (lit (18 / 100))" "isFinite (lit (45 / 100))" "isFinite (lit (72 / 100))" "isFinite (lit (92 / 100))"
  "isFinite (lit (27 / 100))" "0 < val (lit (27 / 100))" "isFinite (lit (2 / 10))" "0 < val (lit (2 / 10))"
  "isFinite (lit (8 / 100))" "0 < val (lit (8 / 100))" "isFinite (lit (2 / 100))" "isFinite (lit (98 / 100))" "0 < val (lit (98 / 100))"
  by code_simp+

lemma segment_width:
  assumes "0 \<le> x" "x \<le> 1" "0 \<le> y" "y \<le> 1" "1 / 20 \<le> w" "w \<le> 1" "y - x \<le> w"
  shows "(lit y - lit x) / lit w \<le> Fin (1025 / 1024)" "isFinite (lit y - lit x)"
proof -
  have l: "approx (lit x) x (1 / 2 ^ 51)" "approx (lit y) y (1 / 2 ^ 51)" "approx (lit w) w (1 / 2 ^ 51)"
    by (rule approx_lit; use assms in simp)+
  then have e: "approx (lit y - lit x) (y - x) (1 / 2 ^ 51 + 1 / 2 ^ 51 + 1 / 2 ^ 51)"
    using assms by (intro approx_sub) auto
  then show f: "isFinite (lit y - lit x)" by (rule approxD)
  have w: "isFinite (lit w)" "w - 1 / 2 ^ 51 \<le> val (lit w)"
    using approxD(1) [OF l(3)] approxD(2) [OF l(3)] unfolding abs_le_iff by linarith+
  have d: "val (lit y - lit x) \<le> y - x + 3 / 2 ^ 51" using approxD(2) [OF e] unfolding abs_le_iff by linarith
  have p: "0 < val (lit w)" using w(2) assms(5) by (rule_tac less_le_trans [of _ "w - 1 / 2 ^ 51"]) auto
  have "val (lit y - lit x) \<le> w + 3 / 2 ^ 51" using d assms(7) by simp
  also have "\<dots> \<le> 1025 / 1024 * (w - 1 / 2 ^ 51)" using assms(5) by (simp add: field_simps)
  also have "\<dots> \<le> 1025 / 1024 * val (lit w)" using w(2) by simp
  finally have q: "val (lit y - lit x) / val (lit w) \<le> of_int 1025 / 1024" using p by (simp add: pos_divide_le_eq)
  obtain u where "(lit y - lit x) / lit w = mk u (val (lit y - lit x) / val (lit w))" using f w(1) p finite_divide by (metis less_irrefl)
  moreover have "mk u (val (lit y - lit x) / val (lit w)) \<le> mk u (of_int 1025 / 1024)" using q by (rule mk_mono)
  moreover have "mk u (of_int 1025 / 1024) = Fin (of_int 1025 / 1024)"
    using round64_1024 [of 1025] small_lt_overflow [of "1025 / 1024"] by (intro mk_exact) auto
  ultimately show "(lit y - lit x) / lit w \<le> Fin (1025 / 1024)" by simp
qed

lemma segment_widths:
  "(lit (45 / 100) - lit (18 / 100)) / lit (27 / 100) \<le> Fin (1025 / 1024)" "isFinite (lit (45 / 100) - lit (18 / 100))"
  "(lit (72 / 100) - lit (45 / 100)) / lit (27 / 100) \<le> Fin (1025 / 1024)" "isFinite (lit (72 / 100) - lit (45 / 100))"
  "(lit (92 / 100) - lit (72 / 100)) / lit (2 / 10) \<le> Fin (1025 / 1024)" "isFinite (lit (92 / 100) - lit (72 / 100))"
  "(lit 1 - lit (92 / 100)) / lit (8 / 100) \<le> Fin (1025 / 1024)" "isFinite (lit 1 - lit (92 / 100))"
  "(lit 1 - lit (2 / 100)) / lit (98 / 100) \<le> Fin (1025 / 1024)" "isFinite (lit 1 - lit (2 / 100))"
  by ((rule segment_width(1), simp_all)[1], (rule segment_width(2) [of _ _ "27 / 100"], simp_all)[1],
    (rule segment_width(1), simp_all)[1], (rule segment_width(2) [of _ _ "27 / 100"], simp_all)[1],
    (rule segment_width(1), simp_all)[1], (rule segment_width(2) [of _ _ "2 / 10"], simp_all)[1],
    (rule segment_width(1), simp_all)[1], (rule segment_width(2) [of _ _ "8 / 100"], simp_all)[1],
    (rule segment_width(1), simp_all)[1], (rule segment_width(2) [of _ _ "98 / 100"], simp_all)[1])

lemma not_less_le: "isFinite c \<Longrightarrow> isFinite d \<Longrightarrow> \<not> c < d \<Longrightarrow> d \<le> (c::jsnum)"
  by simp

lemma plasma_ok: "v \<noteq> NaN \<Longrightarrow> rgb_ok (plasma_rgb v)"
proof -
  assume "v \<noteq> NaN"
  define c where "c = clamp_unit v"
  have c: "isFinite c" "Fin 0 \<le> c" "c \<le> lit 1" using clamp_unit_range [OF \<open>v \<noteq> NaN\<close>] by (simp_all add: c_def)
  consider "c < lit (18 / 100)"
    | "lit (18 / 100) \<le> c" "\<not> c < lit (18 / 100)" "c < lit (45 / 100)"
    | "lit (45 / 100) \<le> c" "\<not> c < lit (18 / 100)" "\<not> c < lit (45 / 100)" "c < lit (72 / 100)"
    | "lit (72 / 100) \<le> c" "\<not> c < lit (18 / 100)" "\<not> c < lit (45 / 100)" "\<not> c < lit (72 / 100)" "c < lit (92 / 100)"
    | "lit (92 / 100) \<le> c" "\<not> c < lit (18 / 100)" "\<not> c < lit (45 / 100)" "\<not> c < lit (72 / 100)" "\<not> c < lit (92 / 100)"
    using not_less_le [OF c(1)] plasma_segments by blast
  then show ?thesis
  proof cases
    case 1
    have "frac_ok (c / lit (18 / 100))" by (rule unit_frac [OF c(1,2) num_less_imp_le [OF 1] plasma_segments(1,2)])
    then show ?thesis using 1 channels_byte by (simp add: plasma_rgb_def c_def [symmetric] rgb_ok_def Let_def)
  next
    case 2
    have "frac_ok ((c - lit (18 / 100)) / lit (27 / 100))"
      using segment_frac [OF c(1) 2(1) num_less_imp_le [OF 2(3)]] plasma_segments segment_widths by blast
    then show ?thesis using 2 channels_byte by (simp add: plasma_rgb_def c_def [symmetric] rgb_ok_def Let_def)
  next
    case 3
    have "frac_ok ((c - lit (45 / 100)) / lit (27 / 100))"
      using segment_frac [OF c(1) 3(1) num_less_imp_le [OF 3(4)]] plasma_segments segment_widths by blast
    then show ?thesis using 3 channels_byte by (simp add: plasma_rgb_def c_def [symmetric] rgb_ok_def Let_def)
  next
    case 4
    have "frac_ok ((c - lit (72 / 100)) / lit (2 / 10))"
      using segment_frac [OF c(1) 4(1) num_less_imp_le [OF 4(5)]] plasma_segments segment_widths by blast
    then show ?thesis using 4 channels_byte by (simp add: plasma_rgb_def c_def [symmetric] rgb_ok_def Let_def)
  next
    case 5
    have "isFinite (lit 1)" by simp
    then have "frac_ok ((c - lit (92 / 100)) / lit (8 / 100))"
      using segment_frac [OF c(1) 5(1) c(3)] plasma_segments segment_widths by blast
    then show ?thesis using 5 channels_byte by (simp add: plasma_rgb_def c_def [symmetric] rgb_ok_def Let_def)
  qed
qed

lemma diff_ok: "v \<noteq> NaN \<Longrightarrow> rgb_ok (diff_rgb v)"
proof -
  assume "v \<noteq> NaN"
  define c where "c = clamp_unit v"
  have c: "isFinite c" "Fin 0 \<le> c" "c \<le> lit 1" "isFinite (lit 1)" using clamp_unit_range [OF \<open>v \<noteq> NaN\<close>] by (simp_all add: c_def)
  show ?thesis
  proof (cases "c \<le> lit (2 / 100)")
    case True
    then show ?thesis by (simp add: diff_rgb_def c_def [symmetric] rgb_ok_def byte_def)
  next
    case False
    then have "lit (2 / 100) \<le> c" using c(1) plasma_segments by simp
    then have "frac_ok ((c - lit (2 / 100)) / lit (98 / 100))"
      using segment_frac [OF c(1) _ c(3)] c(4) plasma_segments segment_widths by blast
    then show ?thesis using False channels_byte by (simp add: diff_rgb_def c_def [symmetric] rgb_ok_def Let_def)
  qed
qed

section \<open>Grid and panel\<close>

lemma grid_shape:
  "length (pixel_grid m mexp mode p) = side_length p"
  "r < side_length p \<Longrightarrow> c < side_length p \<Longrightarrow> pixel_grid m mexp mode p ! r ! c = cell_at m mexp mode p r c"
  by (simp_all add: pixel_grid_def)

lemma value_unit:
  assumes "pixel_value V_flux p b d \<noteq> NaN"
  shows "Fin 0 \<le> pixel_value V_flux p b d \<and> pixel_value V_flux p b d \<le> Fin 1"
proof -
  have "Fin 0 \<le> Math_max (lit 0) (Math_min (lit 1) x) \<and> Math_max (lit 0) (Math_min (lit 1) x) \<le> Fin 1"
    if "Math_max (lit 0) (Math_min (lit 1) x) \<noteq> NaN" for x
    using that by (cases x) (auto simp: Math_max_def Math_min_def split: if_splits)
  then show ?thesis using assms by (simp add: pixel_value_def Let_def)
qed

lemma round_max: "Math_round (Math_max (Fin 0) x) = Math_max (Fin 0) (Math_round x)"
proof (cases x)
  case (Fin q)
  have "0 \<le> q \<Longrightarrow> 0 \<le> \<lfloor>q + 1 / 2\<rfloor>" by (simp add: le_floor_iff)
  moreover have "q < 0 \<Longrightarrow> \<lfloor>q + 1 / 2\<rfloor> \<le> 0" by (simp add: floor_le_iff)
  moreover have "0 \<le> q \<Longrightarrow> q + 1 / 2 < 1 \<Longrightarrow> \<lfloor>q + 1 / 2\<rfloor> = 0" by (simp add: floor_eq_iff)
  moreover have "\<lfloor>1 / 2 :: rat\<rfloor> = 0" by (simp add: floor_eq_iff)
  ultimately show ?thesis using Fin by (auto simp: Math_round_def Math_max_def)
qed (simp_all add: Math_round_def Math_max_def floor_eq_iff)

lemma max_tenth: "lit (1 / 10) \<le> x \<Longrightarrow> Math_max (lit (1 / 10)) x = x"
proof -
  have "0 < val (lit (1 / 10))" by code_simp
  then show "lit (1 / 10) \<le> x \<Longrightarrow> Math_max (lit (1 / 10)) x = x" by (cases x; cases "lit (1 / 10)") (auto simp: Math_max_def)
qed

section \<open>Properties\<close>

text \<open>
  For every value but NaN, infinite ones included, both colour maps give a colour whose three
  channels are integers between 0 and 255, whatever the rounding of the interpolation does.
\<close>

theorem colours_are_bytes:
  assumes "v \<noteq> NaN"
  shows "rgb_ok (plasma_rgb v) \<and> rgb_ok (diff_rgb v)"
  using plasma_ok diff_ok assms by blast

theorem colours_are_bytes_witness: "rgb_ok (plasma_rgb PInf) \<and> rgb_ok (diff_rgb (lit (1 / 2)))"
  using colours_are_bytes [of PInf] colours_are_bytes [of "lit (1 / 2)"] by (simp add: lit_def)


text \<open>A stamp of two by two pixels with maps, and the number facts of the witnesses.\<close>

definition sample_stamp :: TPFSample where
  "sample_stamp = \<lparr>tpf_rows = lit 2, tpf_cols = lit 2, tpf_aperture_mask = [lit 1, lit 0, lit 1, lit 0],
     tpf_median_flux_map = [lit 100, lit 200, lit 300, lit 400], tpf_difference_flux_map = [lit 1, lit (- 2), lit (- 30), lit 0],
     tpf_centroid_row = lit 5, tpf_centroid_col = lit 5, tpf_centroid_offset_pixels = lit 0, tpf_pixel_mad_median = lit 0,
     tpf_variability_peak_fraction = lit 0\<rparr>"

definition sample_props :: "TPFSample \<Rightarrow> pixel_props" where
  "sample_props t = \<lparr>pp_currentFlux = None, pp_isTransit = True, pp_transitDepthRatio = None, pp_currentTime = None, pp_cadenceIndex = None,
     pp_centroidOffset = None, pp_tpf = Some t, pp_selectedPixel = Some (Some (lit 1, lit 0))\<rparr>"

lemma small_nats:
  "jsnum_of_nat 0 = Fin 0" "jsnum_of_nat (Suc 0) = Fin 1" "jsnum_of_nat (Suc (Suc (Suc (Suc 0)))) = Fin 4" "jsnum_of_nat 5 = Fin 5"
  "Fin 2 * Fin 2 = Fin 4"
  by code_simp+

lemma sample_square:
  "square_map tpf_median_flux_map (sample_props sample_stamp) \<noteq> None" "square_map tpf_difference_flux_map (sample_props sample_stamp) \<noteq> None"
  "square_map tpf_aperture_mask (sample_props sample_stamp) \<noteq> None"
  by (simp_all add: square_map_def sample_props_def sample_stamp_def stamp_size_def num_eq_def truthy_def
      small_nats)


text \<open>
  The grid takes a map only when it has as many entries as the square of the number of rows. For
  a cutout that is not square no map does, and the whole grid, aperture, fluxes and colours, is the
  same for every content of the maps: a synthetic star in the place of the observation.
\<close>

theorem maps_ignored:
  fixes p :: pixel_props and t :: TPFSample and xs ds ms :: "jsnum list"
  assumes "pp_tpf p = Some t"
  defines "p' \<equiv> p\<lparr>pp_tpf := Some (t\<lparr>tpf_median_flux_map := xs, tpf_difference_flux_map := ds, tpf_aperture_mask := ms\<rparr>)\<rparr>"
  assumes "list_all (\<lambda>f. square_map f p = None \<and> square_map f p' = None) [tpf_median_flux_map, tpf_difference_flux_map, tpf_aperture_mask]"
  shows "pixel_grid m mexp mode p' = pixel_grid m mexp mode p"
proof -
  have eq: "stamp_size p' = stamp_size p" "effectiveOffset p' = effectiveOffset p" "effectiveTransitRatio p' = effectiveTransitRatio p"
    "centre_of tpf_centroid_row d p' = centre_of tpf_centroid_row d p" "centre_of tpf_centroid_col d p' = centre_of tpf_centroid_col d p"
    "pp_isTransit p' = pp_isTransit p" for d
    using assms(1) by (simp_all add: p'_def stamp_size_def effectiveOffset_def effectiveTransitRatio_def transit_ratio_def centre_of_def)
  have n: "square_map f p = None" "square_map f p' = None"
    if "f \<in> {tpf_median_flux_map, tpf_difference_flux_map, tpf_aperture_mask}" for f using assms(3) that by auto
  have max: "maxBaseline p' = maxBaseline p" "maxDiff p' = maxDiff p" by (simp_all add: maxBaseline_def maxDiff_def n)
  have rates: "pixel_rates m mexp p' i d = pixel_rates m mexp p i d" "in_aperture m p' i d = in_aperture m p i d" for i d
    by (simp_all add: pixel_rates_def in_aperture_def n)
  have "pixel_eRate p' = pixel_eRate p" "pixel_value v p' = pixel_value v p" for v
    by (intro ext, simp only: pixel_eRate_def pixel_value_def eq max)+
  then have "cell_at m mexp mode p' r c = cell_at m mexp mode p r c" for r c by (simp add: cell_at_def eq rates)
  then show ?thesis by (simp add: pixel_grid_def side_length_def eq)
qed

text \<open>Two rows of three pixels.\<close>

definition sample_oblong :: "jsnum list \<Rightarrow> TPFSample" where
  "sample_oblong xs = sample_stamp\<lparr>tpf_cols := lit 3, tpf_median_flux_map := xs, tpf_difference_flux_map := xs, tpf_aperture_mask := xs\<rparr>"

lemma oblong_no_map:
  assumes "length (f (sample_oblong xs)) = 6"
  shows "square_map f (sample_props (sample_oblong xs)) = None"
proof -
  have "jsnum_of_nat 6 = Fin 6" by code_simp
  then show ?thesis using assms
    by (simp add: square_map_def sample_props_def stamp_size_def sample_oblong_def sample_stamp_def num_eq_def truthy_def small_nats)
qed

theorem maps_ignored_witness:
  "pixel_grid sample_math (\<lambda>x. x) V_flux (sample_props (sample_oblong (map Fin [9, 8, 7, 6, 5, 4]))) =
   pixel_grid sample_math (\<lambda>x. x) V_flux (sample_props (sample_oblong (map Fin [0, 0, 0, 0, 0, 0])))"
proof -
  have upd: "sample_props (sample_oblong ys) = sample_props (sample_oblong xs)\<lparr>pp_tpf := Some (sample_oblong xs\<lparr>tpf_median_flux_map := ys,
      tpf_difference_flux_map := ys, tpf_aperture_mask := ys\<rparr>)\<rparr>" for xs ys
    by (simp add: sample_props_def sample_oblong_def)
  let ?xs = "map Fin [0, 0, 0, 0, 0, 0]" and ?ys = "map Fin [9, 8, 7, 6, 5, 4]"
  have "pp_tpf (sample_props (sample_oblong ?xs)) = Some (sample_oblong ?xs)" by (simp add: sample_props_def)
  moreover have "list_all (\<lambda>f. square_map f (sample_props (sample_oblong ?xs)) = None \<and> square_map f (sample_props (sample_oblong ?ys)) = None)
      [tpf_median_flux_map, tpf_difference_flux_map, tpf_aperture_mask]"
    by (simp only: list.pred_inject simp_thms, intro conjI oblong_no_map) (simp_all add: sample_oblong_def)
  ultimately show ?thesis
    unfolding upd [of ?ys ?xs] using maps_ignored [of "sample_props (sample_oblong ?xs)" "sample_oblong ?xs" ?ys ?ys ?ys] by blast
qed

text \<open>The numbers of the brightest synthetic pixel: 14850 electrons, of which the transit takes 83.\<close>

lemma peak_rates:
  "Math_round (lit 1 * lit 14850) = Fin 14850" "Math_round (Fin 14850 * lit (14 / 10000) * lit 4) = Fin 83" "Math_abs (- Fin 83) = Fin 83"
  by code_simp+

lemma peak_flux: "Math_max (lit (1 / 10)) (lit 1) = lit 1" "Math_max (lit 0) (Math_round (Fin 14850 - Fin 83 * lit 1)) = lit 14767"
  by code_simp+

lemma peak_dark: "Math_max (lit 0) (Math_min (lit 1) (Fin 14850 / lit 15074 * (lit 1 - lit (32 / 100) * (Fin 83 / lit 21) * lit 1))) = lit 0"
  by code_simp

lemma peak_bright: "lit (98 / 100) \<le> Math_max (lit 0) (Math_min (lit 1) (Fin 14850 / lit 15074 * lit 1))"
  by code_simp

lemma peak_scale: "lit 0 < lit 15074" "lit 0 < lit 21"
  by code_simp+

text \<open>
  During a full transit the brightest pixel of the synthetic star, the one on which the
  exponential is 1, is drawn black, although its flux falls by 83 electrons in 14850 only: the dip is
  scaled by the synthetic difference over the constant 21, not over the greatest difference, so the
  contrast of 32 percent at most that is meant becomes the whole of it.
\<close>

theorem synthetic_transit_black:
  assumes "square_map tpf_median_flux_map p = None" "square_map tpf_difference_flux_map p = None"
    and "pp_isTransit p" "transit_ratio p = lit 1"
    and "mexp (- d2 / (lit 2 * Math_pow m (lit (135 / 100)) (lit 2))) = lit 1"
    and "pixel_rates m mexp p idx d2 = (b, d)"
  shows "pixel_value V_flux p b d = lit 0 \<and> lit (98 / 100) \<le> pixel_value V_flux (p\<lparr>pp_isTransit := False\<rparr>) b d \<and>
    pixel_eRate p b d = lit 14767"
proof -
  have "b = Fin 14850 \<and> d = - Fin 83" using assms(6) by (simp only: pixel_rates_def assms(1,5) Let_def peak_rates option.case prod.inject)
  moreover have "maxBaseline p = lit 15074" "maxDiff p = lit 21" using assms(1,2) by (simp_all add: maxBaseline_def maxDiff_def)
  moreover have "maxBaseline (p\<lparr>pp_isTransit := False\<rparr>) = maxBaseline p" "maxDiff (p\<lparr>pp_isTransit := False\<rparr>) = maxDiff p"
    by (simp_all add: maxBaseline_def maxDiff_def square_map_def stamp_size_def cong: if_cong option.case_cong)
  ultimately show ?thesis using peak_dark peak_bright
    by (simp add: pixel_value_def pixel_eRate_def effectiveTransitRatio_def Let_def peak_rates peak_flux peak_scale assms(3,4) del: lit_numeral lit_one lit_zero)
qed

theorem synthetic_transit_black_witness:
  "pixel_value V_flux (sample_props sample_stamp\<lparr>pp_tpf := None\<rparr>) (Fin 14850) (- Fin 83) = lit 0"
proof -
  let ?p = "sample_props sample_stamp\<lparr>pp_tpf := None\<rparr>"
  have "square_map f ?p = None" for f by (simp add: square_map_def)
  moreover have "pp_isTransit ?p" "transit_ratio ?p = lit 1" by (simp_all add: sample_props_def transit_ratio_def)
  moreover have "pixel_rates sample_math (\<lambda>_. lit 1) ?p (lit 0) (lit 0) = (Fin 14850, - Fin 83)"
    by (simp only: pixel_rates_def square_map_def Let_def peak_rates) simp
  ultimately show ?thesis using synthetic_transit_black [of ?p "\<lambda>_. lit 1" "lit 0" sample_math "lit 0"] by blast
qed

end
