(* ===== verification/HopStats.thy ===== *)
theory HopStats
  imports PipelineTypes NumArray JsText
begin

text \<open>
  What the charts of a pipeline hop share
  (\<open>pages/pipeline-dag/components/hop-charts/telemetry.ts\<close> and the helpers of the charts): the
  merge of telemetry series into rows, quantiles, histograms over fixed buckets, and the texts of
  numbers. Shown: the merged rows hold exactly the latest values, the fixed buckets count every
  number once, and the quantile at one half is the median.
\<close>

section \<open>Merged series\<close>

type_synonym Telemetry = "(str \<times> telemetry_point list) list"

text \<open>A row of the chart: an object with the key \<open>timestamp\<close> and a key per series.\<close>

type_synonym series_row = "(str \<times> jsnum) list"

definition series_of :: "Telemetry option \<Rightarrow> str \<Rightarrow> telemetry_point list" where
  "series_of telemetry key = nullish (Option.bind telemetry (\<lambda>t. map_of t key)) []"

definition row_num :: "series_row \<Rightarrow> str \<Rightarrow> jsnum" where
  "row_num row key = nullish (map_of row key) NaN"

definition merge_point :: "str \<Rightarrow> telemetry_point \<Rightarrow> (jsnum \<times> series_row) list \<Rightarrow> (jsnum \<times> series_row) list" where
  "merge_point key p = put [(u ''timestamp'', tpt_timestamp p)] (AList.update key (tpt_value p)) (map_key (tpt_timestamp p))"

definition merged_rows :: "Telemetry option \<Rightarrow> str list \<Rightarrow> (jsnum \<times> series_row) list" where
  "merged_rows telemetry keys = fold (\<lambda>key. fold (merge_point key) (series_of telemetry key)) keys []"

definition mergedSeries :: "Telemetry option \<Rightarrow> str list \<Rightarrow> series_row list" where
  "mergedSeries telemetry keys = sort_by (js_asc (\<lambda>row. row_num row (u ''timestamp''))) (map snd (merged_rows telemetry keys))"

text \<open>The clock on the time axis; the short form of a time of day is the browser's.\<close>

definition clock :: "(jsnum \<Rightarrow> str) \<Rightarrow> jsnum \<Rightarrow> str" where
  "clock short_time timestamp = short_time (timestamp * lit 1000)"

section \<open>Quantiles\<close>

definition quantile :: "jsnum list \<Rightarrow> jsnum \<Rightarrow> jsnum" where
  "quantile values q = (if values = [] then lit 0
     else let position = q * jsnum_of_nat (length values - 1); lower = Math_floor position; upper = Math_ceil position
       in if num_eq lower upper then arr_num values lower
          else arr_num values lower * (upper - position) + arr_num values upper * (position - lower))"

definition quantileNumbers :: "jsnum list \<Rightarrow> jsnum \<Rightarrow> jsnum" where
  "quantileNumbers values q = quantile (sort_by (js_asc (\<lambda>x. x)) (filter isFinite values)) q"

section \<open>Fixed buckets\<close>

text \<open>A bucket is a label and an inclusive upper bound; its lower bound is that of the bucket before.\<close>

definition bucket_lower :: "(str \<times> jsnum) list \<Rightarrow> nat \<Rightarrow> jsnum" where
  "bucket_lower buckets i = (if i = 0 then NInf else snd (buckets ! (i - 1)))"

definition in_bucket :: "(str \<times> jsnum) list \<Rightarrow> nat \<Rightarrow> jsnum \<Rightarrow> bool" where
  "in_bucket buckets i v = (bucket_lower buckets i < v \<and> v \<le> snd (buckets ! i))"

definition bucket_counts :: "(str \<times> jsnum) list \<Rightarrow> jsnum list \<Rightarrow> (str \<times> nat) list" where
  "bucket_counts buckets values =
     map (\<lambda>i. (fst (buckets ! i), length (filter (in_bucket buckets i) values))) [0..<length buckets]"

definition SCATTER_BUCKETS :: "(str \<times> jsnum) list" where
  "SCATTER_BUCKETS = [((u ''<100''), lit 100), ((ue ''100~2013300''), lit 300), ((ue ''300~20131k''), lit 1000), ((ue ''1~20133k''), lit 3000),
     ((ue ''3~201310k''), lit 10000), ((ue ''10~201330k''), lit 30000), ((ue ''30~2013100k''), lit 100000), ((ue ''~2265100k''), PInf)]"

definition BOUNDARY_BUCKETS :: "(str \<times> jsnum) list" where
  "BOUNDARY_BUCKETS = [((u ''0 / no seam''), lit 0), ((ue ''0~2013100''), lit 100), ((ue ''100~2013300''), lit 300), ((ue ''300~20131k''), lit 1000),
     ((ue ''1~20133k''), lit 3000), ((ue ''3~201310k''), lit 10000), ((ue ''~226510k''), PInf)]"

section \<open>Figures and texts\<close>

text \<open>A figure of the hop: a missing metric counts as 0, and so does a negative one.\<close>

definition metric_of :: "(str \<times> jsnum) list option \<Rightarrow> str \<Rightarrow> jsnum option" where
  "metric_of metrics key = Option.bind metrics (\<lambda>m. map_of m key)"

definition metric :: "(str \<times> jsnum) list option \<Rightarrow> string \<Rightarrow> jsnum" where
  "metric metrics key = Math_max (lit 0) (nullish (metric_of metrics (u key)) (lit 0))"

definition ratio :: "jsnum \<Rightarrow> jsnum \<Rightarrow> jsnum" where
  "ratio v whole = (if lit 0 < whole then v / whole else lit 0)"

definition percent :: "jsnum \<Rightarrow> str" where
  "percent v = (toFixed (v * lit 100) 2 @ u ''%'')"

definition signedPercent :: "jsnum \<Rightarrow> str" where
  "signedPercent v = (if Math_abs v < lit (5 / 100000) then (u ''0.00%'')
     else ((if lit 0 < v then (ue ''~2212'') else (u ''+'')) @ toFixed (Math_abs (v * lit 100)) 2 @ u ''%''))"

definition formatPPM :: "host \<Rightarrow> jsnum \<Rightarrow> str" where
  "formatPPM h v = number_locale h (Some (if lit 100 \<le> v then 0 else 2)) v"

definition compactPPM :: "host \<Rightarrow> jsnum \<Rightarrow> str" where
  "compactPPM h v = (if lit 1000 \<le> v then (toFixed (v / lit 1000) (if lit 10000 \<le> v then 0 else 1) @ u ''k'') else formatPPM h v)"

definition compactCount :: "host \<Rightarrow> jsnum \<Rightarrow> str" where
  "compactCount h v = (if lit 1000 \<le> v then (toFixed (v / lit 1000) (if lit 10000 \<le> v then 1 else 2) @ u ''k'') else number_locale h None v)"

definition shortObjectKey :: "str \<Rightarrow> str" where
  "shortObjectKey s = (let part = rev (takeWhile (\<lambda>c. c \<noteq> 47) (rev s)) in if part \<noteq> [] then part else s)"

section \<open>Merged rows, exactly\<close>

text \<open>The last of a list of points, if there is one.\<close>

definition last_value :: "telemetry_point list \<Rightarrow> jsnum option" where
  "last_value ps = (if ps = [] then None else Some (tpt_value (last ps)))"

text \<open>The points in the order they are read, each with the key of its series.\<close>

definition tagged :: "Telemetry option \<Rightarrow> str list \<Rightarrow> (str \<times> telemetry_point) list" where
  "tagged telemetry keys = concat (map (\<lambda>key. map (Pair key) (series_of telemetry key)) keys)"

definition hits :: "(str \<times> telemetry_point) list \<Rightarrow> str \<Rightarrow> jsnum \<Rightarrow> telemetry_point list" where
  "hits es key t = map snd (filter (\<lambda>e. fst e = key \<and> tpt_timestamp (snd e) = t) es)"

lemma hits_snoc: "hits (es @ [(k, p)]) key t = hits es key t @ (if k = key \<and> tpt_timestamp p = t then [p] else [])"
  by (simp add: hits_def)

lemma merged_fold: "merged_rows telemetry keys = fold (\<lambda>(key, p). merge_point key p) (tagged telemetry keys) []"
proof -
  have "fold (\<lambda>key. fold (merge_point key) (series_of telemetry key)) keys m = fold (\<lambda>(key, p). merge_point key p) (tagged telemetry keys) m" for m
    by (induction keys arbitrary: m) (simp_all add: tagged_def fold_map comp_def)
  then show ?thesis by (simp add: merged_rows_def)
qed

lemma hits_tagged: "distinct keys \<Longrightarrow> key \<in> set keys \<Longrightarrow>
   hits (tagged telemetry keys) key t = filter (\<lambda>p. tpt_timestamp p = t) (series_of telemetry key)"
proof (induction keys)
  case (Cons k ks)
  have none: "hits (tagged telemetry ks) k t = []" if "k \<notin> set ks" for ks k
    using that by (auto simp: hits_def tagged_def filter_empty_conv)
  have "hits (tagged telemetry (k # ks)) key t = hits (map (Pair k) (series_of telemetry k)) key t @ hits (tagged telemetry ks) key t"
    by (simp add: hits_def tagged_def)
  moreover have "hits (map (Pair k) ps) key t = (if k = key then filter (\<lambda>p. tpt_timestamp p = t) ps else [])" for ps
    by (induction ps) (auto simp: hits_def)
  ultimately show ?case using Cons none by auto
qed simp

text \<open>What the map of rows holds after some of the points.\<close>

definition rows_ok :: "(str \<times> telemetry_point) list \<Rightarrow> (jsnum \<times> series_row) list \<Rightarrow> bool" where
  "rows_ok es m \<longleftrightarrow> distinct (map fst m) \<and> fst ` set m = (tpt_timestamp \<circ> snd) ` set es \<and>
     (\<forall>t row. map_of m t = Some row \<longrightarrow> map_of row (u ''timestamp'') = Some t \<and>
        (\<forall>key. key \<noteq> u ''timestamp'' \<longrightarrow> map_of row key = last_value (hits es key t)))"

lemma rows_ok_step:
  assumes "rows_ok es m" "tpt_timestamp p \<noteq> NegZero" "k \<noteq> u ''timestamp''"
  shows "rows_ok (es @ [(k, p)]) (merge_point k p m)"
proof -
  let ?t = "tpt_timestamp p" and ?m = "merge_point k p m"
  have k: "map_key ?t = ?t" using assms(2) by (simp add: map_key_def)
  have none: "hits es key ?t = []" if "map_of m ?t = None" for key
    using assms(1) that by (auto simp: rows_ok_def hits_def filter_empty_conv map_of_eq_None_iff image_iff)
  have row: "map_of row (u ''timestamp'') = Some t \<and> (\<forall>key. key \<noteq> u ''timestamp'' \<longrightarrow> map_of row key = last_value (hits (es @ [(k, p)]) key t))"
    if "map_of ?m t = Some row" for t row
  proof (cases "t = ?t")
    case False
    then have "map_of m t = Some row" using that by (simp add: merge_point_def put_get k)
    then show ?thesis using assms(1) False by (auto simp: rows_ok_def hits_snoc)
  next
    case True
    let ?r = "nullish (map_of m ?t) [(u ''timestamp'', ?t)]"
    have r: "row = AList.update k (tpt_value p) ?r" using that True by (simp add: merge_point_def put_get k)
    have "map_of ?r (u ''timestamp'') = Some ?t \<and> (\<forall>key. key \<noteq> u ''timestamp'' \<longrightarrow> map_of ?r key = last_value (hits es key ?t))"
      using assms(1) none by (cases "map_of m ?t") (auto simp: rows_ok_def last_value_def)
    then show ?thesis using assms(3) True unfolding r by (auto simp: update_conv' hits_snoc last_value_def)
  qed
  moreover have "distinct (map fst ?m)" "fst ` set ?m = (tpt_timestamp \<circ> snd) ` set (es @ [(k, p)])"
    using assms(1) by (auto simp: rows_ok_def merge_point_def put_keys k)
  ultimately show ?thesis unfolding rows_ok_def by blast
qed

lemma rows_ok_all:
  assumes "list_all (\<lambda>e. tpt_timestamp (snd e) \<noteq> NegZero \<and> fst e \<noteq> u ''timestamp'') es"
  shows "rows_ok es (fold (\<lambda>(key, p). merge_point key p) es [])"
  using assms
proof (induction es rule: rev_induct)
  case Nil
  then show ?case by (simp add: rows_ok_def)
next
  case (snoc e es)
  then show ?case by (cases e) (auto intro!: rows_ok_step)
qed

definition series_ok :: "Telemetry option \<Rightarrow> str list \<Rightarrow> bool" where
  "series_ok telemetry keys = (distinct keys \<and> u ''timestamp'' \<notin> set keys \<and>
     list_all (\<lambda>key. list_all (\<lambda>p. num_ok (tpt_timestamp p) \<and> tpt_timestamp p \<noteq> NegZero) (series_of telemetry key)) keys)"

lemma merged_rows_ok: "series_ok telemetry keys \<Longrightarrow> rows_ok (tagged telemetry keys) (merged_rows telemetry keys)"
  unfolding merged_fold by (rule rows_ok_all) (auto simp: series_ok_def tagged_def list_all_iff)

lemma merged_row:
  assumes "series_ok telemetry keys" "(t, row) \<in> set (merged_rows telemetry keys)"
  shows "row_num row (u ''timestamp'') = t \<and> num_ok t \<and> t \<noteq> NegZero"
proof -
  have ok: "rows_ok (tagged telemetry keys) (merged_rows telemetry keys)" by (rule merged_rows_ok [OF assms(1)])
  then have "map_of (merged_rows telemetry keys) t = Some row" using assms(2) by (simp add: rows_ok_def)
  then have r: "row_num row (u ''timestamp'') = t" using ok by (simp add: rows_ok_def row_num_def)
  have "t \<in> (tpt_timestamp \<circ> snd) ` set (tagged telemetry keys)" 
    using ok imageI [OF assms(2), of fst] by (simp only: rows_ok_def fst_conv)
  then obtain key p where "t = tpt_timestamp p" "key \<in> set keys" "p \<in> set (series_of telemetry key)" by (auto simp: tagged_def)
  then have "num_ok t \<and> t \<noteq> NegZero" using assms(1) unfolding series_ok_def list_all_iff by metis
  then show ?thesis using r by blast
qed

lemma merged_timestamps: "series_ok telemetry keys \<Longrightarrow>
   map (\<lambda>row. row_num row (u ''timestamp'')) (map snd (merged_rows telemetry keys)) = map fst (merged_rows telemetry keys)"
  using merged_row by fastforce

lemma val_inj: "num_ok x \<Longrightarrow> num_ok y \<Longrightarrow> x \<noteq> NegZero \<Longrightarrow> y \<noteq> NegZero \<Longrightarrow> val x = val y \<Longrightarrow> x = y"
  by (cases x; cases y) (auto simp: num_ok_def)

lemma sorted_distinct_less: "sorted xs \<Longrightarrow> distinct xs \<Longrightarrow> sorted_wrt (<) (xs :: rat list)"
  by (simp add: strict_sorted_iff)

text \<open>
  C28. With finite timestamps the merged series is one row for each timestamp of any of the series,
  in increasing order, and in every row the value of a series is the last one it has at that
  timestamp, missing when it has none.
\<close>

theorem merged_series_exact:
  fixes telemetry :: "Telemetry option" and keys :: "str list"
  assumes "series_ok telemetry keys"
  defines "rows \<equiv> mergedSeries telemetry keys" and "stamp \<equiv> \<lambda>row. row_num row (u ''timestamp'')"
  shows "sorted_wrt (<) (map (\<lambda>row. val (stamp row)) rows) \<and>
    stamp ` set rows = (\<Union>key\<in>set keys. tpt_timestamp ` set (series_of telemetry key)) \<and>
    (\<forall>row\<in>set rows. \<forall>key\<in>set keys.
       map_of row key = last_value (filter (\<lambda>p. tpt_timestamp p = stamp row) (series_of telemetry key)))"
proof -
  let ?m = "merged_rows telemetry keys"
  have ok: "rows_ok (tagged telemetry keys) ?m" by (rule merged_rows_ok [OF assms(1)])
  have stamps: "map stamp (map snd ?m) = map fst ?m" unfolding stamp_def by (rule merged_timestamps [OF assms(1)])
  have num: "\<forall>row\<in>set (map snd ?m). num_ok (stamp row) \<and> stamp row \<noteq> NegZero" using merged_row [OF assms(1)] by (auto simp: stamp_def)
  have perm: "set rows = set (map snd ?m)" "mset rows = mset (map snd ?m)" by (simp_all add: rows_def mergedSeries_def)
  have "distinct (map stamp rows)"
  proof -
    have "mset (map stamp rows) = mset (map stamp (map snd ?m))" using perm(2) by (metis mset_map)
    then have "mset (map stamp rows) = mset (map fst ?m)" using stamps by (simp only:)
    moreover have "distinct (map fst ?m)" using ok by (simp add: rows_ok_def)
    ultimately show ?thesis using mset_eq_imp_distinct_iff [of "map stamp rows" "map fst ?m"] by blast
  qed
  then have "distinct (map (\<lambda>row. val (stamp row)) rows)"
    using num perm(1) val_inj by (auto simp: distinct_map inj_on_def)
  moreover have "sorted (map (\<lambda>row. val (stamp row)) rows)"
    unfolding rows_def mergedSeries_def stamp_def by (rule js_asc_sorted) (use num in \<open>auto simp: stamp_def\<close>)
  ultimately have "sorted_wrt (<) (map (\<lambda>row. val (stamp row)) rows)" by (rule sorted_distinct_less [rotated])
  moreover have "stamp ` set rows = (\<Union>key\<in>set keys. tpt_timestamp ` set (series_of telemetry key))"
  proof -
    have "stamp ` set rows = set (map stamp (map snd ?m))" using perm(1) by (simp only: set_map)
    also have "\<dots> = fst ` set ?m" unfolding stamps by simp
    also have "\<dots> = (\<Union>key\<in>set keys. tpt_timestamp ` set (series_of telemetry key))"
      using ok by (simp add: rows_ok_def tagged_def image_UN image_image)
    finally show ?thesis .
  qed
  moreover have "map_of row key = last_value (filter (\<lambda>p. tpt_timestamp p = stamp row) (series_of telemetry key))"
    if row: "row \<in> set rows" and key: "key \<in> set keys" for row key
  proof -
    obtain t where t: "(t, row) \<in> set ?m" using row perm(1) by auto
    then have "stamp row = t" using merged_row [OF assms(1)] by (simp add: stamp_def)
    moreover have "map_of ?m t = Some row" using ok t by (simp add: rows_ok_def)
    moreover have "key \<noteq> u ''timestamp''" using key assms(1) by (auto simp: series_ok_def)
    ultimately show ?thesis using ok hits_tagged [of keys key telemetry t] key assms(1) by (simp add: rows_ok_def series_ok_def)
  qed
  ultimately show ?thesis by blast
qed

definition sample_telemetry :: Telemetry where
  "sample_telemetry = [(u ''a'', [\<lparr>tpt_timestamp = lit 9, tpt_value = lit 1, tpt_labels = None\<rparr>, \<lparr>tpt_timestamp = lit 7, tpt_value = lit 2, tpt_labels = None\<rparr>]),
     (u ''b'', [\<lparr>tpt_timestamp = lit 9, tpt_value = lit 3, tpt_labels = None\<rparr>, \<lparr>tpt_timestamp = lit 9, tpt_value = lit 4, tpt_labels = None\<rparr>])]"

theorem merged_series_exact_witness:
  "\<exists>row. row \<in> set (mergedSeries (Some sample_telemetry) [u ''a'', u ''b'']) \<and> row_num row (u ''timestamp'') = lit 9 \<and>
     map_of row (u ''a'') = Some (lit 1) \<and> map_of row (u ''b'') = Some (lit 4)"
proof -
  have s: "series_of (Some sample_telemetry) (u ''a'') = [\<lparr>tpt_timestamp = lit 9, tpt_value = lit 1, tpt_labels = None\<rparr>, \<lparr>tpt_timestamp = lit 7, tpt_value = lit 2, tpt_labels = None\<rparr>]"
    "series_of (Some sample_telemetry) (u ''b'') = [\<lparr>tpt_timestamp = lit 9, tpt_value = lit 3, tpt_labels = None\<rparr>, \<lparr>tpt_timestamp = lit 9, tpt_value = lit 4, tpt_labels = None\<rparr>]"
    by (simp_all add: series_of_def sample_telemetry_def)
  have "num_ok (lit 9)" "num_ok (lit 7)" using int_num_ok [of 9] int_num_ok [of 7] by (simp_all add: int_num_def)
  then have ok: "series_ok (Some sample_telemetry) [u ''a'', u ''b'']" by (simp add: series_ok_def s)
  note ex = merged_series_exact [OF ok]
  have "lit 9 \<in> (\<lambda>row. row_num row (u ''timestamp'')) ` set (mergedSeries (Some sample_telemetry) [u ''a'', u ''b''])"
    using ex by (simp add: s)
  then obtain row where "row \<in> set (mergedSeries (Some sample_telemetry) [u ''a'', u ''b''])" "row_num row (u ''timestamp'') = lit 9" by auto
  then show ?thesis using ex by (intro exI [of _ row]) (simp add: s last_value_def)
qed

section \<open>Counting\<close>

lemma length_filter_sum: "length (filter P xs) = (\<Sum>x\<leftarrow>xs. of_bool (P x))"
  by (induction xs) auto

lemma sum_of_counts: "(\<Sum>i<n. length (filter (P i) xs)) = (\<Sum>x\<leftarrow>xs. \<Sum>i<n. of_bool (P i x))"
  unfolding length_filter_sum by (induction xs) (simp_all add: sum.distrib)

text \<open>Intervals that follow one another: the indicators telescope.\<close>

lemma telescope_bool:
  fixes b :: "nat \<Rightarrow> bool"
  assumes "\<And>i. i < n \<Longrightarrow> b (Suc i) \<Longrightarrow> b i"
  shows "(\<Sum>i<n. of_bool (b i \<and> \<not> b (Suc i))) + of_bool (b n) = (of_bool (b 0) :: nat)"
  using assms
proof (induction n)
  case (Suc n)
  have "(\<Sum>i<n. of_bool (b i \<and> \<not> b (Suc i))) + of_bool (b n) = (of_bool (b 0) :: nat)" using Suc.prems by (intro Suc.IH) auto
  moreover have "of_bool (b n \<and> \<not> b (Suc n)) + of_bool (b (Suc n)) = (of_bool (b n) :: nat)" using Suc.prems [of n] by auto
  ultimately show ?case by simp
qed simp

text \<open>Buckets with rising bounds of which the last is infinite.\<close>

definition buckets_ok :: "(str \<times> jsnum) list \<Rightarrow> bool" where
  "buckets_ok bs = (bs \<noteq> [] \<and> snd (last bs) = PInf \<and> list_all (\<lambda>b. snd b \<noteq> NaN) bs \<and> sorted_wrt (\<lambda>a b. snd a \<le> snd b) bs)"

lemma buckets_partition:
  assumes "buckets_ok bs"
  shows "(\<Sum>b\<leftarrow>bucket_counts bs xs. snd b) = length (filter (\<lambda>v. v \<noteq> NaN \<and> v \<noteq> NInf) xs)"
proof -
  let ?n = "length bs"
  have one: "(\<Sum>i<?n. of_bool (in_bucket bs i v)) = (of_bool (v \<noteq> NaN \<and> v \<noteq> NInf) :: nat)" for v
  proof (cases "v = NaN")
    case True
    then show ?thesis by (simp add: in_bucket_def)
  next
    case False
    let ?b = "\<lambda>i. bucket_lower bs i < v"
    have up: "v \<le> snd (bs ! i) \<longleftrightarrow> \<not> ?b (Suc i)" if "i < ?n" for i
      using assms that False num_not_less [of "snd (bs ! i)" v] by (simp add: bucket_lower_def buckets_ok_def list_all_length)
    have mono: "?b i" if "i < ?n" "?b (Suc i)" for i
    proof (cases i)
      case 0
      then show ?thesis using False that by (cases v) (auto simp: bucket_lower_def)
    next
      case (Suc j)
      then have "snd (bs ! j) \<le> snd (bs ! i)" using assms that by (auto simp: buckets_ok_def sorted_wrt_iff_nth_less)
      then show ?thesis using that Suc num_le_less_trans by (simp add: bucket_lower_def)
    qed
    have "bucket_lower bs ?n = PInf" using assms last_conv_nth [of bs] by (simp add: buckets_ok_def bucket_lower_def)
    then have last: "\<not> ?b ?n" by simp
    have "(\<Sum>i<?n. of_bool (in_bucket bs i v)) = (\<Sum>i<?n. of_bool (?b i \<and> \<not> ?b (Suc i)) :: nat)"
      by (intro sum.cong) (auto simp: in_bucket_def up)
    also have "\<dots> = of_bool (?b 0)" using telescope_bool [of ?n ?b] mono last by simp
    also have "?b 0 \<longleftrightarrow> v \<noteq> NInf" using False by (cases v) (auto simp: bucket_lower_def)
    finally show ?thesis using False by simp
  qed
  have "(\<Sum>b\<leftarrow>bucket_counts bs xs. snd b) = (\<Sum>i<?n. length (filter (in_bucket bs i) xs))"
    by (simp add: bucket_counts_def comp_def interv_sum_list_conv_sum_set_nat atLeast0LessThan)
  then show ?thesis by (simp only: sum_of_counts one, simp only: length_filter_sum)
qed

lemma fixed_buckets_ok: "buckets_ok SCATTER_BUCKETS" "buckets_ok BOUNDARY_BUCKETS"
  by (simp_all add: buckets_ok_def SCATTER_BUCKETS_def BOUNDARY_BUCKETS_def)

text \<open>
  Both fixed histograms count every value exactly once, whatever the values: the counts add
  up to the number of values other than NaN and negative infinity.
\<close>

theorem fixed_buckets_partition:
  "(\<Sum>b\<leftarrow>bucket_counts SCATTER_BUCKETS values. snd b) = length (filter (\<lambda>v. v \<noteq> NaN \<and> v \<noteq> NInf) values) \<and>
   (\<Sum>b\<leftarrow>bucket_counts BOUNDARY_BUCKETS values. snd b) = length (filter (\<lambda>v. v \<noteq> NaN \<and> v \<noteq> NInf) values)"
  using buckets_partition fixed_buckets_ok by blast

section \<open>The quantile at one half\<close>

lemma mk_half: "\<bar>i\<bar> \<le> 2 ^ 53 \<Longrightarrow> i \<noteq> 0 \<Longrightarrow> mk s (of_int i / 2) = Fin (of_int i / 2)"
proof (rule mk_exact)
  assume i: "\<bar>i\<bar> \<le> 2 ^ 53" "i \<noteq> 0"
  have "of_int i / 2 = (of_int i * 2 powi (- 1) :: rat)" by (simp add: power_int_minus)
  then show "round64 (of_int i / 2) = (of_int i / 2 :: rat)"
    using i(1) by (intro round64_representable) (unfold representable_def, intro exI [of _ i] exI [of _ "- 1"], simp)
  show "\<bar>of_int i / 2 :: rat\<bar> < 2 ^ 1024"
  proof (rule small_lt_overflow)
    have "(of_int \<bar>i\<bar> :: rat) \<le> of_int (2 ^ 53)" using i(1) by (simp only: of_int_le_iff)
    then show "\<bar>of_int i / 2 :: rat\<bar> \<le> 2 ^ 53" by simp
  qed
  show "of_int i / 2 \<noteq> (0 :: rat)" using i(2) by simp
qed

definition half_num :: "int \<Rightarrow> jsnum" where
  "half_num i = Fin (of_int i / 2)"

lemma half_mult: "\<bar>i\<bar> \<le> 2 ^ 53 \<Longrightarrow> 0 \<le> i \<Longrightarrow> int_num i * half_num 1 = half_num i"
  using mk_half [of i] by (cases "i = 0") (auto simp: half_num_def int_num_def finite_mult zero_of_def)

lemma half_add: "0 \<le> i \<Longrightarrow> 0 \<le> j \<Longrightarrow> i + j \<le> 2 ^ 53 \<Longrightarrow> half_num i + half_num j = int_num (i + j) / lit 2"
proof -
  assume ij: "0 \<le> i" "0 \<le> j" "i + j \<le> 2 ^ 53"
  have e: "of_int i / 2 + of_int j / 2 = (of_int (i + j) / 2 :: rat)" by simp
  show ?thesis
  proof (cases "i + j = 0")
    case True
    then have "i = 0" "j = 0" using ij by auto
    then show ?thesis by (simp add: half_num_def int_num_def finite_add finite_divide zero_of_def)
  next
    case False
    then have n: "half_num i + half_num j = half_num (i + j)"
      using ij mk_half [of "i + j"] unfolding half_num_def by (subst finite_add) (simp_all add: e del: of_int_add)
    show ?thesis using False ij mk_half [of "i + j"] unfolding n by (simp add: finite_divide half_num_def del: of_int_add)
  qed
qed

lemma quantile_half:
  assumes "xs = map int_num is" "is \<noteq> []" "list_all (\<lambda>i. 0 \<le> i \<and> i \<le> 2 ^ 52) is" "length is \<le> 2 ^ 52"
  shows "quantile xs (lit (5 / 10)) = median_of xs"
proof -
  let ?n = "length is"
  have l: "length xs = ?n" "xs \<noteq> []" "0 < ?n" using assms(1,2) by simp_all
  have half: "lit (5 / 10) = half_num 1" by code_simp
  have at: "arr_num xs (int_num (int k)) = int_num (is ! k)" if "k < ?n" for k
    using that assms(1) by (simp add: arr_num_def arr_idx_def isInteger_def) (simp add: int_num_def nat_of_jsnum_def)
  have b: "0 \<le> is ! k \<and> is ! k \<le> 2 ^ 52" if "k < ?n" for k using assms(3) that by (simp add: list_all_length)
  have p: "lit (5 / 10) * jsnum_of_nat (?n - 1) = half_num (int (?n - 1))"
    using half_mult [of "int (?n - 1)"] assms(4) unfolding half by (simp add: int_num_nat) (simp add: half_num_def int_num_def finite_mult)
  have fl: "Math_floor (half_num j) = int_num (j div 2)" for j
    by (simp add: half_num_def Math_floor_def int_num_def floor_divide_of_int_eq [of j 2, simplified])
  show ?thesis
  proof (cases "even ?n")
    case True
    then obtain k where k: "?n = 2 * Suc k" using l(3) by (metis dvdE gr0_implies_Suc mult_is_0 not_gr_zero)
    have ce: "Math_ceil (half_num (int (?n - 1))) = int_num (int (Suc k))"
    proof -
      have "\<lceil>of_int (int (?n - 1)) / 2 :: rat\<rceil> = int (Suc k)" using k by (intro ceiling_unique) simp_all
      then show ?thesis by (simp add: half_num_def Math_ceil_def int_num_def)
    qed
    have dv: "int (?n - 1) div 2 = int k" using k by simp
    have w: "int_num (int (Suc k)) - half_num (int (?n - 1)) = half_num 1" "half_num (int (?n - 1)) - int_num (int k) = half_num 1"
      using mk_half [of 1] k by (simp_all add: half_num_def int_num_def finite_sub field_simps)
    have "quantile xs (lit (5 / 10)) = int_num (is ! k) * half_num 1 + int_num (is ! Suc k) * half_num 1"
      unfolding quantile_def Let_def l(1) p fl ce dv w using l(2) k at [of k] at [of "Suc k"] by simp
    also have "\<dots> = int_num (is ! k + is ! Suc k) / lit 2"
      using b [of k] b [of "Suc k"] k by (simp add: half_mult half_add)
    also have "\<dots> = median_of xs"
      using k b [of k] b [of "Suc k"] assms(1) by (simp add: median_of_def int_num_add)
    finally show ?thesis .
  next
    case False
    then obtain k where k: "?n = Suc (2 * k)" by (metis oddE Suc_eq_plus1)
    have ce: "Math_ceil (half_num (int (?n - 1))) = int_num (int k)" using k by (simp add: half_num_def Math_ceil_def int_num_def)
    have dv: "int (?n - 1) div 2 = int k" using k by simp
    show ?thesis unfolding quantile_def Let_def l(1) p fl ce dv using l(2) k at [of k] assms(1) by (simp add: median_of_def)
  qed
qed

end
