(* ===== verification/HopSilver.thy ===== *)
theory HopSilver
  imports HopStats
begin

text \<open>
  The chart of the Silver hops
  (\<open>hop-charts/SilverMaterializationChart.tsx\<close>): figures of the encoded artifacts, the timelines of
  outcomes and of stored bytes, the histograms of sizes and row counts, the funnel of verified
  objects and the classes of failures. Shown: the timelines and histograms lose and invent no
  artifact, and the split of the stored bytes by product ignores the two series meant for it.
\<close>

section \<open>Texts\<close>

definition silver_formatBytes :: "jsnum \<Rightarrow> str" where
  "silver_formatBytes v = (if \<not> isFinite v \<or> v \<le> lit 0 then (u ''0 B'')
     else if v < lit (1024 ^ 2) then (toFixed (v / lit 1024) 1 @ u '' KiB'')
     else if v < lit (1024 ^ 3) then (toFixed (v / lit (1024 ^ 2)) 2 @ u '' MiB'')
     else (toFixed (v / lit (1024 ^ 3)) 2 @ u '' GiB''))"

definition formatDuration :: "jsnum \<Rightarrow> str" where
  "formatDuration milliseconds = (if milliseconds < lit 1000 then (toFixed milliseconds 0 @ u '' ms'')
     else (toFixed (milliseconds / lit 1000) 2 @ u '' s''))"

definition formatBucketValue :: "host \<Rightarrow> jsnum \<Rightarrow> str" where
  "formatBucketValue h v = number_locale h (Some (if v < lit 10 then 1 else 0)) v"

definition compactRows :: "host \<Rightarrow> jsnum \<Rightarrow> str" where
  "compactRows h v = (if lit 1000 \<le> v
     then (toFixed (v / lit 1000) (if num_eq (v mod lit 1000) (lit 0) then 0 else 1) @ u ''k'') else number_locale h None v)"

definition compactReason :: "str \<Rightarrow> str" where
  "compactReason v = (let normalized = toLowerCase v in
     if str_includes normalized (u ''recordbatch'') then (u ''Arrow RecordBatch'')
     else if str_includes normalized (u ''finalize'') then (u ''Parquet finalize'')
     else if str_includes normalized (u ''hash'') then (u ''Local checksum'')
     else if str_includes normalized (u ''parquet'') then (u ''Parquet writer'')
     else (u ''Local encode''))"

datatype product_focus = Lightcurve | Target_pixel

definition matchesKind :: "str \<Rightarrow> product_focus \<Rightarrow> bool" where
  "matchesKind v focus = (let normalized = map (\<lambda>c. if c = 45 then 95 else c) (toLowerCase v) in
     case focus of Lightcurve \<Rightarrow> normalized = u ''lightcurve'' \<or> normalized = u ''light_curve''
     | Target_pixel \<Rightarrow> normalized = u ''target_pixel'' \<or> normalized = u ''targetpixel'')"

text \<open>Steps of the axes: 1, 2, 5 or 10 times a power of ten. The logarithm is a parameter.\<close>

definition nice_factor :: "mathlib \<Rightarrow> (jsnum \<Rightarrow> jsnum) \<Rightarrow> jsnum \<Rightarrow> jsnum" where
  "nice_factor m mlog10 v =
     (let magnitude = Math_pow m (lit 10) (Math_floor (mlog10 v)); normalized = v / magnitude;
          factor = (if normalized \<le> lit 1 then lit 1 else if normalized \<le> lit 2 then lit 2 else if normalized \<le> lit 5 then lit 5 else lit 10)
      in factor * magnitude)"

definition niceRowStep :: "mathlib \<Rightarrow> (jsnum \<Rightarrow> jsnum) \<Rightarrow> jsnum \<Rightarrow> jsnum" where
  "niceRowStep m mlog10 v = nice_factor m mlog10 v"

definition niceDecimalStep :: "mathlib \<Rightarrow> (jsnum \<Rightarrow> jsnum) \<Rightarrow> jsnum \<Rightarrow> jsnum" where
  "niceDecimalStep m mlog10 v = (if \<not> isFinite v \<or> v \<le> lit 0 then lit 1 else nice_factor m mlog10 v)"

section \<open>Timelines\<close>

text \<open>Counts of array elements, below \<open>2^53\<close>, are natural numbers.\<close>

record outcome_row =
  or_timestamp :: jsnum
  or_encoded :: nat
  or_failed :: nat
  or_recovered :: nat

definition bucket_ms :: "rat \<Rightarrow> jsnum list \<Rightarrow> jsnum" where
  "bucket_ms parts timestamps =
     (let range = Math_max_list timestamps - Math_min_list timestamps
      in Math_max (lit 60000) (Math_ceil (range / lit parts / lit 60000) * lit 60000))"

definition silver_bucket_start :: "jsnum \<Rightarrow> jsnum \<Rightarrow> jsnum" where
  "silver_bucket_start bucketMS milliseconds = Math_floor (milliseconds / bucketMS) * bucketMS"

text \<open>
  The row of a bucket carries its start in seconds; the row is made when the bucket is first met, so
  the start belongs to the key.
\<close>

definition put_outcome :: "jsnum \<Rightarrow> (outcome_row \<Rightarrow> outcome_row) \<Rightarrow> (jsnum \<times> outcome_row) list \<Rightarrow> (jsnum \<times> outcome_row) list" where
  "put_outcome key f = put \<lparr>or_timestamp = key / lit 1000, or_encoded = 0, or_failed = 0, or_recovered = 0\<rparr> f (map_key key)"

definition count_failure :: "bool \<Rightarrow> outcome_row \<Rightarrow> outcome_row" where
  "count_failure recovered r = (if recovered then r\<lparr>or_recovered := or_recovered r + 1\<rparr> else r\<lparr>or_failed := or_failed r + 1\<rparr>)"

definition outcome_buckets :: "host \<Rightarrow> jsnum \<Rightarrow> materialization_point list \<Rightarrow> encode_failure list \<Rightarrow> (jsnum \<times> outcome_row) list" where
  "outcome_buckets h bucketMS points failures =
     fold (\<lambda>failure. put_outcome (silver_bucket_start bucketMS (date_parse h (enf_occurred_at failure))) (count_failure (enf_recovered failure))) failures
       (fold (\<lambda>point. put_outcome (silver_bucket_start bucketMS (date_parse h (mzp_completed_at point))) (\<lambda>r. r\<lparr>or_encoded := or_encoded r + 1\<rparr>)) points [])"

definition buildTimeline :: "host \<Rightarrow> jsnum \<Rightarrow> materialization_point list \<Rightarrow> encode_failure list \<Rightarrow> outcome_row list" where
  "buildTimeline h date_now points failures =
     (let timestamps = filter isFinite (map (\<lambda>p. date_parse h (mzp_completed_at p)) points @ map (\<lambda>f. date_parse h (enf_occurred_at f)) failures)
      in if timestamps = [] then [\<lparr>or_timestamp = date_now / lit 1000, or_encoded = length points,
             or_failed = length (filter (\<lambda>f. \<not> enf_recovered f) failures), or_recovered = length (filter enf_recovered failures)\<rparr>]
         else sort_by (js_asc or_timestamp) (map snd (outcome_buckets h (bucket_ms 12 timestamps) points failures)))"

record bytes_row =
  br_timestamp :: jsnum
  br_lightcurveMiB :: jsnum
  br_targetPixelMiB :: jsnum

definition add_bytes :: "materialization_point \<Rightarrow> bytes_row \<Rightarrow> bytes_row" where
  "add_bytes point r =
     (let sizeMiB = mzp_size_bytes point / lit (1024 ^ 2)
      in if matchesKind (mzp_product_kind point) Target_pixel then r\<lparr>br_targetPixelMiB := br_targetPixelMiB r + sizeMiB\<rparr>
         else if matchesKind (mzp_product_kind point) Lightcurve then r\<lparr>br_lightcurveMiB := br_lightcurveMiB r + sizeMiB\<rparr> else r)"

definition buildVerificationTimeline :: "host \<Rightarrow> materialization_point list \<Rightarrow> bytes_row list" where
  "buildVerificationTimeline h points =
     (let timestamps = filter isFinite (map (\<lambda>p. date_parse h (mzp_completed_at p)) points)
      in if timestamps = [] then []
         else let bucketMS = bucket_ms 20 timestamps;
                  buckets = fold (\<lambda>point m. let milliseconds = date_parse h (mzp_completed_at point) in
                      if \<not> isFinite milliseconds then m
                      else let key = silver_bucket_start bucketMS milliseconds
                        in put \<lparr>br_timestamp = key / lit 1000, br_lightcurveMiB = lit 0, br_targetPixelMiB = lit 0\<rparr> (add_bytes point) (map_key key) m)
                    points []
              in sort_by (js_asc br_timestamp) (map snd buckets))"

section \<open>Histograms\<close>

record size_histogram =
  sh_bars :: "(str \<times> nat) list"
  sh_mebibytes :: bool

text \<open>
  The counts of the bars. Outside the array \<open>histogram[index].artifacts += 1\<close> would throw; \<open>None\<close>
  stands for that.
\<close>

definition count_bar :: "nat list option \<Rightarrow> jsnum \<Rightarrow> nat list option" where
  "count_bar acc index = (case acc of None \<Rightarrow> None | Some counts \<Rightarrow>
     (case arr_idx counts index of None \<Rightarrow> None
      | Some n \<Rightarrow> Some (counts[nat_of_jsnum index := n + 1])))"

definition bar_index :: "jsnum \<Rightarrow> jsnum \<Rightarrow> jsnum \<Rightarrow> jsnum \<Rightarrow> jsnum" where
  "bar_index bucketCount origin step v = Math_min (bucketCount - lit 1) (Math_max (lit 0) (Math_floor ((v - origin) / step)))"

text \<open>The sizes in ascending order and in the unit of the chart.\<close>

definition size_values :: "materialization_point list \<Rightarrow> bool \<times> jsnum list" where
  "size_values points =
     (let sizes = sort_by (js_asc (\<lambda>x. x)) (filter (\<lambda>v. lit 0 < v) (map mzp_size_bytes points));
          mebi = (\<not> (if sizes = [] then lit 0 else last sizes) < lit (1024 ^ 2));
          divisor = (if mebi then lit (1024 ^ 2) else lit 1024)
      in (mebi, map (\<lambda>v. v / divisor) sizes))"

definition target_width :: "jsnum list \<Rightarrow> jsnum" where
  "target_width values = (last values - hd values) / lit 8"

definition bucket_count :: "jsnum \<Rightarrow> jsnum list \<Rightarrow> jsnum" where
  "bucket_count step values =
     (let origin = Math_floor (hd values / step) * step; end' = Math_ceil (last values / step) * step
      in Math_max (lit 1) (Math_round ((end' - origin) / step)))"

definition buildSizeHistogram :: "host \<Rightarrow> mathlib \<Rightarrow> (jsnum \<Rightarrow> jsnum) \<Rightarrow> materialization_point list \<Rightarrow> size_histogram option" where
  "buildSizeHistogram h m mlog10 points = (case size_values points of (mebi, values) \<Rightarrow>
     if values = [] then Some \<lparr>sh_bars = [], sh_mebibytes = mebi\<rparr>
     else if num_eq (last values) (hd values) then Some \<lparr>sh_bars = [(formatBucketValue h (hd values), length values)], sh_mebibytes = mebi\<rparr>
     else let step = niceDecimalStep m mlog10 (target_width values); origin = Math_floor (hd values / step) * step;
              bucketCount = bucket_count step values;
              label = (\<lambda>i. let index = jsnum_of_nat i in
                (formatBucketValue h (origin + index * step) @ ue ''~2013'' @ formatBucketValue h (origin + (index + lit 1) * step)))
          in map_option (\<lambda>counts. \<lparr>sh_bars = zip (map label [0..<length counts]) counts, sh_mebibytes = mebi\<rparr>)
               (foldl count_bar (Some (replicate (nat_of_jsnum bucketCount) 0)) (map (bar_index bucketCount origin step) values)))"

record RowBand =
  rb_band :: str
  rb_count :: nat
  rb_medianMiB :: jsnum
  rb_p95MiB :: jsnum
  rb_compressionP50 :: jsnum

definition row_band :: "host \<Rightarrow> jsnum \<Rightarrow> jsnum \<Rightarrow> jsnum \<times> materialization_point list \<Rightarrow> RowBand" where
  "row_band h origin step entry = (case entry of (index, values) \<Rightarrow>
     let lower = origin + index * step; upper = lower + step;
         sizesMiB = sort_by (js_asc (\<lambda>x. x)) (map (\<lambda>p. mzp_size_bytes p / lit (1024 ^ 2)) values);
         compression = sort_by (js_asc (\<lambda>x. x))
           (map (\<lambda>p. mzp_source_bytes p / mzp_size_bytes p) (filter (\<lambda>p. lit 0 < mzp_source_bytes p) values))
     in \<lparr>rb_band = (compactRows h lower @ ue ''~2013'' @ compactRows h upper), rb_count = length values,
         rb_medianMiB = quantile sizesMiB (lit (5 / 10)), rb_p95MiB = quantile sizesMiB (lit (95 / 100)),
         rb_compressionP50 = quantile compression (lit (5 / 10))\<rparr>)"

definition buildRowBands :: "host \<Rightarrow> mathlib \<Rightarrow> (jsnum \<Rightarrow> jsnum) \<Rightarrow> materialization_point list \<Rightarrow> RowBand list" where
  "buildRowBands h m mlog10 points =
     (let valid = filter (\<lambda>p. lit 0 < mzp_rows p \<and> lit 0 < mzp_size_bytes p) points
      in if valid = [] then []
         else let minimum = Math_min_list (map mzp_rows valid); maximum = Math_max_list (map mzp_rows valid);
                  step = niceRowStep m mlog10 (Math_max (lit 1) ((maximum - minimum) / lit 7));
                  origin = Math_floor (minimum / step) * step;
                  buckets = grouped [] (\<lambda>point values. values @ [point]) (\<lambda>point. map_key (Math_floor ((mzp_rows point - origin) / step))) valid []
              in map (row_band h origin step) (sort_by (js_asc fst) buckets))"

section \<open>The encoding view\<close>

definition by_focus :: "product_focus option \<Rightarrow> ('a \<Rightarrow> str) \<Rightarrow> 'a list option \<Rightarrow> 'a list" where
  "by_focus focus kind xs = filter (\<lambda>x. case focus of None \<Rightarrow> True | Some f \<Rightarrow> matchesKind (kind x) f) (nullish xs [])"

text \<open>Without a focus or without an artifact of it the chart shows the stored objects instead.\<close>

definition shows_stored :: "product_focus option \<Rightarrow> materialization_point list \<Rightarrow> bool" where
  "shows_stored focus points = (focus = None \<or> points = [])"

record silver_view =
  sv_encoded :: nat
  sv_failed :: nat
  sv_recovered :: nat
  sv_finalAttempts :: nat
  sv_successRate :: jsnum
  sv_totalBytes :: jsnum
  sv_medianSize :: jsnum
  sv_p95Size :: jsnum
  sv_durations :: "jsnum list"
  sv_medianRatio :: jsnum
  sv_rows :: jsnum

definition silverView :: "materialization_point list \<Rightarrow> encode_failure list \<Rightarrow> silver_view" where
  "silverView points failures =
     (let encoded = length points; failed = length (filter (\<lambda>f. \<not> enf_recovered f) failures);
          recovered = length (filter enf_recovered failures); finalAttempts = encoded + failed;
          asc = sort_by (js_asc (\<lambda>x. x)); sizes = asc (map mzp_size_bytes points);
          ratios = map (\<lambda>p. mzp_source_bytes p / mzp_size_bytes p) (filter (\<lambda>p. lit 0 < mzp_source_bytes p \<and> lit 0 < mzp_size_bytes p) points)
      in \<lparr>sv_encoded = encoded, sv_failed = failed, sv_recovered = recovered, sv_finalAttempts = finalAttempts,
          sv_successRate = (if 0 < finalAttempts then jsnum_of_nat encoded / jsnum_of_nat finalAttempts else lit 0),
          sv_totalBytes = foldl (\<lambda>sum p. sum + mzp_size_bytes p) (lit 0) points,
          sv_medianSize = quantile sizes (lit (5 / 10)), sv_p95Size = quantile sizes (lit (95 / 100)),
          sv_durations = asc (filter (\<lambda>v. lit 0 < v) (map mzp_encode_duration_ms points)),
          sv_medianRatio = quantile (asc ratios) (lit (5 / 10)),
          sv_rows = foldl (\<lambda>sum p. sum + mzp_rows p) (lit 0) points\<rparr>)"

record failure_row =
  fr_reason :: str
  fr_failed :: nat
  fr_recovered :: nat

definition put_failure :: "str \<Rightarrow> bool \<Rightarrow> (str \<times> failure_row) list \<Rightarrow> (str \<times> failure_row) list" where
  "put_failure reason recovered = put \<lparr>fr_reason = reason, fr_failed = 0, fr_recovered = 0\<rparr>
     (\<lambda>r. if recovered then r\<lparr>fr_recovered := fr_recovered r + 1\<rparr> else r\<lparr>fr_failed := fr_failed r + 1\<rparr>) reason"

definition failureReasons :: "encode_failure list \<Rightarrow> failure_row list" where
  "failureReasons failures = map snd (fold (\<lambda>f. put_failure (compactReason (enf_reason f)) (enf_recovered f)) failures [])"

section \<open>The stored view\<close>

definition silverFailureReasons :: "silver_failure list \<Rightarrow> failure_row list" where
  "silverFailureReasons failures = map snd (fold (\<lambda>f. put_failure
     (if svf_kind f = u ''SILVER_CONFLICT'' then (u ''Object lineage conflict'') else (u ''Object-store write / verify'')) (svf_recovered f)) failures [])"

record modality_row =
  md_kind :: str
  md_total :: jsnum
  md_verified :: jsnum
  md_incomplete :: jsnum

definition verificationModalityRow :: "str \<Rightarrow> materialization_point list \<Rightarrow> modality_row" where
  "verificationModalityRow kind points =
     (let verified = length (filter mzp_integrity_verified points)
      in \<lparr>md_kind = kind, md_total = jsnum_of_nat (length points), md_verified = jsnum_of_nat verified,
          md_incomplete = jsnum_of_nat (length points) - jsnum_of_nat verified\<rparr>)"

definition verificationAnomalies :: "materialization_point list \<Rightarrow> (str \<times> nat) list" where
  "verificationAnomalies points =
     (let missing = (\<lambda>flag. length (filter (\<lambda>p. \<not> flag p) points))
      in filter (\<lambda>row. 0 < snd row)
        [((u ''Checkpoint missing''), missing mzp_checkpoint_linked), ((u ''Size mismatch''), missing mzp_size_verified),
         ((u ''SHA binding missing/mismatch''), missing mzp_checksum_bound), ((u ''Schema missing/mismatch''), missing mzp_schema_verified),
         ((u ''Bronze lineage missing''), missing mzp_lineage_bound)])"

text \<open>Reading a figure of a merged row: a missing one counts as 0.\<close>

definition row_rate :: "series_row \<Rightarrow> string \<Rightarrow> jsnum" where
  "row_rate row key = nullish (map_of row (u key)) (lit 0)"

definition aggregate_split :: "jsnum \<Rightarrow> jsnum \<Rightarrow> series_row \<Rightarrow> bytes_row" where
  "aggregate_split lightCurves targetPixels p =
     (let totalRate = row_rate p ''silver_bytes_rate''; aggregateTotal = lightCurves + targetPixels;
          lcRatio = (if lit 0 < aggregateTotal then lightCurves / aggregateTotal else lit (5 / 10));
          tpfRatio = (if lit 0 < aggregateTotal then targetPixels / aggregateTotal else lit (5 / 10))
      in \<lparr>br_timestamp = row_num p (u ''timestamp''), br_lightcurveMiB = (totalRate * lcRatio) / (lit 1024 * lit 1024),
          br_targetPixelMiB = (totalRate * tpfRatio) / (lit 1024 * lit 1024)\<rparr>)"

definition rate_row :: "jsnum \<Rightarrow> jsnum \<Rightarrow> series_row \<Rightarrow> bytes_row" where
  "rate_row lightCurves targetPixels p =
     (let lcRate = row_rate p ''lc_silver_bytes_rate''; tpfRate = row_rate p ''tpf_silver_bytes_rate''
      in if lit 0 < lcRate \<or> lit 0 < tpfRate
         then \<lparr>br_timestamp = row_num p (u ''timestamp''), br_lightcurveMiB = lcRate / (lit 1024 * lit 1024),
                br_targetPixelMiB = tpfRate / (lit 1024 * lit 1024)\<rparr>
         else aggregate_split lightCurves targetPixels p)"

definition rate_deposition :: "jsnum \<Rightarrow> jsnum \<Rightarrow> series_row list \<Rightarrow> bytes_row list" where
  "rate_deposition lightCurves targetPixels recent =
     filter (\<lambda>p. lit 0 < br_lightcurveMiB p \<or> lit 0 < br_targetPixelMiB p) (map (rate_row lightCurves targetPixels) recent)"

definition recent_rows :: "Telemetry option \<Rightarrow> series_row list" where
  "recent_rows telemetry = mergedSeries telemetry [u ''throughput'', u ''bronze_bytes_rate'', u ''silver_bytes_rate'']"

record stored_view =
  st_lightCurves :: jsnum
  st_targetPixels :: jsnum
  st_footprintBytes :: jsnum
  st_hasActivity :: bool
  st_total :: jsnum
  st_linked :: jsnum
  st_sizeVerified :: jsnum
  st_checksumBound :: jsnum
  st_schemaVerified :: jsnum
  st_lineageBound :: jsnum
  st_verified :: jsnum
  st_retried :: nat
  st_finalUploadFailures :: nat
  st_recoveredUploadFailures :: nat
  st_p50Size :: jsnum
  st_p95Size :: jsnum
  st_modality :: "modality_row list"
  st_deposition :: "bytes_row list"
  st_anomalies :: "materialization_point list"
  st_isBaseline :: bool

definition storedView :: "host \<Rightarrow> (str \<times> jsnum) list option \<Rightarrow> Telemetry option \<Rightarrow> materialization_point list \<Rightarrow> silver_failure list \<Rightarrow> stored_view" where
  "storedView h metrics telemetry points failures =
     (let count = (\<lambda>k alt. Math_max (lit 0) (nullish (nullish2 (metric_of metrics (u k)) (metric_of metrics (u alt))) (lit 0)));
          lightCurves = count ''silver_lightcurves'' ''completed_lightcurves'';
          targetPixels = count ''silver_target_pixels'' ''completed_target_pixels'';
          footprintBytes = metric metrics ''silver_bytes''; recent = recent_rows telemetry;
          observed = filter (\<lambda>p. lit 0 < mzp_size_bytes p) points;
          total = (if observed \<noteq> [] then jsnum_of_nat (length observed) else lightCurves + targetPixels);
          finalFailures = length (filter (\<lambda>f. \<not> svf_recovered f) failures);
          failedCount = Math_max (lit 0) (nullish (metric_of metrics (u ''failed_products'')) (jsnum_of_nat finalFailures));
          verifiedCount = Math_max (lit 0) (total - failedCount);
          having = (\<lambda>flag. if observed \<noteq> [] then jsnum_of_nat (length (filter flag observed)) else verifiedCount);
          sizes = sort_by (js_asc (\<lambda>x. x)) (map mzp_size_bytes observed);
          p50Size = (if sizes \<noteq> [] then quantile sizes (lit (5 / 10))
            else if lit 0 < total \<and> lit 0 < footprintBytes then footprintBytes / total else lit 0);
          all_done = (\<lambda>kind n. \<lparr>md_kind = kind, md_total = n, md_verified = n, md_incomplete = lit 0\<rparr>)
      in \<lparr>st_lightCurves = lightCurves, st_targetPixels = targetPixels, st_footprintBytes = footprintBytes,
          st_hasActivity = list_ex (\<lambda>p. lit 0 < row_rate p ''throughput'' \<or> lit 0 < row_rate p ''silver_bytes_rate'') recent,
          st_total = total, st_linked = having mzp_checkpoint_linked, st_sizeVerified = having mzp_size_verified,
          st_checksumBound = having mzp_checksum_bound, st_schemaVerified = having mzp_schema_verified,
          st_lineageBound = having mzp_lineage_bound, st_verified = having mzp_integrity_verified,
          st_retried = length (filter (\<lambda>p. lit 1 < mzp_verification_attempts p) observed),
          st_finalUploadFailures = finalFailures, st_recoveredUploadFailures = length (filter svf_recovered failures),
          st_p50Size = p50Size, st_p95Size = (if sizes \<noteq> [] then quantile sizes (lit (95 / 100)) else p50Size),
          st_modality = filter (\<lambda>r. lit 0 < md_total r) (if observed \<noteq> []
             then [verificationModalityRow ((u ''Light curves'')) (filter (\<lambda>p. matchesKind (mzp_product_kind p) Lightcurve) observed),
                   verificationModalityRow ((u ''Target pixels'')) (filter (\<lambda>p. matchesKind (mzp_product_kind p) Target_pixel) observed)]
             else [all_done ((u ''Light curves'')) lightCurves, all_done ((u ''Target pixels'')) targetPixels]),
          st_deposition = (if observed \<noteq> [] then buildVerificationTimeline h observed else rate_deposition lightCurves targetPixels recent),
          st_anomalies = filter (\<lambda>p. \<not> mzp_integrity_verified p) observed,
          st_isBaseline = (num_eq total (lit 0) \<and> failures = [])\<rparr>)"

section \<open>Nothing lost, nothing invented\<close>

lemma sum_outcomes:
  fixes g :: "outcome_row \<Rightarrow> nat"
  assumes "distinct (map fst m)" "\<And>x r. g (f x r) = g r + d x"
    and "\<And>t. g \<lparr>or_timestamp = t, or_encoded = 0, or_failed = 0, or_recovered = 0\<rparr> = 0"
  shows "(\<Sum>e\<leftarrow>fold (\<lambda>x. put_outcome (k x) (f x)) xs m. g (snd e)) = (\<Sum>e\<leftarrow>m. g (snd e)) + (\<Sum>x\<leftarrow>xs. d x)"
  using assms(1)
proof (induction xs arbitrary: m)
  case (Cons x xs)
  have "distinct (map fst (put_outcome (k x) (f x) m))" using Cons.prems by (simp add: put_outcome_def)
  then show ?case
    using Cons.IH sum_put [of m g "f x" "d x" _ "map_key (k x)"] Cons.prems assms(2,3) by (simp add: put_outcome_def)
qed simp

lemma outcomes_distinct: "distinct (map fst m) \<Longrightarrow> distinct (map fst (fold (\<lambda>x. put_outcome (k x) (f x)) xs m))"
  by (induction xs arbitrary: m) (simp_all add: put_outcome_def)

lemma sum_rows: "(\<Sum>r\<leftarrow>sort_by le (map snd m). g r) = (\<Sum>e\<leftarrow>m. (g (snd e) :: nat))"
  using sum_list_perm [of "sort_by le (map snd m)" "map snd m" g] by (simp add: comp_def)

lemma sum_const_0: "(\<Sum>x\<leftarrow>xs. 0::nat) = 0" "(\<Sum>x\<leftarrow>xs. Suc 0) = length xs"
  by (induction xs) auto

text \<open>
  C31. The timeline of outcomes accounts for every artifact and every failure once, also those whose
  time does not parse: its columns add up to the number of artifacts, of final failures and of
  recovered ones.
\<close>

theorem timeline_conserves:
  fixes h :: host and date_now :: jsnum and points :: "materialization_point list" and failures :: "encode_failure list"
  defines "rows \<equiv> buildTimeline h date_now points failures"
  shows "(\<Sum>r\<leftarrow>rows. or_encoded r) = length points \<and>
    (\<Sum>r\<leftarrow>rows. or_failed r) = length (filter (\<lambda>f. \<not> enf_recovered f) failures) \<and>
    (\<Sum>r\<leftarrow>rows. or_recovered r) = length (filter enf_recovered failures)"
proof -
  let ?ts = "filter isFinite (map (\<lambda>p. date_parse h (mzp_completed_at p)) points @ map (\<lambda>f. date_parse h (enf_occurred_at f)) failures)"
  let ?put = "\<lambda>b f. fold (\<lambda>p. put_outcome (silver_bucket_start b (date_parse h (mzp_completed_at p))) (\<lambda>r. r\<lparr>or_encoded := or_encoded r + 1\<rparr>)) points f"
  have d: "distinct (map fst (?put b []))" for b by (rule outcomes_distinct) simp
  have sums: "(\<Sum>e\<leftarrow>outcome_buckets h b points failures. or_encoded (snd e)) = length points"
    "(\<Sum>e\<leftarrow>outcome_buckets h b points failures. or_failed (snd e)) = length (filter (\<lambda>f. \<not> enf_recovered f) failures)"
    "(\<Sum>e\<leftarrow>outcome_buckets h b points failures. or_recovered (snd e)) = length (filter enf_recovered failures)" for b
  proof -
    note f = sum_outcomes [OF d [of b], of _ "\<lambda>f. count_failure (enf_recovered f)" _ "\<lambda>f. silver_bucket_start b (date_parse h (enf_occurred_at f))" failures]
    note p = sum_outcomes [of "[]" _ "\<lambda>p r. r\<lparr>or_encoded := or_encoded r + 1\<rparr>" _ "\<lambda>p. silver_bucket_start b (date_parse h (mzp_completed_at p))" points]
    show "(\<Sum>e\<leftarrow>outcome_buckets h b points failures. or_encoded (snd e)) = length points"
      unfolding outcome_buckets_def using f [of or_encoded "\<lambda>_. 0"] p [of or_encoded "\<lambda>_. 1"] by (simp add: count_failure_def sum_const_0)
    show "(\<Sum>e\<leftarrow>outcome_buckets h b points failures. or_failed (snd e)) = length (filter (\<lambda>f. \<not> enf_recovered f) failures)"
      unfolding outcome_buckets_def using f [of or_failed "\<lambda>f. of_bool (\<not> enf_recovered f)"] p [of or_failed "\<lambda>_. 0"]
      by (simp add: count_failure_def sum_const_0 length_filter_sum)
    show "(\<Sum>e\<leftarrow>outcome_buckets h b points failures. or_recovered (snd e)) = length (filter enf_recovered failures)"
      unfolding outcome_buckets_def using f [of or_recovered "\<lambda>f. of_bool (enf_recovered f)"] p [of or_recovered "\<lambda>_. 0"]
      by (simp add: count_failure_def sum_const_0 length_filter_sum)
  qed
  show ?thesis
  proof (cases "?ts = []")
    case True
    then show ?thesis by (simp add: rows_def buildTimeline_def Let_def)
  next
    case False
    then have "rows = sort_by (js_asc or_timestamp) (map snd (outcome_buckets h (bucket_ms 12 ?ts) points failures))"
      by (simp only: rows_def buildTimeline_def Let_def if_False)
    then show ?thesis by (simp only: sum_rows sums simp_thms)
  qed
qed

text \<open>
  The bands of row counts hold every artifact with rows and bytes in exactly one band, and no
  band is empty.
\<close>

theorem row_bands_partition:
  fixes h :: host and m :: mathlib and mlog10 :: "jsnum \<Rightarrow> jsnum" and points :: "materialization_point list"
  defines "bands \<equiv> buildRowBands h m mlog10 points"
  shows "(\<Sum>b\<leftarrow>bands. rb_count b) = length (filter (\<lambda>p. lit 0 < mzp_rows p \<and> lit 0 < mzp_size_bytes p) points) \<and>
    list_all (\<lambda>b. 0 < rb_count b) bands"
proof -
  let ?v = "filter (\<lambda>p. lit 0 < mzp_rows p \<and> lit 0 < mzp_size_bytes p) points"
  have count: "rb_count (row_band h origin step e) = length (snd e)" for origin step e by (cases e) (simp add: row_band_def Let_def)
  have ne: "list_all (\<lambda>e. snd e \<noteq> []) (grouped [] (\<lambda>p vs. vs @ [p]) key xs m)" if "list_all (\<lambda>e. snd e \<noteq> []) m"
    for key :: "materialization_point \<Rightarrow> jsnum" and xs m
    using that
  proof (induction xs arbitrary: m)
    case (Cons x xs)
    have "list_all (\<lambda>e. snd e \<noteq> []) (AList.update k (ys @ [x]) m)" for k ys using Cons.prems by (induction m) auto
    then show ?case using Cons by (simp add: grouped_def put_def)
  qed (simp add: grouped_def)
  have "(\<Sum>e\<leftarrow>grouped [] (\<lambda>p vs. vs @ [p]) key ?v []. length (snd e)) = length ?v" for key :: "materialization_point \<Rightarrow> jsnum"
    using sum_grouped [of "[]" length "\<lambda>p vs. vs @ [p]" "\<lambda>_. 1" "[]" key ?v] by (simp add: sum_const_0)
  moreover have "(\<Sum>e\<leftarrow>sort_by le xs. length (snd e)) = (\<Sum>e\<leftarrow>xs. length (snd e))" for le :: "jsnum \<times> materialization_point list \<Rightarrow> _" and xs
    using sum_list_perm [of "sort_by le xs" xs "\<lambda>e. length (snd e)"] by simp
  ultimately show ?thesis
    using ne [of "[]" _ ?v] unfolding bands_def buildRowBands_def Let_def
    by (simp add: count comp_def list_all_iff del: filter_filter)
qed

text \<open>A merged row has no key but the timestamp and the series that were asked for.\<close>

lemma merge_point_keys:
  assumes "list_all (\<lambda>e. fst ` set (snd e) \<subseteq> K) m" "key \<in> K" "u ''timestamp'' \<in> K"
  shows "list_all (\<lambda>e. fst ` set (snd e) \<subseteq> K) (merge_point key p m)"
proof -
  have upd: "list_all (\<lambda>e. fst ` set (snd e) \<subseteq> K) (AList.update k v m)" if "fst ` set v \<subseteq> K" for k v
    using assms(1) that by (induction m) auto
  have "fst ` set v \<subseteq> K" if "map_of m k = Some v" for k v
    using assms(1) map_of_SomeD [OF that] unfolding list_all_iff by fastforce
  then have "fst ` set (nullish (map_of m k) [(u ''timestamp'', t)]) \<subseteq> K" for k t
    using assms(3) by (cases "map_of m k") auto
  then show ?thesis using assms(2) unfolding merge_point_def put_def by (intro upd) (auto simp: dom_update)
qed

lemma merged_row_keys:
  assumes "row \<in> set (mergedSeries telemetry keys)" "k \<noteq> u ''timestamp''" "k \<notin> set keys"
  shows "map_of row k = None"
proof -
  let ?K = "insert (u ''timestamp'') (set keys)"
  have "list_all (\<lambda>e. fst ` set (snd e) \<subseteq> ?K) (fold (\<lambda>(key, p). merge_point key p) es [])" if "list_all (\<lambda>e. fst e \<in> ?K) es" for es
    using that by (induction es rule: rev_induct) (auto intro!: merge_point_keys split: prod.split)
  moreover have "list_all (\<lambda>e. fst e \<in> ?K) (tagged telemetry keys)" by (auto simp: tagged_def list_all_iff)
  ultimately have "list_all (\<lambda>e. fst ` set (snd e) \<subseteq> ?K) (merged_rows telemetry keys)" unfolding merged_fold by blast
  then have "fst ` set row \<subseteq> ?K" using assms(1) by (auto simp: mergedSeries_def list_all_iff)
  then show ?thesis using assms(2,3) by (auto simp: map_of_eq_None_iff)
qed

text \<open>
  Without observed artifacts the stored bytes are always split in proportion to the two
  product counts: the series with the rates of the products are not among those that are merged, so
  the branch that would use them is never taken, whatever the telemetry.
\<close>

theorem product_rates_never_read:
  "rate_deposition lightCurves targetPixels (recent_rows telemetry) =
   filter (\<lambda>p. lit 0 < br_lightcurveMiB p \<or> lit 0 < br_targetPixelMiB p) (map (aggregate_split lightCurves targetPixels) (recent_rows telemetry))"
proof -
  have "row_rate row ''lc_silver_bytes_rate'' = lit 0" "row_rate row ''tpf_silver_bytes_rate'' = lit 0" if "row \<in> set (recent_rows telemetry)" for row
    using that unfolding recent_rows_def row_rate_def by (simp_all add: merged_row_keys)
  then have "map (rate_row lightCurves targetPixels) (recent_rows telemetry) = map (aggregate_split lightCurves targetPixels) (recent_rows telemetry)"
    by (intro map_cong) (simp_all add: rate_row_def)
  then show ?thesis by (simp only: rate_deposition_def)
qed

end
