(* ===== verification/HopSizes.thy ===== *)
theory HopSizes
  imports HopSilver
begin

text \<open>
  The histogram of artifact sizes (\<open>buildSizeHistogram\<close> of \<open>HopSilver\<close>): for sizes in whole bytes up to
  \<open>2^44\<close>, and a logarithm and a power that are right within a factor of 16, every index lies in the
  array, so counting never throws, and the bars hold every artifact.
\<close>

section \<open>Counting into an array\<close>

lemma arr_idx_int: "0 \<le> j \<Longrightarrow> j < int (length xs) \<Longrightarrow> arr_idx xs (int_num j) = Some (xs ! nat j)"
  by (simp add: arr_idx_def isInteger_def nat_of_jsnum_def int_num_def)

definition index_ok :: "nat \<Rightarrow> jsnum \<Rightarrow> bool" where
  "index_ok n x \<longleftrightarrow> (\<exists>j. x = int_num j \<and> 0 \<le> j \<and> j < int n)"

lemma count_bars:
  assumes "list_all (index_ok (length cs)) is"
  shows "\<exists>cs'. foldl count_bar (Some cs) is = Some cs' \<and> length cs' = length cs \<and> sum_list cs' = sum_list cs + length is"
  using assms
proof (induction "is" arbitrary: cs)
  case (Cons i "is")
  then obtain j where j: "i = int_num j" "0 \<le> j" "j < int (length cs)" by (auto simp: index_ok_def)
  let ?cs = "cs[nat j := cs ! nat j + 1]"
  have "count_bar (Some cs) i = Some ?cs" using j by (simp add: count_bar_def arr_idx_int)
  moreover have "sum_list ?cs = sum_list cs + 1"
    using j elem_le_sum_list [of "nat j" cs] by (simp add: sum_list_update nat_less_iff)
  moreover have "\<exists>cs'. foldl count_bar (Some ?cs) is = Some cs' \<and> length cs' = length ?cs \<and> sum_list cs' = sum_list ?cs + length is"
    by (rule Cons.IH) (use Cons.prems in simp)
  ultimately show ?case by auto
qed simp

text \<open>The index is clamped to the array whenever the quotient is a number.\<close>

lemma bar_index_ok:
  assumes "bucketCount = int_num n" "1 \<le> n" "n \<le> 2 ^ 53" "isFinite ((v - origin) / step)"
  shows "index_ok (nat_of_jsnum bucketCount) (bar_index bucketCount origin step v)"
proof -
  obtain k where k: "Math_max (lit 0) (Math_floor ((v - origin) / step)) = int_num k" "0 \<le> k"
  proof (cases "(v - origin) / step")
    case (Fin q)
    have "Math_max (lit 0) (Math_floor ((v - origin) / step)) = int_num (max 0 \<lfloor>q\<rfloor>)"
      using Fin int_num_max [of 0 "\<lfloor>q\<rfloor>"] by (simp add: Math_floor_def int_num_def)
    then show ?thesis using that by simp
  next
    case NegZero
    have "Math_max (lit 0) (Math_floor ((v - origin) / step)) = int_num 0"
      using NegZero by (simp add: Math_floor_def Math_max_def int_num_def)
    then show ?thesis using that by simp
  qed (use assms(4) in simp_all)
  have "bucketCount - lit 1 = int_num (n - 1)" using assms(1-3) by (simp add: int_num_lit int_num_sub del: lit_one)
  then have "bar_index bucketCount origin step v = int_num (min (n - 1) k)" unfolding bar_index_def k(1) by (simp add: int_num_min)
  then show ?thesis using assms(1,2) k(2) unfolding index_ok_def by (intro exI [of _ "min (n - 1) k"]) simp
qed

section \<open>The step and the number of buckets\<close>

text \<open>The power of ten below a width, right within a factor of 16.\<close>

definition scale_ok :: "mathlib \<Rightarrow> (jsnum \<Rightarrow> jsnum) \<Rightarrow> jsnum \<Rightarrow> bool" where
  "scale_ok m mlog10 v = (let magnitude = Math_pow m (lit 10) (Math_floor (mlog10 v))
     in isFinite magnitude \<and> val v / 16 \<le> val magnitude \<and> val magnitude \<le> 16 * val v)"

lemma round64_pow: "- 1074 \<le> n \<Longrightarrow> round64 (2 powi n) = 2 powi n"
  by (intro round64_representable representable_powi)

lemma step_bounds:
  assumes "scale_ok m mlog10 v" "isFinite v" "1 / 2 ^ 23 \<le> val v" "val v \<le> 2 ^ 24"
  defines "step \<equiv> niceDecimalStep m mlog10 v"
  shows "mag_le step 32 \<and> num_ok step \<and> 1 / 2 ^ 27 \<le> val step"
proof -
  let ?g = "Math_pow m (lit 10) (Math_floor (mlog10 v))"
  have pos: "0 < val v" using assms(3) by (rule less_le_trans [rotated]) simp
  have g: "isFinite ?g" "val v / 16 \<le> val ?g" "val ?g \<le> 16 * val v" using assms(1) by (simp_all add: scale_ok_def Let_def)
  have "step = nice_factor m mlog10 v" using pos assms(2) by (simp add: step_def niceDecimalStep_def)
  then obtain f where f: "step = Fin f * ?g" "1 \<le> f" "f \<le> 10"
    using that by (auto simp: nice_factor_def Let_def split: if_splits)
  have gp: "0 < val ?g" using g(2) pos by (intro less_le_trans [of 0 "val v / 16" "val ?g"]) simp_all
  then have ge: "1 / 2 ^ 27 \<le> f * val ?g"
  proof -
    have "1 * (val v / 16) \<le> f * val ?g" using f(2) g(2) pos by (intro mult_mono) simp_all
    moreover have "1 / 2 ^ 27 \<le> val v / 16" using assms(3) by simp
    ultimately show ?thesis by simp
  qed
  have le: "f * val ?g \<le> 2 ^ 32"
  proof -
    have "f * val ?g \<le> 16 * (16 * val v)" using f g gp by (intro mult_mono) simp_all
    also have "\<dots> \<le> 2 ^ 8 * 2 ^ 24" using assms(4) by simp
    finally show ?thesis by simp
  qed
  obtain s where s: "step = mk s (f * val ?g)" using f(1) g(1) by (simp add: finite_mult)
  have "0 \<le> f * val ?g" using ge by (rule order_trans [rotated]) simp
  then have mag: "mag_le step 32" unfolding s using le by (intro mag_le_mk) simp_all
  then have fin: "isFinite step" by (simp add: mag_le_def)
  have "1 / 2 ^ 27 = (2 powi (- 27) :: rat)" by (simp add: power_int_minus)
  then have "1 / 2 ^ 27 \<le> round64 (f * val ?g)" using round64_mono [OF ge] round64_pow [of "- 27"] by simp
  then show ?thesis using mag fin num_ok_mk val_mk [of s "f * val ?g"] unfolding s by simp
qed

lemma representable_scaled: "representable q \<Longrightarrow> representable (2 ^ k * q)"
proof -
  assume "representable q"
  then obtain i e where q: "q = of_int i * 2 powi e" "\<bar>i\<bar> \<le> 2 ^ 53" "- 1074 \<le> e" by (auto simp: representable_def)
  have "2 ^ k * q = of_int i * (2 powi e * 2 powi int k)" by (simp add: q(1))
  also have "2 powi e * 2 powi int k = (2 powi (e + int k) :: rat)" by (rule power_int_add [symmetric]) simp
  finally show ?thesis unfolding representable_def using q(2,3) by (intro exI [of _ i] exI [of _ "e + int k"]) simp
qed

lemma positive_quotient:
  assumes "isFinite x" "0 < val x" "val x \<le> 2 ^ 24" "isFinite step" "1 / 2 ^ 27 \<le> val step"
  obtains r where "x / step = Fin r" "0 \<le> r" "r \<le> 2 ^ 51"
proof -
  have pos: "0 < val step" using assms(5) by (rule less_le_trans [rotated]) simp
  have s: "\<not> signbit x" "\<not> signbit step" using assms(1,2,4) pos by (cases x; cases step; simp)+
  define y where "y = x / step"
  have y: "y = mk False (val x / val step)" using assms pos s by (simp add: y_def finite_divide)
  have "mag_le y (24 + 27)" unfolding y_def
    by (rule mag_le_divide) (use assms pos in \<open>simp_all add: mag_le_def\<close>)
  moreover have "Fin 0 \<le> y" using mk_mono [of 0 "val x / val step" False False] assms(2) pos by (simp add: zero_of_def y)
  moreover have "y \<noteq> NegZero" unfolding y using assms(2) pos by (rule_tac mk_cases [of "val x / val step" False]) (auto simp: zero_of_def)
  ultimately show ?thesis using that by (cases y) (auto simp: mag_le_def simp flip: y_def)
qed

lemma multiple_of_step:
  assumes "mag_le step 32" "num_ok step" "0 < val step" "0 \<le> a" "a \<le> 2 ^ 51"
  shows "isFinite (int_num a * step) \<and> 0 \<le> val (int_num a * step) \<and> val (int_num a * step) \<le> 2 ^ 51 * val step"
proof -
  have "(of_int a :: rat) \<le> of_int (2 ^ 51)" using assms(5) by (simp only: of_int_le_iff)
  then have a: "(of_int a :: rat) \<le> 2 ^ 51" by simp
  have "mag_le (int_num a) 51" using a assms(4) by (simp add: mag_le_def)
  then have "mag_le (int_num a * step) (51 + 32)" using assms(1) by (rule mag_le_mult) simp
  then have fin: "isFinite (int_num a * step)" by (simp add: mag_le_def)
  have "val (int_num a * step) = round64 (of_int a * val step)"
    using fin assms(2) by (simp add: num_ok_def finite_mult val_mk)
  moreover have "round64 (of_int a * val step) \<le> round64 (2 ^ 51 * val step)" using a assms(3) by (intro round64_mono mult_right_mono) simp_all
  moreover have "round64 (2 ^ 51 * val step) = 2 ^ 51 * val step"
    by (rule round64_representable [OF representable_scaled [OF wf_representable [OF assms(2)]]])
  moreover have "0 \<le> round64 (of_int a * val step)" using assms(3,4) by (intro r64.rnd_nonneg) simp
  ultimately show ?thesis using fin by simp
qed

lemma bucket_count_ok:
  assumes "mag_le step 32" "num_ok step" "1 / 2 ^ 27 \<le> val step"
    and "isFinite (hd values)" "0 < val (hd values)" "val (hd values) \<le> 2 ^ 24"
    and "isFinite (last values)" "0 < val (last values)" "val (last values) \<le> 2 ^ 24"
  shows "mag_le (Math_floor (hd values / step) * step) 83" and "\<exists>n. bucket_count step values = int_num n \<and> 1 \<le> n \<and> n \<le> 2 ^ 51"
proof -
  have fin: "isFinite step" and pos: "0 < val step"
    using assms(2) less_le_trans [OF _ assms(3), of 0] by (simp_all add: num_ok_def)
  obtain r1 where r1: "hd values / step = Fin r1" "0 \<le> r1" "r1 \<le> 2 ^ 51" using positive_quotient [OF assms(4-6) fin assms(3)] .
  obtain r2 where r2: "last values / step = Fin r2" "0 \<le> r2" "r2 \<le> 2 ^ 51" using positive_quotient [OF assms(7-9) fin assms(3)] .
  have fl: "Math_floor (hd values / step) = int_num \<lfloor>r1\<rfloor>" "0 \<le> \<lfloor>r1\<rfloor>" "\<lfloor>r1\<rfloor> \<le> 2 ^ 51"
    using r1 by (simp_all add: Math_floor_def int_num_def floor_le_iff)
  have ce: "Math_ceil (last values / step) = int_num \<lceil>r2\<rceil>" "0 \<le> \<lceil>r2\<rceil>" "\<lceil>r2\<rceil> \<le> 2 ^ 51"
    using r2 by (simp_all add: Math_ceil_def int_num_def ceiling_le_iff)
  let ?o = "int_num \<lfloor>r1\<rfloor> * step" and ?e = "int_num \<lceil>r2\<rceil> * step" and ?M = "2 ^ 51 * val step"
  have o: "isFinite ?o" "0 \<le> val ?o" "val ?o \<le> ?M" using multiple_of_step [OF assms(1,2) pos fl(2,3)] by auto
  have e: "isFinite ?e" "0 \<le> val ?e" "val ?e \<le> ?M" using multiple_of_step [OF assms(1,2) pos ce(2,3)] by auto
  have M: "?M \<le> 2 ^ 83" "round64 ?M = ?M"
    using assms(1) round64_representable [OF representable_scaled [OF wf_representable [OF assms(2)]], of 51] by (auto simp: mag_le_def)
  then have mag: "mag_le ?o 83" "mag_le ?e 83" using o e by (auto simp: mag_le_def)
  then show "mag_le (Math_floor (hd values / step) * step) 83" by (simp only: fl(1))
  have d: "mag_le (?e - ?o) 84" using mag_le_sub [OF mag(2,1)] by simp
  then have df: "isFinite (?e - ?o)" by (simp add: mag_le_def)
  have "val (?e - ?o) = round64 (val ?e - val ?o)" using df o(1) e(1) by (simp add: finite_sub val_mk)
  moreover have "round64 (val ?e - val ?o) \<le> round64 ?M" "round64 (- ?M) \<le> round64 (val ?e - val ?o)"
    by (rule round64_mono, use o e in linarith)+
  ultimately have "\<bar>val (?e - ?o)\<bar> \<le> ?M" using M(2) by (simp add: round64_minus abs_le_iff)
  then have "\<bar>val (?e - ?o) / val step\<bar> \<le> 2 ^ 51" using pos by (simp add: abs_mult pos_divide_le_eq)
  then have q: "mag_le ((?e - ?o) / step) 51" using df fin pos by (simp add: finite_divide mag_le_mk)
  have r: "\<exists>k. Math_max (lit 1) (Math_round x) = int_num k \<and> 1 \<le> k \<and> k \<le> 2 ^ 51" if x: "mag_le x 51" for x
  proof (cases x)
    case (Fin t)
    then have "t \<le> 2 ^ 51" using x by (auto simp: mag_le_def)
    then have "\<lfloor>t + 1 / 2\<rfloor> \<le> 2 ^ 51" by (simp add: floor_le_iff)
    moreover have "Math_max (lit 1) (Math_round x) = int_num (max 1 \<lfloor>t + 1 / 2\<rfloor>)"
      using Fin int_num_max [of 1 "\<lfloor>t + 1 / 2\<rfloor>"] by (auto simp: Math_round_def int_num_def Math_max_def)
    ultimately show ?thesis by (intro exI [of _ "max 1 \<lfloor>t + 1 / 2\<rfloor>"]) simp
  next
    case NegZero
    then have "Math_max (lit 1) (Math_round x) = int_num 1" by (simp add: Math_round_def Math_max_def int_num_def)
    then show ?thesis by (intro exI [of _ 1]) simp
  qed (use x in \<open>simp_all add: mag_le_def\<close>)
  show "\<exists>n. bucket_count step values = int_num n \<and> 1 \<le> n \<and> n \<le> 2 ^ 51"
    unfolding bucket_count_def Let_def fl(1) ce(1) by (rule r [OF q])
qed

section \<open>Sizes in whole bytes\<close>

definition whole_size :: "materialization_point \<Rightarrow> bool" where
  "whole_size p = (isInteger (mzp_size_bytes p) \<and> mzp_size_bytes p \<le> lit (2 ^ 44))"

definition positive_sizes :: "materialization_point list \<Rightarrow> jsnum list" where
  "positive_sizes points = filter (\<lambda>v. lit 0 < v) (map mzp_size_bytes points)"

lemma whole_positive: "list_all whole_size points \<Longrightarrow> \<exists>is. positive_sizes points = map int_num is \<and> list_all (\<lambda>i. 1 \<le> i \<and> i \<le> 2 ^ 44) is"
proof (induction points)
  case (Cons p ps)
  then obtain "is" where i: "positive_sizes ps = map int_num is" "list_all (\<lambda>i. 1 \<le> i \<and> i \<le> 2 ^ 44) is" by auto
  show ?case
  proof (cases "lit 0 < mzp_size_bytes p")
    case True
    then obtain q where q: "mzp_size_bytes p = Fin q" "of_int \<lfloor>q\<rfloor> = q" "0 < q" "q \<le> 2 ^ 44"
      using Cons.prems by (cases "mzp_size_bytes p") (auto simp: whole_size_def isInteger_def)
    have "0 < \<lfloor>q\<rfloor>" using q(2,3) by (metis of_int_0_less_iff)
    moreover have "\<lfloor>q\<rfloor> \<le> 2 ^ 44" using q(4) by (simp add: floor_le_iff)
    moreover have "positive_sizes (p # ps) = map int_num (\<lfloor>q\<rfloor> # is)" using True q(1) q(2) [symmetric] i(1) by (simp only: positive_sizes_def int_num_def list.map filter.simps if_True)
    ultimately show ?thesis using i(2) by (intro exI [of _ "\<lfloor>q\<rfloor> # is"]) simp
  next
    case False
    then show ?thesis using i by (auto simp: positive_sizes_def)
  qed
qed (simp add: positive_sizes_def)

text \<open>The values of the histogram are whole multiples of \<open>2^-10\<close> or \<open>2^-20\<close>, in order and at most \<open>2^24\<close>.\<close>

lemma size_values_exact:
  assumes "list_all whole_size points"
  obtains mebi "is" d where "size_values points = (mebi, map (part_num d) is)" "length is = length (positive_sizes points)"
    "d \<in> {10, 20}" "list_all (\<lambda>i. 1 \<le> i \<and> i \<le> 2 ^ 44 \<and> i \<le> 2 ^ (d + 24)) is" "sorted is"
proof -
  obtain js where js: "positive_sizes points = map int_num js" "list_all (\<lambda>i. 1 \<le> i \<and> i \<le> 2 ^ 44) js" using whole_positive [OF assms] by blast
  let ?s = "sort_by (js_asc (\<lambda>x. x)) (positive_sizes points)"
  obtain "is" where i: "?s = map int_num is" "mset is = mset js"
  proof -
    have "mset ?s = image_mset int_num (mset js)" by (simp add: js(1))
    then have "set ?s \<subseteq> range int_num" by (simp add: js(1) image_subset_iff)
    then obtain ks where ks: "?s = map int_num ks" by (metis ex_map_conv image_iff subsetD)
    then have "image_mset int_num (mset ks) = image_mset int_num (mset js)" using \<open>mset ?s = _\<close> by simp
    then have "mset ks = mset js" by (rule injD [OF multiset.inj_map, rotated]) (simp add: inj_def)
    then show ?thesis using ks that by blast
  qed
  have b: "list_all (\<lambda>i. 1 \<le> i \<and> i \<le> 2 ^ 44) is" using js(2) mset_eq_setD [OF i(2)] by (simp add: list_all_iff)
  have ok: "\<forall>x\<in>set (positive_sizes points). num_ok x" using js(2) by (auto simp: js(1) list_all_iff intro!: int_num_ok)
  have "sorted (map val (map int_num is))" using js_asc_sorted [of "positive_sizes points" "\<lambda>x. x"] ok unfolding i(1) by simp
  then have srt: "sorted is" by (simp add: sorted_iff_nth_mono)
  let ?mebi = "\<not> (if ?s = [] then lit 0 else last ?s) < lit (1024 ^ 2)"
  let ?d = "if ?mebi then 20 else 10"
  have le: "i \<le> 2 ^ (?d + 24)" if "i \<in> set is" for i
  proof (cases ?mebi)
    case True
    then show ?thesis using b that by (auto simp: list_all_iff)
  next
    case False
    then have "last is < 2 ^ 20" using that i(1) by (auto simp: last_map int_num_def split: if_splits)
    moreover have "i \<le> last is" using srt that by (cases "is" rule: rev_cases) (auto simp: sorted_append)
    moreover have "(2::int) ^ 20 \<le> 2 ^ (10 + 24)" by simp
    ultimately show ?thesis using False by (simp only: if_False)
  qed
  have "map (\<lambda>v. v / (if ?mebi then lit (1024 ^ 2) else lit 1024)) ?s = map (part_num ?d) is"
  proof -
    have "int_num i / (if ?mebi then lit (1024 ^ 2) else lit 1024) = part_num ?d i" if "i \<in> set is" for i
    proof -
      have "1 \<le> i" "i \<le> 2 ^ 53" using b that by (auto simp: list_all_iff intro: order_trans)
      then show ?thesis using part_divide [of i 20] part_divide [of i 10] by simp
    qed
    then show ?thesis unfolding i(1) by (simp add: comp_def)
  qed
  then have "size_values points = (?mebi, map (part_num ?d) is)" unfolding size_values_def Let_def positive_sizes_def [symmetric] by (simp only:)
  moreover have "length is = length (positive_sizes points)" using arg_cong [OF i(1), of length] by simp
  ultimately show ?thesis using that [of ?mebi ?d "is"] b le srt by (simp add: list_all_iff split: if_splits)
qed

lemma part_width:
  assumes "1 \<le> i" "i < j" "j \<le> 2 ^ 44" and that: "d \<in> {10, 20}"
  shows "(part_num d j - part_num d i) / lit 8 = part_num (d + 3) (j - i)"
proof -
  have ji: "0 < j - i" "j - i \<le> 2 ^ 53" using assms by auto
  have d: "part_num d j - part_num d i = part_num d (j - i)"
    using mk_part [of "j - i" d] ji that assms(2) by (auto simp: finite_sub diff_divide_distrib)
  have "of_int (j - i) / 2 ^ d / 8 = (of_int (j - i) / 2 ^ (d + 3) :: rat)" by (simp add: power_add)
  then have "part_num d (j - i) / lit 8 = mk (signbit (part_num d (j - i))) (of_int (j - i) / 2 ^ (d + 3))" by (simp add: finite_divide power_add)
  then show ?thesis unfolding d using mk_part [of "j - i" "d + 3"] ji that by auto
qed

lemma spread_counts:
  fixes "is" :: "int list" and d :: nat and m :: mathlib and mlog10 :: "jsnum \<Rightarrow> jsnum"
  defines "vs \<equiv> map (part_num d) is" and "step \<equiv> niceDecimalStep m mlog10 (target_width (map (part_num d) is))"
  assumes "d \<in> {10, 20}" "list_all (\<lambda>i. 1 \<le> i \<and> i \<le> 2 ^ 44 \<and> i \<le> 2 ^ (d + 24)) is" "is \<noteq> []" "hd is < last is"
    and "scale_ok m mlog10 (target_width vs)"
  defines "origin \<equiv> Math_floor (hd vs / step) * step" and "n \<equiv> bucket_count step vs"
  shows "\<exists>cs. foldl count_bar (Some (replicate (nat_of_jsnum n) 0)) (map (bar_index n origin step) vs) = Some cs \<and> sum_list cs = length is"
proof -
  have ends: "hd vs = part_num d (hd is)" "last vs = part_num d (last is)" using assms(5) by (simp_all add: vs_def hd_map last_map)
  have mem: "1 \<le> i \<and> i \<le> 2 ^ 44 \<and> i \<le> 2 ^ (d + 24)" if "i \<in> set is" for i using assms(4) that by (simp add: list_all_iff)
  have i: "1 \<le> hd is" "last is \<le> 2 ^ 44" using assms(5) mem by auto
  have top: "0 < val (part_num d i) \<and> val (part_num d i) \<le> 2 ^ 24" if "i \<in> set is" for i
  proof -
    have "(of_int i :: rat) \<le> of_int (2 ^ (d + 24))" using mem [OF that] by (simp only: of_int_le_iff)
    then show ?thesis using mem [OF that] by (simp add: power_add divide_le_eq mult.commute)
  qed
  have w: "target_width vs = part_num (d + 3) (last is - hd is)"
    using part_width [OF i(1) assms(6) i(2) assms(3)] by (simp add: target_width_def ends)
  have "1 / 2 ^ 23 \<le> val (target_width vs) \<and> val (target_width vs) \<le> 2 ^ 24"
  proof
    have "(1 :: rat) \<le> of_int (last is - hd is)" using assms(6) by (simp only: of_int_1_le_iff)
    then show "1 / 2 ^ 23 \<le> val (target_width vs)" unfolding w part_num_simps using assms(3) by (intro frac_le) auto
    have "val (target_width vs) \<le> val (part_num d (last is))" unfolding w part_num_simps using i assms(3,6) by (intro frac_le) auto
    then show "val (target_width vs) \<le> 2 ^ 24" using top [of "last is"] assms(5) by auto
  qed
  then have st: "mag_le step 32" "num_ok step" "1 / 2 ^ 27 \<le> val step"
    using step_bounds [OF assms(7)] w unfolding step_def vs_def by auto
  have hd_last: "0 < val (hd vs)" "val (hd vs) \<le> 2 ^ 24" "0 < val (last vs)" "val (last vs) \<le> 2 ^ 24"
    using top [of "hd is"] top [of "last is"] assms(5) unfolding ends by auto
  note bc = bucket_count_ok [OF st _ hd_last(1,2) _ hd_last(3,4)]
  have mo: "mag_le origin 83" unfolding origin_def by (rule bc(1)) (simp_all add: ends)
  obtain k where k: "n = int_num k" "1 \<le> k" "k \<le> 2 ^ 51" using bc(2) by (auto simp: ends n_def)
  have "index_ok (nat_of_jsnum n) (bar_index n origin step (part_num d i))" if "i \<in> set is" for i
  proof (rule bar_index_ok [OF k(1,2)])
    have "mag_le (part_num d i) 83" using top [OF that] by (auto simp: mag_le_def intro: order_trans)
    then have "mag_le (part_num d i - origin) 84" using mag_le_sub [OF _ mo] by simp
    then have "mag_le ((part_num d i - origin) / step) (84 + 27)" using st by (intro mag_le_divide) (auto simp: num_ok_def intro: order_trans)
    then show "isFinite ((part_num d i - origin) / step)" by (simp add: mag_le_def)
  qed (use k(3) in simp)
  then have "list_all (index_ok (length (replicate (nat_of_jsnum n) (0::nat)))) (map (bar_index n origin step) vs)"
    by (simp add: list_all_iff vs_def)
  then show ?thesis using count_bars by (fastforce simp: vs_def)
qed

text \<open>
  C29. For sizes in whole bytes up to 16 TiB the histogram of sizes is built without an access
  outside its array, and its bars add up to the number of artifacts with bytes, each in one bar.
\<close>

theorem size_histogram_total:
  assumes "list_all whole_size points" "scale_ok m mlog10 (target_width (snd (size_values points)))"
  shows "\<exists>hist. buildSizeHistogram h m mlog10 points = Some hist \<and> (\<Sum>b\<leftarrow>sh_bars hist. snd b) = length (positive_sizes points)"
proof -
  obtain mebi "is" d where v: "size_values points = (mebi, map (part_num d) is)" "length is = length (positive_sizes points)"
    "d \<in> {10, 20}" "list_all (\<lambda>i. 1 \<le> i \<and> i \<le> 2 ^ 44 \<and> i \<le> 2 ^ (d + 24)) is" "sorted is" using size_values_exact [OF assms(1)] .
  let ?vs = "map (part_num d) is"
  consider "is = []" | "is \<noteq> []" "num_eq (last ?vs) (hd ?vs)" | "is \<noteq> []" "\<not> num_eq (last ?vs) (hd ?vs)" by blast
  then show ?thesis
  proof cases
    case 1
    then show ?thesis using v(1,2) by (simp add: buildSizeHistogram_def)
  next
    case 2
    then show ?thesis using v(1,2) by (simp add: buildSizeHistogram_def)
  next
    case 3
    have "hd is \<le> last is" using v(5) 3(1) by (cases "is") auto
    moreover have "hd is \<noteq> last is" using 3 by (auto simp: num_eq_def hd_map last_map)
    ultimately obtain cs where "foldl count_bar (Some (replicate (nat_of_jsnum (bucket_count (niceDecimalStep m mlog10 (target_width ?vs)) ?vs)) 0))
        (map (bar_index (bucket_count (niceDecimalStep m mlog10 (target_width ?vs)) ?vs)
          (Math_floor (hd ?vs / niceDecimalStep m mlog10 (target_width ?vs)) * niceDecimalStep m mlog10 (target_width ?vs))
          (niceDecimalStep m mlog10 (target_width ?vs))) ?vs) = Some cs" "sum_list cs = length is"
      using spread_counts [OF v(3,4) 3(1)] assms(2) by (auto simp: v(1))
    then show ?thesis using 3 v(1,2) by (simp add: buildSizeHistogram_def Let_def)
  qed
qed

text \<open>Two light curves of 2 and 18 KiB: the width is 2, with the logarithm 0 and the power 1.\<close>

definition sample_point :: "jsnum \<Rightarrow> materialization_point" where
  "sample_point n = \<lparr>mzp_object_key = [], mzp_product_kind = u ''lightcurve'', mzp_rows = lit 1, mzp_size_bytes = n, mzp_source_bytes = n,
     mzp_encode_duration_ms = lit 1, mzp_completed_at = [], mzp_etag = [], mzp_schema_version = [], mzp_checksum_bound = True,
     mzp_lineage_bound = True, mzp_size_verified = True, mzp_schema_verified = True, mzp_checkpoint_linked = True,
     mzp_integrity_verified = True, mzp_verification_attempts = lit 1\<rparr>"

definition sample_points :: "materialization_point list" where
  "sample_points = [sample_point (lit 18432), sample_point (lit 2048), sample_point (lit 0)]"

theorem size_histogram_total_witness:
  "\<exists>hist. buildSizeHistogram sample_host (sample_math\<lparr>Math_pow := \<lambda>x y. lit 1\<rparr>) (\<lambda>x. lit 0) sample_points = Some hist \<and>
     (\<Sum>b\<leftarrow>sh_bars hist. snd b) = 2"
proof -
  have "list_all whole_size sample_points" by code_simp
  moreover have "target_width (snd (size_values sample_points)) = lit 2" by code_simp
  moreover have "scale_ok (sample_math\<lparr>Math_pow := \<lambda>x y. lit 1\<rparr>) (\<lambda>x. lit 0) (lit 2)" by (simp add: scale_ok_def)
  moreover have "length (positive_sizes sample_points) = 2" by code_simp
  ultimately show ?thesis using size_histogram_total [of sample_points "sample_math\<lparr>Math_pow := \<lambda>x y. lit 1\<rparr>" "\<lambda>x. lit 0" sample_host] by simp
qed

end
