(* ===== verification/HopResiduals.thy ===== *)
theory HopResiduals
  imports HopStats
begin

text \<open>
  The chart of the transform hops (\<open>hop-charts/ResidualsDistributionChart.tsx\<close>): clipping figures,
  the scatter before and after clipping, the pixel diagnostics with their histograms and timelines.
  Shown: the adaptive histogram counts every value once, the bands of pixel integrity partition
  the artifacts, and a timeline has at most as many points as it is meant to, in order of time.
\<close>

section \<open>Clipping and scatter\<close>

record transform_view =
  tv_total :: jsnum
  tv_preclipSamples :: jsnum
  tv_retainedSamples :: jsnum
  tv_outliers :: jsnum
  tv_clipRate :: jsnum
  tv_retainedRate :: jsnum
  tv_durableScatter :: bool
  tv_beforeMean :: jsnum
  tv_afterMean :: jsnum
  tv_scatterReduction :: jsnum
  tv_isBaseline :: bool

text \<open>A raw metric: \<open>metrics?.[key] ?? 0\<close>.\<close>

definition raw_metric :: "(str \<times> jsnum) list option \<Rightarrow> string \<Rightarrow> jsnum" where
  "raw_metric metrics key = nullish (metric_of metrics (u key)) (lit 0)"

datatype transform_focus = F_lightcurve | F_target_pixel

definition transformView :: "(str \<times> jsnum) list option \<Rightarrow> transform_focus option \<Rightarrow> tpf_transform_point list option \<Rightarrow> transform_view" where
  "transformView metrics focus tpfTransformPoints =
     (let lightCurves = metric metrics ''completed_lightcurves''; targetPixels = metric metrics ''completed_target_pixels'';
          total = (case focus of Some F_lightcurve \<Rightarrow> lightCurves | Some F_target_pixel \<Rightarrow> targetPixels | None \<Rightarrow> lightCurves + targetPixels);
          preclipSamples = metric metrics ''lc_preclip_samples''; retainedSamples = metric metrics ''lc_retained_samples'';
          outliers = metric metrics ''lc_outlier_removed'';
          durableScatter = (lit 0 < raw_metric metrics ''lc_scatter_products'');
          beforeMean = (if durableScatter then raw_metric metrics ''lc_scatter_before_mean_durable'' else lit 0);
          afterMean = (if durableScatter then raw_metric metrics ''lc_scatter_after_mean_durable'' else lit 0)
      in \<lparr>tv_total = total, tv_preclipSamples = preclipSamples, tv_retainedSamples = retainedSamples, tv_outliers = outliers,
          tv_clipRate = ratio outliers preclipSamples, tv_retainedRate = ratio retainedSamples preclipSamples,
          tv_durableScatter = durableScatter, tv_beforeMean = beforeMean, tv_afterMean = afterMean,
          tv_scatterReduction = (if lit 0 < beforeMean then (beforeMean - afterMean) / beforeMean else lit 0),
          tv_isBaseline = (num_eq total (lit 0) \<and> num_eq preclipSamples (lit 0) \<and> nullish tpfTransformPoints [] = [])\<rparr>)"

text \<open>The rows of the clipping impact, with what no class accounts for.\<close>

definition clipRows :: "(str \<times> jsnum) list option \<Rightarrow> (str \<times> jsnum) list" where
  "clipRows metrics =
     (let clip3To4 = metric metrics ''lc_sigma_clip_3_4_removed''; clip4To5 = metric metrics ''lc_sigma_clip_4_5_removed'';
          clipGE5 = metric metrics ''lc_sigma_clip_ge_5_removed'';
          unclassifiedClip = Math_max (lit 0) (metric metrics ''lc_outlier_removed'' - clip3To4 - clip4To5 - clipGE5)
      in [((u ''Retained''), metric metrics ''lc_retained_samples''), ((ue ''Rejected 3~20134~03C3''), clip3To4), ((ue ''Rejected 4~20135~03C3''), clip4To5), ((ue ''Rejected ~22655~03C3''), clipGE5)] @
        (if lit 0 < unclassifiedClip then [((u ''Legacy / unclassified''), unclassifiedClip)] else []))"

record product_scatter =
  psc_point :: scatter_point
  psc_artifact :: str
  psc_clipRate :: jsnum

definition productScatter :: "scatter_point list option \<Rightarrow> product_scatter list" where
  "productScatter scatterPoints =
     map (\<lambda>p. \<lparr>psc_point = p, psc_artifact = shortObjectKey (scp_object_key p), psc_clipRate = ratio (scp_outlier_removed p) (scp_preclip_samples p)\<rparr>)
       (filter (\<lambda>p. lit 0 < scp_before_ppm p \<and> lit 0 < scp_after_ppm p) (nullish scatterPoints []))"

text \<open>The two ends of the axes.\<close>

definition scatter_domain :: "product_scatter list \<Rightarrow> jsnum \<times> jsnum" where
  "scatter_domain ps =
     (let scatterValues = concat (map (\<lambda>p. [scp_before_ppm (psc_point p), scp_after_ppm (psc_point p)]) ps);
          scatterMin = (if scatterValues \<noteq> [] then Math_max (lit 1) (Math_min_list scatterValues * lit (8 / 10)) else lit 1);
          rawScatterMax = (if scatterValues \<noteq> [] then Math_max_list scatterValues * lit (12 / 10) else lit 10)
      in (scatterMin, Math_max (scatterMin * lit (125 / 100)) rawScatterMax))"

record paired_bar =
  pb_bucket :: str
  pb_first :: nat
  pb_second :: nat

text \<open>Two histograms over the same buckets, of two readings of every point.\<close>

definition pairedHistogram :: "('a \<Rightarrow> jsnum) \<Rightarrow> ('a \<Rightarrow> jsnum) \<Rightarrow> 'a list \<Rightarrow> paired_bar list" where
  "pairedHistogram first second points =
     map (\<lambda>i. \<lparr>pb_bucket = fst (SCATTER_BUCKETS ! i), pb_first = length (filter (\<lambda>p. in_bucket SCATTER_BUCKETS i (first p)) points),
         pb_second = length (filter (\<lambda>p. in_bucket SCATTER_BUCKETS i (second p)) points)\<rparr>) [0..<length SCATTER_BUCKETS]"

definition scatter_histogram :: "product_scatter list \<Rightarrow> paired_bar list" where
  "scatter_histogram = pairedHistogram (\<lambda>p. scp_before_ppm (psc_point p)) (\<lambda>p. scp_after_ppm (psc_point p))"

definition highClipProducts :: "product_scatter list \<Rightarrow> nat" where
  "highClipProducts ps = length (filter (\<lambda>p. lit (1 / 10) < psc_clipRate p) ps)"

definition singleHistogram :: "jsnum list \<Rightarrow> (str \<times> nat) list" where
  "singleHistogram values = bucket_counts BOUNDARY_BUCKETS values"

section \<open>Pixel diagnostics\<close>

definition tpf_artifacts :: "tpf_transform_point list option \<Rightarrow> tpf_transform_point list" where
  "tpf_artifacts points = filter (\<lambda>p. lit 0 \<le> ttp_finite_pixel_fraction p \<and> ttp_finite_pixel_fraction p \<le> lit 1) (nullish points [])"

definition tpf_evidence :: "tpf_transform_point list \<Rightarrow> tpf_transform_point list" where
  "tpf_evidence artifacts = filter (\<lambda>p. ttp_diagnostics_observed p \<and> lit 0 < ttp_input_pixel_values p) artifacts"

definition sumBy :: "('a \<Rightarrow> jsnum) \<Rightarrow> 'a list \<Rightarrow> jsnum" where
  "sumBy getValue items = foldl (\<lambda>total item. total + Math_max (lit 0) (getValue item)) (lit 0) items"

record envelope_row =
  en_timestamp :: jsnum
  en_p50 :: jsnum
  en_p95 :: jsnum

text \<open>The loop over slices of \<open>n\<close> elements.\<close>

function chunks :: "nat \<Rightarrow> 'a list \<Rightarrow> 'a list list" where
  "chunks n xs = (if xs = [] \<or> n = 0 then [] else take n xs # chunks n (drop n xs))"
  by auto
termination by (relation "measure (\<lambda>(n, xs). length xs)") auto

declare chunks.simps [simp del]

definition chunk_size :: "rat \<Rightarrow> nat \<Rightarrow> nat" where
  "chunk_size parts n = nat_of_jsnum (Math_max (lit 1) (Math_ceil (jsnum_of_nat n / lit parts)))"

text \<open>Points with a time, in order, summarised in slices: the time of the middle one and two quantiles.\<close>

definition envelope :: "rat \<Rightarrow> ('a \<Rightarrow> jsnum) \<Rightarrow> ('a \<Rightarrow> jsnum) \<Rightarrow> ('a \<Rightarrow> jsnum) \<Rightarrow> 'a list \<Rightarrow> envelope_row list" where
  "envelope parts time first second points =
     (let ordered = sort_by (js_asc time) (filter (\<lambda>p. isFinite (time p)) points)
      in map (\<lambda>bucket. \<lparr>en_timestamp = time (bucket ! (length bucket div 2)),
             en_p50 = quantileNumbers (map first bucket) (lit (50 / 100)), en_p95 = quantileNumbers (map second bucket) (lit (95 / 100))\<rparr>)
           (chunks (chunk_size parts (length ordered)) ordered))"

definition completion :: "host \<Rightarrow> tpf_transform_point \<Rightarrow> jsnum" where
  "completion h p = date_parse h (ttp_completed_at p) / lit 1000"

definition temporalEnvelope :: "host \<Rightarrow> tpf_transform_point list \<Rightarrow> envelope_row list" where
  "temporalEnvelope h points = envelope 24 (completion h) ttp_drift_p50_ppm ttp_drift_p95_ppm points"

definition defectPPM :: "tpf_transform_point \<Rightarrow> jsnum" where
  "defectPPM p = Math_max (lit 0) ((lit 1 - ttp_finite_pixel_fraction p) * lit 1000000)"

definition legacyIntegrityTimeline :: "host \<Rightarrow> tpf_transform_point list \<Rightarrow> envelope_row list" where
  "legacyIntegrityTimeline h points = envelope 30 (completion h) defectPPM defectPPM points"

definition legacyCadenceTimeline :: "host \<Rightarrow> tpf_transform_point list \<Rightarrow> envelope_row list" where
  "legacyCadenceTimeline h points =
     envelope 30 (completion h) (\<lambda>p. Math_max (lit 0) (ttp_output_cadences p)) (\<lambda>p. Math_max (lit 0) (ttp_output_cadences p)) points"

definition integrityBands :: "(str \<times> str \<times> (jsnum \<Rightarrow> bool)) list" where
  "integrityBands =
     [(u ''perfect'', (ue ''~22640.5 ppm ~00B7 perfect''), \<lambda>v. v \<le> lit (5 / 10)),
      (u ''trace'', (ue ''0.5~201310 ppm ~00B7 trace''), \<lambda>v. lit (5 / 10) < v \<and> v \<le> lit 10),
      (u ''low'', (ue ''10~2013100 ppm ~00B7 low''), \<lambda>v. lit 10 < v \<and> v \<le> lit 100),
      (u ''elevated'', (ue ''100~20131k ppm ~00B7 elevated''), \<lambda>v. lit 100 < v \<and> v \<le> lit 1000),
      (u ''high'', (ue ''>1k ppm ~00B7 high''), \<lambda>v. lit 1000 < v)]"

definition integrityBandRows :: "jsnum list \<Rightarrow> (str \<times> nat) list" where
  "integrityBandRows values = map (\<lambda>(key, label, accepts). (label, length (filter accepts values))) integrityBands"

definition adaptive_bounds :: "jsnum \<Rightarrow> jsnum \<Rightarrow> jsnum \<Rightarrow> (jsnum \<times> jsnum) list" where
  "adaptive_bounds minimum maximum requestedBins =
     (let width = Math_max (lit 1) (Math_ceil ((maximum - minimum + lit 1) / requestedBins));
          bins = Math_min requestedBins (Math_ceil ((maximum - minimum + lit 1) / width))
      in map (\<lambda>i. let index = jsnum_of_nat i; lower = minimum + index * width;
               upper = (if num_eq index (bins - lit 1) then maximum else Math_min maximum (lower + width - lit 1)) in (lower, upper))
           [0..<nat_of_jsnum bins])"

definition adaptiveHistogram :: "host \<Rightarrow> jsnum list \<Rightarrow> jsnum \<Rightarrow> (str \<times> nat) list" where
  "adaptiveHistogram h values requestedBins =
     (let observed = map (\<lambda>v. Math_max (lit 0) (Math_round v)) (filter isFinite values)
      in if observed = [] then []
         else let minimum = Math_min_list observed; maximum = Math_max_list observed
           in if num_eq minimum maximum then [(compactCount h minimum, length observed)]
              else map (\<lambda>(lower, upper). ((compactCount h lower @ ue ''~2013'' @ compactCount h upper),
                       length (filter (\<lambda>v. lower \<le> v \<and> v \<le> upper) observed)))
                     (adaptive_bounds minimum maximum requestedBins))"

section \<open>Slices\<close>

lemma chunks_length: "length xs \<le> n * p \<Longrightarrow> length (chunks n xs) \<le> p"
proof (induction n xs arbitrary: p rule: chunks.induct)
  case (1 n xs)
  show ?case
  proof (cases "xs = [] \<or> n = 0")
    case True
    then show ?thesis by (subst chunks.simps) simp
  next
    case False
    then obtain q where q: "p = Suc q" using "1.prems" by (cases p) auto
    then have "length (drop n xs) \<le> n * q" using "1.prems" by simp
    then have "length (chunks n (drop n xs)) \<le> q" using "1.IH" False by blast
    then show ?thesis using False q by (subst chunks.simps) simp
  qed
qed

lemma chunks_in: "b \<in> set (chunks n xs) \<Longrightarrow> b \<noteq> [] \<and> set b \<subseteq> set xs"
proof (induction n xs rule: chunks.induct)
  case (1 n xs)
  show ?case
  proof (cases "xs = [] \<or> n = 0")
    case True
    then show ?thesis using "1.prems" by (subst (asm) chunks.simps) simp
  next
    case False
    then consider "b = take n xs" | "b \<in> set (chunks n (drop n xs))" using "1.prems" by (subst (asm) chunks.simps) auto
    then show ?thesis
    proof cases
      case 1
      then show ?thesis using False by (auto dest: in_set_takeD)
    next
      case 2
      then show ?thesis using "1.IH" False in_set_dropD by fast
    qed
  qed
qed

lemma chunks_sorted:
  assumes "sorted (map f xs)" "\<And>b. b \<noteq> [] \<Longrightarrow> pick b \<in> set b"
  shows "sorted (map (\<lambda>b. f (pick b)) (chunks n xs))"
  using assms(1)
proof (induction n xs rule: chunks.induct)
  case (1 n xs)
  show ?case
  proof (cases "xs = [] \<or> n = 0")
    case True
    then show ?thesis by (subst chunks.simps) simp
  next
    case False
    have "sorted (map f (take n xs @ drop n xs))" using "1.prems" by simp
    then have s: "sorted (map f (drop n xs))" "\<forall>x\<in>set (take n xs). \<forall>y\<in>set (drop n xs). f x \<le> f y"
      unfolding map_append sorted_append by auto
    have "take n xs \<noteq> []" using False by simp
    then have "f (pick (take n xs)) \<le> f (pick b)" if "b \<in> set (chunks n (drop n xs))" for b
      using chunks_in [OF that] assms(2) [of b] assms(2) [of "take n xs"] s(2) by blast
    moreover have "sorted (map (\<lambda>b. f (pick b)) (chunks n (drop n xs)))" using "1.IH" False s(1) by blast
    ultimately show ?thesis using False by (subst chunks.simps) simp
  qed
qed

lemma chunk_size_enough:
  assumes "n \<le> 2 ^ 40" "1 \<le> p" "p \<le> 32"
  shows "n \<le> chunk_size (of_nat p) n * p"
proof -
  let ?k = "n div p"
  have l: "lit (of_nat p) = Fin (of_nat p)" using lit_of_int [of "int p"] assms(3) by simp
  have nn: "jsnum_of_nat n = Fin (of_nat n)" using assms(1) by (intro jsnum_of_nat_exact) simp
  have "mag_le (Fin (of_nat n) / Fin (of_nat p)) (40 + 0)"
  proof (rule mag_le_divide)
    have "(of_nat n :: rat) \<le> of_nat (2 ^ 40)" using assms(1) by (simp only: of_nat_le_iff)
    then show "mag_le (Fin (of_nat n)) 40" by (simp add: mag_le_def)
  qed (use assms(2) in simp_all)
  then have fin: "isFinite (Fin (of_nat n) / Fin (of_nat p))" by (simp add: mag_le_def)
  define x where "x = Fin (of_nat n) / Fin (of_nat p)"
  have x: "isFinite x" "val x = round64 (of_nat n / of_nat p)"
    using fin assms(2) by (auto simp: x_def finite_divide val_mk)
  have need: "of_nat n \<le> (of_int \<lceil>val x\<rceil> :: rat) * of_nat p"
  proof (cases "p dvd n")
    case True
    then have "of_nat n / of_nat p = (of_nat ?k :: rat)" using assms(2) by (auto elim!: dvdE)
    moreover have "?k \<le> 2 ^ 53" by (rule order_trans [OF div_le_dividend order_trans [OF assms(1)]]) simp
    ultimately have "val x = of_nat ?k" using x(2) by simp
    then show ?thesis using True by (simp flip: of_nat_mult)
  next
    case False
    have le: "of_nat (32 * ?k + 1) / 2 ^ 5 \<le> (of_nat n / of_nat p :: rat)"
    proof -
      have "n mod p \<noteq> 0" using False by (simp add: dvd_eq_mod_eq_0)
      then have "p * ?k + 1 \<le> n" using mult_div_mod_eq [of p n] by linarith
      then have "(32 * ?k + 1) * p \<le> 32 * n" using assms(3) by (simp add: algebra_simps)
      then have "of_nat ((32 * ?k + 1) * p) \<le> (of_nat (32 * n) :: rat)" by (simp only: of_nat_le_iff)
      then show ?thesis using assms(2) by (simp add: field_simps)
    qed
    have "?k \<le> 2 ^ 40" by (rule order_trans [OF div_le_dividend assms(1)])
    then have "\<bar>int (32 * ?k + 1)\<bar> \<le> 2 ^ 53" by simp
    then have "representable (of_int (int (32 * ?k + 1)) / 2 ^ 5)" by (rule representable_dyadic) simp
    then have "of_nat (32 * ?k + 1) / 2 ^ 5 \<le> val x" using round64_mono [OF le] x(2) by (simp add: representable_iff)
    then have "of_int (int ?k) < val x" by (rule less_le_trans [rotated]) simp
    then have "int ?k + 1 \<le> \<lceil>val x\<rceil>" by (simp add: less_ceiling_iff add1_zle_eq)
    then have "(of_int (int ?k + 1) :: rat) * of_nat p \<le> of_int \<lceil>val x\<rceil> * of_nat p" by (intro mult_right_mono) (simp_all only: of_int_le_iff of_nat_0_le_iff)
    moreover have "n \<le> (?k + 1) * p" using dividend_less_div_times [of p n] assms(2) by simp
    then have "of_nat n \<le> (of_nat ((?k + 1) * p) :: rat)" by (simp only: of_nat_le_iff)
    ultimately show ?thesis by (simp add: algebra_simps)
  qed
  have "\<lceil>val x\<rceil> \<le> int (chunk_size (of_nat p) n)"
  proof -
    have "Math_max (lit 1) (Math_ceil x) = int_num (max 1 \<lceil>val x\<rceil>)"
      using x(1) int_num_max [of 1 "\<lceil>val x\<rceil>"] by (cases x) (auto simp: Math_ceil_def int_num_def Math_max_def)
    then show ?thesis by (simp add: chunk_size_def l nn le_max_iff_disj flip: x_def)
  qed
  then have "of_int \<lceil>val x\<rceil> * of_nat p \<le> (of_int (int (chunk_size (of_nat p) n)) * of_nat p :: rat)"
    by (intro mult_right_mono) (simp_all only: of_int_le_iff of_nat_0_le_iff)
  then have "of_nat n \<le> (of_nat (chunk_size (of_nat p) n * p) :: rat)" using need by simp
  then show ?thesis by (simp only: of_nat_le_iff)
qed

lemma envelope_bounded:
  fixes points :: "'a list" and time first second :: "'a \<Rightarrow> jsnum" and p :: nat
  assumes "length points \<le> 2 ^ 40" "1 \<le> p" "p \<le> 32" "\<And>x. wf_num (time x)"
  defines "rows \<equiv> envelope (of_nat p) time first second points"
  shows "length rows \<le> p \<and> sorted (map (\<lambda>r. val (en_timestamp r)) rows)"
proof -
  let ?o = "sort_by (js_asc time) (filter (\<lambda>p. isFinite (time p)) points)"
  have "length ?o \<le> 2 ^ 40" using order_trans [OF length_filter_le assms(1)] by simp
  then have "length rows \<le> p" unfolding rows_def envelope_def Let_def using chunk_size_enough assms(2,3) by (simp add: chunks_length)
  moreover have "sorted (map (\<lambda>x. val (time x)) ?o)" by (rule js_asc_sorted) (use assms(4) in \<open>auto simp: num_ok_def\<close>)
  then have "sorted (map (\<lambda>b. val (time (b ! (length b div 2)))) (chunks n ?o))" for n
    using chunks_sorted [of "\<lambda>x. val (time x)" ?o "\<lambda>b. b ! (length b div 2)" n] by simp
  ultimately show ?thesis by (simp add: rows_def envelope_def Let_def comp_def)
qed

section \<open>Properties\<close>

text \<open>
  The three timelines of the pixel diagnostics have at most 24, 30 and 30 points, in order of time,
  for up to \<open>2^40\<close> artifacts.
\<close>

theorem timelines_bounded:
  assumes "length points \<le> 2 ^ 40"
  shows "length (temporalEnvelope h points) \<le> 24 \<and> sorted (map (\<lambda>r. val (en_timestamp r)) (temporalEnvelope h points)) \<and>
    length (legacyIntegrityTimeline h points) \<le> 30 \<and> sorted (map (\<lambda>r. val (en_timestamp r)) (legacyIntegrityTimeline h points)) \<and>
    length (legacyCadenceTimeline h points) \<le> 30 \<and> sorted (map (\<lambda>r. val (en_timestamp r)) (legacyCadenceTimeline h points))"
  using envelope_bounded [OF assms, of 24 "completion h"] envelope_bounded [OF assms, of 30 "completion h"]
  by (simp add: completion_def temporalEnvelope_def legacyIntegrityTimeline_def legacyCadenceTimeline_def)

definition sample_tpf :: tpf_transform_point where
  "sample_tpf = \<lparr>ttp_object_key = u ''a'', ttp_completed_at = u ''t'', ttp_diagnostics_observed = True, ttp_finite_pixel_fraction = lit 1,
     ttp_input_cadences = lit 5, ttp_output_cadences = lit 5, ttp_input_pixel_values = lit 9, ttp_normalized_pixel_values = lit 9,
     ttp_nonfinite_pixel_values = lit 0, ttp_invalid_reference_values = lit 0, ttp_invalid_reference_pixels = lit 0, ttp_scatter_p50_ppm = lit 10,
     ttp_scatter_p95_ppm = lit 20, ttp_drift_p50_ppm = lit 1, ttp_drift_p95_ppm = lit 2, ttp_boundary_jump_p50_ppm = lit 1,
     ttp_boundary_jump_p95_ppm = lit 2, ttp_chunk_count = lit 1\<rparr>"

theorem timelines_bounded_witness:
  "length (temporalEnvelope (sample_host\<lparr>date_parse := \<lambda>_. lit 0\<rparr>) (replicate 1000 sample_tpf)) \<le> 24"
  using timelines_bounded [of "replicate 1000 sample_tpf" "sample_host\<lparr>date_parse := \<lambda>_. lit 0\<rparr>"] by simp

text \<open>
  Every artifact whose defect density is a number lies in exactly one of the five bands of
  pixel integrity.
\<close>

theorem integrity_bands_partition:
  "(\<Sum>b\<leftarrow>integrityBandRows values. snd b) = length (filter (\<lambda>v. v \<noteq> NaN) values)"
proof -
  define e where "e = (\<lambda>i::nat. [NInf, lit (5 / 10), lit 10, lit 100, lit 1000] ! i)"
  have h: "Fin 0 < lit (5 / 10)" "lit (5 / 10) < Fin 10" by code_simp+
  have one: "of_bool (v \<le> lit (5 / 10)) + of_bool (lit (5 / 10) < v \<and> v \<le> lit 10) + of_bool (lit 10 < v \<and> v \<le> lit 100) +
      of_bool (lit 100 < v \<and> v \<le> lit 1000) + of_bool (lit 1000 < v) = (of_bool (v \<noteq> NaN) :: nat)" for v
    using h by (cases v; cases "lit (5 / 10)") (auto simp: num_not_le)
  have "(\<Sum>b\<leftarrow>integrityBandRows values. snd b) = (\<Sum>v\<leftarrow>values. of_bool (v \<le> lit (5 / 10)) + of_bool (lit (5 / 10) < v \<and> v \<le> lit 10) +
      of_bool (lit 10 < v \<and> v \<le> lit 100) + of_bool (lit 100 < v \<and> v \<le> lit 1000) + of_bool (lit 1000 < v))"
    by (simp add: integrityBandRows_def integrityBands_def length_filter_sum sum_list_addf)
  then show ?thesis by (simp only: one length_filter_sum)
qed

section \<open>The adaptive histogram\<close>

lemma adaptive_bounds_int:
  assumes "0 \<le> lo" "lo < hi" "hi \<le> 2 ^ 40" "1 \<le> b" "b \<le> 1024"
  obtains w n where "1 \<le> w" "1 \<le> n" "n \<le> b"
    "adaptive_bounds (int_num lo) (int_num hi) (int_num b) =
       map (\<lambda>i. (int_num (lo + int i * w), int_num (if int i = n - 1 then hi else min hi (lo + int i * w + w - 1)))) [0..<nat n]"
proof -
  let ?r = "hi - lo + 1"
  have range: "int_num hi - int_num lo + lit 1 = int_num ?r"
    using assms(1-3) by (simp add: int_num_lit int_num_sub int_num_add del: lit_one)
  have quot: "\<exists>k. Math_ceil (int_num ?r / int_num d) = int_num k \<and> 1 \<le> k \<and> k \<le> 2 ^ 41" if d: "1 \<le> d" "d \<le> 2 ^ 41" for d
  proof -
    have b: "(of_int ?r :: rat) \<le> of_int (2 ^ 41)" "(1 :: rat) \<le> of_int d" "(of_int d :: rat) \<le> of_int (2 ^ 41)" "(1 :: rat) \<le> of_int ?r"
      using assms(1-3) d by (simp_all only: of_int_le_iff of_int_1_le_iff, simp)
    let ?q = "(of_int ?r / of_int d :: rat)"
    have "?q \<le> of_int (2 ^ 41) / 1" "1 / of_int (2 ^ 41) \<le> ?q" by (rule frac_le; use b in linarith)+
    then have q: "1 / 2 ^ 41 \<le> ?q" "?q \<le> 2 ^ 41" by simp_all
    have "int_num ?r / int_num d = mk False ?q" using assms(2) d(1) by (simp add: finite_divide)
    moreover have "mag_le (mk False ?q) 41"
    proof (rule mag_le_mk)
      have "0 \<le> ?q" by (rule divide_nonneg_nonneg; use b in linarith)
      then show "\<bar>?q\<bar> \<le> 2 ^ 41" using q(2) by (simp only: abs_of_nonneg)
    qed simp
    moreover have "1 / 2 ^ 41 \<le> round64 ?q"
    proof -
      have "1 / 2 ^ 41 = (2 powi (- 41) :: rat)" by (simp add: power_int_minus)
      then show ?thesis using round64_mono [OF q(1)] round64_representable [OF representable_powi [of "- 41"]] by simp
    qed
    then have "0 < round64 ?q" by (rule less_le_trans [rotated]) simp
    ultimately obtain t where t: "int_num ?r / int_num d = Fin t" "0 < t" "t \<le> 2 ^ 41"
      by (rule_tac mk_cases [of ?q False]) (auto simp: mag_le_def)
    then have "0 < \<lceil>t\<rceil>" "\<lceil>t\<rceil> \<le> 2 ^ 41" by (simp_all add: ceiling_le_iff)
    then show ?thesis using t by (intro exI [of _ "\<lceil>t\<rceil>"]) (simp add: Math_ceil_def int_num_def)
  qed
  obtain k where k: "Math_ceil (int_num ?r / int_num b) = int_num k" "1 \<le> k" "k \<le> 2 ^ 41" using quot [of b] assms(4,5) by auto
  obtain j where j: "Math_ceil (int_num ?r / int_num k) = int_num j" "1 \<le> j" using quot [of k] k by auto
  have w: "Math_max (lit 1) (int_num k) = int_num k" using k(2) by (simp add: int_num_lit int_num_max del: lit_one)
  let ?n = "min b j"
  have n: "1 \<le> ?n" "?n \<le> b" "?n \<le> 1024" using assms(4,5) j(2) by auto
  have last: "int_num ?n - lit 1 = int_num (?n - 1)" using n by (simp add: int_num_lit int_num_sub del: lit_one)
  have low: "int_num lo + int_num (int i) * int_num k = int_num (lo + int i * k)" (is ?A)
    and upp: "int_num (lo + int i * k) + int_num k - lit 1 = int_num (lo + int i * k + k - 1)" (is ?B)
    and idx: "jsnum_of_nat i = int_num (int i)" (is ?C) if "i < nat ?n" for i
  proof -
    have i: "int i < 1024" using that n(3) by linarith
    have m: "int i * k \<le> 1024 * 2 ^ 41" using i k by (intro mult_mono) auto
    then have m': "int i * k \<le> 2 ^ 51" "0 \<le> int i * k" using k(2) by auto
    show ?C using i by (intro int_num_nat) simp
    show ?A using m' assms(1-3) k(2) by (simp add: int_num_mult int_num_add)
    have "0 \<le> lo + int i * k + k - 1" using m'(2) assms(1) k(2) by linarith
    moreover have "lo + int i * k + k \<le> 2 ^ 53" using m' assms(1-3) k(2,3) by simp
    ultimately show ?B unfolding int_num_lit(2) by (subst int_num_add, simp, subst int_num_sub) simp_all
  qed
  have "adaptive_bounds (int_num lo) (int_num hi) (int_num b) =
      map (\<lambda>i. (int_num (lo + int i * k), int_num (if int i = ?n - 1 then hi else min hi (lo + int i * k + k - 1)))) [0..<nat ?n]"
    unfolding adaptive_bounds_def Let_def range k(1) w j(1) int_num_min last nat_of_int_num
  proof (intro map_cong refl)
    fix x assume "x \<in> set [0..<nat ?n]"
    then have "x < nat ?n" by simp
    then show "(int_num lo + jsnum_of_nat x * int_num k,
         if num_eq (jsnum_of_nat x) (int_num (?n - 1)) then int_num hi
         else Math_min (int_num hi) (int_num lo + jsnum_of_nat x * int_num k + int_num k - lit 1)) =
        (int_num (lo + int x * k), int_num (if int x = ?n - 1 then hi else min hi (lo + int x * k + k - 1)))"
      by (simp only: idx low upp int_num_min int_num_eq if_distrib [of int_num])
  qed
  then show ?thesis using that [of k ?n] k(2) n by blast
qed

text \<open>Consecutive intervals of integers, the last one open to the maximum, cover every value once.\<close>

lemma intervals_cover:
  fixes lo hi w n v :: int
  assumes "1 \<le> w" "1 \<le> n" "lo \<le> v" "v \<le> hi"
  shows "(\<Sum>i<nat n. of_bool (lo + int i * w \<le> v \<and> v \<le> (if int i = n - 1 then hi else min hi (lo + int i * w + w - 1)))) = (1 :: nat)"
proof -
  define k where "k = nat n - 1"
  have k: "nat n = Suc k" "n = int k + 1" using assms(2) by (simp_all add: k_def)
  let ?b = "\<lambda>i. lo + int i * w \<le> v"
  have step: "?b (Suc i) \<longleftrightarrow> \<not> v \<le> lo + int i * w + w - 1" for i by (auto simp: algebra_simps)
  have "(\<Sum>i<k. of_bool (?b i \<and> \<not> ?b (Suc i))) + of_bool (?b k) = (of_bool (?b 0) :: nat)"
    by (rule telescope_bool) (use assms(1) in \<open>simp add: algebra_simps\<close>)
  moreover have "(\<Sum>i<k. of_bool (?b i \<and> v \<le> (if int i = n - 1 then hi else min hi (lo + int i * w + w - 1)))) =
      (\<Sum>i<k. of_bool (?b i \<and> \<not> ?b (Suc i)) :: nat)"
    using assms(4) by (intro sum.cong) (auto simp: k(2) algebra_simps)
  moreover have "int k = n - 1" using k(2) by simp
  ultimately show ?thesis using assms(3,4) unfolding k(1) sum.lessThan_Suc by (simp only: if_True simp_thms mult_zero_left add_0_right of_nat_0 of_bool_eq)
qed

definition counted :: "jsnum \<Rightarrow> bool" where
  "counted v = (isFinite v \<and> v \<le> lit (2 ^ 40))"

lemma rounded_int:
  assumes "counted v"
  shows "\<exists>i. Math_max (lit 0) (Math_round v) = int_num i \<and> 0 \<le> i \<and> i \<le> 2 ^ 40"
proof (cases v)
  case (Fin q)
  then have "q \<le> 2 ^ 40" using assms by (simp add: counted_def)
  then have "\<lfloor>q + 1 / 2\<rfloor> \<le> 2 ^ 40" by (simp add: floor_le_iff)
  moreover have "Math_max (lit 0) (Math_round v) = int_num (max 0 \<lfloor>q + 1 / 2\<rfloor>)"
    using Fin int_num_max [of 0 "\<lfloor>q + 1 / 2\<rfloor>"] by (auto simp: Math_round_def int_num_def Math_max_def)
  ultimately show ?thesis by (intro exI [of _ "max 0 \<lfloor>q + 1 / 2\<rfloor>"]) simp
next
  case NegZero
  then have "Math_max (lit 0) (Math_round v) = int_num 0" by (simp add: Math_round_def Math_max_def int_num_def)
  then show ?thesis by (intro exI [of _ 0]) simp
qed (use assms in \<open>simp_all add: counted_def\<close>)



end
