(* ===== verification/Preprocessing.thy ===== *)
theory Preprocessing
  imports DagHops
begin

text \<open>
  The preprocessing page (\<open>pages/preprocessing/page.tsx\<close>): the graph and the job it observes, the
  start and stop of a run, polling, the event stream and the refresh timer it arms. The effect runs
  anew for every active ticket; a call that awaits carries the number of the run of the effect it
  was made in, and answers arrive in any order. Shown: answers of an earlier ticket change nothing,
  the number of workers stays in its range, at most one refresh is armed; and that a change of
  the ticket while one is armed ends the refreshing by events for good.
\<close>

section \<open>Texts\<close>

definition prep_formatBytes :: "jsnum \<Rightarrow> str" where
  "prep_formatBytes v = (if \<not> isFinite v \<or> v \<le> lit 0 then emdash
     else if v < lit 1024 then (num_str v @ u '' B'')
     else if v < lit (1024 ^ 2) then (toFixed (v / lit 1024) 1 @ u '' KB'')
     else if v < lit (1024 ^ 3) then (toFixed (v / lit (1024 ^ 2)) 1 @ u '' MB'')
     else (toFixed (v / lit (1024 ^ 3)) 2 @ u '' GB''))"

definition prep_formatDate :: "host \<Rightarrow> str option \<Rightarrow> str" where
  "prep_formatDate h v = (case v of None \<Rightarrow> emdash
     | Some s \<Rightarrow> if s = [] then emdash else let date = date_parse h s in if isNaN date then s else locale_string h date)"

datatype badge = B_default | B_secondary | B_destructive | B_outline

definition prep_statusVariant :: "str \<Rightarrow> badge" where
  "prep_statusVariant status = (if status = u ''completed'' then B_default
     else if status = u ''failed'' then B_destructive
     else if status = u ''running'' \<or> status = u ''accepted'' \<or> status = u ''cancelling'' then B_secondary
     else B_outline)"

section \<open>State\<close>

datatype start_mode = SM_stream | SM_batch

definition start_mode_str :: "start_mode \<Rightarrow> str" where
  "start_mode_str m = (case m of SM_stream \<Rightarrow> u ''stream'' | SM_batch \<Rightarrow> u ''batch'')"

text \<open>Calls in flight: loads with the run of the effect, starts with the request body, stops with the encoded ticket.\<close>

datatype prep_call =
    LoadGraph nat
  | Start start_mode jsnum str
  | Stop str

text \<open>
  \<open>pe_refreshTimer\<close> is the ref with the identifier of the timeout, \<open>pe_armed\<close> the timeouts that will
  fire, each with the run of the effect whose \<open>loadGraph\<close> it calls.
\<close>

record prep_page =
  pe_activeTicket :: str
  pe_graph :: "PreprocessingGraph option"
  pe_startMode :: start_mode
  pe_workerCount :: jsnum
  pe_job :: "PreprocessingJob option"
  pe_startBusy :: bool
  pe_stopBusy :: bool
  pe_error :: "str option"
  pe_refreshTimer :: "nat option"
  pe_armed :: "(nat \<times> nat) list"
  pe_effect :: nat
  pe_calls :: "(nat \<times> prep_call) list"
  pe_next :: nat

definition call_prep :: "prep_call \<Rightarrow> prep_page \<Rightarrow> prep_page" where
  "call_prep c s = s\<lparr>pe_calls := pe_calls s @ [(pe_next s, c)], pe_next := Suc (pe_next s)\<rparr>"

section \<open>The effect\<close>

definition loadGraph :: "nat \<Rightarrow> prep_page \<Rightarrow> prep_page" where
  "loadGraph run s = call_prep (LoadGraph run) s"

definition graph_settled :: "nat \<Rightarrow> str option + partial_graph \<Rightarrow> prep_page \<Rightarrow> prep_page" where
  "graph_settled run res s = (if run \<noteq> pe_effect s then s
     else case res of
         Inr nxt \<Rightarrow>
           let normalized = normalizePreprocessingGraph (Some nxt); s1 = s\<lparr>pe_graph := Some normalized\<rparr>;
               s2 = (case pg_run normalized of
                   Some job \<Rightarrow> if pj_ticket_id job \<noteq> [] then s1\<lparr>pe_job := Some job\<rparr> else s1 | None \<Rightarrow> s1)
           in s2\<lparr>pe_error := None\<rparr>
       | Inl e \<Rightarrow> s\<lparr>pe_error := Some (nullish e (u ''Observation unavailable''))\<rparr>)"

definition initial_prep :: "str \<Rightarrow> prep_page" where
  "initial_prep ticket = loadGraph 0
     \<lparr>pe_activeTicket = ticket, pe_graph = None, pe_startMode = SM_stream, pe_workerCount = lit 4, pe_job = None,
      pe_startBusy = False, pe_stopBusy = False, pe_error = None, pe_refreshTimer = None, pe_armed = [],
      pe_effect = 0, pe_calls = [], pe_next = 0\<rparr>"

text \<open>
  The cleanup of the effect clears the timeout of the ref and leaves the ref as it is; then the
  effect runs for the new ticket.
\<close>

definition effect_cleanup :: "prep_page \<Rightarrow> prep_page" where
  "effect_cleanup s = (case pe_refreshTimer s of None \<Rightarrow> s
     | Some t \<Rightarrow> s\<lparr>pe_armed := filter (\<lambda>e. fst e \<noteq> t) (pe_armed s)\<rparr>)"

definition change_ticket :: "str \<Rightarrow> prep_page \<Rightarrow> prep_page" where
  "change_ticket ticket s = (if ticket = pe_activeTicket s then s
     else let s1 = (effect_cleanup s)\<lparr>pe_activeTicket := ticket, pe_effect := Suc (pe_effect s)\<rparr>
          in loadGraph (pe_effect s1) s1)"

text \<open>
  A workflow event; the payload is \<open>None\<close> when the data does not parse or has none. The identifier
  of a new timeout is one not used before.
\<close>

definition on_prep_workflow :: "PreprocessingJob option \<Rightarrow> prep_page \<Rightarrow> prep_page" where
  "on_prep_workflow payload s =
     (let s1 = (case payload of Some job \<Rightarrow> if pj_ticket_id job \<noteq> [] then s\<lparr>pe_job := Some job\<rparr> else s | None \<Rightarrow> s)
      in if pe_refreshTimer s1 = None
         then s1\<lparr>pe_refreshTimer := Some (pe_next s1), pe_armed := pe_armed s1 @ [(pe_next s1, pe_effect s1)], pe_next := Suc (pe_next s1)\<rparr>
         else s1)"

definition timer_fires :: "nat \<Rightarrow> prep_page \<Rightarrow> prep_page" where
  "timer_fires t s = (case map_of (pe_armed s) t of None \<Rightarrow> s
     | Some run \<Rightarrow> loadGraph run (s\<lparr>pe_armed := filter (\<lambda>e. fst e \<noteq> t) (pe_armed s), pe_refreshTimer := None\<rparr>))"

definition poll_tick :: "prep_page \<Rightarrow> prep_page" where
  "poll_tick s = loadGraph (pe_effect s) s"

section \<open>Controls\<close>

definition activeRun :: "prep_page \<Rightarrow> PreprocessingJob option" where
  "activeRun s = nullish2 (Option.bind (pe_graph s) pg_run) (pe_job s)"

definition prep_isRunning :: "prep_page \<Rightarrow> bool" where
  "prep_isRunning s = (case activeRun s of Some r \<Rightarrow> pj_status r = u ''running'' \<or> pj_status r = u ''accepted'' | None \<Rightarrow> False)"

definition startPreprocessing :: "prep_page \<Rightarrow> prep_page" where
  "startPreprocessing s = call_prep (Start (pe_startMode s) (pe_workerCount s) (pe_activeTicket s)) (s\<lparr>pe_startBusy := True, pe_error := None\<rparr>)"

definition start_settled :: "str option + PreprocessingJob \<Rightarrow> prep_page \<Rightarrow> prep_page" where
  "start_settled res s = (case res of
      Inr job \<Rightarrow> s\<lparr>pe_job := Some job\<rparr>
    | Inl e \<Rightarrow> s\<lparr>pe_error := Some (nullish e (u ''Failed to start preprocessing run''))\<rparr>)\<lparr>pe_startBusy := False\<rparr>"

definition stop_settled :: "str option + PreprocessingJob \<Rightarrow> prep_page \<Rightarrow> prep_page" where
  "stop_settled res s = (case res of
      Inr job \<Rightarrow> s\<lparr>pe_job := Some job, pe_graph := map_option (\<lambda>g. g\<lparr>pg_run := Some job\<rparr>) (pe_graph s)\<rparr>
    | Inl e \<Rightarrow> s\<lparr>pe_error := Some (nullish e (u ''Failed to stop preprocessing run''))\<rparr>)\<lparr>pe_stopBusy := False\<rparr>"

text \<open>A ticket that cannot be encoded throws a \<open>URIError\<close> inside the \<open>try\<close>.\<close>

definition stopPreprocessing :: "prep_page \<Rightarrow> prep_page" where
  "stopPreprocessing s = (case activeRun s of None \<Rightarrow> s
    | Some r \<Rightarrow> if pj_ticket_id r = [] then s
        else let s1 = s\<lparr>pe_stopBusy := True, pe_error := None\<rparr>
          in case encodeURIComponent (pj_ticket_id r) of
              None \<Rightarrow> stop_settled (Inl (Some (u ''URI malformed''))) s1
            | Some key \<Rightarrow> call_prep (Stop key) s1)"

definition setStartMode :: "start_mode \<Rightarrow> prep_page \<Rightarrow> prep_page" where
  "setStartMode m s = s\<lparr>pe_startMode := m\<rparr>"

definition setWorkerCount :: "str \<Rightarrow> prep_page \<Rightarrow> prep_page" where
  "setWorkerCount v s =
     s\<lparr>pe_workerCount := Math_max (lit 1) (Math_min (lit 64) (if truthy (Number_of_str v) then Number_of_str v else lit 1))\<rparr>"

datatype prep_answer =
    A_graph "str option + partial_graph"
  | A_job "str option + PreprocessingJob"

definition settle_prep :: "nat \<Rightarrow> prep_answer \<Rightarrow> prep_page \<Rightarrow> prep_page" where
  "settle_prep r answer s0 =
     (let s = s0\<lparr>pe_calls := filter (\<lambda>c. fst c \<noteq> r) (pe_calls s0)\<rparr> in
      case (map_of (pe_calls s0) r, answer) of
        (Some (LoadGraph run), A_graph res) \<Rightarrow> graph_settled run res s
      | (Some (Start m n t), A_job res) \<Rightarrow> start_settled res s
      | (Some (Stop key), A_job res) \<Rightarrow> stop_settled res s
      | _ \<Rightarrow> s0)"

section \<open>Figures\<close>

definition prep_activeStatus :: "prep_page \<Rightarrow> str option" where
  "prep_activeStatus s =
     (let v = toLowerCase (opt_or_str (map_option pj_status (activeRun s)) (case pe_graph s of Some g \<Rightarrow> status_text (pg_status g) | None \<Rightarrow> []))
      in if v = u ''not_observed'' then None else Some v)"

definition runtimeWorkers :: "prep_page \<Rightarrow> graph_worker list" where
  "runtimeWorkers s = filter (\<lambda>w. gw_state w \<noteq> u ''stopped'') (case pe_graph s of Some g \<Rightarrow> gr_workers (pg_runtime g) | None \<Rightarrow> [])"

definition desiredWorkers :: "prep_page \<Rightarrow> jsnum" where
  "desiredWorkers s = (case pe_graph s of Some g \<Rightarrow> gr_desired_workers (pg_runtime g)
     | None \<Rightarrow> nullish (map_option pj_worker_count (activeRun s)) (pe_workerCount s))"

definition completedItems :: "prep_page \<Rightarrow> jsnum" where
  "completedItems s = (case pe_graph s of Some g \<Rightarrow> gp_checkpoint_completed (pg_progress g) | None \<Rightarrow> lit 0)"

definition totalItems :: "prep_page \<Rightarrow> jsnum" where
  "totalItems s = (case pe_graph s of None \<Rightarrow> lit 0
     | Some g \<Rightarrow> let c = gp_checkpoint_total (pg_progress g); b = gp_bronze_total (pg_progress g)
         in if truthy c then c else if truthy b then b else lit 0)"

definition completionPercent :: "prep_page \<Rightarrow> jsnum" where
  "completionPercent s = (if lit 0 < totalItems s then Math_min (lit 100) (completedItems s / totalItems s * lit 100) else lit 0)"

definition completion_text :: "prep_page \<Rightarrow> str" where
  "completion_text s = (let p = completionPercent s in toFixed p (if lit 0 < p \<and> p < lit 1 then 1 else 0))"

text \<open>What the controls offer: a run to stop, or else to launch.\<close>

datatype prep_button = Stop_button bool | Launch_button bool

definition run_button :: "prep_page \<Rightarrow> prep_button" where
  "run_button s = (if prep_isRunning s then Stop_button (\<not> pe_stopBusy s) else Launch_button (\<not> pe_startBusy s))"

section \<open>Steps\<close>

datatype prep_event =
    Ticket str
  | Workflow "PreprocessingJob option"
  | Fires nat
  | Tick
  | Answer nat prep_answer
  | Start_click
  | Stop_click
  | Mode start_mode
  | Workers str

fun prep_step :: "prep_page \<Rightarrow> prep_event \<Rightarrow> prep_page" where
  "prep_step s (Ticket t) = change_ticket t s"
| "prep_step s (Workflow p) = on_prep_workflow p s"
| "prep_step s (Fires t) = timer_fires t s"
| "prep_step s Tick = poll_tick s"
| "prep_step s (Answer r a) = settle_prep r a s"
| "prep_step s Start_click = startPreprocessing s"
| "prep_step s Stop_click = stopPreprocessing s"
| "prep_step s (Mode m) = setStartMode m s"
| "prep_step s (Workers v) = setWorkerCount v s"

lemmas prep_defs = change_ticket_def effect_cleanup_def on_prep_workflow_def timer_fires_def poll_tick_def loadGraph_def call_prep_def
  startPreprocessing_def stopPreprocessing_def setStartMode_def setWorkerCount_def

lemmas settle_defs = settle_prep_def graph_settled_def start_settled_def stop_settled_def

section \<open>Invariants\<close>

definition prep_ok :: "prep_page \<Rightarrow> bool" where
  "prep_ok s \<longleftrightarrow> (pe_armed s = [] \<or> (\<exists>t. pe_armed s = [(t, pe_effect s)] \<and> pe_refreshTimer s = Some t)) \<and>
     lit 1 \<le> pe_workerCount s \<and> pe_workerCount s \<le> lit 64"

lemma settle_keeps:
  "pe_armed (settle_prep r a s) = pe_armed s \<and> pe_refreshTimer (settle_prep r a s) = pe_refreshTimer s \<and>
   pe_effect (settle_prep r a s) = pe_effect s \<and> pe_workerCount (settle_prep r a s) = pe_workerCount s \<and>
   pe_activeTicket (settle_prep r a s) = pe_activeTicket s"
  by (auto simp: settle_defs Let_def split: option.splits prep_call.splits prep_answer.splits sum.splits)

lemma stop_keeps:
  "pe_armed (stopPreprocessing s) = pe_armed s \<and> pe_refreshTimer (stopPreprocessing s) = pe_refreshTimer s \<and>
   pe_effect (stopPreprocessing s) = pe_effect s \<and> pe_workerCount (stopPreprocessing s) = pe_workerCount s"
  by (auto simp: stopPreprocessing_def stop_settled_def call_prep_def Let_def split: option.splits)

lemma worker_clamp: "lit 1 \<le> Math_max (lit 1) (Math_min (lit 64) (if truthy x then x else lit 1)) \<and>
    Math_max (lit 1) (Math_min (lit 64) (if truthy x then x else lit 1)) \<le> lit 64"
  by (cases x) (auto simp: Math_max_def Math_min_def truthy_def)

interpretation prep_run: reducer prep_step prep_ok
proof
  fix s e
  assume ok: "prep_ok s"
  show "prep_ok (prep_step s e)"
  proof (cases e)
    case (Ticket t)
    then show ?thesis using ok by (auto simp: prep_ok_def prep_defs Let_def split: option.splits)
  next
    case (Workflow p)
    then show ?thesis using ok by (auto simp: prep_ok_def on_prep_workflow_def Let_def split: option.splits)
  next
    case (Fires t)
    then show ?thesis using ok by (auto simp: prep_ok_def timer_fires_def loadGraph_def call_prep_def split: option.splits if_splits)
  next
    case (Workers v)
    then show ?thesis using ok worker_clamp [of "Number_of_str v"] by (simp add: prep_ok_def setWorkerCount_def)
  qed (use ok settle_keeps stop_keeps in \<open>auto simp: prep_ok_def prep_defs [unfolded stopPreprocessing_def]\<close>)
qed

lemma prep_initial_ok: "prep_ok (initial_prep ticket)"
  by (simp add: prep_ok_def initial_prep_def loadGraph_def call_prep_def)

text \<open>
  Whatever is clicked, typed, streamed and answered, in any order and over any change of
  the ticket, at most one refresh is armed, for the current ticket, and the number of workers of
  the next request lies between 1 and 64.
\<close>

theorem preprocessing_controls_sound:
  fixes es :: "prep_event list" and ticket :: str
  defines "s \<equiv> foldl prep_step (initial_prep ticket) es"
  shows "length (pe_armed s) \<le> 1 \<and> map snd (pe_armed s) = replicate (length (pe_armed s)) (pe_effect s) \<and>
    lit 1 \<le> pe_workerCount s \<and> pe_workerCount s \<le> lit 64"
  using prep_run.run_inv [OF prep_initial_ok, of ticket es] unfolding s_def prep_ok_def by auto

text \<open>The ref names a timeout that is gone: no event arms another one.\<close>

definition refresh_dead :: "prep_page \<Rightarrow> bool" where
  "refresh_dead s \<longleftrightarrow> pe_refreshTimer s \<noteq> None \<and> pe_armed s = []"

interpretation dead_run: reducer prep_step refresh_dead
proof
  fix s e
  assume "refresh_dead s"
  then show "refresh_dead (prep_step s e)"
    using settle_keeps stop_keeps
    by (cases e) (auto simp: refresh_dead_def change_ticket_def effect_cleanup_def on_prep_workflow_def timer_fires_def poll_tick_def loadGraph_def
        call_prep_def startPreprocessing_def setStartMode_def setWorkerCount_def Let_def split: option.splits)
qed

text \<open>
  When the ticket changes while a refresh is armed, the cleanup clears the timeout
  but not the ref: from then on no workflow event arms a refresh, whatever happens, and the page
  lives on its polling alone.
\<close>

theorem refresh_lost_after_ticket_change:
  fixes es es' :: "prep_event list" and ticket ticket' :: str
  defines "s \<equiv> foldl prep_step (initial_prep ticket) es"
  assumes "pe_armed s \<noteq> []" "ticket' \<noteq> pe_activeTicket s"
  shows "pe_armed (foldl prep_step (change_ticket ticket' s) es') = []"
proof -
  have "prep_ok s" unfolding s_def by (rule prep_run.run_inv [OF prep_initial_ok])
  then have "refresh_dead (change_ticket ticket' s)"
    using assms(2,3) by (auto simp: prep_ok_def refresh_dead_def change_ticket_def effect_cleanup_def loadGraph_def call_prep_def Let_def)
  then show ?thesis using dead_run.run_inv [of "change_ticket ticket' s" es'] by (simp add: refresh_dead_def)
qed

theorem refresh_lost_after_ticket_change_witness:
  "pe_armed (foldl prep_step (change_ticket (u ''B'') (foldl prep_step (initial_prep (u ''A'')) [Workflow None])) [Workflow None, Tick, Workflow None]) = []"
proof -
  have "pe_armed (foldl prep_step (initial_prep (u ''A'')) [Workflow None]) \<noteq> []"
    by (simp add: initial_prep_def loadGraph_def call_prep_def on_prep_workflow_def)
  moreover have "u ''B'' \<noteq> pe_activeTicket (foldl prep_step (initial_prep (u ''A'')) [Workflow None])"
    by (simp add: initial_prep_def loadGraph_def call_prep_def on_prep_workflow_def)
  ultimately show ?thesis by (rule refresh_lost_after_ticket_change)
qed

text \<open>
  A run that was just launched is hidden behind the finished run of the graph: after the answer
  the page still offers to launch, until the graph is loaded again.
\<close>

theorem launch_offered_again:
  fixes s :: prep_page and g :: PreprocessingGraph and old job :: PreprocessingJob
  assumes "pe_graph s = Some g" "pg_run g = Some old" "pj_status old = u ''completed''"
  shows "activeRun (start_settled (Inr job) s) = Some old \<and> run_button (start_settled (Inr job) s) = Launch_button True"
  using assms by (simp add: activeRun_def start_settled_def run_button_def prep_isRunning_def nullish2_def)

text \<open>Loads are numbered by the run of the effect they were made in, never by a later one.\<close>

definition runs_ok :: "prep_page \<Rightarrow> bool" where
  "runs_ok s \<longleftrightarrow> list_all (\<lambda>c. case snd c of LoadGraph run \<Rightarrow> run \<le> pe_effect s | _ \<Rightarrow> True) (pe_calls s) \<and>
     list_all (\<lambda>c. fst c < pe_next s) (pe_calls s) \<and> list_all (\<lambda>e. snd e \<le> pe_effect s) (pe_armed s)"

lemma runs_ok_call: "runs_ok s \<Longrightarrow> (\<And>run. c = LoadGraph run \<Longrightarrow> run \<le> pe_effect s) \<Longrightarrow> runs_ok (call_prep c s)"
  by (auto simp: runs_ok_def call_prep_def list_all_iff split: prep_call.splits)

lemma runs_ok_mono: "runs_ok s \<Longrightarrow> pe_effect s \<le> pe_effect s' \<Longrightarrow> pe_next s \<le> pe_next s' \<Longrightarrow>
    set (pe_calls s') \<subseteq> set (pe_calls s) \<Longrightarrow> set (pe_armed s') \<subseteq> set (pe_armed s) \<Longrightarrow> runs_ok s'"
  unfolding runs_ok_def list_all_iff by (fastforce split: prep_call.splits)

interpretation runs_run: reducer prep_step runs_ok
proof
  fix s e
  assume ok: "runs_ok s"
  show "runs_ok (prep_step s e)"
  proof (cases e)
    case (Ticket t)
    have "runs_ok ((effect_cleanup s)\<lparr>pe_activeTicket := t, pe_effect := Suc (pe_effect s)\<rparr>)"
      by (rule runs_ok_mono [OF ok]) (auto simp: effect_cleanup_def split: option.splits)
    then show ?thesis using Ticket ok by (auto simp: change_ticket_def loadGraph_def Let_def intro!: runs_ok_call)
  next
    case (Workflow p)
    then show ?thesis using ok by (auto simp: runs_ok_def on_prep_workflow_def Let_def list_all_iff split: option.splits prep_call.splits)
  next
    case (Fires t)
    show ?thesis
    proof (cases "map_of (pe_armed s) t")
      case (Some run)
      then have "run \<le> pe_effect s" using ok map_of_SomeD [OF Some] by (auto simp: runs_ok_def list_all_iff)
      moreover have "runs_ok (s\<lparr>pe_armed := filter (\<lambda>e. fst e \<noteq> t) (pe_armed s), pe_refreshTimer := None\<rparr>)"
        by (rule runs_ok_mono [OF ok]) auto
      ultimately show ?thesis using Fires Some by (auto simp: timer_fires_def loadGraph_def intro!: runs_ok_call)
    qed (use Fires ok in \<open>simp add: timer_fires_def\<close>)
  next
    case Tick
    then show ?thesis using ok by (auto simp: poll_tick_def loadGraph_def intro!: runs_ok_call)
  next
    case (Answer r a)
    have "runs_ok (settle_prep r a s)"
      by (rule runs_ok_mono [OF ok])
        (auto simp: settle_defs Let_def split: option.splits prep_call.splits prep_answer.splits sum.splits)
    then show ?thesis using Answer by simp
  next
    case Start_click
    have "runs_ok (s\<lparr>pe_startBusy := True, pe_error := None\<rparr>)" by (rule runs_ok_mono [OF ok]) auto
    then show ?thesis using Start_click by (auto simp: startPreprocessing_def intro!: runs_ok_call)
  next
    case Stop_click
    have "runs_ok (s\<lparr>pe_stopBusy := True, pe_error := None\<rparr>)" "runs_ok (s\<lparr>pe_error := e, pe_stopBusy := False\<rparr>)" for e
      by (rule runs_ok_mono [OF ok]; simp)+
    then show ?thesis using Stop_click ok
      by (auto simp: stopPreprocessing_def stop_settled_def Let_def intro!: runs_ok_call split: option.splits)
  next
    case (Mode m)
    have "runs_ok (setStartMode m s)" by (rule runs_ok_mono [OF ok]) (simp_all add: setStartMode_def)
    then show ?thesis using Mode by simp
  next
    case (Workers v)
    have "runs_ok (setWorkerCount v s)" by (rule runs_ok_mono [OF ok]) (simp_all add: setWorkerCount_def)
    then show ?thesis using Workers by simp
  qed
qed

text \<open>
  After the ticket changed, the answer of a load that was made for an earlier ticket,
  good or bad, changes nothing on the page.
\<close>

theorem earlier_ticket_answers_dropped:
  fixes es :: "prep_event list" and ticket ticket' :: str
  defines "s \<equiv> foldl prep_step (initial_prep ticket) es"
  assumes "ticket' \<noteq> pe_activeTicket s" "map_of (pe_calls s) r = Some (LoadGraph run)"
  shows "settle_prep r (A_graph res) (change_ticket ticket' s) =
    (change_ticket ticket' s)\<lparr>pe_calls := filter (\<lambda>c. fst c \<noteq> r) (pe_calls (change_ticket ticket' s))\<rparr>"
proof -
  have "runs_ok (initial_prep ticket)" by (simp add: runs_ok_def initial_prep_def loadGraph_def call_prep_def)
  then have ok: "runs_ok s" unfolding s_def by (rule runs_run.run_inv)
  have m: "(r, LoadGraph run) \<in> set (pe_calls s)" by (rule map_of_SomeD [OF assms(3)])
  then have "run < Suc (pe_effect s)" using ok by (auto simp: runs_ok_def list_all_iff)
  moreover have "pe_calls (change_ticket ticket' s) = pe_calls s @ [(pe_next s, LoadGraph (Suc (pe_effect s)))]" "pe_effect (change_ticket ticket' s) = Suc (pe_effect s)"
    using assms(2) by (auto simp: change_ticket_def effect_cleanup_def loadGraph_def call_prep_def Let_def split: option.splits)
  ultimately show ?thesis using assms(3) by (simp add: settle_prep_def graph_settled_def Let_def map_add_def map_of_append)
qed

theorem earlier_ticket_answers_dropped_witness:
  "pe_error (settle_prep 0 (A_graph (Inl None)) (change_ticket (u ''B'') (foldl prep_step (initial_prep (u ''A'')) []))) = None"
proof -
  have "map_of (pe_calls (foldl prep_step (initial_prep (u ''A'')) [])) 0 = Some (LoadGraph 0)"
    "u ''B'' \<noteq> pe_activeTicket (foldl prep_step (initial_prep (u ''A'')) [])"
    by (simp_all add: initial_prep_def loadGraph_def call_prep_def)
  from earlier_ticket_answers_dropped [OF this(2,1), of "Inl None"]
  show ?thesis by (simp add: change_ticket_def effect_cleanup_def initial_prep_def loadGraph_def call_prep_def)
qed

end
