(* ===== verification/Inspector.thy ===== *)
theory Inspector
  imports LakehouseCatalog NumArray JsConvert
begin

text \<open>
  The lakehouse inspector (\<open>pages/lakehouse-inspector\<close>): the page with its preview requests, whose
  answers arrive in any order, and the sections for Parquet and FITS objects with their sorting,
  paging and filters. Shown: what the pager asks for, the order of the sorted rows, and where
  late answers, texts not submitted and kept selections show something else than asked.
\<close>

section \<open>\<open>JSON.stringify\<close>\<close>

definition hex_lower :: "nat \<Rightarrow> nat" where
  "hex_lower d = (if d < 10 then 48 + d else 87 + d)"

definition unicode_escape :: "nat \<Rightarrow> str" where
  "unicode_escape c = [92, 117, hex_lower (c div 4096 mod 16), hex_lower (c div 256 mod 16), hex_lower (c div 16 mod 16), hex_lower (c mod 16)]"

text \<open>Quotes, backslashes, control characters and lone surrogates are escaped.\<close>

definition quote_unit :: "nat \<Rightarrow> str" where
  "quote_unit c = (if c = 34 \<or> c = 92 then [92, c] else if c = 8 then [92, 98] else if c = 9 then [92, 116]
     else if c = 10 then [92, 110] else if c = 12 then [92, 102] else if c = 13 then [92, 114]
     else if c < 32 \<or> 55296 \<le> c \<and> c \<le> 57343 then unicode_escape c else [c])"

fun quote_units :: "str \<Rightarrow> str" where
  "quote_units [] = []"
| "quote_units [c] = quote_unit c"
| "quote_units (c # d # s) = (if 55296 \<le> c \<and> c \<le> 56319 \<and> 56320 \<le> d \<and> d \<le> 57343 then c # d # quote_units s
     else quote_unit c @ quote_units (d # s))"

definition json_quote :: "str \<Rightarrow> str" where
  "json_quote s = 34 # quote_units s @ [34]"

fun join_with :: "str \<Rightarrow> str list \<Rightarrow> str" where
  "join_with sep [] = []"
| "join_with sep [s] = s"
| "join_with sep (s # t # ss) = s @ sep @ join_with sep (t # ss)"

text \<open>The text of a list of parts between brackets, on one line without a gap and on lines of their own with one.\<close>

definition bracketed :: "str \<Rightarrow> str \<Rightarrow> nat \<Rightarrow> nat \<Rightarrow> str list \<Rightarrow> str" where
  "bracketed gap ind l r parts = (if parts = [] then [l, r]
     else if gap = [] then l # join_with [44] parts @ [r]
     else l # 10 # (ind @ gap) @ join_with ([44, 10] @ ind @ gap) parts @ 10 # ind @ [r])"

fun stringify :: "str \<Rightarrow> str \<Rightarrow> json \<Rightarrow> str" where
  "stringify gap ind JNull = u ''null''"
| "stringify gap ind (JBool b) = (if b then u ''true'' else u ''false'')"
| "stringify gap ind (JNum x) = (if isFinite x then num_str x else u ''null'')"
| "stringify gap ind (JStr s) = json_quote s"
| "stringify gap ind (JArr vs) = bracketed gap ind 91 93 (map (stringify gap (ind @ gap)) vs)"
| "stringify gap ind (JObj fs) = bracketed gap ind 123 125
     (map (\<lambda>(k, v). json_quote k @ 58 # (if gap = [] then [] else [32]) @ stringify gap (ind @ gap) v) fs)"

definition JSON_stringify :: "str \<Rightarrow> json \<Rightarrow> str" where
  "JSON_stringify gap v = stringify gap [] v"

text \<open>The text of the JSON section; content that is \<open>undefined\<close> has none.\<close>

definition jsonString :: "StoragePreviewResponse \<Rightarrow> str option" where
  "jsonString d = map_option (JSON_stringify (u ''  '')) (pv_json_content d)"

section \<open>Parquet\<close>

definition cellValue :: "json option \<Rightarrow> str" where
  "cellValue v = (case v of None \<Rightarrow> emdash | Some JNull \<Rightarrow> emdash
     | Some (JArr vs) \<Rightarrow> JSON_stringify [] (JArr vs) | Some (JObj fs) \<Rightarrow> JSON_stringify [] (JObj fs)
     | Some j \<Rightarrow> String_of (Some j))"

datatype sort_direction = Asc | Desc

text \<open>
  \<open>collate\<close> is \<open>localeCompare\<close> with the options \<open>numeric\<close> and \<open>sensitivity: base\<close>, which is the
  implementation's.
\<close>

definition compareValues :: "(str \<Rightarrow> str \<Rightarrow> int) \<Rightarrow> json option \<Rightarrow> json option \<Rightarrow> sort_direction \<Rightarrow> jsnum" where
  "compareValues collate l r dir =
     (let leftNum = Number_of l; rightNum = Number_of r;
          comp = (if isFinite leftNum \<and> isFinite rightNum then leftNum - rightNum
                  else int_num (collate (cellValue l) (cellValue r)))
      in if dir = Asc then comp else - comp)"

record parquet_view =
  pqv_schemaOpen :: bool
  pqv_sortColumn :: "str option"
  pqv_sortDirection :: sort_direction

definition initial_parquet :: parquet_view where
  "initial_parquet = \<lparr>pqv_schemaOpen = False, pqv_sortColumn = None, pqv_sortDirection = Asc\<rparr>"

definition row_le :: "(str \<Rightarrow> str \<Rightarrow> int) \<Rightarrow> str \<Rightarrow> sort_direction \<Rightarrow> (str \<times> json) list \<Rightarrow> (str \<times> json) list \<Rightarrow> bool" where
  "row_le collate col dir a b = (compareValues collate (map_of a col) (map_of b col) dir \<le> lit 0)"

definition sortedRows :: "(str \<Rightarrow> str \<Rightarrow> int) \<Rightarrow> StorageParquetPreview \<Rightarrow> parquet_view \<Rightarrow> (str \<times> json) list list" where
  "sortedRows collate p v = (case pqv_sortColumn v of None \<Rightarrow> pp_rows p
     | Some col \<Rightarrow> if col = [] then pp_rows p else sort_by (row_le collate col (pqv_sortDirection v)) (pp_rows p))"

definition toggleSort :: "str \<Rightarrow> parquet_view \<Rightarrow> parquet_view" where
  "toggleSort colName v = (if pqv_sortColumn v = Some colName
     then v\<lparr>pqv_sortDirection := (if pqv_sortDirection v = Asc then Desc else Asc)\<rparr>
     else v\<lparr>pqv_sortColumn := Some colName, pqv_sortDirection := Asc\<rparr>)"

definition inspector_PAGE_SIZE :: jsnum where
  "inspector_PAGE_SIZE = lit 25"

definition range_text :: "host \<Rightarrow> StorageParquetPreview \<Rightarrow> str" where
  "range_text h p = (u ''Showing '' @ num_str (pp_offset p + lit 1)) @ [8211] @
     (num_str (Math_min (pp_offset p + jsnum_of_nat (length (pp_rows p))) (pp_matched_rows p)) @ u '' of '' @ number_locale h None (pp_matched_rows p) @ u '' matched rows'')"

definition row_number :: "StorageParquetPreview \<Rightarrow> nat \<Rightarrow> jsnum" where
  "row_number p idx = pp_offset p + jsnum_of_nat idx + lit 1"

definition page_text :: "jsnum \<Rightarrow> StorageParquetPreview \<Rightarrow> str" where
  "page_text page p = (u ''Page '' @ num_str (page + lit 1) @ u '' / '' @ num_str (Math_max (lit 1) (Math_ceil (pp_matched_rows p / inspector_PAGE_SIZE))))"

definition prev_disabled :: "jsnum \<Rightarrow> bool \<Rightarrow> bool" where
  "prev_disabled page loading \<longleftrightarrow> num_eq page (lit 0) \<or> loading"

definition next_disabled :: "jsnum \<Rightarrow> StorageParquetPreview \<Rightarrow> bool \<Rightarrow> bool" where
  "next_disabled page p loading \<longleftrightarrow> pp_matched_rows p \<le> (page + lit 1) * inspector_PAGE_SIZE \<or> loading"

section \<open>FITS\<close>

definition formatTableCell :: "host \<Rightarrow> json option \<Rightarrow> str option \<Rightarrow> str" where
  "formatTableCell h v ty = (case v of None \<Rightarrow> emdash | Some JNull \<Rightarrow> emdash
     | Some (JNum x) \<Rightarrow> if isInteger x then number_locale h None x
         else if ty = Some (u ''float64'') then toFixed x 5 else toFixed x 3
     | Some j \<Rightarrow> String_of (Some j))"

datatype fits_view_mode = V_table | V_cards

record fits_view =
  fv_activeHduIndex :: jsnum
  fv_viewMode :: fits_view_mode
  fv_fitsFilter :: str
  fv_tableFilter :: str

definition activeHDU :: "StorageFITSPreview \<Rightarrow> fits_view \<Rightarrow> StorageFITSHDU option" where
  "activeHDU f v = arr_idx (fp_hdus f) (fv_activeHduIndex v)"

definition active_table :: "StorageFITSPreview \<Rightarrow> fits_view \<Rightarrow> StorageFITSTablePreview option" where
  "active_table f v = Option.bind (activeHDU f v) hdu_table"

definition view_effect :: "StorageFITSPreview \<Rightarrow> fits_view \<Rightarrow> fits_view" where
  "view_effect f v = v\<lparr>fv_viewMode := (if active_table f v \<noteq> None then V_table else V_cards)\<rparr>"

definition initial_fits :: "StorageFITSPreview \<Rightarrow> fits_view" where
  "initial_fits f = view_effect f \<lparr>fv_activeHduIndex = lit 0, fv_viewMode = V_cards, fv_fitsFilter = [], fv_tableFilter = []\<rparr>"

text \<open>A tab carries the text of the index of its HDU.\<close>

definition select_hdu :: "StorageFITSPreview \<Rightarrow> str \<Rightarrow> fits_view \<Rightarrow> fits_view" where
  "select_hdu f value v = (let i = Number_of_str value
     in if i = fv_activeHduIndex v then v else view_effect f (v\<lparr>fv_activeHduIndex := i\<rparr>))"

text \<open>
  A new answer brings new table objects: the effect runs unless there was no table and there is
  none.
\<close>

definition new_fits :: "StorageFITSPreview \<Rightarrow> StorageFITSPreview \<Rightarrow> fits_view \<Rightarrow> fits_view" where
  "new_fits old f v = (if active_table old v = None \<and> active_table f v = None then v else view_effect f v)"

definition filteredFitsCards :: "StorageFITSPreview \<Rightarrow> fits_view \<Rightarrow> StorageFITSHeaderCard list" where
  "filteredFitsCards f v = (case activeHDU f v of None \<Rightarrow> []
     | Some hdu \<Rightarrow> if trim (fv_fitsFilter v) = [] then hdu_cards hdu
         else let q = trim (toLowerCase (fv_fitsFilter v)) in
           filter (\<lambda>c. str_includes (toLowerCase (hc_keyword c)) q \<or> str_includes (toLowerCase (hc_value c)) q
             \<or> str_includes (toLowerCase (hc_comment c)) q) (hdu_cards hdu))"

definition filteredTableRows :: "StorageFITSPreview \<Rightarrow> fits_view \<Rightarrow> (str \<times> json) list list" where
  "filteredTableRows f v = (case active_table f v of None \<Rightarrow> []
     | Some t \<Rightarrow> if trim (fv_tableFilter v) = [] then ft_rows t
         else let q = trim (toLowerCase (fv_tableFilter v)) in
           filter (list_ex (\<lambda>(k, x). str_includes (toLowerCase k) q \<or> str_includes (toLowerCase (String_of (Some x))) q)) (ft_rows t))"

definition fits_chartData :: "StorageFITSPreview \<Rightarrow> fits_view \<Rightarrow> fits_chart_point list" where
  "fits_chartData f v = nullish (Option.bind (active_table f v) ft_chart) []"

text \<open>The panels shown: metadata, the table with its switch, the header cards.\<close>

definition summary_shown :: "StorageFITSPreview \<Rightarrow> fits_view \<Rightarrow> bool" where
  "summary_shown f v \<longleftrightarrow> (case activeHDU f v of Some hdu \<Rightarrow> hdu_summary hdu \<noteq> [] | None \<Rightarrow> False)"

definition table_shown :: "StorageFITSPreview \<Rightarrow> fits_view \<Rightarrow> bool" where
  "table_shown f v \<longleftrightarrow> active_table f v \<noteq> None \<and> fv_viewMode v = V_table"

definition cards_shown :: "StorageFITSPreview \<Rightarrow> fits_view \<Rightarrow> bool" where
  "cards_shown f v \<longleftrightarrow> activeHDU f v \<noteq> None \<and> (active_table f v = None \<or> fv_viewMode v = V_cards)"

section \<open>The page\<close>

record inspector =
  in_objectKey :: str
  in_data :: "StoragePreviewResponse option"
  in_loading :: bool
  in_error :: "str option"
  in_page :: jsnum
  in_search :: str
  in_parquet :: "parquet_view option"
  in_fits :: "fits_view option"
  in_calls :: "(nat \<times> params) list"
  in_next :: nat

definition preview_params :: "str \<Rightarrow> jsnum \<Rightarrow> str \<Rightarrow> params" where
  "preview_params key targetOffset currentSearch =
     (let params = [(u ''key'', trim key), (u ''offset'', num_str targetOffset), (u ''limit'', num_str inspector_PAGE_SIZE)]
      in if trim currentSearch \<noteq> [] then params_set (u ''search'') (trim currentSearch) params else params)"

definition fetchPreview :: "str \<Rightarrow> jsnum \<Rightarrow> str \<Rightarrow> inspector \<Rightarrow> inspector" where
  "fetchPreview key targetOffset currentSearch s = (if trim key = [] then s
     else s\<lparr>in_loading := True, in_error := None,
       in_calls := in_calls s @ [(in_next s, preview_params key targetOffset currentSearch)], in_next := Suc (in_next s)\<rparr>)"

text \<open>A section is there with its state as long as the data shown has its format.\<close>

definition shown_parquet :: "inspector \<Rightarrow> StorageParquetPreview option" where
  "shown_parquet s = Option.bind (in_data s) (\<lambda>d. if pv_format d = PF_parquet then pv_parquet d else None)"

definition shown_fits :: "inspector \<Rightarrow> StorageFITSPreview option" where
  "shown_fits s = Option.bind (in_data s) (\<lambda>d. if pv_format d = PF_fits then pv_fits d else None)"

definition set_data :: "StoragePreviewResponse option \<Rightarrow> inspector \<Rightarrow> inspector" where
  "set_data d s = (let s1 = s\<lparr>in_data := d\<rparr> in s1\<lparr>
     in_parquet := (case shown_parquet s1 of None \<Rightarrow> None | Some p \<Rightarrow> Some (nullish (in_parquet s) initial_parquet)),
     in_fits := (case shown_fits s1 of None \<Rightarrow> None
       | Some f \<Rightarrow> Some (case (in_fits s, shown_fits s) of (Some v, Some old) \<Rightarrow> new_fits old f v | _ \<Rightarrow> initial_fits f))\<rparr>)"

definition settle_preview :: "nat \<Rightarrow> str option + StoragePreviewResponse \<Rightarrow> inspector \<Rightarrow> inspector" where
  "settle_preview r res s0 = (if map_of (in_calls s0) r = None then s0
     else let s = s0\<lparr>in_calls := filter (\<lambda>c. fst c \<noteq> r) (in_calls s0)\<rparr> in
       (case res of
          Inr resp \<Rightarrow> set_data (Some resp) s
        | Inl e \<Rightarrow> s\<lparr>in_error := Some (nullish e (u ''Failed to inspect lakehouse object''))\<rparr>)\<lparr>in_loading := False\<rparr>)"

definition key_effect :: "inspector \<Rightarrow> inspector" where
  "key_effect s = (if in_objectKey s = [] then (set_data None s)\<lparr>in_error := None\<rparr>
     else fetchPreview (in_objectKey s) (lit 0) [] (s\<lparr>in_page := lit 0, in_search := []\<rparr>))"

definition initial_inspector :: "str \<Rightarrow> inspector" where
  "initial_inspector key = key_effect
     \<lparr>in_objectKey = key, in_data = None, in_loading = False, in_error = None, in_page = lit 0, in_search = [],
      in_parquet = None, in_fits = None, in_calls = [], in_next = 0\<rparr>"

definition set_key :: "str \<Rightarrow> inspector \<Rightarrow> inspector" where
  "set_key key s = (if key = in_objectKey s then s else key_effect (s\<lparr>in_objectKey := key\<rparr>))"

definition inspector_handleSubmit :: "str \<Rightarrow> inspector \<Rightarrow> inspector" where
  "inspector_handleSubmit inputKey s = (if trim inputKey \<noteq> [] then set_key (trim inputKey) s else s)"

definition handleSearchSubmit :: "inspector \<Rightarrow> inspector" where
  "handleSearchSubmit s = (if in_objectKey s = [] then s
     else fetchPreview (in_objectKey s) (lit 0) (in_search s) (s\<lparr>in_page := lit 0\<rparr>))"

definition inspector_handlePageChange :: "jsnum \<Rightarrow> inspector \<Rightarrow> inspector" where
  "inspector_handlePageChange newPage s = (if in_objectKey s = [] then s
     else fetchPreview (in_objectKey s) (newPage * inspector_PAGE_SIZE) (in_search s) (s\<lparr>in_page := newPage\<rparr>))"

definition refresh_preview :: "inspector \<Rightarrow> inspector" where
  "refresh_preview s = fetchPreview (in_objectKey s) (in_page s * inspector_PAGE_SIZE) (in_search s) s"

text \<open>What can happen; a control that is not shown or disabled does nothing.\<close>

datatype inspector_event =
    Set_key str
  | Inspect str
  | Type_search str
  | Submit_search
  | Prev
  | Next
  | Refresh
  | Toggle_sort str
  | Toggle_schema
  | Select_hdu str
  | Set_view fits_view_mode
  | Filter_cards str
  | Filter_rows str
  | Answered nat "str option + StoragePreviewResponse"

fun inspector_step :: "inspector \<Rightarrow> inspector_event \<Rightarrow> inspector" where
  "inspector_step s (Set_key key) = set_key key s"
| "inspector_step s (Inspect key) = (if in_objectKey s = [] then inspector_handleSubmit key s else s)"
| "inspector_step s (Type_search q) = (if shown_parquet s \<noteq> None then s\<lparr>in_search := q\<rparr> else s)"
| "inspector_step s Submit_search = (if shown_parquet s \<noteq> None then handleSearchSubmit s else s)"
| "inspector_step s Prev = (if shown_parquet s = None \<or> prev_disabled (in_page s) (in_loading s) then s
     else inspector_handlePageChange (in_page s - lit 1) s)"
| "inspector_step s Next = (case shown_parquet s of None \<Rightarrow> s
     | Some p \<Rightarrow> if next_disabled (in_page s) p (in_loading s) then s else inspector_handlePageChange (in_page s + lit 1) s)"
| "inspector_step s Refresh = (if in_objectKey s = [] \<or> in_loading s then s else refresh_preview s)"
| "inspector_step s (Toggle_sort col) = s\<lparr>in_parquet := map_option (toggleSort col) (in_parquet s)\<rparr>"
| "inspector_step s Toggle_schema = s\<lparr>in_parquet := map_option (\<lambda>v. v\<lparr>pqv_schemaOpen := \<not> pqv_schemaOpen v\<rparr>) (in_parquet s)\<rparr>"
| "inspector_step s (Select_hdu i) = (case shown_fits s of None \<Rightarrow> s | Some f \<Rightarrow> s\<lparr>in_fits := map_option (select_hdu f i) (in_fits s)\<rparr>)"
| "inspector_step s (Set_view m) = (case (shown_fits s, in_fits s) of
       (Some f, Some v) \<Rightarrow> if active_table f v \<noteq> None then s\<lparr>in_fits := Some (v\<lparr>fv_viewMode := m\<rparr>)\<rparr> else s | _ \<Rightarrow> s)"
| "inspector_step s (Filter_cards q) = s\<lparr>in_fits := map_option (fv_fitsFilter_update (\<lambda>_. q)) (in_fits s)\<rparr>"
| "inspector_step s (Filter_rows q) = s\<lparr>in_fits := map_option (fv_tableFilter_update (\<lambda>_. q)) (in_fits s)\<rparr>"
| "inspector_step s (Answered r res) = settle_preview r res s"

section \<open>Sorting\<close>

lemma neg_mk_le: "- mk s q \<le> Fin 0 \<longleftrightarrow> mk t (- q) \<le> Fin 0"
  by (simp add: mk_def round64_minus Let_def zero_of_def uminus_jsnum_def)

lemma neg_diff_le: "num_ok a \<Longrightarrow> num_ok b \<Longrightarrow> - (a - b) \<le> Fin 0 \<longleftrightarrow> val b \<le> val a"
proof -
  assume ab: "num_ok a" "num_ok b"
  obtain s t where e: "a - b = mk s (val a - val b)" "b - a = mk t (- (val a - val b))" using ab by (auto simp: finite_sub num_ok_def)
  show "- (a - b) \<le> Fin 0 \<longleftrightarrow> val b \<le> val a"
    unfolding e(1) neg_mk_le [of s _ t] e(2) [symmetric] using diff_le_iff [OF ab(2,1)] by (simp add: diff_le_def)
qed

lemma row_le_iff:
  assumes "num_ok (Number_of (map_of a col))" "num_ok (Number_of (map_of b col))"
  shows "row_le collate col dir a b \<longleftrightarrow>
    (if dir = Asc then val (Number_of (map_of a col)) \<le> val (Number_of (map_of b col))
     else val (Number_of (map_of b col)) \<le> val (Number_of (map_of a col)))"
  using diff_le_iff [OF assms] neg_diff_le [OF assms] num_okD(1) [OF assms(1)] num_okD(1) [OF assms(2)]
  by (simp add: row_le_def compareValues_def Let_def diff_le_def)

interpretation column_order: comparator "row_le collate col dir" "\<lambda>row. num_ok (Number_of (map_of row col))" for collate col dir
  by unfold_locales (auto simp: row_le_iff)

text \<open>
  C18. A column all of whose cells count as finite numbers sorts the rows of the page by these numbers, in
  the chosen direction; no row is lost or added and rows with equal numbers keep their order. A
  cell without a value counts as 0.
\<close>

theorem sorted_by_column:
  fixes p :: StorageParquetPreview and v :: parquet_view and col :: str
  defines "cell \<equiv> \<lambda>row. val (Number_of (map_of row col))"
  assumes "pqv_sortColumn v = Some col" "col \<noteq> []" "\<forall>row\<in>set (pp_rows p). num_ok (Number_of (map_of row col))"
  shows "mset (sortedRows collate p v) = mset (pp_rows p) \<and>
    sorted_wrt (\<lambda>a b. if pqv_sortDirection v = Asc then cell a \<le> cell b else cell b \<le> cell a) (sortedRows collate p v) \<and>
    filter (\<lambda>row. cell row = x) (sortedRows collate p v) = filter (\<lambda>row. cell row = x) (pp_rows p)"
proof -
  let ?l = "sort_by (row_le collate col (pqv_sortDirection v)) (pp_rows p)"
  have e: "sortedRows collate p v = ?l" using assms(2,3) by (simp add: sortedRows_def)
  have "sorted_wrt (row_le collate col (pqv_sortDirection v)) ?l" by (rule column_order.sort_by_sorted [OF assms(4)])
  then have "sorted_wrt (\<lambda>a b. if pqv_sortDirection v = Asc then cell a \<le> cell b else cell b \<le> cell a) ?l"
    by (rule sorted_wrt_mono_rel [rotated]) (use assms(4) in \<open>simp add: row_le_iff cell_def split: if_splits\<close>)
  moreover have "filter (\<lambda>row. cell row = x) ?l = filter (\<lambda>row. cell row = x) (pp_rows p)"
    by (rule column_order.sort_by_stable [OF assms(4)]) (use assms(4) in \<open>simp add: row_le_iff cell_def\<close>)
  ultimately show ?thesis unfolding e by (simp add: mset_sort_by)
qed

definition sample_parquet :: "json list \<Rightarrow> StorageParquetPreview" where
  "sample_parquet cells = \<lparr>pp_columns = [\<lparr>pc_name = u ''depth'', pc_path = u ''depth'', pc_type = u ''double'', pc_nullable = True, pc_repeated = False\<rparr>],
     pp_rows = map (\<lambda>j. [(u ''depth'', j)]) cells, pp_total_rows = lit 3, pp_matched_rows = lit 3, pp_offset = lit 0, pp_limit = lit 25\<rparr>"

theorem sorted_by_column_witness:
  "filter (\<lambda>row. val (Number_of (map_of row (u ''depth''))) = 0)
     (sortedRows (\<lambda>a b. 0) (sample_parquet [JNum (Fin 1), JNull, JNum (Fin (- 1)), JNum (Fin 0)]) (toggleSort (u ''depth'') initial_parquet)) =
   [[(u ''depth'', JNull)], [(u ''depth'', JNum (Fin 0))]]"
proof -
  let ?p = "sample_parquet [JNum (Fin 1), JNull, JNum (Fin (- 1)), JNum (Fin 0)]" and ?v = "toggleSort (u ''depth'') initial_parquet"
  have "pqv_sortColumn ?v = Some (u ''depth'')" "u ''depth'' \<noteq> []" by (simp_all add: toggleSort_def initial_parquet_def u_def)
  moreover have "\<forall>row\<in>set (pp_rows ?p). num_ok (Number_of (map_of row (u ''depth'')))"
    using int_num_ok [of 1] int_num_ok [of 0] int_num_ok [of "-1"] by (simp add: sample_parquet_def int_num_def)
  ultimately have "filter (\<lambda>row. val (Number_of (map_of row (u ''depth''))) = 0) (sortedRows (\<lambda>a b. 0) ?p ?v) =
      filter (\<lambda>row. val (Number_of (map_of row (u ''depth''))) = 0) (pp_rows ?p)"
    using sorted_by_column [of ?v "u ''depth''" ?p "\<lambda>a b. 0" 0] by blast
  then show ?thesis by (simp add: sample_parquet_def)
qed

section \<open>Requests\<close>

definition inspector_page_of :: "int \<Rightarrow> jsnum \<Rightarrow> bool" where
  "inspector_page_of n x \<longleftrightarrow> x = int_num n \<and> 0 \<le> n \<and> 25 * n \<le> 2 ^ 40"

definition offset_ok :: "params \<Rightarrow> bool" where
  "offset_ok q \<longleftrightarrow> (\<exists>n. 0 \<le> n \<and> params_get q (u ''offset'') = Some (num_str (int_num (25 * n))))"

text \<open>Answers whose count of matched rows is a number of at most \<open>2^40\<close>.\<close>

definition preview_ok :: "StoragePreviewResponse \<Rightarrow> bool" where
  "preview_ok d \<longleftrightarrow> (case pv_parquet d of None \<Rightarrow> True | Some p \<Rightarrow> pp_matched_rows p \<le> int_num (2 ^ 40))"

fun answer_ok :: "inspector_event \<Rightarrow> bool" where
  "answer_ok (Answered r (Inr d)) \<longleftrightarrow> preview_ok d"
| "answer_ok e \<longleftrightarrow> True"

definition inspector_ok :: "inspector \<Rightarrow> bool" where
  "inspector_ok s \<longleftrightarrow> (in_loading s \<longrightarrow> in_calls s \<noteq> []) \<and> (\<exists>n. inspector_page_of n (in_page s)) \<and>
     list_all (\<lambda>c. offset_ok (snd c)) (in_calls s) \<and> pred_option preview_ok (in_data s)"

lemma PAGE_SIZE_int: "inspector_PAGE_SIZE = int_num 25"
  by (simp add: inspector_PAGE_SIZE_def int_num_def)

lemma page_offset: "inspector_page_of n x \<Longrightarrow> x * inspector_PAGE_SIZE = int_num (25 * n)"
  by (simp add: inspector_page_of_def PAGE_SIZE_int int_num_mult mult.commute)

lemma preview_offset: "params_get (preview_params key off q) (u ''offset'') = Some (num_str off)"
  by (simp add: preview_params_def Let_def params_get_set) (simp add: params_get_def)

lemma fetch_ok:
  assumes "inspector_ok s" "inspector_page_of n off" "off' = int_num (25 * n)"
  shows "inspector_ok (fetchPreview key off' q s)"
  using assms by (auto simp: inspector_ok_def fetchPreview_def offset_ok_def preview_offset inspector_page_of_def)

lemma page_zero: "inspector_page_of 0 (Fin 0)" "Fin 0 = int_num (25 * 0)"
  by (simp_all add: inspector_page_of_def int_num_def)

lemma ok_updates [simp]:
  "inspector_ok (s\<lparr>in_search := q\<rparr>) = inspector_ok s" "inspector_ok (s\<lparr>in_objectKey := key\<rparr>) = inspector_ok s"
  "inspector_ok (s\<lparr>in_parquet := v\<rparr>) = inspector_ok s" "inspector_ok (s\<lparr>in_fits := f\<rparr>) = inspector_ok s"
  "inspector_ok (s\<lparr>in_error := e\<rparr>) = inspector_ok s"
  by (simp_all add: inspector_ok_def)

lemma ok_page: "inspector_ok s \<Longrightarrow> inspector_page_of n x \<Longrightarrow> inspector_ok (s\<lparr>in_page := x\<rparr>)"
  by (auto simp: inspector_ok_def)

lemma set_data_frame:
  "in_calls (set_data d s) = in_calls s" "in_page (set_data d s) = in_page s" "in_data (set_data d s) = d"
  "in_loading (set_data d s) = in_loading s" "in_objectKey (set_data d s) = in_objectKey s" "in_next (set_data d s) = in_next s"
  by (simp_all add: set_data_def Let_def)

lemma set_data_ok: "inspector_ok s \<Longrightarrow> pred_option preview_ok d \<Longrightarrow> inspector_ok (set_data d s)"
  unfolding set_data_def Let_def ok_updates by (simp add: inspector_ok_def)

lemma key_effect_ok: "inspector_ok s \<Longrightarrow> inspector_ok (key_effect s)"
  unfolding key_effect_def by (auto intro!: set_data_ok fetch_ok [OF _ page_zero] ok_page [OF _ page_zero(1)])

lemma set_key_ok: "inspector_ok s \<Longrightarrow> inspector_ok (set_key key s)"
  by (simp add: set_key_def key_effect_ok)

lemma page_change_ok: "inspector_ok s \<Longrightarrow> inspector_page_of n x \<Longrightarrow> inspector_ok (inspector_handlePageChange x s)"
  unfolding inspector_handlePageChange_def by (auto intro!: fetch_ok ok_page page_offset)

lemma settle_preview_ok:
  assumes "inspector_ok s" "\<And>d. res = Inr d \<Longrightarrow> preview_ok d"
  shows "inspector_ok (settle_preview r res s)"
  using assms by (cases res) (auto simp: settle_preview_def inspector_ok_def set_data_frame Let_def list_all_iff)

lemma next_page:
  assumes "inspector_ok s" "shown_parquet s = Some p" "\<not> next_disabled (in_page s) p (in_loading s)"
  shows "\<exists>n. inspector_page_of n (in_page s + lit 1)"
proof -
  obtain n where n: "inspector_page_of n (in_page s)" using assms(1) by (auto simp: inspector_ok_def)
  have "pp_matched_rows p \<le> int_num (2 ^ 40)"
    using assms(1,2) by (auto simp: inspector_ok_def shown_parquet_def preview_ok_def split: Option.bind_splits if_splits)
  moreover have e: "in_page s + lit 1 = int_num (n + 1)" using n by (simp add: inspector_page_of_def fin_ints(2) int_num_add)
  moreover have "int_num (n + 1) * inspector_PAGE_SIZE = int_num (25 * (n + 1))"
    using n by (simp add: inspector_page_of_def PAGE_SIZE_int int_num_mult mult.commute)
  ultimately have "\<not> pp_matched_rows p \<le> int_num (25 * (n + 1))" "pp_matched_rows p \<le> int_num (2 ^ 40)"
    using assms(3) by (simp_all add: next_disabled_def)
  then have "25 * (n + 1) \<le> 2 ^ 40" using num_le_trans [of "pp_matched_rows p" "int_num (2 ^ 40)" "int_num (25 * (n + 1))"] by force
  then show ?thesis using n e by (auto simp: inspector_page_of_def)
qed

lemma prev_page: "inspector_page_of n x \<Longrightarrow> \<not> prev_disabled x l \<Longrightarrow> inspector_page_of (n - 1) (x - lit 1)"
  using int_num_eq [of n 0] by (auto simp: inspector_page_of_def prev_disabled_def fin_ints(2) int_num_sub page_zero(2))

lemma inspector_step_ok:
  assumes "inspector_ok s" "answer_ok e"
  shows "inspector_ok (inspector_step s e)"
proof (cases e)
  case Prev
  obtain n where "inspector_page_of n (in_page s)" using assms(1) by (auto simp: inspector_ok_def)
  then show ?thesis using Prev assms(1) page_change_ok [OF assms(1) prev_page] by auto
next
  case Next
  then show ?thesis using assms(1) next_page [OF assms(1)] page_change_ok [OF assms(1)] by (auto split: option.splits)
next
  case Refresh
  obtain n where "inspector_page_of n (in_page s)" using assms(1) by (auto simp: inspector_ok_def)
  then show ?thesis using Refresh assms(1) fetch_ok [OF assms(1) _ page_offset] by (auto simp: refresh_preview_def)
next
  case (Answered r res)
  then show ?thesis using assms settle_preview_ok [OF assms(1), of res r] by (cases res) auto
next
  case Submit_search
  then show ?thesis using assms(1) by (auto simp: handleSearchSubmit_def intro!: fetch_ok [OF _ page_zero] ok_page [OF _ page_zero(1)])
qed (use assms(1) set_key_ok in \<open>auto simp: inspector_handleSubmit_def split: option.splits\<close>)

lemma inspector_run_ok: "inspector_ok s \<Longrightarrow> list_all answer_ok es \<Longrightarrow> inspector_ok (foldl inspector_step s es)"
  by (induction es arbitrary: s) (auto intro: inspector_step_ok)

lemma initial_inspector_ok: "inspector_ok (initial_inspector key)"
proof -
  have "inspector_page_of 0 (lit 0)" using page_zero(1) by simp
  then show ?thesis unfolding initial_inspector_def by (intro key_effect_ok) (auto simp: inspector_ok_def)
qed

text \<open>
  C38. Whatever is clicked, typed and answered, in any order, the spinner is on only while a request
  is out, the page number is a natural number, and every request is for an offset that is a multiple
  of the page size, as long as the counts of matched rows stay below \<open>2^40\<close>.
\<close>

theorem preview_requests_sound:
  fixes es :: "inspector_event list" and key :: str
  defines "s \<equiv> foldl inspector_step (initial_inspector key) es"
  assumes "list_all answer_ok es"
  shows "(in_calls s = [] \<longrightarrow> \<not> in_loading s) \<and> (\<exists>n\<ge>0. in_page s = int_num n) \<and>
    (\<forall>(r, q)\<in>set (in_calls s). \<exists>n\<ge>0. params_get q (u ''offset'') = Some (num_str (int_num (25 * n))))"
  using inspector_run_ok [OF initial_inspector_ok assms(2), of key] unfolding s_def [symmetric]
  by (fastforce simp: inspector_ok_def list_all_iff offset_ok_def inspector_page_of_def)

definition sample_preview :: "str \<Rightarrow> StoragePreviewResponse" where
  "sample_preview key = \<lparr>pv_key = key, pv_format = PF_parquet, pv_size_bytes = lit 10, pv_content_sha256 = [], pv_last_modified = [],
     pv_parquet = Some (sample_parquet [JNum (Fin 1)]), pv_fits = None, pv_json_content = None, pv_text_content = None, pv_error = None\<rparr>"

theorem preview_requests_sound_witness:
  "\<exists>n\<ge>0. in_page (foldl inspector_step (initial_inspector (u ''a'')) [Answered 0 (Inr (sample_preview (u ''a''))), Type_search (u ''x''), Submit_search, Next]) = int_num n"
proof -
  have "list_all answer_ok [Answered 0 (Inr (sample_preview (u ''a''))), Type_search (u ''x''), Submit_search, Next]"
    using int_num_simps(6) [of 3 "2 ^ 40"] by (simp add: preview_ok_def sample_preview_def sample_parquet_def int_num_def)
  from preview_requests_sound [OF this, of "u ''a''"] show ?thesis by blast
qed

section \<open>What is shown besides\<close>

text \<open>
  Previews are not numbered: when the answer for the object inspected before arrives last, its
  content is shown under the key of the new one, and the page is at rest.
\<close>

theorem stale_preview_wins:
  fixes k1 k2 :: str and d1 d2 :: StoragePreviewResponse
  defines "s \<equiv> foldl inspector_step (initial_inspector k1) [Set_key k2, Answered 1 (Inr d2), Answered 0 (Inr d1)]"
  assumes "trim k1 \<noteq> []" "trim k2 \<noteq> []" "k1 \<noteq> k2"
  shows "in_objectKey s = k2 \<and> in_data s = Some d1 \<and> \<not> in_loading s \<and> in_calls s = []"
proof -
  have "k1 \<noteq> []" "k2 \<noteq> []" using assms(2,3) by auto
  then show ?thesis using assms(2-4) unfolding s_def
    by (simp add: initial_inspector_def key_effect_def set_key_def fetchPreview_def settle_preview_def set_data_frame Let_def)
qed

theorem stale_preview_wins_witness:
  "in_data (foldl inspector_step (initial_inspector (u ''a''))
     [Set_key (u ''b''), Answered 1 (Inr (sample_preview (u ''b''))), Answered 0 (Inr (sample_preview (u ''a'')))]) = Some (sample_preview (u ''a''))"
proof -
  have "trim (u ''a'') \<noteq> []" "trim (u ''b'') \<noteq> []" "u ''a'' \<noteq> u ''b''" by (simp_all add: trim_def u_def is_space_def)
  from stale_preview_wins [OF this, of "sample_preview (u ''b'')" "sample_preview (u ''a'')"] show ?thesis by blast
qed

text \<open>
  An answer that arrives after the key was cleared is shown beside the form that asks for a key.
\<close>

theorem preview_after_clear:
  fixes k :: str and d :: StoragePreviewResponse
  defines "s \<equiv> foldl inspector_step (initial_inspector k) [Set_key [], Answered 0 (Inr d)]"
  assumes "trim k \<noteq> []"
  shows "in_objectKey s = [] \<and> in_data s = Some d"
proof -
  have "k \<noteq> []" using assms(2) by auto
  then show ?thesis using assms(2) unfolding s_def
    by (simp add: initial_inspector_def key_effect_def set_key_def fetchPreview_def settle_preview_def set_data_frame Let_def)
qed

text \<open>
  The pager uses the text in the search box: a text that was typed and not submitted is searched
  for, from the offset of the next page of the rows shown.
\<close>

theorem unsubmitted_search_paged:
  fixes s :: inspector
  assumes "shown_parquet s = Some p" "\<not> next_disabled (in_page s) p (in_loading s)" "trim (in_objectKey s) \<noteq> []"
  shows "in_calls (foldl inspector_step s [Type_search q, Next]) =
    in_calls s @ [(in_next s, preview_params (in_objectKey s) ((in_page s + lit 1) * inspector_PAGE_SIZE) q)]"
proof -
  have "in_objectKey s \<noteq> []" using assms(3) by auto
  moreover have "shown_parquet (s\<lparr>in_search := q\<rparr>) = Some p" using assms(1) by (simp add: shown_parquet_def)
  ultimately show ?thesis using assms by (simp add: inspector_handlePageChange_def fetchPreview_def)
qed

text \<open>
  The selected HDU is kept for the next object: when that has fewer HDUs, no HDU is active and
  neither metadata nor table nor header cards are shown.
\<close>

theorem fits_selection_lost:
  fixes old new :: StorageFITSPreview and v :: fits_view
  assumes "fv_activeHduIndex v = int_num (int i)" "length (fp_hdus new) \<le> i"
  shows "activeHDU new (new_fits old new v) = None \<and> \<not> summary_shown new (new_fits old new v) \<and>
    \<not> table_shown new (new_fits old new v) \<and> \<not> cards_shown new (new_fits old new v)"
proof -
  have "arr_idx (fp_hdus new) (int_num (int i)) = None"
    using assms(2) by (simp add: arr_idx_def int_num_def)
  then show ?thesis using assms(1)
    by (simp add: new_fits_def view_effect_def activeHDU_def active_table_def summary_shown_def table_shown_def cards_shown_def)
qed

text \<open>
  The filter of the table rows also looks at the names of the fields: a query that is part of
  the name of a field every row has keeps all rows, whatever their values.
\<close>

theorem row_filter_matches_names:
  fixes f :: StorageFITSPreview and v :: fits_view
  assumes "active_table f v = Some t" "\<forall>row\<in>set (ft_rows t). k \<in> fst ` set row"
    "str_includes (toLowerCase k) (trim (toLowerCase (fv_tableFilter v)))"
  shows "filteredTableRows f v = ft_rows t"
proof -
  have "list_ex (\<lambda>(k', x). str_includes (toLowerCase k') (trim (toLowerCase (fv_tableFilter v))) \<or> P x) row" if "row \<in> set (ft_rows t)" for row P
    using assms(2,3) that by (fastforce simp: list_ex_iff)
  then show ?thesis using assms(1) by (auto simp: filteredTableRows_def Let_def intro: filter_True)
qed

text \<open>
  Whenever an HDU is active exactly one of the table and the header cards is shown.
\<close>

theorem one_panel_shown: "activeHDU f v = Some hdu \<Longrightarrow> table_shown f v \<noteq> cards_shown f v"
  by (cases "fv_viewMode v") (auto simp: table_shown_def cards_shown_def)

end
