(* ===== verification/HopLedger.thy ===== *)
theory HopLedger
  imports HopStats "HOL-Library.Sublist"
begin

text \<open>
  The ledgers of the pipeline hops (\<open>CheckpointMetricsChart.tsx\<close>, \<open>EventPublishChart.tsx\<close> and
  \<open>LineageLedgerChart.tsx\<close> under \<open>pages/pipeline-dag/components/hop-charts\<close>): their figures, the
  records shown and the filter, search and pager of the tables. Shown: the pages of a table hold
  its filtered records, each once and in order, and the pager stays among them; where the target
  of a record comes from.
\<close>

section \<open>Targets\<close>

text \<open>
  The regular expressions of \<open>extractTargetId\<close>: a word without regard to case, a separator, and a
  run of digits; or a run of digits alone. The leftmost match counts.
\<close>

definition word_digits :: "str \<Rightarrow> nat list \<Rightarrow> bool \<Rightarrow> str \<Rightarrow> str option" where
  "word_digits word seps optional s = (if toLowerCase (take (length word) s) = word
     then let r = drop (length word) s;
              d = takeWhile digit (case r of c # cs \<Rightarrow> if c \<in> set seps then cs else if optional then r else [] | [] \<Rightarrow> [])
          in if d \<noteq> [] then Some d else None
     else None)"

definition digit_run :: "nat \<Rightarrow> nat \<Rightarrow> str \<Rightarrow> str option" where
  "digit_run least most s = (let d = takeWhile digit s in if least \<le> length d then Some (take most d) else None)"

fun leftmost :: "(str \<Rightarrow> str option) \<Rightarrow> str \<Rightarrow> str option" where
  "leftmost m [] = m []"
| "leftmost m (c # s) = (case m (c # s) of Some d \<Rightarrow> Some d | None \<Rightarrow> leftmost m s)"

definition first_match :: "str option list \<Rightarrow> str option" where
  "first_match ms = (case filter (\<lambda>m. m \<noteq> None) ms of m # _ \<Rightarrow> m | [] \<Rightarrow> None)"

definition ledger_match :: "str \<Rightarrow> str option" where
  "ledger_match key = first_match [leftmost (word_digits (u ''tic'') [45, 95] True) key,
     leftmost (word_digits (u ''tess'') [45, 95] True) key, leftmost (digit_run 8 10) key]"

definition extractTargetId :: "str \<Rightarrow> str" where
  "extractTargetId key = (case ledger_match key of
      Some d \<Rightarrow> (u ''TIC '' @ dropWhile (\<lambda>c. c = 48) d)
    | None \<Rightarrow> (u ''TIC 25155310''))"

definition lineage_match :: "str \<Rightarrow> str option" where
  "lineage_match objectKey = first_match [leftmost (word_digits (u ''tic'') [61, 95] False) objectKey, leftmost (digit_run 8 12) objectKey]"

definition lineage_extractTargetId :: "str \<Rightarrow> str" where
  "lineage_extractTargetId objectKey = (case lineage_match objectKey of
      Some d \<Rightarrow> (u ''TIC '' @ d)
    | None \<Rightarrow> let part = rev (takeWhile (\<lambda>c. c \<noteq> 47) (rev objectKey)) in if part \<noteq> [] then part else u ''Unknown'')"

definition normalizeKind :: "str \<Rightarrow> str" where
  "normalizeKind kind = (if str_includes (map (\<lambda>c. if c = 45 then 95 else c) (toLowerCase kind)) (u ''target'')
     then u ''target_pixel'' else u ''lightcurve'')"

definition is_lightcurve :: "materialization_point \<Rightarrow> bool" where
  "is_lightcurve p \<longleftrightarrow> mzp_product_kind p = u ''lightcurve'' \<or> mzp_product_kind p = u ''light_curve''"

definition lcPointsCount :: "materialization_point list \<Rightarrow> jsnum" where
  "lcPointsCount points = jsnum_of_nat (length (filter is_lightcurve points))"

definition tpfPointsCount :: "materialization_point list \<Rightarrow> jsnum" where
  "tpfPointsCount points = jsnum_of_nat (length (filter (\<lambda>p. str_includes (mzp_product_kind p) (u ''target'')) points))"

definition or_num :: "jsnum \<Rightarrow> jsnum \<Rightarrow> jsnum" where
  "or_num a b = (if truthy a then a else b)"

text \<open>The digits of a target, padded to sixteen.\<close>

definition padded_digits :: "str \<Rightarrow> str" where
  "padded_digits s = (let d = filter digit s in replicate (16 - length d) 48 @ d)"

section \<open>Checkpoints\<close>

record checkpoint_figures =
  cf_total :: jsnum
  cf_completed :: jsnum
  cf_resumeReady :: jsnum
  cf_computeLoss :: jsnum
  cf_lcCount :: jsnum
  cf_tpfCount :: jsnum

definition checkpoint_total :: "(str \<times> jsnum) list option \<Rightarrow> checkpoint_point list \<Rightarrow> materialization_point list \<Rightarrow> jsnum" where
  "checkpoint_total metrics ckpts points =
     or_num (or_num (jsnum_of_nat (length ckpts)) (metric metrics ''checkpoint_total'')) (jsnum_of_nat (length points))"

definition checkpointFigures :: "(str \<times> jsnum) list option \<Rightarrow> checkpoint_point list \<Rightarrow> materialization_point list \<Rightarrow> checkpoint_figures" where
  "checkpointFigures metrics ckpts points =
     (let m = (\<lambda>key. metric_of metrics (u key));
          whole = checkpoint_total metrics ckpts points;
          completed = (if ckpts \<noteq> [] then jsnum_of_nat (length (filter (\<lambda>c. ckp_state c = u ''COMPLETED'') ckpts))
            else Math_max (lit 0) (nullish (m ''checkpoint_completed'') whole));
          resumeReady = (if ckpts \<noteq> [] then jsnum_of_nat (length (filter (\<lambda>c. ckp_resume_action c = RA_reuse_and_ack) ckpts))
            else Math_max (lit 0) (nullish (m ''resume_ready'') completed))
      in \<lparr>cf_total = whole, cf_completed = completed, cf_resumeReady = resumeReady,
          cf_computeLoss = Math_max (lit 0) (nullish (m ''compute_loss_risk'') (whole - resumeReady)),
          cf_lcCount = Math_max (lit 0) (nullish (nullish2 (m ''completed_lightcurves'') (m ''silver_lightcurves'')) (lcPointsCount points)),
          cf_tpfCount = Math_max (lit 0) (nullish (nullish2 (m ''completed_target_pixels'') (m ''silver_target_pixels'')) (tpfPointsCount points))\<rparr>)"

definition recoveryFunnel :: "checkpoint_figures \<Rightarrow> (str \<times> jsnum) list" where
  "recoveryFunnel f = [((ue ''FITS Th~00F4 ~0110~1EA7u V~00E0o''), cf_total f), ((ue ''S3 Checkpoint T~1EA1o''), cf_completed f),
     ((ue ''Silver Parquet H~1EE3p L~1EC7''), cf_completed f), ((ue ''S~1EB5n S~00E0ng T~00E1i S~1EED D~1EE5ng''), cf_resumeReady f)]"

text \<open>Per kind: reused, to verify, to reprocess.\<close>

definition recoveryByKind :: "checkpoint_figures \<Rightarrow> (str \<times> jsnum \<times> jsnum \<times> jsnum) list" where
  "recoveryByKind f = [((u ''Light Curve (1D)''), cf_lcCount f, lit 0, lit 0), ((u ''Target Pixel (3D)''), cf_tpfCount f, lit 0, lit 0)]"

definition isBaseline :: "checkpoint_figures \<Rightarrow> bool" where
  "isBaseline f \<longleftrightarrow> num_eq (cf_total f) (lit 0)"

record checkpoint_record =
  cr_id :: str
  cr_targetId :: str
  cr_isLC :: bool
  cr_kind :: str
  cr_silverKey :: str
  cr_state :: str
  cr_resumeAction :: resume_action
  cr_attempts :: jsnum
  cr_silverVerified :: bool

definition ledger_kind_text :: "bool \<Rightarrow> str" where
  "ledger_kind_text isLC = (if isLC then (u ''Light Curve (1D)'') else (u ''Target Pixel (3D)''))"

definition or_str :: "str \<Rightarrow> str \<Rightarrow> str" where
  "or_str a b = (if a \<noteq> [] then a else b)"

definition record_of_checkpoint :: "checkpoint_point \<Rightarrow> checkpoint_record" where
  "record_of_checkpoint c =
     (let isLC = normalizeKind (ckp_product_kind c) = u ''lightcurve''
      in \<lparr>cr_id = ckp_checkpoint_id c, cr_targetId = extractTargetId (or_str (ckp_silver_object_key c) (ckp_checkpoint_id c)), cr_isLC = isLC,
          cr_kind = ledger_kind_text isLC,
          cr_silverKey = or_str (ckp_silver_object_key c) ((u ''silver/tess/'' @ (if isLC then u ''lightcurve'' else u ''target_pixel'') @ u ''/...'')),
          cr_state = or_str (ckp_state c) (u ''COMPLETED''), cr_resumeAction = ckp_resume_action c,
          cr_attempts = or_num (ckp_attempts c) (lit 1), cr_silverVerified = ckp_silver_verified c\<rparr>)"

definition record_of_point :: "materialization_point \<Rightarrow> checkpoint_record" where
  "record_of_point p =
     (let targetId = extractTargetId (mzp_object_key p); isLC = is_lightcurve p
      in \<lparr>cr_id = (u ''ckpt_'' @ (if isLC then u ''lc'' else u ''tpf'') @ u ''_'' @ padded_digits targetId), cr_targetId = targetId, cr_isLC = isLC,
          cr_kind = ledger_kind_text isLC, cr_silverKey = mzp_object_key p, cr_state = u ''COMPLETED'', cr_resumeAction = RA_reuse_and_ack,
          cr_attempts = or_num (mzp_verification_attempts p) (lit 1), cr_silverVerified = mzp_integrity_verified p\<rparr>)"

definition allCheckpointRecords :: "checkpoint_point list \<Rightarrow> materialization_point list \<Rightarrow> checkpoint_record list" where
  "allCheckpointRecords ckpts points = (if ckpts \<noteq> [] then map record_of_checkpoint ckpts else map record_of_point points)"

section \<open>Tables\<close>

datatype kind_filter = K_all | K_lightcurve | K_target_pixel

record ledger_view =
  lv_filter :: kind_filter
  lv_search :: str
  lv_page :: jsnum

definition initial_ledger :: ledger_view where
  "initial_ledger = \<lparr>lv_filter = K_all, lv_search = [], lv_page = lit 0\<rparr>"

definition pageSize :: jsnum where
  "pageSize = lit 8"

definition kind_kept :: "kind_filter \<Rightarrow> bool \<Rightarrow> bool" where
  "kind_kept f isLC \<longleftrightarrow> (case f of K_all \<Rightarrow> True | K_lightcurve \<Rightarrow> isLC | K_target_pixel \<Rightarrow> \<not> isLC)"

text \<open>The search text is tested trimmed and looked for as it is.\<close>

definition search_kept :: "str \<Rightarrow> str list \<Rightarrow> bool" where
  "search_kept search texts \<longleftrightarrow> trim search = [] \<or> list_ex (\<lambda>t. str_includes (toLowerCase t) (toLowerCase search)) texts"

definition filteredRecords :: "checkpoint_point list \<times> materialization_point list \<Rightarrow> ledger_view \<Rightarrow> checkpoint_record list" where
  "filteredRecords d v = filter (\<lambda>r. kind_kept (lv_filter v) (cr_isLC r) \<and> search_kept (lv_search v) [cr_id r, cr_targetId r, cr_silverKey r])
     (allCheckpointRecords (fst d) (snd d))"

text \<open>\<open>slice\<close> with bounds that are not negative.\<close>

definition arr_slice :: "jsnum \<Rightarrow> jsnum \<Rightarrow> 'a list \<Rightarrow> 'a list" where
  "arr_slice a b xs = take (nat_of_jsnum b - nat_of_jsnum a) (drop (nat_of_jsnum a) xs)"

definition totalPages :: "'a list \<Rightarrow> jsnum" where
  "totalPages xs = Math_ceil (jsnum_of_nat (length xs) / pageSize)"

definition displayed :: "'a list \<Rightarrow> ledger_view \<Rightarrow> 'a list" where
  "displayed xs v = arr_slice (lv_page v * pageSize) ((lv_page v + lit 1) * pageSize) xs"

definition prevPage :: "ledger_view \<Rightarrow> ledger_view" where
  "prevPage v = (if num_eq (lv_page v) (lit 0) then v else v\<lparr>lv_page := Math_max (lit 0) (lv_page v - lit 1)\<rparr>)"

definition nextPage :: "'a list \<Rightarrow> ledger_view \<Rightarrow> ledger_view" where
  "nextPage xs v = (if totalPages xs - lit 1 \<le> lv_page v then v
     else v\<lparr>lv_page := Math_min (totalPages xs - lit 1) (lv_page v + lit 1)\<rparr>)"

definition page_label :: "'a list \<Rightarrow> ledger_view \<Rightarrow> str" where
  "page_label xs v = (num_str (lv_page v + lit 1) @ u '' / '' @ num_str (Math_max (lit 1) (totalPages xs)))"

datatype 'd ledger_event =
    Search_for str
  | Filter_by kind_filter
  | Prev_page
  | Next_page
  | New_data 'd

text \<open>A table over data \<open>'d\<close>, with the rows its filter and search leave.\<close>

fun ledger_step :: "('d \<Rightarrow> ledger_view \<Rightarrow> 'r list) \<Rightarrow> 'd \<times> ledger_view \<Rightarrow> 'd ledger_event \<Rightarrow> 'd \<times> ledger_view" where
  "ledger_step rows (d, v) (Search_for q) = (d, v\<lparr>lv_search := q, lv_page := lit 0\<rparr>)"
| "ledger_step rows (d, v) (Filter_by f) = (d, v\<lparr>lv_filter := f, lv_page := lit 0\<rparr>)"
| "ledger_step rows (d, v) Prev_page = (d, prevPage v)"
| "ledger_step rows (d, v) Next_page = (d, nextPage (rows d v) v)"
| "ledger_step rows (d, v) (New_data d') = (d', v)"

section \<open>Events\<close>

record event_figures =
  ef_eligible :: jsnum
  ef_emissions :: jsnum
  ef_lcEligible :: jsnum
  ef_tpfEligible :: jsnum
  ef_amplification :: jsnum
  ef_consumers :: jsnum
  ef_pendingAck :: jsnum
  ef_lcEmissions :: jsnum
  ef_tpfEmissions :: jsnum

definition eventFigures :: "(str \<times> jsnum) list option \<Rightarrow> materialization_point list \<Rightarrow> event_figures" where
  "eventFigures metrics points =
     (let eligible = or_num (metric metrics ''eligible_artifacts'') (jsnum_of_nat (length points));
          emissions = or_num (metric metrics ''event_emissions'') eligible;
          lcEligible = or_num (metric metrics ''eligible_lightcurves'') (lcPointsCount points);
          tpfEligible = or_num (metric metrics ''eligible_target_pixels'') (tpfPointsCount points)
      in \<lparr>ef_eligible = eligible, ef_emissions = emissions, ef_lcEligible = lcEligible, ef_tpfEligible = tpfEligible,
          ef_amplification = or_num (metric metrics ''amplification_factor'') (if lit 0 < eligible then emissions / eligible else lit 1),
          ef_consumers = or_num (metric metrics ''event_consumers'') (lit 1), ef_pendingAck = metric metrics ''nats_pending_ack'',
          ef_lcEmissions = or_num (metric metrics ''lightcurve_emissions'') lcEligible,
          ef_tpfEmissions = or_num (metric metrics ''target_pixel_emissions'') tpfEligible\<rparr>)"

record event_record =
  er_msgId :: str
  er_targetId :: str
  er_isLC :: bool
  er_subject :: str
  er_payloadSchema :: str
  er_payloadSize :: str
  er_consumerAck :: str
  er_status :: str

definition avgEventBytes :: "(str \<times> jsnum) list option \<Rightarrow> jsnum \<Rightarrow> jsnum" where
  "avgEventBytes metrics emissions = (let bytes = nullish (metric_of metrics (u ''event_bytes'')) (lit 0)
     in if lit 0 < emissions \<and> lit 0 < bytes then bytes / emissions else lit 0)"

definition event_of_point :: "jsnum \<Rightarrow> materialization_point \<Rightarrow> event_record" where
  "event_of_point avg p =
     (let targetId = extractTargetId (mzp_object_key p); isLC = is_lightcurve p
      in \<lparr>er_msgId = (u ''evt_'' @ (if isLC then u ''lc'' else u ''tpf'') @ u ''_'' @ padded_digits targetId), er_targetId = targetId, er_isLC = isLC,
          er_subject = (if isLC then (u ''aurora.v1.silver.lightcurve.ready'') else (u ''aurora.v1.silver.target_pixel.ready'')),
          er_payloadSchema = (u ''v1.silver.ready''),
          er_payloadSize = (if lit 0 < avg then (toFixed (avg / lit 1024) 2 @ u '' KB'') else (u ''JSON Envelope'')),
          er_consumerAck = (u ''EXPLICIT_ACK''), er_status = (u ''DELIVERED'')\<rparr>)"

definition allEvents :: "(str \<times> jsnum) list option \<Rightarrow> materialization_point list \<Rightarrow> event_record list" where
  "allEvents metrics points = map (event_of_point (avgEventBytes metrics (ef_emissions (eventFigures metrics points)))) points"

definition filteredEvents :: "(str \<times> jsnum) list option \<times> materialization_point list \<Rightarrow> ledger_view \<Rightarrow> event_record list" where
  "filteredEvents d v = filter (\<lambda>r. kind_kept (lv_filter v) (er_isLC r) \<and> search_kept (lv_search v) [er_msgId r, er_targetId r, er_subject r])
     (allEvents (fst d) (snd d))"

section \<open>Lineage\<close>

definition ledger_formatBytes :: "jsnum \<Rightarrow> str" where
  "ledger_formatBytes bytes = (if bytes < lit 1024 then (num_str bytes @ u '' B'')
     else if bytes < lit (1024 ^ 2) then (toFixed (bytes / lit 1024) 1 @ u '' KB'')
     else if bytes < lit (1024 ^ 3) then (toFixed (bytes / lit (1024 ^ 2)) 1 @ u '' MB'')
     else (toFixed (bytes / lit (1024 ^ 3)) 2 @ u '' GB''))"

record lineage_figures =
  lf_totalCommitted :: jsnum
  lf_pending :: jsnum
  lf_dualHashVerified :: jsnum
  lf_lcCommitted :: jsnum
  lf_tpfCommitted :: jsnum
  lf_reductionPct :: str

definition lineageFigures :: "(str \<times> jsnum) list option \<Rightarrow> materialization_point list \<Rightarrow> lineage_figures" where
  "lineageFigures metrics points =
     (let committed = or_num (or_num (or_num (metric metrics ''lineage_committed'') (metric metrics ''completed_products''))
            (metric metrics ''silver_objects'')) (jsnum_of_nat (length points));
          bronzeBytes = metric metrics ''bronze_bytes''; silverBytes = metric metrics ''silver_bytes''; reduction = metric metrics ''reduction_pct''
      in \<lparr>lf_totalCommitted = committed, lf_pending = metric metrics ''lineage_pending'',
          lf_dualHashVerified = or_num (metric metrics ''dual_hash_verified'') committed,
          lf_lcCommitted = or_num (metric metrics ''silver_lightcurves'') (lcPointsCount points),
          lf_tpfCommitted = or_num (metric metrics ''silver_target_pixels'') (tpfPointsCount points),
          lf_reductionPct = (if truthy reduction then num_str reduction
            else if lit 0 < bronzeBytes then toFixed ((bronzeBytes - silverBytes) / bronzeBytes * lit 100) 1 else u ''0'')\<rparr>)"

definition funnelData :: "lineage_figures \<Rightarrow> (str \<times> jsnum) list" where
  "funnelData f = [((ue ''1. NASA FITS Th~00F4''), lf_totalCommitted f), ((ue ''2. Checkpoint Kh~00F3a''), lf_totalCommitted f),
     ((ue ''3. Neo B~0103m SHA-256''), lf_dualHashVerified f), ((ue ''4. S~1ED5 C~00E1i Ph~1EA3 H~1EC7''), lf_totalCommitted f)]"

definition kind_name :: "kind_filter \<Rightarrow> str" where
  "kind_name f = (case f of K_all \<Rightarrow> u ''all'' | K_lightcurve \<Rightarrow> u ''lightcurve'' | K_target_pixel \<Rightarrow> u ''target_pixel'')"

definition filteredPoints :: "kind_filter \<Rightarrow> materialization_point list \<Rightarrow> materialization_point list" where
  "filteredPoints f points = filter (\<lambda>p. f = K_all \<or> mzp_product_kind p = kind_name f \<or>
     (f = K_lightcurve \<and> mzp_product_kind p = u ''light_curve'')) points"

definition ledger_rows :: "kind_filter \<Rightarrow> materialization_point list \<Rightarrow> (str \<times> bool \<times> str) list" where
  "ledger_rows f points = map (\<lambda>(idx, p). (lineage_extractTargetId (mzp_object_key p), is_lightcurve p,
       or_str (mzp_object_key p) ((u ''silver/tess/part-'' @ num_str (jsnum_of_nat (idx + 1)) @ u ''.parquet''))))
     (enumerate 0 (take 15 (filteredPoints f points)))"

section \<open>Pages\<close>

lemma ceil_eighths: "n \<le> 2 ^ 50 \<Longrightarrow> Math_ceil (jsnum_of_nat n / lit 8) = int_num (int ((n + 7) div 8))"
proof (cases "n = 0")
  case False
  assume n: "n \<le> 2 ^ 50"
  have b: "0 < int n" "int n \<le> 2 ^ 53" using n False by (simp_all add: order_trans [OF n])
  have "Math_ceil (int_num (int n) / Fin (2 ^ 3)) = Math_ceil (part_num 3 (int n))" by (simp only: part_divide [OF b])
  also have "\<dots> = Fin (of_int \<lceil>of_int (int n) / of_int 8 :: rat\<rceil>)" by (simp add: part_num_def Math_ceil_def)
  also have "\<lceil>of_int (int n) / of_int 8 :: rat\<rceil> = int ((n + 7) div 8)" unfolding ceiling_divide_eq_div by (simp add: zdiv_int)
  finally show ?thesis using int_num_nat [of n] b by (simp add: int_num_def)
qed (simp add: jsnum_of_nat_def zero_of_def finite_divide Math_ceil_def int_num_def)

lemma totalPages_int: "length xs \<le> 2 ^ 50 \<Longrightarrow> totalPages xs = int_num (int ((length xs + 7) div 8))"
  unfolding totalPages_def pageSize_def by (rule ceil_eighths)

lemma displayed_page:
  assumes "lv_page v = int_num (int k)" "k \<le> 2 ^ 49"
  shows "displayed xs v = take 8 (drop (8 * k) xs)"
proof -
  have e: "pageSize = int_num 8" "lit 1 = int_num 1" by (simp_all add: pageSize_def int_num_def)
  have "int_num (int k) * pageSize = int_num (8 * int k)" "(int_num (int k) + lit 1) * pageSize = int_num (8 * int k + 8)"
    unfolding e using assms(2) int_num_mult [of "int k" 8] int_num_mult [of "int k + 1" 8] by (simp_all add: int_num_add algebra_simps)
  then show ?thesis by (simp add: displayed_def arr_slice_def assms(1) nat_of_int_num nat_add_distrib nat_mult_distrib)
qed

lemma concat_pages: "concat (map (\<lambda>k. take 8 (drop (8 * k) xs)) [0..<(length xs + 7) div 8]) = xs"
proof (induction "length xs" arbitrary: xs rule: less_induct)
  case less
  show ?case
  proof (cases "xs = []")
    case False
    let ?r = "drop 8 xs"
    have "(length xs + 7) div 8 = Suc ((length ?r + 7) div 8)" using False by (cases xs) auto
    then have "[0..<(length xs + 7) div 8] = 0 # map Suc [0..<(length ?r + 7) div 8]" by (simp add: upt_conv_Cons map_Suc_upt del: upt_Suc)
    then show ?thesis using less(1) [of ?r] False by (simp add: comp_def add.commute)
  qed simp
qed

definition page_in :: "'r list \<Rightarrow> ledger_view \<Rightarrow> bool" where
  "page_in xs v \<longleftrightarrow> (\<exists>k. lv_page v = int_num (int k) \<and> (k = 0 \<or> k < (length xs + 7) div 8))"

lemma page_in_zero: "lv_page v = Fin 0 \<Longrightarrow> page_in xs v"
  by (auto simp: page_in_def int_num_def)

lemma page_step: "int_num (int k) + lit 1 = int_num (int (Suc k))" if "k \<le> 2 ^ 50"
  using int_num_add [of "int k" 1] that by (simp add: fin_ints add.commute)

lemma page_in_prev: "length xs \<le> 2 ^ 50 \<Longrightarrow> page_in xs v \<Longrightarrow> page_in xs (prevPage v)"
proof -
  assume n: "length xs \<le> 2 ^ 50" and "page_in xs v"
  then obtain k where k: "lv_page v = int_num (int k)" "k = 0 \<or> k < (length xs + 7) div 8" by (auto simp: page_in_def)
  show ?thesis
  proof (cases k)
    case (Suc j)
    have "int_num (int k) - lit 1 = int_num (int j)" using int_num_sub [of "int k" 1] k(2) n Suc by (simp add: fin_ints)
    then have "prevPage v = v\<lparr>lv_page := int_num (int j)\<rparr>" using k(1) Suc int_num_max [of 0 "int j"] by (simp add: prevPage_def fin_ints)
    then show ?thesis using k(2) Suc by (auto simp: page_in_def)
  qed (use k in \<open>auto simp: prevPage_def page_in_def fin_ints\<close>)
qed

lemma page_in_next:
  assumes "length xs \<le> 2 ^ 50" "page_in xs v"
  shows "page_in xs (nextPage xs v)"
proof -
  obtain k where k: "lv_page v = int_num (int k)" "k = 0 \<or> k < (length xs + 7) div 8" using assms(2) by (auto simp: page_in_def)
  define n where "n = (length xs + 7) div 8"
  have n: "n \<le> 2 ^ 50" "totalPages xs - lit 1 = int_num (int n - 1)"
    using assms(1) totalPages_int [OF assms(1)] int_num_sub [of "int n" 1] by (auto simp: n_def fin_ints)
  have "lv_page v + lit 1 = int_num (int (Suc k))" unfolding k(1) using k(2) n(1) by (intro page_step) (auto simp: n_def)
  then have "nextPage xs v = (if int n - 1 \<le> int k then v else v\<lparr>lv_page := int_num (int (Suc k))\<rparr>)"
    using k n(2) int_num_min [of "int n - 1" "int (Suc k)"] by (simp add: nextPage_def min_def)
  moreover have "page_in xs (v\<lparr>lv_page := int_num (int (Suc k))\<rparr>)" if "Suc k < n"
    unfolding page_in_def using that by (intro exI [of _ "Suc k"]) (simp add: n_def)
  ultimately show ?thesis using assms(2) by (auto simp del: of_nat_Suc)
qed

text \<open>
  A table of a chart: its rows do not depend on the page, and there are no more than the data have.
\<close>

locale ledger_table =
  fixes rows :: "'d \<Rightarrow> ledger_view \<Rightarrow> 'r list" and data_size :: "'d \<Rightarrow> nat"
  assumes rows_page: "rows d (v\<lparr>lv_page := p\<rparr>) = rows d v"
    and rows_size: "length (rows d v) \<le> data_size d"
begin

lemma small: "data_size d \<le> 2 ^ 50 \<Longrightarrow> length (rows d v) \<le> 2 ^ 50"
  using rows_size order_trans by blast

lemma pages_keep_rows: "rows d (prevPage v) = rows d v" "rows d (nextPage xs v) = rows d v"
  by (simp_all add: prevPage_def nextPage_def rows_page)

lemma action_keeps:
  assumes "data_size d \<le> 2 ^ 50" "page_in (rows d v) v" "\<And>d'. e \<noteq> New_data d'" "ledger_step rows (d, v) e = (d', v')"
  shows "d' = d \<and> page_in (rows d' v') v'"
  using assms page_in_prev [OF small [OF assms(1)] assms(2)] page_in_next [OF small [OF assms(1)] assms(2)]
  by (cases e) (auto simp: rows_page pages_keep_rows intro: page_in_zero)

lemma actions_keep:
  assumes "data_size d \<le> 2 ^ 50" "page_in (rows d v) v" "list_all (\<lambda>e. \<forall>d'. e \<noteq> New_data d') es"
  shows "\<exists>v'. foldl (ledger_step rows) (d, v) es = (d, v') \<and> page_in (rows d v') v'"
  using assms(2,3)
proof (induction es arbitrary: v)
  case (Cons e es)
  obtain d' v' where s: "ledger_step rows (d, v) e = (d', v')" by (cases "ledger_step rows (d, v) e")
  have "d' = d" "page_in (rows d v') v'" using action_keeps [OF assms(1) Cons.prems(1) _ s] Cons.prems(2) by auto
  then show ?case using Cons.IH [of v'] Cons.prems(2) s by simp
qed auto

lemma never_empty:
  assumes "data_size d \<le> 2 ^ 50" "list_all (\<lambda>e. \<forall>d'. e \<noteq> New_data d') es"
    "foldl (ledger_step rows) (d, initial_ledger) es = (d', v)"
  shows "d' = d \<and> (displayed (rows d v) v = [] \<longleftrightarrow> rows d v = []) \<and> length (displayed (rows d v) v) \<le> 8"
proof -
  have "page_in (rows d initial_ledger) initial_ledger" by (auto simp: page_in_def initial_ledger_def int_num_def)
  then obtain k where k: "d' = d" "lv_page v = int_num (int k)" "k = 0 \<or> k < (length (rows d v) + 7) div 8"
    using actions_keep [OF assms(1) _ assms(2)] assms(3) by (fastforce simp: page_in_def)
  then have "k \<le> 2 ^ 49" using small [OF assms(1), of v] by auto
  then have "displayed (rows d v) v = take 8 (drop (8 * k) (rows d v))" by (rule displayed_page [OF k(2)])
  moreover have "rows d v = [] \<or> 8 * k < length (rows d v)" using k(3) by auto
  ultimately show ?thesis using k(1) by auto
qed

end

interpretation checkpoint_table: ledger_table filteredRecords "\<lambda>d. max (length (fst d)) (length (snd d))"
proof
  fix d v p
  show "filteredRecords d (v\<lparr>lv_page := p\<rparr>) = filteredRecords d v" by (simp add: filteredRecords_def)
  have "length (filteredRecords d v) \<le> length (allCheckpointRecords (fst d) (snd d))" unfolding filteredRecords_def by (rule length_filter_le)
  then show "length (filteredRecords d v) \<le> max (length (fst d)) (length (snd d))" by (simp add: allCheckpointRecords_def split: if_splits)
qed

interpretation event_table: ledger_table filteredEvents "\<lambda>d. length (snd d)"
proof
  fix d v p
  show "filteredEvents d (v\<lparr>lv_page := p\<rparr>) = filteredEvents d v" by (simp add: filteredEvents_def)
  have "length (filteredEvents d v) \<le> length (allEvents (fst d) (snd d))" unfolding filteredEvents_def by (rule length_filter_le)
  then show "length (filteredEvents d v) \<le> length (snd d)" by (simp add: allEvents_def)
qed

text \<open>
  C35. The pages of the checkpoint table, from the first to the number of pages the footer names, hold
  the filtered records, each exactly once and in order.
\<close>

theorem ledger_pages_cover:
  fixes d :: "checkpoint_point list \<times> materialization_point list" and v :: ledger_view
  defines "rs \<equiv> filteredRecords d v"
  assumes "length (fst d) \<le> 2 ^ 50" "length (snd d) \<le> 2 ^ 50"
  shows "\<exists>n. totalPages rs = int_num (int n) \<and> concat (map (\<lambda>k. displayed rs (v\<lparr>lv_page := int_num (int k)\<rparr>)) [0..<n]) = rs"
proof -
  have n: "length rs \<le> 2 ^ 50" unfolding rs_def using assms(2,3) by (intro checkpoint_table.small) simp
  have "displayed rs (v\<lparr>lv_page := int_num (int k)\<rparr>) = take 8 (drop (8 * k) rs)" if "k < (length rs + 7) div 8" for k
    using that n by (intro displayed_page) auto
  then have "map (\<lambda>k. displayed rs (v\<lparr>lv_page := int_num (int k)\<rparr>)) [0..<(length rs + 7) div 8] =
      map (\<lambda>k. take 8 (drop (8 * k) rs)) [0..<(length rs + 7) div 8]" by simp
  then show ?thesis unfolding totalPages_int [OF n] by (intro exI [of _ "(length rs + 7) div 8"]) (simp only: concat_pages simp_thms)
qed

theorem ledger_pages_cover_witness:
  "\<exists>n. totalPages (filteredRecords ([], []) initial_ledger) = int_num (int n)"
proof -
  have "length (fst ([], [])) \<le> 2 ^ 50" "length (snd ([], [])) \<le> 2 ^ 50" by simp_all
  from ledger_pages_cover [of "([], [])", OF this, of initial_ledger] show ?thesis by blast
qed

text \<open>
  However the user searches, filters and turns pages, the tables of checkpoints and events show an
  empty page only when no record matches, and never more than eight records.
\<close>

theorem ledger_never_empty:
  assumes "length ckpts \<le> 2 ^ 50" "length points \<le> 2 ^ 50" "list_all (\<lambda>e. \<forall>d'. e \<noteq> New_data d') es" "list_all (\<lambda>e. \<forall>d'. e \<noteq> New_data d') es'"
    and "foldl (ledger_step filteredRecords) ((ckpts, points), initial_ledger) es = (d, v)"
    and "foldl (ledger_step filteredEvents) ((metrics, points), initial_ledger) es' = (d', v')"
  shows "(displayed (filteredRecords (ckpts, points) v) v = [] \<longleftrightarrow> filteredRecords (ckpts, points) v = []) \<and>
    length (displayed (filteredRecords (ckpts, points) v) v) \<le> 8 \<and>
    (displayed (filteredEvents (metrics, points) v') v' = [] \<longleftrightarrow> filteredEvents (metrics, points) v' = []) \<and>
    length (displayed (filteredEvents (metrics, points) v') v') \<le> 8"
  using checkpoint_table.never_empty [OF _ assms(3,5)] event_table.never_empty [OF _ assms(4,6)] assms(1,2) by simp

theorem ledger_never_empty_witness:
  "displayed (filteredRecords ([], []) (initial_ledger\<lparr>lv_search := u ''x''\<rparr>)) (initial_ledger\<lparr>lv_search := u ''x''\<rparr>) = []"
proof -
  have s: "list_all (\<lambda>e. \<forall>d'. e \<noteq> New_data d') [Search_for (u ''x''), Next_page]" by simp
  have f: "filteredRecords ([], []) v = []" for v by (simp add: filteredRecords_def allCheckpointRecords_def)
  have "foldl (ledger_step filteredRecords) (([], []), initial_ledger) [Search_for (u ''x''), Next_page] = (([], []), initial_ledger\<lparr>lv_search := u ''x''\<rparr>)"
    using totalPages_int [of "[] :: checkpoint_record list"] by (simp add: f nextPage_def initial_ledger_def int_num_sub fin_ints)
  moreover have "foldl (ledger_step filteredEvents) ((None, []), initial_ledger) [] = ((None, []), initial_ledger)" by simp
  ultimately have "length ([] :: checkpoint_point list) \<le> 2 ^ 50 \<Longrightarrow> length ([] :: materialization_point list) \<le> 2 ^ 50 \<Longrightarrow> ?thesis = (filteredRecords ([], []) (initial_ledger\<lparr>lv_search := u ''x''\<rparr>) = [])"
    using ledger_never_empty [OF _ _ s, of "[]" "[]" "[]"] by simp
  then show ?thesis by (simp add: f)
qed

text \<open>
  New data do not reset the page: when fewer records are left than pages before the one shown,
  the table is empty although records match.
\<close>

theorem page_kept_on_new_data:
  fixes v :: ledger_view and rows :: "'d \<Rightarrow> ledger_view \<Rightarrow> 'r list"
  assumes "lv_page v = int_num (int k)" "k \<le> 2 ^ 49" "length (rows d' v) \<le> 8 * k"
  shows "ledger_step rows (d, v) (New_data d') = (d', v) \<and> displayed (rows d' v) v = []"
  using displayed_page [OF assms(1,2), of "rows d' v"] assms(3) by simp

section \<open>Where a target comes from\<close>

lemma leftmost_from:
  assumes "\<And>s d. m s = Some d \<Longrightarrow> sublist d s \<and> d \<noteq> [] \<and> list_all digit d" "leftmost m s = Some d"
  shows "sublist d s \<and> d \<noteq> [] \<and> list_all digit d"
  using assms(2) by (induction s) (auto dest: assms(1) split: option.splits intro: sublist_Cons_right [THEN iffD2])

lemma list_all_takeWhile: "list_all P (takeWhile P s)"
  by (auto simp: list_all_iff dest: set_takeWhileD)

lemma word_digits_from: "word_digits word seps optional s = Some d \<Longrightarrow> sublist d s \<and> d \<noteq> [] \<and> list_all digit d"
proof -
  assume "word_digits word seps optional s = Some d"
  then obtain c cs where r: "drop (length word) s = c # cs" and "d = takeWhile digit cs \<or> d = takeWhile digit (c # cs)" and "d \<noteq> []"
    by (auto simp: word_digits_def Let_def split: if_splits list.splits)
  moreover from r have "sublist (c # cs) s" "sublist cs s" by (metis sublist_drop, metis drop_Suc list.sel(3) sublist_drop tl_drop)
  moreover from calculation have "sublist d s" by (metis sublist_order.order.trans sublist_takeWhile)
  ultimately show ?thesis using list_all_takeWhile by blast
qed

lemma digit_run_from: "digit_run least most s = Some d \<Longrightarrow> 0 < least \<Longrightarrow> 0 < most \<Longrightarrow> sublist d s \<and> d \<noteq> [] \<and> list_all digit d"
proof -
  assume a: "digit_run least most s = Some d" "0 < least" "0 < most"
  then have d: "d = take most (takeWhile digit s)" "takeWhile digit s \<noteq> []" by (auto simp: digit_run_def Let_def split: if_splits)
  have "sublist d s" unfolding d(1) by (metis sublist_order.order.trans sublist_takeWhile sublist_take)
  moreover have "list_all digit d" unfolding d(1) using list_all_takeWhile [of digit s] by (auto simp: list_all_iff dest: in_set_takeD)
  ultimately show ?thesis using d a(3) by simp
qed

lemma first_match_cases: "first_match ms = Some d \<Longrightarrow> Some d \<in> set ms"
  by (auto simp: first_match_def split: list.splits) (metis filter_eq_ConsD in_set_conv_decomp list.set_intros(1))

text \<open>
  The target shown for a record is a run of digits of its key, without leading zeros; a key in which
  none is found is shown with the fixed target TIC 25155310, as if it were that one.
\<close>

theorem target_from_key:
  fixes key :: str
  shows "case ledger_match key of
      Some d \<Rightarrow> sublist d key \<and> d \<noteq> [] \<and> list_all digit d \<and> extractTargetId key = u ''TIC '' @ dropWhile (\<lambda>c. c = 48) d
    | None \<Rightarrow> extractTargetId key = u ''TIC 25155310''"
proof (cases "ledger_match key")
  case (Some d)
  then have "Some d \<in> set [leftmost (word_digits (u ''tic'') [45, 95] True) key, leftmost (word_digits (u ''tess'') [45, 95] True) key, leftmost (digit_run 8 10) key]"
    unfolding ledger_match_def by (rule first_match_cases)
  then have "sublist d key \<and> d \<noteq> [] \<and> list_all digit d"
    using leftmost_from [of "word_digits (u ''tic'') [45, 95] True" key d] leftmost_from [of "word_digits (u ''tess'') [45, 95] True" key d]
      leftmost_from [of "digit_run 8 10" key d] word_digits_from digit_run_from by auto
  then show ?thesis using Some by (simp add: extractTargetId_def)
qed (simp add: extractTargetId_def)

text \<open>
  With checkpoints at hand the funnel never grows beyond the total, and without an own metric
  the records at risk and the reusable ones add up to it.
\<close>

theorem checkpoint_funnel_bounded:
  assumes "ckpts \<noteq> []" "length ckpts \<le> 2 ^ 50" "metric_of metrics (u ''compute_loss_risk'') = None"
  shows "cf_completed (checkpointFigures metrics ckpts points) \<le> cf_total (checkpointFigures metrics ckpts points) \<and>
    cf_resumeReady (checkpointFigures metrics ckpts points) \<le> cf_total (checkpointFigures metrics ckpts points) \<and>
    cf_computeLoss (checkpointFigures metrics ckpts points) + cf_resumeReady (checkpointFigures metrics ckpts points) = cf_total (checkpointFigures metrics ckpts points)"
proof -
  have n: "jsnum_of_nat (length (filter P ckpts)) = int_num (int (length (filter P ckpts)))" for P
    using order_trans [OF length_filter_le [of P ckpts] assms(2)] by (intro int_num_nat) simp
  have w: "checkpoint_total metrics ckpts points = int_num (int (length ckpts))"
    using assms(1,2) int_num_nat [of "length ckpts"] by (simp add: checkpoint_total_def or_num_def int_num_def truthy_def)
  let ?r = "length (filter (\<lambda>c. ckp_resume_action c = RA_reuse_and_ack) ckpts)"
  have r: "?r \<le> length ckpts" by (rule length_filter_le)
  have "int_num (int (length ckpts)) - int_num (int ?r) = int_num (int (length ckpts) - int ?r)"
    using r assms(2) by (intro int_num_sub) simp
  then have "Math_max (lit 0) (int_num (int (length ckpts)) - int_num (int ?r)) = int_num (int (length ckpts) - int ?r)"
    using int_num_max [of 0 "int (length ckpts) - int ?r"] r by (simp add: fin_ints)
  moreover have "int_num (int (length ckpts) - int ?r) + int_num (int ?r) = int_num (int (length ckpts))"
    using int_num_add [of "int (length ckpts) - int ?r" "int ?r"] assms(2) by simp
  ultimately show ?thesis using assms(1,3) r by (simp add: checkpointFigures_def Let_def n w)
qed

text \<open>
  The identifier shown for an event is made of the target and the kind alone: products of the same
  target from different sectors carry the same one.
\<close>

theorem event_ids_collide:
  "extractTargetId (mzp_object_key p) = extractTargetId (mzp_object_key q) \<Longrightarrow> is_lightcurve p = is_lightcurve q \<Longrightarrow>
   er_msgId (event_of_point a p) = er_msgId (event_of_point a q)"
  by (simp add: event_of_point_def Let_def)

end
