(* ===== verification/HopReferences.thy ===== *)
theory HopReferences
  imports DagHops
begin

text \<open>
  The reference of the hop drawer (\<open>scientificReference\<close> in
  \<open>pages/pipeline-dag/components/HopDetailDrawer.tsx\<close>): formulas and terms per hop. Shown: every hop
  of the pipeline graph has an entry of its own, and no entry has a formula or a term twice, which
  are the keys of the list shown.
\<close>

record ScientificReference =
  sr_formulas :: "(str \<times> str) list"
  sr_terms :: "(str \<times> str) list"

definition reference_bronze :: ScientificReference where
  "reference_bronze = \<lparr>sr_formulas = [
      ((u ''Staged integrity''), (ue ''verified = size_bytes > 0 ~2227 sha256_match'')),
      ((u ''Footprint ratio''), (ue ''stored GiB = ~03A3 file bytes / 2~00B3~2070''))],
    sr_terms = [
      ((u ''Bronze FITS''), (ue ''T~1EC7p FITS thi~00EAn v~0103n h~1ECDc th~00F4 t~1EA3i tr~1EF1c ti~1EBFp t~1EEB NASA MAST ho~1EB7c S3 staging.'')),
      ((u ''Checksum Gate''), (ue ''Ki~1EC3m tra m~00E3 b~0103m SHA-256 b~1EA3o ~0111~1EA3m t~1EC7p nguy~00EAn v~1EB9n, kh~00F4ng b~1ECB h~1ECFng h~00F3c khi truy~1EC1n nh~1EADn.'')),
      ((u ''Awaiting Silver''), (ue ''S~1ED1 t~1EC7p Bronze ~0111ang n~1EB1m trong v~00F9ng ~0111~1EC7m ch~01B0a ~0111~01B0~1EE3c seal th~00E0nh checkpoint Silver.''))]\<rparr>"

definition reference_route :: ScientificReference where
  "reference_route = \<lparr>sr_formulas = [
      ((u ''Demux balance ratio''), (ue ''LC split % = LC products / (LC + TPF) ~00D7 100%'')),
      ((u ''Dispatch throughput''), (u ''rate = d(LC + TPF) / dt''))],
    sr_terms = [
      ((u ''Product Demux''), (ue ''~0110~1ECDc FITS header cards (XTENSION, EXTNAME) ~0111~1EC3 ph~00E2n lo~1EA1i v~00E0 t~00E1ch lu~1ED3ng song song.'')),
      ((u ''Light Curve (Stream 03A)''), (ue ''Chu~1ED7i d~1EEF li~1EC7u 1D th~1EDDi gian bi~1EC3u di~1EC5n bi~1EBFn thi~00EAn th~00F4ng l~01B0~1EE3ng ~00E1nh s~00E1ng c~1EE7a sao.'')),
      ((u ''Target Pixel (Stream 03B)''), (ue ''M~1EA3ng ~1EA3nh 2D (11~00D711 pixel postage stamps) ph~1EE5c v~1EE5 ki~1EC3m ~0111~1ECBnh ~0111~1ED9 d~1ECBch chuy~1EC3n centroid.''))]\<rparr>"

definition reference_lc_quality :: ScientificReference where
  "reference_lc_quality = \<lparr>sr_formulas = [
      ((ue ''T~1EF7 l~1EC7 gi~1EEF l~1EA1i''), (ue ''retention = valid cadences / input cadences ~00D7 100%'')),
      ((ue ''Cadence h~1EE3p l~1EC7''), (ue ''quality = 0 ~2227 finite(time, flux) ~2227 time > 0''))],
    sr_terms = [
      ((u ''Cadence''), (ue ''M~1ED9t th~1EDDi ~0111i~1EC3m l~1EA5y m~1EABu ~0111~1ED9 s~00E1ng.'')),
      ((u ''Quality flag''), (ue ''C~1EDD TESS ~0111~00E1nh d~1EA5u m~1EABu c~00F3 nguy c~01A1 b~1ECB l~1ED7i thi~1EBFt b~1ECB ho~1EB7c quan s~00E1t.''))]\<rparr>"

definition reference_tpf_quality :: ScientificReference where
  "reference_tpf_quality = \<lparr>sr_formulas = [
      ((u ''Spatial grid geometry''), (ue ''stamp shape = 11 ~00D7 11 = 121 px/frame'')),
      ((u ''Finite pixel fraction''), (ue ''finite px = finite_count / (N_frames ~00D7 121) ~00D7 100%'')),
      ((u ''WCS astrometry solution''), (u ''RA/Dec = WCS(x, y, CRVAL, CDELT, PC)''))],
    sr_terms = [
      ((ue ''11~00D711 Postage Stamp''), (ue ''Ma tr~1EADn tem ~1EA3nh 2 chi~1EC1u c~1EAFt xung quanh t~1ECDa ~0111~1ED9 thi~00EAn v~0103n c~1EE7a ng~00F4i sao m~1EE5c ti~00EAu.'')),
      ((u ''WCS Astrometry''), (ue ''H~1EC7 t~1ECDa ~0111~1ED9 thi~00EAn c~1EA7u th~1EBF gi~1EDBi (World Coordinate System) ~00E1nh x~1EA1 pixel (x, y) sang thi~00EAn kinh RA / thi~00EAn v~0129 Dec.'')),
      ((u ''Finite Pixel Density''), (ue ''T~1EF7 l~1EC7 ~0111i~1EC3m ~1EA3nh c~00F3 gi~00E1 tr~1ECB s~1ED1 h~1ECDc h~1EEFu h~1EA1n, kh~00F4ng b~1ECB dead/null/NaN tr~00EAn c~1EA3m bi~1EBFn CCD.'')),
      ((u ''Aperture Mask''), (ue ''M~1EB7t n~1EA1 ph~00E2n v~00F9ng kh~00F4ng gian t~00E1ch bi~1EC7t gi~1EEFa ~00E1nh s~00E1ng sao (Core PSF) v~00E0 n~1EC1n tr~1EDDi (Sky Background).''))]\<rparr>"

definition reference_lc_transform :: ScientificReference where
  "reference_lc_transform = \<lparr>sr_formulas = [
      ((u ''Median normalization''), (ue ''f~1D62 = F~1D62 / median(F) ~2212 1'')),
      ((u ''Flux Scatter''), (ue ''scatter_ppm = stddev(f) ~00D7 10~2076'')),
      ((ue ''Ng~01B0~1EE1ng Sigma-clipping''), (ue ''|f~1D62 ~2212 median(f)| ~2264 3.0~03C3 (gi~1EEF cadences; ~2265 5.0~03C3 lo~1EA1i spike)'')),
      ((ue ''~0110~1ED9 s~00E2u transit t~01B0~01A1ng ~0111~1ED1i''), (ue ''~0394F / F = depth_ppm ~00D7 10~207B~2076'')),
      ((ue ''B~1EA3o to~00E0n tr~1EAFc quang''), (ue ''scatter_after ~2264 scatter_before''))],
    sr_terms = [
      ((u ''PDC-SAP Flux''), (ue ''Pre-search Data Conditioning Simple Aperture Photometry; chu~1ED7i th~00F4ng l~01B0~1EE3ng ~0111~00E3 kh~1EED tr~00F4i d~1EA1t v~00E0 nhi~1EC5u h~1EC7 th~1ED1ng TESS.'')),
      ((ue ''Ng~01B0~1EE1ng Sigma (3~03C3 / 5~03C3)''), (ue ''< 3~03C3 b~1EA3o to~00E0n l~00F2ng ch~1EA3o transit; 3~20135~03C3 v~00F9ng ~0111~1EC7m ki~1EC3m tra; ~2265 5~03C3 lo~1EA1i b~1ECF tia v~0169 tr~1EE5 / spike c~1EF1c ~0111oan.'')),
      ((u ''Scatter (ppm)''), (ue ''Th~01B0~1EDBc ~0111o t~00E1n x~1EA1 tr~1EAFc quang ~0111o b~1EB1ng ph~1EA7n tri~1EC7u (parts per million); 10,000 ppm t~01B0~01A1ng ~0111~01B0~01A1ng 1% bi~1EBFn thi~00EAn ~00E1nh s~00E1ng.'')),
      ((ue ''B~1EA3o to~00E0n transit s~00E2u''), (ue ''B~1EA3o to~00E0n ~0111~1EA7y ~0111~1EE7 l~00F2ng ch~1EA3o qu~00E1 c~1EA3nh c~1EE7a c~00E1c ngo~1EA1i h~00E0nh tinh l~1EDBn (Hot Jupiter ~007E10,000~201320,000 ppm), kh~00F4ng l~00E0m suy hao t~00EDn hi~1EC7u.'')),
      ((ue ''~0110~01B0~1EDDng tham chi~1EBFu y = x''), (ue ''~0110~01B0~1EDDng so s~00E1nh ph~00E2n b~1ED1 tr~01B0~1EDBc/sau x~1EED l~00FD; c~00E1c ~0111i~1EC3m n~1EB1m ph~00EDa d~01B0~1EDBi ~0111~01B0~1EDDng bi~1EC3u th~1ECB ~0111~1ED9 t~00E1n x~1EA1 gi~1EA3m th~00E0nh c~00F4ng.''))]\<rparr>"

definition reference_tpf_transform :: ScientificReference where
  "reference_tpf_transform = \<lparr>sr_formulas = [
      ((ue ''Chu~1EA9n h~00F3a th~00F4ng l~01B0~1EE3ng ~0111i~1EC3m ~1EA3nh''), (ue ''p~2032~209C~1D63~D835~DCB8 = p~209C~1D63~D835~DCB8 / median~209C(p~209C~1D63~D835~DCB8) ~2212 1 (khi median > 0, ng~01B0~1EE3c l~1EA1i = 0)'')),
      ((ue ''T~00E1n x~1EA1 tr~1EAFc quang robust (MAD)''), (ue ''MAD~1D63~D835~DCB8 = 1.4826 ~00D7 median~209C(|p~2032~209C~1D63~D835~DCB8 ~2212 median~209C(p~2032~1D63~D835~DCB8)|) ~00D7 10~2076 ppm'')),
      ((ue ''~0110~1ED9 tr~00F4i ~0111~01B0~1EDDng n~1EC1n (Temporal Drift)''), (ue ''Drift = (|median_half2 ~2212 median_half1| / |median_full|) ~00D7 10~2076 ppm'')),
      ((ue ''~0110~1ED9 gi~00E1n ~0111o~1EA1n n~1ED1i chunk (Seam Jump)''), (ue ''Jump_boundary = |p_chunk2_first ~2212 p_chunk1_last| ~00D7 10~2076 ppm'')),
      ((ue ''T~1EF7 l~1EC7 b~1EA3o to~00E0n ~0111i~1EC3m ~1EA3nh (Finite Density)''), (u ''Ratio_finite = N_finite / N_total = 100.0%''))],
    sr_terms = [
      ((u ''Temporal Median Reference''), (ue ''~0110~01B0~1EDDng n~1EC1n trung v~1ECB th~1EDDi gian m_rc c~1EE7a t~1EEBng pixel trong ma tr~1EADn 11~00D711 ~0111~1EC3 chu~1EA9n h~00F3a th~00F4ng l~01B0~1EE3ng.'')),
      ((u ''Pixel Scatter MAD''), (ue ''~0110~1ED9 ph~00E2n t~00E1n tr~1EAFc quang robust c~1EE7a t~1EEBng pixel qua chu~1ED7i quan s~00E1t, ~0111o l~01B0~1EDDng b~1EB1ng ppm.'')),
      ((u ''Reference Baseline Drift''), (ue ''~0110~1ED9 tr~00F4i d~1EA1t ~0111~01B0~1EDDng n~1EC1n trung v~1ECB gi~1EEFa 2 n~1EEDa chu~1ED7i th~1EDDi gian, ~0111~00E1nh gi~00E1 ~0111~1ED9 ~1ED5n ~0111~1ECBnh l~00E2u d~00E0i.'')),
      ((u ''Chunk Boundary Jump''), (ue ''~0110~1ED9 l~1EC7ch quang th~00F4ng t~1EA1i ranh gi~1EDBi n~1ED1i gi~1EEFa c~00E1c chunk ph~00E2n m~1EA3nh b~1ED9 nh~1EDB c~1EE7a worker preprocessor.'')),
      ((u ''Invalid Reference Floor''), (ue ''C~00E1c pixel n~1EC1n tr~1EDDi c~00F3 th~00F4ng l~01B0~1EE3ng trung v~1ECB ~2264 0 ~0111~01B0~1EE3c ~0111~01B0a v~1EC1 baseline an to~00E0n 0.0 ~0111~1EC3 tr~00E1nh chia cho 0.''))]\<rparr>"

definition reference_lc_parquet :: ScientificReference where
  "reference_lc_parquet = \<lparr>sr_formulas = [
      ((ue ''H~1EC7 s~1ED1 n~00E9n Parquet''), (u ''compression_ratio = Bronze FITS bytes / Silver Parquet bytes'')),
      ((ue ''Dung l~01B0~1EE3ng trung b~00ECnh''), (u ''mean_size = silver_bytes / completed_lightcurves'')),
      ((ue ''M~1EADt ~0111~1ED9 cadence''), (u ''cadences_per_file = total_cadences / completed_lightcurves'')),
      ((ue ''Ng~00E2n s~00E1ch ~0111~1ED9 tr~1EC5 P95''), (ue ''encode_latency_p95 ~2264 100 ms''))],
    sr_terms = [
      ((u ''silver-lightcurve-v1''), (ue ''H~1EE3p ~0111~1ED3ng schema Parquet chu~1EA9n h~00F3a 4 c~1ED9t: time (BJD float64), flux (float32), flux_err (float32), quality (uint32).'')),
      ((u ''Columnar Compression''), (ue ''N~00E9n theo c~1ED9t ZSTD/Snappy t~1EADn d~1EE5ng ~0111~1ED9 t~01B0~01A1ng quan gi~1EEFa c~00E1c cadence li~00EAn ti~1EBFp, ti~1EBFt ki~1EC7m >80% dung l~01B0~1EE3ng ~0111~0129a.'')),
      ((u ''BJD Barycentric Time''), (ue ''Th~1EDDi gian ~0111~00E3 hi~1EC7u ch~1EC9nh v~1EC1 kh~1ED1i t~00E2m H~1EC7 M~1EB7t Tr~1EDDi, ~0111~1ED9 ch~00EDnh x~00E1c float64 micro-gi~00E2y ph~1EE5c v~1EE5 kh~1EDBp m~00F4 h~00ECnh Kepler.'')),
      ((u ''Dictionary Encoding''), (ue ''M~00E3 h~00F3a t~1EEB ~0111i~1EC3n t~1EF1 ~0111~1ED9ng gom nh~00F3m c~1EDD quality bitmask, gi~1EA3m k~00EDch th~01B0~1EDBc c~1ED9t c~1EDD xu~1ED1ng d~01B0~1EDBi 2% dung l~01B0~1EE3ng g~1ED1c.''))]\<rparr>"

definition reference_tpf_parquet :: ScientificReference where
  "reference_tpf_parquet = \<lparr>sr_formulas = [
      ((ue ''H~1EC7 s~1ED1 n~00E9n kh~1ED1i TPF''), (u ''compression_ratio = Bronze TPF bytes / Silver TPF bytes'')),
      ((ue ''K~00EDch th~01B0~1EDBc tem ~1EA3nh''), (ue ''stamp geometry = 11 ~00D7 11 = 121 pixels/cadence'')),
      ((ue ''M~1EADt ~0111~1ED9 pixel ~0111~00E3 n~00E9n''), (ue ''total_pixels = retained_cadences ~00D7 121 pixels'')),
      ((u ''Chunk Row-Group Budget''), (ue ''chunk_duration_p95 ~2264 2.5 s''))],
    sr_terms = [
      ((u ''silver-target-pixel-v1''), (ue ''Schema Parquet ph~00E2n chia theo Row Group: cadence, time, 121 pixel flux, background n~1EC1n tr~1EDDi v~00E0 WCS astrometry.'')),
      ((u ''Row-Group Chunking''), (ue ''Chia kh~1ED1i 3D TPF th~00E0nh c~00E1c Row Group ~0111~1ED9c l~1EADp gi~00FAp worker downstream ~0111~1ECDc t~1EEBng ~0111o~1EA1n th~1EDDi gian m~00E0 kh~00F4ng c~1EA7n n~1EA1p c~1EA3 cube 10MB v~00E0o RAM.'')),
      ((u ''WCS Astrometry Binding''), (ue ''Li~00EAn k~1EBFt ma tr~1EADn xoay v~00E0 t~1EF7 l~1EC7 pixel (21 arcsec/px) tr~1EF1c ti~1EBFp v~00E0o metadata Parquet ph~1EE5c v~1EE5 ~0111o tr~1EAFc tinh t~00E2m sao.''))]\<rparr>"

definition reference_silver :: ScientificReference where
  "reference_silver = \<lparr>sr_formulas = [
      ((u ''Size verification''), (u ''size_ok = stored bytes = checkpoint expected bytes'')),
      ((u ''SHA binding''), (u ''sha_ok = object metadata silver_sha256 = checkpoint silver_sha256'')),
      ((u ''Integrity contract''), (ue ''verified = exists ~2227 size_ok ~2227 sha_ok ~2227 schema_ok ~2227 lineage_bound''))],
    sr_terms = [
      ((u ''Checkpoint linked''), (ue ''Silver object key xu~1EA5t hi~1EC7n trong m~1ED9t completed preprocessing checkpoint.'')),
      ((u ''SHA metadata binding''), (ue ''SHA-256 t~00EDnh tr~00EAn Parquet local tr~01B0~1EDBc upload kh~1EDBp gi~1EEFa object metadata v~00E0 checkpoint.'')),
      ((u ''Schema verified''), (ue ''Schema version trong object metadata kh~1EDBp schema ~0111~00E3 commit v~00E0o checkpoint.'')),
      ((u ''Lineage bound''), (ue ''Object gi~1EEF ~0111~1EA7y ~0111~1EE7 Bronze object key v~00E0 Bronze SHA-256 ngu~1ED3n.''))]\<rparr>"

definition reference_checkpoint :: ScientificReference where
  "reference_checkpoint = \<lparr>sr_formulas = [
      ((u ''Completion rate''), (ue ''completed checkpoints / persisted checkpoints ~00D7 100%'')),
      ((u ''Resume-ready''), (ue ''state = COMPLETED ~2227 verified Silver binding'')),
      ((u ''Lifecycle elapsed''), (ue ''checkpoint.updated_at ~2212 checkpoint.created_at''))],
    sr_terms = [
      ((u ''Reuse & ACK''), (ue ''Checkpoint COMPLETED v~00E0 Silver c~00F2n nguy~00EAn v~1EB9n; worker c~00F3 th~1EC3 b~1ECF qua x~1EED l~00FD khoa h~1ECDc.'')),
      ((u ''Verify Silver''), (ue ''Artifact ~0111~00E3 ~0111~01B0~1EE3c ghi nh~01B0ng checkpoint c~1EA7n ~0111~01B0~1EE3c x~00E1c minh r~1ED3i m~1EDBi promote.'')),
      ((u ''Reprocess''), (ue ''Kh~00F4ng ~0111~1EE7 b~1EB1ng ch~1EE9ng b~1EC1n v~1EEFng; worker ph~1EA3i d~1EF1ng l~1EA1i t~1EEB Bronze theo c~00F9ng fingerprint.'')),
      ((u ''Attempt''), (ue ''S~1ED1 l~1EA7n c~00F9ng checkpoint identity ~0111~00E3 ~0111i qua ~0111~01B0~1EDDng x~1EED l~00FD ho~1EB7c recovery.''))]\<rparr>"

definition reference_lineage :: ScientificReference where
  "reference_lineage = \<lparr>sr_formulas = [
      ((ue ''Dung l~01B0~1EE3ng ti~1EBFt ki~1EC7m''), (ue ''saved_GB = (Bronze bytes ~2212 Silver bytes) / 10~2079'')),
      ((ue ''M~1EE9c gi~1EA3m''), (ue ''reduction = saved bytes / Bronze bytes ~00D7 100%'')),
      ((ue ''H~1EC7 s~1ED1 n~00E9n''), (u ''compression factor = Bronze bytes / Silver bytes''))],
    sr_terms = [
      ((u ''GB''), (ue ''Gigabyte th~1EADp ph~00E2n, b~1EB1ng 10~2079 byte; kh~00E1c GiB = 2~00B3~2070 byte.'')),
      ((u ''Stored footprint''), (ue ''Dung l~01B0~1EE3ng object th~1EF1c t~1EBF do MinIO tr~1EA3 v~1EC1, kh~00F4ng ph~1EA3i k~00EDch th~01B0~1EDBc d~1EEF li~1EC7u t~1EA1m trong RAM.'')),
      ((u ''Attributable bytes''), (ue ''M~1ED7i byte Silver ~0111~01B0~1EE3c n~1ED1i v~1EDBi FITS Bronze ngu~1ED3n qua object key v~00E0 checksum lineage.''))]\<rparr>"

definition reference_event :: ScientificReference where
  "reference_event = \<lparr>sr_formulas = [
      ((u ''Publish amplification''), (u ''durable emissions / eligible Silver artifacts'')),
      ((u ''Replay emissions''), (ue ''max(0, durable emissions ~2212 eligible artifacts)'')),
      ((u ''Mean envelope''), (u ''AURORA_SILVER stream bytes / durable emissions''))],
    sr_terms = [
      ((u ''Durable emission''), (ue ''M~1ED9t Silver-ready message ~0111~00E3 ~0111~01B0~1EE3c JetStream x~00E1c nh~1EADn v~00E0 gi~1EEF trong AURORA_SILVER.'')),
      ((u ''Replay emission''), (ue ''L~1EA7n publish th~00EAm c~1EE7a c~00F9ng t~1EADp artifact trong recovery ho~1EB7c Bronze redelivery.'')),
      ((u ''Eligible artifact''), (ue ''Silver object ~0111~00E3 qua integrity, checkpoint v~00E0 lineage tr~01B0~1EDBc khi ~0111~01B0~1EE3c ph~00E9p publish.'')),
      ((u ''Consumer''), (ue ''Downstream JetStream consumer ~0111ang g~1EAFn v~1EDBi Silver event stream.''))]\<rparr>"

definition reference_ack :: ScientificReference where
  "reference_ack = \<lparr>sr_formulas = [
      ((u ''ACK coverage''), (ue ''acknowledged stream positions / retained Bronze stream messages ~00D7 100%'')),
      ((u ''Delivery amplification''), (u ''consumer delivery attempts / unique delivered stream positions'')),
      ((u ''Historical redelivery''), (ue ''delivery attempts ~2212 delivered stream positions''))],
    sr_terms = [
      ((u ''Stream position''), (ue ''Identity tu~1EA7n t~1EF1 duy nh~1EA5t c~1EE7a m~1ED9t message trong AURORA_BRONZE.'')),
      ((u ''ACK floor''), (ue ''V~1ECB tr~00ED li~00EAn t~1EE5c cao nh~1EA5t m~00E0 durable consumer ~0111~00E3 x~00E1c nh~1EADn ho~00E0n t~1EA5t.'')),
      ((u ''ACK pending''), (ue ''Message ~0111~00E3 delivery nh~01B0ng consumer ch~01B0a g~1EEDi ACK th~00E0nh c~00F4ng.'')),
      ((u ''Redelivery''), (ue ''C~00F9ng stream position ~0111~01B0~1EE3c giao l~1EA1i sau NAK, timeout ho~1EB7c l~1ED7i ACK.'')),
      ((u ''TERM''), (ue ''K~1EBFt th~00FAc redelivery cho l~1ED7i x~00E1c ~0111~1ECBnh l~00E0 terminal; kh~00F4ng ~0111~1ED3ng ngh~0129a x~1EED l~00FD khoa h~1ECDc th~00E0nh c~00F4ng.''))]\<rparr>"

definition reference_gold_pairing :: ScientificReference where
  "reference_gold_pairing = \<lparr>sr_formulas = [
      ((u ''Pair coverage''), (ue ''eligible LC / (eligible LC + LC missing TPF) ~00D7 100%'')),
      ((u ''Contract coverage''), (ue ''contracted LC / (contracted LC + fallback LC) ~00D7 100%'')),
      ((u ''First-batch fill''), (ue ''min(eligible LC, batch capacity) / batch capacity ~00D7 100%''))],
    sr_terms = [
      ((u ''Eligible pair''), (ue ''Light Curve c~00F3 Target Pixel context ~0111~01B0~1EE3c backend gh~00E9p h~1EE3p l~1EC7 v~00E0 c~00F3 th~1EC3 v~00E0o Gold batch.'')),
      ((u ''Missing TPF''), (ue ''Light Curve ch~01B0a t~00ECm th~1EA5y Target Pixel context t~01B0~01A1ng ~1EE9ng n~00EAn ch~01B0a ~0111~01B0~1EE3c admission.'')),
      ((u ''Durable contract''), (ue ''Li~00EAn k~1EBFt ngu~1ED3n LC t~1EDBi TPF ~0111~01B0~1EE3c gi~1EEF t~1EEB ingestion contract, kh~00F4ng d~1EF1a v~00E0o suy ~0111o~00E1n t~00EAn file.'')),
      ((u ''TPF context''), (ue ''Target Pixel context hi~1EC7n c~00F3 ~0111~1EC3 pairing; ch~1EC9 s~1ED1 n~00E0y kh~00F4ng t~1EF1 ch~1EE9ng minh context ~0111ang m~1ED3 c~00F4i.'')),
      ((u ''Batch admission''), (ue ''T~1EADp c~1EB7p h~1EE3p l~1EC7 ~0111~01B0~1EE3c ~0111~01B0a v~00E0o m~1ED9t Gold batch theo gi~1EDBi h~1EA1n c~1EA5u h~00ECnh.''))]\<rparr>"

definition reference_gold_catalog :: ScientificReference where
  "reference_gold_catalog = \<lparr>sr_formulas = [
      ((u ''TIC resolution coverage''), (ue ''resolved TIC records / batch target count ~00D7 100%'')),
      ((u ''TIC unresolved''), (ue ''max(0, batch target count ~2212 resolved TIC records)'')),
      ((u ''TOI record density''), (u ''TOI association rows / batch target count''))],
    sr_terms = [
      ((u ''Batch target count''), (ue ''S~1ED1 TIC ID duy nh~1EA5t trong Gold batch ~0111ang ~0111~01B0~1EE3c catalog resolution.'')),
      ((u ''TIC''), (ue ''TESS Input Catalog; stellar context b~1EAFt bu~1ED9c cho t~1EEBng target c~1EE7a batch.'')),
      ((u ''TOI''), (ue ''TESS Object of Interest; association b~1ED5 sung, kh~00F4ng b~1EAFt bu~1ED9c t~1ED3n t~1EA1i cho m~1ECDi TIC.'')),
      ((u ''TOI density''), (ue ''S~1ED1 TOI record tr~00EAn m~1ED7i target; kh~00F4ng ph~1EA3i unique-target coverage ho~1EB7c x~00E1c su~1EA5t h~00E0nh tinh.'')),
      ((u ''Catalog snapshot''), (ue ''~0110~1ECBnh danh immutable c~1EE7a catalog input ~0111~01B0~1EE3c ghim cho ~0111~00FAng batch.''))]\<rparr>"

definition reference_gold_lc_features :: ScientificReference where
  "reference_gold_lc_features = \<lparr>sr_formulas = [
      ((u ''Flux scatter''), (ue ''~03C3_flux = sqrt(mean((flux ~2212 mean(flux))~00B2))'')),
      ((u ''Robust amplitude''), (ue ''amplitude = P95(flux) ~2212 P05(flux)'')),
      ((u ''Search upper bound''), (u ''effective P_max = min(configured P_max, observation baseline / 2)'')),
      ((u ''Best periodic box''), (u ''(P*, D*) = arg max power_BLS(P, D)'')),
      ((u ''Transit depth''), (ue ''depth = |fitted box depth| ~00D7 10~2076 ppm'')),
      ((u ''Observation baseline''), (ue ''time span = max(time) ~2212 min(time)''))],
    sr_terms = [
      ((u ''16-dim Morphology''), (ue ''Vector thu~1ED9c t~00EDnh v~1EADt l~00FD thi~00EAn v~0103n g~1ED3m t~00E1n x~1EA1 th~00F4ng l~01B0~1EE3ng, th~1EDDi gian v~00E0 d~1EA1ng s~00F3ng b~1EADc cao.'')),
      ((u ''BLS Ephemeris''), (ue ''Nghi~1EC7m chu k~1EF3 (Period), ~0111~1ED9 s~00E2u (Depth), ~0111~1ED9 r~1ED9ng (Duration) ph~00E1t hi~1EC7n t~1EEB Box Least Squares.'')),
      ((u ''Peak Power''), (ue ''~0110~1ED9 m~1EA1nh t~01B0~01A1ng ~0111~1ED1i c~1EE7a nghi~1EC7m transit tr~00EAn periodogram t~1EA7n s~1ED1.'')),
      ((u ''ppm''), (ue ''Parts per million c~1EE7a normalized flux; 10.000 ppm t~01B0~01A1ng ~0111~01B0~01A1ng s~1EE5t gi~1EA3m 1%.''))]\<rparr>"

definition reference_gold_bls :: ScientificReference where
  "reference_gold_bls = \<lparr>sr_formulas = [
      ((u ''Search upper bound''), (u ''effective P_max = min(configured P_max, observation baseline / 2)'')),
      ((u ''Best periodic box''), (u ''(P*, D*) = arg max power_BLS(P, D)'')),
      ((u ''Transit depth''), (ue ''depth = |fitted box depth| ~00D7 10~2076 ppm'')),
      ((u ''Availability''), (ue ''available / evaluated Light Curves ~00D7 100%''))],
    sr_terms = [
      ((u ''BLS''), (ue ''Box Least Squares; t~00ECm t~00EDn hi~1EC7u gi~1EA3m s~00E1ng tu~1EA7n ho~00E0n g~1EA7n d~1EA1ng h~1ED9p.'')),
      ((u ''Best period''), (ue ''Chu k~1EF3 t~1EA1i peak power l~1EDBn nh~1EA5t tr~00EAn l~01B0~1EDBi t~00ECm ki~1EBFm, ch~01B0a ph~1EA3i chu k~1EF3 h~00E0nh tinh ~0111~01B0~1EE3c x~00E1c nh~1EADn.'')),
      ((u ''Duration''), (ue ''~0110~1ED9 r~1ED9ng c~1EE7a box gi~1EA3m s~00E1ng ph~00F9 h~1EE3p nh~1EA5t t~1EA1i nghi~1EC7m BLS.'')),
      ((u ''Depth''), (ue ''Bi~00EAn ~0111~1ED9 gi~1EA3m s~00E1ng c~1EE7a fitted box, bi~1EC3u di~1EC5n b~1EB1ng ppm.'')),
      ((u ''Power''), (ue ''~0110~1ED9 m~1EA1nh t~01B0~01A1ng ~0111~1ED1i c~1EE7a nghi~1EC7m tr~00EAn periodogram; kh~00F4ng ph~1EA3i probability.'')),
      ((u ''Unavailable''), (ue ''Kh~00F4ng t~1EA1o ~0111~01B0~1EE3c BLS evidence h~1EE3p l~1EC7; kh~00F4ng ~0111~1ED3ng ngh~0129a pipeline failure ho~1EB7c non-planet.''))]\<rparr>"

definition reference_gold_tpf_evidence :: ScientificReference where
  "reference_gold_tpf_evidence = \<lparr>sr_formulas = [
      ((u ''Pixel MAD''), (ue ''MAD~2C7C = median~209C(|p~209C~2C7C ~2212 median~209C(p~2C7C)|)'')),
      ((u ''Variability concentration''), (ue ''peak fraction = max(MAD~2C7C) / ~03A3~2C7C MAD~2C7C ~00D7 100%'')),
      ((u ''Positive transit deficit''), (ue ''deficit~2C7C = max(median_out(p~2C7C) ~2212 median_in(p~2C7C), 0)'')),
      ((u ''Deficit centroid''), (ue ''(r~0304, c~0304) = ~03A3~2C7C deficit~2C7C~00B7(r~2C7C,c~2C7C) / ~03A3~2C7C deficit~2C7C'')),
      ((u ''Center offset''), (ue ''offset = sqrt((r~0304~2212r_center)~00B2 + (c~0304~2212c_center)~00B2)''))],
    sr_terms = [
      ((u ''Deficit map''), (ue ''~1EA2nh ch~00EAnh l~1EC7ch d~01B0~01A1ng gi~1EEFa median ngo~00E0i transit v~00E0 median trong transit.'')),
      ((u ''Deficit centroid''), (ue ''T~00E2m c~00F3 tr~1ECDng s~1ED1 c~1EE7a ph~1EA7n flux gi~1EA3m tr~00EAn c~00E1c pixel.'')),
      ((u ''Center offset''), (ue ''Kho~1EA3ng c~00E1ch t~1EEB deficit centroid t~1EDBi t~00E2m h~00ECnh h~1ECDc c~1EE7a TPF cutout, ~0111o b~1EB1ng pixel.'')),
      ((u ''Variability peak fraction''), (ue ''T~1EF7 tr~1ECDng variability n~1EB1m ~1EDF pixel bi~1EBFn thi~00EAn m~1EA1nh nh~1EA5t.'')),
      ((u ''Unavailable''), (ue ''Kh~00F4ng ~0111~1EE7 ephemeris ho~1EB7c cadence transit-window; kh~00F4ng ~0111~1ED3ng ngh~0129a TPF processing failure.''))]\<rparr>"

definition reference_gold_candidate :: ScientificReference where
  "reference_gold_candidate = \<lparr>sr_formulas = [
      ((u ''Assembly coverage''), (ue ''2 ~00D7 candidate rows / (LC feature rows + TPF evidence rows) ~00D7 100%'')),
      ((u ''Evidence-layer coverage''), (ue ''rows with layer / candidate rows ~00D7 100%'')),
      ((u ''TOI association coverage''), (ue ''(EPHEMERIS_MATCH + PERIOD_ONLY) / candidate rows ~00D7 100%''))],
    sr_terms = [
      ((u ''Candidate row''), (ue ''Canonical row k~1EBFt h~1EE3p LC identity, TPF context, catalog context v~00E0 c~00E1c evidence kh~1EA3 d~1EE5ng.'')),
      ((u ''Assembly contract''), (ue ''M~1ED7i candidate row ~0111~1EA1i di~1EC7n ~0111~00FAng m~1ED9t LC feature row v~00E0 m~1ED9t paired TPF context.'')),
      ((u ''Evidence tier''), (ue ''Nh~00F3m lo~1EA1i tr~1EEB nhau m~00F4 t~1EA3 m~1EE9c BLS/spatial/TIC coverage c~1EE7a candidate.'')),
      ((u ''TOI association''), (ue ''Li~00EAn k~1EBFt t~1EDBi catalog TOI theo TIC v~00E0 period/ephemeris; l~00E0 context t~00F9y ch~1ECDn.'')),
      ((u ''Period mismatch''), (ue ''Target c~00F3 TOI nh~01B0ng BLS period kh~00F4ng kh~1EDBp period ho~1EB7c harmonic ~0111~01B0~1EE3c h~1ED7 tr~1EE3.'')),
      ((ue ''Candidate ~2260 confirmed planet''), (ue ''Row l~00E0 ~0111~1ED1i t~01B0~1EE3ng nghi~00EAn c~1EE9u c~00F3 provenance, ch~01B0a ph~1EA3i k~1EBFt lu~1EADn v~1EADt l~00FD.''))]\<rparr>"

definition reference_gold_parquet :: ScientificReference where
  "reference_gold_parquet = \<lparr>sr_formulas = [
      ((u ''Row accounting''), (ue ''~03A3 artifact rows = manifest row_count = batch candidate_rows'')),
      ((u ''Mean artifact size''), (ue ''~03A3 stored bytes / artifact count'')),
      ((u ''Storage density''), (u ''bytes per row = artifact size_bytes / artifact row_count'')),
      ((u ''Object size integrity''), (u ''stored object bytes = manifest artifact size_bytes''))],
    sr_terms = [
      ((u ''Gold artifact''), (ue ''Immutable Parquet partition c~1EE7a canonical candidate dataset.'')),
      ((u ''Manifest SHA''), (ue ''SHA-256 t~00EDnh l~1EA1i tr~00EAn manifest bytes v~00E0 ~0111~1ED1i chi~1EBFu durable batch ledger.'')),
      ((u ''Content SHA''), (ue ''Digest n~1ED9i dung logical ~0111~01B0~1EE3c writer khai b~00E1o trong manifest.'')),
      ((u ''Parquet SHA''), (ue ''Digest byte-level c~1EE7a Parquet artifact ~0111~01B0~1EE3c writer khai b~00E1o.'')),
      ((u ''Bytes/row''), (ue ''M~1EADt ~0111~1ED9 l~01B0u tr~1EEF quan s~00E1t ~0111~01B0~1EE3c; kh~00F4ng ph~1EA3i compression ratio khi ch~01B0a c~00F3 logical input bytes.''))]\<rparr>"

definition reference_gold_index :: ScientificReference where
  "reference_gold_index = \<lparr>sr_formulas = [
      ((u ''Index coverage''), (ue ''actual queryable candidate rows / expected manifest rows ~00D7 100%'')),
      ((u ''Five-way parity''), (u ''batch indexed = manifest expected = registry indexed = marker indexed = actual rows'')),
      ((u ''LC sample density''), (u ''checksum-verified Light Curve sample rows / candidate rows''))],
    sr_terms = [
      ((u ''Snapshot registry''), (ue ''ClickHouse record ghim manifest SHA, expected rows, indexed rows v~00E0 index status.'')),
      ((u ''Actual queryable rows''), (ue ''S~1ED1 row ~0111~01B0~1EE3c count tr~1EF1c ti~1EBFp t~1EEB candidate_features cho ~0111~00FAng snapshot ID.'')),
      ((u ''Projection marker''), (ue ''Immutable MinIO record m~00F4 t~1EA3 ClickHouse projection ~0111~00E3 ho~00E0n t~1EA5t cho snapshot.'')),
      ((u ''LC plot samples''), (ue ''Exact time/flux samples ~0111~1ECDc t~1EEB Silver checksum-verified ~0111~1EC3 t~0103ng t~1ED1c visualization.'')),
      ((u ''Training cohort''), (ue ''Reviewable derived overlay; kh~00F4ng s~1EEDa immutable Candidate Gold.''))]\<rparr>"

definition reference_gold_commit :: ScientificReference where
  "reference_gold_commit = \<lparr>sr_formulas = [
      ((u ''Row reconciliation''), (u ''batch candidate_rows = manifest row_count = ClickHouse queryable rows'')),
      ((u ''Parquet storage density''), (u ''density = stored bytes / artifact candidate rows'')),
      ((u ''Index parity''), (ue ''indexed ClickHouse rows / candidate rows ~00D7 100%'')),
      ((u ''Immutable commit validity''), (ue ''valid = manifest COMMITTED ~2227 SHA256 verified ~2227 Parquet intact ~2227 projection READY''))],
    sr_terms = [
      ((u ''Gold Parquet''), (ue ''C~00E1c ph~00E2n v~00F9ng c~1ED9t n~00E9n Snappy l~01B0u tr~00EAn MinIO object storage.'')),
      ((u ''ReplacingMergeTree''), (ue ''B~1EA3ng ClickHouse ph~00E2n t~00EDch low-latency cho candidate exoplanets.'')),
      ((u ''Manifest SHA''), (ue ''M~00E3 b~0103m SHA-256 k~00FD s~1ED1 snapshot x~00E1c th~1EF1c t~00EDnh b~1EA5t bi~1EBFn (immutable).'')),
      ((u ''Three-way Parity''), (ue ''S~1EF1 ~0111~1ED3ng b~1ED9 tuy~1EC7t ~0111~1ED1i gi~1EEFa s~1ED1 h~00E0ng trong batch, trong Parquet v~00E0 trong ClickHouse.''))]\<rparr>"

definition references :: "(str \<times> ScientificReference) list" where
  "references = [(u ''bronze'', reference_bronze),
     (u ''route'', reference_route),
     (u ''lc-quality'', reference_lc_quality),
     (u ''tpf-quality'', reference_tpf_quality),
     (u ''lc-transform'', reference_lc_transform),
     (u ''tpf-transform'', reference_tpf_transform),
     (u ''lc-parquet'', reference_lc_parquet),
     (u ''tpf-parquet'', reference_tpf_parquet),
     (u ''silver'', reference_silver),
     (u ''checkpoint'', reference_checkpoint),
     (u ''lineage'', reference_lineage),
     (u ''event'', reference_event),
     (u ''ack'', reference_ack),
     (u ''gold-pairing'', reference_gold_pairing),
     (u ''gold-catalog'', reference_gold_catalog),
     (u ''gold-lc-features'', reference_gold_lc_features),
     (u ''gold-bls'', reference_gold_bls),
     (u ''gold-tpf-evidence'', reference_gold_tpf_evidence),
     (u ''gold-candidate'', reference_gold_candidate),
     (u ''gold-parquet'', reference_gold_parquet),
     (u ''gold-index'', reference_gold_index),
     (u ''gold-commit'', reference_gold_commit)]"

definition scientificReference :: "Hop \<Rightarrow> ScientificReference" where
  "scientificReference hop = (case map_of references (hop_id hop) of
      Some r \<Rightarrow> r
    | None \<Rightarrow> \<lparr>sr_formulas = (case hop_formula hop of
          Some f \<Rightarrow> if f \<noteq> [] then [((ue ''Ph~00E9p t~00EDnh ch~00EDnh''), f)] else [] | None \<Rightarrow> []),
        sr_terms = [((u ''Input''), hop_input hop), ((u ''Output''), hop_output hop)]\<rparr>)"

section \<open>Entries\<close>

definition reference_ok :: "ScientificReference \<Rightarrow> bool" where
  "reference_ok r \<longleftrightarrow> sr_formulas r \<noteq> [] \<and> distinct (map fst (sr_formulas r)) \<and> sr_terms r \<noteq> [] \<and> distinct (map fst (sr_terms r))"

lemmas reference_defs =
  reference_bronze_def reference_route_def reference_lc_quality_def reference_tpf_quality_def reference_lc_transform_def reference_tpf_transform_def reference_lc_parquet_def reference_tpf_parquet_def reference_silver_def reference_checkpoint_def reference_lineage_def
  reference_event_def reference_ack_def reference_gold_pairing_def reference_gold_catalog_def reference_gold_lc_features_def reference_gold_bls_def reference_gold_tpf_evidence_def reference_gold_candidate_def reference_gold_parquet_def reference_gold_index_def reference_gold_commit_def

lemma each_reference_ok:
  "reference_ok reference_bronze" "reference_ok reference_route" "reference_ok reference_lc_quality" "reference_ok reference_tpf_quality"
  "reference_ok reference_lc_transform" "reference_ok reference_tpf_transform" "reference_ok reference_lc_parquet" "reference_ok reference_tpf_parquet"
  "reference_ok reference_silver" "reference_ok reference_checkpoint" "reference_ok reference_lineage" "reference_ok reference_event"
  "reference_ok reference_ack" "reference_ok reference_gold_pairing" "reference_ok reference_gold_catalog" "reference_ok reference_gold_lc_features"
  "reference_ok reference_gold_bls" "reference_ok reference_gold_tpf_evidence" "reference_ok reference_gold_candidate" "reference_ok reference_gold_parquet"
  "reference_ok reference_gold_index" "reference_ok reference_gold_commit"
  unfolding reference_ok_def reference_defs ScientificReference.select_convs list.map fst_conv
  by (simp_all add: text_eq ue_Nil_eq hex4_def hex_digit_def del: ue.simps cong: conj_cong)

lemma references_ok: "list_all (\<lambda>(i, r). reference_ok r) references"
  by (simp only: references_def list.pred_inject prod.case each_reference_ok simp_thms)

lemma references_cover: "set (upstream_order @ goldPhaseOrder) \<subseteq> fst ` set references"
  by (simp add: references_def upstream_order_def goldPhaseOrder_def)

text \<open>
  Every hop of the pipeline graph, live or of a past run, is explained by an entry of its own, which
  has formulas and terms and none of them twice.
\<close>

theorem hops_have_references:
  "list_all (\<lambda>hop. map_of references (hop_id hop) = Some (scientificReference hop) \<and> reference_ok (scientificReference hop)) (hops h s)"
proof -
  have "map_of references (hop_id hop) = Some (scientificReference hop) \<and> reference_ok (scientificReference hop)" if "hop \<in> set (hops h s)" for hop
  proof -
    have "hop_id hop \<in> fst ` set references" using that hop_id_set [of h s] references_cover by (auto split: if_splits)
    then obtain r where r: "map_of references (hop_id hop) = Some r" by (metis map_of_eq_None_iff not_Some_eq)
    then have "reference_ok r" using references_ok map_of_SomeD [OF r] by (auto simp: list_all_iff)
    then show ?thesis using r by (simp add: scientificReference_def)
  qed
  then show ?thesis by (simp add: list_all_iff)
qed

end
