(* ===== verification/HopDrawer.thy ===== *)
theory HopDrawer
  imports HopReferences HopStats
begin

text \<open>
  The drawer of a hop (\<open>pages/pipeline-dag/components/HopDetailDrawer.tsx\<close>): the chart shown for a
  hop, the request for its figures, made anew for every hop and ticket, and the figures merged
  from the graph and the answer. Shown: every hop of the graph has a chart of its own, late
  answers change nothing and the spinner stands for a request that is out; and that figures of
  the hop shown before are mixed into those of the next.
\<close>

section \<open>Charts\<close>

type_synonym metrics = "(str \<times> jsnum) list"

datatype run_mode = RM_stream | RM_batch

datatype hop_chart =
    CadenceTimelineChart run_mode jsnum "metrics option" "Telemetry option"
  | ProductDemuxChart run_mode jsnum "metrics option" "Telemetry option"
  | QualityMaskChart run_mode jsnum "metrics option" "Telemetry option" "str option"
  | TPFQualityWCSChart run_mode jsnum "metrics option" "Telemetry option"
  | ResidualsDistributionChart "metrics option" "Telemetry option" "scatter_point list option" "tpf_transform_point list option"
  | LCDetrendChart "metrics option" "Telemetry option" "scatter_point list option"
  | TPFTransformChart "metrics option" "Telemetry option" "tpf_transform_point list option"
  | SilverMaterializationChart "metrics option" "Telemetry option" "materialization_point list option" "encode_failure list option" "silver_failure list option"
  | LCParquetChart "metrics option" "Telemetry option" "materialization_point list option" "encode_failure list option"
  | TPFParquetChart "metrics option" "Telemetry option" "materialization_point list option" "encode_failure list option"
  | CheckpointMetricsChart "metrics option" "checkpoint_point list option" "materialization_point list option"
  | LineageLedgerChart run_mode "metrics option" "materialization_point list option"
  | EventPublishChart "metrics option" "materialization_point list option"
  | AckDeliveryChart "metrics option"
  | PairingReadinessChart "metrics option"
  | CatalogResolutionChart "metrics option" "(str \<times> str) list option"
  | GoldPhaseChart "metrics option" "Telemetry option" str
  | LightCurveFeaturesChart "metrics option" "Telemetry option" "LCFeatureEvidence option" "BLSSearchEvidence option"
  | TPFSpatialEvidenceChart "metrics option" "TPFSpatialEvidence option"
  | CandidateAssemblyChart "metrics option" "Telemetry option" "CandidateAssemblyEvidence option"
  | GoldCommitChart "metrics option" "Telemetry option" "GoldCommitEvidence option" "GoldMaterializationEvidence option" "GoldProjectionEvidence option"
  | StageEvidence "metrics option"

definition observed_metric :: "metrics option \<Rightarrow> string \<Rightarrow> bool" where
  "observed_metric metrics key \<longleftrightarrow> (case metric_of metrics (u key) of Some x \<Rightarrow> num_eq x (lit 1) | None \<Rightarrow> False)"

text \<open>The evidence comes from the hop itself, metrics and telemetry are merged ones.\<close>

definition renderHopChart :: "Hop \<Rightarrow> run_mode \<Rightarrow> jsnum \<Rightarrow> metrics option \<Rightarrow> Telemetry option \<Rightarrow> hop_chart" where
  "renderHopChart hop mode totalFiles metrics telemetry = (let i = hop_id hop in
     if i = u ''bronze'' then CadenceTimelineChart mode totalFiles metrics telemetry
     else if i = u ''route'' then ProductDemuxChart mode totalFiles metrics telemetry
     else if i = u ''decode'' then QualityMaskChart mode totalFiles metrics telemetry None
     else if i = u ''lc-quality'' then QualityMaskChart mode totalFiles metrics telemetry (Some (u ''lightcurve''))
     else if i = u ''tpf-quality'' then TPFQualityWCSChart mode totalFiles metrics telemetry
     else if i = u ''transform'' then ResidualsDistributionChart metrics telemetry (hop_scatter_points hop) (hop_tpf_transform_points hop)
     else if i = u ''lc-transform'' then LCDetrendChart metrics telemetry (hop_scatter_points hop)
     else if i = u ''tpf-transform'' then TPFTransformChart metrics telemetry (hop_tpf_transform_points hop)
     else if i = u ''silver'' then SilverMaterializationChart metrics telemetry (hop_materialization_points hop) (hop_encode_failures hop) (hop_silver_failures hop)
     else if i = u ''lc-parquet'' then LCParquetChart metrics telemetry (hop_materialization_points hop) (hop_encode_failures hop)
     else if i = u ''tpf-parquet'' then TPFParquetChart metrics telemetry (hop_materialization_points hop) (hop_encode_failures hop)
     else if i = u ''checkpoint'' then CheckpointMetricsChart metrics (hop_checkpoint_points hop) (hop_materialization_points hop)
     else if i = u ''lineage'' then LineageLedgerChart mode metrics (hop_materialization_points hop)
     else if i = u ''event'' then EventPublishChart metrics (hop_materialization_points hop)
     else if i = u ''ack'' then AckDeliveryChart metrics
     else if i = u ''gold-pairing'' then
       (if observed_metric metrics ''readiness_observed'' then PairingReadinessChart metrics else GoldPhaseChart metrics telemetry i)
     else if i = u ''gold-catalog'' then
       (if observed_metric metrics ''catalog_observed'' then CatalogResolutionChart metrics (hop_details hop) else GoldPhaseChart metrics telemetry i)
     else if i = u ''gold-lc-features'' \<or> i = u ''gold-bls'' then
       LightCurveFeaturesChart metrics telemetry (hop_lc_feature_evidence hop) (hop_bls_search_evidence hop)
     else if i = u ''gold-tpf-evidence'' then TPFSpatialEvidenceChart metrics (hop_tpf_spatial_evidence hop)
     else if i = u ''gold-candidate'' then CandidateAssemblyChart metrics telemetry (hop_candidate_assembly_evidence hop)
     else if i = u ''gold-parquet'' \<or> i = u ''gold-index'' \<or> i = u ''gold-commit'' then
       GoldCommitChart metrics telemetry (hop_gold_commit_evidence hop) (hop_gold_materialization_evidence hop) (hop_gold_projection_evidence hop)
     else StageEvidence metrics)"

definition stage_observed :: "metrics option \<Rightarrow> metrics" where
  "stage_observed metrics = take 12 (filter (\<lambda>(k, x). isFinite x \<and> lit 0 < x) (nullish metrics []))"

section \<open>State\<close>

text \<open>What the drawer uses of the answer, a \<open>Partial<Hop>\<close>.\<close>

record partial_hop =
  ph_metrics :: "metrics option"
  ph_telemetry :: "Telemetry option"

record drawer_call =
  dc_run :: nat
  dc_hop :: str
  dc_ticket :: str

record drawer =
  dr_selectedHop :: "Hop option"
  dr_ticketID :: str
  dr_liveHopData :: "partial_hop option"
  dr_isLoadingHop :: bool
  dr_run :: nat
  dr_calls :: "(nat \<times> drawer_call) list"
  dr_next :: nat

definition hop_effect :: "drawer \<Rightarrow> drawer" where
  "hop_effect s = (let s1 = s\<lparr>dr_run := Suc (dr_run s)\<rparr> in
     case dr_selectedHop s of
       None \<Rightarrow> s1\<lparr>dr_liveHopData := None\<rparr>
     | Some hop \<Rightarrow> s1\<lparr>dr_isLoadingHop := True,
         dr_calls := dr_calls s @ [(dr_next s, \<lparr>dc_run = Suc (dr_run s), dc_hop = hop_id hop, dc_ticket = dr_ticketID s\<rparr>)],
         dr_next := Suc (dr_next s)\<rparr>)"

definition initial_drawer :: "str \<Rightarrow> drawer" where
  "initial_drawer ticket = hop_effect \<lparr>dr_selectedHop = None, dr_ticketID = ticket, dr_liveHopData = None, dr_isLoadingHop = False,
     dr_run = 0, dr_calls = [], dr_next = 0\<rparr>"

text \<open>New properties; the effect runs when the identifier of the hop or the ticket differs.\<close>

definition drawer_props :: "Hop option \<Rightarrow> str \<Rightarrow> drawer \<Rightarrow> drawer" where
  "drawer_props hop ticket s = (let s1 = s\<lparr>dr_selectedHop := hop, dr_ticketID := ticket\<rparr> in
     if map_option hop_id hop = map_option hop_id (dr_selectedHop s) \<and> ticket = dr_ticketID s then s1 else hop_effect s1)"

definition settle_hop :: "nat \<Rightarrow> str option + partial_hop option \<Rightarrow> drawer \<Rightarrow> drawer" where
  "settle_hop r res s0 = (case map_of (dr_calls s0) r of None \<Rightarrow> s0
     | Some c \<Rightarrow> let s = s0\<lparr>dr_calls := filter (\<lambda>e. fst e \<noteq> r) (dr_calls s0)\<rparr> in
         if dc_run c \<noteq> dr_run s then s
         else (case res of Inr (Some d) \<Rightarrow> s\<lparr>dr_liveHopData := Some d\<rparr> | _ \<Rightarrow> s)\<lparr>dr_isLoadingHop := False\<rparr>)"

text \<open>Object spread: the fields of the second win.\<close>

definition spread :: "('k \<times> 'v) list option \<Rightarrow> ('k \<times> 'v) list option \<Rightarrow> ('k \<times> 'v) list" where
  "spread a b = fold (\<lambda>(k, v). AList.update k v) (nullish b []) (nullish a [])"

definition mergedMetrics :: "drawer \<Rightarrow> metrics option" where
  "mergedMetrics s = map_option (\<lambda>hop. spread (hop_metrics hop) (Option.bind (dr_liveHopData s) ph_metrics)) (dr_selectedHop s)"

definition mergedTelemetry :: "drawer \<Rightarrow> Telemetry option" where
  "mergedTelemetry s = map_option (\<lambda>hop. spread (hop_telemetry hop) (Option.bind (dr_liveHopData s) ph_telemetry)) (dr_selectedHop s)"

definition drawer_chart :: "run_mode \<Rightarrow> jsnum \<Rightarrow> drawer \<Rightarrow> hop_chart option" where
  "drawer_chart mode totalFiles s = map_option (\<lambda>hop. renderHopChart hop mode totalFiles (mergedMetrics s) (mergedTelemetry s)) (dr_selectedHop s)"

definition scope_text :: "drawer \<Rightarrow> str" where
  "scope_text s = (if dr_ticketID s \<noteq> [] then (u ''Aggregated for '' @ dr_ticketID s) else (u ''Observed evidence only''))"

datatype drawer_event =
    Props "Hop option" str
  | Hop_answer nat "str option + partial_hop option"

fun drawer_step :: "drawer \<Rightarrow> drawer_event \<Rightarrow> drawer" where
  "drawer_step s (Props hop ticket) = drawer_props hop ticket s"
| "drawer_step s (Hop_answer r res) = settle_hop r res s"

section \<open>Every hop has its chart\<close>

lemma not_stage_evidence:
  assumes "hop_id hop \<in> set (upstream_order @ goldPhaseOrder)"
  shows "renderHopChart hop mode n metrics telemetry \<noteq> StageEvidence m"
  using assms by (auto simp: renderHopChart_def Let_def upstream_order_def goldPhaseOrder_def)

text \<open>
  Every hop of the pipeline graph, live or of a past run, has a chart of its own in the drawer: the
  fallback that lists bare figures is for none of them.
\<close>

theorem hops_have_charts:
  "list_all (\<lambda>hop. renderHopChart hop mode n metrics telemetry \<notin> range StageEvidence) (hops h s)"
proof -
  have "hop_id hop \<in> set (upstream_order @ goldPhaseOrder)" if "hop \<in> set (hops h s)" for hop
    using that hop_id_set [of h s] by (auto split: if_splits)
  then show ?thesis using not_stage_evidence by (auto simp: list_all_iff)
qed

section \<open>Requests\<close>

text \<open>Every request that may still be answered to the drawer is for the hop and ticket it shows.\<close>

definition call_ok :: "drawer \<Rightarrow> nat \<times> drawer_call \<Rightarrow> bool" where
  "call_ok s e \<longleftrightarrow> fst e < dr_next s \<and> dc_run (snd e) \<le> dr_run s \<and>
     (dc_run (snd e) = dr_run s \<longrightarrow> Some (dc_hop (snd e)) = map_option hop_id (dr_selectedHop s) \<and> dc_ticket (snd e) = dr_ticketID s)"

definition drawer_ok :: "drawer \<Rightarrow> bool" where
  "drawer_ok s \<longleftrightarrow> list_all (call_ok s) (dr_calls s) \<and> distinct (map fst (dr_calls s)) \<and>
     (dr_selectedHop s = None \<longrightarrow> dr_liveHopData s = None) \<and>
     (dr_isLoadingHop s \<longrightarrow> dr_selectedHop s \<noteq> None \<longrightarrow> list_ex (\<lambda>e. dc_run (snd e) = dr_run s) (dr_calls s))"

lemma hop_effect_ok:
  assumes "list_all (\<lambda>e. fst e < dr_next s \<and> dc_run (snd e) \<le> dr_run s) (dr_calls s)" "distinct (map fst (dr_calls s))"
  shows "drawer_ok (hop_effect s)"
  using assms by (fastforce simp: drawer_ok_def call_ok_def hop_effect_def Let_def list_all_iff list_ex_iff split: option.splits)

lemma props_ok: "drawer_ok s \<Longrightarrow> drawer_ok (drawer_props hop ticket s)"
proof -
  assume ok: "drawer_ok s"
  let ?s = "s\<lparr>dr_selectedHop := hop, dr_ticketID := ticket\<rparr>"
  have "drawer_ok (hop_effect ?s)" using ok by (intro hop_effect_ok) (auto simp: drawer_ok_def call_ok_def list_all_iff)
  moreover have "drawer_ok ?s" if "map_option hop_id hop = map_option hop_id (dr_selectedHop s)" "ticket = dr_ticketID s"
    using ok that by (auto simp: drawer_ok_def call_ok_def list_all_iff)
  ultimately show ?thesis by (simp add: drawer_props_def Let_def)
qed

lemma settle_hop_ok:
  assumes ok: "drawer_ok s"
  shows "drawer_ok (settle_hop r res s)"
proof (cases "map_of (dr_calls s) r")
  case (Some c)
  have c: "(r, c) \<in> set (dr_calls s)" by (rule map_of_SomeD [OF Some])
  then have u: "e = (r, c)" if "e \<in> set (dr_calls s)" "fst e = r" for e
    using ok that by (cases e) (auto simp: drawer_ok_def dest: map_of_is_SomeI simp: Some)
  have calls: "list_all (call_ok s) (filter (\<lambda>e. fst e \<noteq> r) (dr_calls s))" "distinct (map fst (filter (\<lambda>e. fst e \<noteq> r) (dr_calls s)))"
    using ok by (auto simp: drawer_ok_def list_all_iff distinct_map_filter)
  show ?thesis
  proof (cases "dc_run c = dr_run s")
    case True
    moreover have "call_ok s (r, c)" using ok c by (auto simp: drawer_ok_def list_all_iff)
    ultimately have "dr_selectedHop s \<noteq> None" by (cases "dr_selectedHop s") (auto simp: call_ok_def)
    then show ?thesis using calls True Some
      by (auto simp: settle_hop_def Let_def drawer_ok_def list_all_iff call_ok_def split: sum.splits option.splits)
  next
    case False
    then have "list_ex (\<lambda>e. dc_run (snd e) = dr_run s) (filter (\<lambda>e. fst e \<noteq> r) (dr_calls s))"
      if "list_ex (\<lambda>e. dc_run (snd e) = dr_run s) (dr_calls s)" using that u by (fastforce simp: list_ex_iff)
    then show ?thesis using calls ok False Some
      by (auto simp: settle_hop_def Let_def drawer_ok_def list_all_iff call_ok_def)
  qed
qed (simp add: settle_hop_def ok)

interpretation drawer_run: reducer drawer_step drawer_ok
proof
  show "drawer_ok (drawer_step s e)" if "drawer_ok s" for s e using that by (cases e) (simp_all add: props_ok settle_hop_ok)
qed

lemma initial_drawer_ok: "drawer_ok (initial_drawer ticket)"
  unfolding initial_drawer_def by (rule hop_effect_ok) simp_all

text \<open>
  C26. Whatever hops and tickets are shown and in whatever order answers arrive, the spinner of an open
  drawer stands for a request that is out, every answer the drawer will still take is for the hop and
  the ticket it shows, and a closed drawer keeps no figures.
\<close>

theorem drawer_requests_sound:
  fixes es :: "drawer_event list" and ticket :: str
  defines "s \<equiv> foldl drawer_step (initial_drawer ticket) es"
  shows "(dr_isLoadingHop s \<and> dr_selectedHop s \<noteq> None \<longrightarrow> (\<exists>(r, c)\<in>set (dr_calls s). dc_run c = dr_run s)) \<and>
    (\<forall>(r, c)\<in>set (dr_calls s). dc_run c = dr_run s \<longrightarrow> Some (dc_hop c) = map_option hop_id (dr_selectedHop s) \<and> dc_ticket c = dr_ticketID s) \<and>
    (dr_selectedHop s = None \<longrightarrow> dr_liveHopData s = None)"
  using drawer_run.run_inv [OF initial_drawer_ok, of ticket es] unfolding s_def [symmetric]
  by (fastforce simp: drawer_ok_def list_all_iff list_ex_iff call_ok_def)

definition sample_hop :: "str \<Rightarrow> Hop" where
  "sample_hop i = hop_of i [] [] [] [] [] [] HS_idle [] [] None None"

theorem drawer_requests_sound_witness:
  "dr_liveHopData (foldl drawer_step (initial_drawer []) [Props (Some (sample_hop (u ''bronze''))) [], Props None [], Hop_answer 0 (Inr None)]) = None"
  using drawer_requests_sound [of "[]" "[Props (Some (sample_hop (u ''bronze''))) [], Props None [], Hop_answer 0 (Inr None)]"]
  by (simp add: drawer_props_def hop_effect_def settle_hop_def initial_drawer_def Let_def)

section \<open>Figures of another hop\<close>

lemma spread_get: "map_of (spread a b) = map_of (nullish a []) ++ map_of (rev (nullish b []))"
proof -
  have "map_of (fold (\<lambda>(k, v). AList.update k v) b' a') = map_of a' ++ map_of (rev b')" for a' b' :: "('a \<times> 'b) list"
    by (induction b' arbitrary: a') (auto simp: update_conv' map_add_def fun_eq_iff map_of_append split: option.splits)
  then show ?thesis by (simp add: spread_def)
qed

text \<open>
  The figures fetched for one hop stay when the next one is opened: if the request for that fails, every
  figure of the first hop is shown among those of the second, in place of its own, with no spinner.
\<close>

theorem drawer_mixes_hops:
  fixes a b :: Hop and d :: partial_hop and t :: str and e :: "str option"
  defines "s \<equiv> foldl drawer_step (initial_drawer t) [Props (Some a) t, Hop_answer 0 (Inr (Some d)), Props (Some b) t, Hop_answer 1 (Inl e)]"
  assumes "hop_id a \<noteq> hop_id b" "ph_metrics d = Some m" "distinct (map fst m)" "map_of m k = Some v"
  shows "\<exists>mm. mergedMetrics s = Some mm \<and> map_of mm k = Some v \<and> dr_selectedHop s = Some b \<and> \<not> dr_isLoadingHop s"
proof -
  have "dr_selectedHop s = Some b \<and> dr_liveHopData s = Some d \<and> \<not> dr_isLoadingHop s" unfolding s_def using assms(2)
    by (simp add: initial_drawer_def drawer_props_def hop_effect_def settle_hop_def Let_def)
  moreover have "map_of (rev m) k = Some v"
    using assms(4,5) by (intro map_of_is_SomeI) (auto simp: rev_map [symmetric] dest: map_of_SomeD)
  ultimately show ?thesis using assms(3) by (simp add: mergedMetrics_def spread_get)
qed

theorem drawer_mixes_hops_witness:
  "\<exists>mm. mergedMetrics (foldl drawer_step (initial_drawer []) [Props (Some (sample_hop (u ''bronze''))) [],
       Hop_answer 0 (Inr (Some \<lparr>ph_metrics = Some [(u ''x'', lit 1)], ph_telemetry = None\<rparr>)),
       Props (Some (sample_hop (u ''route''))) [], Hop_answer 1 (Inl None)]) = Some mm \<and> map_of mm (u ''x'') = Some (lit 1)"
proof -
  let ?d = "\<lparr>ph_metrics = Some [(u ''x'', lit 1)], ph_telemetry = None\<rparr>"
  have "hop_id (sample_hop (u ''bronze'')) \<noteq> hop_id (sample_hop (u ''route''))" "ph_metrics ?d = Some [(u ''x'', lit 1)]"
    "distinct (map fst [(u ''x'', lit 1)])" "map_of [(u ''x'', lit 1)] (u ''x'') = Some (lit 1)" by (simp_all add: sample_hop_def)
  from drawer_mixes_hops [OF this, of "[]" None] show ?thesis by blast
qed

end
