(* ===== verification/TargetPanels.thy ===== *)
theory TargetPanels
  imports LightCurve JsText
begin

text \<open>
  The panels of the target page: the header (\<open>pages/target-detail/components/TargetHeader.tsx\<close>), the star
  handed to the orbit viewer (\<open>Target3DSimulator.tsx\<close>) and the three tabs of the catalog card
  (\<open>InfoItem.tsx\<close>, \<open>ObservationTab.tsx\<close>, \<open>StarPhysicsTab.tsx\<close>, \<open>AiPhysicsTab.tsx\<close>), with the values and
  texts they compute. Icons and styling are left out. Shown: the page and the card agree on whether
  the star is known, the optimistic zone contains the conservative one in spite of rounding, the
  shares of the habitability score are percentages, and what is shown of a missing value.
\<close>

section \<open>Numbers and labels\<close>

definition info_number :: "nat \<Rightarrow> jsnum option \<Rightarrow> str" where
  "info_number digits x = (case x of None \<Rightarrow> (ue ''~2014'') | Some v \<Rightarrow> if isFinite v then toFixed v digits else (ue ''~2014''))"

text \<open>\<open>x && x > 0\<close> for a value that may be missing.\<close>

definition opt_positive :: "jsnum option \<Rightarrow> bool" where
  "opt_positive x = (case x of None \<Rightarrow> False | Some v \<Rightarrow> truthy v \<and> lit 0 < v)"

record info_item =
  it_label :: str
  it_value :: str
  it_tooltip :: str

section \<open>Header and viewer\<close>

definition header_texts :: "Target \<Rightarrow> str list" where
  "header_texts target = [(u ''TIC '' @ num_str (tg_tic_id target)), (u ''Sector '' @ num_str (tg_sector target)), tg_pipeline_status target,
     (if tg_matched_toi target \<noteq> [] then (ue ''3D ~00B7 '' @ tg_matched_toi target) else (u ''3D Simulator''))]"

text \<open>The context of the star as the page and the card of the catalog compute it.\<close>

definition page_hasStellarContext :: "Target option \<Rightarrow> TargetInsights option \<Rightarrow> bool" where
  "page_hasStellarContext target insights =
     (map_option tg_tic_context_available target = Some True \<and>
      (case insights of None \<Rightarrow> False | Some i \<Rightarrow> lit 0 < sp_teff (ti_stellar_physics i) \<and> lit 0 < sp_radius (ti_stellar_physics i)))"

definition card_hasStellarContext :: "Target \<Rightarrow> TargetInsights \<Rightarrow> bool" where
  "card_hasStellarContext target insights =
     (tg_tic_context_available target \<and> lit 0 < sp_teff (ti_stellar_physics insights) \<and> lit 0 < sp_radius (ti_stellar_physics insights))"

record star_obj =
  so_name :: str
  so_teff :: jsnum
  so_radius :: jsnum
  so_mass :: "jsnum option"
  so_mag :: "jsnum option"

definition starObj :: "Target \<Rightarrow> jsnum \<Rightarrow> jsnum \<Rightarrow> jsnum option \<Rightarrow> star_obj" where
  "starObj target starTeff starRadius stellarMass =
     \<lparr>so_name = (u ''TIC '' @ num_str (tg_tic_id target)), so_teff = starTeff, so_radius = starRadius,
      so_mass = (if opt_positive stellarMass then stellarMass else None),
      so_mag = (if lit 0 < tg_tess_mag target then Some (tg_tess_mag target) else None)\<rparr>"

text \<open>The viewer is there only with a context; else a notice is.\<close>

definition simulator_star :: "Target \<Rightarrow> bool \<Rightarrow> jsnum \<Rightarrow> jsnum \<Rightarrow> jsnum option \<Rightarrow> star_obj option" where
  "simulator_star target hasStellarContext starTeff starRadius stellarMass =
     (if hasStellarContext then Some (starObj target starTeff starRadius stellarMass) else None)"

definition simulator_text :: "Target \<Rightarrow> bool \<Rightarrow> jsnum \<Rightarrow> jsnum \<Rightarrow> str" where
  "simulator_text target hasStellarContext starTeff starRadius = (if hasStellarContext
     then (ue ''M~00F4 ph~1ECFng 3D v~1EADt l~00FD ng~00F4i sao TIC '' @ num_str (tg_tic_id target) @ u '' ('' @ info_number 0 (Some starTeff) @ ue '' K ~00B7 '' @ info_number 2 (Some starRadius) @ ue '' R~2609) t~1EEB snapshot TIC ~0111~00E3 x~00E1c minh.'')
     else (ue ''Ch~1EDD TIC catalog enrichment tr~01B0~1EDBc khi d~1EF1ng m~00F4 ph~1ECFng v~1EADt l~00FD sao ch~1EE7.''))"

definition candidate_badge :: "Target \<Rightarrow> str" where
  "candidate_badge target = (if tg_has_candidate target then (u ''Exoplanet Candidate'') else (u ''Target Host Star''))"

section \<open>The observation tab\<close>

definition cadenceLabel :: "TargetObservationInsight \<Rightarrow> str" where
  "cadenceLabel observation = (if lit 0 < oi_sampling_cadence_minutes observation
     then (toFixed (oi_sampling_cadence_minutes observation) 1 @ u '' min'') else (ue ''~2014''))"

definition maxGapLabel :: "TargetObservationInsight \<Rightarrow> str" where
  "maxGapLabel observation = (if lit 0 < oi_max_data_gap_days observation
     then (info_number 2 (Some (oi_max_data_gap_days observation)) @ u '' days ('' @ toFixed (oi_max_data_gap_hours observation) 1 @ u '' h)'') else (ue ''~2014''))"

definition noiseLabel :: "host \<Rightarrow> TargetObservationInsight \<Rightarrow> str" where
  "noiseLabel h observation = (if lit 0 < oi_photometric_noise_ppm observation
     then (number_locale h None (oi_photometric_noise_ppm observation) @ u '' ppm'') else (ue ''~2014''))"

definition toiMatch :: "TargetObservationInsight \<Rightarrow> str" where
  "toiMatch observation = (if oi_matched_toi observation \<noteq> [] then oi_matched_toi observation else (u ''No''))"

definition toi_tooltip :: "TargetObservationInsight \<Rightarrow> str" where
  "toi_tooltip observation = (if oi_matched_toi observation \<noteq> []
     then (ue ''~0110~00E3 ~0111~1ED1i chi~1EBFu kh~1EDBp v~1EDBi danh m~1EE5c NASA TESS Objects of Interest ('' @ toiMatch observation @ u '').'')
     else (ue ''Ch~01B0a ghi nh~1EADn ~0111~1ED1i t~01B0~1EE3ng quan t~00E2m (TOI) c~1EE7a NASA t~01B0~01A1ng ~1EE9ng v~1EDBi TIC n~00E0y.''))"

definition ObservationTab :: "host \<Rightarrow> TargetObservationInsight \<Rightarrow> bool \<Rightarrow> info_item list" where
  "ObservationTab h observation hasTicContext = [
      \<lparr>it_label = (u ''TESS Magnitude''),
       it_value = (if hasTicContext \<and> lit 0 < oi_tess_mag observation then (info_number 2 (Some (oi_tess_mag observation)) @ u '' Tmag'') else (ue ''~2014 (TIC not enriched)'')),
       it_tooltip = (ue ''C~1EA5p sao quang h~1ECDc tr~1EAFc quang ~0111o b~1EDFi k~00EDnh thi~00EAn v~0103n v~0169 tr~1EE5 TESS trong d~1EA3i b~01B0~1EDBc s~00F3ng 600 - 1000 nm.'')\<rparr>,
      \<lparr>it_label = (u ''TESS Sector''),
       it_value = ((u ''Sector '' @ num_str (oi_sector observation))),
       it_tooltip = (ue ''V~00F9ng tr~1EDDi quan s~00E1t (Sector) c~1EE7a s~1EE9 m~1EC7nh TESS k~00E9o d~00E0i kho~1EA3ng 27.4 ng~00E0y li~00EAn t~1EE5c.'')\<rparr>,
      \<lparr>it_label = (u ''NASA TOI Match''),
       it_value = (toiMatch observation),
       it_tooltip = toi_tooltip observation\<rparr>,
      \<lparr>it_label = (u ''Right Ascension (RA)''),
       it_value = (if hasTicContext then (info_number 4 (Some (oi_ra observation)) @ ue ''~00B0'') else (ue ''~2014 (TIC not enriched)'')),
       it_tooltip = (ue ''T~1ECDa ~0111~1ED9 g~00F3c X~00EDch kinh (RA) t~00EDnh b~1EB1ng ~0111~1ED9 (~00B0), x~00E1c ~0111~1ECBnh v~1ECB tr~00ED sao theo kinh tuy~1EBFn thi~00EAn c~1EA7u.'')\<rparr>,
      \<lparr>it_label = (u ''Declination (Dec)''),
       it_value = (if hasTicContext then (info_number 4 (Some (oi_dec observation)) @ ue ''~00B0'') else (ue ''~2014 (TIC not enriched)'')),
       it_tooltip = (ue ''T~1ECDa ~0111~1ED9 g~00F3c X~00EDch v~0129 (Dec) t~00EDnh b~1EB1ng ~0111~1ED9 (~00B0), x~00E1c ~0111~1ECBnh v~1ECB tr~00ED sao theo v~0129 tuy~1EBFn thi~00EAn c~1EA7u.'')\<rparr>,
      \<lparr>it_label = (u ''Sampling Cadence''),
       it_value = (cadenceLabel observation),
       it_tooltip = (ue ''Chu k~1EF3 l~1EA5y m~1EABu tr~1EAFc quang trung v~1ECB gi~1EEFa c~00E1c l~1EA7n ~0111o li~00EAn ti~1EBFp (v~00ED d~1EE5 2.0 min cho short-cadence SPOC, 30 min cho Full Frame Images - FFI).'')\<rparr>,
      \<lparr>it_label = (u ''Light Curve Coverage''),
       it_value = (if lit 0 < oi_lightcurve_points observation
         then (number_locale h None (oi_lightcurve_points observation) @ u '' pts ('' @ info_number 1 (Some (oi_lightcurve_time_span_days observation)) @ u '' d)'') else (u ''Not indexed'')),
       it_tooltip = (ue ''D~1EEF li~1EC7u tr~1EAFc quang TESS: t~1ED5ng s~1ED1 ~0111i~1EC3m ~0111o quang th~00F4ng (flux samples) v~00E0 kho~1EA3ng th~1EDDi gian quan s~00E1t hi~1EC7u d~1EE5ng trong Sector.'')\<rparr>,
      \<lparr>it_label = (u ''Max Data Gap''),
       it_value = (maxGapLabel observation),
       it_tooltip = (ue ''Kho~1EA3ng th~1EDDi gian gi~00E1n ~0111o~1EA1n d~00E0i nh~1EA5t gi~1EEFa c~00E1c l~1EA7n ~0111o, th~01B0~1EDDng do th~1EDDi gian v~1EC7 tinh TESS quay ~0103ng-ten truy~1EC1n d~1EEF li~1EC7u v~1EC1 Tr~00E1i ~0110~1EA5t (Earth downlink gap).'')\<rparr>,
      \<lparr>it_label = (u ''Photometric Noise''),
       it_value = (noiseLabel h observation),
       it_tooltip = (ue ''M~1EE9c ~0111~1ED9 sai s~1ED1 tr~1EAFc quang trung v~1ECB (Median Flux Uncertainty) t~00EDnh b~1EB1ng ph~1EA7n tri~1EC7u (ppm). C~00E0ng nh~1ECF th~00EC t~00EDn hi~1EC7u ~0111o c~00E0ng s~1EA1ch v~00E0 ch~00EDnh x~00E1c.'')\<rparr>]"

definition observation_footer :: "TargetObservationInsight \<Rightarrow> bool \<Rightarrow> str \<times> str" where
  "observation_footer observation hasTicContext =
     ((if hasTicContext then (u ''ICRS coordinates & TESS photometry from Gold snapshot'') else (u ''TIC snapshot has not enriched this target'')),
      (u ''Sector '' @ num_str (oi_sector observation) @ u '' Coverage''))"

section \<open>The star tab\<close>

definition conservative_zone :: "TargetStellarPhysicsInsight \<Rightarrow> (jsnum \<times> jsnum) option" where
  "conservative_zone stellar = (if lit 0 < sp_hz_inner_au stellar then Some (sp_hz_inner_au stellar, sp_hz_outer_au stellar) else None)"

definition optimistic_zone :: "TargetStellarPhysicsInsight \<Rightarrow> (jsnum \<times> jsnum) option" where
  "optimistic_zone stellar = (if lit 0 < sp_hz_inner_au stellar
     then Some (sp_hz_inner_au stellar * lit (75 / 100), sp_hz_outer_au stellar * lit (14 / 10)) else None)"

definition star_items :: "host \<Rightarrow> TargetStellarPhysicsInsight \<Rightarrow> jsnum \<Rightarrow> info_item list" where
  "star_items h stellar tessMag = [
      \<lparr>it_label = (u ''Spectral Class''),
       it_value = (sp_spectral_class_label stellar),
       it_tooltip = (ue ''Ph~00E2n lo~1EA1i quang ph~1ED5 sao theo h~1EC7 Morgan~2013Keenan (O, B, A, F, G, K, M) v~00E0 nh~00F3m ~0111~1ED9 s~00E1ng (Dwarf / Subgiant / Giant) d~1EF1a tr~00EAn nhi~1EC7t ~0111~1ED9 hi~1EC7u d~1EE5ng v~00E0 b~00E1n k~00EDnh sao.'')\<rparr>,
      \<lparr>it_label = (u ''Effective Temperature''),
       it_value = ((info_number 0 (Some (sp_teff stellar)) @ u '' K'')),
       it_tooltip = (ue ''Nhi~1EC7t ~0111~1ED9 hi~1EC7u d~1EE5ng b~1EC1 m~1EB7t ng~00F4i sao (Kelvin) theo ~0111~1ECBnh lu~1EADt Stefan-Boltzmann, quy~1EBFt ~0111~1ECBnh m~00E0u s~1EAFc quang ph~1ED5 v~00E0 t~1ED5ng n~0103ng l~01B0~1EE3ng b~1EE9c x~1EA1.'')\<rparr>,
      \<lparr>it_label = (u ''Stellar Radius''),
       it_value = ((info_number 2 (Some (sp_radius stellar)) @ ue '' R~2609 ('' @ number_locale h None (sp_radius stellar * lit 696340) @ u '' km)'')),
       it_tooltip = (ue ''B~00E1n k~00EDnh sao m~1EB9 quy ~0111~1ED5i theo b~00E1n k~00EDnh M~1EB7t Tr~1EDDi (1 R~2609 ~2248 696.340 km), tr~00EDch xu~1EA5t t~1EEB snapshot danh m~1EE5c TIC ~0111~00E3 chu~1EA9n h~00F3a.'')\<rparr>,
      \<lparr>it_label = (u ''Stellar Mass''),
       it_value = (if lit 0 < sp_mass stellar then (toFixed (sp_mass stellar) 2 @ ue '' M~2609'') else (ue ''~2014'')),
       it_tooltip = (ue ''Kh~1ED1i l~01B0~1EE3ng sao m~1EB9 t~00EDnh theo kh~1ED1i l~01B0~1EE3ng M~1EB7t Tr~1EDDi (1 M~2609 ~2248 1.989 ~00D7 10~00B3~2070 kg), l~00E0 tham s~1ED1 quy~1EBFt ~0111~1ECBnh gi~1EBFng h~1EA5p d~1EABn v~00E0 chu k~1EF3 qu~1EF9 ~0111~1EA1o theo ~0111~1ECBnh lu~1EADt Kepler.'')\<rparr>,
      \<lparr>it_label = (u ''Surface Gravity (log g)''),
       it_value = (if lit 0 < sp_logg stellar then (info_number 2 (Some (sp_logg stellar)) @ u '' cgs'') else (ue ''~2014'')),
       it_tooltip = (ue ''Gia t~1ED1c tr~1ECDng tr~01B0~1EDDng t~1EA1i b~1EC1 m~1EB7t ng~00F4i sao theo thang logarit log10(g) (cm/s~00B2). Sao l~00F9n th~01B0~1EDDng c~00F3 log g ~2248 4.0 - 4.5, sao kh~1ED5ng l~1ED3 c~00F3 log g < 3.5.'')\<rparr>,
      \<lparr>it_label = (u ''TESS Magnitude''),
       it_value = (if lit 0 < tessMag then (info_number 2 (Some tessMag) @ u '' Tmag'') else (ue ''~2014'')),
       it_tooltip = (ue ''C~1EA5p sao bi~1EC3u ki~1EBFn quan s~00E1t ~0111~01B0~1EE3c qua k~00EDnh vi~1EC5n v~1ECDng kh~00F4ng gian TESS trong d~1EA3i b~01B0~1EDBc s~00F3ng 600 - 1000 nm. C~00E0ng nh~1ECF th~00EC sao c~00E0ng s~00E1ng.'')\<rparr>,
      \<lparr>it_label = (u ''Stellar Luminosity (L*)''),
       it_value = (if lit 0 < sp_hz_luminosity_solar stellar then (toFixed (sp_hz_luminosity_solar stellar) 3 @ ue '' L~2609'') else (ue ''~2014'')),
       it_tooltip = (ue ''T~1ED5ng c~00F4ng su~1EA5t b~1EE9c x~1EA1 n~0103ng l~01B0~1EE3ng to~00E0n ph~1EA7n (Bolometric Luminosity) so v~1EDBi M~1EB7t Tr~1EDDi: L/L~2609 = (R/R~2609)~00B2 ~00D7 (T_eff / 5778)~2074.'')\<rparr>,
      \<lparr>it_label = (u ''Conservative HZ (AU)''),
       it_value = (case conservative_zone stellar of None \<Rightarrow> (ue ''~2014'') | Some (a, b) \<Rightarrow> (toFixed a 2 @ u '' - '' @ toFixed b 2 @ u '' AU'')),
       it_tooltip = (ue ''V~00F9ng c~00F3 th~1EC3 s~1ED1ng ~0111~01B0~1EE3c b~1EA3o th~1EE7 (Conservative Habitable Zone) theo m~00F4 h~00ECnh Kopparapu (2013), gi~1EDBi h~1EA1n b~1EDFi hi~1EC7u ~1EE9ng nh~00E0 k~00EDnh m~1EA5t ki~1EC3m so~00E1t (Runaway Greenhouse) v~00E0 nh~00E0 k~00EDnh t~1ED1i ~0111a (Maximum Greenhouse).'')\<rparr>,
      \<lparr>it_label = (u ''Optimistic HZ (AU)''),
       it_value = (case optimistic_zone stellar of None \<Rightarrow> (ue ''~2014'') | Some (a, b) \<Rightarrow> (toFixed a 2 @ u '' - '' @ toFixed b 2 @ u '' AU'')),
       it_tooltip = (ue ''V~00F9ng s~1ED1ng ~0111~01B0~1EE3c m~1EDF r~1ED9ng (Optimistic Habitable Zone) theo Kopparapu (2013), t~01B0~01A1ng ~1EE9ng ph~1EA1m vi b~1EE9c x~1EA1 t~1EEB Sao Kim g~1EA7n ~0111~00E2y (Recent Venus) ~0111~1EBFn Sao H~1ECFa s~01A1 khai (Early Mars).'')\<rparr>,
      \<lparr>it_label = (ue ''Stellar Density (~03C1*)''),
       it_value = (if lit 0 < sp_stellar_density_gcc stellar then (info_number 3 (Some (sp_stellar_density_gcc stellar)) @ ue '' g/cm~00B3'') else (ue ''~2014'')),
       it_tooltip = (ue ''M~1EADt ~0111~1ED9 kh~1ED1i l~01B0~1EE3ng trung b~00ECnh c~1EE7a sao (g/cm~00B3). D~00F9ng ~0111~1EC3 ~0111~1ED1i chi~1EBFu ch~00E9o v~1EDBi m~1EADt ~0111~1ED9 suy ra t~1EEB qu~00E1 c~1EA3nh transit ~0111~1EC3 lo~1EA1i tr~1EEB sao ~0111~00F4i n~1EC1n (False Positive).'')\<rparr>,
      \<lparr>it_label = (u ''Escape Velocity (v_esc)''),
       it_value = (if lit 0 < sp_escape_velocity_kms stellar then (info_number 0 (Some (sp_escape_velocity_kms stellar)) @ u '' km/s'') else (ue ''~2014'')),
       it_tooltip = (ue ''V~1EADn t~1ED1c tho~00E1t ly t~1ED1i thi~1EC3u t~1EA1i b~1EC1 m~1EB7t sao m~1EB9 (km/s): v_esc = ~221A(2GM/R). M~1EB7t Tr~1EDDi c~00F3 v_esc ~2248 617.5 km/s.'')\<rparr>,
      \<lparr>it_label = (u ''Bolometric Mag (M_bol)''),
       it_value = (case sp_bolometric_mag stellar of Some x \<Rightarrow> (info_number 2 (Some x) @ u '' mag'') | None \<Rightarrow> (ue ''~2014'')),
       it_tooltip = (ue ''C~1EA5p sao tuy~1EC7t ~0111~1ED1i to~00E0n ph~1EA7n ~0111o t~1ED5ng b~1EE9c x~1EA1 c~1EE7a ng~00F4i sao ~1EDF kho~1EA3ng c~00E1ch chu~1EA9n 10 parsec (32.6 n~0103m ~00E1nh s~00E1ng). M_bol c~1EE7a M~1EB7t Tr~1EDDi l~00E0 4.74 mag.'')\<rparr>,
      \<lparr>it_label = (ue ''Stellar Variability (~03C3)''),
       it_value = (case sp_flux_std_ppm stellar of Some x \<Rightarrow> (number_locale h None x @ u '' ppm'') | None \<Rightarrow> (ue ''~2014'')),
       it_tooltip = (ue ''~0110~1ED9 l~1EC7ch chu~1EA9n quang th~00F4ng (Flux Std) sau chu~1EA9n h~00F3a t~00EDnh theo ph~1EA7n tri~1EC7u (ppm). Ph~1EA3n ~00E1nh m~1EE9c ~0111~1ED9 bi~1EBFn quang t~1EF1 nhi~00EAn, v~1EBFt ~0111en ho~1EB7c b~00F9ng ph~00E1t c~1EE7a sao m~1EB9.'')\<rparr>,
      \<lparr>it_label = (ue ''Flux Amplitude (~0394F)''),
       it_value = (case sp_flux_amplitude_pct stellar of Some x \<Rightarrow> (toFixed x 3 @ u ''%'') | None \<Rightarrow> (ue ''~2014'')),
       it_tooltip = (ue ''Bi~00EAn ~0111~1ED9 dao ~0111~1ED9ng ~0111~1ED9 s~00E1ng c~1EF1c ~0111~1EA1i c~1EE7a sao m~1EB9 trong su~1ED1t th~1EDDi gian quan s~00E1t Sector.'')\<rparr>,
      \<lparr>it_label = (u ''Solar Ratio''),
       it_value = ((toFixed (sp_radius stellar) 2 @ ue ''x R~2609 ~00B7 '' @ toFixed (sp_teff stellar / lit 5778) 2 @ ue ''x T~2609'')),
       it_tooltip = (ue ''T~1EF7 l~1EC7 so s~00E1nh tr~1EF1c ti~1EBFp k~00EDch th~01B0~1EDBc b~00E1n k~00EDnh (R/R~2609) v~00E0 nhi~1EC7t ~0111~1ED9 hi~1EC7u d~1EE5ng (T_eff/T~2609) c~1EE7a ng~00F4i sao so v~1EDBi M~1EB7t Tr~1EDDi.'')\<rparr>]"

fun join_comma_blank :: "str list \<Rightarrow> str" where
  "join_comma_blank [] = []"
| "join_comma_blank [s] = s"
| "join_comma_blank (s # t # ss) = s @ [44, 32] @ join_comma_blank (t # ss)"

definition warnings_text :: "str list option \<Rightarrow> str option" where
  "warnings_text warnings = (case warnings of None \<Rightarrow> None
     | Some ws \<Rightarrow> if ws = [] then None
         else Some (join_comma_blank (map (map (\<lambda>c. if c = 95 then 32 else c)) ws)))"

datatype star_tab =
    Star_unknown
  | Star_known "info_item list" "str option" str bool

text \<open>Of a known star: the figures, the warnings, and its evolution with whether it is marked evolved.\<close>

definition StarPhysicsTab :: "host \<Rightarrow> TargetStellarPhysicsInsight \<Rightarrow> jsnum \<Rightarrow> bool \<Rightarrow> str list option \<Rightarrow> star_tab" where
  "StarPhysicsTab h stellar tessMag hasStellarContext warnings = (if hasStellarContext
     then Star_known (star_items h stellar tessMag) (warnings_text warnings) (sp_evolution_status stellar)
       (str_includes (sp_evolution_status stellar) (u ''Evolved''))
     else Star_unknown)"

section \<open>The analysis tab\<close>

definition scorePct :: "TargetAIInsights \<Rightarrow> jsnum" where
  "scorePct ai = (case ai_candidate_score ai of Some x \<Rightarrow> x * lit 100 | None \<Rightarrow> lit 0)"

definition habitabilityScore :: "TargetAIInsights \<Rightarrow> jsnum" where
  "habitabilityScore ai = nullish (ai_habitability_score ai) (lit 0)"

definition confidencePct :: "TargetAIInsights \<Rightarrow> jsnum" where
  "confidencePct ai = Math_round (opt_or_num (Some (ai_habitability_confidence ai)) (lit 0) * lit 100)"

datatype badge_tone = Emerald | Sky | Amber | Rose | Muted

definition getTierBadge :: "str \<Rightarrow> str \<times> badge_tone" where
  "getTierBadge tier =
     (if tier = (u ''high_priority'') then ((ue ''~01AFu ti~00EAn Cao / High Priority''), Emerald)
      else if tier = (u ''promising'') then ((ue ''Tri~1EC3n v~1ECDng / Promising''), Sky)
      else if tier = (u ''low_priority'') then ((ue ''~01AFu ti~00EAn Th~1EA5p / Low''), Amber)
      else if tier = (u ''unlikely'') then ((ue ''Kh~00F3 Kh~1EA3 Thi / Unlikely''), Rose)
      else ((ue ''Ch~01B0a ~0110~1EE7 M~1EABu / Insufficient Data''), Muted))"

definition getHzBadge :: "str \<Rightarrow> str \<times> badge_tone" where
  "getHzBadge hz =
     (if hz = (u ''conservative'') then ((ue ''V~00F9ng S~1ED1ng ~0110~01B0~1EE3c (B~1EA3o th~1EE7)''), Emerald)
      else if hz = (u ''optimistic'') then ((ue ''V~00F9ng S~1ED1ng ~0110~01B0~1EE3c (L~1EA1c quan)''), Amber)
      else ((ue ''Ngo~1EA1i V~00F9ng S~1ED1ng (Outside HZ)''), Muted))"

definition transitDepthPpm :: "TargetAIInsights \<Rightarrow> jsnum option" where
  "transitDepthPpm ai = map_option (\<lambda>d. Math_round (d * lit 1000000)) (ai_bls_depth_fraction ai)"

definition score_text :: "TargetAIInsights \<Rightarrow> bool \<Rightarrow> str" where
  "score_text ai hasCandidate = (if hasCandidate \<and> ai_candidate_score ai \<noteq> None then (toFixed (scorePct ai) 1 @ u ''%'') else (ue ''Ch~01B0a c~00F3 ~0111i~1EC3m''))"

definition score_bar :: "TargetAIInsights \<Rightarrow> bool \<Rightarrow> jsnum" where
  "score_bar ai hasCandidate = (if hasCandidate then scorePct ai else lit 0)"

definition threshold_badge :: "TargetAIInsights \<Rightarrow> str" where
  "threshold_badge ai = (if ai_candidate_above_threshold ai then (ue ''V~01AF~1EE2T NG~01AF~1EE0NG TH~1EA8M ~0110~1ECANH'') else (ue ''TI~00CAU CHU~1EA8N''))"

definition habitability_text :: "TargetAIInsights \<Rightarrow> str" where
  "habitability_text ai = (if ai_habitability_score ai \<noteq> None then toFixed (habitabilityScore ai) 1 else (ue ''~2014''))"

record component_row =
  cw_label :: str
  cw_score :: str
  cw_bar :: jsnum
  cw_reason :: str

definition compPct :: "HabitabilityComponent \<Rightarrow> jsnum" where
  "compPct part = (if lit 0 < hc_max_score part then (hc_score part / hc_max_score part) * lit 100 else lit 0)"

definition component_rows :: "TargetAIInsights \<Rightarrow> component_row list" where
  "component_rows ai = map (\<lambda>part. \<lparr>cw_label = hc_label part,
       cw_score = (toFixed (hc_score part) 1 @ u '' / '' @ toFixed (hc_max_score part) 0), cw_bar = compPct part,
       cw_reason = (if hc_reason part \<noteq> [] then hc_reason part else (ue ''~0110ang th~1EA9m ~0111~1ECBnh''))\<rparr>) (nullish (ai_habitability_components ai) [])"

definition depth_text :: "host \<Rightarrow> TargetAIInsights \<Rightarrow> str" where
  "depth_text h ai = (if opt_truthy (transitDepthPpm ai) then (number_locale h None (the (transitDepthPpm ai)) @ u '' ppm'')
     else case ai_bls_depth_fraction ai of None \<Rightarrow> (ue ''~2014'')
       | Some d \<Rightarrow> if truthy d then (info_number 3 (Some (d * lit 100)) @ u ''%'') else (ue ''~2014''))"

definition ai_items :: "host \<Rightarrow> TargetAIInsights \<Rightarrow> info_item list" where
  "ai_items h ai = [
      \<lparr>it_label = (ue ''Ph~00E2n lo~1EA1i H~00E0nh tinh''),
       it_value = (if ai_planet_classification ai \<noteq> [] then ai_planet_classification ai
         else if opt_truthy (ai_planet_radius_earth ai) then (info_number 2 (ai_planet_radius_earth ai) @ ue '' R~2295'') else (ue ''~2014'')),
       it_tooltip = (ue ''Ph~00E2n t~1EA7ng k~00EDch th~01B0~1EDBc h~00E0nh tinh: Sub-Earth (<0.8 R~2295), Earth-size (0.8-1.25 R~2295), Super-Earth (1.25-2.0 R~2295), Sub-Neptune (2-4 R~2295), Jovian (>4 R~2295).'')\<rparr>,
      \<lparr>it_label = (ue ''B~00E1n k~00EDnh H~00E0nh tinh (Rp)''),
       it_value = (if opt_positive (ai_planet_radius_earth ai) then (info_number 2 (ai_planet_radius_earth ai) @ ue '' R~2295'') else (ue ''~2014'')),
       it_tooltip = (ue ''B~00E1n k~00EDnh h~00E0nh tinh quy ~0111~1ED5i theo Tr~00E1i ~0110~1EA5t (R~2295) t~1EEB t~1EF7 l~1EC7 ~0111~1ED9 s~00E2u transit v~00E0 b~00E1n k~00EDnh sao m~1EB9: R_p = ~221A(depth) ~00D7 R_* ~00D7 109.076.'')\<rparr>,
      \<lparr>it_label = (ue ''B~1EE9c x~1EA1 Nh~1EADn ~0111~01B0~1EE3c (Seff)''),
       it_value = (if opt_positive (ai_insolation_earth ai) then (info_number 2 (ai_insolation_earth ai) @ ue '' S~2295'') else (ue ''~2014'')),
       it_tooltip = (ue ''C~01B0~1EDDng ~0111~1ED9 b~1EE9c x~1EA1 n~0103ng l~01B0~1EE3ng nh~1EADn t~1EEB sao m~1EB9 quy ~0111~1ED5i theo n~0103ng l~01B0~1EE3ng Tr~00E1i ~0110~1EA5t nh~1EADn t~1EEB M~1EB7t Tr~1EDDi: S_eff = L_* / a~00B2.'')\<rparr>,
      \<lparr>it_label = (ue ''Nhi~1EC7t ~0111~1ED9 C~00E2n b~1EB1ng (Teq)''),
       it_value = (case ai_equilibrium_temp_k ai of None \<Rightarrow> (ue ''~2014'')
         | Some t \<Rightarrow> if truthy t \<and> lit 0 < t then (info_number 0 (Some t) @ u '' K ('' @ info_number 0 (Some (t - lit (27315 / 100))) @ ue ''~00B0C)'') else (ue ''~2014'')),
       it_tooltip = (ue ''Nhi~1EC7t ~0111~1ED9 c~00E2n b~1EB1ng nhi~1EC7t b~1EE9c x~1EA1 b~1EC1 m~1EB7t c~1EE7a h~00E0nh tinh (Kelvin) v~1EDBi gi~1EA3 ~0111~1ECBnh h~1EC7 s~1ED1 ph~1EA3n x~1EA1 Bond Albedo = 0.30.'')\<rparr>,
      \<lparr>it_label = (ue ''Chu k~1EF3 Qu~1EF9 ~0111~1EA1o (Porb)''),
       it_value = (if opt_positive (ai_bls_period_days ai) then (info_number 4 (ai_bls_period_days ai) @ ue '' ng~00E0y'') else (ue ''~2014'')),
       it_tooltip = (ue ''Chu k~1EF3 quay quanh sao ch~1EE7 x~00E1c ~0111~1ECBnh b~1EDFi thu~1EADt to~00E1n Box Least Squares (BLS) t~1EEB chu~1ED7i th~1EDDi gian ~0111~01B0~1EDDng cong ~00E1nh s~00E1ng.'')\<rparr>,
      \<lparr>it_label = (ue ''B~00E1n tr~1EE5c L~1EDBn (a)''),
       it_value = (if opt_positive (ai_semi_major_axis_au ai) then (info_number 3 (ai_semi_major_axis_au ai) @ u '' AU'') else (ue ''~2014'')),
       it_tooltip = (ue ''Kho~1EA3ng c~00E1ch qu~1EF9 ~0111~1EA1o b~00E1n tr~1EE5c l~1EDBn t~00EDnh b~1EB1ng ~0110~01A1n v~1ECB Thi~00EAn v~0103n (AU) theo ~0110~1ECBnh lu~1EADt Kepler 3: a = (M_* ~00D7 P~00B2)^(1/3).'')\<rparr>,
      \<lparr>it_label = (ue ''Th~1EDDi gian Transit (Tdur)''),
       it_value = (if opt_positive (ai_transit_duration_hours ai) then (info_number 2 (ai_transit_duration_hours ai) @ ue '' gi~1EDD'')
         else case ai_bls_duration_days ai of None \<Rightarrow> (ue ''~2014'') | Some d \<Rightarrow> if truthy d then (info_number 2 (Some (d * lit 24)) @ ue '' gi~1EDD'') else (ue ''~2014'')),
       it_tooltip = (ue ''Th~1EDDi gian h~00E0nh tinh ~0111i qua b~1EC1 m~1EB7t sao ch~1EE7 (Transit Duration) ~0111o t~1EEB ~0111i~1EC3m ti~1EBFp x~00FAc ~0111~1EA7u ti~00EAn ~0111~1EBFn ti~1EBFp x~00FAc cu~1ED1i c~00F9ng.'')\<rparr>,
      \<lparr>it_label = (ue ''~0110~1ED9 s~00E2u Qu~00E1 c~1EA3nh (~0394F/F)''),
       it_value = (depth_text h ai),
       it_tooltip = (ue ''T~1EF7 l~1EC7 suy gi~1EA3m th~00F4ng l~01B0~1EE3ng ~00E1nh s~00E1ng c~1EE7a sao ch~1EE7 t~1EA1i ~0111i~1EC3m c~1EF1c ti~1EC3u khi h~00E0nh tinh che khu~1EA5t (t~00EDnh b~1EB1ng ph~1EA7n tri~1EC7u - ppm).'')\<rparr>]"

section \<open>Properties\<close>

lemma contexts_agree: "page_hasStellarContext (Some target) (Some insights) = card_hasStellarContext target insights"
  by (simp add: page_hasStellarContext_def card_hasStellarContext_def)

text \<open>
  The optimistic habitable zone of the star tab is shown exactly when the conservative
  one is, and contains it: rounding the scaled bounds never puts one inside.
\<close>

theorem optimistic_contains_conservative:
  assumes "conservative_zone stellar = Some (a, b)" "isFinite a" "wf_num a" "isFinite b" "wf_num b" "lit 0 \<le> b"
  shows "\<exists>c d. optimistic_zone stellar = Some (c, d) \<and> c \<le> a \<and> b \<le> d"
proof -
  have z: "Fin 0 < a" "optimistic_zone stellar = Some (a * lit (75 / 100), b * lit (14 / 10))"
    using assms(1) by (auto simp: conservative_zone_def optimistic_zone_def split: if_splits)
  have v: "isFinite (lit (75 / 100))" "val (lit (75 / 100)) \<le> val (lit 1)" "isFinite (lit (14 / 10))" "val (lit 1) \<le> val (lit (14 / 10))" "isFinite (lit 1)"
    by code_simp+
  have "0 \<le> val a" "0 \<le> val b" using z(1) assms(2,4,6) by (cases a; cases b; simp)+
  then have "a * lit (75 / 100) \<le> a * lit 1" "b * lit 1 \<le> b * lit (14 / 10)" using v assms(2,4) by (auto intro!: mult_nonneg_mono_num)
  then show ?thesis using z(2) mult_one_wf assms(2-5) by simp
qed

theorem optimistic_contains_conservative_witness:
  "\<exists>c d. optimistic_zone sample_stellar = Some (c, d) \<and> c \<le> lit 1 \<and> lit 2 \<le> d"
proof -
  have "conservative_zone sample_stellar = Some (lit 1, lit 2)" by (simp add: conservative_zone_def sample_stellar_def)
  moreover have "isFinite (lit 1)" "isFinite (lit 2)" "lit 0 \<le> lit 2" by code_simp+
  ultimately show ?thesis using optimistic_contains_conservative [of sample_stellar "lit 1" "lit 2"] wf_lit [of 1] wf_lit [of 2] by simp
qed

text \<open>
  The bar of each component of the habitability score is a percentage when its score lies between
  nothing and its maximum.
\<close>

theorem component_share_bounded:
  assumes "isFinite (hc_score part)" "isFinite (hc_max_score part)" "lit 0 \<le> hc_score part" "hc_score part \<le> hc_max_score part"
  shows "lit 0 \<le> compPct part \<and> compPct part \<le> lit 100"
proof (cases "lit 0 < hc_max_score part")
  case True
  then have "0 \<le> val (hc_score part)" "val (hc_score part) \<le> val (hc_max_score part)" "0 < val (hc_max_score part)"
    using assms by (cases "hc_score part"; cases "hc_max_score part"; simp)+
  then show ?thesis using assms(1,2) True percent_bounds by (simp add: compPct_def)
qed (simp add: compPct_def)

end
