(* ===== verification/TargetDetail.thy ===== *)
theory TargetDetail
  imports TargetPanels
begin

text \<open>
  The page of one target (\<open>pages/target-detail/page.tsx\<close>): the request for its insights, the observation
  that follows when the target has a light curve, answers of earlier addresses, and what the page
  hands to its parts. Shown: the spinner stands for a request that is out, every answer the page will
  take is for the address and the target it shows, an observation of the last target can stay on
  screen under the next one, and the fallback for the period is never used.
\<close>

section \<open>State\<close>

text \<open>
  \<open>run\<close> numbers the runs of the effect; a request knows its run, which stands for the variable \<open>active\<close> it
  closes over. A name that \<open>encodeURIComponent\<close> refuses throws in the effect and takes the page down.
\<close>

datatype target_call =
    Insights_call nat str params
  | Observation_call nat str

record target_page =
  td_ticId :: str
  td_sector :: str
  td_snapshotID :: str
  td_data :: "TargetInsightResponse option"
  td_observation :: "TargetObservationResponse option"
  td_error :: "str option"
  td_run :: nat
  td_calls :: "(nat \<times> target_call) list"
  td_next :: nat
  td_crashed :: bool

fun call_run :: "target_call \<Rightarrow> nat" where
  "call_run (Insights_call n path ps) = n"
| "call_run (Observation_call n path) = n"

definition observation_path :: "jsnum \<Rightarrow> jsnum \<Rightarrow> str" where
  "observation_path tic sector = (u ''/v1/targets/'' @ num_str tic @ u ''/observation?sector='' @ num_str sector @ u ''&limit=5000'')"

definition insight_params :: "str \<Rightarrow> str \<Rightarrow> params" where
  "insight_params sector snapshotID =
     (let parameters = (if sector \<noteq> [] then params_set (u ''sector'') sector [] else [])
      in if snapshotID \<noteq> [] then params_set (u ''snapshot_id'') snapshotID parameters else parameters)"

definition call_target :: "target_call \<Rightarrow> target_page \<Rightarrow> target_page" where
  "call_target c s = s\<lparr>td_calls := td_calls s @ [(td_next s, c)], td_next := Suc (td_next s)\<rparr>"

section \<open>Operations\<close>

text \<open>The effect on \<open>[sector, snapshotID, ticId]\<close>; a new run makes the last one inactive.\<close>

definition insight_effect :: "target_page \<Rightarrow> target_page" where
  "insight_effect s0 = (let s = s0\<lparr>td_run := Suc (td_run s0)\<rparr> in
     if td_ticId s = [] then s
     else case encodeURIComponent (td_ticId s) of
         None \<Rightarrow> s\<lparr>td_error := None, td_crashed := True\<rparr>
       | Some e \<Rightarrow> call_target (Insights_call (td_run s) (u ''/v1/targets/'' @ e @ u ''/insights'') (insight_params (td_sector s) (td_snapshotID s)))
           (s\<lparr>td_error := None\<rparr>))"

definition initial_target :: "str \<Rightarrow> str \<Rightarrow> str \<Rightarrow> target_page" where
  "initial_target ticId sector snapshotID = insight_effect
     \<lparr>td_ticId = ticId, td_sector = sector, td_snapshotID = snapshotID, td_data = None, td_observation = None, td_error = None,
      td_run = 0, td_calls = [], td_next = 0, td_crashed = False\<rparr>"

text \<open>A new address; the effect runs only when one of its three parts differs.\<close>

definition navigate :: "str \<Rightarrow> str \<Rightarrow> str \<Rightarrow> target_page \<Rightarrow> target_page" where
  "navigate ticId sector snapshotID s =
     (if ticId = td_ticId s \<and> sector = td_sector s \<and> snapshotID = td_snapshotID s then s
      else insight_effect (s\<lparr>td_ticId := ticId, td_sector := sector, td_snapshotID := snapshotID\<rparr>))"

text \<open>A failure carries its message when it is an \<open>Error\<close>.\<close>

definition settle_insights :: "nat \<Rightarrow> str option + TargetInsightResponse \<Rightarrow> target_page \<Rightarrow> target_page" where
  "settle_insights n res s = (if n \<noteq> td_run s then s
     else case res of
         Inl e \<Rightarrow> s\<lparr>td_error := Some (nullish e (u ''Unable to load target insight''))\<rparr>
       | Inr response \<Rightarrow> let s1 = s\<lparr>td_data := Some response\<rparr>; t = tir_target response in
           if tg_has_lightcurve t then call_target (Observation_call n (observation_path (tg_tic_id t) (tg_sector t))) s1 else s1)"

definition settle_observation :: "nat \<Rightarrow> str option + TargetObservationResponse \<Rightarrow> target_page \<Rightarrow> target_page" where
  "settle_observation n res s = (if n \<noteq> td_run s then s
     else s\<lparr>td_observation := (case res of Inl e \<Rightarrow> None | Inr obs \<Rightarrow> Some obs)\<rparr>)"

datatype target_event =
    Navigate str str str
  | Insights_answer nat "str option + TargetInsightResponse"
  | Observation_answer nat "str option + TargetObservationResponse"

definition drop_target_call :: "nat \<Rightarrow> target_page \<Rightarrow> target_page" where
  "drop_target_call r s = s\<lparr>td_calls := filter (\<lambda>c. fst c \<noteq> r) (td_calls s)\<rparr>"

text \<open>An answer belongs to a request that is out; a page that is down takes no more events.\<close>

fun target_step :: "target_page \<Rightarrow> target_event \<Rightarrow> target_page" where
  "target_step s (Navigate ticId sector snapshotID) = (if td_crashed s then s else navigate ticId sector snapshotID s)"
| "target_step s (Insights_answer r res) = (case map_of (td_calls s) r of
       Some (Insights_call n path ps) \<Rightarrow> settle_insights n res (drop_target_call r s) | _ \<Rightarrow> s)"
| "target_step s (Observation_answer r res) = (case map_of (td_calls s) r of
       Some (Observation_call n path) \<Rightarrow> settle_observation n res (drop_target_call r s) | _ \<Rightarrow> s)"

section \<open>What is shown\<close>

record curve_props =
  cp_time :: "jsnum list"
  cp_flux :: "jsnum list"
  cp_blsPeriod :: "jsnum option"
  cp_blsDepth :: "jsnum option"
  cp_blsDurationDays :: "jsnum option"
  cp_blsTransitTime :: "jsnum option"
  cp_planetName :: str
  cp_centroidOffset :: jsnum
  cp_tpf :: "TPFSample option"

definition planetsList :: "mathlib \<Rightarrow> target_page \<Rightarrow> PlanetParams list" where
  "planetsList m s = derivePlanetarySystemFromInsights m (map_option tir_target (td_data s)) (map_option tir_insights (td_data s))"

definition blsPeriod :: "mathlib \<Rightarrow> target_page \<Rightarrow> jsnum option" where
  "blsPeriod m s = (let period = Option.bind (td_data s) (\<lambda>d. ai_bls_period_days (ti_ai_insights (tir_insights d)))
     in if opt_truthy period then period else map_option pl_periodDays (arr_at (planetsList m s) 0))"

definition curve_of :: "mathlib \<Rightarrow> target_page \<Rightarrow> TargetInsightResponse \<Rightarrow> curve_props" where
  "curve_of m s d = (let ai = ti_ai_insights (tir_insights d) in
     \<lparr>cp_time = (case td_observation s of None \<Rightarrow> [] | Some obs \<Rightarrow> orl_time (obr_lightcurve obs)),
      cp_flux = (case td_observation s of None \<Rightarrow> [] | Some obs \<Rightarrow> orl_flux (obr_lightcurve obs)),
      cp_blsPeriod = blsPeriod m s, cp_blsDepth = ai_bls_depth_fraction ai, cp_blsDurationDays = ai_bls_duration_days ai,
      cp_blsTransitTime = ai_bls_transit_time ai,
      cp_planetName = opt_or_str (map_option pl_name (arr_at (planetsList m s) 0)) (u ''TIC '' @ num_str (tg_tic_id (tir_target d))),
      cp_centroidOffset = nullish (map_option tpf_centroid_offset_pixels (Option.bind (td_observation s) obr_tpf)) (lit (8 / 100)),
      cp_tpf = Option.bind (td_observation s) obr_tpf\<rparr>)"

datatype target_view =
    Error_view str
  | Loading_view
  | Main_view "str list" "star_obj option" "PlanetParams list" curve_props

definition main_view :: "mathlib \<Rightarrow> target_page \<Rightarrow> TargetInsightResponse \<Rightarrow> target_view" where
  "main_view m s d = (let target = tir_target d; stellar = ti_stellar_physics (tir_insights d) in
     Main_view (header_texts target)
       (simulator_star target (page_hasStellarContext (Some target) (Some (tir_insights d))) (sp_teff stellar) (sp_radius stellar) (Some (sp_mass stellar)))
       (planetsList m s) (curve_of m s d))"

definition target_shown_view :: "mathlib \<Rightarrow> target_page \<Rightarrow> target_view" where
  "target_shown_view m s = (let error = nullish (td_error s) [] in
     if error \<noteq> [] then Error_view error
     else case td_data s of None \<Rightarrow> Loading_view | Some d \<Rightarrow> main_view m s d)"

section \<open>Requests\<close>

text \<open>What a request of the current run is for.\<close>

fun call_current :: "target_page \<Rightarrow> target_call \<Rightarrow> bool" where
  "call_current s (Insights_call n path ps) =
     (map_option (\<lambda>e. (u ''/v1/targets/'' @ e @ u ''/insights'')) (encodeURIComponent (td_ticId s)) = Some path \<and>
      ps = insight_params (td_sector s) (td_snapshotID s) \<and> td_ticId s \<noteq> [] \<and> td_error s = None)"
| "call_current s (Observation_call n path) =
     (case td_data s of None \<Rightarrow> False | Some d \<Rightarrow> path = observation_path (tg_tic_id (tir_target d)) (tg_sector (tir_target d)) \<and> tg_has_lightcurve (tir_target d))"

definition target_ok :: "target_page \<Rightarrow> bool" where
  "target_ok s = (list_all (\<lambda>(r, c). r < td_next s \<and> call_run c \<le> td_run s \<and> (call_run c = td_run s \<longrightarrow> call_current s c)) (td_calls s) \<and>
     distinct (map fst (td_calls s)) \<and>
     (\<forall>(r, c)\<in>set (td_calls s). \<forall>(r', c')\<in>set (td_calls s). call_run c = td_run s \<and> call_run c' = td_run s \<longrightarrow> r = r') \<and>
     (td_data s = None \<and> td_error s = None \<and> td_ticId s \<noteq> [] \<and> \<not> td_crashed s \<longrightarrow>
        list_ex (\<lambda>(r, c). call_run c = td_run s) (td_calls s)))"

lemma target_okI:
  assumes "\<And>r c. (r, c) \<in> set (td_calls s) \<Longrightarrow> r < td_next s \<and> call_run c \<le> td_run s"
    and "\<And>r c. (r, c) \<in> set (td_calls s) \<Longrightarrow> call_run c = td_run s \<Longrightarrow> call_current s c"
    and "distinct (map fst (td_calls s))"
    and "\<And>r c r' c'. (r, c) \<in> set (td_calls s) \<Longrightarrow> (r', c') \<in> set (td_calls s) \<Longrightarrow> call_run c = td_run s \<Longrightarrow> call_run c' = td_run s \<Longrightarrow> r = r'"
    and "td_data s = None \<Longrightarrow> td_error s = None \<Longrightarrow> td_ticId s \<noteq> [] \<Longrightarrow> \<not> td_crashed s \<Longrightarrow> \<exists>r c. (r, c) \<in> set (td_calls s) \<and> call_run c = td_run s"
  shows "target_ok s"
proof -
  have "list_all (\<lambda>(r, c). r < td_next s \<and> call_run c \<le> td_run s \<and> (call_run c = td_run s \<longrightarrow> call_current s c)) (td_calls s)"
    using assms(1,2) by (auto simp: list_all_iff)
  moreover have "\<forall>(r, c)\<in>set (td_calls s). \<forall>(r', c')\<in>set (td_calls s). call_run c = td_run s \<and> call_run c' = td_run s \<longrightarrow> r = r'"
    using assms(4) by blast
  moreover have "td_data s = None \<and> td_error s = None \<and> td_ticId s \<noteq> [] \<and> \<not> td_crashed s \<longrightarrow> list_ex (\<lambda>(r, c). call_run c = td_run s) (td_calls s)"
    using assms(5) by (fastforce simp: list_ex_iff)
  ultimately show ?thesis using assms(3) unfolding target_ok_def by blast
qed

lemma target_okD:
  assumes "target_ok s"
  shows "(r, c) \<in> set (td_calls s) \<Longrightarrow> r < td_next s \<and> call_run c \<le> td_run s"
    and "(r, c) \<in> set (td_calls s) \<Longrightarrow> call_run c = td_run s \<Longrightarrow> call_current s c"
    and "distinct (map fst (td_calls s))"
    and "(r, c) \<in> set (td_calls s) \<Longrightarrow> (r', c') \<in> set (td_calls s) \<Longrightarrow> call_run c = td_run s \<Longrightarrow> call_run c' = td_run s \<Longrightarrow> r = r'"
    and "td_data s = None \<Longrightarrow> td_error s = None \<Longrightarrow> td_ticId s \<noteq> [] \<Longrightarrow> \<not> td_crashed s \<Longrightarrow> \<exists>r c. (r, c) \<in> set (td_calls s) \<and> call_run c = td_run s"
  using assms unfolding target_ok_def list_all_iff list_ex_iff by fast+

lemma insight_effect_ok:
  assumes "\<And>r c. (r, c) \<in> set (td_calls s) \<Longrightarrow> r < td_next s \<and> call_run c \<le> td_run s" "distinct (map fst (td_calls s))"
  shows "target_ok (insight_effect s)"
proof (rule target_okI)
  have old: "call_run c \<noteq> Suc (td_run s)" "r \<noteq> td_next s" if "(r, c) \<in> set (td_calls s)" for r c using assms(1) [OF that] by auto
  show "r < td_next (insight_effect s) \<and> call_run c \<le> td_run (insight_effect s)" if "(r, c) \<in> set (td_calls (insight_effect s))" for r c
    using that assms(1) [of r c] by (auto simp: insight_effect_def call_target_def Let_def split: if_splits option.splits)
  show "call_current (insight_effect s) c" if "(r, c) \<in> set (td_calls (insight_effect s))" "call_run c = td_run (insight_effect s)" for r c
    using that old [of r c] by (auto simp: insight_effect_def call_target_def Let_def split: if_splits option.splits)
  have fresh: "(td_next s, c) \<notin> set (td_calls s)" for c using old(2) by blast
  show "distinct (map fst (td_calls (insight_effect s)))"
    using assms(2) fresh by (auto simp: insight_effect_def call_target_def Let_def split: option.splits)
  show "r = r'" if "(r, c) \<in> set (td_calls (insight_effect s))" "(r', c') \<in> set (td_calls (insight_effect s))"
      "call_run c = td_run (insight_effect s)" "call_run c' = td_run (insight_effect s)" for r c r' c'
    using that old [of r c] old [of r' c'] by (auto simp: insight_effect_def call_target_def Let_def split: if_splits option.splits)
  show "\<exists>r c. (r, c) \<in> set (td_calls (insight_effect s)) \<and> call_run c = td_run (insight_effect s)"
    if "td_ticId (insight_effect s) \<noteq> []" "\<not> td_crashed (insight_effect s)"
    using that by (auto simp: insight_effect_def call_target_def Let_def split: if_splits option.splits intro!: exI [of _ "td_next s"])
qed

lemma navigate_ok: "target_ok s \<Longrightarrow> target_ok (navigate ticId sector snapshotID s)"
  using target_okD(1,3) [of s] by (auto simp: navigate_def intro!: insight_effect_ok)

lemma settled_call:
  assumes "target_ok s" "map_of (td_calls s) r = Some c" "call_run c = td_run s" "(r', c') \<in> set (td_calls (drop_target_call r s))"
  shows "call_run c' \<noteq> td_run s"
  using target_okD(4) [OF assms(1) map_of_SomeD [OF assms(2)], of r' c'] assms(3,4) by (auto simp: drop_target_call_def)

lemma call_current_cong:
  "call_current (s\<lparr>td_calls := cs\<rparr>) c = call_current s c" "call_current (s\<lparr>td_next := n\<rparr>) c = call_current s c"
  by (cases c; simp)+

lemma drop_stale_ok:
  assumes "target_ok s" "map_of (td_calls s) r = Some c" "call_run c \<noteq> td_run s"
  shows "target_ok (drop_target_call r s)"
proof (rule target_okI)
  note d = target_okD [OF assms(1)]
  show "r' < td_next (drop_target_call r s) \<and> call_run c' \<le> td_run (drop_target_call r s)"
    if "(r', c') \<in> set (td_calls (drop_target_call r s))" for r' c' using that d(1) by (auto simp: drop_target_call_def)
  show "call_current (drop_target_call r s) c'"
    if "(r', c') \<in> set (td_calls (drop_target_call r s))" "call_run c' = td_run (drop_target_call r s)" for r' c'
    using that d(2) by (auto simp: drop_target_call_def call_current_cong)
  show "distinct (map fst (td_calls (drop_target_call r s)))" using d(3) by (simp add: drop_target_call_def distinct_map_filter)
  show "a = a'" if "(a, b) \<in> set (td_calls (drop_target_call r s))" "(a', b') \<in> set (td_calls (drop_target_call r s))"
      "call_run b = td_run (drop_target_call r s)" "call_run b' = td_run (drop_target_call r s)" for a b a' b'
    using that d(4) by (auto simp: drop_target_call_def)
  have other: "a \<noteq> r" if "(a, b) \<in> set (td_calls s)" "call_run b = td_run s" for a b
    using that assms(2,3) d(3) by (metis map_of_is_SomeI option.inject)
  show "\<exists>a b. (a, b) \<in> set (td_calls (drop_target_call r s)) \<and> call_run b = td_run (drop_target_call r s)"
    if "td_data (drop_target_call r s) = None" "td_error (drop_target_call r s) = None" "td_ticId (drop_target_call r s) \<noteq> []" "\<not> td_crashed (drop_target_call r s)"
    using that d(5) other by (fastforce simp: drop_target_call_def)
qed

text \<open>After the answer of the current run no request of that run is out, but for the one the answer sends.\<close>

lemma settled_ok:
  assumes "target_ok s" "map_of (td_calls s) r = Some c" "call_run c = td_run s"
    and "td_run s' = td_run s" "td_next s' = td_next s" "td_calls s' = td_calls (drop_target_call r s)"
    and "td_data s' \<noteq> None \<or> td_error s' \<noteq> None"
  shows "target_ok s'"
proof (rule target_okI)
  note d = target_okD [OF assms(1)] and old = settled_call [OF assms(1-3)]
  show "r' < td_next s' \<and> call_run c' \<le> td_run s'" if "(r', c') \<in> set (td_calls s')" for r' c'
    using that d(1) by (auto simp: assms(4-6) drop_target_call_def)
  show "distinct (map fst (td_calls s'))" using d(3) by (simp add: assms(6) drop_target_call_def distinct_map_filter)
qed (use assms(4-7) settled_call [OF assms(1-3)] in auto)

lemma call_target_ok:
  assumes "target_ok s" "\<forall>(r, c)\<in>set (td_calls s). call_run c \<noteq> td_run s" "call_run c = td_run s" "call_current s c"
  shows "target_ok (call_target c s)"
proof (rule target_okI)
  note d = target_okD [OF assms(1)]
  show "r < td_next (call_target c s) \<and> call_run c' \<le> td_run (call_target c s)" if "(r, c') \<in> set (td_calls (call_target c s))" for r c'
    using that d(1) assms(3) by (fastforce simp: call_target_def)
  show "call_current (call_target c s) c'" if "(r, c') \<in> set (td_calls (call_target c s))" "call_run c' = td_run (call_target c s)" for r c'
    using that assms by (auto simp: call_target_def call_current_cong)
  show "distinct (map fst (td_calls (call_target c s)))" using d(1,3) by (fastforce simp: call_target_def)
  show "r = r'" if "(r, b) \<in> set (td_calls (call_target c s))" "(r', b') \<in> set (td_calls (call_target c s))"
      "call_run b = td_run (call_target c s)" "call_run b' = td_run (call_target c s)" for r b r' b'
    using that assms(2) by (auto simp: call_target_def)
  show "\<exists>r b. (r, b) \<in> set (td_calls (call_target c s)) \<and> call_run b = td_run (call_target c s)"
    using assms(3) by (auto simp: call_target_def)
qed

lemma settle_insights_ok:
  assumes "target_ok s" "map_of (td_calls s) r = Some (Insights_call n path ps)"
  shows "target_ok (settle_insights n res (drop_target_call r s))"
proof (cases "n = td_run s")
  case False
  then show ?thesis using drop_stale_ok [OF assms] by (simp add: settle_insights_def drop_target_call_def)
next
  case True
  have ok: "target_ok ((drop_target_call r s)\<lparr>td_data := d, td_error := e\<rparr>)" if "d \<noteq> None \<or> e \<noteq> None" for d e
    by (rule settled_ok [OF assms]) (use True that in \<open>auto simp: drop_target_call_def\<close>)
  have old: "\<forall>(r', c')\<in>set (td_calls (drop_target_call r s)). call_run c' \<noteq> td_run s"
    using settled_call [OF assms] True by auto
  show ?thesis
  proof (cases res)
    case (Inl e)
    then show ?thesis using True ok [of "td_data s" "Some (nullish e (u ''Unable to load target insight''))"] by (simp add: settle_insights_def drop_target_call_def)
  next
    case (Inr d)
    let ?s = "(drop_target_call r s)\<lparr>td_data := Some d\<rparr>"
    have s: "target_ok ?s" using ok [of "Some d" "td_error s"] by (simp add: drop_target_call_def)
    have "target_ok (call_target (Observation_call n (observation_path (tg_tic_id (tir_target d)) (tg_sector (tir_target d)))) ?s)"
      if "tg_has_lightcurve (tir_target d)"
      by (rule call_target_ok [OF s]) (use old True that in \<open>simp_all add: drop_target_call_def\<close>)
    then show ?thesis using True s Inr by (simp add: settle_insights_def drop_target_call_def Let_def)
  qed
qed

lemma settle_observation_ok:
  assumes "target_ok s" "map_of (td_calls s) r = Some (Observation_call n path)"
  shows "target_ok (settle_observation n res (drop_target_call r s))"
proof (cases "n = td_run s")
  case False
  then show ?thesis using drop_stale_ok [OF assms] by (simp add: settle_observation_def drop_target_call_def)
next
  case True
  then have "td_data s \<noteq> None" using target_okD(2) [OF assms(1) map_of_SomeD [OF assms(2)]] by (auto split: option.splits)
  then show ?thesis using True
    by (intro settled_ok [OF assms]) (auto simp: settle_observation_def drop_target_call_def)
qed

interpretation target_run: reducer target_step target_ok
proof
  show "target_ok (target_step s e)" if "target_ok s" for s e
    using that by (cases e) (auto simp: navigate_ok settle_insights_ok settle_observation_ok split: option.split target_call.split)
qed

lemma initial_target_ok: "target_ok (initial_target ticId sector snapshotID)"
  unfolding initial_target_def by (rule insight_effect_ok) simp_all

text \<open>
  C24. Whatever addresses are opened and in whatever order answers arrive, at most one request of the
  current run is out; it asks for the insights of the address shown, or for the observation of the
  target on screen. While a target is named, the spinner stands for a request that is out, unless the
  last failure had an empty message.
\<close>

theorem target_requests_sound:
  fixes es :: "target_event list" and ticId sector snapshotID :: str and m :: mathlib
  defines "s \<equiv> foldl target_step (initial_target ticId sector snapshotID) es"
  shows "(\<forall>(r, c)\<in>set (td_calls s). call_run c = td_run s \<longrightarrow> call_current s c \<and>
      (\<forall>(r', c')\<in>set (td_calls s). call_run c' = td_run s \<longrightarrow> r' = r)) \<and>
    (target_shown_view m s = Loading_view \<and> td_ticId s \<noteq> [] \<and> \<not> td_crashed s \<and> td_error s \<noteq> Some [] \<longrightarrow>
      (\<exists>(r, c)\<in>set (td_calls s). call_run c = td_run s))"
proof -
  have ok: "target_ok s" unfolding s_def by (rule target_run.run_inv [OF initial_target_ok])
  have "td_data s = None \<and> td_error s = None" if "target_shown_view m s = Loading_view" "td_error s \<noteq> Some []"
    using that by (cases "td_error s") (auto simp: target_shown_view_def main_view_def Let_def split: if_splits option.splits)
  moreover have "\<forall>(r, c)\<in>set (td_calls s). call_run c = td_run s \<longrightarrow> call_current s c \<and>
      (\<forall>(r', c')\<in>set (td_calls s). call_run c' = td_run s \<longrightarrow> r' = r)"
    using target_okD(2,4) [OF ok] by blast
  moreover have "\<exists>(r, c)\<in>set (td_calls s). call_run c = td_run s"
    if "td_data s = None" "td_error s = None" "td_ticId s \<noteq> []" "\<not> td_crashed s"
    using target_okD(5) [OF ok that] by blast
  ultimately show ?thesis by blast
qed

theorem target_requests_sound_witness:
  "\<exists>(r, c)\<in>set (td_calls (foldl target_step (initial_target [49] [] []) [])). call_run c = td_run (foldl target_step (initial_target [49] [] []) [])"
proof -
  let ?s = "foldl target_step (initial_target [49] [] []) []"
  have "encodeURIComponent [49] = Some [49]" by code_simp
  then have "target_shown_view sample_math ?s = Loading_view \<and> td_ticId ?s \<noteq> [] \<and> \<not> td_crashed ?s \<and> td_error ?s \<noteq> Some []"
    by (simp add: initial_target_def insight_effect_def call_target_def target_shown_view_def Let_def del: encodeURIComponent.simps)
  then show ?thesis using target_requests_sound [where es = "[]" and ticId = "[49]" and sector = "[]" and snapshotID = "[]" and m = sample_math] by blast
qed

section \<open>An observation of another target\<close>

text \<open>
  C27. Opening a target without a light curve after one that has one leaves the curve and the cutout of the
  first on screen, under the name of the second, with no request out that would replace them.
\<close>

theorem stale_observation:
  fixes a b :: TargetInsightResponse and obs :: TargetObservationResponse
  defines "s \<equiv> foldl target_step (initial_target [49] [] [])
     [Insights_answer 0 (Inr a), Observation_answer 1 (Inr obs), Navigate [50] [] [], Insights_answer 2 (Inr b)]"
  assumes "tg_has_lightcurve (tir_target a)" "\<not> tg_has_lightcurve (tir_target b)"
  shows "\<exists>star ps c. target_shown_view m s = Main_view (header_texts (tir_target b)) star ps c \<and>
     cp_time c = orl_time (obr_lightcurve obs) \<and> cp_flux c = orl_flux (obr_lightcurve obs) \<and> cp_tpf c = obr_tpf obs \<and> td_calls s = []"
proof -
  have e: "encodeURIComponent [49] = Some [49]" "encodeURIComponent [50] = Some [50]" by code_simp+
  have "td_data s = Some b \<and> td_observation s = Some obs \<and> td_error s = None \<and> td_calls s = []" unfolding s_def using assms(2,3)
    by (simp add: initial_target_def navigate_def insight_effect_def call_target_def drop_target_call_def settle_insights_def
        settle_observation_def e Let_def del: encodeURIComponent.simps)
  then show ?thesis by (simp add: target_shown_view_def main_view_def curve_of_def Let_def)
qed

definition sample_answer :: "bool \<Rightarrow> TargetInsightResponse" where
  "sample_answer has = \<lparr>tir_target = sample_target\<lparr>tg_has_lightcurve := has\<rparr>, tir_insights = sample_insights\<rparr>"

definition sample_obs :: TargetObservationResponse where
  "sample_obs = \<lparr>obr_tic_id = lit 7, obr_sector = lit 1, obr_lightcurve = \<lparr>orl_points = lit 1, orl_time = [lit 1], orl_flux = [lit 1]\<rparr>, obr_tpf = None\<rparr>"

theorem stale_observation_witness:
  "td_calls (foldl target_step (initial_target [49] [] [])
     [Insights_answer 0 (Inr (sample_answer True)), Observation_answer 1 (Inr sample_obs), Navigate [50] [] [], Insights_answer 2 (Inr (sample_answer False))]) = []"
proof -
  have "tg_has_lightcurve (tir_target (sample_answer True))" "\<not> tg_has_lightcurve (tir_target (sample_answer False))" by (simp_all add: sample_answer_def)
  from stale_observation [OF this, where obs = sample_obs and m = sample_math] show ?thesis by blast
qed

section \<open>The period handed to the light curve\<close>

text \<open>
  The period of a derived planet is never the one the light curve gets in place of a missing
  period: without a period of its own no planet is derived.
\<close>

theorem period_fallback_unused:
  "blsPeriod m s = (case td_data s of None \<Rightarrow> None
     | Some d \<Rightarrow> let p = ai_bls_period_days (ti_ai_insights (tir_insights d)) in if opt_truthy p then p else None)"
  by (cases "td_data s") (auto simp: blsPeriod_def arr_at_def planetsList_def derivePlanetarySystemFromInsights_def pos_finite_def opt_truthy_def truthy_def Let_def split: option.splits)

end
