(* ===== verification/Overview.thy ===== *)
theory Overview
  imports JsText NumError
begin

text \<open>
  The overview page (\<open>pages/overview/page.tsx\<close>): five optional requests every fifteen seconds or on demand,
  whose answers arrive together, and the figures, rows and notices computed from them. Shown: the data
  on screen are those of one load, never a mixture; the refresh button is never left disabled without
  a load; the services are counted once each; progress is a percentage; and where a late load, an
  early end of the refresh or a failed request mislead.
\<close>

section \<open>Data\<close>

record overview_point =
  op_timestamp :: jsnum
  op_value :: jsnum

record overview_metric =
  om_key :: str
  om_name :: str
  om_unit :: str
  om_kind :: str
  om_points :: "overview_point list"

datatype overview_status = OS_up | OS_degraded | OS_no_data

record overview_component =
  oc_id :: str
  oc_name :: str
  oc_group :: str
  oc_container :: str
  oc_status :: overview_status
  oc_metrics :: "overview_metric list"

datatype system_status = SS_healthy | SS_degraded

text \<open>\<open>subsystems\<close> is a record of texts by name.\<close>

record SystemResponse =
  sys_status :: system_status
  sys_version :: str
  sys_goroutines :: jsnum
  sys_alloc_bytes :: jsnum
  sys_uptime_sec :: jsnum
  sys_subsystems :: "(str \<times> str) list option"

record overview_ingest =
  og_observed :: bool
  og_status :: str
  og_total_products :: jsnum
  og_completed_products :: jsnum
  og_failed_products :: jsnum
  og_completed_bytes :: jsnum
  og_queue_depth :: jsnum
  og_observed_at :: "str option"

record StorageResponse =
  sto_total :: jsnum
  sto_total_bytes :: jsnum

record OverviewState =
  os_system :: "SystemResponse option"
  os_monitoring :: "overview_component list option"
  os_ingest :: "overview_ingest option"
  os_storage :: "StorageResponse option"
  os_targets :: "jsnum option"

datatype ServiceTone = Healthy | Partial | Silent

definition emptyState :: OverviewState where
  "emptyState = \<lparr>os_system = None, os_monitoring = None, os_ingest = None, os_storage = None, os_targets = None\<rparr>"

definition serviceMeta :: "(str \<times> str \<times> str) list" where
  "serviceMeta = [
     ((u ''go-ingester''), (u ''MAST acquisition''), (u ''Go'')),
     ((u ''rust-preprocessor''), (u ''Signal preparation''), (u ''Rust'')),
     ((u ''python-ml-worker''), (u ''Model training''), (ue ''Python ~00B7 CUDA'')),
     ((u ''rust-inference''), (u ''GPU inference''), (ue ''Rust ~00B7 CUDA'')),
     ((u ''go-api''), (u ''Query gateway''), (u ''Go'')),
     ((u ''minio''), (u ''Object storage''), (u ''S3'')),
     ((u ''nats''), (u ''Event backbone''), (u ''JetStream'')),
     ((u ''clickhouse''), (u ''Analytics store''), (u ''ClickHouse''))]"

section \<open>Texts\<close>

definition overview_formatBytes :: "jsnum option \<Rightarrow> str" where
  "overview_formatBytes value = (case value of None \<Rightarrow> emdash | Some v \<Rightarrow>
     if \<not> isFinite v then emdash
     else if num_eq v (lit 0) then (u ''0 B'')
     else if v < lit 1024 then (toFixed v 0 @ u '' B'')
     else if v < lit (1024 ^ 2) then (toFixed (v / lit 1024) 1 @ u '' KB'')
     else if v < lit (1024 ^ 3) then (toFixed (v / lit (1024 ^ 2)) 1 @ u '' MB'')
     else (toFixed (v / lit (1024 ^ 3)) 2 @ u '' GB''))"

definition formatUptime :: "jsnum option \<Rightarrow> str" where
  "formatUptime seconds = (case seconds of None \<Rightarrow> emdash | Some sec \<Rightarrow>
     if \<not> isFinite sec then emdash
     else let days = Math_floor (sec / lit 86400); hours = Math_floor ((sec mod lit 86400) / lit 3600);
              minutes = Math_floor ((sec mod lit 3600) / lit 60)
       in if lit 0 < days then (num_str days @ u ''d '' @ num_str hours @ u ''h'')
          else if lit 0 < hours then (num_str hours @ u ''h '' @ num_str minutes @ u ''m'')
          else (num_str minutes @ u ''m''))"

definition formatMetric :: "jsnum \<Rightarrow> str \<Rightarrow> str" where
  "formatMetric value unit =
     (if \<not> isFinite value then emdash
      else let normalized = toLowerCase unit in
        if str_includes normalized (u ''byte'') then overview_formatBytes (Some value)
        else if str_includes normalized (u ''percent'') \<or> unit = u ''%'' then (toFixed value 1 @ u ''%'')
        else if lit 1000000 \<le> Math_abs value then (toFixed (value / lit 1000000) 1 @ u ''M'')
        else if lit 1000 \<le> Math_abs value then (toFixed (value / lit 1000) 1 @ u ''k'')
        else toFixed value (if isInteger value then 0 else 2))"

definition componentTone :: "overview_status option \<Rightarrow> ServiceTone" where
  "componentTone status = (if status = Some OS_up then Healthy else if status = Some OS_degraded then Partial else Silent)"

definition toneLabel :: "ServiceTone \<Rightarrow> str" where
  "toneLabel tone = (if tone = Healthy then (u ''Healthy'') else if tone = Partial then (u ''Partial telemetry'') else (u ''No telemetry''))"

text \<open>The first metric with samples gives the signal, its last sample the value.\<close>

fun first_signal :: "overview_metric list \<Rightarrow> str \<times> str" where
  "first_signal [] = ((u ''Awaiting samples''), emdash)"
| "first_signal (metric # ms) = (if om_points metric \<noteq> []
     then (om_name metric, formatMetric (op_value (last (om_points metric))) (om_unit metric)) else first_signal ms)"

definition latestSignal :: "overview_component \<Rightarrow> str \<times> str" where
  "latestSignal component = first_signal (oc_metrics component)"

definition subsystemTone :: "str option \<Rightarrow> ServiceTone" where
  "subsystemTone value = (case value of None \<Rightarrow> Silent | Some v \<Rightarrow>
     if v = [] then Silent
     else if toLowerCase v \<in> set [u ''up'', u ''ready'', u ''healthy''] then Healthy else Partial)"

section \<open>State and loads\<close>

text \<open>
  A load is five requests awaited together; a request that fails counts as \<open>null\<close>, so a load always
  ends. The page numbers no loads: an answer that arrives is shown. \<open>lastUpdated\<close> is the time of arrival.
\<close>

record overview_load =
  ol_id :: nat
  ol_manual :: bool

record overview =
  ov_data :: OverviewState
  ov_loading :: bool
  ov_refreshing :: bool
  ov_lastUpdated :: "jsnum option"
  ov_loads :: "overview_load list"
  ov_next :: nat

definition overview_load_begin :: "bool \<Rightarrow> overview \<Rightarrow> overview" where
  "overview_load_begin manual s =
     s\<lparr>ov_refreshing := (if manual then True else ov_refreshing s),
       ov_loads := ov_loads s @ [\<lparr>ol_id = ov_next s, ol_manual = manual\<rparr>], ov_next := Suc (ov_next s)\<rparr>"

definition overview_load_end :: "nat \<Rightarrow> OverviewState \<Rightarrow> jsnum \<Rightarrow> overview \<Rightarrow> overview" where
  "overview_load_end n answer now s = (if \<not> list_ex (\<lambda>l. ol_id l = n) (ov_loads s) then s
     else s\<lparr>ov_data := answer, ov_lastUpdated := Some now, ov_loading := False, ov_refreshing := False,
            ov_loads := filter (\<lambda>l. ol_id l \<noteq> n) (ov_loads s)\<rparr>)"

definition initial_overview :: overview where
  "initial_overview = overview_load_begin False
     \<lparr>ov_data = emptyState, ov_loading = True, ov_refreshing = False, ov_lastUpdated = None, ov_loads = [], ov_next = 0\<rparr>"

datatype overview_event =
    Timer_fires
  | Press_refresh
  | Load_answer nat OverviewState jsnum

text \<open>The button is disabled while it refreshes.\<close>

fun overview_step :: "overview \<Rightarrow> overview_event \<Rightarrow> overview" where
  "overview_step s Timer_fires = overview_load_begin False s"
| "overview_step s Press_refresh = (if ov_refreshing s then s else overview_load_begin True s)"
| "overview_step s (Load_answer n answer now) = overview_load_end n answer now s"

section \<open>What is computed\<close>

definition overview_components :: "OverviewState \<Rightarrow> overview_component list" where
  "overview_components d = nullish (os_monitoring d) []"

definition services :: "overview_status \<Rightarrow> OverviewState \<Rightarrow> nat" where
  "services st d = length (filter (\<lambda>c. oc_status c = st) (overview_components d))"

definition apiHealthy :: "OverviewState \<Rightarrow> bool" where
  "apiHealthy d = (map_option sys_status (os_system d) = Some SS_healthy)"

definition fleetTone :: "OverviewState \<Rightarrow> ServiceTone" where
  "fleetTone d = (if 0 < services OS_no_data d then Silent else if 0 < services OS_degraded d then Partial
     else if overview_components d \<noteq> [] then Healthy else Silent)"

definition fleet_text :: "ServiceTone \<Rightarrow> str" where
  "fleet_text tone = (if tone = Healthy then (u ''All systems operational'') else if tone = Partial then (u ''Operational with warnings'') else (u ''Telemetry incomplete''))"

definition ingestProgress :: "OverviewState \<Rightarrow> jsnum" where
  "ingestProgress d = (case os_ingest d of None \<Rightarrow> lit 0 | Some i \<Rightarrow>
     if lit 0 < og_total_products i then Math_min (lit 100) ((og_completed_products i / og_total_products i) * lit 100) else lit 0)"

definition componentById :: "OverviewState \<Rightarrow> str \<Rightarrow> overview_component option" where
  "componentById d i = List.find (\<lambda>c. oc_id c = i) (overview_components d)"

definition overview_pipeline :: "(str \<times> str \<times> str \<times> str) list" where
  "overview_pipeline = [
     ((u ''go-ingester''), (u ''01''), (u ''Acquire''), (ue ''MAST ~2192 FITS'')),
     ((u ''minio''), (u ''02''), (u ''Bronze''), (u ''Raw object storage'')),
     ((u ''rust-preprocessor''), (u ''03''), (u ''Prepare''), (u ''Silver light curves'')),
     ((u ''python-ml-worker''), (u ''04''), (u ''Learn''), (u ''Training jobs'')),
     ((u ''rust-inference''), (u ''05''), (u ''Score''), (u ''Gold predictions''))]"

definition pipeline_tones :: "OverviewState \<Rightarrow> (str \<times> ServiceTone) list" where
  "pipeline_tones d = map (\<lambda>(i, step, label, detail). (label, componentTone (map_option oc_status (componentById d i)))) overview_pipeline"

definition subsystem :: "OverviewState \<Rightarrow> str \<Rightarrow> str option" where
  "subsystem d k = Option.bind (Option.bind (os_system d) sys_subsystems) (\<lambda>ss. map_of ss k)"

definition platformRows :: "OverviewState \<Rightarrow> (str \<times> str \<times> ServiceTone) list" where
  "platformRows d = [
     ((u ''API gateway''), (u ''v'' @ nullish (map_option sys_version (os_system d)) emdash), if apiHealthy d then Healthy else Silent),
     ((u ''MinIO''), nullish (subsystem d (u ''storage_minio'')) (u ''No readiness data''), subsystemTone (subsystem d (u ''storage_minio''))),
     ((u ''ClickHouse''), nullish (subsystem d (u ''query_engine'')) (u ''No readiness data''), subsystemTone (subsystem d (u ''query_engine''))),
     ((u ''NATS JetStream''), nullish (map_option oc_container (componentById d (u ''nats''))) (u ''No readiness data''),
       componentTone (map_option oc_status (componentById d (u ''nats''))))]"

record notice =
  nt_title :: str
  nt_detail :: str
  nt_href :: str

definition plural_s :: "nat \<Rightarrow> str" where
  "plural_s n = (if 1 < n then u ''s'' else [])"

definition notices :: "OverviewState \<Rightarrow> notice list" where
  "notices d = (let partial = services OS_degraded d; silent = services OS_no_data d in
     (if map_option og_observed (os_ingest d) \<noteq> Some True then [\<lparr>nt_title = (u ''No ingest checkpoint''),
        nt_detail = (u ''No durable ingestion run has been observed yet.''), nt_href = (u ''/ingest'')\<rparr>] else []) @
     (if (case os_targets d of Some n \<Rightarrow> num_eq n (lit 0) | None \<Rightarrow> False) then [\<lparr>nt_title = (u ''Target catalog is empty''),
        nt_detail = (u ''Run ingestion and materialize targets before analysis.''), nt_href = (u ''/targets'')\<rparr>] else []) @
     (if 0 < partial then [\<lparr>nt_title = (num_str (jsnum_of_nat partial) @ u '' service'' @ plural_s partial @ u '' with partial telemetry''),
        nt_detail = (u ''The service is reachable, but one or more expected signals are absent.''), nt_href = (u ''/monitoring'')\<rparr>] else []) @
     (if 0 < silent then [\<lparr>nt_title = (num_str (jsnum_of_nat silent) @ u '' service'' @ plural_s silent @ u '' without telemetry''),
        nt_detail = (u ''Prometheus has no recent samples for these services.''), nt_href = (u ''/monitoring'')\<rparr>] else []))"

definition noData :: "overview \<Rightarrow> bool" where
  "noData s = (\<not> ov_loading s \<and> ov_data s = emptyState)"

definition updated_text :: "host \<Rightarrow> overview \<Rightarrow> str" where
  "updated_text h s = (case ov_lastUpdated s of Some t \<Rightarrow> (u ''Updated '' @ locale_time h t) | None \<Rightarrow> (u ''Loading status''))"

definition overview_summary :: "host \<Rightarrow> OverviewState \<Rightarrow> (str \<times> str \<times> str) list" where
  "overview_summary h d = [
     ((u ''Service fleet''), (num_str (jsnum_of_nat (services OS_up d)) @ u ''/'' @ (if overview_components d \<noteq> [] then num_str (jsnum_of_nat (length (overview_components d))) else emdash)),
       (num_str (jsnum_of_nat (services OS_degraded d) + jsnum_of_nat (services OS_no_data d)) @ u '' require review'')),
     ((u ''Targets''), number_locale h None (nullish (os_targets d) (lit 0)), (u ''Indexed in ClickHouse'')),
     ((u ''Bronze storage''), overview_formatBytes (map_option sto_total_bytes (os_storage d)),
       (num_str (nullish (map_option sto_total (os_storage d)) (lit 0)) @ u '' objects in MinIO'')),
     ((u ''Current ingest''), (if map_option og_observed (os_ingest d) = Some True then (toFixed (ingestProgress d) 0 @ u ''%'') else (u ''Idle'')),
       (case os_ingest d of Some i \<Rightarrow> if og_observed i
           then (num_str (og_completed_products i) @ u ''/'' @ num_str (og_total_products i) @ u '' products'') else (u ''No active checkpoint'')
         | None \<Rightarrow> (u ''No active checkpoint'')))]"

record service_row =
  sv_name :: str
  sv_container :: str
  sv_role :: str
  sv_runtime :: str
  sv_tone :: ServiceTone
  sv_signal :: "str \<times> str"

definition service_rows :: "OverviewState \<Rightarrow> service_row list" where
  "service_rows d = map (\<lambda>component. let meta = nullish (map_of serviceMeta (oc_id component)) (oc_group component, (u ''Service'')) in
     \<lparr>sv_name = oc_name component, sv_container = oc_container component, sv_role = fst meta, sv_runtime = snd meta,
      sv_tone = componentTone (Some (oc_status component)), sv_signal = latestSignal component\<rparr>) (overview_components d)"

section \<open>Loads\<close>

text \<open>Data, time and spinner belong together; a refresh stands for a load of its own; identifiers are fresh.\<close>

definition overview_ok :: "OverviewState set \<Rightarrow> overview \<Rightarrow> bool" where
  "overview_ok D s = ((ov_loading s \<longleftrightarrow> ov_lastUpdated s = None) \<and> (ov_loading s \<longrightarrow> ov_data s = emptyState \<and> ov_loads s \<noteq> []) \<and>
     (\<not> ov_loading s \<longrightarrow> ov_data s \<in> D) \<and> (ov_refreshing s \<longrightarrow> list_ex ol_manual (ov_loads s)) \<and>
     list_all (\<lambda>l. ol_id l < ov_next s) (ov_loads s) \<and> distinct (map ol_id (ov_loads s)))"

fun answer_in :: "OverviewState set \<Rightarrow> overview_event \<Rightarrow> bool" where
  "answer_in D (Load_answer n answer now) = (answer \<in> D)"
| "answer_in D e = True"

lemma load_begin_ok: "overview_ok D s \<Longrightarrow> overview_ok D (overview_load_begin manual s)"
  by (auto simp: overview_ok_def overview_load_begin_def list_all_iff)

lemma load_end_ok: "overview_ok D s \<Longrightarrow> answer \<in> D \<Longrightarrow> overview_ok D (overview_load_end n answer now s)"
  by (auto simp: overview_ok_def overview_load_end_def list_all_iff distinct_map_filter)

lemma overview_step_ok: "overview_ok D s \<Longrightarrow> answer_in D e \<Longrightarrow> overview_ok D (overview_step s e)"
  by (cases e) (simp_all add: load_begin_ok load_end_ok)

lemma overview_run_ok: "overview_ok D s \<Longrightarrow> list_all (answer_in D) es \<Longrightarrow> overview_ok D (foldl overview_step s es)"
  by (induction es arbitrary: s) (auto simp: overview_step_ok)

lemma initial_overview_ok: "overview_ok D initial_overview"
  by (simp add: initial_overview_def overview_load_begin_def overview_ok_def)

text \<open>
  Whatever loads overlap, the five parts on screen are those of one answer that arrived, the page
  is loading exactly until the first one, and both the spinner and the disabled button stand for a
  load that is out.
\<close>

theorem overview_loads_sound:
  fixes es :: "overview_event list"
  defines "s \<equiv> foldl overview_step initial_overview es"
  shows "(if ov_loading s then ov_data s = emptyState \<and> ov_lastUpdated s = None \<and> ov_loads s \<noteq> []
      else list_ex (\<lambda>e. case e of Load_answer n answer now \<Rightarrow> answer = ov_data s | _ \<Rightarrow> False) es \<and> ov_lastUpdated s \<noteq> None) \<and>
    (ov_refreshing s \<longrightarrow> list_ex ol_manual (ov_loads s))"
proof -
  let ?D = "{d. list_ex (\<lambda>e. case e of Load_answer n answer now \<Rightarrow> answer = d | _ \<Rightarrow> False) es}"
  have "answer_in ?D e" if "e \<in> set es" for e by (cases e) (use that in \<open>auto simp: list_ex_iff intro!: bexI [of _ e]\<close>)
  then have "overview_ok ?D s" unfolding s_def by (intro overview_run_ok initial_overview_ok) (simp add: list_all_iff)
  then show ?thesis by (auto simp: overview_ok_def)
qed

theorem overview_loads_sound_witness:
  "list_ex ol_manual (ov_loads (foldl overview_step initial_overview [Press_refresh, Load_answer 5 emptyState (lit 1)]))"
  using overview_loads_sound [of "[Press_refresh, Load_answer 5 emptyState (lit 1)]"]
  by (simp add: initial_overview_def overview_load_begin_def overview_load_end_def)

text \<open>
  The answer of a load the timer started, arriving during a refresh, ends the refresh on screen with
  its load still out; and when that load was answered first, the older one replaces its data.
\<close>

theorem refresh_ends_early:
  "let s = foldl overview_step initial_overview [Press_refresh, Load_answer 0 d t] in
     \<not> ov_refreshing s \<and> ov_loads s = [\<lparr>ol_id = 1, ol_manual = True\<rparr>]"
  "ov_data (foldl overview_step initial_overview [Press_refresh, Load_answer 1 d' t', Load_answer 0 d t]) = d"
  by (simp_all add: initial_overview_def overview_load_begin_def overview_load_end_def)

section \<open>Figures\<close>

text \<open>
  Every service is counted once, as healthy, partial or silent; the fleet is shown healthy exactly
  when there is a service and all are up.
\<close>

theorem services_partition:
  "services OS_up d + services OS_degraded d + services OS_no_data d = length (overview_components d) \<and>
   (fleetTone d = Healthy \<longleftrightarrow> overview_components d \<noteq> [] \<and> services OS_up d = length (overview_components d)) \<and>
   (fleetTone d = Partial \<longleftrightarrow> 0 < services OS_degraded d \<and> services OS_no_data d = 0)"
proof -
  have "length (filter (\<lambda>c. oc_status c = OS_up) cs) + length (filter (\<lambda>c. oc_status c = OS_degraded) cs) +
      length (filter (\<lambda>c. oc_status c = OS_no_data) cs) = length cs" for cs
  proof (induction cs)
    case (Cons c cs)
    then show ?case by (cases "oc_status c") auto
  qed simp
  from this [of "overview_components d"] show ?thesis by (auto simp: fleetTone_def services_def)
qed

text \<open>
  The progress of the ingest run is a percentage for every finite count of products that is not negative.
\<close>

lemma Math_min_bounds: "x \<noteq> NaN \<Longrightarrow> lit 0 \<le> x \<Longrightarrow> lit 0 \<le> Math_min (lit 100) x \<and> Math_min (lit 100) x \<le> lit 100"
  using num_le_total [of x "lit 100"] by (auto simp: Math_min_def)

theorem ingest_progress_bounded:
  assumes "os_ingest d = Some i" "isFinite (og_completed_products i)" "lit 0 \<le> og_completed_products i" "isFinite (og_total_products i)"
  shows "lit 0 \<le> ingestProgress d \<and> ingestProgress d \<le> lit 100"
proof (cases "lit 0 < og_total_products i")
  case True
  let ?q = "og_completed_products i / og_total_products i"
  have "0 \<le> val (og_completed_products i)" "0 < val (og_total_products i)"
    using assms(2-4) True by (cases "og_completed_products i"; cases "og_total_products i"; simp)+
  then have "?q \<noteq> NaN" "Fin 0 \<le> ?q" using assms(2,4) by (simp_all add: finite_divide mk_nonneg)
  then have "?q * Fin 100 \<noteq> NaN \<and> Fin 0 \<le> ?q * Fin 100" using mk_nonneg by (cases ?q) (auto simp: times_jsnum_def zero_of_def inf_of_def Let_def)
  then show ?thesis using True assms(1) Math_min_bounds by (simp add: ingestProgress_def)
qed (simp add: ingestProgress_def assms(1))

text \<open>
  A request that fails leaves the notice that no ingestion run has been observed, and an interface that
  answers that it is degraded is marked as sending no telemetry.
\<close>

lemma failures_misread:
  "nt_title (hd (notices emptyState)) = (u ''No ingest checkpoint'')"
  "os_system d = Some y \<Longrightarrow> sys_status y = SS_degraded \<Longrightarrow> snd (snd (hd (platformRows d))) = Silent"
  by (simp_all add: notices_def emptyState_def platformRows_def apiHealthy_def Let_def)

text \<open>The rate of a metric in bytes per second is shown as an amount.\<close>

lemma rate_shown_as_amount: "isFinite v \<Longrightarrow> formatMetric v (u ''bytes/s'') = overview_formatBytes (Some v)"
  by (simp add: formatMetric_def u_def toLowerCase_def Let_def)

end
