(* ===== verification/TrainingMonitor.thy ===== *)
theory TrainingMonitor
  imports TrainingLab NumArray
begin

text \<open>
  The monitor of a training run (\<open>pages/training-lab/components/LiveTrainingMonitor.tsx\<close>): its stepper of five
  stages, the controls with their lock, elapsed time, facts and logs. Shown: the stepper has its stages
  in order with at most one active, every phase of a worker has a stage, a control request is sent only
  for a running run and never a second one before the first has settled, the elapsed time names the
  exact seconds, and a run that is cancelled loses the stages it had done.
\<close>

section \<open>Texts\<close>

record training_stage =
  ts_key :: str
  ts_label :: str
  ts_phases :: "str list"

definition TRAINING_PHASES :: "training_stage list" where
  "TRAINING_PHASES = [
     \<lparr>ts_key = (u ''gold''), ts_label = (u ''Gold load''), ts_phases = [(u ''worker_acknowledged''), (u ''loading_gold'')]\<rparr>,
     \<lparr>ts_key = (u ''dataset''), ts_label = (u ''Dataset + split''), ts_phases = [(u ''preparing_dataset'')]\<rparr>,
     \<lparr>ts_key = (u ''training''), ts_label = (u ''Optimization''), ts_phases = [(u ''training'')]\<rparr>,
     \<lparr>ts_key = (u ''evaluation''), ts_label = (u ''Evaluation''), ts_phases = [(u ''evaluating'')]\<rparr>,
     \<lparr>ts_key = (u ''package''), ts_label = (u ''Runtime package''),
      ts_phases = [(u ''packaging_runtime''), (u ''persisting_artifacts''), (u ''planning_inference''), (u ''completed'')]\<rparr>]"

definition phaseLabels :: "(str \<times> str) list" where
  "phaseLabels = [
     ((u ''queued''), (ue ''Queued, waiting for ML worker confirmation~2026'')),
     ((u ''worker_acknowledged''), (u ''ML Worker accepted experiment specification'')),
     ((u ''loading_gold''), (u ''Validating and loading Gold snapshots'')),
     ((u ''preparing_dataset''), (u ''Building dataset and deterministic group split'')),
     ((u ''training''), (u ''Neural network parameter optimization'')),
     ((u ''evaluating''), (u ''Evaluating frozen validation cohort and confusion matrix'')),
     ((u ''packaging_runtime''), (u ''Packaging ONNX runtime artifact'')),
     ((u ''persisting_artifacts''), (u ''Persisting immutable manifest and weights'')),
     ((u ''planning_inference''), (u ''Planning verification inference run'')),
     ((u ''completed''), (u ''Experiment completed and Model Package registered'')),
     ((u ''failed''), (u ''Experiment execution failed'')),
     ((u ''cancelled''), (u ''Experiment cancelled by operator''))]"

definition formatElapsed :: "jsnum \<Rightarrow> str" where
  "formatElapsed seconds =
     (let hours = Math_floor (seconds / lit 3600); minutes = Math_floor ((seconds mod lit 3600) / lit 60); remaining = seconds mod lit 60
      in if lit 0 < hours
         then (num_str hours @ u ''h '' @ padStart2 (num_str minutes) @ u ''m '' @ padStart2 (num_str remaining) @ u ''s'')
         else (num_str minutes @ u ''m '' @ padStart2 (num_str remaining) @ u ''s''))"

text \<open>The name of a status, which stands in for a missing phase.\<close>

fun status_name :: "run_status \<Rightarrow> str" where
  "status_name RS_queued = u ''queued''"
| "status_name RS_running = u ''running''"
| "status_name RS_completed = u ''completed''"
| "status_name RS_failed = u ''failed''"
| "status_name RS_cancelled = u ''cancelled''"

definition phase_text :: "ActiveTrainingState \<Rightarrow> str" where
  "phase_text a = nullish (map_of phaseLabels (nullish (at_phase a) (status_name (at_status a)))) (nullish (at_phase a) [])"

section \<open>Status and stages\<close>

definition isRunning :: "ActiveTrainingState \<Rightarrow> bool" where
  "isRunning a = (at_status a = RS_running \<or> at_status a = RS_queued)"

definition status_badge :: "ActiveTrainingState \<Rightarrow> str" where
  "status_badge a = (if isRunning a then (u ''RUNNING'') else if at_status a = RS_completed then (u ''COMPLETED'')
     else if at_status a = RS_cancelled then (u ''CANCELLED'') else (u ''FAILED''))"

definition observedPercent :: "ActiveTrainingState \<Rightarrow> jsnum" where
  "observedPercent a = Math_max (lit 0) (Math_min (lit 100) (nullish (at_progressPercent a) (lit 0)))"

text \<open>\<open>findIndex\<close>, \<open>None\<close> for \<open>-1\<close>.\<close>

fun stage_index :: "str option \<Rightarrow> training_stage list \<Rightarrow> nat option" where
  "stage_index phase [] = None"
| "stage_index phase (stage # ss) = (if phase \<in> Some ` set (ts_phases stage) then Some 0 else map_option Suc (stage_index phase ss))"

definition currentPhaseIndex :: "ActiveTrainingState \<Rightarrow> nat option" where
  "currentPhaseIndex a = stage_index (at_phase a) TRAINING_PHASES"

datatype stage_state = Done | Active | Open

definition isDone :: "ActiveTrainingState \<Rightarrow> nat \<Rightarrow> bool" where
  "isDone a i = (at_status a = RS_completed \<or> (case currentPhaseIndex a of None \<Rightarrow> False | Some k \<Rightarrow> i < k))"

definition isActive :: "ActiveTrainingState \<Rightarrow> nat \<Rightarrow> bool" where
  "isActive a i = (at_status a \<noteq> RS_failed \<and> at_status a \<noteq> RS_cancelled \<and> currentPhaseIndex a = Some i)"

definition stepper :: "ActiveTrainingState \<Rightarrow> (str \<times> stage_state) list" where
  "stepper a = map (\<lambda>(i, stage). (ts_label stage, if isDone a i then Done else if isActive a i then Active else Open))
     (List.enumerate 0 TRAINING_PHASES)"

section \<open>Facts, losses and logs\<close>

definition compute_text :: "compute_target option \<Rightarrow> str" where
  "compute_text t = (case t of Some CT_cpu \<Rightarrow> (u ''CPU'') | _ \<Rightarrow> (u ''GPU''))"

definition fact_strip :: "ActiveTrainingState \<Rightarrow> jsnum \<Rightarrow> str list" where
  "fact_strip a trainingElapsed = [
     compute_text (at_computeTarget a),
     (num_str (nullish (at_currentEpoch a) (lit 0)) @ u '' / '' @ num_str (nullish (at_totalEpochs a) (at_epochs a))),
     (case at_bestEpoch a of Some e \<Rightarrow> if truthy e then (u ''Epoch '' @ num_str e) else emdash | None \<Rightarrow> emdash),
     (case at_bestValidationLoss a of Some x \<Rightarrow> if isFinite x then toFixed x 5 else emdash | None \<Rightarrow> emdash),
     (num_str (at_snapshotCount a) @ u '' snapshots''),
     formatElapsed trainingElapsed]"

text \<open>The last losses over the curve, or the text that stands in for an empty one.\<close>

definition loss_head :: "ActiveTrainingState \<Rightarrow> (str \<times> str) + str" where
  "loss_head a = (let lossHistory = nullish (at_lossHistory a) [] in
     if lossHistory = [] then Inr (if at_phase a = Some (u ''training'') then (ue ''Calculating first epoch~2026'') else (ue ''Preparing dataset and initializing neural network~2026''))
     else Inl (toFixed (lh_trainLoss (last lossHistory)) 4, toFixed (lh_valLoss (last lossHistory)) 4))"

fun join_lines :: "str list \<Rightarrow> str" where
  "join_lines [] = []"
| "join_lines [l] = l"
| "join_lines (l # k # ls) = l @ 10 # join_lines (k # ls)"

text \<open>The text put on the clipboard; nothing is copied without logs.\<close>

definition copyLogs :: "ActiveTrainingState \<Rightarrow> str option" where
  "copyLogs a = (let logs = nullish (at_logs a) [] in
     if logs = [] then None else Some (join_lines (map (\<lambda>l. (u ''['' @ lg_timestamp l @ u ''] '' @ lg_message l)) logs)))"

definition log_tone :: "training_log \<Rightarrow> str" where
  "log_tone l = (if lg_level l = Some LL_error then (u ''text-rose-400'') else if lg_level l = Some LL_warn then (u ''text-amber-400'')
     else if lg_level l = Some LL_success then (u ''text-emerald-400'') else (u ''text-zinc-200''))"

definition monitor_footer :: "ActiveTrainingState \<Rightarrow> str" where
  "monitor_footer a = (u ''Run: '' @ at_ticketId a @ ue '' ~00B7 '' @ (case at_computeTarget a of None \<Rightarrow> [] | t \<Rightarrow> compute_text t) @ ue '' ~00B7 '' @ num_str (at_snapshotCount a) @ u '' snapshots'') @
     (if at_status a = RS_completed then (ue '' ~00B7 Artifacts persisted and registered in Model Registry'') else [])"

section \<open>Controls\<close>

text \<open>
  \<open>pending\<close> are the control requests that have not settled. The lock is taken before the request and
  released after it, whether it failed or not.
\<close>

record training_monitor =
  mo_activeTraining :: ActiveTrainingState
  mo_controlLoading :: "control_action option"
  mo_pending :: "control_action list"

definition control_enabled :: "training_monitor \<Rightarrow> control_action \<Rightarrow> bool" where
  "control_enabled s action = (isRunning (mo_activeTraining s) \<and> mo_controlLoading s = None \<and>
     (action = CA_checkpoint \<longrightarrow> at_phase (mo_activeTraining s) = Some (u ''training'')))"

definition handleAction :: "control_action \<Rightarrow> training_monitor \<Rightarrow> training_monitor" where
  "handleAction action s = s\<lparr>mo_controlLoading := Some action, mo_pending := mo_pending s @ [action]\<rparr>"

definition action_settled :: "training_monitor \<Rightarrow> training_monitor" where
  "action_settled s = s\<lparr>mo_controlLoading := None, mo_pending := tl (mo_pending s)\<rparr>"

datatype monitor_event =
    Press control_action
  | Settled
  | Run_update ActiveTrainingState

fun monitor_step :: "training_monitor \<Rightarrow> monitor_event \<Rightarrow> training_monitor" where
  "monitor_step s (Press action) = (if control_enabled s action then handleAction action s else s)"
| "monitor_step s Settled = (if mo_pending s = [] then s else action_settled s)"
| "monitor_step s (Run_update a) = s\<lparr>mo_activeTraining := a\<rparr>"

definition initial_monitor :: "ActiveTrainingState \<Rightarrow> training_monitor" where
  "initial_monitor a = \<lparr>mo_activeTraining = a, mo_controlLoading = None, mo_pending = []\<rparr>"

definition monitor_ok :: "training_monitor \<Rightarrow> bool" where
  "monitor_ok s = (mo_pending s = (case mo_controlLoading s of None \<Rightarrow> [] | Some action \<Rightarrow> [action]))"

interpretation monitor_run: reducer monitor_step monitor_ok
proof
  show "monitor_ok (monitor_step s e)" if "monitor_ok s" for s e
    using that by (cases e) (auto simp: monitor_ok_def control_enabled_def handleAction_def action_settled_def split: option.splits)
qed


definition sample_run_state :: "run_status \<Rightarrow> str option \<Rightarrow> ActiveTrainingState" where
  "sample_run_state status phase = \<lparr>at_ticketId = u ''t'', at_task = [], at_snapshotCount = lit 1, at_baseModel = [], at_epochs = lit 5,
     at_computeTarget = None, at_startedAt = lit 0, at_status = status, at_phase = phase, at_progressPercent = None, at_currentEpoch = None,
     at_totalEpochs = None, at_bestEpoch = None, at_bestValidationLoss = None, at_trainLoss = None, at_valLoss = None,
     at_lossHistory = None, at_logs = None, at_updatedAt = None\<rparr>"


section \<open>The stepper\<close>

lemma stage_index_bound: "stage_index phase ss = Some k \<Longrightarrow> k < length ss"
  by (induction ss arbitrary: k) (auto split: if_splits)

text \<open>
  The stages shown are the five of the list in order: all done for a completed run; else those before the
  stage of the phase done, that stage active unless the run was stopped, and the rest open. A phase
  without a stage leaves all open.
\<close>

theorem stepper_exact:
  "map fst (stepper a) = map ts_label TRAINING_PHASES \<and>
   map snd (stepper a) =
     (if at_status a = RS_completed then replicate 5 Done
      else case currentPhaseIndex a of None \<Rightarrow> replicate 5 Open
        | Some k \<Rightarrow> replicate k Done @ (if at_status a = RS_failed \<or> at_status a = RS_cancelled then Open else Active) # replicate (4 - k) Open)"
proof (cases "currentPhaseIndex a")
  case None
  then show ?thesis by (simp add: stepper_def isDone_def isActive_def TRAINING_PHASES_def eval_nat_numeral)
next
  case (Some k)
  then have "k < 5" using stage_index_bound [of "at_phase a" TRAINING_PHASES k] by (simp add: currentPhaseIndex_def TRAINING_PHASES_def)
  then consider "k = 0" | "k = 1" | "k = 2" | "k = 3" | "k = 4" by linarith
  then show ?thesis using Some by cases (simp_all add: stepper_def isDone_def isActive_def TRAINING_PHASES_def eval_nat_numeral)
qed

text \<open>Every phase with a label has its stage, but for the three in which no work is done.\<close>

lemma phases_have_stages:
  "map fst (filter (\<lambda>(p, label). stage_index (Some p) TRAINING_PHASES = None) phaseLabels) = [u ''queued'', u ''failed'', u ''cancelled'']"
  by code_simp

text \<open>
  Cancelling a run sets its phase to one without a stage, so the stages it had done are shown open
  again, whatever they were.
\<close>

theorem cancel_forgets_stages:
  assumes "tl_activeTraining s = Some a"
  shows "map_option (\<lambda>b. map snd (stepper b)) (tl_activeTraining (handleControlTraining_settle CA_cancel (Inr ()) s)) = Some (replicate 5 Open)"
proof -
  have "stage_index (Some (u ''cancelled'')) TRAINING_PHASES = None" by code_simp
  then show ?thesis using assms by (simp add: handleControlTraining_settle_def stepper_def isDone_def isActive_def currentPhaseIndex_def TRAINING_PHASES_def eval_nat_numeral)
qed

section \<open>Elapsed time\<close>

text \<open>
  The elapsed time is shown with the hours, minutes and seconds of exact integer division, for every
  number of seconds below \<open>2^53\<close>.
\<close>

theorem elapsed_exact:
  assumes "n < 2 ^ 53"
  shows "formatElapsed (jsnum_of_nat n) =
    (let h = n div 3600; m = n mod 3600 div 60; sec = n mod 60 in
       if 0 < h then num_str (jsnum_of_nat h) @ u ''h '' @ padStart2 (num_str (jsnum_of_nat m)) @ u ''m '' @ padStart2 (num_str (jsnum_of_nat sec)) @ u ''s''
       else num_str (jsnum_of_nat m) @ u ''m '' @ padStart2 (num_str (jsnum_of_nat sec)) @ u ''s'')"
proof -
  have m: "jsnum_of_nat n mod jsnum_of_nat 3600 = jsnum_of_nat (n mod 3600)" "jsnum_of_nat n mod jsnum_of_nat 60 = jsnum_of_nat (n mod 60)"
    using assms by (intro mod_nats; simp)+
  have "n mod 3600 < 2 ^ 53" using mod_less_eq_dividend [of n 3600] assms by linarith
  then have d: "Math_floor (jsnum_of_nat n / jsnum_of_nat 3600) = jsnum_of_nat (n div 3600)"
      "Math_floor (jsnum_of_nat (n mod 3600) / jsnum_of_nat 60) = jsnum_of_nat (n mod 3600 div 60)"
    using assms by (intro floor_divide_nats; simp)+
  have l: "lit 3600 = jsnum_of_nat 3600" "lit 60 = jsnum_of_nat 60" by (simp_all add: jsnum_of_nat_exact)
  have "n div 3600 \<le> 2 ^ 53" using div_le_dividend [of n 3600] assms by linarith
  then have "lit 0 < jsnum_of_nat (n div 3600) \<longleftrightarrow> 0 < n div 3600" by (simp add: jsnum_of_nat_exact)
  then show ?thesis unfolding formatElapsed_def Let_def l m d by simp
qed

end
