(* ===== verification/ReviewQueue.thy ===== *)
theory ReviewQueue
  imports LabelingPage NumSort
begin

text \<open>
  The target queue of the labeling studio (\<open>components/TargetQueueSidebar.tsx\<close>): search, filters, order and
  rows of the list, its range and pager, and the figures over the evidence
  (\<open>components/TargetSummaryKPIs.tsx\<close>). Shown: the list has exactly the items of the page that match,
  each once, by falling score or power when these are finite, and in the order of the page otherwise.
\<close>

section \<open>Search, filter and order\<close>

datatype filter_mode = FM_all | FM_ai_pos | FM_ai_neg | FM_toi
datatype sort_mode = SM_default | SM_score_desc | SM_power_desc

record sidebar =
  sb_filter :: filter_mode
  sb_sort :: sort_mode
  sb_search :: str

definition initial_sidebar :: sidebar where
  "initial_sidebar = \<lparr>sb_filter = FM_all, sb_sort = SM_default, sb_search = []\<rparr>"

definition search_match :: "str \<Rightarrow> LabelingQueueSummaryItem \<Rightarrow> bool" where
  "search_match search item = (trim search = [] \<or>
     (let q = toLowerCase (trim search) in
        str_includes (num_str (qi_tic_id item)) q \<or> str_includes (toLowerCase (qi_source_product_id item)) q \<or>
        (case qi_matched_toi_id item of None \<Rightarrow> False | Some t \<Rightarrow> t \<noteq> [] \<and> str_includes (toLowerCase t) q)))"

fun mode_match :: "filter_mode \<Rightarrow> LabelingQueueSummaryItem \<Rightarrow> bool" where
  "mode_match FM_all item = True"
| "mode_match FM_ai_pos item = (qi_above_threshold item = Some True)"
| "mode_match FM_ai_neg item = (qi_above_threshold item = Some False \<and> qi_candidate_score item \<noteq> None)"
| "mode_match FM_toi item = (case qi_matched_toi_id item of None \<Rightarrow> False | Some t \<Rightarrow> t \<noteq> [] \<and> t \<noteq> (u ''NO_TOI_FOR_TARGET''))"

fun order_key :: "sort_mode \<Rightarrow> LabelingQueueSummaryItem \<Rightarrow> jsnum" where
  "order_key SM_score_desc item = nullish (qi_candidate_score item) (lit (- 1))"
| "order_key SM_power_desc item = qi_bls_power item"
| "order_key SM_default item = lit 0"

text \<open>\<open>(a, b) => key(b) - key(a)\<close>.\<close>

definition js_desc :: "('a \<Rightarrow> jsnum) \<Rightarrow> 'a \<Rightarrow> 'a \<Rightarrow> bool" where
  "js_desc key a b = diff_le (key b) (key a)"

definition displayItems :: "LabelingQueueSummaryItem list \<Rightarrow> sidebar \<Rightarrow> LabelingQueueSummaryItem list" where
  "displayItems items v =
     (let result = filter (mode_match (sb_filter v)) (filter (search_match (sb_search v)) items)
      in if sb_sort v = SM_default then result else sort_by (js_desc (order_key (sb_sort v))) result)"

section \<open>Rows and pager\<close>

record queue_row =
  qr_key :: str
  qr_active :: bool
  qr_title :: str
  qr_product :: str
  qr_power :: str
  qr_badge :: str
  qr_snapshot :: str

definition score_badge :: "LabelingQueueSummaryItem \<Rightarrow> str" where
  "score_badge item = (case qi_candidate_score item of None \<Rightarrow> (u ''NO AI SCORE'')
     | Some x \<Rightarrow> ((if qi_above_threshold item = Some True then u ''AI POS'' else u ''AI NEG'') @ u '' '' @ percentage x))"

definition queue_row_of :: "host \<Rightarrow> str \<Rightarrow> LabelingQueueSummaryItem \<Rightarrow> queue_row" where
  "queue_row_of h selectedKey item =
     \<lparr>qr_key = itemKey item, qr_active = (itemKey item = selectedKey),
      qr_title = (u ''TIC '' @ num_str (qi_tic_id item) @ ue '' ~00B7 S'' @ num_str (qi_sector item)), qr_product = qi_source_product_id item,
      qr_power = (u ''BLS power '' @ number h (qi_bls_power item) 3 @ ue '' ~00B7 '' @ (if qi_toi_match_status item \<noteq> [] then qi_toi_match_status item else u ''TOI unavailable'')),
      qr_badge = score_badge item,
      qr_snapshot = drop (length (qi_snapshot_id item) - 12) (qi_snapshot_id item)\<rparr>"

datatype queue_view =
    Queue_loading
  | Queue_error str
  | Queue_empty
  | Queue_no_match
  | Queue_rows "queue_row list"

definition queue_view_of :: "host \<Rightarrow> labeling_page \<Rightarrow> sidebar \<Rightarrow> queue_view" where
  "queue_view_of h s v = (let items = gp_queueItems s; shown = displayItems items v; error = nullish (gp_workspaceError s) [] in
     if gp_workspaceLoading s then Queue_loading
     else if error \<noteq> [] \<and> items = [] then Queue_error error
     else if items = [] then Queue_empty
     else if shown = [] then Queue_no_match
     else Queue_rows (map (queue_row_of h (gp_selectedKey s)) shown))"

definition queue_range_text :: "labeling_page \<Rightarrow> str" where
  "queue_range_text s = (if lit 0 < gp_queueCount s
     then (num_str (gp_queueOffset s + lit 1) @ ue ''~2013'' @ num_str (Math_min (gp_queueOffset s + jsnum_of_nat (length (gp_queueItems s))) (gp_queueCount s)) @ u '' / '' @ num_str (gp_queueCount s))
     else (u ''0 targets''))"

definition prev_enabled :: "labeling_page \<Rightarrow> bool" where
  "prev_enabled s = (\<not> gp_workspaceLoading s \<and> \<not> num_eq (gp_queueOffset s) (lit 0))"

definition next_enabled :: "labeling_page \<Rightarrow> bool" where
  "next_enabled s = (\<not> gp_workspaceLoading s \<and> gp_queueHasMore s)"

section \<open>Figures\<close>

definition TargetSummaryKPIs :: "host \<Rightarrow> ScientificReviewEvidence \<Rightarrow> (str \<times> str \<times> str option) list" where
  "TargetSummaryKPIs h evidence = [
     ((u ''BLS period''), (if bls_available evidence then (number h (bls_period_days evidence) 4 @ u '' d'') else (u ''Unavailable'')), None),
     ((u ''BLS depth''), (if bls_available evidence then (number h (bls_depth_ppm evidence) 2 @ u '' ppm'') else emdash), None),
     ((u ''BLS power''), (if bls_available evidence then number h (bls_power evidence) 4 else emdash), None),
     ((u ''Centroid offset''), (if transit_evidence_available evidence then (number h (centroid_offset_pixels evidence) 3 @ u '' px'') else (u ''Unavailable'')), None),
     ((u ''Cadences''), number_locale h None (n_points evidence), None),
     ((u ''Sector coverage''), (number h (sector_coverage_percent evidence) 2 @ u ''%''),
       Some ((number h (time_span_days evidence) 4 @ u '' / '' @ number h (sector_baseline_days evidence) 4 @ u '' d observed''))),
     ((u ''Largest gap''), (number h (largest_gap_hours evidence) 2 @ u '' h''), Some (u ''longest interval without a valid cadence'')),
     ((u ''Flux scatter''), (number h (flux_std_ppm evidence) 2 @ u '' ppm''), None),
     ((u ''TOI context''), (if matched_toi_id evidence \<noteq> [] then matched_toi_id evidence
        else if toi_match_status evidence \<noteq> [] then toi_match_status evidence else (u ''Unavailable'')), None)]"

section \<open>The list\<close>

interpretation desc_order: comparator "js_desc key" "\<lambda>x. num_ok (key x)" for key
  by unfold_locales (auto simp: js_desc_def diff_le_iff)

text \<open>
  The list holds exactly the items that match search and filter, each as often as the page has it;
  without an order it keeps that of the page, and by score or power, where these are finite, it falls
  from item to item and keeps the order of the page among equals.
\<close>

theorem displayed_items_exact:
  fixes items :: "LabelingQueueSummaryItem list" and v :: sidebar
  defines "key \<equiv> \<lambda>i. order_key (sb_sort v) i" and "kept \<equiv> filter (\<lambda>i. search_match (sb_search v) i \<and> mode_match (sb_filter v) i) items"
  assumes "\<forall>i\<in>set items. num_ok (key i)"
  shows "mset (displayItems items v) = mset kept \<and>
    sorted_wrt (\<lambda>a b. val (key b) \<le> val (key a)) (displayItems items v) \<and>
    filter (\<lambda>i. val (key i) = x) (displayItems items v) = filter (\<lambda>i. val (key i) = x) kept"
proof -
  have ok: "\<forall>i\<in>set kept. num_ok (key i)" using assms(3) by (auto simp: kept_def)
  show ?thesis
  proof (cases "sb_sort v = SM_default")
    case True
    then have "displayItems items v = kept" by (simp add: displayItems_def kept_def)
    then show ?thesis using True by (simp add: key_def sorted_wrt_iff_nth_less)
  next
    case False
    let ?l = "sort_by (js_desc key) kept"
    have e: "displayItems items v = ?l" using False by (simp add: displayItems_def kept_def key_def [abs_def])
    have "sorted_wrt (js_desc key) ?l" by (rule desc_order.sort_by_sorted [OF ok])
    then have "sorted_wrt (\<lambda>a b. val (key b) \<le> val (key a)) ?l"
      by (rule sorted_wrt_mono_rel [rotated]) (use ok in \<open>simp add: js_desc_def diff_le_iff\<close>)
    moreover have "filter (\<lambda>i. val (key i) = x) ?l = filter (\<lambda>i. val (key i) = x) kept"
      by (rule desc_order.sort_by_stable [OF ok]) (use ok in \<open>simp add: js_desc_def diff_le_iff\<close>)
    ultimately show ?thesis by (simp add: e mset_sort_by)
  qed
qed

theorem displayed_items_exact_witness:
  "mset (displayItems [sample_item (u ''a''), sample_item (u ''b'')] (initial_sidebar\<lparr>sb_sort := SM_score_desc\<rparr>)) =
     {#sample_item (u ''a''), sample_item (u ''b'')#}"
proof -
  have "num_ok (lit (- 1))" by (simp add: num_ok_def wf_lit) code_simp
  then have "\<forall>i\<in>set [sample_item (u ''a''), sample_item (u ''b'')]. num_ok (order_key (sb_sort (initial_sidebar\<lparr>sb_sort := SM_score_desc\<rparr>)) i)"
    by (simp add: initial_sidebar_def sample_item_def)
  moreover have "search_match [] i" for i by (simp add: search_match_def trim_def)
  ultimately show ?thesis
    using displayed_items_exact [of "[sample_item (u ''a''), sample_item (u ''b'')]" "initial_sidebar\<lparr>sb_sort := SM_score_desc\<rparr>"]
    by (simp add: initial_sidebar_def)
qed

lemma displayed_subset: "set (displayItems items v) \<subseteq> set items"
  by (auto simp: displayItems_def Let_def)

end
