(* ===== verification/ReviewForm.thy ===== *)
theory ReviewForm
  imports ReviewQueue
begin

text \<open>
  The review of one target in the labeling studio (\<open>components/TrainingLabelingQueue.tsx\<close> and
  \<open>DecisionPanel.tsx\<close>): the form with its automatic filling, saving a label, the keyboard shortcuts and
  the pager, over the page of \<open>LabelingPage\<close>. Shown: at most one save is under way and the form is
  locked exactly while it is, no label is sent without a reason, a saved confidence is read back as it
  was, and where the shortcuts label a target other than the selected one, move to one that is not
  listed, or the notice of a save is lost.
\<close>

section \<open>State\<close>

text \<open>
  A save waits for its request, then for the reload of the workspace it asks for. \<open>detailVersion\<close> is the
  identity of the evidence shown: every answer is a new object.
\<close>

record label_save =
  sv_tic :: jsnum
  sv_label :: training_label
  sv_reason :: str
  sv_conf :: confidence
  sv_ids :: "str list"
  sv_offset :: jsnum
  sv_reload :: "nat option"

record review =
  rv_page :: labeling_page
  rv_detailVersion :: nat
  rv_reason :: str
  rv_confidence :: confidence
  rv_reviewing :: bool
  rv_notice :: "str option"
  rv_error :: "str option"
  rv_queueVisible :: bool
  rv_visibleStored :: "str option"
  rv_sidebar :: sidebar
  rv_saves :: "(nat \<times> label_save) list"
  rv_next :: nat

fun conf_num :: "confidence \<Rightarrow> jsnum" where
  "conf_num Conf09 = lit (9 / 10)"
| "conf_num Conf07 = lit (7 / 10)"
| "conf_num Conf05 = lit (5 / 10)"

section \<open>The target under review\<close>

definition model_suggestion :: "LabelingTargetDetail \<Rightarrow> ModelSuggestion option" where
  "model_suggestion d = map_option (\<lambda>score. \<lparr>candidate_score = score, decision_threshold = nullish (td_decision_threshold d) (lit 0),
     above_threshold = nullish (td_above_threshold d) False, ms_model_id = nullish (td_model_id d) [],
     ms_model_version = nullish (td_model_version d) [], ms_runtime_package_id = nullish (td_runtime_package_id d) [],
     ms_predicted_at = nullish (td_predicted_at d) []\<rparr>) (td_candidate_score d)"

definition recommendation :: "host \<Rightarrow> mathlib \<Rightarrow> review \<Rightarrow> AIDecisionRecommendation option" where
  "recommendation h m r = Option.bind (gp_selectedDetail (rv_page r))
     (\<lambda>d. computeRecommendation h m (model_suggestion d) (Some (ScientificReviewEvidence.truncate d)))"

definition activeModel :: "ModelRecord list \<Rightarrow> ModelRecord option" where
  "activeModel models = List.find (\<lambda>x. md_task x = u ''candidate_vetting'' \<and> md_status x = u ''champion'') models"

section \<open>Filling the form\<close>

definition confidence_level :: "jsnum \<Rightarrow> confidence" where
  "confidence_level x = (if lit (85 / 100) \<le> x then Conf09 else if lit (6 / 10) \<le> x then Conf07 else Conf05)"

definition autofill :: "host \<Rightarrow> mathlib \<Rightarrow> review \<Rightarrow> review" where
  "autofill h m r =
     (let selected = gp_selectedDetail (rv_page r);
          human = (case selected of None \<Rightarrow> None
            | Some d \<Rightarrow> if td_label_source d = u ''HUMAN_REVIEW'' \<and> nullish (td_review_reason d) [] \<noteq> []
                then Some (nullish (td_review_reason d) [], confidence_level (td_confidence d)) else None);
          (reason, conf) = (case human of Some f \<Rightarrow> f
            | None \<Rightarrow> (case recommendation h m r of Some rec \<Rightarrow> (suggestedReason rec, suggestedConfidence rec)
                | None \<Rightarrow> (nullish (Option.bind selected td_review_reason) [], Conf07)))
      in r\<lparr>rv_reason := reason, rv_confidence := conf, rv_notice := None, rv_error := None\<rparr>)"

text \<open>What the effect depends on; a recommendation is the same object as long as the evidence is.\<close>

definition form_deps :: "host \<Rightarrow> mathlib \<Rightarrow> review \<Rightarrow> jsnum option \<times> str option \<times> str option \<times> str \<times> nat option" where
  "form_deps h m r = (let d = gp_selectedDetail (rv_page r) in
     (map_option td_confidence d, map_option td_label_source d, Option.bind d td_review_reason, gp_selectedKey (rv_page r),
      map_option (\<lambda>_. rv_detailVersion r) (recommendation h m r)))"

text \<open>The commit after an event that led from \<open>p\<close> to \<open>r\<close>.\<close>

definition rendered :: "host \<Rightarrow> mathlib \<Rightarrow> review \<Rightarrow> review \<Rightarrow> review" where
  "rendered h m p r = (if form_deps h m p = form_deps h m r then r else autofill h m r)"

definition on_page :: "(labeling_page \<Rightarrow> labeling_page) \<Rightarrow> review \<Rightarrow> review" where
  "on_page f r = r\<lparr>rv_page := f (rv_page r)\<rparr>"

section \<open>Saving\<close>

definition saveLabel :: "training_label \<Rightarrow> str option \<Rightarrow> confidence option \<Rightarrow> review \<Rightarrow> review" where
  "saveLabel trainingLabel overrideReason overrideConfidence r = (case gp_selectedDetail (rv_page r) of None \<Rightarrow> r
     | Some d \<Rightarrow> let reasonToUse = opt_or_str overrideReason (rv_reason r); confToUse = nullish overrideConfidence (rv_confidence r) in
         if reasonToUse = [] then r\<lparr>rv_error := Some (ue ''Ch~1ECDn decision basis tr~01B0~1EDBc khi l~01B0u nh~00E3n khoa h~1ECDc.'')\<rparr>
         else (on_page (handleSaveLabel trainingLabel reasonToUse (conf_num confToUse)) r)
           \<lparr>rv_reviewing := True, rv_notice := None, rv_error := None,
            rv_saves := rv_saves r @ [(rv_next r, \<lparr>sv_tic = td_tic_id d, sv_label = trainingLabel, sv_reason = reasonToUse, sv_conf = confToUse,
              sv_ids = gp_snapshotIds (rv_page r), sv_offset = gp_queueOffset (rv_page r), sv_reload = None\<rparr>)],
            rv_next := Suc (rv_next r)\<rparr>)"

definition acceptRecommendation :: "host \<Rightarrow> mathlib \<Rightarrow> review \<Rightarrow> review" where
  "acceptRecommendation h m r = (case recommendation h m r of None \<Rightarrow> r
     | Some rec \<Rightarrow> saveLabel (suggestedLabel rec) (Some (suggestedReason rec)) (Some (suggestedConfidence rec)) r)"

definition applyRecommendationToForm :: "host \<Rightarrow> mathlib \<Rightarrow> review \<Rightarrow> review" where
  "applyRecommendationToForm h m r = (case recommendation h m r of None \<Rightarrow> r
     | Some rec \<Rightarrow> r\<lparr>rv_reason := suggestedReason rec, rv_confidence := suggestedConfidence rec\<rparr>)"

definition basis_name :: "str \<Rightarrow> str" where
  "basis_name reason = (case List.find (\<lambda>b. db_value b = reason) DECISION_BASIS_OPTIONS of Some b \<Rightarrow> db_label b | None \<Rightarrow> reason)"

definition notice_text :: "label_save \<Rightarrow> str" where
  "notice_text sv = (let tic = num_str (sv_tic sv); basis = basis_name (sv_reason sv); pct = num_str (conf_num (sv_conf sv) * lit 100) in
     case sv_label sv of
       POSITIVE \<Rightarrow> (u ''TIC '' @ tic @ ue '' ~0111~00E3 ~0111~01B0~1EE3c x~00E1c nh~1EADn POSITIVE ('' @ basis @ ue '' ~00B7 '' @ pct @ u ''%).'')
     | NEGATIVE \<Rightarrow> (u ''TIC '' @ tic @ ue '' ~0111~00E3 ~0111~01B0~1EE3c g~00E1n HARD NEGATIVE ('' @ basis @ ue '' ~00B7 '' @ pct @ u ''%).'')
     | UNRESOLVED \<Rightarrow> (u ''TIC '' @ tic @ ue '' ~0111~01B0~1EE3c gi~1EEF UNRESOLVED ('' @ basis @ u '').''))"

definition end_save :: "nat \<Rightarrow> review \<Rightarrow> review" where
  "end_save n r = r\<lparr>rv_reviewing := False, rv_saves := filter (\<lambda>e. fst e \<noteq> n) (rv_saves r)\<rparr>"

text \<open>
  The answer to the request of a save: a failure ends it; else it reloads the workspace of the scope it
  was called in, which for an empty scope is done at once.
\<close>

definition label_answer :: "nat \<Rightarrow> str option + unit \<Rightarrow> review \<Rightarrow> review" where
  "label_answer n res r = (case map_of (rv_saves r) n of None \<Rightarrow> r
     | Some sv \<Rightarrow> if sv_reload sv \<noteq> None then r
         else case res of
           Inl e \<Rightarrow> (end_save n r)\<lparr>rv_error := Some (nullish e (ue ''Kh~00F4ng th~1EC3 l~01B0u nh~00E3n hu~1EA5n luy~1EC7n.''))\<rparr>
         | Inr _ \<Rightarrow> let r1 = on_page (label_saved (sv_ids sv) (sv_offset sv)) r in
             if sv_ids sv = [] then (end_save n r1)\<lparr>rv_notice := Some (notice_text sv)\<rparr>
             else r1\<lparr>rv_saves := AList.update n (sv\<lparr>sv_reload := Some (Suc (gp_workspaceRequest (rv_page r)))\<rparr>) (rv_saves r)\<rparr>)"

text \<open>
  The answer to a workspace request also ends the saves that wait for it; their updates are part of the
  same commit as those of the page.
\<close>

definition end_reload :: "nat \<Rightarrow> review \<Rightarrow> review" where
  "end_reload k r = fold (\<lambda>(n, sv) s. if sv_reload sv = Some k then (end_save n s)\<lparr>rv_notice := Some (notice_text sv)\<rparr> else s) (rv_saves r) r"

definition review_workspace_answer :: "nat \<Rightarrow> str + LabelingCohortWorkspace \<Rightarrow> review \<Rightarrow> review" where
  "review_workspace_answer k res r = end_reload k (on_page (workspace_answer k res) r)"

definition review_detail_answer :: "nat \<Rightarrow> LabelingTargetDetail option \<Rightarrow> review \<Rightarrow> review" where
  "review_detail_answer k res r = (let s = rv_page r in
     if gp_detailActive s = Some k \<and> k = gp_detailRequest s
     then (on_page (detail_answer k res) r)\<lparr>rv_detailVersion := Suc (rv_detailVersion r)\<rparr> else r)"

section \<open>Keyboard and controls\<close>

datatype shortcut = K_space | K_1 | K_2 | K_3 | K_down | K_up

fun key_index :: "str \<Rightarrow> LabelingQueueSummaryItem list \<Rightarrow> nat option" where
  "key_index k [] = None"
| "key_index k (i # items) = (if itemKey i = k then Some 0 else map_option Suc (key_index k items))"

definition select_next :: "labeling_page \<Rightarrow> labeling_page" where
  "select_next s = (case key_index (gp_selectedKey s) (gp_queueItems s) of
      Some c \<Rightarrow> if Suc c < length (gp_queueItems s) then onSelectKey (itemKey (gp_queueItems s ! Suc c)) s
        else if gp_queueHasMore s \<and> \<not> gp_workspaceLoading s then onOffsetChange (gp_queueOffset s + labeling_PAGE_SIZE) s else s
    | None \<Rightarrow> if gp_queueHasMore s \<and> \<not> gp_workspaceLoading s then onOffsetChange (gp_queueOffset s + labeling_PAGE_SIZE) s else s)"

definition prev_page :: "labeling_page \<Rightarrow> labeling_page" where
  "prev_page s = onOffsetChange (Math_max (lit 0) (gp_queueOffset s - labeling_PAGE_SIZE)) s"

definition select_prev :: "labeling_page \<Rightarrow> labeling_page" where
  "select_prev s = (case key_index (gp_selectedKey s) (gp_queueItems s) of
      Some (Suc c) \<Rightarrow> onSelectKey (itemKey (gp_queueItems s ! c)) s
    | _ \<Rightarrow> if lit 0 < gp_queueOffset s \<and> \<not> gp_workspaceLoading s then prev_page s else s)"

definition label_enabled :: "review \<Rightarrow> bool" where
  "label_enabled r = (gp_selectedDetail (rv_page r) \<noteq> None \<and> rv_reason r \<noteq> [] \<and> \<not> rv_reviewing r)"

definition accept_enabled :: "host \<Rightarrow> mathlib \<Rightarrow> review \<Rightarrow> bool" where
  "accept_enabled h m r = (recommendation h m r \<noteq> None \<and> \<not> rv_reviewing r)"

text \<open>Shortcuts do nothing without a target, or while an input has the focus.\<close>

fun press :: "host \<Rightarrow> mathlib \<Rightarrow> shortcut \<Rightarrow> review \<Rightarrow> review" where
  "press h m K_space r = (if accept_enabled h m r then acceptRecommendation h m r else r)"
| "press h m K_1 r = (if label_enabled r then saveLabel POSITIVE None None r else r)"
| "press h m K_2 r = (if label_enabled r then saveLabel NEGATIVE None None r else r)"
| "press h m K_3 r = (if label_enabled r then saveLabel UNRESOLVED None None r else r)"
| "press h m K_down r = on_page select_next r"
| "press h m K_up r = on_page select_prev r"

definition handleKeyDown :: "host \<Rightarrow> mathlib \<Rightarrow> bool \<Rightarrow> shortcut \<Rightarrow> review \<Rightarrow> review" where
  "handleKeyDown h m isInputFocused key r = (if isInputFocused \<or> gp_selectedDetail (rv_page r) = None then r else press h m key r)"

definition toggle_queue :: "review \<Rightarrow> review" where
  "toggle_queue r = r\<lparr>rv_queueVisible := \<not> rv_queueVisible r,
     rv_visibleStored := Some (if \<not> rv_queueVisible r then u ''true'' else u ''false'')\<rparr>"

definition readQueueVisibility :: "str option \<Rightarrow> bool" where
  "readQueueVisibility st = (st \<noteq> Some (u ''false''))"

definition sidebar_shown :: "review \<Rightarrow> bool" where
  "sidebar_shown r = (gp_snapshotIds (rv_page r) \<noteq> [] \<and> rv_queueVisible r)"

definition panel_shown :: "review \<Rightarrow> bool" where
  "panel_shown r = (gp_snapshotIds (rv_page r) \<noteq> [] \<and> gp_selectedDetail (rv_page r) \<noteq> None)"

datatype review_event =
    Key bool shortcut
  | Click_label training_label
  | Click_accept
  | Click_reset
  | Set_reason str
  | Set_confidence confidence
  | Toggle_queue
  | Set_sidebar sidebar
  | Click_row str
  | Click_prev
  | Click_next
  | Label_answer nat "str option + unit"
  | Workspace_answer nat "str + LabelingCohortWorkspace"
  | Detail_answer nat "LabelingTargetDetail option"
  | Curve_answer nat "LightcurveSeries option"
  | Scope_change "str list"
  | Workflow_event

text \<open>What an event does before the commit.\<close>

fun react :: "host \<Rightarrow> mathlib \<Rightarrow> review \<Rightarrow> review_event \<Rightarrow> review" where
  "react h m r (Key focused key) = handleKeyDown h m focused key r"
| "react h m r (Click_label l) = (if label_enabled r then saveLabel l None None r else r)"
| "react h m r Click_accept = (if accept_enabled h m r then acceptRecommendation h m r else r)"
| "react h m r Click_reset = applyRecommendationToForm h m r"
| "react h m r (Set_reason s) = (if panel_shown r \<and> (s = [] \<or> list_ex (\<lambda>b. db_value b = s) DECISION_BASIS_OPTIONS) then r\<lparr>rv_reason := s\<rparr> else r)"
| "react h m r (Set_confidence c) = (if panel_shown r then r\<lparr>rv_confidence := c\<rparr> else r)"
| "react h m r Toggle_queue = toggle_queue r"
| "react h m r (Set_sidebar v) = (if sidebar_shown r then r\<lparr>rv_sidebar := v\<rparr> else r)"
| "react h m r (Click_row k) = (if sidebar_shown r \<and> \<not> gp_workspaceLoading (rv_page r) \<and>
       list_ex (\<lambda>i. itemKey i = k) (displayItems (gp_queueItems (rv_page r)) (rv_sidebar r)) then on_page (onSelectKey k) r else r)"
| "react h m r Click_prev = (if sidebar_shown r \<and> prev_enabled (rv_page r) then on_page prev_page r else r)"
| "react h m r Click_next = (if sidebar_shown r \<and> next_enabled (rv_page r)
     then on_page (\<lambda>s. onOffsetChange (gp_queueOffset s + labeling_PAGE_SIZE) s) r else r)"
| "react h m r (Label_answer n res) = label_answer n res r"
| "react h m r (Workspace_answer k res) = review_workspace_answer k res r"
| "react h m r (Detail_answer k res) = review_detail_answer k res r"
| "react h m r (Curve_answer k res) = on_page (curve_answer k res) r"
| "react h m r (Scope_change ids) = on_page (onSnapshotIdsChange ids) r"
| "react h m r Workflow_event = on_page onWorkflow r"

definition review_step :: "host \<Rightarrow> mathlib \<Rightarrow> review \<Rightarrow> review_event \<Rightarrow> review" where
  "review_step h m r e = rendered h m r (react h m r e)"

definition initial_review :: "host \<Rightarrow> mathlib \<Rightarrow> json option \<Rightarrow> str option \<Rightarrow> review" where
  "initial_review h m scope visible = autofill h m
     \<lparr>rv_page = mounted scope, rv_detailVersion = 0, rv_reason = [], rv_confidence = Conf07, rv_reviewing = False, rv_notice = None,
      rv_error = None, rv_queueVisible = readQueueVisibility visible,
      rv_visibleStored = Some (if readQueueVisibility visible then u ''true'' else u ''false''), rv_sidebar = initial_sidebar,
      rv_saves = [], rv_next = 0\<rparr>"

section \<open>The decision panel\<close>

definition suggestion_texts :: "LabelingTargetDetail \<Rightarrow> ModelRecord list \<Rightarrow> str list" where
  "suggestion_texts d models = (case model_suggestion d of
      Some sg \<Rightarrow> [(if above_threshold sg then (u ''PASS THRESHOLD'') else (u ''BELOW THRESHOLD'')),
        ((if above_threshold sg then u ''POSITIVE'' else u ''NEGATIVE'') @ ue '' ~00B7 '' @ percentage (candidate_score sg)),
        (ue ''Ng~01B0~1EE1ng '' @ percentage (decision_threshold sg) @ ue '' ~00B7 '' @ (if ms_model_version sg \<noteq> [] then ms_model_version sg else ms_model_id sg))]
    | None \<Rightarrow> [(case activeModel models of
        Some x \<Rightarrow> (u ''Champion '' @ (if md_model_version x \<noteq> [] then md_model_version x else md_model_id x) @ ue '' ~0111ang ho~1EA1t ~0111~1ED9ng nh~01B0ng ch~01B0a c~00F3 prediction cho target n~00E0y.'')
      | None \<Rightarrow> (ue ''Ch~01B0a c~00F3 champion model ~0111ang ph~1EE5c v~1EE5. H~00E0ng ~0111~1EE3i v~1EABn cho ph~00E9p con ng~01B0~1EDDi g~00E1n nh~00E3n t~1EEB evidence ~0111o ~0111~01B0~1EE3c.''))])"

fun label_name :: "training_label \<Rightarrow> str" where
  "label_name POSITIVE = u ''POSITIVE''"
| "label_name NEGATIVE = u ''NEGATIVE''"
| "label_name UNRESOLVED = u ''UNRESOLVED''"

definition accept_text :: "bool \<Rightarrow> AIDecisionRecommendation \<Rightarrow> str" where
  "accept_text reviewing rec = (if reviewing then (ue ''~0110ang l~01B0u quy~1EBFt ~0111~1ECBnh~2026'')
     else (ue ''Ch~1EA5p nh~1EADn g~1EE3i ~00FD ('' @ label_name (suggestedLabel rec) @ ue '' ~00B7 '' @ suggestedReasonLabel rec @ ue '' ~00B7 '' @ confidenceLabel rec @ u '')''))"

definition differs_from_recommendation :: "host \<Rightarrow> mathlib \<Rightarrow> review \<Rightarrow> bool" where
  "differs_from_recommendation h m r = (case recommendation h m r of None \<Rightarrow> False
     | Some rec \<Rightarrow> rv_reason r \<noteq> suggestedReason rec \<or> rv_confidence r \<noteq> suggestedConfidence rec)"

definition basis_options :: "AIDecisionRecommendation option \<Rightarrow> (str \<times> str) list" where
  "basis_options rec = ([], (ue ''Select evidence basis~2026'')) # map (\<lambda>b. (db_value b,
     db_label b @ (if map_option suggestedReason rec = Some (db_value b) then (ue '' ~2605 (AI ~0111~1EC1 xu~1EA5t)'') else []))) DECISION_BASIS_OPTIONS"

definition confidence_options :: "AIDecisionRecommendation option \<Rightarrow> (confidence \<times> str) list" where
  "confidence_options rec = map (\<lambda>c. (co_value c,
     co_label c @ (if map_option suggestedConfidence rec = Some (co_value c) then (ue '' ~2605 (AI ~0111~1EC1 xu~1EA5t)'') else []))) CONFIDENCE_OPTIONS"

definition label_buttons :: "AIDecisionRecommendation option \<Rightarrow> (training_label \<times> str) list" where
  "label_buttons rec = map (\<lambda>(l, text). (l, text @ (if map_option suggestedLabel rec = Some l then (ue '' (G~1EE3i ~00FD)'') else [])))
     [(POSITIVE, (u ''Positive'')), (NEGATIVE, (u ''Hard negative'')), (UNRESOLVED, (u ''Insufficient''))]"

section \<open>Saves\<close>

fun is_label :: "labeling_request \<Rightarrow> bool" where
  "is_label (Rq_label snap product l reason conf ids off) = True"
| "is_label q = False"

definition labels_sent :: "labeling_page \<Rightarrow> labeling_request list" where
  "labels_sent s = filter is_label (gp_sent s)"

text \<open>Effects, answers and selections send no label.\<close>

lemma labels_send [simp]: "labels_sent (send q s) = labels_sent s @ (if is_label q then [q] else [])"
  by (simp add: labels_sent_def send_def)

lemma labels_updates [simp]:
  "labels_sent (set_ids ids s) = labels_sent s" "labels_sent (clear_workspace s) = labels_sent s"
  "labels_sent (s\<lparr>gp_queueOffset := off\<rparr>) = labels_sent s" "labels_sent (s\<lparr>gp_selectedKey := k\<rparr>) = labels_sent s"
  by (simp_all add: labels_sent_def set_ids_def clear_workspace_def)

lemma labels_effects [simp]:
  "labels_sent (sync_effect r s) = labels_sent s" "labels_sent (store_effect r s) = labels_sent s"
  "labels_sent (loadWorkspace ids off s) = labels_sent s" "labels_sent (detail_effect r s) = labels_sent s"
  "labels_sent (curve_effect r s) = labels_sent s" "labels_sent (loadAvailableSnapshots s) = labels_sent s"
  by (simp_all add: labels_sent_def sync_effect_def store_effect_def loadWorkspace_def clear_workspace_def detail_effect_def curve_effect_def
      set_ids_def loadAvailableSnapshots_def send_def Let_def split: option.split)

lemma labels_run_effects [simp]: "labels_sent (run_effects p r) = labels_sent r"
  by (simp add: run_effects_def on_change_def Let_def)

lemma labels_commit [simp]: "labels_sent (commit p r) = labels_sent r"
proof -
  have "labels_sent (commits n p r) = labels_sent r" for n by (induction n arbitrary: p r) simp_all
  then show ?thesis by (simp add: commit_def)
qed

lemma labels_handlers [simp]:
  "labels_sent (workspace_answer k w s) = labels_sent s" "labels_sent (detail_answer k d s) = labels_sent s"
  "labels_sent (curve_answer k c s) = labels_sent s" "labels_sent (onSelectKey key s) = labels_sent s"
  "labels_sent (onOffsetChange off s) = labels_sent s" "labels_sent (onSnapshotIdsChange ids s) = labels_sent s"
  "labels_sent (onWorkflow s) = labels_sent s" "labels_sent (label_saved ids off s) = labels_sent s"
  "labels_sent (select_next s) = labels_sent s" "labels_sent (select_prev s) = labels_sent s" "labels_sent (prev_page s) = labels_sent s"
proof -
  show "labels_sent (workspace_answer k w s) = labels_sent s"
    by (simp add: workspace_answer_def split: sum.split) (simp add: labels_sent_def clear_workspace_def)
  show "labels_sent (detail_answer k d s) = labels_sent s"
    by (simp add: detail_answer_def) (simp add: labels_sent_def)
  show "labels_sent (curve_answer k c s) = labels_sent s" by (simp add: curve_answer_def labels_sent_def)
qed (simp_all add: onSelectKey_def onOffsetChange_def onSnapshotIdsChange_def onWorkflow_def onRefresh_def label_saved_def select_next_def
    select_prev_def prev_page_def split: option.split nat.split)

lemma labels_mounted [simp]: "labels_sent (mounted st) = []"
  by (simp add: mounted_def mount_effects_def Let_def) (simp add: labels_sent_def initial_page_def)

fun label_ok :: "labeling_request \<Rightarrow> bool" where
  "label_ok (Rq_label snap product l reason conf ids off) = (reason \<noteq> [] \<and> conf \<in> range conf_num)"
| "label_ok q = True"

definition review_ok :: "review \<Rightarrow> bool" where
  "review_ok r = ((rv_reviewing r \<longleftrightarrow> rv_saves r \<noteq> []) \<and> length (rv_saves r) \<le> 1 \<and> list_all label_ok (labels_sent (rv_page r)))"

lemma on_page_ok: "labels_sent (f (rv_page r)) = labels_sent (rv_page r) \<Longrightarrow> review_ok r \<Longrightarrow> review_ok (on_page f r)"
  by (simp add: review_ok_def on_page_def)

lemma saveLabel_ok: "review_ok r \<Longrightarrow> \<not> rv_reviewing r \<Longrightarrow> review_ok (saveLabel l reason conf r)"
  by (auto simp: saveLabel_def review_ok_def on_page_def handleSaveLabel_def Let_def split: option.split)

lemma accept_ok: "review_ok r \<Longrightarrow> \<not> rv_reviewing r \<Longrightarrow> review_ok (acceptRecommendation h m r)"
  by (simp add: acceptRecommendation_def saveLabel_ok split: option.split)

lemma save_cases:
  assumes "review_ok r"
  obtains "rv_saves r = []" "\<not> rv_reviewing r" | n sv where "rv_saves r = [(n, sv)]" "rv_reviewing r"
proof (cases "rv_saves r")
  case (Cons e es)
  then show ?thesis using assms that(2) by (cases e) (auto simp: review_ok_def)
qed (use assms that(1) in \<open>simp add: review_ok_def\<close>)

lemma label_answer_ok: assumes "review_ok r" shows "review_ok (label_answer n res r)"
  using assms by (cases rule: save_cases [OF assms])
    (auto simp: label_answer_def review_ok_def end_save_def on_page_def Let_def split: sum.split)

lemma end_reload_ok: assumes "review_ok r" shows "review_ok (end_reload k r)"
  using assms by (cases rule: save_cases [OF assms]) (auto simp: end_reload_def review_ok_def end_save_def)

lemma form_fields_ok [simp]:
  "review_ok (r\<lparr>rv_detailVersion := v\<rparr>) = review_ok r" "review_ok (r\<lparr>rv_reason := a\<rparr>) = review_ok r"
  "review_ok (r\<lparr>rv_confidence := c\<rparr>) = review_ok r" "review_ok (r\<lparr>rv_sidebar := b\<rparr>) = review_ok r"
  by (simp_all add: review_ok_def)

lemma autofill_ok: "review_ok r \<Longrightarrow> review_ok (autofill h m r)"
  by (simp add: autofill_def review_ok_def Let_def split: prod.split)

lemma press_ok: "review_ok r \<Longrightarrow> review_ok (press h m key r)"
  by (cases key) (auto simp: accept_enabled_def label_enabled_def accept_ok saveLabel_ok intro: on_page_ok)

lemma react_ok: assumes "review_ok r" shows "review_ok (react h m r e)"
proof (cases e)
  case (Detail_answer k res)
  then show ?thesis using assms by (auto simp: review_detail_answer_def Let_def intro: on_page_ok)
next
  case (Workspace_answer k res)
  then show ?thesis using assms end_reload_ok on_page_ok [of "workspace_answer k res" r] by (simp add: review_workspace_answer_def)
next
  case Toggle_queue
  then show ?thesis using assms by (simp add: toggle_queue_def review_ok_def)
qed (use assms in \<open>auto simp: handleKeyDown_def press_ok accept_enabled_def label_enabled_def accept_ok saveLabel_ok label_answer_ok
    applyRecommendationToForm_def intro: on_page_ok split: option.split\<close>)

interpretation review_run: reducer "review_step h m" review_ok for h m
  by unfold_locales (simp add: review_step_def rendered_def react_ok autofill_ok)

lemma initial_review_ok: "review_ok (initial_review h m scope visible)"
  unfolding initial_review_def by (rule autofill_ok) (simp add: review_ok_def)

text \<open>
  C17. Whatever is clicked, typed and answered, at most one label is being saved, the form is locked
  exactly while one is, and every label that was ever sent names a reason and one of the three confidences.
\<close>

theorem one_save_at_a_time:
  fixes es :: "review_event list" and h :: host and m :: mathlib and scope :: "json option" and visible :: "str option"
  defines "r \<equiv> foldl (review_step h m) (initial_review h m scope visible) es"
  shows "(rv_reviewing r \<longleftrightarrow> length (rv_saves r) = 1) \<and> (\<not> rv_reviewing r \<longleftrightarrow> rv_saves r = []) \<and> list_all label_ok (labels_sent (rv_page r))"
proof -
  have "review_ok r" unfolding r_def by (rule review_run.run_inv [OF initial_review_ok])
  then show ?thesis by (cases rule: save_cases [OF \<open>review_ok r\<close>]) (simp_all add: review_ok_def)
qed

section \<open>Reading a label back\<close>

text \<open>
  A confidence that was saved with a human label is the one the form shows when the target is
  opened again, and the percentages of the notices are exact.
\<close>

theorem confidence_roundtrip:
  "confidence_level (conf_num c) = c \<and> conf_num c * lit 100 = (case c of Conf09 \<Rightarrow> lit 90 | Conf07 \<Rightarrow> lit 70 | Conf05 \<Rightarrow> lit 50)"
  by (cases c) (simp; code_simp)+

section \<open>Where it goes wrong\<close>

lemma select_keeps_detail:
  assumes "List.find (\<lambda>i. itemKey i = k) (gp_queueItems s) \<noteq> None"
  shows "gp_selectedDetail (onSelectKey k s) = gp_selectedDetail s" "gp_selectedKey (onSelectKey k s) = k"
proof -
  let ?r = "s\<lparr>gp_selectedKey := k\<rparr>"
  have d: "sync_deps ?r = sync_deps s" "ids_deps ?r = ids_deps s" "curve_deps ?r = curve_deps s"
    by (simp_all add: sync_deps_def ids_deps_def curve_deps_def)
  have "gp_selectedDetail (commit s ?r) = gp_selectedDetail s \<and> gp_selectedKey (commit s ?r) = k"
  proof (cases "effect_deps s = effect_deps ?r")
    case False
    have sel: "selectedItem ?r \<noteq> None" using assms by (simp add: selectedItem_def)
    have dd: "detail_deps s \<noteq> detail_deps ?r" using False d by (simp add: effect_deps_def)
    have e: "run_effects s ?r = detail_effect ?r ?r"
      using dd d signature_ids [of s ?r] by (simp add: run_effects_def on_change_def)
    have g: "gp_selectedDetail (detail_effect ?r ?r) = gp_selectedDetail s" using sel by (auto simp: detail_effect_def send_def Let_def)
    have "effect_deps (detail_effect ?r ?r) = effect_deps ?r"
      using g detail_deps_cong [of "detail_effect ?r ?r" ?r] curve_deps_cong [of "detail_effect ?r ?r" ?r] by (simp add: effect_deps_def)
    then have "effect_deps ?r = effect_deps (detail_effect ?r ?r)" by (rule sym)
    then have "commit ?r (detail_effect ?r ?r) = detail_effect ?r ?r" by (rule commit_same)
    then have "commit s ?r = detail_effect ?r ?r" using commit_step [OF False] e by simp
    then show ?thesis using g by simp
  qed (simp add: commit_same)
  then show "gp_selectedDetail (onSelectKey k s) = gp_selectedDetail s" "gp_selectedKey (onSelectKey k s) = k"
    by (simp_all add: onSelectKey_def)
qed

text \<open>
  C40. Moving to the next target and labelling it before its evidence has arrived labels the target
  that was selected before: the request names the old one, while the queue marks the new one.
\<close>

theorem label_goes_to_previous:
  fixes r :: review and h :: host and m :: mathlib and k :: str
  defines "r1 \<equiv> review_step h m r (Click_row k)" and "r2 \<equiv> review_step h m (review_step h m r (Click_row k)) (Key False K_2)"
  assumes "sidebar_shown r" "\<not> gp_workspaceLoading (rv_page r)" "gp_selectedDetail (rv_page r) = Some d"
    and "item \<in> set (displayItems (gp_queueItems (rv_page r)) (rv_sidebar r))" "itemKey item = k"
    and "\<not> rv_reviewing r" "rv_reason r1 \<noteq> []"
  shows "gp_selectedKey (rv_page r2) = k \<and>
    (\<exists>reason conf ids off. labels_sent (rv_page r2) = labels_sent (rv_page r) @ [Rq_label (td_snapshot_id d) (td_source_product_id d) NEGATIVE reason conf ids off])"
proof -
  have fill: "rv_page (autofill h m x) = rv_page x" "rv_reviewing (autofill h m x) = rv_reviewing x" for x
    by (simp_all add: autofill_def Let_def split: prod.split)
  then have rend: "rv_page (rendered h m p x) = rv_page x" "rv_reviewing (rendered h m p x) = rv_reviewing x" for p x by (simp_all add: rendered_def)
  have "item \<in> set (gp_queueItems (rv_page r))" using assms(6) displayed_subset by blast
  then have "List.find (\<lambda>i. itemKey i = k) (gp_queueItems (rv_page r)) \<noteq> None" using assms(7) by (auto simp: find_None_iff)
  note sel = select_keeps_detail [OF this]
  have "list_ex (\<lambda>i. itemKey i = k) (displayItems (gp_queueItems (rv_page r)) (rv_sidebar r))" using assms(6,7) by (auto simp: list_ex_iff)
  then have r1: "rv_page r1 = onSelectKey k (rv_page r)" "\<not> rv_reviewing r1"
    unfolding r1_def review_step_def rend using assms(3,4,8) by (simp_all add: on_page_def)
  have d1: "gp_selectedDetail (rv_page r1) = Some d" using r1 sel assms(5) by simp
  have "rv_page r2 = handleSaveLabel NEGATIVE (rv_reason r1) (conf_num (rv_confidence r1)) (rv_page r1)"
    unfolding r2_def r1_def [symmetric] review_step_def [of _ _ r1] rend using d1 r1(2) assms(9)
    by (simp add: handleKeyDown_def label_enabled_def saveLabel_def on_page_def Let_def)
  moreover have "gp_selectedKey (send q s) = gp_selectedKey s" for q s by (simp add: send_def)
  ultimately show ?thesis using d1 r1(1) sel(2) by (simp add: handleSaveLabel_def)
qed

definition sample_detail :: LabelingTargetDetail where
  "sample_detail = ScientificReviewEvidence.extend sample_evidence
     \<lparr>td_snapshot_id = u ''S1'', td_source_product_id = u ''P1'', td_tic_id = lit 7, td_sector = lit 1, td_training_label = UNRESOLVED,
      td_label_source = u ''HUMAN_REVIEW'', td_review_status = [], td_review_reason = Some (u ''STELLAR_VARIABILITY''), td_confidence = lit (7 / 10),
      td_prediction_available = None, td_candidate_score = None, td_decision_threshold = None, td_above_threshold = None, td_model_id = None,
      td_model_version = None, td_runtime_package_id = None, td_predicted_at = None\<rparr>"

definition sample_review :: review where
  "sample_review =
     \<lparr>rv_page = (initial_page None)\<lparr>gp_snapshotIds := [u ''S1''], gp_queueItems := [sample_item (u ''P1''), sample_item (u ''P2'')],
        gp_selectedKey := u ''S1:P1'', gp_selectedDetail := Some sample_detail\<rparr>,
      rv_detailVersion = 1, rv_reason = u ''STELLAR_VARIABILITY'', rv_confidence = Conf07, rv_reviewing = False, rv_notice = None, rv_error = None,
      rv_queueVisible = True, rv_visibleStored = None, rv_sidebar = initial_sidebar, rv_saves = [], rv_next = 0\<rparr>"

lemma autofill_human:
  "gp_selectedDetail (rv_page x) = Some d \<Longrightarrow> td_label_source d = u ''HUMAN_REVIEW'' \<Longrightarrow> td_review_reason d = Some s \<Longrightarrow> s \<noteq> [] \<Longrightarrow>
   rv_reason (autofill h m x) = s"
  by (simp add: autofill_def)

theorem label_goes_to_previous_witness:
  "\<exists>reason conf ids off. labels_sent (rv_page (review_step sample_host sample_math
       (review_step sample_host sample_math sample_review (Click_row (u ''S1:P2''))) (Key False K_2))) = [Rq_label (u ''S1'') (u ''P1'') NEGATIVE reason conf ids off]"
proof -
  let ?r1 = "review_step sample_host sample_math sample_review (Click_row (u ''S1:P2''))"
  have k: "itemKey (sample_item (u ''P2'')) = u ''S1:P2''" "itemKey (sample_item (u ''P1'')) = u ''S1:P1''" "u ''S1:P2'' \<noteq> u ''S1:P1''"
    by (simp_all add: itemKey_def sample_item_def u_def)
  have d: "displayItems [sample_item (u ''P1''), sample_item (u ''P2'')] initial_sidebar = [sample_item (u ''P1''), sample_item (u ''P2'')]"
    by (simp add: displayItems_def initial_sidebar_def search_match_def trim_def)
  have s: "sidebar_shown sample_review" "\<not> gp_workspaceLoading (rv_page sample_review)" "gp_selectedDetail (rv_page sample_review) = Some sample_detail"
    "sample_item (u ''P2'') \<in> set (displayItems (gp_queueItems (rv_page sample_review)) (rv_sidebar sample_review))" "\<not> rv_reviewing sample_review"
    by (simp_all add: sample_review_def sidebar_shown_def initial_page_def d)
  have sel: "gp_selectedDetail (onSelectKey (u ''S1:P2'') (rv_page sample_review)) = Some sample_detail"
      "gp_selectedKey (onSelectKey (u ''S1:P2'') (rv_page sample_review)) = u ''S1:P2''"
    using select_keeps_detail [of "u ''S1:P2''" "rv_page sample_review"] s(3) k by (simp_all add: sample_review_def)
  have "?r1 = autofill sample_host sample_math (on_page (onSelectKey (u ''S1:P2'')) sample_review)"
  proof -
    have "react sample_host sample_math sample_review (Click_row (u ''S1:P2'')) = on_page (onSelectKey (u ''S1:P2'')) sample_review"
      using s(1,2,4) k(1) by (auto simp: list_ex_iff)
    moreover have "gp_selectedKey (rv_page sample_review) = u ''S1:P1''" by (simp add: sample_review_def)
    ultimately show ?thesis using sel(2) k(3) by (simp add: review_step_def rendered_def form_deps_def on_page_def Let_def)
  qed
  then have "rv_reason ?r1 = u ''STELLAR_VARIABILITY''"
    using sel(1) by (simp add: autofill_human [of _ sample_detail] on_page_def sample_detail_def ScientificReviewEvidence.defs)
  then have "rv_reason ?r1 \<noteq> []" by (simp add: u_def)
  from label_goes_to_previous [OF s(1-4) k(1) s(5) this]
  have "\<exists>reason conf ids off. labels_sent (rv_page (review_step sample_host sample_math ?r1 (Key False K_2))) =
      labels_sent (rv_page sample_review) @ [Rq_label (td_snapshot_id sample_detail) (td_source_product_id sample_detail) NEGATIVE reason conf ids off]" by (rule conjunct2)
  moreover have "labels_sent (rv_page sample_review) = []" by (simp add: labels_sent_def sample_review_def initial_page_def)
  moreover have "td_snapshot_id sample_detail = u ''S1''" "td_source_product_id sample_detail = u ''P1''"
    by (simp_all add: sample_detail_def ScientificReviewEvidence.defs)
  ultimately show ?thesis by simp
qed

text \<open>
  The shortcut for the next target follows the order of the page and not that of the list: it
  selects a target that the filter hides.
\<close>

theorem next_target_not_listed:
  assumes "gp_queueItems s = a # b # rest" "itemKey a = gp_selectedKey s" "\<not> mode_match (sb_filter v) b" "itemKey b \<notin> itemKey ` set (a # rest)"
  shows "gp_selectedKey (select_next s) = itemKey b \<and> itemKey b \<notin> itemKey ` set (displayItems (gp_queueItems s) v)"
proof -
  have "List.find (\<lambda>i. itemKey i = itemKey b) (gp_queueItems s) \<noteq> None" using assms(1) by (simp add: find_None_iff)
  then have "gp_selectedKey (onSelectKey (itemKey b) s) = itemKey b" by (rule select_keeps_detail)
  then have "gp_selectedKey (select_next s) = itemKey b" using assms(1,2) by (simp add: select_next_def)
  moreover have "itemKey b \<notin> itemKey ` set (displayItems (gp_queueItems s) v)"
    using assms(1,3,4) by (auto simp: displayItems_def Let_def)
  ultimately show ?thesis ..
qed

text \<open>
  When the reload after a save selects another target, as it does when the labelled one has left the
  queue, the notice of the save is cleared in the commit that sets it.
\<close>

theorem save_notice_lost:
  assumes "rv_saves r = [(n, sv)]" "sv_reload sv = Some k"
    and "gp_selectedKey (workspace_answer k res (rv_page r)) \<noteq> gp_selectedKey (rv_page r)"
  shows "rv_notice (review_step h m r (Workspace_answer k res)) = None \<and> \<not> rv_reviewing (review_step h m r (Workspace_answer k res))"
proof -
  let ?r = "review_workspace_answer k res r"
  have e: "rv_page ?r = workspace_answer k res (rv_page r)" "\<not> rv_reviewing ?r"
    using assms(1,2) by (simp_all add: review_workspace_answer_def end_reload_def end_save_def on_page_def)
  have "form_deps h m r \<noteq> form_deps h m ?r" using assms(3) e(1) by (simp add: form_deps_def Let_def)
  then show ?thesis using e(2) by (simp add: review_step_def rendered_def autofill_def Let_def split: prod.split)
qed

end
