(* ===== verification/Spec2Isabelle.thy ===== *)
theory Spec2Isabelle
  imports Labeling RunnerTicket OrbitPhysics OrbitRenderer OrbitFrames LightCurve Monitoring TargetDiscovery
    TrainingLab TicketBoard Enrichment Ingest TicketSpec Lineage LabelingPage Lakehouse DagCanvas TpfPixel HopSizes HopResiduals Preprocessing Inspector
    HopLedger HopDrawer TargetDetail Overview TrainingMonitor ReviewForm
begin

text \<open>
  \<^bold>\<open>The Aurora dashboard, verified.\<close>

  Aurora Cosmic searches TESS light curves for planets. Its dashboard
  (\<open>src/apps/dashboard/src\<close>, TypeScript and React) is the part modelled here: it talks to the Go
  API over HTTP and server-sent events and keeps its state in module variables, React state and
  refs, and local storage. The theories follow the source files; names are those of the source,
  record fields carry a prefix, and where two source files use one name (\<open>PAGE_SIZE\<close>, \<open>formatBytes\<close>,
  \<open>statusVariant\<close>) the definitions carry the page's, as in \<open>lakehouse_PAGE_SIZE\<close>.

  \<^bold>\<open>Foundations.\<close> \<open>Prelude\<close> has the operators \<open>??\<close>, array access, \<open>slice\<close> and the stable sort with the
  locale \<open>comparator\<close>. \<open>Rounding\<close> defines rounding to binary64 and shows that it is monotone and
  idempotent; \<open>JsNumber\<close> builds the JavaScript number on it (NaN, infinities, negative zero,
  rounded arithmetic, comparison, \<open>Math.max\<close>, \<open>Math.floor\<close> and so on); \<open>NumError\<close> and \<open>NumStep\<close> bound
  rounding errors and show that loops which add a step make progress; \<open>NumSort\<close> treats sorting by
  differences and medians; \<open>NumArray\<close> has integers as numbers, extremes of arrays and \<open>Map\<close> objects. \<open>JsString\<close>, \<open>JsText\<close>, \<open>JsConvert\<close> and \<open>JsValue\<close> model strings of UTF-16
  units, number printing (\<open>toString\<close>, \<open>toFixed\<close>), conversion, JSON values and the fetch wrapper of
  \<open>lib/api.ts\<close>. What ECMA-262 leaves to the implementation (transcendental functions, locale
  texts, dates) is the parameter \<open>mathlib\<close> or \<open>host\<close>, with its documented behaviour as named
  hypotheses (\<open>trig_bounded\<close>, \<open>atan2_bounded\<close>, \<open>square_unit\<close>, \<open>sqrt_monotone\<close>, \<open>dates_ok\<close>).
  \<open>LatestRequest\<close> is the contract of the pages that number their queries and drop late answers;
  \<open>Canvas\<close> is the drawing context of the renderer with the locale \<open>kept_view\<close> for what a balanced
  drawing leaves unchanged.

  \<^bold>\<open>Runner tickets.\<close> \<open>RunnerTicket\<close> is \<open>lib/runner-ticket.ts\<close>: the shared list, the in-flight
  marker, local storage and the mounted hooks as one state, with requests and their answers as
  separate steps in any order. Storage, cache and hooks agree once a request settles; the marker
  can be lost and an old answer can win, both proved. \<open>TicketSpec\<close> is what the session promises, a
  catalog and an active ticket with their transitions, and the simulation that every run of the
  detailed state follows it. \<open>TicketBoard\<close> is \<open>pages/runner-tickets\<close>:
  records, statuses and filters of the board over the run contract of \<open>PipelineTypes\<close>.

  \<^bold>\<open>Target pages.\<close> \<open>AnalyticsTypes\<close> is the contract of \<open>lib/analytics-types.ts\<close>. \<open>TargetDiscovery\<close> is the
  table of targets (queries, paging, filters, range summaries). \<open>LightCurve\<close> is
  \<open>SynchronizedLightCurve.tsx\<close> and \<open>transit-sync.ts\<close>: downsampling, the epoch loops, the playhead and
  the bridge between viewer and chart. \<open>OrbitPhysics\<close>, \<open>OrbitRenderer\<close>, \<open>OrbitScene\<close> and \<open>OrbitFrames\<close>
  are the orbit viewer: the Kepler solver, habitable zone and derived system; the drawing
  functions as lists of canvas calls; the handlers and the render frame; and the properties of
  whole sequences of events and frames. \<open>TpfPixel\<close> is \<open>TpfPixelInspector.tsx\<close>: colour maps, the grid of
  a cutout and the panel of the selected pixel. \<open>TargetPanels\<close> holds the values and texts of the tabs and
  \<open>TargetDetail\<close> the page itself, with its two requests and what it hands to viewer and light curve.

  \<^bold>\<open>Pipeline pages.\<close> \<open>Labeling\<close> is the recommendation of the labeling studio and \<open>LabelingPage\<close>
  its page, with React effects as passes over changed dependencies; \<open>ReviewQueue\<close> and \<open>ReviewForm\<close> are the list of
  its targets and the review of one, with its form, saves and shortcuts over that page; \<open>Lineage\<close> is the lineage
  explorer; \<open>ModelRegistry\<close> and
  \<open>PipelineTypes\<close> are data contracts with their helpers, \<open>TrainingLab\<close>, \<open>Enrichment\<close>, \<open>Ingest\<close> and
  \<open>Monitoring\<close> are the pages with their polling, event streams and request races.
  \<open>LakehouseCatalog\<close> and \<open>Lakehouse\<close> are the schema catalogs and the page of the lakehouse: tier queries, their
  in-flight set, search and pager; \<open>Inspector\<close> is the page that previews one object: requests, sorted rows, pager and filters. \<open>DagPage\<close>, \<open>DagHops\<close> and \<open>DagCanvas\<close> are the pipeline graph: requests and
  live events, the status, figures and connections of the nineteen hops, and the nodes and edges
  of the canvas with their layout. \<open>HopStats\<close>, \<open>HopSilver\<close>, \<open>HopSizes\<close> and \<open>HopResiduals\<close> are the analytics
  of the hop charts: merged telemetry, quantiles, histograms and timelines, which lose and invent
  no element. \<open>HopLedger\<close> holds the tables of checkpoints, events and lineage records with their filter, search and
  pages; \<open>HopReferences\<close> and \<open>HopDrawer\<close> are the drawer of one hop: its chart, its references, and the
  figures it fetches and merges. \<open>Preprocessing\<close> is the page that launches and stops preprocessing runs,
  \<open>TrainingMonitor\<close> the monitor of a training run over the state of \<open>TrainingLab\<close>, and \<open>Overview\<close> the page that
  sums up the services.

  \<^bold>\<open>What is shown.\<close> Invariants over every sequence of events (storage agreement, loss history,
  worker counts, event feed, camera limits, canvas state); the functional behaviour of the
  recommendation, ticket statuses, query building and snapshot order on every branch; bounds of
  the numerical code with its rounding (Kepler radius, habitable-zone order, phases, playhead);
  termination of the epoch and ring loops for physical inputs; the round trip of the stored
  configuration; and the cases where the code does not do what its comments or its interface
  announce, each as a theorem.

  \<^bold>\<open>Loops.\<close> The loops that add a floating-point step are partial functions into \<open>option\<close>, \<open>None\<close>
  standing for a loop that does not end; their termination is proved for steps of at least
  \<open>2^-10\<close> and values within \<open>2^32\<close>, which covers days of a TESS sector and extents in AU, and the
  rewind loop is shown not to end for a period below the spacing of the numbers. Every other
  loop is structural.

  \<^bold>\<open>Not modelled.\<close> The JSX trees and the styling; the chart library; the vendored components of
  \<open>components/ui\<close>; routing; the evidence panels of the labeling studio; the charts of a pipeline hop not named above; the pages for evaluation, evolution evidence and inference; and the
  other programs of the repository (Go API and ingester, Rust preprocessor and inference, Python
  workers), which are separate processes whose answers are parameters here.
\<close>

end
